(* ===== verification/Go_Prelude.thy ===== *)
theory Go_Prelude
  imports Main "HOL-Library.Sublist" "HOL-Library.List_Lexorder" "HOL-Library.Char_ord"
begin

text \<open>
  The part of the Go language and of its standard library that the components use, on byte
  strings. A Go string is a sequence of bytes, so it is an Isabelle \<^typ>\<open>string\<close> (a list of
  8-bit characters) and \<open>len\<close> is \<^const>\<open>length\<close>.

  \<^item> \<open>strings.TrimSpace\<close>, \<open>Trim\<close>, \<open>TrimPrefix\<close>, \<open>TrimSuffix\<close>, \<open>HasPrefix\<close>, \<open>HasSuffix\<close>,
    \<open>Contains\<close>, \<open>ContainsAny\<close>, \<open>Split\<close>, \<open>Join\<close>, \<open>ToLower\<close>, \<open>ToUpper\<close>;
  \<^item> decimal formatting (\<open>fmt.Sprintf("%d")\<close>);
  \<^item> a table of rows with a primary key, as the persistence layer sees it;
  \<^item> procedures: functions of a state that return an error or a value and the next state.
\<close>

named_theorems go_string
  \<comment> \<open>unconditional facts about the string functions, for simp\<close>

named_theorems go_proc
  \<comment> \<open>unfolding rules of the procedure combinators\<close>

section \<open>Results and procedures\<close>

type_synonym ('s, 'e, 'a) proc = "'s \<Rightarrow> ('e + 'a) \<times> 's"

definition returnP :: "'a \<Rightarrow> ('s, 'e, 'a) proc" where
  [go_proc]: "returnP x s = (Inr x, s)"

definition failP :: "'e \<Rightarrow> ('s, 'e, 'a) proc" where
  [go_proc]: "failP e s = (Inl e, s)"

text \<open>\<open>if err != nil { return err }\<close>: the continuation runs only after a success.\<close>

definition bindP :: "('s, 'e, 'a) proc \<Rightarrow> ('a \<Rightarrow> ('s, 'e, 'b) proc) \<Rightarrow> ('s, 'e, 'b) proc" where
  [go_proc]: "bindP m f s = (case m s of (Inl e, s') \<Rightarrow> (Inl e, s') | (Inr x, s') \<Rightarrow> f x s')"

text \<open>\<open>err := m()\<close>, with the error as a value: the continuation sees it and decides.\<close>

definition tryP :: "('s, 'e, 'a) proc \<Rightarrow> ('e + 'a \<Rightarrow> ('s, 'f, 'b) proc) \<Rightarrow> ('s, 'f, 'b) proc" where
  [go_proc]: "tryP m f s = (case m s of (r, s') \<Rightarrow> f r s')"

lemma bindP_Inr: "m s = (Inr x, s') \<Longrightarrow> bindP m f s = f x s'"
  by (simp add: bindP_def)

lemma bindP_Inl: "m s = (Inl e, s') \<Longrightarrow> bindP m f s = (Inl e, s')"
  by (simp add: bindP_def)

lemma tryP_eq: "m s = (r, s') \<Longrightarrow> tryP m f s = f r s'"
  by (simp add: tryP_def)

lemma tryP_elim:
  assumes "tryP m f s = y"
  obtains r s' where "m s = (r, s')" and "f r s' = y"
  using assms by (cases "m s") (auto simp: tryP_def)

lemma bindP_returnP [simp]: "bindP (returnP x) f = f x"
  by (simp add: bindP_def returnP_def fun_eq_iff)

lemma bindP_failP [simp]: "bindP (failP e) f = failP e"
  by (simp add: bindP_def failP_def fun_eq_iff)

lemma bindP_assoc: "bindP (bindP m f) g = bindP m (\<lambda>x. bindP (f x) g)"
  by (simp add: bindP_def fun_eq_iff split: prod.splits sum.splits)

lemma bindP_Inr_elim:
  assumes "bindP m f s = (Inr y, s')"
  obtains x s1 where "m s = (Inr x, s1)" and "f x s1 = (Inr y, s')"
  using assms by (auto simp: bindP_def split: prod.splits sum.splits)

lemmas proc_splits = prod.splits sum.splits if_splits option.splits

section \<open>Strings\<close>

subsection \<open>White space\<close>

text \<open>
  \<open>unicode.IsSpace\<close> as the UTF-8 encodings of the white space code points: the six ASCII ones,
  U+0085, U+00A0, U+1680, U+2000 to U+200A, U+2028, U+2029, U+202F, U+205F and U+3000. A string
  starts (ends) with a white space rune exactly when it starts (ends) with one of these byte
  sequences, because no other byte sequence decodes to such a code point.
\<close>

definition space_runes :: "string list" where
  "space_runes =
     map (\<lambda>c. [c]) [CHR '' '', CHR 0x09, CHR 0x0A, CHR 0x0B, CHR 0x0C, CHR 0x0D] @
     map (\<lambda>c. [CHR 0xC2, c]) [CHR 0x85, CHR 0xA0] @
     map (\<lambda>c. [CHR 0xE2, CHR 0x80, c])
       ([CHR 0x80, CHR 0x81, CHR 0x82, CHR 0x83, CHR 0x84, CHR 0x85] @
        [CHR 0x86, CHR 0x87, CHR 0x88, CHR 0x89, CHR 0x8A] @
        [CHR 0xA8, CHR 0xA9, CHR 0xAF]) @
     [CHR 0xE1 # [CHR 0x9A, CHR 0x80]] @
     [CHR 0xE2 # [CHR 0x81, CHR 0x9F], CHR 0xE3 # [CHR 0x80, CHR 0x80]]"

text \<open>Drop a word of \<open>ws\<close> from the front as long as there is one.\<close>

function strip_front :: "string list \<Rightarrow> string \<Rightarrow> string" where
  "strip_front ws s =
     (case find (\<lambda>w. w \<noteq> [] \<and> prefix w s) ws of
        None \<Rightarrow> s
      | Some w \<Rightarrow> strip_front ws (drop (length w) s))"
  by pat_completeness auto
termination
  by (relation "measure (\<lambda>(ws, s). length s)") (auto simp: find_Some_iff prefix_def)

declare strip_front.simps [simp del]

definition TrimSpace :: "string \<Rightarrow> string" where
  "TrimSpace s = rev (strip_front (map rev space_runes) (rev (strip_front space_runes s)))"

definition no_front :: "string list \<Rightarrow> string \<Rightarrow> bool" where
  "no_front ws s = list_all (\<lambda>w. w = [] \<or> \<not> prefix w s) ws"

lemma strip_front_no_front: "no_front ws (strip_front ws s)"
proof (induction ws s rule: strip_front.induct)
  case (1 ws s)
  show ?case
  proof (cases "find (\<lambda>w. w \<noteq> [] \<and> prefix w s) ws")
    case None
    then have "strip_front ws s = s" by (simp add: strip_front.simps [of ws s])
    with None show ?thesis by (auto simp: no_front_def find_None_iff list_all_iff)
  next
    case (Some w)
    with "1" show ?thesis by (simp add: strip_front.simps [of ws s])
  qed
qed

lemma strip_front_id: "no_front ws s \<Longrightarrow> strip_front ws s = s"
  by (subst strip_front.simps)
    (auto simp: no_front_def list_all_iff find_Some_iff split: option.splits)

lemma suffix_drop_length: "suffix t (drop n s) \<Longrightarrow> suffix t s"
  by (meson suffix_drop suffix_order.trans)

lemma strip_front_suffix: "suffix (strip_front ws s) s"
proof (induction ws s rule: strip_front.induct)
  case (1 ws s)
  then show ?case
    by (subst strip_front.simps) (auto split: option.splits intro: suffix_drop_length)
qed

lemma no_front_prefix: "no_front ws s \<Longrightarrow> prefix t s \<Longrightarrow> no_front ws t"
  unfolding no_front_def list_all_iff using prefix_order.trans by blast

lemma TrimSpace_no_front: "no_front space_runes (TrimSpace s)"
proof -
  let ?t = "strip_front space_runes s"
  have "suffix (strip_front (map rev space_runes) (rev ?t)) (rev ?t)"
    by (rule strip_front_suffix)
  then have "prefix (TrimSpace s) ?t"
    by (simp add: TrimSpace_def suffix_to_prefix)
  then show ?thesis
    using strip_front_no_front no_front_prefix by blast
qed

lemma TrimSpace_no_back: "no_front (map rev space_runes) (rev (TrimSpace s))"
  by (simp add: TrimSpace_def strip_front_no_front)

lemma TrimSpace_id:
  "no_front space_runes s \<Longrightarrow> no_front (map rev space_runes) (rev s) \<Longrightarrow> TrimSpace s = s"
  by (simp add: TrimSpace_def strip_front_id)

lemma TrimSpace_idem [simp, go_string]: "TrimSpace (TrimSpace s) = TrimSpace s"
  by (intro TrimSpace_id TrimSpace_no_front TrimSpace_no_back)

lemma TrimSpace_Nil [simp, go_string]: "TrimSpace [] = []"
  by (rule TrimSpace_id) (simp_all add: no_front_def list_all_iff)

text \<open>The result is a contiguous part of the input, so trimming brings in no new byte.\<close>

lemma TrimSpace_sublist: "sublist (TrimSpace s) s"
proof -
  let ?t = "strip_front space_runes s"
  have "suffix (strip_front (map rev space_runes) (rev ?t)) (rev ?t)"
    by (rule strip_front_suffix)
  then have "prefix (TrimSpace s) ?t"
    by (simp add: TrimSpace_def suffix_to_prefix)
  moreover have "suffix ?t s" by (rule strip_front_suffix)
  ultimately show ?thesis
    by (meson prefix_imp_sublist sublist_order.order.trans suffix_imp_sublist)
qed

lemma TrimSpace_set: "set (TrimSpace s) \<subseteq> set s"
  by (meson TrimSpace_sublist set_mono_sublist)

lemma TrimSpace_length: "length (TrimSpace s) \<le> length s"
  by (meson TrimSpace_sublist sublist_length_le)

text \<open>A string without any byte of a white space rune is left alone.\<close>

definition space_bytes :: "char set" where
  "space_bytes = set (concat space_runes)"

lemma TrimSpace_plain:
  assumes "set s \<inter> space_bytes = {}"
  shows "TrimSpace s = s"
proof (rule TrimSpace_id)
  have key: "w = [] \<or> \<not> set w \<subseteq> set s" if "w \<in> set space_runes" for w
  proof -
    from that have "set w \<subseteq> space_bytes" by (auto simp: space_bytes_def)
    with assms show ?thesis by (cases w) auto
  qed
  show "no_front space_runes s"
    unfolding no_front_def list_all_iff using key set_mono_prefix by blast
  show "no_front (map rev space_runes) (rev s)"
    unfolding no_front_def list_all_iff
    using key by (fastforce dest!: set_mono_prefix)
qed

text \<open>A string that is trimmed away is made of white space bytes only.\<close>

lemma strip_front_set: "set s \<subseteq> set (strip_front ws s) \<union> set (concat ws)"
proof (induction ws s rule: strip_front.induct)
  case (1 ws s)
  show ?case
  proof (cases "find (\<lambda>w. w \<noteq> [] \<and> prefix w s) ws")
    case None
    then show ?thesis by (simp add: strip_front.simps [of ws s])
  next
    case (Some w)
    then have "w \<in> set ws" and w: "prefix w s" by (auto simp: find_Some_iff)
    have "set s = set w \<union> set (drop (length w) s)" using w by (auto simp: prefix_def)
    with "1" Some \<open>w \<in> set ws\<close> show ?thesis by (auto simp: strip_front.simps [of ws s])
  qed
qed

lemma TrimSpace_Nil_set: "TrimSpace s = [] \<Longrightarrow> set s \<subseteq> space_bytes"
  using strip_front_set [of s space_runes]
    strip_front_set [of "rev (strip_front space_runes s)" "map rev space_runes"]
  by (auto simp: TrimSpace_def space_bytes_def)

subsection \<open>Prefixes, suffixes, substrings\<close>

definition HasPrefix :: "string \<Rightarrow> string \<Rightarrow> bool" where
  [simp]: "HasPrefix s p = prefix p s"

definition HasSuffix :: "string \<Rightarrow> string \<Rightarrow> bool" where
  [simp]: "HasSuffix s p = suffix p s"

definition TrimPrefix :: "string \<Rightarrow> string \<Rightarrow> string" where
  "TrimPrefix s p = (if prefix p s then drop (length p) s else s)"

definition TrimSuffix :: "string \<Rightarrow> string \<Rightarrow> string" where
  "TrimSuffix s p = (if suffix p s then take (length s - length p) s else s)"

definition Contains :: "string \<Rightarrow> string \<Rightarrow> bool" where
  [simp]: "Contains s p = sublist p s"

definition ContainsAny :: "string \<Rightarrow> string \<Rightarrow> bool" where
  "ContainsAny s chars = list_ex (\<lambda>c. c \<in> set chars) s"

text \<open>\<open>strings.Trim\<close> with a cut set of ASCII characters.\<close>

definition Trim :: "string \<Rightarrow> string \<Rightarrow> string" where
  "Trim s cutset =
     rev (dropWhile (\<lambda>c. c \<in> set cutset) (rev (dropWhile (\<lambda>c. c \<in> set cutset) s)))"

lemma TrimPrefix_append [simp, go_string]: "TrimPrefix (p @ s) p = s"
  by (simp add: TrimPrefix_def)

lemma TrimSuffix_append [simp, go_string]: "TrimSuffix (s @ p) p = s"
  by (simp add: TrimSuffix_def suffix_def)

lemma TrimPrefix_same: "\<not> prefix p s \<Longrightarrow> TrimPrefix s p = s"
  by (simp add: TrimPrefix_def)

lemma TrimSuffix_eq: "suffix p s \<Longrightarrow> s = TrimSuffix s p @ p"
  by (auto simp: TrimSuffix_def suffix_def)

lemma TrimSuffix_set: "set (TrimSuffix s p) \<subseteq> set s"
  by (auto simp: TrimSuffix_def dest: in_set_takeD)

lemma ContainsAny_iff: "ContainsAny s chars \<longleftrightarrow> set s \<inter> set chars \<noteq> {}"
  by (auto simp: ContainsAny_def list_ex_iff)

lemma Contains_single: "sublist [c] s \<longleftrightarrow> c \<in> set s"
  by (metis append_Cons append_Nil in_set_conv_decomp sublist_def)

subsection \<open>Split and join on one byte\<close>

fun split_on :: "char \<Rightarrow> string \<Rightarrow> string list" where
  "split_on c [] = [[]]"
| "split_on c (x # xs) =
     (if x = c then [] # split_on c xs
      else (case split_on c xs of [] \<Rightarrow> [[x]] | p # ps \<Rightarrow> (x # p) # ps))"

fun join_with :: "string \<Rightarrow> string list \<Rightarrow> string" where
  "join_with sep [] = []"
| "join_with sep [p] = p"
| "join_with sep (p # q # ps) = p @ sep @ join_with sep (q # ps)"

lemma split_on_not_Nil [simp]: "split_on c s \<noteq> []"
  by (induction s) (auto split: list.splits)

lemma join_with_Cons: "ps \<noteq> [] \<Longrightarrow> join_with sep (p # ps) = p @ sep @ join_with sep ps"
  by (cases ps) auto

lemma join_split [simp, go_string]: "join_with [c] (split_on c s) = s"
proof (induction s)
  case Nil
  then show ?case by simp
next
  case (Cons x xs)
  obtain p ps where "split_on c xs = p # ps" by (cases "split_on c xs") auto
  with Cons show ?case by (cases ps) auto
qed

lemma split_on_no_sep: "p \<in> set (split_on c s) \<Longrightarrow> c \<notin> set p"
  by (induction s arbitrary: p) (auto split: list.splits if_splits)

lemma split_on_set: "p \<in> set (split_on c s) \<Longrightarrow> set p \<subseteq> set s"
  by (induction s arbitrary: p) (fastforce split: list.splits if_splits)+

lemma split_on_plain: "c \<notin> set p \<Longrightarrow> split_on c p = [p]"
  by (induction p) auto

lemma split_on_append: "c \<notin> set p \<Longrightarrow> split_on c (p @ c # s) = p # split_on c s"
  by (induction p) auto

lemma split_join:
  assumes "ps \<noteq> []" and "\<forall>p \<in> set ps. c \<notin> set p"
  shows "split_on c (join_with [c] ps) = ps"
  using assms
proof (induction ps rule: list_nonempty_induct)
  case (single p)
  then show ?case by (simp add: split_on_plain)
next
  case (cons p ps)
  then show ?case by (simp add: join_with_Cons split_on_append)
qed

subsection \<open>Letter case\<close>

text \<open>
  \<open>strings.ToLower\<close> and \<open>strings.ToUpper\<close> map every rune. Besides the ASCII letters, the runes
  whose image is an ASCII letter are U+0130 and U+212A for lower case and U+0131 and U+017F for
  upper case, so a comparison of the result with an ASCII constant is decided exactly as in Go.
  The images of the remaining non-ASCII letters are not tabulated: their bytes are kept.
\<close>

definition lower_char :: "char \<Rightarrow> char" where
  "lower_char c = (if CHR ''A'' \<le> c \<and> c \<le> CHR ''Z'' then char_of (of_char c + 32 :: nat) else c)"

definition upper_char :: "char \<Rightarrow> char" where
  "upper_char c = (if CHR ''a'' \<le> c \<and> c \<le> CHR ''z'' then char_of (of_char c - 32 :: nat) else c)"

fun ToLower :: "string \<Rightarrow> string" where
  "ToLower [] = []"
| "ToLower (c # cs) =
     (if c = CHR 0xC4 \<and> take 1 cs = [CHR 0xB0] then CHR ''i'' # ToLower (drop 1 cs)
      else if c = CHR 0xE2 \<and> take 2 cs = [CHR 0x84, CHR 0xAA] then CHR ''k'' # ToLower (drop 2 cs)
      else lower_char c # ToLower cs)"

fun ToUpper :: "string \<Rightarrow> string" where
  "ToUpper [] = []"
| "ToUpper (c # cs) =
     (if c = CHR 0xC4 \<and> take 1 cs = [CHR 0xB1] then CHR ''I'' # ToUpper (drop 1 cs)
      else if c = CHR 0xC5 \<and> take 1 cs = [CHR 0xBF] then CHR ''S'' # ToUpper (drop 1 cs)
      else upper_char c # ToUpper cs)"

definition ascii :: "string \<Rightarrow> bool" where
  "ascii s = list_all (\<lambda>c. c \<le> CHR 0x7F) s"

lemma ToLower_ascii: "ascii s \<Longrightarrow> ToLower s = map lower_char s"
proof (induction s)
  case (Cons c cs)
  have "c \<noteq> CHR 0xC4" and "c \<noteq> CHR 0xE2"
    using Cons.prems by (auto simp: ascii_def less_eq_char_def)
  with Cons show ?case by (simp add: ascii_def)
qed simp

lemma lower_char_nonascii [simp]:
  "lower_char c = CHR 0xC4 \<longleftrightarrow> c = CHR 0xC4"
  "lower_char c = CHR 0xE2 \<longleftrightarrow> c = CHR 0xE2"
  "lower_char c = CHR 0xB0 \<longleftrightarrow> c = CHR 0xB0"
  "lower_char c = CHR 0x84 \<longleftrightarrow> c = CHR 0x84"
  "lower_char c = CHR 0xAA \<longleftrightarrow> c = CHR 0xAA"
  by (auto simp: lower_char_def less_eq_char_def char_of_eq_iff take_bit_eq_mod)

lemma lower_char_idem [simp]: "lower_char (lower_char c) = lower_char c"
  by (auto simp: lower_char_def less_eq_char_def take_bit_eq_mod)

lemma take1_ToLower: "take 1 (ToLower cs) = [CHR 0xB0] \<longleftrightarrow> take 1 cs = [CHR 0xB0]"
  by (cases cs) auto

lemma take2_ToLower:
  "take 2 (ToLower cs) = [CHR 0x84, CHR 0xAA] \<longleftrightarrow> take 2 cs = [CHR 0x84, CHR 0xAA]"
proof (cases cs)
  case (Cons c ds)
  have "take 1 (ToLower ds) = [CHR 0xAA] \<longleftrightarrow> take 1 ds = [CHR 0xAA]"
    by (cases ds) auto
  with Cons show ?thesis by (auto simp: numeral_2_eq_2)
qed simp

lemma ToLower_idem [simp, go_string]: "ToLower (ToLower s) = ToLower s"
proof (induction s rule: ToLower.induct)
  case (2 c cs)
  have fixed: "lower_char CHR ''i'' = CHR ''i''" "lower_char CHR ''k'' = CHR ''k''"
    by (simp_all add: lower_char_def less_eq_char_def)
  show ?case
    using "2" by (simp add: take1_ToLower take2_ToLower fixed del: One_nat_def)
qed simp

section \<open>Decimal numbers\<close>

text \<open>\<open>fmt.Sprintf("%d", n)\<close> and \<open>strconv.FormatUint\<close> for a non-negative number.\<close>

definition digit_char :: "nat \<Rightarrow> char" where
  "digit_char d = char_of (48 + d)"

fun show_nat :: "nat \<Rightarrow> string" where
  "show_nat n = (if n < 10 then [digit_char n] else show_nat (n div 10) @ [digit_char (n mod 10)])"

declare show_nat.simps [simp del]

fun read_nat :: "string \<Rightarrow> nat" where
  "read_nat s = foldl (\<lambda>n c. 10 * n + (of_char c - 48)) 0 s"

lemma digit_char_of: "d < 10 \<Longrightarrow> of_char (digit_char d) = (48 + d :: nat)"
  by (simp add: digit_char_def)

lemma read_show_nat: "read_nat (show_nat n) = n"
proof (induction n rule: show_nat.induct)
  case (1 n)
  then show ?case
    by (cases "n < 10") (simp_all add: show_nat.simps [of n] digit_char_of)
qed

lemma show_nat_inj [simp]: "show_nat m = show_nat n \<longleftrightarrow> m = n"
  by (metis read_show_nat)

lemma show_nat_not_Nil [simp]: "show_nat n \<noteq> []"
  by (subst show_nat.simps) simp

definition is_digit :: "char \<Rightarrow> bool" where
  "is_digit c = (CHR ''0'' \<le> c \<and> c \<le> CHR ''9'')"

definition is_lower :: "char \<Rightarrow> bool" where
  "is_lower c = (CHR ''a'' \<le> c \<and> c \<le> CHR ''z'')"

definition is_upper :: "char \<Rightarrow> bool" where
  "is_upper c = (CHR ''A'' \<le> c \<and> c \<le> CHR ''Z'')"

lemmas char_class_defs = is_digit_def is_lower_def is_upper_def

lemma is_digit_digit_char: "d < 10 \<Longrightarrow> is_digit (digit_char d)"
  by (simp add: is_digit_def less_eq_char_def digit_char_of)

lemma show_nat_digits: "list_all is_digit (show_nat n)"
proof (induction n rule: show_nat.induct)
  case (1 n)
  then show ?case
    by (cases "n < 10") (simp_all add: show_nat.simps [of n] is_digit_digit_char)
qed

definition show_int :: "int \<Rightarrow> string" where
  "show_int i = (if i < 0 then CHR ''-'' # show_nat (nat (- i)) else show_nat (nat i))"

lemma show_int_inj [simp]: "show_int i = show_int j \<longleftrightarrow> i = j"
proof -
  have minus: "show_nat n \<noteq> CHR ''-'' # t" for n t
    using show_nat_digits [of n] by (auto simp: is_digit_def less_eq_char_def)
  show ?thesis
    by (auto simp: show_int_def minus minus [symmetric])
qed

text \<open>\<open>strconv.ParseUint(s, 10, 64)\<close> and \<open>strconv.ParseInt(s, 10, 64)\<close>; \<open>None\<close> is an error.\<close>

definition ParseUint64 :: "string \<Rightarrow> nat option" where
  "ParseUint64 s =
     (if s = [] \<or> \<not> list_all is_digit s \<or> int (read_nat s) \<ge> 2 ^ 64 then None else Some (read_nat s))"

definition ParseInt64 :: "string \<Rightarrow> int option" where
  "ParseInt64 s =
     (let neg = (take 1 s = ''-'');
          digits = (if take 1 s = ''-'' \<or> take 1 s = ''+'' then drop 1 s else s)
      in case ParseUint64 digits of
           None \<Rightarrow> None
         | Some n \<Rightarrow> if neg then (if int n \<le> 2 ^ 63 then Some (- int n) else None)
                     else (if int n < 2 ^ 63 then Some (int n) else None))"

text \<open>The value \<open>ParseUint\<close> returns beside its error: zero, or the largest value when out of range.\<close>

definition ParseUint64_value :: "string \<Rightarrow> nat" where
  "ParseUint64_value s =
     (if s = [] \<or> \<not> list_all is_digit s then 0
      else if int (read_nat s) < 2 ^ 64 then read_nat s else 2 ^ 64 - 1)"

lemma ParseUint64_show: "n < 2 ^ 64 \<Longrightarrow> ParseUint64 (show_nat n) = Some n"
  by (simp add: ParseUint64_def show_nat_digits read_show_nat del: read_nat.simps)

lemma ParseUint64_value_show: "n < 2 ^ 64 \<Longrightarrow> ParseUint64_value (show_nat n) = n"
  by (simp add: ParseUint64_value_def show_nat_digits read_show_nat del: read_nat.simps)

end
