(* ===== verification/Go_Store.thy ===== *)
theory Go_Store
  imports Go_Prelude
begin

text \<open>
  The persistence layer as the services see it (\<open>internal/store\<close> over GORM and SQLite), and Go's
  maps and \<open>sort.Search\<close>.

  A table is a list of rows with a numeric primary key. A database call runs on the stored data
  unless the call fails: which calls fail is a parameter \<open>fault\<close> over the running number of the
  call, so a theorem about all \<open>fault\<close> covers every pattern of database errors. The laws a client
  needs are the locale \<open>row_table\<close>, interpreted for the list tables.
\<close>

section \<open>Rows with a primary key\<close>

lemma find_append [simp]:
  "find P (xs @ ys) = (case find P xs of None \<Rightarrow> find P ys | Some x \<Rightarrow> Some x)"
  by (induction xs) auto

text \<open>\<open>db.First(&row, id)\<close>\<close>

definition tbl_find :: "('r \<Rightarrow> nat) \<Rightarrow> nat \<Rightarrow> 'r list \<Rightarrow> 'r option" where
  "tbl_find key i rows = find (\<lambda>r. key r = i) rows"

text \<open>\<open>db.Save(&row)\<close>: replace the row with this key, insert it if there is none.\<close>

fun tbl_save :: "('r \<Rightarrow> nat) \<Rightarrow> 'r \<Rightarrow> 'r list \<Rightarrow> 'r list" where
  "tbl_save key r [] = [r]"
| "tbl_save key r (x # xs) = (if key x = key r then r # xs else x # tbl_save key r xs)"

text \<open>The primary key given to a created row: above every key in use.\<close>

definition tbl_next :: "('r \<Rightarrow> nat) \<Rightarrow> 'r list \<Rightarrow> nat" where
  "tbl_next key rows = Suc (fold max (map key rows) 0)"

locale row_table =
  fixes key :: "'r \<Rightarrow> nat"
    and find_row :: "nat \<Rightarrow> 't \<Rightarrow> 'r option"
    and save_row :: "'r \<Rightarrow> 't \<Rightarrow> 't"
  assumes find_save_same: "find_row (key r) (save_row r t) = Some r"
    and find_save_other: "i \<noteq> key r \<Longrightarrow> find_row i (save_row r t) = find_row i t"
begin

lemma find_save: "find_row i (save_row r t) = (if i = key r then Some r else find_row i t)"
  by (simp add: find_save_same find_save_other)

lemma find_save_save:
  "key r = key r' \<Longrightarrow> find_row i (save_row r (save_row r' t)) = find_row i (save_row r t)"
  by (simp add: find_save)

lemma find_save_commute:
  "key r \<noteq> key r' \<Longrightarrow>
   find_row i (save_row r (save_row r' t)) = find_row i (save_row r' (save_row r t))"
  by (simp add: find_save)

text \<open>A whole sequence of saves leaves the rows with other keys alone.\<close>

lemma find_fold_save_other:
  "i \<notin> key ` set rs \<Longrightarrow> find_row i (fold save_row rs t) = find_row i t"
  by (induction rs arbitrary: t) (auto simp: find_save)

end

lemma tbl_find_save_same: "tbl_find key (key r) (tbl_save key r rows) = Some r"
  by (induction rows) (auto simp: tbl_find_def)

lemma tbl_find_save_other:
  "i \<noteq> key r \<Longrightarrow> tbl_find key i (tbl_save key r rows) = tbl_find key i rows"
  by (induction rows) (auto simp: tbl_find_def)

interpretation tbl: row_table key "tbl_find key" "tbl_save key" for key
  by unfold_locales (auto simp: tbl_find_save_same tbl_find_save_other)

lemma tbl_find_key: "tbl_find key i rows = Some r \<Longrightarrow> key r = i \<and> r \<in> set rows"
  by (auto simp: tbl_find_def find_Some_iff)

lemma fold_max_ge: "(x \<in> set xs \<longrightarrow> x \<le> fold max xs a) \<and> a \<le> fold max xs (a :: nat)"
  by (induction xs arbitrary: a) (auto, (meson max.bounded_iff order_trans)+)

lemma tbl_next_fresh: "r \<in> set rows \<Longrightarrow> key r < tbl_next key rows"
  using fold_max_ge [of "key r" "map key rows" 0] by (auto simp: tbl_next_def less_Suc_eq_le)

lemma tbl_find_next: "tbl_find key (tbl_next key rows) rows = None"
  using tbl_next_fresh [of _ rows key] by (fastforce simp: tbl_find_def find_None_iff)

lemma tbl_save_keys: "key ` set (tbl_save key r rows) = insert (key r) (key ` set rows)"
  by (induction rows) auto

lemma tbl_save_in: "x \<in> set (tbl_save key r rows) \<Longrightarrow> x = r \<or> x \<in> set rows"
  by (induction rows) (auto split: if_splits)

lemma tbl_save_distinct: "distinct (map key rows) \<Longrightarrow> distinct (map key (tbl_save key r rows))"
  by (induction rows) (auto simp: tbl_save_keys image_iff dest: tbl_save_in)

lemma tbl_find_member: "distinct (map key rows) \<Longrightarrow> r \<in> set rows \<Longrightarrow> tbl_find key (key r) rows = Some r"
  by (induction rows) (auto simp: tbl_find_def image_iff)

text \<open>\<open>Order("id desc").First\<close>: the row with the largest key among those that satisfy the condition.\<close>

lemma find_rev_sort_key:
  fixes key :: "'r \<Rightarrow> nat"
  assumes "x \<in> set xs" and "P x" and "\<And>y. y \<in> set xs \<Longrightarrow> P y \<Longrightarrow> y \<noteq> x \<Longrightarrow> key y < key x"
  shows "find P (rev (sort_key key xs)) = Some x"
proof -
  let ?ys = "rev (sort_key key xs)"
  have x: "x \<in> set ?ys" using assms(1) by simp
  then have "find P ?ys \<noteq> None" using assms(2) by (auto simp: find_None_iff)
  then obtain y where y: "find P ?ys = Some y" by auto
  then obtain i where i: "i < length ?ys" "P (?ys ! i)" "y = ?ys ! i" "\<forall>j < i. \<not> P (?ys ! j)"
    by (auto simp: find_Some_iff)
  obtain j where j: "j < length ?ys" "x = ?ys ! j" using x by (metis in_set_conv_nth)
  have "i \<le> j" using i(4) j assms(2) by (metis not_le)
  moreover have "sorted (map key (rev ?ys))" by simp
  then have "sorted_wrt (\<ge>) (map key ?ys)"
    by (metis rev_rev_ident rev_map sorted_wrt_rev)
  ultimately have "key (?ys ! j) \<le> key (?ys ! i)"
    using j(1) by (cases "i = j") (auto simp: sorted_wrt_iff_nth_less)
  then have "\<not> key y < key x" using i j by simp
  moreover have "y \<in> set xs" using i by (metis nth_mem set_rev set_sort)
  ultimately have "y = x" using assms(3) i by blast
  with y show ?thesis by simp
qed

section \<open>Database calls\<close>

datatype db_error = ErrRecordNotFound | ErrConstraint | ErrDatabase

record 'd world =
  db :: 'd
  calls :: nat

definition db_call ::
  "(nat \<Rightarrow> bool) \<Rightarrow> ('d \<Rightarrow> (db_error + 'a) \<times> 'd) \<Rightarrow> ('d world, db_error, 'a) proc" where
  "db_call fault f w =
     (if fault (calls w) then (Inl ErrDatabase, w\<lparr>calls := Suc (calls w)\<rparr>)
      else case f (db w) of (r, d) \<Rightarrow> (r, w\<lparr>db := d, calls := Suc (calls w)\<rparr>))"

text \<open>A read leaves the stored data as it is, whatever happens.\<close>

definition db_read ::
  "(nat \<Rightarrow> bool) \<Rightarrow> ('d \<Rightarrow> db_error + 'a) \<Rightarrow> ('d world, db_error, 'a) proc" where
  "db_read fault f = db_call fault (\<lambda>d. (f d, d))"

definition db_write ::
  "(nat \<Rightarrow> bool) \<Rightarrow> ('d \<Rightarrow> 'd) \<Rightarrow> ('d world, db_error, unit) proc" where
  "db_write fault f = db_call fault (\<lambda>d. (Inr (), f d))"

definition found :: "'a option \<Rightarrow> db_error + 'a" where
  "found x = (case x of None \<Rightarrow> Inl ErrRecordNotFound | Some r \<Rightarrow> Inr r)"

lemma found_simps [simp]:
  "found None = Inl ErrRecordNotFound" "found (Some r) = Inr r"
  "found x = Inr r \<longleftrightarrow> x = Some r"
  by (auto simp: found_def split: option.splits)

lemma db_read_db: "db (snd (db_read fault f w)) = db w"
  by (simp add: db_read_def db_call_def)

lemma db_read_Inr: "db_read fault f w = (Inr x, w') \<Longrightarrow> f (db w) = Inr x \<and> db w' = db w"
  by (auto simp: db_read_def db_call_def split: if_splits)

lemma db_write_Inr: "db_write fault f w = (Inr x, w') \<Longrightarrow> db w' = f (db w)"
  by (auto simp: db_write_def db_call_def split: if_splits)

lemma db_write_Inl: "db_write fault f w = (Inl e, w') \<Longrightarrow> db w' = db w"
  by (auto simp: db_write_def db_call_def split: if_splits)

lemmas db_defs = db_call_def db_read_def db_write_def

text \<open>
  \<open>db.Transaction(body)\<close>: the statements that open and commit it can fail like any call, and an error
  of the body or of the commit undoes what the body wrote. \<open>wrap\<close> turns an error of the database into
  an error of the caller.
\<close>

definition transaction ::
  "(nat \<Rightarrow> bool) \<Rightarrow> (db_error \<Rightarrow> 'e) \<Rightarrow> ('d world, 'e, 'a) proc \<Rightarrow> ('d world, 'e, 'a) proc" where
  "transaction fault wrap body w =
     (if fault (calls w) then (Inl (wrap ErrDatabase), w\<lparr>calls := Suc (calls w)\<rparr>)
      else case body (w\<lparr>calls := Suc (calls w)\<rparr>) of
          (Inl e, w') \<Rightarrow> (Inl e, w'\<lparr>db := db w\<rparr>)
        | (Inr x, w') \<Rightarrow>
            if fault (calls w') then (Inl (wrap ErrDatabase), w'\<lparr>db := db w, calls := Suc (calls w')\<rparr>)
            else (Inr x, w'\<lparr>calls := Suc (calls w')\<rparr>))"

lemma transaction_Inl: "transaction fault wrap body w = (Inl e, w') \<Longrightarrow> db w' = db w"
  by (auto simp: transaction_def split: if_splits prod.splits sum.splits)

lemma transaction_Inr:
  assumes "transaction fault wrap body w = (Inr x, w')"
  obtains w1 w2 where "db w1 = db w" and "body w1 = (Inr x, w2)" and "db w' = db w2"
proof -
  from assms obtain w2 where "body (w\<lparr>calls := Suc (calls w)\<rparr>) = (Inr x, w2)" "w' = w2\<lparr>calls := Suc (calls w2)\<rparr>"
    by (auto simp: transaction_def split: if_splits prod.splits sum.splits)
  then show thesis by (intro that [of "w\<lparr>calls := Suc (calls w)\<rparr>" w2]) simp_all
qed

section \<open>What a procedure does to the stored data\<close>

text \<open>
  \<open>keeps R m\<close>: whatever \<open>m\<close> returns, the stored data before and after are related by \<open>R\<close>. For a
  reflexive and transitive \<open>R\<close> the combinators preserve it, so a frame condition or an evolution of
  the data is proved call by call.
\<close>

definition keeps :: "('d \<Rightarrow> 'd \<Rightarrow> bool) \<Rightarrow> ('d world, 'e, 'a) proc \<Rightarrow> bool" where
  "keeps R m \<longleftrightarrow> (\<forall>w. R (db w) (db (snd (m w))))"

lemma keepsD: "keeps R m \<Longrightarrow> R (db w) (db (snd (m w)))"
  by (simp add: keeps_def)

locale data_evolution =
  fixes R :: "'d \<Rightarrow> 'd \<Rightarrow> bool"
  assumes refl: "R d d"
    and trans: "R d d' \<Longrightarrow> R d' d'' \<Longrightarrow> R d d''"
begin

lemma keeps_returnP: "keeps R (returnP x)"
  by (simp add: keeps_def returnP_def refl)

lemma keeps_failP: "keeps R (failP e)"
  by (simp add: keeps_def failP_def refl)

lemma keeps_read: "keeps R (db_read fault f)"
  by (simp add: keeps_def db_read_db refl)

lemma keeps_write: "(\<And>d. R d (f d)) \<Longrightarrow> keeps R (db_write fault f)"
  by (simp add: keeps_def db_write_def db_call_def refl)

lemma keeps_call: "(\<And>d. R d (snd (f d))) \<Longrightarrow> keeps R (db_call fault f)"
  by (auto simp: keeps_def db_call_def refl split: prod.splits) (metis snd_conv)

lemma keeps_tryP: "keeps R m \<Longrightarrow> (\<And>r. keeps R (f r)) \<Longrightarrow> keeps R (tryP m f)"
  unfolding keeps_def tryP_def by (metis (no_types, lifting) case_prod_beta trans)

lemma keeps_bindP: "keeps R m \<Longrightarrow> (\<And>x. keeps R (f x)) \<Longrightarrow> keeps R (bindP m f)"
  unfolding keeps_def bindP_def
  by (auto split: prod.splits sum.splits) (metis snd_conv trans)+

lemma keeps_if: "(b \<Longrightarrow> keeps R m) \<Longrightarrow> (\<not> b \<Longrightarrow> keeps R m') \<Longrightarrow> keeps R (if b then m else m')"
  by simp

lemma keeps_transaction:
  assumes "keeps R body"
  shows "keeps R (transaction fault wrap body)"
  unfolding keeps_def
proof
  fix w
  obtain r w' where t: "transaction fault wrap body w = (r, w')" by (cases "transaction fault wrap body w")
  show "R (db w) (db (snd (transaction fault wrap body w)))"
  proof (cases r)
    case (Inl e)
    with t show ?thesis by (simp add: transaction_Inl refl)
  next
    case (Inr x)
    with t obtain w1 w2 where "db w1 = db w" "body w1 = (Inr x, w2)" "db w' = db w2"
      by (auto elim: transaction_Inr)
    with t keepsD [OF assms, of w1] show ?thesis by simp
  qed
qed

lemmas keeps_intros =
  keeps_transaction keeps_returnP keeps_failP keeps_read keeps_write keeps_call keeps_tryP keeps_bindP keeps_if

end

lemma data_evolution_frame: "data_evolution (\<lambda>d d'. f d' = f d)"
  by unfold_locales simp_all

section \<open>JSON columns\<close>

text \<open>
  A text column that holds a JSON document is modelled by the decoded document: \<open>JSON v\<close> for
  text that decodes to \<open>v\<close>, \<open>BadJSON\<close> for text that does not decode.
\<close>

datatype 'a json = JSON 'a | BadJSON

fun unmarshal :: "'a json \<Rightarrow> 'a option" where
  "unmarshal (JSON v) = Some v"
| "unmarshal BadJSON = None"

section \<open>Maps\<close>

text \<open>
  A Go \<open>map\<close> is an association list with distinct keys; the order of the list is one order in
  which \<open>range\<close> may visit it. \<open>len\<close> is \<^const>\<open>length\<close>, \<open>m[k]\<close> is \<^const>\<open>map_of\<close>.
\<close>

type_synonym 'v gomap = "(string \<times> 'v) list"

definition gomap_wf :: "'v gomap \<Rightarrow> bool" where
  "gomap_wf m = distinct (map fst m)"

fun map_put :: "'k \<Rightarrow> 'v \<Rightarrow> ('k \<times> 'v) list \<Rightarrow> ('k \<times> 'v) list" where
  "map_put k v [] = [(k, v)]"
| "map_put k v ((k', v') # m) = (if k' = k then (k, v) # m else (k', v') # map_put k v m)"

lemma map_of_map_put: "map_of (map_put k v m) = (map_of m)(k \<mapsto> v)"
  by (induction m) (auto simp: fun_eq_iff)

lemma map_put_keys: "fst ` set (map_put k v m) = insert k (fst ` set m)"
  by (induction k v m rule: map_put.induct) (simp_all add: insert_commute)

lemma map_put_wf: "gomap_wf m \<Longrightarrow> gomap_wf (map_put k v m)"
  by (induction m) (auto simp: gomap_wf_def map_put_keys image_iff)

section \<open>Binary search\<close>

text \<open>\<open>sort.Search(n, f)\<close>: the loop on the half-open interval from \<open>i\<close> to \<open>j\<close>.\<close>

function search_loop :: "(nat \<Rightarrow> bool) \<Rightarrow> nat \<Rightarrow> nat \<Rightarrow> nat" where
  "search_loop f i j =
     (if i < j then let h = (i + j) div 2 in if \<not> f h then search_loop f (h + 1) j else search_loop f i h
      else i)"
  by pat_completeness auto
termination
  by (relation "measure (\<lambda>(f, i, j). j - i)") auto

declare search_loop.simps [simp del]

definition sort_Search :: "nat \<Rightarrow> (nat \<Rightarrow> bool) \<Rightarrow> nat" where
  "sort_Search n f = search_loop f 0 n"

definition upward :: "nat \<Rightarrow> (nat \<Rightarrow> bool) \<Rightarrow> bool" where
  "upward n f \<longleftrightarrow> (\<forall>a b. a \<le> b \<longrightarrow> b < n \<longrightarrow> f a \<longrightarrow> f b)"

lemma search_loop_left: "i < j \<Longrightarrow> f ((i + j) div 2) \<Longrightarrow> search_loop f i j = search_loop f i ((i + j) div 2)"
  by (simp add: search_loop.simps [of f i j])

lemma search_loop_right:
  "i < j \<Longrightarrow> \<not> f ((i + j) div 2) \<Longrightarrow> search_loop f i j = search_loop f ((i + j) div 2 + 1) j"
  by (simp add: search_loop.simps [of f i j])

lemma search_loop_stop: "\<not> i < j \<Longrightarrow> search_loop f i j = i"
  by (simp add: search_loop.simps [of f i j])

text \<open>On an upward closed predicate the loop finds the least index that satisfies it.\<close>

lemma search_loop_least:
  assumes "upward n f" and "i \<le> j" and "j \<le> n"
  shows "i \<le> search_loop f i j \<and> search_loop f i j \<le> j \<and>
    (\<forall>k. i \<le> k \<longrightarrow> k < search_loop f i j \<longrightarrow> \<not> f k) \<and>
    (search_loop f i j < j \<longrightarrow> f (search_loop f i j))"
  using assms
proof (induction f i j rule: search_loop.induct)
  case (1 f i j)
  define h where "h = (i + j) div 2"
  show ?case
  proof (cases "i < j")
    case True
    then have h: "i \<le> h" "h < j" by (auto simp: h_def)
    show ?thesis
    proof (cases "f h")
      case found: True
      then have eq: "search_loop f i j = search_loop f i h"
        using True search_loop_left by (simp add: h_def)
      have IH: "i \<le> search_loop f i h \<and> search_loop f i h \<le> h \<and>
          (\<forall>k. i \<le> k \<longrightarrow> k < search_loop f i h \<longrightarrow> \<not> f k) \<and>
          (search_loop f i h < h \<longrightarrow> f (search_loop f i h))"
        using "1.IH"(2) [OF True h_def] "1.prems" found h by simp
      have "f (search_loop f i h)"
        using IH found by (cases "search_loop f i h = h") auto
      with IH eq h show ?thesis by simp
    next
      case False
      then have eq: "search_loop f i j = search_loop f (h + 1) j"
        using True search_loop_right by (simp add: h_def)
      have IH: "h + 1 \<le> search_loop f (h + 1) j \<and> search_loop f (h + 1) j \<le> j \<and>
          (\<forall>k. h + 1 \<le> k \<longrightarrow> k < search_loop f (h + 1) j \<longrightarrow> \<not> f k) \<and>
          (search_loop f (h + 1) j < j \<longrightarrow> f (search_loop f (h + 1) j))"
        using "1.IH"(1) [OF True h_def False] "1.prems" h by simp
      have "\<not> f k" if "k < h + 1" for k
        using "1.prems" False that h unfolding upward_def
        by (metis less_Suc_eq_le Suc_eq_plus1 order_less_le_trans)
      then have "\<forall>k. i \<le> k \<longrightarrow> k < search_loop f (h + 1) j \<longrightarrow> \<not> f k"
        using IH not_less by blast
      with IH eq h show ?thesis by simp
    qed
  next
    case False
    with "1.prems" show ?thesis by (simp add: search_loop_stop)
  qed
qed

text \<open>
  The membership test the callers write: find the first element that is at least \<open>x\<close> in a sorted
  slice and compare it with \<open>x\<close>.
\<close>

definition sorted_member :: "nat list \<Rightarrow> nat \<Rightarrow> bool" where
  "sorted_member xs x =
     (let i = sort_Search (length xs) (\<lambda>k. xs ! k \<ge> x) in i < length xs \<and> xs ! i = x)"

lemma sorted_member_iff:
  assumes "sorted xs"
  shows "sorted_member xs x \<longleftrightarrow> x \<in> set xs"
proof -
  let ?f = "\<lambda>k. xs ! k \<ge> x" and ?i = "sort_Search (length xs) (\<lambda>k. xs ! k \<ge> x)"
  have "upward (length xs) ?f"
    using assms unfolding upward_def by (meson order_trans sorted_nth_mono)
  then have least: "\<forall>k < ?i. \<not> ?f k" "?i < length xs \<longrightarrow> ?f ?i"
    using search_loop_least [of "length xs" ?f 0 "length xs"] by (auto simp: sort_Search_def)
  show ?thesis
  proof
    assume "x \<in> set xs"
    then obtain k where k: "k < length xs" "xs ! k = x" by (auto simp: in_set_conv_nth)
    with least have "?i \<le> k" by (metis le_refl linorder_not_less)
    have "x \<le> xs ! ?i" using k \<open>?i \<le> k\<close> least(2) by simp
    moreover have "xs ! ?i \<le> x" using k \<open>?i \<le> k\<close> assms sorted_nth_mono by blast
    ultimately show "sorted_member xs x" using k \<open>?i \<le> k\<close> by (simp add: sorted_member_def)
  next
    assume "sorted_member xs x"
    then show "x \<in> set xs" unfolding sorted_member_def Let_def by (metis nth_mem)
  qed
qed

end
