(* ===== verification/Go_Base64.thy ===== *)
theory Go_Base64
  imports Go_Prelude
begin

text \<open>
  \<open>base64.RawURLEncoding\<close> and \<open>hex.EncodeToString\<close> of Go's standard library, as the token code
  uses them, and the contract of a text codec: decoding inverts encoding and the encoded text is
  made of bytes that are neither the separator of a token nor white space.
\<close>

locale text_codec =
  fixes enc :: "string \<Rightarrow> string"
    and dec :: "string \<Rightarrow> string option"
  assumes dec_enc: "dec (enc x) = Some x"
    and enc_no_dot: "CHR ''.'' \<notin> set (enc x)"
    and enc_no_space: "set (enc x) \<inter> space_bytes = {}"
begin

lemma enc_inj: "enc x = enc y \<longleftrightarrow> x = y"
  by (metis dec_enc option.inject)

lemma enc_TrimSpace: "TrimSpace (enc x) = enc x"
  by (rule TrimSpace_plain) (rule enc_no_space)

text \<open>A dotted token of encoded parts splits back into its parts.\<close>

lemma split_token:
  "split_on CHR ''.'' (enc a @ ''.'' @ enc b @ ''.'' @ enc c) = [enc a, enc b, enc c]"
  by (simp add: split_on_append split_on_plain enc_no_dot)

end

section \<open>The URL alphabet\<close>

definition enc6 :: "nat \<Rightarrow> char" where
  "enc6 n = (if n < 26 then char_of (65 + n)
     else if n < 52 then char_of (71 + n)
     else if n < 62 then char_of (n - 4)
     else if n = 62 then CHR ''-'' else CHR ''_'')"

definition dec6 :: "char \<Rightarrow> nat option" where
  "dec6 c =
     (let n = of_char c :: nat in
      if 65 \<le> n \<and> n \<le> 90 then Some (n - 65)
      else if 97 \<le> n \<and> n \<le> 122 then Some (n - 71)
      else if 48 \<le> n \<and> n \<le> 57 then Some (n + 4)
      else if c = CHR ''-'' then Some 62
      else if c = CHR ''_'' then Some 63
      else None)"

lemma enc6_code:
  "n < 64 \<Longrightarrow> of_char (enc6 n) =
    (if n < 26 then 65 + n else if n < 52 then 71 + n else if n < 62 then n - 4
     else if n = 62 then 45 else (95 :: nat))"
  by (auto simp: enc6_def)

lemma dec6_enc6 [simp]: "n < 64 \<Longrightarrow> dec6 (enc6 n) = Some n"
proof -
  assume n: "n < 64"
  consider "n < 26" | "26 \<le> n" "n < 52" | "52 \<le> n" "n < 62" | "n = 62" | "n = 63"
    using n by linarith
  then show ?thesis
    by cases (auto simp: dec6_def Let_def enc6_code, auto simp: enc6_def)
qed

lemma enc6_plain:
  assumes "n < 64"
  shows "enc6 n \<noteq> CHR ''.''" and "enc6 n \<notin> space_bytes"
    and "enc6 n \<noteq> CHR 0x0A" and "enc6 n \<noteq> CHR 0x0D"
proof -
  have "of_char (enc6 n) \<in> {45..(122 :: nat)} - {46}"
    using assms by (auto simp: enc6_code)
  then have r: "45 \<le> (of_char (enc6 n) :: nat)" "of_char (enc6 n) \<le> (122 :: nat)"
      "of_char (enc6 n) \<noteq> (46 :: nat)"
    by auto
  from r show "enc6 n \<noteq> CHR ''.''" "enc6 n \<noteq> CHR 0x0A" "enc6 n \<noteq> CHR 0x0D" by auto
  show "enc6 n \<notin> space_bytes"
    using r by (auto simp: space_bytes_def space_runes_def)
qed

section \<open>Encoding and decoding\<close>

fun b64_bytes :: "nat list \<Rightarrow> string" where
  "b64_bytes [] = []"
| "b64_bytes [a] = [enc6 (a div 4), enc6 (a mod 4 * 16)]"
| "b64_bytes [a, b] = [enc6 (a div 4), enc6 (a mod 4 * 16 + b div 16), enc6 (b mod 16 * 4)]"
| "b64_bytes (a # b # c # rest) =
     enc6 (a div 4) # enc6 (a mod 4 * 16 + b div 16) # enc6 (b mod 16 * 4 + c div 64) #
     enc6 (c mod 64) # b64_bytes rest"

fun b64_groups :: "nat list \<Rightarrow> nat list option" where
  "b64_groups [] = Some []"
| "b64_groups [x] = None"
| "b64_groups [x, y] = Some [x * 4 + y div 16]"
| "b64_groups [x, y, z] = Some [x * 4 + y div 16, y mod 16 * 16 + z div 4]"
| "b64_groups (x # y # z # w # rest) =
     map_option (\<lambda>bs. (x * 4 + y div 16) # (y mod 16 * 16 + z div 4) # (z mod 4 * 64 + w) # bs)
       (b64_groups rest)"

definition b64_encode :: "string \<Rightarrow> string" where
  "b64_encode s = b64_bytes (map of_char s)"

text \<open>The decoder skips carriage returns and line feeds and refuses any other foreign byte.\<close>

definition b64_decode :: "string \<Rightarrow> string option" where
  "b64_decode s =
     (case those (map dec6 (filter (\<lambda>c. c \<noteq> CHR 0x0A \<and> c \<noteq> CHR 0x0D) s)) of
        None \<Rightarrow> None
      | Some ns \<Rightarrow> map_option (map char_of) (b64_groups ns))"

lemma b64_bytes_ranges:
  assumes "\<forall>a \<in> set bs. a < (256 :: nat)"
  shows "\<exists>ns. b64_bytes bs = map enc6 ns \<and> (\<forall>n \<in> set ns. n < 64) \<and> b64_groups ns = Some bs"
  using assms
proof (induction bs rule: b64_bytes.induct)
  case 1
  then show ?case by (intro exI [of _ "[]"]) simp
next
  case (2 a)
  then show ?case by (intro exI [of _ "[a div 4, a mod 4 * 16]"]) auto
next
  case (3 a b)
  then show ?case
    by (intro exI [of _ "[a div 4, a mod 4 * 16 + b div 16, b mod 16 * 4]"]) auto
next
  case (4 a b c rest)
  then obtain ns where ns: "b64_bytes rest = map enc6 ns" "\<forall>n \<in> set ns. n < 64"
      "b64_groups ns = Some rest"
    by auto
  have "a < 256" "b < 256" "c < 256" using "4.prems" by auto
  with ns show ?case
    by (intro exI [of _ "a div 4 # (a mod 4 * 16 + b div 16) # (b mod 16 * 4 + c div 64) #
          c mod 64 # ns"]) auto
qed

lemma those_dec6: "\<forall>n \<in> set ns. n < 64 \<Longrightarrow> those (map dec6 (map enc6 ns)) = Some ns"
  by (induction ns) auto

lemma b64_obtain:
  obtains ns where "b64_encode s = map enc6 ns" and "\<forall>n \<in> set ns. n < 64"
    and "b64_groups ns = Some (map of_char s)"
  using b64_bytes_ranges [of "map of_char s"] by (auto simp: b64_encode_def)

lemma b64_decode_encode: "b64_decode (b64_encode s) = Some s"
proof -
  obtain ns where ns: "b64_encode s = map enc6 ns" "\<forall>n \<in> set ns. n < 64"
      "b64_groups ns = Some (map of_char s)"
    by (rule b64_obtain)
  have "filter (\<lambda>c. c \<noteq> CHR 0x0A \<and> c \<noteq> CHR 0x0D) (map enc6 ns) = map enc6 ns"
    using ns(2) by (auto simp: filter_id_conv enc6_plain)
  then have "b64_decode (b64_encode s) = map_option (map char_of) (b64_groups ns)"
    unfolding b64_decode_def ns(1) by (simp only: those_dec6 [OF ns(2)] option.case)
  also have "\<dots> = Some (map (char_of \<circ> of_char) s)"
    by (simp add: ns(3))
  finally show ?thesis by (simp add: comp_def)
qed

interpretation b64: text_codec b64_encode b64_decode
proof
  fix x
  show "b64_decode (b64_encode x) = Some x" by (rule b64_decode_encode)
  obtain ns where ns: "b64_encode x = map enc6 ns" "\<forall>n \<in> set ns. n < 64" by (rule b64_obtain)
  then show "CHR ''.'' \<notin> set (b64_encode x)" and "set (b64_encode x) \<inter> space_bytes = {}"
    using enc6_plain by (auto simp: eq_commute)
qed

section \<open>Hexadecimal\<close>

definition hex_digit :: "nat \<Rightarrow> char" where
  "hex_digit n = (if n < 10 then char_of (48 + n) else char_of (87 + n))"

definition hex_encode :: "string \<Rightarrow> string" where
  "hex_encode s = concat (map (\<lambda>c. let n = of_char c in [hex_digit (n div 16), hex_digit (n mod 16)]) s)"

definition hex_value :: "char \<Rightarrow> nat option" where
  "hex_value c =
     (let n = of_char c :: nat in
      if 48 \<le> n \<and> n \<le> 57 then Some (n - 48)
      else if 97 \<le> n \<and> n \<le> 102 then Some (n - 87)
      else if 65 \<le> n \<and> n \<le> 70 then Some (n - 55) else None)"

fun hex_decode :: "string \<Rightarrow> string option" where
  "hex_decode [] = Some []"
| "hex_decode [c] = None"
| "hex_decode (c # d # rest) =
     (case (hex_value c, hex_value d, hex_decode rest) of
        (Some a, Some b, Some r) \<Rightarrow> Some (char_of (16 * a + b) # r)
      | _ \<Rightarrow> None)"

lemma hex_value_digit [simp]: "n < 16 \<Longrightarrow> hex_value (hex_digit n) = Some n"
  by (auto simp: hex_value_def hex_digit_def Let_def)

lemma hex_high_nibble: "of_char c div 16 < (16 :: nat)"
  by (simp add: less_mult_imp_div_less)

lemma hex_decode_encode: "hex_decode (hex_encode s) = Some s"
  by (induction s) (simp_all add: hex_encode_def Let_def hex_high_nibble)

lemma hex_encode_length: "length (hex_encode s) = 2 * length s"
  by (induction s) (auto simp: hex_encode_def Let_def)

text \<open>A text constant of the source, given by its UTF-8 bytes in hexadecimal.\<close>

definition utf8 :: "string \<Rightarrow> string" where
  "utf8 digits = the (hex_decode digits)"

end
