(* ===== verification/Auth_Tokens.thy ===== *)
theory Auth_Tokens
  imports Go_Store Go_Base64
begin

text \<open>
  Session and delegation tokens (\<open>internal/service/auth/jwt.go\<close> and \<open>delegation.go\<close>).

  A token is \<open>header.payload.signature\<close>, each part in URL base64. HMAC-SHA256 is a parameter
  \<open>mac\<close>, and so is the JSON coding of the claims, a pair of functions. Times are integers in
  nanoseconds since the epoch; each call of \<open>time.Now()\<close> is an argument. Identifiers (\<open>uint\<close>) are
  natural numbers.
\<close>

section \<open>Types\<close>

datatype token_error = ErrTokenExpired | ErrTokenInvalid | ErrMarshalClaims | ErrRandom

record Claims =
  cl_UserID :: nat
  cl_Username :: string
  cl_Exp :: int
  cl_Iat :: int

record DelegationClaims =
  dc_Type :: string
  dc_Audience :: string
  dc_UserID :: nat
  dc_Username :: string
  dc_ProjectID :: nat
  dc_EnvironmentIDs :: "nat list"
  dc_ApplicationIDs :: "nat list"
  dc_Capability :: string
  dc_Actions :: "string list"
  dc_JTI :: string
  dc_Exp :: int
  dc_Iat :: int

record 'c claims_codec =
  enc_claims :: "'c \<Rightarrow> string option"
  dec_claims :: "string \<Rightarrow> 'c option"

type_synonym mac_fun = "string \<Rightarrow> string \<Rightarrow> string"

definition unix :: "int \<Rightarrow> int" where
  "unix t = t div 1000000000"

section \<open>Signing\<close>

definition jwt_header :: string where
  \<open>jwt_header = b64_encode ''{"alg":"HS256","typ":"JWT"}''\<close>

definition token_signature :: "mac_fun \<Rightarrow> string \<Rightarrow> string \<Rightarrow> string" where
  "token_signature mac secret signingInput = b64_encode (mac secret signingInput)"

definition signPayload ::
  "mac_fun \<Rightarrow> 'c claims_codec \<Rightarrow> string \<Rightarrow> 'c \<Rightarrow> token_error + string" where
  "signPayload mac codec secret claims =
     (case enc_claims codec claims of
        None \<Rightarrow> Inl ErrMarshalClaims
      | Some payloadBytes \<Rightarrow>
          let signingInput = jwt_header @ ''.'' @ b64_encode payloadBytes
          in Inr (signingInput @ ''.'' @ token_signature mac secret signingInput))"

text \<open>The caller has checked that there are three parts; \<open>hmac.Equal\<close> is equality.\<close>

definition validSignature :: "mac_fun \<Rightarrow> string \<Rightarrow> string list \<Rightarrow> bool" where
  "validSignature mac secret parts \<longleftrightarrow>
     parts ! 2 = token_signature mac secret (parts ! 0 @ ''.'' @ parts ! 1)"

definition signToken ::
  "mac_fun \<Rightarrow> Claims claims_codec \<Rightarrow> string \<Rightarrow> Claims \<Rightarrow> token_error + string" where
  "signToken mac codec secret claims = signPayload mac codec secret claims"

definition GenerateAccessToken ::
  "mac_fun \<Rightarrow> Claims claims_codec \<Rightarrow> int \<Rightarrow> string \<Rightarrow> nat \<Rightarrow> string \<Rightarrow> int \<Rightarrow> token_error + string"
where
  "GenerateAccessToken mac codec now secret userID username ttl =
     signToken mac codec secret
       \<lparr>cl_UserID = userID, cl_Username = username, cl_Exp = unix (now + ttl), cl_Iat = unix now\<rparr>"

definition GenerateRefreshToken ::
  "mac_fun \<Rightarrow> Claims claims_codec \<Rightarrow> int \<Rightarrow> string \<Rightarrow> nat \<Rightarrow> int \<Rightarrow> token_error + string" where
  "GenerateRefreshToken mac codec now secret userID ttl =
     signToken mac codec secret
       \<lparr>cl_UserID = userID, cl_Username = [], cl_Exp = unix (now + ttl), cl_Iat = unix now\<rparr>"

definition ParseToken ::
  "mac_fun \<Rightarrow> Claims claims_codec \<Rightarrow> int \<Rightarrow> string \<Rightarrow> string \<Rightarrow> token_error + Claims" where
  "ParseToken mac codec now secret tokenString =
     (let parts = split_on CHR ''.'' tokenString in
      if length parts \<noteq> 3 then Inl ErrTokenInvalid
      else if \<not> validSignature mac secret parts then Inl ErrTokenInvalid
      else case b64_decode (parts ! 1) of
        None \<Rightarrow> Inl ErrTokenInvalid
      | Some payload \<Rightarrow>
          (case dec_claims codec payload of
             None \<Rightarrow> Inl ErrTokenInvalid
           | Some claims \<Rightarrow>
               if unix now > cl_Exp claims then Inl ErrTokenExpired else Inr claims))"

section \<open>Delegation claims\<close>

definition DelegationTokenType :: string where
  "DelegationTokenType = ''delegation''"

definition DelegationTokenAudience :: string where
  "DelegationTokenAudience = ''cylism-integration''"

text \<open>Ten minutes, in nanoseconds.\<close>

definition MaxDelegationTTL :: int where
  "MaxDelegationTTL = 10 * 60 * 1000000000"

definition claims_valid :: "DelegationClaims \<Rightarrow> int \<Rightarrow> bool" where
  "claims_valid c now \<longleftrightarrow>
     dc_Type c = DelegationTokenType \<and> dc_Audience c = DelegationTokenAudience \<and>
     dc_UserID c \<noteq> 0 \<and> dc_ProjectID c \<noteq> 0 \<and> dc_Capability c \<noteq> [] \<and> dc_JTI c \<noteq> [] \<and>
     length (dc_Actions c) > 0 \<and> dc_Exp c > unix now \<and> dc_Iat c \<le> unix now \<and>
     dc_Exp c - dc_Iat c \<le> MaxDelegationTTL div 1000000000"

text \<open>
  The Go code collects the entries in a map and sorts what it ranges over: the sorted list of the
  distinct entries, whatever the order of the map.
\<close>

definition normalizedDelegationActions :: "string list \<Rightarrow> string list" where
  "normalizedDelegationActions actions =
     sort (remdups (filter (\<lambda>a. a \<noteq> []) (map TrimSpace actions)))"

definition normalizedIDs :: "nat list \<Rightarrow> nat list" where
  "normalizedIDs ids = sort (remdups (filter (\<lambda>i. i \<noteq> 0) ids))"

definition normalizedEnvironmentIDs :: "nat list \<Rightarrow> nat list" where
  "normalizedEnvironmentIDs ids = normalizedIDs ids"

definition normalizedApplicationIDs :: "nat list \<Rightarrow> nat list" where
  "normalizedApplicationIDs ids = normalizedIDs ids"

text \<open>\<open>rand.Read\<close> delivers sixteen bytes or fails.\<close>

definition newDelegationID :: "string option \<Rightarrow> token_error + string" where
  "newDelegationID random =
     (case random of None \<Rightarrow> Inl ErrRandom | Some bytes \<Rightarrow> Inr (hex_encode bytes))"

definition effective_ttl :: "int \<Rightarrow> int" where
  "effective_ttl ttl = (if ttl \<le> 0 \<or> ttl > MaxDelegationTTL then MaxDelegationTTL else ttl)"

definition issued_claims :: "DelegationClaims \<Rightarrow> string \<Rightarrow> int \<Rightarrow> int \<Rightarrow> DelegationClaims" where
  "issued_claims claims jti now ttl =
     claims\<lparr>dc_Type := DelegationTokenType, dc_Audience := DelegationTokenAudience,
       dc_Capability := ToLower (TrimSpace (dc_Capability claims)),
       dc_Actions := normalizedDelegationActions (dc_Actions claims),
       dc_EnvironmentIDs := normalizedEnvironmentIDs (dc_EnvironmentIDs claims),
       dc_ApplicationIDs := normalizedApplicationIDs (dc_ApplicationIDs claims),
       dc_JTI := jti, dc_Iat := unix now, dc_Exp := unix (now + effective_ttl ttl)\<rparr>"

definition GenerateDelegationToken ::
  "mac_fun \<Rightarrow> DelegationClaims claims_codec \<Rightarrow> string option \<Rightarrow> int \<Rightarrow> string \<Rightarrow> DelegationClaims \<Rightarrow>
   int \<Rightarrow> token_error + string"
where
  "GenerateDelegationToken mac codec random now secret claims ttl =
     (case (if dc_JTI claims = [] then newDelegationID random else Inr (dc_JTI claims)) of
        Inl e \<Rightarrow> Inl e
      | Inr jti \<Rightarrow>
          let c = issued_claims claims jti now ttl in
          if \<not> claims_valid c now then Inl ErrTokenInvalid else signPayload mac codec secret c)"

definition ParseDelegationToken ::
  "mac_fun \<Rightarrow> DelegationClaims claims_codec \<Rightarrow> int \<Rightarrow> int \<Rightarrow> string \<Rightarrow> string \<Rightarrow>
   token_error + DelegationClaims"
where
  "ParseDelegationToken mac codec now1 now2 secret tokenString =
     (let parts = split_on CHR ''.'' tokenString in
      if length parts \<noteq> 3 \<or> \<not> validSignature mac secret parts then Inl ErrTokenInvalid
      else case b64_decode (parts ! 1) of
        None \<Rightarrow> Inl ErrTokenInvalid
      | Some payload \<Rightarrow>
          (case dec_claims codec payload of
             None \<Rightarrow> Inl ErrTokenInvalid
           | Some claims \<Rightarrow>
               if unix now1 > dc_Exp claims then Inl ErrTokenExpired
               else if \<not> claims_valid claims now2 then Inl ErrTokenInvalid
               else Inr claims))"

definition Allows :: "DelegationClaims \<Rightarrow> string \<Rightarrow> bool" where
  "Allows c action = list_ex (\<lambda>candidate. candidate = action) (dc_Actions c)"

definition AllowsEnvironment :: "DelegationClaims \<Rightarrow> nat \<Rightarrow> bool" where
  "AllowsEnvironment c i =
     (if length (dc_EnvironmentIDs c) = 0 then True else sorted_member (dc_EnvironmentIDs c) i)"

definition AllowsApplication :: "DelegationClaims \<Rightarrow> nat \<Rightarrow> bool" where
  "AllowsApplication c i =
     (if length (dc_ApplicationIDs c) = 0 then True else sorted_member (dc_ApplicationIDs c) i)"

section \<open>Lemmas\<close>

lemma normalizedIDs_sorted [simp]: "sorted (normalizedIDs ids)"
  by (simp add: normalizedIDs_def)

lemma normalizedIDs_set [simp]: "set (normalizedIDs ids) = set ids - {0}"
  by (auto simp: normalizedIDs_def)

lemma normalizedIDs_distinct [simp]: "distinct (normalizedIDs ids)"
  by (simp add: normalizedIDs_def)

lemma normalizedIDs_idem: "normalizedIDs (normalizedIDs ids) = normalizedIDs ids"
  by (rule sorted_distinct_set_unique) auto

lemma normalizedDelegationActions_set:
  "set (normalizedDelegationActions as) = TrimSpace ` set as - {[]}"
  by (auto simp: normalizedDelegationActions_def)

lemma issued_ids:
  "dc_EnvironmentIDs (issued_claims c jti now ttl) = normalizedIDs (dc_EnvironmentIDs c)"
  "dc_ApplicationIDs (issued_claims c jti now ttl) = normalizedIDs (dc_ApplicationIDs c)"
  "dc_Actions (issued_claims c jti now ttl) = normalizedDelegationActions (dc_Actions c)"
  by (simp_all add: issued_claims_def normalizedEnvironmentIDs_def normalizedApplicationIDs_def)

text \<open>The length test and the binary search on normalised identifiers are set membership.\<close>

lemma scope_member:
  "(if length (normalizedIDs ids) = 0 then True else sorted_member (normalizedIDs ids) i) \<longleftrightarrow>
     set ids \<subseteq> {0} \<or> (i \<noteq> 0 \<and> i \<in> set ids)"
proof (cases "normalizedIDs ids = []")
  case True
  then have "set ids - {0} = {}" by (metis normalizedIDs_set set_empty)
  with True show ?thesis by auto
next
  case False
  then have "set ids - {0} \<noteq> {}" by (metis normalizedIDs_set set_empty)
  with False show ?thesis by (auto simp: sorted_member_iff)
qed

lemma token_splits:
  "split_on CHR ''.'' ((b64_encode h @ ''.'' @ b64_encode p) @ ''.'' @ b64_encode m) =
     [b64_encode h, b64_encode p, b64_encode m]"
  using b64.split_token [of h p m] by simp

lemma signPayload_parts:
  assumes "signPayload mac codec secret c = Inr tok"
  obtains p m where "enc_claims codec c = Some p"
    and "split_on CHR ''.'' tok = [jwt_header, b64_encode p, b64_encode m]"
    and "validSignature mac secret (split_on CHR ''.'' tok)"
proof -
  from assms obtain p where p: "enc_claims codec c = Some p"
      and tok: "tok = (jwt_header @ ''.'' @ b64_encode p) @ ''.'' @
        token_signature mac secret (jwt_header @ ''.'' @ b64_encode p)"
    by (auto simp: signPayload_def Let_def split: option.splits)
  then have "split_on CHR ''.'' tok =
      [jwt_header, b64_encode p, b64_encode (mac secret (jwt_header @ ''.'' @ b64_encode p))]"
    unfolding jwt_header_def token_signature_def by (simp only: token_splits)
  with p that show thesis by (simp add: validSignature_def token_signature_def)
qed

lemma unix_mono: "a \<le> b \<Longrightarrow> unix a \<le> unix b"
  by (simp add: unix_def zdiv_mono1)

lemma claims_valid_later:
  "claims_valid c now \<Longrightarrow> now \<le> t \<Longrightarrow> unix t < dc_Exp c \<Longrightarrow> claims_valid c t"
  using unix_mono [of now t] by (auto simp: claims_valid_def)

lemma GenerateDelegationToken_cases:
  assumes "GenerateDelegationToken mac codec random now secret claims ttl = Inr tok"
  obtains jti where "signPayload mac codec secret (issued_claims claims jti now ttl) = Inr tok"
    and "claims_valid (issued_claims claims jti now ttl) now"
    and "(if dc_JTI claims = [] then newDelegationID random else Inr (dc_JTI claims)) = Inr jti"
  using assms
  by (auto simp: GenerateDelegationToken_def Let_def split: sum.splits if_splits)

section \<open>A concrete issuer\<close>

text \<open>
  An instance of the parameters on which the witnesses run: a keyed concatenation for the HMAC and
  a codec that knows the claims of one request.
\<close>

definition demo_mac :: mac_fun where
  "demo_mac key message = key @ message"

definition demo_claims :: DelegationClaims where
  "demo_claims = \<lparr>dc_Type = [], dc_Audience = [], dc_UserID = 7, dc_Username = ''ops'',
     dc_ProjectID = 3, dc_EnvironmentIDs = [9, 0, 4, 9], dc_ApplicationIDs = [],
     dc_Capability = '' Config '', dc_Actions = [''application:read '', ''application:read''],
     dc_JTI = ''j1'', dc_Exp = 0, dc_Iat = 0\<rparr>"

definition demo_codec :: "DelegationClaims claims_codec" where
  "demo_codec =
     (let c = issued_claims demo_claims ''j1'' 5000000000 60000000000 in
      \<lparr>enc_claims = (\<lambda>d. if d = c then Some ''p'' else None), dec_claims = (\<lambda>p. Some c)\<rparr>)"

definition demo_session_codec :: "Claims claims_codec" where
  "demo_session_codec =
     (let c = \<lparr>cl_UserID = 7, cl_Username = ''ops'', cl_Exp = 65, cl_Iat = 5\<rparr> in
      \<lparr>enc_claims = (\<lambda>d. if d = c then Some ''p'' else None), dec_claims = (\<lambda>p. Some c)\<rparr>)"

lemma demo_codec_inverse: "enc_claims demo_codec c = Some p \<Longrightarrow> dec_claims demo_codec p = Some c"
  by (auto simp: demo_codec_def Let_def split: if_splits)

lemma demo_session_codec_inverse:
  "enc_claims demo_session_codec c = Some p \<Longrightarrow> dec_claims demo_session_codec p = Some c"
  by (auto simp: demo_session_codec_def Let_def split: if_splits)

definition demo_token :: string where
  "demo_token = projr (GenerateDelegationToken demo_mac demo_codec None 5000000000 ''key'' demo_claims 60000000000)"

definition demo_session :: string where
  "demo_session = projr (GenerateAccessToken demo_mac demo_session_codec 5000000000 ''key'' 7 ''ops'' 60000000000)"

lemma demo_token_issued:
  "GenerateDelegationToken demo_mac demo_codec None 5000000000 ''key'' demo_claims 60000000000 = Inr demo_token"
  by code_simp

lemma demo_session_issued:
  "GenerateAccessToken demo_mac demo_session_codec 5000000000 ''key'' 7 ''ops'' 60000000000 = Inr demo_session"
  by code_simp

section \<open>Properties\<close>

text \<open>
  C5. A delegation token that was issued parses back to exactly the claims it was issued with, the
  normalised ones, at every later moment before its expiry. The hypothesis on the JSON codec is
  that decoding inverts encoding.
\<close>

theorem delegation_roundtrip:
  assumes codec: "\<And>c p. enc_claims codec c = Some p \<Longrightarrow> dec_claims codec p = Some c"
    and issue: "GenerateDelegationToken mac codec random now secret claims ttl = Inr tok"
    and later: "now \<le> t1" "now \<le> t2" "unix t1 < unix (now + effective_ttl ttl)"
      "unix t2 < unix (now + effective_ttl ttl)"
  shows "\<exists>jti. ParseDelegationToken mac codec t1 t2 secret tok = Inr (issued_claims claims jti now ttl) \<and>
    (if dc_JTI claims = [] then newDelegationID random = Inr jti else jti = dc_JTI claims)"
proof -
  obtain jti where sign: "signPayload mac codec secret (issued_claims claims jti now ttl) = Inr tok"
      and valid: "claims_valid (issued_claims claims jti now ttl) now"
      and jti: "(if dc_JTI claims = [] then newDelegationID random else Inr (dc_JTI claims)) = Inr jti"
    using issue by (rule GenerateDelegationToken_cases)
  obtain p m where "enc_claims codec (issued_claims claims jti now ttl) = Some p"
      and "split_on CHR ''.'' tok = [jwt_header, b64_encode p, b64_encode m]"
      and "validSignature mac secret (split_on CHR ''.'' tok)"
    using sign by (rule signPayload_parts)
  moreover have "claims_valid (issued_claims claims jti now ttl) t2"
    by (rule claims_valid_later [OF valid]) (simp_all add: later issued_claims_def)
  moreover have "dc_Exp (issued_claims claims jti now ttl) = unix (now + effective_ttl ttl)"
    by (simp add: issued_claims_def)
  ultimately have "ParseDelegationToken mac codec t1 t2 secret tok =
      Inr (issued_claims claims jti now ttl)"
    using later by (simp add: ParseDelegationToken_def codec b64.dec_enc)
  with jti show ?thesis by (auto split: if_splits)
qed

theorem delegation_roundtrip_witness:
  "\<exists>jti. ParseDelegationToken demo_mac demo_codec 6000000000 7000000000 ''key'' demo_token =
      Inr (issued_claims demo_claims jti 5000000000 60000000000) \<and> jti = ''j1''"
  using delegation_roundtrip [OF demo_codec_inverse demo_token_issued, of 6000000000 7000000000]
  by (simp add: unix_def effective_ttl_def MaxDelegationTTL_def demo_claims_def)


lemma demo_token_parses:
  "ParseDelegationToken demo_mac demo_codec 6000000000 7000000000 ''key'' demo_token =
     Inr (issued_claims demo_claims ''j1'' 5000000000 60000000000)"
  by code_simp


text \<open>
  The authority of an issued token: the binary searches on the normalised scope decide exactly
  membership in the requested environments and applications; an empty scope means every
  identifier, and so does a scope of zeros only, because zeros are dropped before the scope is
  stored.
\<close>

theorem delegation_scope:
  "(AllowsEnvironment (issued_claims c jti now ttl) i \<longleftrightarrow>
      set (dc_EnvironmentIDs c) \<subseteq> {0} \<or> (i \<noteq> 0 \<and> i \<in> set (dc_EnvironmentIDs c))) \<and>
   (AllowsApplication (issued_claims c jti now ttl) j \<longleftrightarrow>
      set (dc_ApplicationIDs c) \<subseteq> {0} \<or> (j \<noteq> 0 \<and> j \<in> set (dc_ApplicationIDs c))) \<and>
   (Allows (issued_claims c jti now ttl) a \<longleftrightarrow> a \<noteq> [] \<and> a \<in> TrimSpace ` set (dc_Actions c))"
  unfolding AllowsEnvironment_def AllowsApplication_def Allows_def issued_ids scope_member
  by (auto simp: list_ex_iff normalizedDelegationActions_set)

text \<open>
  A session token parses back to its user until the second of its expiry, and is reported as
  expired from the next second on.
\<close>

theorem access_token_lifetime:
  assumes codec: "\<And>c p. enc_claims codec c = Some p \<Longrightarrow> dec_claims codec p = Some c"
    and issue: "GenerateAccessToken mac codec now secret userID username ttl = Inr tok"
  shows "ParseToken mac codec t secret tok =
    (if unix t > unix (now + ttl) then Inl ErrTokenExpired
     else Inr \<lparr>cl_UserID = userID, cl_Username = username, cl_Exp = unix (now + ttl), cl_Iat = unix now\<rparr>)"
proof -
  from issue obtain p m where
      "enc_claims codec \<lparr>cl_UserID = userID, cl_Username = username, cl_Exp = unix (now + ttl),
         cl_Iat = unix now\<rparr> = Some p"
      and "split_on CHR ''.'' tok = [jwt_header, b64_encode p, b64_encode m]"
      and "validSignature mac secret (split_on CHR ''.'' tok)"
    unfolding GenerateAccessToken_def signToken_def by (rule signPayload_parts)
  then show ?thesis by (simp add: ParseToken_def codec b64.dec_enc)
qed

theorem access_token_lifetime_witness:
  "ParseToken demo_mac demo_session_codec 65999999999 ''key'' demo_session =
     Inr \<lparr>cl_UserID = 7, cl_Username = ''ops'', cl_Exp = 65, cl_Iat = 5\<rparr> \<and>
   ParseToken demo_mac demo_session_codec 66000000000 ''key'' demo_session = Inl ErrTokenExpired"
  using access_token_lifetime [OF demo_session_codec_inverse demo_session_issued] by (simp add: unix_def)

end
