(* ===== verification/Auth_Temporary.thy ===== *)
theory Auth_Temporary
  imports Auth_Tokens
begin

text \<open>
  Temporary login tokens (\<open>internal/service/auth/service.go\<close>) over the user and token tables
  (\<open>internal/store/auth_repository.go\<close>, \<open>internal/model/auth.go\<close>).

  SHA-256 is a parameter \<open>sha\<close>; the random source delivers bytes or fails. Only the digest of a
  token is stored. The operations that change the tables are the rules of the step relation
  \<open>temp_step\<close>, over which the revocation property is an invariant.
\<close>

section \<open>Tables\<close>

record User =
  us_ID :: nat
  us_Username :: string
  us_PasswordHash :: string
  us_CreatedAt :: int
  us_UpdatedAt :: int

record TemporaryLoginToken =
  tk_ID :: nat
  tk_TokenHash :: string
  tk_CreatedBy :: nat
  tk_Label :: string
  tk_ExpiresAt :: int
  tk_RevokedAt :: "int option"
  tk_LastUsedAt :: "int option"
  tk_CreatedAt :: int

record auth_db =
  users :: "User list"
  tokens :: "TemporaryLoginToken list"

type_synonym 'a auth_proc = "(auth_db world, db_error, 'a) proc"

text \<open>An insert takes the next primary key when the row has none, and checks the unique index.\<close>

definition CreateUser :: "(nat \<Rightarrow> bool) \<Rightarrow> User \<Rightarrow> User auth_proc" where
  "CreateUser fault user = db_call fault (\<lambda>d.
     let row = user\<lparr>us_ID := (if us_ID user = 0 then tbl_next us_ID (users d) else us_ID user)\<rparr> in
     if list_ex (\<lambda>u. us_Username u = us_Username row \<or> us_ID u = us_ID row) (users d)
     then (Inl ErrConstraint, d) else (Inr row, d\<lparr>users := users d @ [row]\<rparr>))"

definition GetUserByUsername :: "(nat \<Rightarrow> bool) \<Rightarrow> string \<Rightarrow> User auth_proc" where
  "GetUserByUsername fault username =
     db_read fault (\<lambda>d. found (find (\<lambda>u. us_Username u = username) (users d)))"

definition GetUserByID :: "(nat \<Rightarrow> bool) \<Rightarrow> nat \<Rightarrow> User auth_proc" where
  "GetUserByID fault i = db_read fault (\<lambda>d. found (tbl_find us_ID i (users d)))"

definition CountUsers :: "(nat \<Rightarrow> bool) \<Rightarrow> nat auth_proc" where
  "CountUsers fault = db_read fault (\<lambda>d. Inr (length (users d)))"

definition CreateTemporaryLoginToken ::
  "(nat \<Rightarrow> bool) \<Rightarrow> TemporaryLoginToken \<Rightarrow> TemporaryLoginToken auth_proc" where
  "CreateTemporaryLoginToken fault token = db_call fault (\<lambda>d.
     let row = token\<lparr>tk_ID := tbl_next tk_ID (tokens d)\<rparr> in
     if list_ex (\<lambda>t. tk_TokenHash t = tk_TokenHash row) (tokens d)
     then (Inl ErrConstraint, d) else (Inr row, d\<lparr>tokens := tokens d @ [row]\<rparr>))"

definition ListTemporaryLoginTokens ::
  "(nat \<Rightarrow> bool) \<Rightarrow> nat \<Rightarrow> TemporaryLoginToken list auth_proc" where
  "ListTemporaryLoginTokens fault userID = db_read fault (\<lambda>d.
     Inr (rev (sort_key tk_ID (filter (\<lambda>t. tk_CreatedBy t = userID) (tokens d)))))"

definition FindActiveTemporaryLoginToken ::
  "(nat \<Rightarrow> bool) \<Rightarrow> string \<Rightarrow> int \<Rightarrow> TemporaryLoginToken auth_proc" where
  "FindActiveTemporaryLoginToken fault hash now = db_read fault (\<lambda>d.
     found (find (\<lambda>t. tk_TokenHash t = hash \<and> tk_RevokedAt t = None \<and> tk_ExpiresAt t > now) (tokens d)))"

definition use_row :: "string \<Rightarrow> int \<Rightarrow> TemporaryLoginToken \<Rightarrow> TemporaryLoginToken" where
  "use_row hash usedAt t = (if tk_TokenHash t = hash then t\<lparr>tk_LastUsedAt := Some usedAt\<rparr> else t)"

definition MarkTemporaryLoginTokenUsed :: "(nat \<Rightarrow> bool) \<Rightarrow> string \<Rightarrow> int \<Rightarrow> unit auth_proc" where
  "MarkTemporaryLoginTokenUsed fault hash usedAt =
     db_write fault (\<lambda>d. d\<lparr>tokens := map (use_row hash usedAt) (tokens d)\<rparr>)"

definition revoke_row :: "nat \<Rightarrow> nat \<Rightarrow> int \<Rightarrow> TemporaryLoginToken \<Rightarrow> TemporaryLoginToken" where
  "revoke_row userID tokenID revokedAt t =
     (if tk_ID t = tokenID \<and> tk_CreatedBy t = userID \<and> tk_RevokedAt t = None
      then t\<lparr>tk_RevokedAt := Some revokedAt\<rparr> else t)"

definition RevokeTemporaryLoginToken :: "(nat \<Rightarrow> bool) \<Rightarrow> nat \<Rightarrow> nat \<Rightarrow> int \<Rightarrow> unit auth_proc" where
  "RevokeTemporaryLoginToken fault userID tokenID revokedAt =
     db_write fault (\<lambda>d. d\<lparr>tokens := map (revoke_row userID tokenID revokedAt) (tokens d)\<rparr>)"

section \<open>The service\<close>

datatype temp_error =
    ErrUnauthenticated
  | ErrTemporaryLoginInvalid
  | ErrRandomSource
  | ErrTokenStore db_error

record TemporaryTokenView =
  tv_ID :: nat
  tv_Label :: string
  tv_ExpiresAt :: int
  tv_RevokedAt :: "int option"
  tv_LastUsedAt :: "int option"
  tv_CreatedAt :: int
  tv_Status :: string

record CreatedTemporaryToken =
  ct_View :: TemporaryTokenView
  ct_Token :: string

definition DefaultTemporaryLoginTTL :: int where
  "DefaultTemporaryLoginTTL = 3600 * 1000000000"

definition MaxTemporaryLoginTTL :: int where
  "MaxTemporaryLoginTTL = 7 * 24 * 3600 * 1000000000"

definition toView :: "TemporaryLoginToken \<Rightarrow> int \<Rightarrow> TemporaryTokenView" where
  "toView item now =
     \<lparr>tv_ID = tk_ID item, tv_Label = tk_Label item, tv_ExpiresAt = tk_ExpiresAt item,
      tv_RevokedAt = tk_RevokedAt item, tv_LastUsedAt = tk_LastUsedAt item,
      tv_CreatedAt = tk_CreatedAt item,
      tv_Status = (if tk_RevokedAt item \<noteq> None then ''revoked''
                   else if \<not> tk_ExpiresAt item > now then ''expired'' else ''active'')\<rparr>"

definition randomToken :: "string option \<Rightarrow> temp_error + string" where
  "randomToken random =
     (case random of None \<Rightarrow> Inl ErrRandomSource | Some buf \<Rightarrow> Inr (''cylism_tmp_'' @ b64_encode buf))"

definition hashToken :: "(string \<Rightarrow> string) \<Rightarrow> string \<Rightarrow> string" where
  "hashToken sha value = b64_encode (sha value)"

definition clamp_ttl :: "int \<Rightarrow> int" where
  "clamp_ttl ttl =
     (let t = (if ttl \<le> 0 then DefaultTemporaryLoginTTL else ttl)
      in if t > MaxTemporaryLoginTTL then MaxTemporaryLoginTTL else t)"

text \<open>Lift a database call into the service's errors.\<close>

definition store_call :: "'a auth_proc \<Rightarrow> (auth_db world, temp_error, 'a) proc" where
  "store_call m w = (case m w of (Inl e, w') \<Rightarrow> (Inl (ErrTokenStore e), w') | (Inr x, w') \<Rightarrow> (Inr x, w'))"

definition Create ::
  "(nat \<Rightarrow> bool) \<Rightarrow> (string \<Rightarrow> string) \<Rightarrow> string option \<Rightarrow> int \<Rightarrow> nat \<Rightarrow> string \<Rightarrow> int \<Rightarrow>
   (auth_db world, temp_error, CreatedTemporaryToken) proc"
where
  "Create fault sha random now userID label ttl =
     (if userID = 0 then failP ErrUnauthenticated
      else case randomToken random of
        Inl e \<Rightarrow> failP e
      | Inr plain \<Rightarrow>
          bindP (store_call (CreateTemporaryLoginToken fault
             \<lparr>tk_ID = 0, tk_TokenHash = hashToken sha plain, tk_CreatedBy = userID,
              tk_Label = TrimSpace label, tk_ExpiresAt = now + clamp_ttl ttl, tk_RevokedAt = None,
              tk_LastUsedAt = None, tk_CreatedAt = now\<rparr>))
          (\<lambda>entity. returnP \<lparr>ct_View = toView entity now, ct_Token = plain\<rparr>))"

definition List_tokens ::
  "(nat \<Rightarrow> bool) \<Rightarrow> int \<Rightarrow> nat \<Rightarrow> (auth_db world, temp_error, TemporaryTokenView list) proc" where
  "List_tokens fault now userID =
     bindP (store_call (ListTemporaryLoginTokens fault userID))
       (\<lambda>items. returnP (map (\<lambda>item. toView item now) items))"

definition Revoke :: "(nat \<Rightarrow> bool) \<Rightarrow> int \<Rightarrow> nat \<Rightarrow> nat \<Rightarrow> (auth_db world, temp_error, unit) proc" where
  "Revoke fault now userID tokenID = store_call (RevokeTemporaryLoginToken fault userID tokenID now)"

definition Redeem ::
  "(nat \<Rightarrow> bool) \<Rightarrow> (string \<Rightarrow> string) \<Rightarrow> int \<Rightarrow> string \<Rightarrow> (auth_db world, temp_error, User) proc" where
  "Redeem fault sha now token =
     (let t = TrimSpace token in
      if t = [] then failP ErrTemporaryLoginInvalid
      else tryP (FindActiveTemporaryLoginToken fault (hashToken sha t) now) (\<lambda>r. case r of
        Inl _ \<Rightarrow> failP ErrTemporaryLoginInvalid
      | Inr entity \<Rightarrow> tryP (GetUserByID fault (tk_CreatedBy entity)) (\<lambda>r. case r of
          Inl _ \<Rightarrow> failP ErrTemporaryLoginInvalid
        | Inr user \<Rightarrow> tryP (MarkTemporaryLoginTokenUsed fault (tk_TokenHash entity) now)
            (\<lambda>_. returnP user))))"

text \<open>\<open>GenerateSessionTokens\<close>: an access and a refresh token for the redeemed user.\<close>

definition GenerateSessionTokens ::
  "mac_fun \<Rightarrow> Claims claims_codec \<Rightarrow> int \<Rightarrow> int \<Rightarrow> string \<Rightarrow> User \<Rightarrow> int \<Rightarrow> int \<Rightarrow>
   token_error + string \<times> string"
where
  "GenerateSessionTokens mac codec now1 now2 secret user accessTTL refreshTTL =
     (case GenerateAccessToken mac codec now1 secret (us_ID user) (us_Username user) accessTTL of
        Inl e \<Rightarrow> Inl e
      | Inr access \<Rightarrow>
          (case GenerateRefreshToken mac codec now2 secret (us_ID user) refreshTTL of
             Inl e \<Rightarrow> Inl e
           | Inr refresh \<Rightarrow> Inr (access, refresh)))"

text \<open>The operations that write, by anyone, at any time, with any outcome.\<close>

inductive temp_step :: "(string \<Rightarrow> string) \<Rightarrow> auth_db world \<Rightarrow> auth_db world \<Rightarrow> bool" for sha where
  step_create: "temp_step sha w (snd (Create fault sha random now userID label ttl w))"
| step_revoke: "temp_step sha w (snd (Revoke fault now userID tokenID w))"
| step_redeem: "temp_step sha w (snd (Redeem fault sha now token w))"

section \<open>Invariant\<close>

definition auth_wf :: "auth_db \<Rightarrow> bool" where
  "auth_wf d \<longleftrightarrow> distinct (map tk_ID (tokens d)) \<and> distinct (map tk_TokenHash (tokens d))"

definition revoked_hash :: "string \<Rightarrow> auth_db \<Rightarrow> bool" where
  "revoked_hash h d = list_ex (\<lambda>t. tk_TokenHash t = h \<and> tk_RevokedAt t \<noteq> None) (tokens d)"

text \<open>What each writing operation does to the token table.\<close>

lemma Create_tokens:
  "tokens (db (snd (Create fault sha random now userID label ttl w))) = tokens (db w) \<or>
   (\<exists>row. tokens (db (snd (Create fault sha random now userID label ttl w))) = tokens (db w) @ [row] \<and>
      tk_ID row = tbl_next tk_ID (tokens (db w)) \<and>
      (\<forall>t \<in> set (tokens (db w)). tk_TokenHash t \<noteq> tk_TokenHash row))"
  by (auto simp: Create_def go_proc store_call_def CreateTemporaryLoginToken_def db_call_def Let_def
      list_ex_iff split: sum.splits)

lemma Revoke_tokens:
  "tokens (db (snd (Revoke fault now userID tokenID w))) = tokens (db w) \<or>
   tokens (db (snd (Revoke fault now userID tokenID w))) = map (revoke_row userID tokenID now) (tokens (db w))"
  by (auto simp: Revoke_def store_call_def RevokeTemporaryLoginToken_def db_defs)

lemma Redeem_tokens:
  "\<exists>h. tokens (db (snd (Redeem fault sha now token w))) = tokens (db w) \<or>
   tokens (db (snd (Redeem fault sha now token w))) = map (use_row h now) (tokens (db w))"
  by (auto simp: Redeem_def go_proc FindActiveTemporaryLoginToken_def GetUserByID_def db_defs
      MarkTemporaryLoginTokenUsed_def Let_def found_def split: option.splits)

lemma row_fields [simp]:
  "tk_ID (revoke_row u i now t) = tk_ID t" "tk_TokenHash (revoke_row u i now t) = tk_TokenHash t"
  "tk_ID (use_row h now t) = tk_ID t" "tk_TokenHash (use_row h now t) = tk_TokenHash t"
  "tk_RevokedAt (use_row h now t) = tk_RevokedAt t"
  by (simp_all add: revoke_row_def use_row_def)

lemma row_comp [simp]:
  "tk_ID \<circ> revoke_row u i now = tk_ID" "tk_TokenHash \<circ> revoke_row u i now = tk_TokenHash"
  "tk_ID \<circ> use_row h now = tk_ID" "tk_TokenHash \<circ> use_row h now = tk_TokenHash"
  by (simp_all add: fun_eq_iff)

lemma revoke_row_stays: "tk_RevokedAt t \<noteq> None \<Longrightarrow> tk_RevokedAt (revoke_row u i now t) \<noteq> None"
  by (simp add: revoke_row_def)

lemma auth_wf_append:
  assumes "auth_wf d" and "tokens d' = tokens d @ [row]"
    and "tk_ID row = tbl_next tk_ID (tokens d)"
    and "\<forall>t \<in> set (tokens d). tk_TokenHash t \<noteq> tk_TokenHash row"
  shows "auth_wf d'"
  using assms tbl_next_fresh [of _ "tokens d" tk_ID] by (fastforce simp: auth_wf_def)

lemma temp_step_wf:
  assumes "temp_step sha w w'" and "auth_wf (db w)"
  shows "auth_wf (db w')"
  using assms
proof cases
  case (step_create fault random now userID label ttl)
  then show ?thesis
    using Create_tokens [of fault sha random now userID label ttl w] assms(2) auth_wf_append
    by (metis auth_wf_def)
next
  case (step_revoke fault now userID tokenID)
  then show ?thesis
    using Revoke_tokens [of fault now userID tokenID w] assms(2) by (auto simp: auth_wf_def)
next
  case (step_redeem fault now token)
  then show ?thesis
    using Redeem_tokens [of fault sha now token w] assms(2) by (auto simp: auth_wf_def)
qed

lemma revoked_hash_map:
  assumes "revoked_hash h d" and "tokens d' = map f (tokens d)"
    and "\<And>t. tk_TokenHash (f t) = tk_TokenHash t"
    and "\<And>t. tk_RevokedAt t \<noteq> None \<Longrightarrow> tk_RevokedAt (f t) \<noteq> None"
  shows "revoked_hash h d'"
proof -
  from assms(1) obtain t where "t \<in> set (tokens d)" "tk_TokenHash t = h" "tk_RevokedAt t \<noteq> None"
    by (auto simp: revoked_hash_def list_ex_iff)
  with assms show ?thesis unfolding revoked_hash_def list_ex_iff by (intro bexI [of _ "f t"]) auto
qed

lemma temp_step_revoked:
  assumes "temp_step sha w w'" and "revoked_hash h (db w)"
  shows "revoked_hash h (db w')"
  using assms(1)
proof cases
  case (step_create fault random now userID label ttl)
  then show ?thesis
    using Create_tokens [of fault sha random now userID label ttl w] assms(2)
    by (auto simp: revoked_hash_def)
next
  case (step_revoke fault now userID tokenID)
  then have "tokens (db w') = tokens (db w) \<or>
      tokens (db w') = map (revoke_row userID tokenID now) (tokens (db w))"
    using Revoke_tokens by blast
  then show ?thesis
    using revoked_hash_map [OF assms(2), of "db w'" "revoke_row userID tokenID now"]
      revoke_row_stays assms(2)
    by (auto simp: revoked_hash_def)
next
  case (step_redeem fault now token)
  then obtain u where "tokens (db w') = tokens (db w) \<or> tokens (db w') = map (use_row u now) (tokens (db w))"
    using Redeem_tokens by blast
  then show ?thesis
    using revoked_hash_map [OF assms(2), of "db w'" "use_row u now"] assms(2)
    by (auto simp: revoked_hash_def)
qed

lemma temp_steps_keep:
  assumes "(temp_step sha)\<^sup>*\<^sup>* w w'" and "auth_wf (db w)" and "revoked_hash h (db w)"
  shows "auth_wf (db w') \<and> revoked_hash h (db w')"
  using assms
  by (induction rule: rtranclp_induct) (auto intro: temp_step_wf temp_step_revoked)

lemma distinct_hash_unique:
  "distinct (map tk_TokenHash ts) \<Longrightarrow> t \<in> set ts \<Longrightarrow> u \<in> set ts \<Longrightarrow>
   tk_TokenHash t = tk_TokenHash u \<Longrightarrow> t = u"
  by (auto simp: distinct_map inj_on_def)

lemma revoked_no_active:
  assumes "auth_wf d" and "revoked_hash h d"
  shows "find (\<lambda>t. tk_TokenHash t = h \<and> tk_RevokedAt t = None \<and> tk_ExpiresAt t > now) (tokens d) = None"
  using assms distinct_hash_unique [of "tokens d"]
  by (fastforce simp: auth_wf_def revoked_hash_def list_ex_iff find_None_iff)

lemma Redeem_no_active:
  assumes "find (\<lambda>t. tk_TokenHash t = hashToken sha (TrimSpace token) \<and> tk_RevokedAt t = None \<and>
    tk_ExpiresAt t > now) (tokens (db w)) = None"
  shows "fst (Redeem fault sha now token w) = Inl ErrTemporaryLoginInvalid"
  using assms by (simp add: Redeem_def go_proc FindActiveTemporaryLoginToken_def db_defs Let_def)

section \<open>Properties\<close>

text \<open>
  C7. A token revoked by its owner is never redeemed again: after a successful revocation, whatever
  sequence of token operations follows, by anyone, at any times and with any database failures,
  redeeming that token fails.
\<close>

theorem revoked_never_redeems:
  assumes wf: "auth_wf (db w0)"
    and row: "t \<in> set (tokens (db w0))" "tk_ID t = tokenID" "tk_CreatedBy t = userID"
    and revoke: "Revoke fault now userID tokenID w0 = (Inr (), w)"
    and later: "(temp_step sha)\<^sup>*\<^sup>* w w'"
    and token: "hashToken sha (TrimSpace token) = tk_TokenHash t"
  shows "fst (Redeem fault' sha now' token w') = Inl ErrTemporaryLoginInvalid"
proof -
  have tokens: "tokens (db w) = map (revoke_row userID tokenID now) (tokens (db w0))"
    using revoke by (auto simp: Revoke_def store_call_def RevokeTemporaryLoginToken_def db_defs
        split: if_splits)
  have "revoked_hash (tk_TokenHash t) (db w)"
    unfolding revoked_hash_def tokens list_ex_iff
    using row by (intro bexI [of _ "revoke_row userID tokenID now t"]) (auto simp: revoke_row_def)
  moreover have "auth_wf (db w)"
    using temp_step_wf [OF step_revoke wf] revoke by (metis snd_conv)
  ultimately have "auth_wf (db w') \<and> revoked_hash (tk_TokenHash t) (db w')"
    using later temp_steps_keep by blast
  then have "find (\<lambda>t'. tk_TokenHash t' = tk_TokenHash t \<and> tk_RevokedAt t' = None \<and>
      tk_ExpiresAt t' > now') (tokens (db w')) = None"
    by (intro revoked_no_active) auto
  then show ?thesis by (intro Redeem_no_active) (simp only: token)
qed

text \<open>A database with one user and one token of that user.\<close>

definition demo_auth :: "auth_db world" where
  "demo_auth = \<lparr>db = \<lparr>users = [\<lparr>us_ID = 1, us_Username = ''ops'', us_PasswordHash = [],
       us_CreatedAt = 0, us_UpdatedAt = 0\<rparr>],
     tokens = [\<lparr>tk_ID = 1, tk_TokenHash = hashToken (\<lambda>s. s) ''t'', tk_CreatedBy = 1, tk_Label = [],
       tk_ExpiresAt = 100, tk_RevokedAt = None, tk_LastUsedAt = None, tk_CreatedAt = 0\<rparr>]\<rparr>, calls = 0\<rparr>"

lemma demo_auth_token:
  "tokens (db demo_auth) = [\<lparr>tk_ID = 1, tk_TokenHash = hashToken (\<lambda>s. s) ''t'', tk_CreatedBy = 1,
     tk_Label = [], tk_ExpiresAt = 100, tk_RevokedAt = None, tk_LastUsedAt = None, tk_CreatedAt = 0\<rparr>]"
  by (simp add: demo_auth_def)

theorem revoked_never_redeems_witness:
  "fst (Redeem (\<lambda>_. False) (\<lambda>s. s) 10 ''t'' demo_auth) = Inr (hd (users (db demo_auth))) \<and>
   fst (Redeem (\<lambda>_. False) (\<lambda>s. s) 10 ''t'' (snd (Revoke (\<lambda>_. False) 5 1 1 demo_auth))) =
     Inl ErrTemporaryLoginInvalid"
proof
  show "fst (Redeem (\<lambda>_. False) (\<lambda>s. s) 10 ''t'' demo_auth) = Inr (hd (users (db demo_auth)))"
    by code_simp
  have wf: "auth_wf (db demo_auth)" by (simp add: auth_wf_def demo_auth_token)
  have rev: "Revoke (\<lambda>_. False) 5 1 1 demo_auth = (Inr (), snd (Revoke (\<lambda>_. False) 5 1 1 demo_auth))"
    by (simp add: Revoke_def store_call_def RevokeTemporaryLoginToken_def db_defs)
  show "fst (Redeem (\<lambda>_. False) (\<lambda>s. s) 10 ''t'' (snd (Revoke (\<lambda>_. False) 5 1 1 demo_auth))) =
     Inl ErrTemporaryLoginInvalid"
    by (rule revoked_never_redeems [OF wf _ _ _ rev, of "hd (tokens (db demo_auth))"])
      (simp_all add: demo_auth_token TrimSpace_plain space_bytes_def space_runes_def)
qed

text \<open>
  A freshly created token works: without database failures it redeems to its creator at every
  moment before its expiry, which lies within seven days of its creation.
\<close>

theorem created_token_redeems:
  assumes create: "Create (\<lambda>_. False) sha (Some buf) now userID label ttl w = (Inr c, w1)"
    and user: "tbl_find us_ID userID (users (db w)) = Some u"
    and time: "t < tv_ExpiresAt (ct_View c)"
  shows "fst (Redeem (\<lambda>_. False) sha t (ct_Token c) w1) = Inr u \<and>
    now < tv_ExpiresAt (ct_View c) \<and> tv_ExpiresAt (ct_View c) \<le> now + 7 * 24 * 3600 * 1000000000"
proof -
  let ?row = "\<lparr>tk_ID = tbl_next tk_ID (tokens (db w)),
    tk_TokenHash = hashToken sha (''cylism_tmp_'' @ b64_encode buf),
    tk_CreatedBy = userID, tk_Label = TrimSpace label, tk_ExpiresAt = now + clamp_ttl ttl,
    tk_RevokedAt = None, tk_LastUsedAt = None, tk_CreatedAt = now\<rparr>"
  have c: "ct_Token c = ''cylism_tmp_'' @ b64_encode buf" "ct_View c = toView ?row now"
      and fresh: "\<forall>r \<in> set (tokens (db w)). tk_TokenHash r \<noteq> tk_TokenHash ?row"
      and w1: "tokens (db w1) = tokens (db w) @ [?row]" "users (db w1) = users (db w)"
    using create
    by (auto simp: Create_def go_proc randomToken_def store_call_def CreateTemporaryLoginToken_def
        db_call_def Let_def list_ex_iff split: if_splits)
  have "TrimSpace (ct_Token c) = ct_Token c" and ne: "ct_Token c \<noteq> []"
    using b64.enc_no_space [of buf]
    by (auto intro!: TrimSpace_plain simp: c space_bytes_def space_runes_def)
  moreover have "t < now + clamp_ttl ttl" using time by (simp add: c toView_def)
  moreover have "find (\<lambda>r. tk_TokenHash r = tk_TokenHash ?row \<and> tk_RevokedAt r = None \<and>
      t < tk_ExpiresAt r) (tokens (db w)) = None"
    using fresh by (auto simp: find_None_iff)
  ultimately have "fst (Redeem (\<lambda>_. False) sha t (ct_Token c) w1) = Inr u"
    using user
    by (simp add: Redeem_def go_proc FindActiveTemporaryLoginToken_def GetUserByID_def db_defs
        MarkTemporaryLoginTokenUsed_def Let_def w1 c)
  moreover have "0 < clamp_ttl ttl" "clamp_ttl ttl \<le> MaxTemporaryLoginTTL"
    by (auto simp: clamp_ttl_def Let_def MaxTemporaryLoginTTL_def DefaultTemporaryLoginTTL_def)
  ultimately show ?thesis by (simp add: c toView_def MaxTemporaryLoginTTL_def)
qed

definition demo_created :: "CreatedTemporaryToken \<times> auth_db world" where
  "demo_created = (case Create (\<lambda>_. False) (\<lambda>s. s) (Some ''xyz'') 10 1 ''ci'' 0 demo_auth of
     (r, w) \<Rightarrow> (projr r, w))"

lemma demo_created_eq:
  "Create (\<lambda>_. False) (\<lambda>s. s) (Some ''xyz'') 10 1 ''ci'' 0 demo_auth =
     (Inr (fst demo_created), snd demo_created)"
  by code_simp

lemma demo_created_expiry: "3600000000009 < tv_ExpiresAt (ct_View (fst demo_created))"
  by code_simp

theorem created_token_redeems_witness:
  "fst (Redeem (\<lambda>_. False) (\<lambda>s. s) 3600000000009 (ct_Token (fst demo_created)) (snd demo_created)) =
     Inr (hd (users (db demo_auth)))"
  using created_token_redeems [OF demo_created_eq _ demo_created_expiry, of "hd (users (db demo_auth))"]
  by (simp add: demo_auth_def tbl_find_def)

end
