(* ===== verification/Security_Crypto.thy ===== *)
theory Security_Crypto
  imports Go_Base64
begin

text \<open>
  \<open>internal/security\<close>: the encryption of stored secrets (\<open>crypto.go\<close>) and the display helpers of
  \<open>sanitize.go\<close>.

  AES-GCM is a parameter, a pair of functions; \<open>base64.StdEncoding\<close> is built on the raw URL coding
  of \<open>Go_Base64\<close> by exchanging the last two letters of the alphabet and padding with \<open>=\<close>.
\<close>

section \<open>Padded standard base64\<close>

definition std_char :: "char \<Rightarrow> char" where
  "std_char c = (if c = CHR ''-'' then CHR ''+'' else if c = CHR ''_'' then CHR ''/'' else c)"

definition url_char :: "char \<Rightarrow> char option" where
  "url_char c =
     (if c = CHR ''+'' then Some CHR ''-'' else if c = CHR ''/'' then Some CHR ''_''
      else if c = CHR ''-'' \<or> c = CHR ''_'' then None else Some c)"

definition std_encode :: "string \<Rightarrow> string" where
  "std_encode s =
     (let t = map std_char (b64_encode s)
      in t @ replicate ((4 - length t mod 4) mod 4) CHR ''='')"

text \<open>
  Line ends are skipped; the rest is whole groups of four, of which the last may end in one or two
  padding bytes.
\<close>

definition unpad :: "string \<Rightarrow> string" where
  "unpad t = (if suffix ''=='' t then TrimSuffix t ''=='' else TrimSuffix t ''='')"

definition std_decode :: "string \<Rightarrow> string option" where
  "std_decode s =
     (let t = filter (\<lambda>c. c \<noteq> CHR 0x0A \<and> c \<noteq> CHR 0x0D) s in
      if length t mod 4 \<noteq> 0 then None
      else case those (map url_char (unpad t)) of
             None \<Rightarrow> None
           | Some u \<Rightarrow> b64_decode u)"

lemma b64_encode_length_mod: "length (b64_encode s) mod 4 \<noteq> 1"
proof -
  have "length (b64_bytes bs) mod 4 \<noteq> 1" for bs
    by (induction bs rule: b64_bytes.induct) auto
  then show ?thesis by (simp add: b64_encode_def)
qed

definition b64_letter :: "char \<Rightarrow> bool" where
  "b64_letter c \<longleftrightarrow> c \<noteq> CHR ''='' \<and> c \<noteq> CHR ''+'' \<and> c \<noteq> CHR ''/'' \<and> c \<noteq> CHR 0x0A \<and> c \<noteq> CHR 0x0D"

lemma enc6_letter: "n < 64 \<Longrightarrow> b64_letter (enc6 n)"
proof -
  assume "n < 64"
  then have "(of_char (enc6 n) :: nat) \<notin> {61, 43, 47, 10, 13}" by (auto simp: enc6_code)
  then show ?thesis by (auto simp: b64_letter_def)
qed

lemma b64_encode_letters: "c \<in> set (b64_encode s) \<Longrightarrow> b64_letter c"
  using enc6_letter by (metis (no_types, lifting) b64_obtain image_iff list.set_map)

lemma url_std [simp]: "b64_letter c \<Longrightarrow> url_char (std_char c) = Some c"
  by (auto simp: url_char_def std_char_def b64_letter_def)

lemma std_char_letter:
  "b64_letter c \<Longrightarrow> std_char c \<noteq> CHR ''='' \<and> std_char c \<noteq> CHR 0x0A \<and> std_char c \<noteq> CHR 0x0D"
  by (auto simp: std_char_def b64_letter_def)

lemma those_url_std: "\<forall>c \<in> set t. b64_letter c \<Longrightarrow> those (map url_char (map std_char t)) = Some t"
  by (induction t) auto

lemma unpad_replicate:
  assumes "CHR ''='' \<notin> set t" and "n \<le> 2"
  shows "unpad (t @ replicate n CHR ''='') = t"
proof -
  have no: "\<not> suffix (u @ ''='') t" for u
    using assms(1) by (auto simp: suffix_def)
  consider "n = 0" | "n = 1" | "n = 2" using assms(2) by linarith
  then show ?thesis
  proof cases
    case 1
    then show ?thesis using no [of "[]"] no [of "''=''"] by (simp add: unpad_def TrimSuffix_def)
  next
    case 2
    have "\<not> suffix ''=='' (t @ ''='')"
      using no [of "[]"] by (auto simp: suffix_def append_eq_append_conv2 Cons_eq_append_conv)
    with 2 show ?thesis by (simp add: unpad_def)
  next
    case 3
    then show ?thesis by (simp add: unpad_def suffix_def numeral_2_eq_2)
  qed
qed

lemma pad_count:
  assumes "m mod 4 \<noteq> 1"
  shows "(4 - m mod 4) mod 4 \<le> (2 :: nat)" and "(m + (4 - m mod 4) mod 4) mod 4 = 0"
proof -
  have "m mod 4 < 4" by simp
  then consider "m mod 4 = 0" | "m mod 4 = 2" | "m mod 4 = 3" using assms by linarith
  then show "(4 - m mod 4) mod 4 \<le> (2 :: nat)" by cases auto
  consider "m mod 4 = 0" | "m mod 4 = 2" | "m mod 4 = 3" using assms \<open>m mod 4 < 4\<close> by linarith
  then show "(m + (4 - m mod 4) mod 4) mod 4 = 0"
  proof cases
    case 2
    then have "(m + 2) mod 4 = 0" by presburger
    with 2 show ?thesis by simp
  next
    case 3
    then have "(m + 1) mod 4 = 0" by presburger
    with 3 show ?thesis by simp
  qed simp
qed

lemma std_decode_encode: "std_decode (std_encode s) = Some s"
proof -
  let ?t = "map std_char (b64_encode s)"
  let ?n = "(4 - length ?t mod 4) mod 4"
  have letters: "\<forall>c \<in> set (b64_encode s). b64_letter c" using b64_encode_letters by blast
  have n: "?n \<le> 2" using pad_count [OF b64_encode_length_mod [of s]] by simp
  have "filter (\<lambda>c. c \<noteq> CHR 0x0A \<and> c \<noteq> CHR 0x0D) (std_encode s) = std_encode s"
    using letters std_char_letter by (auto simp: std_encode_def Let_def filter_id_conv)
  moreover have "length (std_encode s) mod 4 = 0"
    using pad_count(2) [OF b64_encode_length_mod [of s]] by (simp add: std_encode_def Let_def)
  moreover have "CHR ''='' \<notin> set ?t" using letters std_char_letter by force
  then have "unpad (std_encode s) = ?t"
    using unpad_replicate [OF _ n] by (simp add: std_encode_def Let_def)
  ultimately show ?thesis
    using those_url_std [OF letters]
    by (simp only: std_decode_def Let_def b64_decode_encode option.case) simp
qed

section \<open>Encryption of stored secrets\<close>

record aead =
  gcm_Seal :: "string \<Rightarrow> string \<Rightarrow> string \<Rightarrow> string"
  gcm_Open :: "string \<Rightarrow> string \<Rightarrow> string \<Rightarrow> string option"

definition gcm_correct :: "aead \<Rightarrow> bool" where
  "gcm_correct a \<longleftrightarrow> (\<forall>key nonce text. gcm_Open a key nonce (gcm_Seal a key nonce text) = Some text)"

datatype crypto_error =
  ErrCreateCipher | ErrGenerateNonce | ErrDecode | ErrCiphertextTooShort | ErrDecrypt

definition aes_key_ok :: "string \<Rightarrow> bool" where
  "aes_key_ok key = (length key = 16 \<or> length key = 24 \<or> length key = 32)"

definition gcm_NonceSize :: nat where
  "gcm_NonceSize = 12"

text \<open>\<open>random\<close> is what \<open>io.ReadFull(rand.Reader, nonce)\<close> delivers: \<open>NonceSize\<close> bytes or an error.\<close>

definition Encrypt :: "aead \<Rightarrow> string option \<Rightarrow> string \<Rightarrow> string \<Rightarrow> crypto_error + string" where
  "Encrypt a random key plaintext =
     (if \<not> aes_key_ok key then Inl ErrCreateCipher
      else case random of
        None \<Rightarrow> Inl ErrGenerateNonce
      | Some nonce \<Rightarrow> Inr (std_encode (nonce @ gcm_Seal a key nonce plaintext)))"

definition Decrypt :: "aead \<Rightarrow> string \<Rightarrow> string \<Rightarrow> crypto_error + string" where
  "Decrypt a key encoded =
     (case std_decode encoded of
        None \<Rightarrow> Inl ErrDecode
      | Some ciphertext \<Rightarrow>
          if \<not> aes_key_ok key then Inl ErrCreateCipher
          else if length ciphertext < gcm_NonceSize then Inl ErrCiphertextTooShort
          else (case gcm_Open a key (take gcm_NonceSize ciphertext) (drop gcm_NonceSize ciphertext) of
                  None \<Rightarrow> Inl ErrDecrypt
                | Some plaintext \<Rightarrow> Inr plaintext))"

section \<open>Display helpers\<close>

definition Truncate :: "string \<Rightarrow> int \<Rightarrow> string" where
  "Truncate value limit =
     (let n = nat limit in if length value \<le> n then value else take n value @ ''...'')"

definition token_display_char :: "char \<Rightarrow> bool" where
  "token_display_char c = (is_lower c \<or> is_upper c \<or> is_digit c \<or> c = CHR ''-'' \<or> c = CHR '':'')"

definition TokenDisplay :: "string \<Rightarrow> int \<Rightarrow> string" where
  "TokenDisplay value edge =
     (let v = filter token_display_char value in
      if edge < 1 \<or> int (length v) \<le> edge * 2 then v
      else take (nat edge) v @ ''...'' @ drop (length v - nat edge) v)"

section \<open>Properties\<close>

text \<open>
  C8. What \<open>Encrypt\<close> stores, \<open>Decrypt\<close> returns: with a working AES-GCM and a key of a valid length,
  decrypting the stored text under the same key gives the plaintext back, and under a key of an
  invalid length neither direction succeeds.
\<close>

theorem encrypt_roundtrip:
  assumes "gcm_correct a" and "length nonce = 12"
  shows "(if aes_key_ok key
          then \<exists>stored. Encrypt a (Some nonce) key plaintext = Inr stored \<and>
                 Decrypt a key stored = Inr plaintext
          else Encrypt a (Some nonce) key plaintext = Inl ErrCreateCipher \<and>
                 (\<forall>stored. \<exists>e. Decrypt a key stored = Inl e))"
  using assms
  by (auto simp: Encrypt_def Decrypt_def gcm_correct_def gcm_NonceSize_def std_decode_encode
      split: option.splits)

definition demo_aead :: aead where
  "demo_aead = \<lparr>gcm_Seal = (\<lambda>k n t. t @ ''#''), gcm_Open = (\<lambda>k n c. if c = [] then None else Some (butlast c))\<rparr>"

theorem encrypt_roundtrip_witness:
  "\<exists>stored. Encrypt demo_aead (Some ''abcdefghijkl'') ''0123456789abcdef'' ''pw'' = Inr stored \<and>
     Decrypt demo_aead ''0123456789abcdef'' stored = Inr ''pw''"
  using encrypt_roundtrip [of demo_aead "''abcdefghijkl''" "''0123456789abcdef''" "''pw''"]
  by (simp add: gcm_correct_def demo_aead_def aes_key_ok_def)

text \<open>
  The display form of a token keeps at most its two edges and holds only letters, digits,
  \<open>-\<close>, \<open>:\<close> and the dots of the ellipsis; truncation to a limit returns at most three bytes more
  than the limit and starts with the original text.
\<close>

theorem display_bounds:
  "set (TokenDisplay value edge) \<subseteq> {c. token_display_char c} \<union> {CHR ''.''} \<and>
   (edge \<ge> 1 \<longrightarrow> length (TokenDisplay value edge) \<le> 2 * nat edge + 3) \<and>
   length (Truncate value limit) \<le> nat limit + 3 \<and>
   prefix (take (nat limit) value) (Truncate value limit)"
proof (intro conjI impI)
  show "set (TokenDisplay value edge) \<subseteq> {c. token_display_char c} \<union> {CHR ''.''}"
    by (auto simp: TokenDisplay_def Let_def dest!: in_set_takeD in_set_dropD split: if_splits)
  show "length (TokenDisplay value edge) \<le> 2 * nat edge + 3" if "edge \<ge> 1"
    using that by (auto simp: TokenDisplay_def Let_def split: if_splits)
  show "length (Truncate value limit) \<le> nat limit + 3"
    and "prefix (take (nat limit) value) (Truncate value limit)"
    by (auto simp: Truncate_def Let_def)
qed

theorem display_bounds_witness:
  "length (TokenDisplay ''sha256:0123456789abcdef'' 4) \<le> 11"
  using display_bounds [of "''sha256:0123456789abcdef''" 4 0] by simp

end
