(* ===== verification/Platform_Release.thy ===== *)
theory Platform_Release
  imports Go_Store Security_Crypto
begin

text \<open>
  The platform's own updates: \<open>internal/service/platform/release_service.go\<close> over
  \<open>internal/store/platform_repository.go\<close>, the two Deployment calls of
  \<open>internal/k8s/platform.go\<close>, and the update handlers of
  \<open>internal/api/delivery/platform_handler.go\<close>.

  The state is the platform tables and the platform Deployment as the API server has it; which
  database and API calls fail is the parameter \<open>fault\<close>. HMAC-SHA256 is the parameter \<open>mac\<close>, AES-GCM
  the parameter \<open>a\<close>, the JSON decoding of a request body a parameter of the handler. The service
  operations are the rules of \<open>platform_step\<close>, with a clock that never runs backwards.
\<close>

section \<open>Tables\<close>

record PlatformRelease =
  pr_ID :: nat
  pr_Source :: string
  pr_Image :: string
  pr_PreviousImage :: string
  pr_Status :: string
  pr_Detail :: string
  pr_CommitSHA :: string
  pr_RunID :: string
  pr_StartedAt :: "int option"
  pr_CompletedAt :: "int option"
  pr_CreatedAt :: int
  pr_UpdatedAt :: int

record PlatformWebhookNonce =
  wn_Nonce :: string
  wn_ExpiresAt :: int

text \<open>The parts of an \<open>apps/v1\<close> Deployment that the platform reads and writes.\<close>

record Deployment =
  dp_Replicas :: "int option"
  dp_Containers :: "(string \<times> string) list"
  dp_Annotations :: "string gomap"
  dp_AvailableReplicas :: int
  dp_Conditions :: "(string \<times> string \<times> string) list"

record platform_db =
  configs :: "string gomap"
  releases :: "PlatformRelease list"
  nonces :: "PlatformWebhookNonce list"
  deployment :: "Deployment option"

type_synonym faults = "nat \<Rightarrow> bool"
type_synonym ('e, 'a) platform_proc = "(platform_db world, 'e, 'a) proc"

definition GetSystemConfig :: "faults \<Rightarrow> string \<Rightarrow> (db_error, string) platform_proc" where
  "GetSystemConfig fault key = db_read fault (\<lambda>d. found (map_of (configs d) key))"

text \<open>A failed lookup, whatever its cause, is followed by an insert.\<close>

definition SetSystemConfig :: "faults \<Rightarrow> string \<Rightarrow> string \<Rightarrow> (db_error, unit) platform_proc" where
  "SetSystemConfig fault key value =
     tryP (GetSystemConfig fault key) (\<lambda>r. case r of
       Inl _ \<Rightarrow> db_call fault (\<lambda>d. if map_of (configs d) key = None
                  then (Inr (), d\<lparr>configs := configs d @ [(key, value)]\<rparr>) else (Inl ErrConstraint, d))
     | Inr _ \<Rightarrow> db_write fault (\<lambda>d. d\<lparr>configs := map_put key value (configs d)\<rparr>))"

definition CreatePlatformRelease ::
  "faults \<Rightarrow> int \<Rightarrow> PlatformRelease \<Rightarrow> (db_error, PlatformRelease) platform_proc" where
  "CreatePlatformRelease fault now release = db_call fault (\<lambda>d.
     let row = release\<lparr>pr_ID := tbl_next pr_ID (releases d), pr_CreatedAt := now, pr_UpdatedAt := now\<rparr>
     in (Inr row, d\<lparr>releases := releases d @ [row]\<rparr>))"

definition GetPlatformRelease :: "faults \<Rightarrow> nat \<Rightarrow> (db_error, PlatformRelease) platform_proc" where
  "GetPlatformRelease fault i = db_read fault (\<lambda>d. found (tbl_find pr_ID i (releases d)))"

definition ListPlatformReleases :: "faults \<Rightarrow> int \<Rightarrow> (db_error, PlatformRelease list) platform_proc" where
  "ListPlatformReleases fault limit = db_read fault (\<lambda>d.
     let rows = rev (sort_key pr_ID (releases d)) in Inr (if limit > 0 then take (nat limit) rows else rows))"

definition incomplete :: "string \<Rightarrow> bool" where
  "incomplete st = (st = ''accepted'' \<or> st = ''applying'' \<or> st = ''waiting_ready'')"

definition LatestIncompletePlatformRelease :: "faults \<Rightarrow> (db_error, PlatformRelease) platform_proc" where
  "LatestIncompletePlatformRelease fault = db_read fault (\<lambda>d.
     found (find (\<lambda>r. incomplete (pr_Status r)) (rev (sort_key pr_ID (releases d)))))"

definition UpdatePlatformRelease ::
  "faults \<Rightarrow> int \<Rightarrow> PlatformRelease \<Rightarrow> (db_error, unit) platform_proc" where
  "UpdatePlatformRelease fault now release =
     db_write fault (\<lambda>d. d\<lparr>releases := tbl_save pr_ID (release\<lparr>pr_UpdatedAt := now\<rparr>) (releases d)\<rparr>)"

text \<open>The nonce column has a unique index.\<close>

definition CreatePlatformWebhookNonce ::
  "faults \<Rightarrow> string \<Rightarrow> int \<Rightarrow> (db_error, unit) platform_proc" where
  "CreatePlatformWebhookNonce fault nonce expiresAt = db_call fault (\<lambda>d.
     if list_ex (\<lambda>n. wn_Nonce n = nonce) (nonces d) then (Inl ErrConstraint, d)
     else (Inr (), d\<lparr>nonces := nonces d @ [\<lparr>wn_Nonce = nonce, wn_ExpiresAt = expiresAt\<rparr>]\<rparr>))"

definition DeleteExpiredPlatformWebhookNonces :: "faults \<Rightarrow> int \<Rightarrow> (db_error, unit) platform_proc" where
  "DeleteExpiredPlatformWebhookNonces fault now =
     db_write fault (\<lambda>d. d\<lparr>nonces := filter (\<lambda>n. \<not> wn_ExpiresAt n \<le> now) (nonces d)\<rparr>)"

section \<open>The platform Deployment\<close>

definition platformContainerName :: string where "platformContainerName = ''platform''"
definition platformReleaseAnnotation :: string where "platformReleaseAnnotation = ''cylism.io/platform-release''"
definition platformRestartAnnotation :: string where "platformRestartAnnotation = ''cylism.io/platform-restarted-at''"

datatype adapter_error = ReadDeployment | UpdateDeployment | NoPlatformContainer

record PlatformDeploymentStatus =
  ds_Image :: string
  ds_ReleaseID :: nat
  ds_DesiredReplicas :: int
  ds_ReadyReplicas :: int
  ds_Failure :: string

definition get_deployment :: "faults \<Rightarrow> (db_error, Deployment) platform_proc" where
  "get_deployment fault = db_read fault (\<lambda>d. found (deployment d))"

definition container_image :: "(string \<times> string) list \<Rightarrow> string" where
  "container_image cs = (case find (\<lambda>c. fst c = platformContainerName) cs of None \<Rightarrow> [] | Some c \<Rightarrow> snd c)"

fun set_container_image :: "string \<Rightarrow> (string \<times> string) list \<Rightarrow> (string \<times> string) list" where
  "set_container_image img [] = []"
| "set_container_image img ((name, old) # cs) =
     (if name = platformContainerName then (name, img) # cs
      else (name, old) # set_container_image img cs)"

definition deployment_status :: "Deployment \<Rightarrow> adapter_error + PlatformDeploymentStatus" where
  "deployment_status d =
     (let img = container_image (dp_Containers d);
          raw = (case map_of (dp_Annotations d) platformReleaseAnnotation of None \<Rightarrow> [] | Some v \<Rightarrow> v) in
      if img = [] then Inl NoPlatformContainer
      else Inr \<lparr>ds_Image = img, ds_ReleaseID = ParseUint64_value raw,
        ds_DesiredReplicas = (case dp_Replicas d of None \<Rightarrow> 1 | Some n \<Rightarrow> n),
        ds_ReadyReplicas = dp_AvailableReplicas d,
        ds_Failure = fold (\<lambda>(ty, st, msg) acc. if ty = ''ReplicaFailure'' \<and> st = ''True'' then msg else acc)
          (dp_Conditions d) []\<rparr>)"

definition PlatformDeploymentStatusContext ::
  "faults \<Rightarrow> (adapter_error, PlatformDeploymentStatus) platform_proc" where
  "PlatformDeploymentStatusContext fault =
     tryP (get_deployment fault) (\<lambda>r. case r of
       Inl _ \<Rightarrow> failP ReadDeployment
     | Inr d \<Rightarrow> (case deployment_status d of Inl e \<Rightarrow> failP e | Inr st \<Rightarrow> returnP st))"

text \<open>\<open>stamp\<close> is the restart time as text.\<close>

definition updated_deployment :: "string \<Rightarrow> nat \<Rightarrow> string \<Rightarrow> Deployment \<Rightarrow> Deployment" where
  "updated_deployment img releaseID stamp d =
     d\<lparr>dp_Containers := set_container_image img (dp_Containers d),
       dp_Annotations := map_put platformRestartAnnotation stamp
         (map_put platformReleaseAnnotation (show_nat releaseID) (dp_Annotations d))\<rparr>"

definition UpdatePlatformDeploymentContext ::
  "faults \<Rightarrow> string \<Rightarrow> string \<Rightarrow> nat \<Rightarrow> (adapter_error, string) platform_proc" where
  "UpdatePlatformDeploymentContext fault stamp img releaseID =
     tryP (get_deployment fault) (\<lambda>r. case r of
       Inl _ \<Rightarrow> failP ReadDeployment
     | Inr d \<Rightarrow>
         let previous = container_image (dp_Containers d) in
         if previous = [] then failP NoPlatformContainer
         else tryP (db_write fault (\<lambda>s. s\<lparr>deployment := Some (updated_deployment img releaseID stamp d)\<rparr>))
           (\<lambda>r. case r of Inl _ \<Rightarrow> failP UpdateDeployment | Inr _ \<Rightarrow> returnP previous))"

section \<open>The release service\<close>

datatype platform_error =
    ErrStoreUninitialised
  | ErrKubernetesUninitialised
  | ErrPlatformStore db_error
  | ErrWebhookReplay db_error
  | ErrPlatformRandom
  | ErrPlatformCrypto crypto_error
  | ErrInvalidImagePrefix
  | ErrImagePrefixRequired
  | ErrImageNotAllowed
  | ErrImageTag
  | ErrAdapter adapter_error
  | ErrCreatePlatformRelease db_error

text \<open>Whether the collaborators are wired, and the encryption key.\<close>

record ReleaseService =
  rs_releases :: bool
  rs_platform :: bool
  rs_encKey :: string

definition WebhookSecretConfigKey :: string where "WebhookSecretConfigKey = ''platform_deploy_webhook_secret''"
definition ImagePrefixConfigKey :: string where "ImagePrefixConfigKey = ''platform_image_prefix''"
definition DefaultImagePrefix :: string where "DefaultImagePrefix = ''ghcr.io/surrychen/cylism-manager''"
definition webhookMaxSkew :: int where "webhookMaxSkew = 5 * 60 * 1000000000"
definition nonceLifetime :: int where "nonceLifetime = 24 * 3600 * 1000000000"

definition Available :: "ReleaseService \<Rightarrow> bool" where
  "Available s = (rs_releases s \<and> rs_platform s)"

definition webhook_headers_ok :: "string \<Rightarrow> string \<Rightarrow> string \<Rightarrow> bool" where
  "webhook_headers_ok timestampHeader nonce signature \<longleftrightarrow>
     \<not> (length (TrimSpace timestampHeader) = 0 \<or> length (TrimSpace nonce) < 16 \<or>
        length (TrimSpace nonce) > 256 \<or> length (TrimSpace signature) \<noteq> 64)"

definition webhook_time_ok :: "int \<Rightarrow> string \<Rightarrow> bool" where
  "webhook_time_ok now timestampHeader =
     (case ParseInt64 timestampHeader of
        None \<Rightarrow> False
      | Some timestamp \<Rightarrow> \<not> \<bar>now - timestamp * 1000000000\<bar> > webhookMaxSkew)"

definition ValidateWebhook ::
  "faults \<Rightarrow> (string \<Rightarrow> string \<Rightarrow> string) \<Rightarrow> aead \<Rightarrow> ReleaseService \<Rightarrow> int \<Rightarrow>
   string \<Rightarrow> string \<Rightarrow> string \<Rightarrow> string \<Rightarrow> (platform_error, bool) platform_proc"
where
  "ValidateWebhook fault mac a s now timestampHeader nonce signature body =
     (if \<not> rs_releases s \<or> \<not> webhook_headers_ok timestampHeader nonce signature then returnP False
      else if \<not> webhook_time_ok now timestampHeader then returnP False
      else tryP (GetSystemConfig fault WebhookSecretConfigKey) (\<lambda>r. case r of
        Inl _ \<Rightarrow> returnP False
      | Inr encrypted \<Rightarrow>
          (case Decrypt a (rs_encKey s) encrypted of
             Inl _ \<Rightarrow> returnP False
           | Inr secret \<Rightarrow>
               (case hex_decode signature of
                  None \<Rightarrow> returnP False
                | Some provided \<Rightarrow>
                    returnP (provided = mac secret (timestampHeader @ ''.'' @ nonce @ ''.'' @ body))))))"

definition ConsumeWebhookNonce ::
  "faults \<Rightarrow> ReleaseService \<Rightarrow> string \<Rightarrow> int \<Rightarrow> (platform_error, unit) platform_proc" where
  "ConsumeWebhookNonce fault s nonce now =
     (if \<not> rs_releases s then failP ErrStoreUninitialised
      else tryP (DeleteExpiredPlatformWebhookNonces fault now) (\<lambda>r. case r of
        Inl e \<Rightarrow> failP (ErrPlatformStore e)
      | Inr _ \<Rightarrow> tryP (CreatePlatformWebhookNonce fault nonce (now + nonceLifetime)) (\<lambda>r. case r of
          Inl e \<Rightarrow> failP (ErrWebhookReplay e)
        | Inr _ \<Rightarrow> returnP ())))"

definition GenerateWebhookSecret ::
  "faults \<Rightarrow> aead \<Rightarrow> string option \<Rightarrow> string option \<Rightarrow> ReleaseService \<Rightarrow> (platform_error, string) platform_proc" where
  "GenerateWebhookSecret fault a random nonce s =
     (if \<not> rs_releases s then failP ErrStoreUninitialised
      else case random of
        None \<Rightarrow> failP ErrPlatformRandom
      | Some raw \<Rightarrow>
          (case Encrypt a nonce (rs_encKey s) (hex_encode raw) of
             Inl e \<Rightarrow> failP (ErrPlatformCrypto e)
           | Inr encrypted \<Rightarrow>
               tryP (SetSystemConfig fault WebhookSecretConfigKey encrypted) (\<lambda>r. case r of
                 Inl e \<Rightarrow> failP (ErrPlatformStore e)
               | Inr _ \<Rightarrow> returnP (hex_encode raw))))"

subsection \<open>Image admission\<close>

text \<open>\<open>strings.FieldsFunc\<close> with a predicate on ASCII characters: the non-empty parts between them.\<close>

definition FieldsFunc :: "string \<Rightarrow> string \<Rightarrow> string list" where
  "FieldsFunc seps s =
     filter (\<lambda>p. p \<noteq> []) (split_on CHR '','' (map (\<lambda>c. if c \<in> set seps then CHR '','' else c) s))"

definition line_seps :: string where
  "line_seps = [CHR '','', CHR 0x0A, CHR 0x0D]"

definition image_prefix_of :: "string \<Rightarrow> string" where
  "image_prefix_of part = TrimSuffix (TrimSpace part) ''/''"

fun prefix_loop :: "string list \<Rightarrow> string list \<Rightarrow> platform_error + string list" where
  "prefix_loop acc [] = (if acc = [] then Inl ErrImagePrefixRequired else Inr acc)"
| "prefix_loop acc (part # parts) =
     (let pre = image_prefix_of part in
      if pre = [] \<or> ContainsAny pre [CHR ''@'', CHR '' '', CHR 0x09, CHR 0x0D, CHR 0x0A]
      then Inl ErrInvalidImagePrefix
      else if pre \<in> set acc then prefix_loop acc parts
      else prefix_loop (acc @ [pre]) parts)"

definition NormalizeImagePrefixes :: "string \<Rightarrow> platform_error + string list" where
  "NormalizeImagePrefixes raw = prefix_loop [] (FieldsFunc line_seps raw)"

definition ImagePrefixes :: "faults \<Rightarrow> ReleaseService \<Rightarrow> (platform_error, string list) platform_proc" where
  "ImagePrefixes fault s =
     (if \<not> rs_releases s then returnP [DefaultImagePrefix]
      else tryP (GetSystemConfig fault ImagePrefixConfigKey) (\<lambda>r. case r of
        Inl _ \<Rightarrow> returnP [DefaultImagePrefix]
      | Inr raw \<Rightarrow>
          if TrimSpace raw = [] then returnP [DefaultImagePrefix]
          else (case NormalizeImagePrefixes raw of
                  Inl _ \<Rightarrow> returnP [DefaultImagePrefix]
                | Inr prefs \<Rightarrow>
                    if prefs = [] then returnP [DefaultImagePrefix] else returnP prefs)))"

definition SetImagePrefixes ::
  "faults \<Rightarrow> ReleaseService \<Rightarrow> string \<Rightarrow> (platform_error, string list) platform_proc" where
  "SetImagePrefixes fault s raw =
     (if \<not> rs_releases s then failP ErrStoreUninitialised
      else case NormalizeImagePrefixes raw of
        Inl e \<Rightarrow> failP e
      | Inr prefs \<Rightarrow>
          tryP (SetSystemConfig fault ImagePrefixConfigKey (join_with [CHR 0x0A] prefs)) (\<lambda>r. case r of
            Inl e \<Rightarrow> failP (ErrPlatformStore e)
          | Inr _ \<Rightarrow> returnP prefs))"

text \<open>\<open>^[A-Za-z0-9_][A-Za-z0-9_.-]{0,127}$\<close>\<close>

definition tag_start :: "char \<Rightarrow> bool" where
  "tag_start c = (is_upper c \<or> is_lower c \<or> is_digit c \<or> c = CHR ''_'')"

fun imageTagPattern :: "string \<Rightarrow> bool" where
  "imageTagPattern [] = False"
| "imageTagPattern (c # cs) =
     (tag_start c \<and> length cs \<le> 127 \<and> list_all (\<lambda>d. tag_start d \<or> d = CHR ''.'' \<or> d = CHR ''-'') cs)"

definition match_prefix :: "string list \<Rightarrow> string \<Rightarrow> string" where
  "match_prefix prefs img =
     (case find (\<lambda>p. HasPrefix img (p @ '':'')) prefs of None \<Rightarrow> [] | Some p \<Rightarrow> p)"

definition ValidateImage :: "faults \<Rightarrow> ReleaseService \<Rightarrow> string \<Rightarrow> (platform_error, unit) platform_proc" where
  "ValidateImage fault s img =
     bindP (ImagePrefixes fault s) (\<lambda>prefs.
       let trimmed = TrimSpace img; matched = match_prefix prefs trimmed in
       if matched = [] then failP ErrImageNotAllowed
       else if \<not> imageTagPattern (TrimPrefix trimmed (matched @ '':'')) then failP ErrImageTag
       else returnP ())"

subsection \<open>Releases\<close>

definition new_release :: "string \<Rightarrow> string \<Rightarrow> string \<Rightarrow> string \<Rightarrow> string \<Rightarrow> PlatformRelease" where
  "new_release img source commitSHA runID previous =
     \<lparr>pr_ID = 0, pr_Source = source, pr_Image = img, pr_PreviousImage = previous,
      pr_Status = ''accepted'', pr_Detail = [], pr_CommitSHA = TrimSpace commitSHA,
      pr_RunID = TrimSpace runID, pr_StartedAt = None, pr_CompletedAt = None, pr_CreatedAt = 0,
      pr_UpdatedAt = 0\<rparr>"

definition CreateRelease ::
  "faults \<Rightarrow> ReleaseService \<Rightarrow> int \<Rightarrow> string \<Rightarrow> string \<Rightarrow> string \<Rightarrow> string \<Rightarrow>
   (platform_error, PlatformRelease) platform_proc"
where
  "CreateRelease fault s now img source commitSHA runID =
     (if \<not> Available s then failP ErrKubernetesUninitialised
      else tryP (PlatformDeploymentStatusContext fault) (\<lambda>r. case r of
        Inl e \<Rightarrow> failP (ErrAdapter e)
      | Inr status \<Rightarrow>
          tryP (CreatePlatformRelease fault now (new_release img source commitSHA runID (ds_Image status)))
            (\<lambda>r. case r of Inl e \<Rightarrow> failP (ErrCreatePlatformRelease e) | Inr release \<Rightarrow> returnP release)))"

definition Submit ::
  "faults \<Rightarrow> ReleaseService \<Rightarrow> int \<Rightarrow> string \<Rightarrow> string \<Rightarrow> string \<Rightarrow> string \<Rightarrow>
   (platform_error, PlatformRelease) platform_proc"
where
  "Submit fault s now img source commitSHA runID =
     bindP (ValidateImage fault s img) (\<lambda>_. CreateRelease fault s now img source commitSHA runID)"

text \<open>\<open>describe\<close> gives the text of an adapter error.\<close>

definition start_release :: "int \<Rightarrow> PlatformRelease \<Rightarrow> PlatformRelease" where
  "start_release now r =
     r\<lparr>pr_StartedAt := (if pr_StartedAt r = None then Some now else pr_StartedAt r), pr_Status := ''applying''\<rparr>"

definition Apply ::
  "faults \<Rightarrow> (adapter_error \<Rightarrow> string) \<Rightarrow> ReleaseService \<Rightarrow> int \<Rightarrow> string \<Rightarrow> nat \<Rightarrow> (platform_error, unit) platform_proc" where
  "Apply fault describe s now stamp i =
     (if \<not> Available s then returnP ()
      else tryP (GetPlatformRelease fault i) (\<lambda>r. case r of
        Inl _ \<Rightarrow> returnP ()
      | Inr row \<Rightarrow>
          if pr_Status row \<noteq> ''accepted'' \<and> pr_Status row \<noteq> ''applying'' then returnP ()
          else let release = start_release now row in
            tryP (UpdatePlatformRelease fault now release) (\<lambda>r. case r of
              Inl _ \<Rightarrow> returnP ()
            | Inr _ \<Rightarrow>
                tryP (UpdatePlatformDeploymentContext fault stamp (pr_Image release) (pr_ID release)) (\<lambda>r. case r of
                  Inl e \<Rightarrow>
                    tryP (UpdatePlatformRelease fault now
                        (release\<lparr>pr_Status := ''failed'', pr_Detail := describe e, pr_CompletedAt := Some now\<rparr>))
                      (\<lambda>_. returnP ())
                | Inr _ \<Rightarrow>
                    tryP (UpdatePlatformRelease fault now (release\<lparr>pr_Status := ''waiting_ready''\<rparr>))
                      (\<lambda>_. returnP ())))))"

text \<open>The two messages the source writes.\<close>

definition ready_detail :: string where
  "ready_detail = utf8 ''e5b9b3e58fb0e5b7a5e4bd9ce8b49fe8bdbde5b7b2e5b0b1e7bbaa''"

definition timeout_detail :: string where
  "timeout_detail = utf8 ''e7ad89e5be85e5b9b3e58fb0e5b7a5e4bd9ce8b49fe8bdbde5b0b1e7bbaae8b685e697b6''"

definition reconciled :: "int \<Rightarrow> PlatformDeploymentStatus \<Rightarrow> PlatformRelease \<Rightarrow> PlatformRelease option" where
  "reconciled now status release =
     (if ds_ReleaseID status = pr_ID release \<and> ds_Image status = pr_Image release \<and>
         ds_ReadyReplicas status \<ge> ds_DesiredReplicas status \<and> ds_DesiredReplicas status > 0
      then Some (release\<lparr>pr_Status := ''succeeded'', pr_Detail := ready_detail, pr_CompletedAt := Some now\<rparr>)
      else if ds_Failure status \<noteq> [] \<or> now - pr_CreatedAt release > 15 * 60 * 1000000000
      then Some (release\<lparr>pr_Status := ''failed'',
             pr_Detail := (if ds_Failure status = [] then timeout_detail else ds_Failure status),
             pr_CompletedAt := Some now\<rparr>)
      else None)"

definition ReconcileLatest ::
  "faults \<Rightarrow> (adapter_error \<Rightarrow> string) \<Rightarrow> ReleaseService \<Rightarrow> int \<Rightarrow> string \<Rightarrow> (platform_error, unit) platform_proc" where
  "ReconcileLatest fault describe s now stamp =
     (if \<not> Available s then returnP ()
      else tryP (LatestIncompletePlatformRelease fault) (\<lambda>r. case r of
        Inl _ \<Rightarrow> returnP ()
      | Inr release \<Rightarrow> tryP (PlatformDeploymentStatusContext fault) (\<lambda>r. case r of
          Inl _ \<Rightarrow> returnP ()
        | Inr status \<Rightarrow>
            if (pr_Status release = ''accepted'' \<or> pr_Status release = ''applying'') \<and>
               (ds_ReleaseID status \<noteq> pr_ID release \<or> ds_Image status \<noteq> pr_Image release)
            then Apply fault describe s now stamp (pr_ID release)
            else (case reconciled now status release of
                    None \<Rightarrow> returnP ()
                  | Some release' \<Rightarrow> tryP (UpdatePlatformRelease fault now release') (\<lambda>_. returnP ())))))"

section \<open>The update handlers\<close>

datatype refusal =
    Unauthorized
  | BadRequest
  | ValidationFailed platform_error
  | InternalError
  | KubernetesFailed platform_error

record platformDeployRequest =
  rq_Image :: string
  rq_CommitSHA :: string
  rq_RunID :: string

text \<open>\<open>io.ReadAll(io.LimitReader(body, n))\<close>\<close>

fun limit_read :: "int \<Rightarrow> string \<Rightarrow> string" where
  "limit_read n [] = []"
| "limit_read n (c # cs) = (if n \<le> 0 then [] else c # limit_read (n - 1) cs)"

text \<open>
  The four clock readings of a request: at the signature check, at the nonce check, when the release
  row is created and when it is applied.
\<close>

record request_times =
  at_validate :: int
  at_consume :: int
  at_create :: int
  at_apply :: int

definition submit_and_apply ::
  "faults \<Rightarrow> (adapter_error \<Rightarrow> string) \<Rightarrow> ReleaseService \<Rightarrow> request_times \<Rightarrow> string \<Rightarrow>
   string \<Rightarrow> string \<Rightarrow> string \<Rightarrow> string \<Rightarrow> (refusal, PlatformRelease) platform_proc"
where
  "submit_and_apply fault describe s t stamp img source commitSHA runID =
     tryP (CreateRelease fault s (at_create t) img source commitSHA runID) (\<lambda>r. case r of
       Inl e \<Rightarrow> failP (KubernetesFailed e)
     | Inr release \<Rightarrow>
         tryP (Apply fault describe s (at_apply t) stamp (pr_ID release)) (\<lambda>_. returnP release))"

definition Webhook ::
  "faults \<Rightarrow> (string \<Rightarrow> string \<Rightarrow> string) \<Rightarrow> aead \<Rightarrow> (string \<Rightarrow> platformDeployRequest option) \<Rightarrow>
   (adapter_error \<Rightarrow> string) \<Rightarrow> bool \<Rightarrow> ReleaseService \<Rightarrow> request_times \<Rightarrow> string \<Rightarrow>
   string \<Rightarrow> string \<Rightarrow> string \<Rightarrow> string option \<Rightarrow> (refusal, PlatformRelease) platform_proc"
where
  "Webhook fault mac a decode describe store s t stamp timestampHeader nonce signature rawBody =
     (if \<not> store then failP Unauthorized
      else case rawBody of
        None \<Rightarrow> failP BadRequest
      | Some raw \<Rightarrow>
          let body = limit_read (64 * 1024) raw in
          tryP (ValidateWebhook fault mac a s (at_validate t) timestampHeader nonce signature body) (\<lambda>r.
            if r \<noteq> Inr True then failP Unauthorized
            else case decode body of
              None \<Rightarrow> failP BadRequest
            | Some request \<Rightarrow>
                tryP (ValidateImage fault s (rq_Image request)) (\<lambda>r. case r of
                  Inl e \<Rightarrow> failP (ValidationFailed e)
                | Inr _ \<Rightarrow>
                    tryP (ConsumeWebhookNonce fault s nonce (at_consume t)) (\<lambda>r. case r of
                      Inl (ErrWebhookReplay _) \<Rightarrow> failP Unauthorized
                    | Inl _ \<Rightarrow> failP InternalError
                    | Inr _ \<Rightarrow> submit_and_apply fault describe s t stamp (rq_Image request) ''github''
                        (rq_CommitSHA request) (rq_RunID request)))))"

definition ManualUpdate ::
  "faults \<Rightarrow> (adapter_error \<Rightarrow> string) \<Rightarrow> ReleaseService \<Rightarrow> request_times \<Rightarrow> string \<Rightarrow> string option \<Rightarrow>
   (refusal, PlatformRelease) platform_proc"
where
  "ManualUpdate fault describe s t stamp request =
     (case request of
        None \<Rightarrow> failP BadRequest
      | Some img \<Rightarrow>
          tryP (ValidateImage fault s img) (\<lambda>r. case r of
            Inl e \<Rightarrow> failP (ValidationFailed e)
          | Inr _ \<Rightarrow> submit_and_apply fault describe s t stamp img ''manual'' [] []))"

definition Rollback ::
  "faults \<Rightarrow> (adapter_error \<Rightarrow> string) \<Rightarrow> ReleaseService \<Rightarrow> request_times \<Rightarrow> string \<Rightarrow> string \<Rightarrow>
   (refusal, PlatformRelease) platform_proc"
where
  "Rollback fault describe s t stamp idParam =
     (case ParseUint64 idParam of
        None \<Rightarrow> failP BadRequest
      | Some i \<Rightarrow>
          if i = 0 then failP BadRequest
          else tryP (GetPlatformRelease fault i) (\<lambda>r. case r of
            Inl _ \<Rightarrow> failP BadRequest
          | Inr previous \<Rightarrow>
              if pr_PreviousImage previous = [] then failP BadRequest
              else submit_and_apply fault describe s t stamp (pr_PreviousImage previous)
                ''manual_rollback'' [] []))"

text \<open>
  The service operations of concurrent requests in the order in which they take effect, with the
  time of the last one. Each operation is one transaction or, for \<open>Apply\<close>, one holder of the lock.
\<close>

inductive platform_step :: "int \<times> platform_db world \<Rightarrow> int \<times> platform_db world \<Rightarrow> bool" where
  step_consume: "t \<le> t' \<Longrightarrow> platform_step (t, w) (t', snd (ConsumeWebhookNonce fault s nonce t' w))"
| step_secret: "t \<le> t' \<Longrightarrow> platform_step (t, w) (t', snd (GenerateWebhookSecret fault a random iv s w))"
| step_prefixes: "t \<le> t' \<Longrightarrow> platform_step (t, w) (t', snd (SetImagePrefixes fault s raw w))"
| step_create: "t \<le> t' \<Longrightarrow> platform_step (t, w) (t', snd (CreateRelease fault s t' img source sha run w))"
| step_apply: "t \<le> t' \<Longrightarrow> platform_step (t, w) (t', snd (Apply fault describe s t' stamp i w))"
| step_reconcile: "t \<le> t' \<Longrightarrow> platform_step (t, w) (t', snd (ReconcileLatest fault describe s t' stamp w))"

section \<open>Nonces\<close>

interpretation nonce_frame: data_evolution "\<lambda>d d'. nonces d' = nonces d"
  by (rule data_evolution_frame)

lemma SetSystemConfig_frame:
  "keeps (\<lambda>d d'. nonces d' = nonces d) (SetSystemConfig fault key v)"
  "keeps (\<lambda>d d'. releases d' = releases d) (SetSystemConfig fault key v)"
  by (auto simp: keeps_def SetSystemConfig_def GetSystemConfig_def go_proc db_defs split: sum.splits)

lemma GenerateWebhookSecret_frame:
  "keeps (\<lambda>d d'. nonces d' = nonces d) (GenerateWebhookSecret fault a random iv s)"
  by (auto simp: GenerateWebhookSecret_def split: option.splits sum.splits
      intro!: nonce_frame.keeps_intros SetSystemConfig_frame)

lemma SetImagePrefixes_frame:
  "keeps (\<lambda>d d'. nonces d' = nonces d) (SetImagePrefixes fault s raw)"
  by (auto simp: SetImagePrefixes_def split: sum.splits
      intro!: nonce_frame.keeps_intros SetSystemConfig_frame)

lemma adapter_frame:
  "keeps (\<lambda>d d'. nonces d' = nonces d) (PlatformDeploymentStatusContext fault)"
  "keeps (\<lambda>d d'. nonces d' = nonces d) (UpdatePlatformDeploymentContext fault stamp img i)"
  by (auto simp: PlatformDeploymentStatusContext_def UpdatePlatformDeploymentContext_def
      get_deployment_def Let_def split: sum.splits intro!: nonce_frame.keeps_intros)

lemma CreateRelease_frame:
  "keeps (\<lambda>d d'. nonces d' = nonces d) (CreateRelease fault s now img source sha run)"
  by (auto simp: CreateRelease_def CreatePlatformRelease_def Let_def split: sum.splits
      intro!: nonce_frame.keeps_intros adapter_frame)

lemma UpdatePlatformRelease_frame:
  "keeps (\<lambda>d d'. nonces d' = nonces d) (UpdatePlatformRelease fault now r)"
  by (auto simp: UpdatePlatformRelease_def intro!: nonce_frame.keeps_intros)

lemma Apply_frame: "keeps (\<lambda>d d'. nonces d' = nonces d) (Apply fault describe s now stamp i)"
  by (auto simp: Apply_def GetPlatformRelease_def Let_def split: sum.splits
      intro!: nonce_frame.keeps_intros adapter_frame UpdatePlatformRelease_frame)

lemma ReconcileLatest_frame:
  "keeps (\<lambda>d d'. nonces d' = nonces d) (ReconcileLatest fault describe s now stamp)"
  by (auto simp: ReconcileLatest_def LatestIncompletePlatformRelease_def
      split: sum.splits option.splits
      intro!: nonce_frame.keeps_intros adapter_frame UpdatePlatformRelease_frame Apply_frame)

lemmas nonce_frames = GenerateWebhookSecret_frame SetImagePrefixes_frame CreateRelease_frame
  Apply_frame ReconcileLatest_frame

definition nonce_live :: "string \<Rightarrow> int \<Rightarrow> platform_db \<Rightarrow> bool" where
  "nonce_live nonce expires d = list_ex (\<lambda>n. wn_Nonce n = nonce \<and> wn_ExpiresAt n = expires) (nonces d)"

lemma ConsumeWebhookNonce_live:
  assumes "nonce_live nonce expires (db w)" and "now < expires"
  shows "nonce_live nonce expires (db (snd (ConsumeWebhookNonce fault s nonce' now w)))"
  using assms
  by (auto simp: nonce_live_def list_ex_iff ConsumeWebhookNonce_def go_proc db_defs
      DeleteExpiredPlatformWebhookNonces_def CreatePlatformWebhookNonce_def)

lemma platform_step_time: "platform_step c c' \<Longrightarrow> fst c \<le> fst c'"
  by (induction rule: platform_step.induct) auto

lemma platform_step_live:
  assumes "platform_step c c'" and "nonce_live nonce expires (db (snd c))" and "fst c' < expires"
  shows "nonce_live nonce expires (db (snd c'))"
  using assms
proof (induction rule: platform_step.induct)
  case step_consume
  then show ?case using ConsumeWebhookNonce_live by simp
qed (simp_all add: nonce_live_def nonce_frames [THEN keepsD])

lemma platform_steps_live:
  assumes "platform_step\<^sup>*\<^sup>* c c'" and "nonce_live nonce expires (db (snd c))" and "fst c' < expires"
  shows "nonce_live nonce expires (db (snd c')) \<and> fst c \<le> fst c'"
  using assms
proof (induction rule: rtranclp_induct)
  case (step c1 c2)
  then show ?case
    using platform_step_time [of c1 c2] platform_step_live [of c1 c2] by force
qed simp

lemma ConsumeWebhookNonce_records:
  "ConsumeWebhookNonce fault s nonce now w = (Inr (), w') \<Longrightarrow>
   nonce_live nonce (now + nonceLifetime) (db w')"
  by (auto simp: ConsumeWebhookNonce_def nonce_live_def go_proc db_defs
      DeleteExpiredPlatformWebhookNonces_def CreatePlatformWebhookNonce_def split: if_splits)

lemma ConsumeWebhookNonce_refuses:
  assumes "nonce_live nonce expires (db w)" and "now < expires"
  shows "\<exists>e. fst (ConsumeWebhookNonce fault s nonce now w) = Inl e"
  using assms
  by (auto simp: ConsumeWebhookNonce_def nonce_live_def list_ex_iff go_proc db_defs
      DeleteExpiredPlatformWebhookNonces_def CreatePlatformWebhookNonce_def)

lemma ValidateWebhook_time:
  "fst (ValidateWebhook fault mac a s now ts nonce signature body w) = Inr True \<Longrightarrow>
   \<exists>stamp. ParseInt64 ts = Some stamp \<and> \<bar>now - stamp * 1000000000\<bar> \<le> webhookMaxSkew"
  by (auto simp: ValidateWebhook_def webhook_time_ok_def go_proc split: if_splits option.splits)

section \<open>Image admission\<close>

definition image_ok :: "string list \<Rightarrow> string \<Rightarrow> bool" where
  "image_ok prefs img \<longleftrightarrow>
     (\<exists>p \<in> set prefs. \<exists>tag. TrimSpace img = p @ '':'' @ tag \<and> imageTagPattern tag)"

text \<open>What \<open>ImagePrefixes\<close> returns when the database answers.\<close>

definition configured_prefixes :: "platform_db \<Rightarrow> string list" where
  "configured_prefixes d =
     (case map_of (configs d) ImagePrefixConfigKey of
        None \<Rightarrow> [DefaultImagePrefix]
      | Some raw \<Rightarrow>
          if TrimSpace raw = [] then [DefaultImagePrefix]
          else (case NormalizeImagePrefixes raw of Inl _ \<Rightarrow> [DefaultImagePrefix] | Inr ps \<Rightarrow> ps))"

lemma prefix_loop_Inr:
  "prefix_loop acc parts = Inr ps \<Longrightarrow> [] \<notin> set acc \<Longrightarrow> distinct acc \<Longrightarrow>
   ps \<noteq> [] \<and> [] \<notin> set ps \<and> distinct ps \<and> set ps \<subseteq> set acc \<union> image_prefix_of ` set parts \<and>
   (\<forall>p \<in> set ps. p \<in> set acc \<or> \<not> ContainsAny p [CHR ''@'', CHR '' '', CHR 0x09, CHR 0x0D, CHR 0x0A])"
  by (induction acc parts rule: prefix_loop.induct) (auto simp: Let_def split: if_splits)

lemma NormalizeImagePrefixes_Inr:
  assumes "NormalizeImagePrefixes raw = Inr ps"
  shows "ps \<noteq> []" and "[] \<notin> set ps" and "distinct ps"
    and "p \<in> set ps \<Longrightarrow> \<not> ContainsAny p [CHR ''@'', CHR '' '', CHR 0x09, CHR 0x0D, CHR 0x0A]"
  using prefix_loop_Inr [of "[]" "FieldsFunc line_seps raw" ps] assms
  by (auto simp: NormalizeImagePrefixes_def)

lemma ImagePrefixes_cases:
  "\<exists>ps. fst (ImagePrefixes fault s w) = Inr ps \<and> (ps = [DefaultImagePrefix] \<or> ps = configured_prefixes (db w)) \<and>
     [] \<notin> set ps \<and> db (snd (ImagePrefixes fault s w)) = db w"
proof (cases "rs_releases s")
  case True
  show ?thesis
  proof (cases "fault (calls w)")
    case False
    with True show ?thesis
      using NormalizeImagePrefixes_Inr
      by (auto simp: ImagePrefixes_def GetSystemConfig_def configured_prefixes_def go_proc db_defs
          DefaultImagePrefix_def found_def split: option.splits sum.splits)
  next
    case fault: True
    with True show ?thesis
      by (auto simp: ImagePrefixes_def GetSystemConfig_def go_proc db_defs DefaultImagePrefix_def)
  qed
qed (simp add: ImagePrefixes_def go_proc DefaultImagePrefix_def)

lemma match_prefix_Some:
  assumes "match_prefix prefs img \<noteq> []"
  shows "match_prefix prefs img \<in> set prefs \<and> prefix (match_prefix prefs img @ '':'') img"
proof (cases "find (\<lambda>p. HasPrefix img (p @ '':'')) prefs")
  case None
  with assms show ?thesis by (simp add: match_prefix_def)
next
  case (Some p)
  then have "p \<in> set prefs \<and> prefix (p @ '':'') img" by (auto simp: find_Some_iff)
  with Some show ?thesis by (simp add: match_prefix_def)
qed

definition validate_image :: "string list \<Rightarrow> string \<Rightarrow> platform_error + unit" where
  "validate_image prefs img =
     (let trimmed = TrimSpace img; matched = match_prefix prefs trimmed in
      if matched = [] then Inl ErrImageNotAllowed
      else if \<not> imageTagPattern (TrimPrefix trimmed (matched @ '':'')) then Inl ErrImageTag
      else Inr ())"

lemma ValidateImage_eq:
  assumes "fst (ImagePrefixes fault s w) = Inr prefs"
  shows "ValidateImage fault s img w = (validate_image prefs img, snd (ImagePrefixes fault s w))"
  using assms by (cases "ImagePrefixes fault s w")
    (auto simp: ValidateImage_def validate_image_def bindP_def returnP_def failP_def Let_def)

lemma validate_image_sound:
  assumes "validate_image prefs img = Inr ()"
  shows "image_ok prefs img"
proof -
  let ?m = "match_prefix prefs (TrimSpace img)"
  have m: "?m \<noteq> []" "imageTagPattern (TrimPrefix (TrimSpace img) (?m @ '':''))"
    using assms by (auto simp: validate_image_def Let_def split: if_splits)
  moreover obtain tag where tag: "TrimSpace img = (?m @ '':'') @ tag" and mem: "?m \<in> set prefs"
    using match_prefix_Some [OF m(1)] by (auto simp: prefix_def)
  have "TrimPrefix (TrimSpace img) (?m @ '':'') = tag"
    by (subst tag) (rule TrimPrefix_append)
  ultimately show ?thesis
    unfolding image_ok_def using mem tag by (intro bexI [of _ ?m] exI [of _ tag]) auto
qed

lemma ValidateImage_sound:
  assumes "ValidateImage fault s img w = (Inr (), w')"
  shows "(image_ok [DefaultImagePrefix] img \<or> image_ok (configured_prefixes (db w)) img) \<and> db w' = db w"
proof -
  obtain ps where ps: "fst (ImagePrefixes fault s w) = Inr ps"
      "ps = [DefaultImagePrefix] \<or> ps = configured_prefixes (db w)"
      "db (snd (ImagePrefixes fault s w)) = db w"
    using ImagePrefixes_cases by blast
  have "validate_image ps img = Inr ()" and "w' = snd (ImagePrefixes fault s w)"
    using ValidateImage_eq [OF ps(1), of img] assms by auto
  then show ?thesis using validate_image_sound ps by metis
qed

lemma map_join_with: "map f (join_with sep ps) = join_with (map f sep) (map (map f) ps)"
  by (induction sep ps rule: join_with.induct) simp_all

lemma FieldsFunc_lines:
  assumes "ps \<noteq> []" and "\<forall>p \<in> set ps. p \<noteq> [] \<and> set p \<inter> set line_seps = {}"
  shows "FieldsFunc line_seps (join_with [CHR 0x0A] ps) = ps"
proof -
  let ?f = "\<lambda>c. if c \<in> set line_seps then CHR '','' else c"
  have "map (map ?f) ps = ps"
    using assms(2) by (intro map_idI) (auto simp: map_idI disjoint_iff)
  then have "map ?f (join_with [CHR 0x0A] ps) = join_with [CHR '',''] ps"
    by (simp add: map_join_with line_seps_def)
  moreover have "split_on CHR '','' (join_with [CHR '',''] ps) = ps"
    using assms by (intro split_join) (auto simp: line_seps_def)
  ultimately show ?thesis using assms by (auto simp: FieldsFunc_def filter_id_conv)
qed

lemma FieldsFunc_no_sep: "p \<in> set (FieldsFunc line_seps s) \<Longrightarrow> set p \<inter> set line_seps = {}"
proof -
  let ?t = "map (\<lambda>c. if c \<in> set line_seps then CHR '','' else c) s"
  assume p: "p \<in> set (FieldsFunc line_seps s)"
  then have in_split: "p \<in> set (split_on CHR '','' ?t)" by (simp add: FieldsFunc_def)
  then have "CHR '','' \<notin> set p" by (rule split_on_no_sep)
  moreover have "set p \<subseteq> set ?t" using in_split by (rule split_on_set)
  then have "set p \<inter> set line_seps \<subseteq> {CHR '',''}" by auto
  ultimately show ?thesis by auto
qed

lemma prefix_loop_fixed:
  assumes "distinct (acc @ ps)" and "acc @ ps \<noteq> []"
    and "\<forall>p \<in> set ps. p \<noteq> [] \<and> image_prefix_of p = p \<and>
      \<not> ContainsAny p [CHR ''@'', CHR '' '', CHR 0x09, CHR 0x0D, CHR 0x0A]"
  shows "prefix_loop acc ps = Inr (acc @ ps)"
  using assms by (induction acc ps rule: prefix_loop.induct) (auto simp: Let_def)

lemma image_prefix_set: "set (image_prefix_of part) \<subseteq> set part"
  using TrimSuffix_set TrimSpace_set by (fastforce simp: image_prefix_of_def)

lemma NormalizeImagePrefixes_no_sep:
  assumes "NormalizeImagePrefixes raw = Inr ps" and "p \<in> set ps"
  shows "set p \<inter> set line_seps = {}"
proof -
  have "set ps \<subseteq> image_prefix_of ` set (FieldsFunc line_seps raw)"
    using prefix_loop_Inr [of "[]" "FieldsFunc line_seps raw" ps] assms(1)
    by (simp add: NormalizeImagePrefixes_def)
  with assms(2) obtain part where "part \<in> set (FieldsFunc line_seps raw)" "p = image_prefix_of part"
    by blast
  then show ?thesis using FieldsFunc_no_sep [of part raw] image_prefix_set [of part] by blast
qed

text \<open>A prefix that a second normalisation leaves alone.\<close>

definition plain_prefix :: "string \<Rightarrow> bool" where
  "plain_prefix p \<longleftrightarrow> set p \<inter> space_bytes = {} \<and> \<not> suffix ''/'' p"

lemma Normalize_stored:
  assumes "NormalizeImagePrefixes raw = Inr ps" and "\<forall>p \<in> set ps. plain_prefix p"
  shows "NormalizeImagePrefixes (join_with [CHR 0x0A] ps) = Inr ps"
    and "TrimSpace (join_with [CHR 0x0A] ps) \<noteq> []"
proof -
  note ps = NormalizeImagePrefixes_Inr [OF assms(1)]
  have fixed: "image_prefix_of p = p" if "p \<in> set ps" for p
    using that assms(2) by (simp add: image_prefix_of_def plain_prefix_def TrimSpace_plain TrimSuffix_def)
  have "prefix_loop [] ps = Inr ([] @ ps)"
    using ps fixed by (intro prefix_loop_fixed) auto
  moreover have "\<forall>p \<in> set ps. p \<noteq> [] \<and> set p \<inter> set line_seps = {}"
    using ps(2) NormalizeImagePrefixes_no_sep [OF assms(1)] by auto
  ultimately show "NormalizeImagePrefixes (join_with [CHR 0x0A] ps) = Inr ps"
    using FieldsFunc_lines [OF ps(1)] by (simp add: NormalizeImagePrefixes_def)
  obtain p rest where p: "ps = p # rest" using ps(1) by (cases ps) auto
  then obtain c cs where c: "p = c # cs" using ps(2) by (cases p) auto
  have "c \<notin> space_bytes" using assms(2) by (simp add: p c plain_prefix_def)
  moreover have "c \<in> set (join_with [CHR 0x0A] ps)" by (cases rest) (simp_all add: p c)
  ultimately show "TrimSpace (join_with [CHR 0x0A] ps) \<noteq> []" using TrimSpace_Nil_set by blast
qed

lemma SetSystemConfig_stores:
  "SetSystemConfig fault key v w = (Inr u, w') \<Longrightarrow> map_of (configs (db w')) key = Some v"
  by (auto simp: SetSystemConfig_def GetSystemConfig_def go_proc db_defs map_of_map_put found_def map_add_def
      split: if_splits option.splits sum.splits)

text \<open>No allowed prefix hides another one behind a port.\<close>

definition no_shadow :: "string list \<Rightarrow> bool" where
  "no_shadow prefs = list_all (\<lambda>p. list_all (\<lambda>q. \<not> prefix (p @ '':'') q) prefs) prefs"

lemma two_prefixes:
  assumes "prefix (p @ '':'') s" and "prefix (q @ '':'') s"
  shows "p = q \<or> prefix (p @ '':'') q \<or> prefix (q @ '':'') p"
proof -
  have "prefix (p @ '':'') (q @ '':'') \<or> prefix (q @ '':'') (p @ '':'')"
    using assms prefix_same_cases by blast
  then show ?thesis by (auto simp: prefix_snoc)
qed

lemma validate_image_complete:
  assumes "image_ok prefs img" and "no_shadow prefs" and "[] \<notin> set prefs"
  shows "validate_image prefs img = Inr ()"
proof -
  from assms(1) obtain p tag where p: "p \<in> set prefs" "TrimSpace img = p @ '':'' @ tag" "imageTagPattern tag"
    by (auto simp: image_ok_def)
  have "find (\<lambda>q. HasPrefix (TrimSpace img) (q @ '':'')) prefs \<noteq> None"
    using p by (auto simp: find_None_iff prefix_def)
  then obtain q where q: "find (\<lambda>q. HasPrefix (TrimSpace img) (q @ '':'')) prefs = Some q" by auto
  then have qq: "q \<in> set prefs" "prefix (q @ '':'') (TrimSpace img)" by (auto simp: find_Some_iff)
  moreover have "prefix (p @ '':'') (TrimSpace img)" using p by (simp add: prefix_def)
  ultimately have "q = p"
    using two_prefixes [of p "TrimSpace img" q] assms(2) p(1) by (auto simp: no_shadow_def list_all_iff)
  with q p assms(3) have "match_prefix prefs (TrimSpace img) = p" "p \<noteq> []"
    by (auto simp: match_prefix_def)
  then show ?thesis using p by (simp add: validate_image_def TrimPrefix_def prefix_def)
qed

section \<open>The life of a release\<close>

definition status_rank :: "string \<Rightarrow> nat" where
  "status_rank st =
     (if st = ''accepted'' then 0 else if st = ''applying'' then 1
      else if st = ''waiting_ready'' then 2 else 3)"

text \<open>What never changes in a row, and which way its status moves.\<close>

definition release_evolves :: "PlatformRelease \<Rightarrow> PlatformRelease \<Rightarrow> bool" where
  "release_evolves r r' \<longleftrightarrow>
     pr_ID r' = pr_ID r \<and> pr_Image r' = pr_Image r \<and> pr_PreviousImage r' = pr_PreviousImage r \<and>
     pr_Source r' = pr_Source r \<and> pr_CreatedAt r' = pr_CreatedAt r \<and>
     status_rank (pr_Status r) \<le> status_rank (pr_Status r') \<and>
     (status_rank (pr_Status r) = 3 \<longrightarrow> r' = r)"

definition release_wf :: "PlatformRelease list \<Rightarrow> bool" where
  "release_wf rows \<longleftrightarrow> distinct (map pr_ID rows) \<and>
     (\<forall>r \<in> set rows. (pr_CompletedAt r \<noteq> None) = (status_rank (pr_Status r) = 3))"

definition table_evolves :: "PlatformRelease list \<Rightarrow> PlatformRelease list \<Rightarrow> bool" where
  "table_evolves rows rows' \<longleftrightarrow> (release_wf rows \<longrightarrow> release_wf rows' \<and>
     (\<forall>i r. tbl_find pr_ID i rows = Some r \<longrightarrow>
        (\<exists>r'. tbl_find pr_ID i rows' = Some r' \<and> release_evolves r r')))"

lemma release_evolves_refl: "release_evolves r r"
  by (simp add: release_evolves_def)

lemma release_evolves_trans: "release_evolves a b \<Longrightarrow> release_evolves b c \<Longrightarrow> release_evolves a c"
  by (auto simp: release_evolves_def)

lemma table_evolves_refl [simp]: "table_evolves rows rows"
  using release_evolves_refl by (auto simp: table_evolves_def)

interpretation life: data_evolution "\<lambda>d d'. table_evolves (releases d) (releases d')"
proof
  show "table_evolves (releases d) (releases d)" for d by simp
  show "table_evolves (releases d) (releases d') \<Longrightarrow> table_evolves (releases d') (releases d'') \<Longrightarrow>
      table_evolves (releases d) (releases d'')" for d d' d''
    unfolding table_evolves_def using release_evolves_trans by meson
qed

lemma save_evolves:
  assumes "tbl_find pr_ID (pr_ID x) rows = Some r" and "release_evolves r x"
    and "(pr_CompletedAt x \<noteq> None) = (status_rank (pr_Status x) = 3)"
  shows "table_evolves rows (tbl_save pr_ID x rows)"
proof -
  have "release_wf (tbl_save pr_ID x rows)" if "release_wf rows"
    unfolding release_wf_def
  proof (intro conjI ballI)
    show "distinct (map pr_ID (tbl_save pr_ID x rows))"
      using that by (simp add: release_wf_def tbl_save_distinct)
    show "(pr_CompletedAt y \<noteq> None) = (status_rank (pr_Status y) = 3)"
      if "y \<in> set (tbl_save pr_ID x rows)" for y
      using tbl_save_in [OF that] assms(3) \<open>release_wf rows\<close> by (auto simp: release_wf_def)
  qed
  then show ?thesis
    using assms(1,2) release_evolves_refl by (auto simp: table_evolves_def tbl.find_save)
qed

lemma create_evolves:
  assumes "pr_ID x = tbl_next pr_ID rows" and "pr_CompletedAt x = None" and "status_rank (pr_Status x) \<noteq> 3"
  shows "table_evolves rows (rows @ [x])"
  using assms tbl_next_fresh [of _ rows pr_ID] release_evolves_refl
  by (fastforce simp: table_evolves_def release_wf_def tbl_find_def)

lemma CreateRelease_life:
  "keeps (\<lambda>d d'. table_evolves (releases d) (releases d')) (CreateRelease fault s now img source sha run)"
proof -
  have "keeps (\<lambda>d d'. table_evolves (releases d) (releases d')) (PlatformDeploymentStatusContext fault)"
    by (auto simp: PlatformDeploymentStatusContext_def get_deployment_def split: sum.splits
        intro!: life.keeps_intros)
  then show ?thesis
    by (auto simp: CreateRelease_def CreatePlatformRelease_def new_release_def status_rank_def
        Let_def split: sum.splits intro!: life.keeps_intros create_evolves)
qed

lemma configs_life:
  "keeps (\<lambda>d d'. table_evolves (releases d) (releases d')) (SetSystemConfig fault key v)"
  "keeps (\<lambda>d d'. table_evolves (releases d) (releases d')) (GenerateWebhookSecret fault a random iv s)"
  "keeps (\<lambda>d d'. table_evolves (releases d) (releases d')) (SetImagePrefixes fault s raw)"
  "keeps (\<lambda>d d'. table_evolves (releases d) (releases d')) (ConsumeWebhookNonce fault s nonce now)"
proof -
  show set: "keeps (\<lambda>d d'. table_evolves (releases d) (releases d')) (SetSystemConfig fault key v)" for key v
    using SetSystemConfig_frame(2) [of fault key v] by (simp add: keeps_def)
  show "keeps (\<lambda>d d'. table_evolves (releases d) (releases d')) (GenerateWebhookSecret fault a random iv s)"
    by (auto simp: GenerateWebhookSecret_def split: option.splits sum.splits
        intro!: life.keeps_intros set)
  show "keeps (\<lambda>d d'. table_evolves (releases d) (releases d')) (SetImagePrefixes fault s raw)"
    by (auto simp: SetImagePrefixes_def split: sum.splits intro!: life.keeps_intros set)
  show "keeps (\<lambda>d d'. table_evolves (releases d) (releases d')) (ConsumeWebhookNonce fault s nonce now)"
    by (auto simp: ConsumeWebhookNonce_def DeleteExpiredPlatformWebhookNonces_def
        CreatePlatformWebhookNonce_def split: sum.splits if_splits
        intro!: life.keeps_intros)
qed

lemma UpdatePlatformDeployment_releases:
  "releases (db (snd (UpdatePlatformDeploymentContext fault stamp img i w))) = releases (db w)"
  by (auto simp: UpdatePlatformDeploymentContext_def get_deployment_def go_proc db_defs Let_def
      split: sum.splits)

lemma UpdatePlatformRelease_effect:
  "releases (db (snd (UpdatePlatformRelease fault now x w))) =
     (if fault (calls w) then releases (db w)
      else tbl_save pr_ID (x\<lparr>pr_UpdatedAt := now\<rparr>) (releases (db w)))"
  "fst (UpdatePlatformRelease fault now x w) = (if fault (calls w) then Inl ErrDatabase else Inr ())"
  by (simp_all add: UpdatePlatformRelease_def db_defs)

lemma UpdatePlatformRelease_life:
  assumes "tbl_find pr_ID (pr_ID x) (releases (db w)) = Some r" and "release_evolves r (x\<lparr>pr_UpdatedAt := now\<rparr>)"
    and "(pr_CompletedAt x \<noteq> None) = (status_rank (pr_Status x) = 3)"
  shows "table_evolves (releases (db w)) (releases (db (snd (UpdatePlatformRelease fault now x w))))"
  using save_evolves [of "x\<lparr>pr_UpdatedAt := now\<rparr>" "releases (db w)" r] assms
  by (simp add: UpdatePlatformRelease_effect)

lemma table_evolves_wf: "table_evolves rows rows' \<Longrightarrow> release_wf rows \<Longrightarrow> release_wf rows'"
  by (simp add: table_evolves_def)

lemma table_evolves_trans: "table_evolves a b \<Longrightarrow> table_evolves b c \<Longrightarrow> table_evolves a c"
  unfolding table_evolves_def using release_evolves_trans by meson

text \<open>The last write of \<open>Apply\<close>, after the adapter call.\<close>

lemma finish_life:
  assumes "tbl_find pr_ID (pr_ID x) (releases (db w)) = Some (x\<lparr>pr_UpdatedAt := now\<rparr>)"
    and "pr_Status x = ''applying''" and "pr_CompletedAt x = None"
  shows "table_evolves (releases (db w)) (releases (db (snd (UpdatePlatformRelease fault now
      (x\<lparr>pr_Status := ''failed'', pr_Detail := msg, pr_CompletedAt := Some now\<rparr>) w))))"
    and "table_evolves (releases (db w)) (releases (db (snd (UpdatePlatformRelease fault now
      (x\<lparr>pr_Status := ''waiting_ready''\<rparr>) w))))"
  using assms
  by (auto intro!: UpdatePlatformRelease_life simp: release_evolves_def status_rank_def)

lemma apply_tail_life:
  assumes "tbl_find pr_ID (pr_ID x) (releases (db w)) = Some (x\<lparr>pr_UpdatedAt := now\<rparr>)"
    and "pr_Status x = ''applying''" and "pr_CompletedAt x = None"
  shows "table_evolves (releases (db w)) (releases (db (snd
      (tryP (UpdatePlatformDeploymentContext fault stamp (pr_Image x) (pr_ID x)) (\<lambda>r. case r of
        Inl e \<Rightarrow> tryP (UpdatePlatformRelease fault now
            (x\<lparr>pr_Status := ''failed'', pr_Detail := describe e, pr_CompletedAt := Some now\<rparr>)) (\<lambda>_. returnP ())
      | Inr _ \<Rightarrow> tryP (UpdatePlatformRelease fault now (x\<lparr>pr_Status := ''waiting_ready''\<rparr>)) (\<lambda>_. returnP ())) w))))"
proof -
  obtain r w' where r: "UpdatePlatformDeploymentContext fault stamp (pr_Image x) (pr_ID x) w = (r, w')"
    by fastforce
  then have same: "releases (db w') = releases (db w)"
    using UpdatePlatformDeployment_releases by (metis snd_conv)
  have "tbl_find pr_ID (pr_ID x) (releases (db w')) = Some (x\<lparr>pr_UpdatedAt := now\<rparr>)"
    using assms(1) same by simp
  note fin = finish_life [OF this assms(2,3)]
  show ?thesis
    using fin same by (auto simp: tryP_def returnP_def r split: sum.splits prod.splits) (metis snd_conv)+
qed

lemma Apply_life:
  "keeps (\<lambda>d d'. table_evolves (releases d) (releases d')) (Apply fault describe s now stamp i)"
  unfolding keeps_def
proof
  fix w
  show "table_evolves (releases (db w)) (releases (db (snd (Apply fault describe s now stamp i w))))"
  proof (cases "release_wf (releases (db w)) \<and> Available s")
    case True
    obtain r w1 where r: "GetPlatformRelease fault i w = (r, w1)" by fastforce
    then have w1: "db w1 = db w" by (metis GetPlatformRelease_def db_read_db snd_conv)
    show ?thesis
    proof (cases "\<exists>row. r = Inr row \<and> (pr_Status row = ''accepted'' \<or> pr_Status row = ''applying'')")
      case False
      with True r w1 show ?thesis by (auto simp: Apply_def tryP_def returnP_def split: sum.splits)
    next
      case found: True
      then obtain row where row: "r = Inr row" "pr_Status row = ''accepted'' \<or> pr_Status row = ''applying''"
        by blast
      let ?x = "start_release now row"
      have f: "tbl_find pr_ID i (releases (db w1)) = Some row"
        using db_read_Inr r row(1) w1 unfolding GetPlatformRelease_def by (metis found_simps(3))
      then have key: "pr_ID row = i" "row \<in> set (releases (db w1))" using tbl_find_key by metis+
      then have none: "pr_CompletedAt row = None"
        using True row(2) w1 by (auto simp: release_wf_def status_rank_def)
      have first: "table_evolves (releases (db w1)) (releases (db (snd (UpdatePlatformRelease fault now ?x w1))))"
        using f key row(2) none
        by (intro UpdatePlatformRelease_life [where r = row])
          (auto simp: start_release_def release_evolves_def status_rank_def)
      obtain q w2 where q: "UpdatePlatformRelease fault now ?x w1 = (q, w2)" by fastforce
      show ?thesis
      proof (cases q)
        case (Inl e)
        with True r row q w1 first show ?thesis
          by (auto simp: Apply_def tryP_def returnP_def Let_def)
      next
        case (Inr u)
        then have "\<not> fault (calls w1)"
          using UpdatePlatformRelease_effect(2) [of fault now ?x w1] q by auto
        then have "releases (db w2) = tbl_save pr_ID (?x\<lparr>pr_UpdatedAt := now\<rparr>) (releases (db w1))"
          using UpdatePlatformRelease_effect(1) [of fault now ?x w1] q by simp
        then have "tbl_find pr_ID (pr_ID ?x) (releases (db w2)) = Some (?x\<lparr>pr_UpdatedAt := now\<rparr>)"
          by (simp add: tbl.find_save)
        note tail = apply_tail_life [OF this, of fault stamp describe]
        have x: "pr_Status ?x = ''applying''" "pr_CompletedAt ?x = None"
          using none by (simp_all add: start_release_def)
        have "table_evolves (releases (db w1)) (releases (db w2))" using first q by simp
        note table_evolves_trans [OF this tail [OF x]]
        with True r row q w1 Inr show ?thesis
          by (auto simp: Apply_def tryP_eq Let_def)
      qed
    qed
  qed (auto simp: table_evolves_def Apply_def returnP_def release_evolves_refl)
qed

lemma LatestIncomplete_Inr:
  assumes "LatestIncompletePlatformRelease fault w = (Inr r, w')"
  shows "r \<in> set (releases (db w)) \<and> incomplete (pr_Status r) \<and> db w' = db w"
proof -
  have "find (\<lambda>r. incomplete (pr_Status r)) (rev (sort_key pr_ID (releases (db w)))) = Some r"
      and same: "db w' = db w"
    using db_read_Inr [OF assms [unfolded LatestIncompletePlatformRelease_def]] by auto
  then have "r \<in> set (rev (sort_key pr_ID (releases (db w)))) \<and> incomplete (pr_Status r)"
    unfolding find_Some_iff by (metis nth_mem)
  with same show ?thesis by simp
qed

lemma incomplete_rank: "incomplete st \<Longrightarrow> status_rank st \<le> 2"
  by (auto simp: incomplete_def status_rank_def)

lemma status_rank_final: "status_rank ''succeeded'' = 3" "status_rank ''failed'' = 3"
  by (simp_all add: status_rank_def)

lemma reconciled_evolves:
  assumes "reconciled now status r = Some r'" and "incomplete (pr_Status r)"
  shows "release_evolves r (r'\<lparr>pr_UpdatedAt := t\<rparr>)" and "pr_ID r' = pr_ID r"
    and "pr_CompletedAt r' \<noteq> None \<and> status_rank (pr_Status r') = 3"
  using assms(1) incomplete_rank [OF assms(2)]
  by (auto simp: reconciled_def release_evolves_def status_rank_final split: if_splits)

lemma ReconcileLatest_life:
  "keeps (\<lambda>d d'. table_evolves (releases d) (releases d')) (ReconcileLatest fault describe s now stamp)"
  unfolding keeps_def
proof
  fix w
  show "table_evolves (releases (db w)) (releases (db (snd (ReconcileLatest fault describe s now stamp w))))"
  proof (cases "release_wf (releases (db w)) \<and> Available s")
    case True
    obtain q w1 where q: "LatestIncompletePlatformRelease fault w = (q, w1)" by fastforce
    obtain p w2 where p: "PlatformDeploymentStatusContext fault w1 = (p, w2)" by fastforce
    have w1: "db w1 = db w" using q by (metis LatestIncompletePlatformRelease_def db_read_db snd_conv)
    have "db (snd (PlatformDeploymentStatusContext fault w1)) = db w1"
      by (auto simp: PlatformDeploymentStatusContext_def get_deployment_def go_proc db_defs
          split: sum.splits)
    then have w2: "db w2 = db w" using p w1 by simp
    show ?thesis
    proof (cases q)
      case (Inl e)
      with True q w1 show ?thesis by (simp add: ReconcileLatest_def tryP_eq returnP_def)
    next
      case (Inr r)
      show ?thesis
      proof (cases p)
        case p': (Inl e)
        with True q w2 Inr p show ?thesis by (simp add: ReconcileLatest_def tryP_eq returnP_def)
      next
        case p': (Inr status)
        have r: "r \<in> set (releases (db w2))" "incomplete (pr_Status r)"
          using LatestIncomplete_Inr q Inr w2 by auto
        then have f: "tbl_find pr_ID (pr_ID r) (releases (db w2)) = Some r"
          using True w2 by (simp add: release_wf_def tbl_find_member)
        have app: "table_evolves (releases (db w2)) (releases (db (snd (Apply fault describe s now stamp i w2))))" for i
          by (rule keepsD [OF Apply_life])
        have upd: "table_evolves (releases (db w2)) (releases (db (snd (UpdatePlatformRelease fault now r' w2))))"
          if "reconciled now status r = Some r'" for r'
          using reconciled_evolves [OF that r(2)] f by (intro UpdatePlatformRelease_life [where r = r]) auto
        show ?thesis
          using True q p Inr p' w2 app upd
          by (auto simp: ReconcileLatest_def tryP_eq tryP_def [of "UpdatePlatformRelease _ _ _"]
              returnP_def split: option.splits prod.splits)
      qed
    qed
  qed (auto simp: table_evolves_def ReconcileLatest_def returnP_def release_evolves_refl)
qed

lemma platform_step_life:
  "platform_step c c' \<Longrightarrow> table_evolves (releases (db (snd c))) (releases (db (snd c')))"
  by (induction rule: platform_step.induct)
    (simp_all add: CreateRelease_life [THEN keepsD] configs_life [THEN keepsD]
      Apply_life [THEN keepsD] ReconcileLatest_life [THEN keepsD])

lemma platform_steps_life:
  assumes "platform_step\<^sup>*\<^sup>* c c'"
  shows "table_evolves (releases (db (snd c))) (releases (db (snd c')))"
  using assms
proof (induction rule: rtranclp_induct)
  case (step c1 c2)
  then show ?case using platform_step_life table_evolves_trans by blast
qed simp

section \<open>From the request to the running platform\<close>

lemma get_deployment_ok:
  "get_deployment (\<lambda>_. False) w = (found (deployment (db w)), w\<lparr>calls := Suc (calls w)\<rparr>)"
  by (simp add: get_deployment_def db_defs)

lemma container_image_set:
  "container_image cs \<noteq> [] \<Longrightarrow> container_image (set_container_image img cs) = img"
  by (induction img cs rule: set_container_image.induct)
    (auto simp: container_image_def platformContainerName_def)

lemma annotation_put:
  "map_of (map_put platformRestartAnnotation stamp (map_put platformReleaseAnnotation v m))
     platformReleaseAnnotation = Some v"
  by (simp add: map_of_map_put platformRestartAnnotation_def platformReleaseAnnotation_def)

lemma updated_status:
  assumes "container_image (dp_Containers d) \<noteq> []" and "img \<noteq> []" and "i < 2 ^ 64"
    and "dp_Containers d' = dp_Containers (updated_deployment img i stamp d)"
    and "dp_Annotations d' = dp_Annotations (updated_deployment img i stamp d)"
  shows "\<exists>failure. deployment_status d' = Inr \<lparr>ds_Image = img, ds_ReleaseID = i,
     ds_DesiredReplicas = (case dp_Replicas d' of None \<Rightarrow> 1 | Some n \<Rightarrow> n),
     ds_ReadyReplicas = dp_AvailableReplicas d', ds_Failure = failure\<rparr>"
  using assms
  by (simp add: deployment_status_def updated_deployment_def container_image_set annotation_put
      ParseUint64_value_show Let_def)

text \<open>\<open>Apply\<close> without failures: the Deployment runs the image and the release waits for it.\<close>

lemma Apply_success:
  assumes "Available s" and "tbl_find pr_ID i (releases (db w)) = Some r"
    and "pr_Status r = ''accepted'' \<or> pr_Status r = ''applying''"
    and "deployment (db w) = Some d" and "container_image (dp_Containers d) \<noteq> []"
  shows "\<exists>r'. tbl_find pr_ID i (releases (db (snd (Apply (\<lambda>_. False) describe s now stamp i w)))) = Some r' \<and>
      pr_Status r' = ''waiting_ready'' \<and> pr_ID r' = i \<and> pr_Image r' = pr_Image r \<and>
      releases (db (snd (Apply (\<lambda>_. False) describe s now stamp i w))) =
        tbl_save pr_ID r' (tbl_save pr_ID ((start_release now r)\<lparr>pr_UpdatedAt := now\<rparr>) (releases (db w)))"
    and "deployment (db (snd (Apply (\<lambda>_. False) describe s now stamp i w))) =
      Some (updated_deployment (pr_Image r) i stamp d)"
proof -
  have id: "pr_ID r = i" using tbl_find_key [OF assms(2)] by simp
  have start: "pr_Image (start_release now r) = pr_Image r" "pr_ID (start_release now r) = i"
    by (simp_all add: start_release_def id)
  have "snd (Apply (\<lambda>_. False) describe s now stamp i w) =
    w\<lparr>db := (db w)\<lparr>releases := tbl_save pr_ID
          ((start_release now r)\<lparr>pr_Status := ''waiting_ready'', pr_UpdatedAt := now\<rparr>)
          (tbl_save pr_ID ((start_release now r)\<lparr>pr_UpdatedAt := now\<rparr>) (releases (db w))),
        deployment := Some (updated_deployment (pr_Image r) i stamp d)\<rparr>,
      calls := calls w + 5\<rparr>"
    using assms
    by (auto simp: Apply_def GetPlatformRelease_def UpdatePlatformRelease_def get_deployment_ok
        UpdatePlatformDeploymentContext_def go_proc db_defs Let_def start)
  then show "\<exists>r'. tbl_find pr_ID i (releases (db (snd (Apply (\<lambda>_. False) describe s now stamp i w)))) = Some r' \<and>
      pr_Status r' = ''waiting_ready'' \<and> pr_ID r' = i \<and> pr_Image r' = pr_Image r \<and>
      releases (db (snd (Apply (\<lambda>_. False) describe s now stamp i w))) =
        tbl_save pr_ID r' (tbl_save pr_ID ((start_release now r)\<lparr>pr_UpdatedAt := now\<rparr>) (releases (db w)))"
    and "deployment (db (snd (Apply (\<lambda>_. False) describe s now stamp i w))) =
      Some (updated_deployment (pr_Image r) i stamp d)"
    by (simp_all add: tbl.find_save start)
qed

lemma ReconcileLatest_ready:
  assumes "Available s" and "r \<in> set (releases (db w))" and "incomplete (pr_Status r)"
    and "\<And>q. q \<in> set (releases (db w)) \<Longrightarrow> incomplete (pr_Status q) \<Longrightarrow> q \<noteq> r \<Longrightarrow> pr_ID q < pr_ID r"
    and "deployment (db w) = Some d" and "deployment_status d = Inr st"
    and "ds_Image st = pr_Image r" and "ds_ReleaseID st = pr_ID r"
    and "ds_ReadyReplicas st \<ge> ds_DesiredReplicas st" and "ds_DesiredReplicas st > 0"
  shows "tbl_find pr_ID (pr_ID r) (releases (db (snd (ReconcileLatest (\<lambda>_. False) describe s now stamp w)))) =
    Some (r\<lparr>pr_Status := ''succeeded'', pr_Detail := ready_detail, pr_CompletedAt := Some now,
            pr_UpdatedAt := now\<rparr>)"
proof -
  have latest: "LatestIncompletePlatformRelease (\<lambda>_. False) w = (Inr r, w\<lparr>calls := Suc (calls w)\<rparr>)"
    using find_rev_sort_key [of r "releases (db w)" "\<lambda>r. incomplete (pr_Status r)" pr_ID] assms(2-4)
    by (simp add: LatestIncompletePlatformRelease_def db_defs)
  have st: "PlatformDeploymentStatusContext (\<lambda>_. False) (w\<lparr>calls := c\<rparr>) =
      (Inr st, w\<lparr>calls := Suc c\<rparr>)" for c
    using assms(5,6) by (simp add: PlatformDeploymentStatusContext_def get_deployment_ok go_proc)
  show ?thesis
    using assms(1) assms(7-10)
    by (simp add: ReconcileLatest_def tryP_def latest st reconciled_def UpdatePlatformRelease_def db_defs go_proc tbl.find_save)
qed

text \<open>What the handler has checked and done when it answers 202.\<close>

lemma ConsumeWebhookNonce_fresh:
  assumes "ConsumeWebhookNonce fault s nonce now w = (Inr (), w')"
  shows "(\<forall>n \<in> set (nonces (db w)). wn_Nonce n = nonce \<longrightarrow> wn_ExpiresAt n \<le> now) \<and>
    releases (db w') = releases (db w)"
  using assms
  by (auto simp: ConsumeWebhookNonce_def go_proc db_defs DeleteExpiredPlatformWebhookNonces_def
      CreatePlatformWebhookNonce_def list_ex_iff split: if_splits)

lemma ValidateWebhook_sound:
  assumes "ValidateWebhook fault mac a s now ts nonce signature body w = (Inr True, w')"
  shows "(\<exists>encrypted secret. map_of (configs (db w)) WebhookSecretConfigKey = Some encrypted \<and>
      Decrypt a (rs_encKey s) encrypted = Inr secret \<and>
      hex_decode signature = Some (mac secret (ts @ ''.'' @ nonce @ ''.'' @ body))) \<and>
    webhook_time_ok now ts \<and> db w' = db w"
  using assms
  by (auto simp: ValidateWebhook_def GetSystemConfig_def go_proc db_defs found_def
      split: if_splits option.splits sum.splits)

lemma CreateRelease_Inr:
  assumes "CreateRelease fault s now img source sha run w = (Inr release, w')"
  shows "pr_Image release = img \<and> pr_ID release = tbl_next pr_ID (releases (db w)) \<and>
    releases (db w') = releases (db w) @ [release] \<and> pr_Status release = ''accepted'' \<and>
    pr_CompletedAt release = None"
  using assms
  by (auto simp: CreateRelease_def CreatePlatformRelease_def PlatformDeploymentStatusContext_def
      get_deployment_def new_release_def go_proc db_defs Let_def split: if_splits sum.splits option.splits)

lemma submit_and_apply_Inr:
  assumes "submit_and_apply fault describe s t stamp img source sha run w = (Inr release, w')"
    and "release_wf (releases (db w))"
  shows "pr_Image release = img \<and> tbl_find pr_ID (pr_ID release) (releases (db w)) = None \<and>
    (\<exists>row. tbl_find pr_ID (pr_ID release) (releases (db w')) = Some row \<and> release_evolves release row)"
proof -
  obtain r w1 where r: "CreateRelease fault s (at_create t) img source sha run w = (r, w1)"
      "(case r of Inl e \<Rightarrow> failP (KubernetesFailed e)
        | Inr release \<Rightarrow> tryP (Apply fault describe s (at_apply t) stamp (pr_ID release)) (\<lambda>_. returnP release)) w1
       = (Inr release, w')"
    using assms(1) unfolding submit_and_apply_def by (rule tryP_elim) auto
  then have c: "CreateRelease fault s (at_create t) img source sha run w = (Inr release, w1)"
      and w': "w' = snd (Apply fault describe s (at_apply t) stamp (pr_ID release) w1)"
    by (auto simp: failP_def tryP_def returnP_def split: sum.splits prod.splits)
  note new = CreateRelease_Inr [OF c]
  have none: "tbl_find pr_ID (pr_ID release) (releases (db w)) = None" using new tbl_find_next by metis
  then have "tbl_find pr_ID (pr_ID release) (releases (db w1)) = Some release"
    using new by (simp add: tbl_find_def)
  moreover have "release_wf (releases (db w1))"
    using keepsD [OF CreateRelease_life, of w] c assms(2) table_evolves_wf by (metis snd_conv)
  ultimately show ?thesis
    using keepsD [OF Apply_life, of w1] new none unfolding w' table_evolves_def by blast
qed

section \<open>Properties\<close>

text \<open>
  C1. A webhook delivery cannot be replayed: once a request has passed the signature check and its
  nonce has been consumed, no later request with the same timestamp header and nonce gets past the
  nonce check, whatever its body and signature and whatever other requests do in between, as long as
  that later request reaches the nonce check within 23 hours of its own signature check.
\<close>

theorem webhook_replay_rejected:
  assumes valid: "fst (ValidateWebhook fault mac a s v1 ts nonce signature body w0) = Inr True"
    and consumed: "ConsumeWebhookNonce fault1 s nonce c1 w1 = (Inr (), w2)"
    and run: "platform_step\<^sup>*\<^sup>* (c1, w2) (t, w3)"
    and replay: "fst (ValidateWebhook fault2 mac' a' s v2 ts nonce signature' body' w4) = Inr True"
    and times: "v1 \<le> c1" "t \<le> c2" "c2 \<le> v2 + 23 * 3600 * 1000000000"
  shows "\<exists>e. fst (ConsumeWebhookNonce fault3 s nonce c2 w3) = Inl e"
proof -
  obtain stamp where "ParseInt64 ts = Some stamp"
      "\<bar>v1 - stamp * 1000000000\<bar> \<le> webhookMaxSkew" "\<bar>v2 - stamp * 1000000000\<bar> \<le> webhookMaxSkew"
    using ValidateWebhook_time [OF valid] ValidateWebhook_time [OF replay] by auto
  then have c2: "c2 < c1 + nonceLifetime"
    using times by (simp add: webhookMaxSkew_def nonceLifetime_def)
  have "nonce_live nonce (c1 + nonceLifetime) (db w3)"
    using platform_steps_live [OF run, of nonce "c1 + nonceLifetime"]
      ConsumeWebhookNonce_records [OF consumed] c2 times by simp
  then show ?thesis using ConsumeWebhookNonce_refuses c2 by blast
qed


text \<open>
  Admission of platform images: an image that \<open>ValidateImage\<close> accepts is, up to surrounding white
  space, an allowed prefix, a colon and a well-formed tag; and when no allowed prefix continues
  another one with a colon, every such image is accepted.
\<close>

theorem validate_image_correct:
  "\<exists>prefs. fst (ImagePrefixes fault s w) = Inr prefs \<and>
     (fst (ValidateImage fault s img w) = Inr () \<longrightarrow> image_ok prefs img) \<and>
     (image_ok prefs img \<and> no_shadow prefs \<longrightarrow> fst (ValidateImage fault s img w) = Inr ())"
proof -
  obtain prefs where prefs: "fst (ImagePrefixes fault s w) = Inr prefs" "[] \<notin> set prefs"
    using ImagePrefixes_cases by blast
  then show ?thesis
    using ValidateImage_eq [OF prefs(1), of img] validate_image_sound validate_image_complete by auto
qed


text \<open>
  C4. An update that meets no failure reaches the cluster and completes: applying an accepted release
  puts its image and number into the platform Deployment and leaves the release waiting, and as soon
  as the Deployment reports all its replicas ready, the next reconciliation marks the release
  succeeded.
\<close>

theorem update_converges:
  assumes s: "Available s" and wf: "release_wf (releases (db w))"
    and r: "tbl_find pr_ID i (releases (db w)) = Some r" "pr_Status r = ''accepted'' \<or> pr_Status r = ''applying''"
    and latest: "\<forall>q \<in> set (releases (db w)). incomplete (pr_Status q) \<longrightarrow> pr_ID q \<le> i"
    and d: "deployment (db w) = Some d" "container_image (dp_Containers d) \<noteq> []"
    and bounds: "pr_Image r \<noteq> []" "i < 2 ^ 64"
    and applied: "w1 = snd (Apply (\<lambda>_. False) describe s now stamp i w)"
    and ready: "releases (db w2) = releases (db w1)" "deployment (db w2) = Some d2"
      "dp_Containers d2 = dp_Containers (the (deployment (db w1)))"
      "dp_Annotations d2 = dp_Annotations (the (deployment (db w1)))"
      "dp_Replicas d2 = Some n" "n > 0" "dp_AvailableReplicas d2 \<ge> n"
  shows "deployment (db w1) = Some (updated_deployment (pr_Image r) i stamp d) \<and>
    (\<exists>r2. tbl_find pr_ID i (releases (db (snd (ReconcileLatest (\<lambda>_. False) describe s now2 stamp2 w2)))) = Some r2 \<and>
      pr_Status r2 = ''succeeded'' \<and> pr_Image r2 = pr_Image r)"
proof
  show dep: "deployment (db w1) = Some (updated_deployment (pr_Image r) i stamp d)"
    unfolding applied by (rule Apply_success(2) [OF s r d])
  obtain r1 where r1: "tbl_find pr_ID i (releases (db w1)) = Some r1" "pr_Status r1 = ''waiting_ready''"
      "pr_ID r1 = i" "pr_Image r1 = pr_Image r"
      "releases (db w1) = tbl_save pr_ID r1 (tbl_save pr_ID ((start_release now r)\<lparr>pr_UpdatedAt := now\<rparr>) (releases (db w)))"
    unfolding applied using Apply_success(1) [OF s r d] by blast
  have wf1: "distinct (map pr_ID (releases (db w1)))"
    using wf by (simp add: r1(5) tbl_save_distinct release_wf_def)
  have in1: "r1 \<in> set (releases (db w1))" using tbl_find_key r1(1) by metis
  have max: "pr_ID q < pr_ID r1"
    if "q \<in> set (releases (db w1))" "incomplete (pr_Status q)" "q \<noteq> r1" for q
  proof -
    have "pr_ID q \<noteq> i" using wf1 that(1,3) in1 r1(3) by (auto simp: distinct_map inj_on_def)
    moreover have "pr_ID ((start_release now r)\<lparr>pr_UpdatedAt := now\<rparr>) = i"
      using tbl_find_key [OF r(1)] by (simp add: start_release_def)
    ultimately have "q \<in> set (releases (db w))"
      using that(1,3) r1(5) by (metis tbl_save_in)
    with latest that(2) \<open>pr_ID q \<noteq> i\<close> show ?thesis by (auto simp: r1(3))
  qed
  obtain failure where st: "deployment_status d2 = Inr \<lparr>ds_Image = pr_Image r, ds_ReleaseID = i,
     ds_DesiredReplicas = n, ds_ReadyReplicas = dp_AvailableReplicas d2, ds_Failure = failure\<rparr>"
    using updated_status [OF d(2) bounds, of d2 stamp] ready(3-5) dep by auto
  show "\<exists>r2. tbl_find pr_ID i (releases (db (snd (ReconcileLatest (\<lambda>_. False) describe s now2 stamp2 w2)))) = Some r2 \<and>
      pr_Status r2 = ''succeeded'' \<and> pr_Image r2 = pr_Image r"
    using ReconcileLatest_ready [OF s _ _ _ ready(2) st, of r1 describe now2 stamp2] in1 max r1 ready
    by (auto simp: incomplete_def)
qed

text \<open>
  The allowed image prefixes survive storage: prefixes that \<open>SetImagePrefixes\<close> has accepted are
  distinct and not empty, and as long as none of them still ends in a slash or contains white space,
  they are exactly what \<open>ImagePrefixes\<close> returns afterwards.
\<close>

theorem image_prefixes_roundtrip:
  assumes set: "SetImagePrefixes fault s raw w = (Inr ps, w')"
    and plain: "\<forall>p \<in> set ps. plain_prefix p" and ok: "\<not> fault' (calls w')"
  shows "ps \<noteq> [] \<and> distinct ps \<and> fst (ImagePrefixes fault' s w') = Inr ps"
proof -
  have n: "NormalizeImagePrefixes raw = Inr ps" and s: "rs_releases s"
      and stored: "map_of (configs (db w')) ImagePrefixConfigKey = Some (join_with [CHR 0x0A] ps)"
    using set SetSystemConfig_stores
    by (auto simp: SetImagePrefixes_def tryP_def failP_def returnP_def
        split: if_splits sum.splits prod.splits)
  show ?thesis
    using NormalizeImagePrefixes_Inr [OF n] Normalize_stored [OF n plain] stored s ok
    by (simp add: ImagePrefixes_def GetSystemConfig_def go_proc db_defs)
qed

section \<open>A concrete platform\<close>

definition demo_service :: ReleaseService where
  "demo_service = \<lparr>rs_releases = True, rs_platform = True, rs_encKey = ''0123456789abcdef''\<rparr>"

definition demo_mac :: "string \<Rightarrow> string \<Rightarrow> string" where
  "demo_mac key msg = replicate 31 CHR 0x41 @ [hd (rev (key @ msg))]"

definition demo_release :: PlatformRelease where
  "demo_release = (new_release ''ghcr.io/surrychen/cylism-manager:v2'' ''manual'' [] [] ''old'')\<lparr>pr_ID := 1\<rparr>"

definition demo_deployment :: Deployment where
  "demo_deployment = \<lparr>dp_Replicas = Some 1, dp_Containers = [(''platform'', ''old'')], dp_Annotations = [],
     dp_AvailableReplicas = 1, dp_Conditions = []\<rparr>"

definition demo_platform :: "platform_db world" where
  "demo_platform = \<lparr>db = \<lparr>
     configs = [(WebhookSecretConfigKey, projr (Encrypt demo_aead (Some ''abcdefghijkl'') ''0123456789abcdef'' ''k''))],
     releases = [demo_release], nonces = [], deployment = Some demo_deployment\<rparr>, calls = 0\<rparr>"

definition demo_nonce :: string where "demo_nonce = ''nonce-0123456789''"

definition demo_signature :: string where "demo_signature = hex_encode (replicate 31 CHR 0x41 @ ''}'')"

definition demo_decode :: "string \<Rightarrow> platformDeployRequest option" where
  "demo_decode body = (if body = ''{}'' then
     Some \<lparr>rq_Image = ''ghcr.io/surrychen/cylism-manager:v3'', rq_CommitSHA = [], rq_RunID = []\<rparr> else None)"

definition demo_times :: request_times where
  "demo_times = \<lparr>at_validate = 7000000000, at_consume = 7000000001, at_create = 7000000002, at_apply = 7000000003\<rparr>"

definition demo_webhook :: "(refusal + PlatformRelease) \<times> platform_db world" where
  "demo_webhook = Webhook (\<lambda>_. False) demo_mac demo_aead demo_decode (\<lambda>_. []) True demo_service demo_times []
     ''7'' demo_nonce demo_signature (Some ''{}'') demo_platform"

lemma demo_valid:
  "fst (ValidateWebhook (\<lambda>_. False) demo_mac demo_aead demo_service 7000000000 ''7'' demo_nonce
     demo_signature ''{}'' demo_platform) = Inr True"
  by code_simp

lemma demo_valid_again:
  "fst (ValidateWebhook (\<lambda>_. False) demo_mac demo_aead demo_service 8000000000 ''7'' demo_nonce
     demo_signature ''{}'' demo_platform) = Inr True"
  by code_simp

lemma demo_consumed:
  "ConsumeWebhookNonce (\<lambda>_. False) demo_service demo_nonce 7000000001 demo_platform =
     (Inr (), snd (ConsumeWebhookNonce (\<lambda>_. False) demo_service demo_nonce 7000000001 demo_platform))"
  by (simp add: ConsumeWebhookNonce_def DeleteExpiredPlatformWebhookNonces_def demo_service_def
      CreatePlatformWebhookNonce_def go_proc db_defs demo_platform_def)

theorem webhook_replay_rejected_witness:
  "\<exists>e. fst (ConsumeWebhookNonce (\<lambda>_. False) demo_service demo_nonce 8000000001
     (snd (ConsumeWebhookNonce (\<lambda>_. False) demo_service demo_nonce 7000000001 demo_platform))) = Inl e"
  by (rule webhook_replay_rejected [OF demo_valid demo_consumed rtranclp.rtrancl_refl demo_valid_again]) simp_all

lemma demo_platform_wf: "release_wf (releases (db demo_platform))"
  by (simp add: release_wf_def demo_platform_def demo_release_def new_release_def status_rank_def)

lemma demo_platform_find: "tbl_find pr_ID 1 (releases (db demo_platform)) = Some demo_release"
  by (simp add: tbl_find_def demo_platform_def demo_release_def)

lemma demo_run:
  "platform_step\<^sup>*\<^sup>* (0, demo_platform)
     (7, snd (Apply (\<lambda>_. False) (\<lambda>_. []) demo_service 7 [] 1 demo_platform))"
  by (rule r_into_rtranclp, rule step_apply) simp


lemma demo_webhook_ok: "\<not> isl (fst demo_webhook)"
  by code_simp

lemma demo_webhook_eq: "demo_webhook = (Inr (projr (fst demo_webhook)), snd demo_webhook)"
  using demo_webhook_ok by (metis prod.collapse sum.collapse(2))


lemma demo_admits:
  "Available demo_service" "pr_Status demo_release = ''accepted''" "pr_Image demo_release \<noteq> []"
  "deployment (db demo_platform) = Some demo_deployment" "container_image (dp_Containers demo_deployment) \<noteq> []"
  by (simp_all add: Available_def demo_service_def demo_release_def new_release_def demo_platform_def
      demo_deployment_def container_image_def platformContainerName_def)

lemma demo_applied:
  "deployment (db (snd (Apply (\<lambda>_. False) (\<lambda>_. []) demo_service 7 [] 1 demo_platform))) =
     Some (updated_deployment (pr_Image demo_release) 1 [] demo_deployment)"
  by (rule Apply_success(2) [OF demo_admits(1) demo_platform_find _ demo_admits(4,5)])
    (simp add: demo_admits)

lemma demo_latest: "\<forall>q \<in> set (releases (db demo_platform)). incomplete (pr_Status q) \<longrightarrow> pr_ID q \<le> 1"
  by (simp add: demo_platform_def demo_release_def)

theorem update_converges_witness:
  "\<exists>r2. tbl_find pr_ID 1 (releases (db (snd (ReconcileLatest (\<lambda>_. False) (\<lambda>_. []) demo_service 9 []
     (snd (Apply (\<lambda>_. False) (\<lambda>_. []) demo_service 7 [] 1 demo_platform)))))) = Some r2 \<and>
     pr_Status r2 = ''succeeded'' \<and> pr_Image r2 = pr_Image demo_release"
  by (rule conjunct2 [OF update_converges [OF demo_admits(1) demo_platform_wf demo_platform_find _ demo_latest
        demo_admits(4,5,3) _ refl refl demo_applied, where n = 1]])
    (simp_all add: demo_admits demo_applied updated_deployment_def demo_deployment_def del: One_nat_def)

lemma demo_prefixes:
  "NormalizeImagePrefixes ''ghcr.io/a/, quay.io/b,ghcr.io/a'' = Inr [''ghcr.io/a'', ''quay.io/b'']"
  by code_simp

lemma demo_set_prefixes:
  "\<exists>w'. SetImagePrefixes (\<lambda>_. False) demo_service ''ghcr.io/a/, quay.io/b,ghcr.io/a'' demo_platform =
     (Inr [''ghcr.io/a'', ''quay.io/b''], w')"
  by (simp add: SetImagePrefixes_def demo_prefixes SetSystemConfig_def GetSystemConfig_def go_proc db_defs
      demo_service_def demo_platform_def ImagePrefixConfigKey_def WebhookSecretConfigKey_def)

theorem image_prefixes_roundtrip_witness:
  "\<exists>w'. fst (ImagePrefixes (\<lambda>_. False) demo_service w') = Inr [''ghcr.io/a'', ''quay.io/b'']"
proof -
  obtain w' where w': "SetImagePrefixes (\<lambda>_. False) demo_service ''ghcr.io/a/, quay.io/b,ghcr.io/a'' demo_platform =
     (Inr [''ghcr.io/a'', ''quay.io/b''], w')"
    using demo_set_prefixes by blast
  have "\<forall>p \<in> set [''ghcr.io/a'', ''quay.io/b'']. plain_prefix p"
    by (simp add: plain_prefix_def space_bytes_def space_runes_def suffix_def)
  then show ?thesis using image_prefixes_roundtrip [OF w', of "\<lambda>_. False"] by auto
qed

theorem validate_image_correct_witness:
  "fst (ValidateImage (\<lambda>_. True) demo_service ''ghcr.io/surrychen/cylism-manager:v2'' demo_platform) = Inr ()"
proof -
  have prefs: "fst (ImagePrefixes (\<lambda>_. True) demo_service demo_platform) = Inr [DefaultImagePrefix]"
    by (simp add: ImagePrefixes_def GetSystemConfig_def go_proc db_defs demo_service_def)
  have "image_ok [DefaultImagePrefix] ''ghcr.io/surrychen/cylism-manager:v2''"
    unfolding image_ok_def
    by (intro bexI [of _ DefaultImagePrefix] exI [of _ "''v2''"])
      (simp_all add: DefaultImagePrefix_def TrimSpace_plain space_bytes_def space_runes_def tag_start_def
        less_eq_char_def char_class_defs)
  moreover have "no_shadow [DefaultImagePrefix]" by (simp add: no_shadow_def prefix_def)
  ultimately show ?thesis
    using validate_image_correct [of "\<lambda>_. True" demo_service demo_platform "''ghcr.io/surrychen/cylism-manager:v2''"]
      prefs by auto
qed

end
