(* ===== verification/Go_Path.thy ===== *)
theory Go_Path
  imports Go_Prelude
begin

text \<open>
  The functions of Go's package \<open>path\<close> that the release, storage and rendering code calls, and
  their canonical-form theory. \<open>path.Clean\<close> is modelled segment by segment: the byte loop of the
  library pushes ordinary segments, drops empty and \<open>.\<close> segments and pops on \<open>..\<close>. The output
  of a rooted path is a slash and canonical segments, so cleaning twice is cleaning once and a
  clean absolute path never climbs out of the root.
\<close>

fun clean_segs :: "bool \<Rightarrow> string list \<Rightarrow> string list \<Rightarrow> string list" where
  "clean_segs rooted st [] = rev st"
| "clean_segs rooted st (p # ps) =
     (if p = [] \<or> p = ''.'' then clean_segs rooted st ps
      else if p = ''..'' then
        (case st of
           [] \<Rightarrow> if rooted then clean_segs rooted [] ps else clean_segs rooted [''..''] ps
         | t # ts \<Rightarrow>
             if t \<noteq> ''..'' then clean_segs rooted ts ps
             else clean_segs rooted (''..'' # t # ts) ps)
      else clean_segs rooted (p # st) ps)"

definition path_IsAbs :: "string \<Rightarrow> bool" where
  "path_IsAbs s = prefix ''/'' s"

definition path_Clean :: "string \<Rightarrow> string" where
  "path_Clean s =
     (if s = [] then ''.''
      else let rooted = path_IsAbs s;
               out = join_with ''/'' (clean_segs rooted [] (split_on CHR ''/'' s))
           in if rooted then CHR ''/'' # out else if out = [] then ''.'' else out)"

text \<open>\<open>path.Base\<close>: strip trailing slashes, then keep what follows the last slash.\<close>

definition path_Base :: "string \<Rightarrow> string" where
  "path_Base s =
     (if s = [] then ''.''
      else let t = rev (dropWhile (\<lambda>c. c = CHR ''/'') (rev s));
               b = rev (takeWhile (\<lambda>c. c \<noteq> CHR ''/'') (rev t))
           in if b = [] then ''/'' else b)"

text \<open>\<open>path.Dir\<close>: everything up to and including the last slash, cleaned.\<close>

definition path_Dir :: "string \<Rightarrow> string" where
  "path_Dir s = path_Clean (rev (dropWhile (\<lambda>c. c \<noteq> CHR ''/'') (rev s)))"

section \<open>Canonical segments\<close>

definition canonical_segs :: "bool \<Rightarrow> string list \<Rightarrow> bool" where
  "canonical_segs rooted ps \<longleftrightarrow>
     list_all (\<lambda>p. p \<noteq> [] \<and> p \<noteq> ''.'' \<and> CHR ''/'' \<notin> set p) ps \<and>
     ''..'' \<notin> set (dropWhile (\<lambda>p. p = ''..'') ps) \<and> (rooted \<longrightarrow> ''..'' \<notin> set ps)"

lemma canonical_segs_Nil [simp]: "canonical_segs rooted []"
  by (simp add: canonical_segs_def)

lemma last_dropWhile_ne: "dropWhile P xs \<noteq> [] \<Longrightarrow> last (dropWhile P xs) = last xs"
  by (metis last_appendR takeWhile_dropWhile_id)

lemma dropWhile_all: "\<forall>x \<in> set xs. P x \<Longrightarrow> dropWhile P xs = []"
  by (simp add: dropWhile_eq_Nil_conv)

lemma canonical_snoc:
  assumes "canonical_segs rooted ps" and "p \<noteq> []" and "p \<noteq> ''.''" and "CHR ''/'' \<notin> set p"
    and "p \<noteq> ''..''"
  shows "canonical_segs rooted (ps @ [p])"
  using assms by (auto simp: canonical_segs_def dropWhile_append)

lemma canonical_snoc_dots:
  assumes "canonical_segs False ps" and "ps = [] \<or> last ps = ''..''"
  shows "canonical_segs False (ps @ [''..''])"
proof -
  have "dropWhile (\<lambda>p. p = ''..'') ps = []"
  proof (rule ccontr)
    assume ne: "dropWhile (\<lambda>p. p = ''..'') ps \<noteq> []"
    then have "last (dropWhile (\<lambda>p. p = ''..'') ps) = last ps" and "ps \<noteq> []"
      by (auto simp: last_dropWhile_ne)
    with assms ne have "''..'' \<in> set (dropWhile (\<lambda>p. p = ''..'') ps)"
      by (metis last_in_set)
    with assms show False by (simp add: canonical_segs_def)
  qed
  with assms show ?thesis by (auto simp: canonical_segs_def dropWhile_append)
qed

lemma canonical_butlast: "canonical_segs rooted (ps @ [p]) \<Longrightarrow> canonical_segs rooted ps"
  by (auto simp: canonical_segs_def dropWhile_append dropWhile_all split: if_splits)

lemma clean_segs_canonical:
  assumes "canonical_segs rooted (rev st)" and "\<forall>p \<in> set ps. CHR ''/'' \<notin> set p"
  shows "canonical_segs rooted (clean_segs rooted st ps)"
  using assms
proof (induction rooted st ps rule: clean_segs.induct)
  case (2 rooted st p ps)
  show ?case
  proof (cases st)
    case Nil
    with "2" show ?thesis
      using canonical_snoc_dots [of "[]"] canonical_snoc [of rooted "[]" p] by auto
  next
    case (Cons t ts)
    have pop: "canonical_segs rooted (rev ts)"
      using "2.prems"(1) Cons canonical_butlast by simp
    have rooted: "t = ''..'' \<Longrightarrow> \<not> rooted"
      using "2.prems"(1) Cons by (auto simp: canonical_segs_def)
    show ?thesis
      using "2" Cons pop rooted
        canonical_snoc_dots [of "rev st"] canonical_snoc [of rooted "rev st" p]
      by auto
  qed
qed simp

text \<open>Canonical segments are left as they are.\<close>

lemma clean_segs_id:
  assumes "canonical_segs rooted (rev st @ ps)"
  shows "clean_segs rooted st ps = rev st @ ps"
  using assms
proof (induction rooted st ps rule: clean_segs.induct)
  case (2 rooted st p ps)
  then have p: "p \<noteq> []" "p \<noteq> ''.''" by (auto simp: canonical_segs_def)
  show ?case
  proof (cases "p = ''..''")
    case True
    with "2.prems" have "\<not> rooted" by (auto simp: canonical_segs_def)
    moreover have "st = [] \<or> hd st = ''..''"
    proof (cases st)
      case (Cons t ts)
      show ?thesis
      proof (rule ccontr)
        assume "\<not> ?thesis"
        with Cons True have "''..'' \<in> set (dropWhile (\<lambda>q. q = ''..'') (rev st @ p # ps))"
          by (auto simp: dropWhile_append)
        with "2.prems" show False by (simp add: canonical_segs_def)
      qed
    qed simp
    ultimately show ?thesis using "2" True p by (cases st) auto
  next
    case False
    with "2" p show ?thesis by simp
  qed
qed simp

lemma clean_split_canonical:
  "canonical_segs rooted (clean_segs rooted [] (split_on CHR ''/'' s))"
  by (rule clean_segs_canonical) (auto dest: split_on_no_sep)

lemma clean_segs_skip_Nil [simp]: "clean_segs rooted st ([] # ps) = clean_segs rooted st ps"
  by simp

lemma split_rooted: "split_on CHR ''/'' (CHR ''/'' # t) = [] # split_on CHR ''/'' t"
  by simp

section \<open>The cleaned path\<close>

lemma path_Clean_rooted:
  "path_Clean (CHR ''/'' # t) = CHR ''/'' # join_with ''/'' (clean_segs True [] (split_on CHR ''/'' t))"
  by (simp add: path_Clean_def path_IsAbs_def)

lemma clean_join_id:
  assumes "canonical_segs rooted ps"
  shows "clean_segs rooted [] (split_on CHR ''/'' (join_with ''/'' ps)) = ps"
proof (cases "ps = []")
  case False
  with assms have "split_on CHR ''/'' (join_with ''/'' ps) = ps"
    by (intro split_join) (auto simp: canonical_segs_def list_all_iff)
  with assms show ?thesis using clean_segs_id [of rooted "[]" ps] by simp
qed simp

lemma path_IsAbs_iff: "path_IsAbs s \<longleftrightarrow> (\<exists>t. s = CHR ''/'' # t)"
  by (cases s) (auto simp: path_IsAbs_def)

lemma join_canonical_not_abs:
  assumes "canonical_segs rooted ps"
  shows "\<not> path_IsAbs (join_with ''/'' ps)"
proof (cases ps)
  case Nil
  then show ?thesis by (simp add: path_IsAbs_iff)
next
  case (Cons p qs)
  with assms obtain c cs where "p = c # cs" "c \<noteq> CHR ''/''"
    by (cases p) (auto simp: canonical_segs_def)
  with Cons show ?thesis
    by (cases qs) (auto simp: path_IsAbs_iff)
qed

lemma path_Clean_idem [simp]: "path_Clean (path_Clean s) = path_Clean s"
proof (cases "s = []")
  case True
  then show ?thesis by (simp add: path_Clean_def path_IsAbs_def)
next
  case False
  let ?ps = "clean_segs (path_IsAbs s) [] (split_on CHR ''/'' s)"
  have can: "canonical_segs (path_IsAbs s) ?ps" by (rule clean_split_canonical)
  show ?thesis
  proof (cases "path_IsAbs s")
    case True
    then have "path_Clean s = CHR ''/'' # join_with ''/'' ?ps"
      using False by (simp add: path_Clean_def)
    then show ?thesis
      using clean_join_id [OF can] True by (simp add: path_Clean_rooted)
  next
    case rel: False
    show ?thesis
    proof (cases "join_with ''/'' ?ps = []")
      case True
      then show ?thesis using False rel by (simp add: path_Clean_def path_IsAbs_def)
    next
      case ne: False
      then have "path_Clean s = join_with ''/'' ?ps"
        using False rel by (simp add: path_Clean_def)
      moreover have "\<not> path_IsAbs (join_with ''/'' ?ps)"
        using can by (rule join_canonical_not_abs)
      ultimately show ?thesis
        using clean_join_id [OF can] ne rel by (simp add: path_Clean_def)
    qed
  qed
qed

text \<open>A clean absolute path is a slash followed by canonical segments.\<close>

lemma clean_abs_segs:
  assumes "path_Clean s = s" and "path_IsAbs s"
  shows "\<exists>ps. canonical_segs True ps \<and> s = CHR ''/'' # join_with ''/'' ps"
proof -
  from assms(2) obtain t where "s = CHR ''/'' # t" by (auto simp: path_IsAbs_iff)
  with assms(1) show ?thesis
    using clean_split_canonical [of True t] by (metis path_Clean_rooted)
qed

lemma path_Clean_not_Nil [simp]: "path_Clean s \<noteq> []"
  by (auto simp: path_Clean_def Let_def)

lemma path_Clean_abs [simp]: "path_IsAbs (path_Clean s) = path_IsAbs s"
proof (cases "path_IsAbs s")
  case True
  then show ?thesis by (auto simp: path_Clean_def path_IsAbs_def)
next
  case False
  then show ?thesis
    using join_canonical_not_abs [OF clean_split_canonical [of False s]]
    by (auto simp: path_Clean_def path_IsAbs_def Let_def)
qed

end
