(* ===== verification/Release_Spec.thy ===== *)
theory Release_Spec
  imports Go_Store Go_Path
begin

text \<open>
  The release specification of an application: the types of
  \<open>internal/service/application/release_spec_types.go\<close> and the functions of
  \<open>release_spec_normalization.go\<close> and \<open>release_spec_security.go\<close>. Ports, replicas and the other
  \<open>int32\<close> fields are integers: the code only compares and prints them.
\<close>

section \<open>Constants\<close>

definition ManagedByLabel :: string where "ManagedByLabel = ''app.kubernetes.io/managed-by''"
definition ManagedByValue :: string where "ManagedByValue = ''cylism-manager''"
definition ProjectLabel :: string where "ProjectLabel = ''app.kubernetes.io/part-of''"
definition ApplicationNameLabel :: string where "ApplicationNameLabel = ''app.kubernetes.io/name''"
definition EnvironmentLabel :: string where "EnvironmentLabel = ''cylism.io/environment''"
definition ReleaseLabel :: string where "ReleaseLabel = ''cylism.io/release''"
definition ExposureCluster :: string where "ExposureCluster = ''cluster''"
definition ExposureTailnet :: string where "ExposureTailnet = ''tailnet''"
definition ExposurePublic :: string where "ExposurePublic = ''public''"
definition WorkloadKindDeployment :: string where "WorkloadKindDeployment = ''deployment''"
definition WorkloadKindStatefulSet :: string where "WorkloadKindStatefulSet = ''statefulset''"
definition FileMountSourceConfigMap :: string where "FileMountSourceConfigMap = ''configmap''"
definition FileMountSourceSecret :: string where "FileMountSourceSecret = ''secret''"
definition FileMountSourceApplicationConfig :: string where "FileMountSourceApplicationConfig = ''application_config''"
definition FileMountSourceApplicationSecret :: string where "FileMountSourceApplicationSecret = ''application_secret''"

lemmas label_defs = ManagedByLabel_def ManagedByValue_def ProjectLabel_def ApplicationNameLabel_def
  EnvironmentLabel_def ReleaseLabel_def

lemmas exposure_defs = ExposureCluster_def ExposureTailnet_def ExposurePublic_def

lemmas source_defs = FileMountSourceConfigMap_def FileMountSourceSecret_def
  FileMountSourceApplicationConfig_def FileMountSourceApplicationSecret_def

section \<open>Types\<close>

record VolumeMountSpec =
  vm_ClaimName :: string
  vm_MountPath :: string
  vm_ReadOnly :: bool

record FileMountSpec =
  fm_SourceType :: string
  fm_SourceName :: string
  fm_Key :: string
  fm_MountPath :: string
  fm_Managed :: bool

record ResourceSpec =
  rc_RequestsCPU :: string
  rc_RequestsMemory :: string
  rc_LimitsCPU :: string
  rc_LimitsMemory :: string

record HealthSpec =
  hl_ReadinessEnabled :: bool
  hl_ReadinessType :: string
  hl_ReadinessPath :: string
  hl_LivenessEnabled :: bool
  hl_LivenessType :: string
  hl_LivenessPath :: string

record ServicePortSpec =
  po_Name :: string
  po_Port :: int
  po_TargetPort :: int
  po_Protocol :: string
  po_NodePort :: int

record ServiceSpec =
  sv_Port :: int
  sv_TargetPort :: int
  sv_Protocol :: string
  sv_Type :: string
  sv_NodePort :: int
  sv_ExternalTrafficPolicy :: string
  sv_Ports :: "ServicePortSpec list"

record EndpointSpec =
  ep_Exposure :: string
  ep_DomainID :: nat
  ep_Domain :: string
  ep_Path :: string
  ep_TLSEnabled :: bool
  ep_IssuerRef :: string
  ep_IssuerKind :: string
  ep_ManagedCertificateName :: string
  ep_ManagedTLSSecretName :: string

record ReleaseSpec =
  sp_Image :: string
  sp_Version :: string
  sp_Command :: "string list"
  sp_Args :: "string list"
  sp_RegistryID :: nat
  sp_RegistryEndpoint :: string
  sp_RegistryAuthType :: string
  sp_RegistryUsername :: string
  sp_RegistryCredential :: string
  sp_ImageVerificationEndpoint :: string
  sp_ImageVerificationUsername :: string
  sp_ImageVerificationCredential :: string
  sp_ImageVerificationInsecureSkipVerify :: bool
  sp_ContainerPort :: int
  sp_Replicas :: int
  sp_Resources :: ResourceSpec
  sp_Health :: HealthSpec
  sp_Config :: "string gomap"
  sp_ConfigDisabled :: "string list"
  sp_ConfigManagedKeys :: "string list"
  sp_Secrets :: "string gomap"
  sp_SecretsDisabled :: "string list"
  sp_SecretManagedKeys :: "string list"
  sp_NodeName :: string
  sp_HostNetwork :: bool
  sp_Volumes :: "VolumeMountSpec list"
  sp_FileMounts :: "FileMountSpec list"
  sp_Service :: ServiceSpec
  sp_Endpoint :: EndpointSpec

record ApplicationContext =
  cx_ProjectID :: nat
  cx_EnvironmentID :: nat
  cx_ProjectName :: string
  cx_EnvironmentName :: string
  cx_ApplicationName :: string
  cx_Namespace :: string
  cx_ReleaseSequence :: nat
  cx_WorkloadKind :: string

section \<open>Normalisation\<close>

definition appendUniqueKey :: "string list \<Rightarrow> string \<Rightarrow> string list" where
  "appendUniqueKey keys key = (let k = TrimSpace key in if k \<in> set keys then keys else keys @ [k])"

definition managed_mount_keys :: "string \<Rightarrow> FileMountSpec list \<Rightarrow> string list" where
  "managed_mount_keys source mounts =
     fold (\<lambda>m keys. if fm_Managed m \<and> fm_SourceType m = source \<and> fm_Key m \<noteq> []
       then appendUniqueKey keys (fm_Key m) else keys) mounts []"

definition NormalizeManagedKeys :: "ReleaseSpec \<Rightarrow> ReleaseSpec" where
  "NormalizeManagedKeys spec =
     spec\<lparr>sp_ConfigManagedKeys := (if sp_ConfigManagedKeys spec = []
            then managed_mount_keys FileMountSourceApplicationConfig (sp_FileMounts spec)
            else sp_ConfigManagedKeys spec),
          sp_SecretManagedKeys := (if sp_SecretManagedKeys spec = []
            then managed_mount_keys FileMountSourceApplicationSecret (sp_FileMounts spec)
            else sp_SecretManagedKeys spec)\<rparr>"

definition containsKey :: "string list \<Rightarrow> string \<Rightarrow> bool" where
  "containsKey keys key = list_ex (\<lambda>candidate. TrimSpace candidate = key) keys"

definition legacy_managed :: "string \<Rightarrow> FileMountSpec list \<Rightarrow> string \<Rightarrow> bool" where
  "legacy_managed source mounts key =
     list_ex (\<lambda>m. fm_Managed m \<and> fm_SourceType m = source \<and> fm_Key m = key) mounts"

definition IsConfigKeyManaged :: "ReleaseSpec \<Rightarrow> string \<Rightarrow> bool" where
  "IsConfigKeyManaged spec key =
     (if map_of (sp_Config spec) key = None then False
      else if sp_ConfigManagedKeys spec \<noteq> [] then containsKey (sp_ConfigManagedKeys spec) key
      else legacy_managed FileMountSourceApplicationConfig (sp_FileMounts spec) key)"

definition IsSecretKeyManaged :: "ReleaseSpec \<Rightarrow> string \<Rightarrow> bool" where
  "IsSecretKeyManaged spec key =
     (if map_of (sp_Secrets spec) key = None then False
      else if sp_SecretManagedKeys spec \<noteq> [] then containsKey (sp_SecretManagedKeys spec) key
      else legacy_managed FileMountSourceApplicationSecret (sp_FileMounts spec) key)"

definition normalizeServiceProtocol :: "string \<Rightarrow> string" where
  "normalizeServiceProtocol protocol =
     (let p = ToUpper (TrimSpace protocol) in
      if p = [] \<or> p = ''TCP'' then ''TCP'' else if p = ''UDP'' then ''UDP'' else [])"

definition normalizeServiceType :: "string \<Rightarrow> string" where
  "normalizeServiceType serviceType =
     (let t = ToLower (TrimSpace serviceType) in
      if t = [] \<or> t = ''clusterip'' then ''ClusterIP''
      else if t = ''nodeport'' then ''NodePort''
      else if t = ''loadbalancer'' then ''LoadBalancer'' else [])"

definition PortSpecs :: "ServiceSpec \<Rightarrow> ServicePortSpec list" where
  "PortSpecs spec =
     (if sv_Ports spec \<noteq> [] then sv_Ports spec
      else [\<lparr>po_Name = ''service'', po_Port = sv_Port spec, po_TargetPort = sv_TargetPort spec,
              po_Protocol = sv_Protocol spec, po_NodePort = sv_NodePort spec\<rparr>])"

definition PrimaryTCPPort :: "ServiceSpec \<Rightarrow> ServicePortSpec option" where
  "PrimaryTCPPort spec = find (\<lambda>port. normalizeServiceProtocol (po_Protocol port) = ''TCP'') (PortSpecs spec)"

section \<open>Secrets\<close>

definition clear_runtime_fields :: "ReleaseSpec \<Rightarrow> ReleaseSpec" where
  "clear_runtime_fields spec =
     spec\<lparr>sp_RegistryEndpoint := [], sp_RegistryAuthType := [], sp_RegistryUsername := [],
          sp_RegistryCredential := [], sp_ImageVerificationEndpoint := [],
          sp_ImageVerificationUsername := [], sp_ImageVerificationCredential := [],
          sp_ImageVerificationInsecureSkipVerify := False\<rparr>"

definition SanitizeReleaseSpec :: "ReleaseSpec \<Rightarrow> ReleaseSpec" where
  "SanitizeReleaseSpec spec =
     (clear_runtime_fields spec)\<lparr>sp_Secrets := map (\<lambda>(key, _). (key, [])) (sp_Secrets spec)\<rparr>"

definition enabledStringMap :: "string gomap \<Rightarrow> string list \<Rightarrow> string gomap" where
  "enabledStringMap vals disabled =
     (let disabledSet = filter (\<lambda>k. k \<noteq> []) (map TrimSpace disabled)
      in filter (\<lambda>(key, _). key \<notin> set disabledSet) vals)"

definition hasSecretValues :: "string gomap \<Rightarrow> bool" where
  "hasSecretValues vals = list_ex (\<lambda>(_, v). v \<noteq> []) vals"

definition mergeLabels :: "string gomap list \<Rightarrow> string gomap" where
  "mergeLabels maps = fold (\<lambda>labels merged. fold (\<lambda>(k, v). map_put k v) labels merged) maps []"

definition SortedSecretKeys :: "string gomap \<Rightarrow> string list" where
  "SortedSecretKeys vals = sort (map fst vals)"

text \<open>What the JSON coding of a specification carries: the fields tagged \<open>json:"-"\<close> are lost.\<close>

definition json_visible :: "ReleaseSpec \<Rightarrow> ReleaseSpec" where
  "json_visible spec = clear_runtime_fields spec"

section \<open>Lemmas\<close>

lemma map_of_enabled:
  "map_of (enabledStringMap vals disabled) k =
     (if k \<noteq> [] \<and> k \<in> TrimSpace ` set disabled then None else map_of vals k)"
  by (induction vals) (auto simp: enabledStringMap_def Let_def)

lemma enabled_wf: "gomap_wf vals \<Longrightarrow> gomap_wf (enabledStringMap vals disabled)"
  by (auto simp: gomap_wf_def enabledStringMap_def Let_def distinct_map_filter split_def)

lemma map_of_merge_labels:
  "gomap_wf labels \<Longrightarrow>
   map_of (fold (\<lambda>(k, v). map_put k v) labels merged) = map_of merged ++ map_of labels"
proof (induction labels arbitrary: merged)
  case (Cons kv labels)
  obtain k v where kv: "kv = (k, v)" by fastforce
  have "k \<notin> fst ` set labels" "gomap_wf labels"
    using Cons.prems by (auto simp: gomap_wf_def kv)
  then have "map_of labels k = None" by (simp add: map_of_eq_None_iff)
  with Cons.IH [OF \<open>gomap_wf labels\<close>] show ?case
    by (auto simp: kv map_of_map_put fun_eq_iff map_add_def split: option.splits)
qed simp

lemma map_of_mergeLabels:
  assumes "gomap_wf a" and "gomap_wf b"
  shows "map_of (mergeLabels [a, b]) = map_of a ++ map_of b"
  using assms by (simp add: mergeLabels_def map_of_merge_labels)

lemma normalizeServiceProtocol_cases: "normalizeServiceProtocol p \<in> {''TCP'', ''UDP'', []}"
  by (simp add: normalizeServiceProtocol_def Let_def)

lemma normalizeServiceProtocol_fixed:
  "normalizeServiceProtocol ''TCP'' = ''TCP''" "normalizeServiceProtocol ''UDP'' = ''UDP''"
  by code_simp+

lemma normalizeServiceType_cases:
  "normalizeServiceType t \<in> {''ClusterIP'', ''NodePort'', ''LoadBalancer'', []}"
  by (simp add: normalizeServiceType_def Let_def)

lemma fold_appendUniqueKey:
  "(\<forall>k \<in> set acc. TrimSpace k = k) \<Longrightarrow> distinct acc \<Longrightarrow>
   distinct (fold (\<lambda>m keys. if P m then appendUniqueKey keys (f m) else keys) ms acc) \<and>
   set (fold (\<lambda>m keys. if P m then appendUniqueKey keys (f m) else keys) ms acc) =
     set acc \<union> TrimSpace ` f ` {m \<in> set ms. P m}"
proof (induction ms arbitrary: acc)
  case (Cons m ms)
  let ?acc = "if P m then appendUniqueKey acc (f m) else acc"
  have "\<forall>k \<in> set ?acc. TrimSpace k = k" and "distinct ?acc"
    and "set ?acc = set acc \<union> (if P m then {TrimSpace (f m)} else {})"
    using Cons.prems by (auto simp: appendUniqueKey_def Let_def)
  with Cons.IH [of ?acc] show ?case by auto
qed auto

text \<open>The keys taken over from the legacy flags: each once, trimmed, and no others.\<close>

lemma managed_mount_keys:
  "distinct (managed_mount_keys source mounts) \<and>
   set (managed_mount_keys source mounts) =
     TrimSpace ` fm_Key ` {m \<in> set mounts. fm_Managed m \<and> fm_SourceType m = source \<and> fm_Key m \<noteq> []}"
  using fold_appendUniqueKey [of "[]" "\<lambda>m. fm_Managed m \<and> fm_SourceType m = source \<and> fm_Key m \<noteq> []" fm_Key mounts]
  by (simp add: managed_mount_keys_def)

section \<open>Properties\<close>


text \<open>
  Migration of the managed-key flags: after \<open>NormalizeManagedKeys\<close> the checks
  \<open>IsConfigKeyManaged\<close> and \<open>IsSecretKeyManaged\<close> give the same answer for every key without
  surrounding white space, provided the mounts do not use such keys either, and a second
  normalisation changes nothing.
\<close>

theorem managed_keys_migration:
  assumes trimmed: "\<forall>m \<in> set (sp_FileMounts spec). TrimSpace (fm_Key m) = fm_Key m"
    and key: "key \<noteq> []"
  shows "IsConfigKeyManaged (NormalizeManagedKeys spec) key = IsConfigKeyManaged spec key \<and>
    IsSecretKeyManaged (NormalizeManagedKeys spec) key = IsSecretKeyManaged spec key \<and>
    NormalizeManagedKeys (NormalizeManagedKeys spec) = NormalizeManagedKeys spec"
proof -
  have set_keys: "set (managed_mount_keys source (sp_FileMounts spec)) =
      {fm_Key m | m. m \<in> set (sp_FileMounts spec) \<and> fm_Managed m \<and> fm_SourceType m = source \<and> fm_Key m \<noteq> []}"
    for source
    using managed_mount_keys [of source "sp_FileMounts spec"] trimmed by (auto simp: image_iff)
  have same: "containsKey (managed_mount_keys source (sp_FileMounts spec)) key =
      legacy_managed source (sp_FileMounts spec) key" for source
    using trimmed key unfolding containsKey_def legacy_managed_def list_ex_iff set_keys by auto
  have empty: "managed_mount_keys source (sp_FileMounts spec) = [] \<Longrightarrow>
      \<not> legacy_managed source (sp_FileMounts spec) key" for source
    using same [of source] by (auto simp: containsKey_def)
  show ?thesis
    using same empty
    by (auto simp: NormalizeManagedKeys_def IsConfigKeyManaged_def IsSecretKeyManaged_def containsKey_def)
qed

definition demo_health :: HealthSpec where
  "demo_health = \<lparr>hl_ReadinessEnabled = True, hl_ReadinessType = [], hl_ReadinessPath = ''/healthz'',
     hl_LivenessEnabled = False, hl_LivenessType = ''tcp'', hl_LivenessPath = []\<rparr>"

definition demo_service_spec :: ServiceSpec where
  "demo_service_spec = \<lparr>sv_Port = 80, sv_TargetPort = 8080, sv_Protocol = ''tcp'', sv_Type = [],
     sv_NodePort = 0, sv_ExternalTrafficPolicy = [], sv_Ports = []\<rparr>"

definition demo_endpoint :: EndpointSpec where
  "demo_endpoint = \<lparr>ep_Exposure = ''public'', ep_DomainID = 0, ep_Domain = ''app.example.com'', ep_Path = [],
     ep_TLSEnabled = False, ep_IssuerRef = [], ep_IssuerKind = [], ep_ManagedCertificateName = [],
     ep_ManagedTLSSecretName = []\<rparr>"

definition demo_spec :: ReleaseSpec where
  "demo_spec = \<lparr>sp_Image = ''r.example/app:1'', sp_Version = [], sp_Command = [], sp_Args = [''serve''],
     sp_RegistryID = 0, sp_RegistryEndpoint = [], sp_RegistryAuthType = [], sp_RegistryUsername = [],
     sp_RegistryCredential = [], sp_ImageVerificationEndpoint = [], sp_ImageVerificationUsername = [],
     sp_ImageVerificationCredential = [], sp_ImageVerificationInsecureSkipVerify = False,
     sp_ContainerPort = 8080, sp_Replicas = 1,
     sp_Resources = \<lparr>rc_RequestsCPU = ''1'', rc_RequestsMemory = ''2'', rc_LimitsCPU = ''3'', rc_LimitsMemory = ''4''\<rparr>,
     sp_Health = demo_health, sp_Config = [(''app.conf'', ''x=1''), (''MODE'', ''prod'')],
     sp_ConfigDisabled = [], sp_ConfigManagedKeys = [], sp_Secrets = [(''KEY'', ''s3cret'')],
     sp_SecretsDisabled = [], sp_SecretManagedKeys = [], sp_NodeName = [], sp_HostNetwork = False,
     sp_Volumes = [\<lparr>vm_ClaimName = ''data'', vm_MountPath = ''/data'', vm_ReadOnly = False\<rparr>],
     sp_FileMounts = [\<lparr>fm_SourceType = ''application_config'', fm_SourceName = [], fm_Key = ''app.conf'',
       fm_MountPath = ''/etc/app/app.conf'', fm_Managed = True\<rparr>],
     sp_Service = demo_service_spec, sp_Endpoint = demo_endpoint\<rparr>"

lemma demo_keys:
  "\<forall>m \<in> set (sp_FileMounts demo_spec). TrimSpace (fm_Key m) = fm_Key m"
  "IsConfigKeyManaged demo_spec ''app.conf''" "\<not> IsConfigKeyManaged demo_spec ''MODE''"
  by (simp_all add: demo_spec_def IsConfigKeyManaged_def legacy_managed_def source_defs TrimSpace_plain
      space_bytes_def space_runes_def)

theorem managed_keys_migration_witness:
  "IsConfigKeyManaged (NormalizeManagedKeys demo_spec) ''app.conf'' \<and>
   \<not> IsConfigKeyManaged (NormalizeManagedKeys demo_spec) ''MODE''"
  using managed_keys_migration [OF demo_keys(1), of "''app.conf''"]
    managed_keys_migration [OF demo_keys(1), of "''MODE''"] demo_keys(2,3) by simp

end
