(* ===== verification/Release_Validation.thy ===== *)
theory Release_Validation
  imports Release_Spec
begin

text \<open>
  \<open>internal/service/application/release_spec_validation.go\<close>: the issues a release specification
  has, in the order the code reports them, and the declarative meaning of having none.

  The name checks of \<open>k8s.io/apimachinery\<close> and its quantity parser are the parameter \<open>k\<close>, a record
  of functions: a check holds when the library returns no error, and a quantity is its exact value
  in units of \<open>10\<^sup>-\<^sup>9\<close>. The user-facing texts are the constructors of \<open>issue_message\<close>.
\<close>

section \<open>Issues\<close>

record k8s_checks =
  IsDNS1123Subdomain :: "string \<Rightarrow> bool"
  IsDNS1123Label :: "string \<Rightarrow> bool"
  IsConfigMapKey :: "string \<Rightarrow> bool"
  IsValidPortName :: "string \<Rightarrow> bool"
  ParseQuantity :: "string \<Rightarrow> int option"

datatype issue_message =
    ImageEmpty | ContainerPortRange | ReplicasMinimum | NodeNameInvalid
  | ClaimNameInvalid | MountPathNotCanonical | ClaimMountedTwice | MountPathTwice | VolumeNeedsOneReplica
  | QuantityInvalid | CPURequestOverLimit | MemoryRequestOverLimit
  | ReadinessPathInvalid | LivenessPathInvalid | ReadinessTypeInvalid | LivenessTypeInvalid
  | ServiceTypeInvalid | ClusterIPNodePort | ClusterIPTrafficPolicy | TrafficPolicyInvalid | ProbeNeedsTCP
  | TLSNeedsPublic | IngressNeedsTCP | DomainMissing | IssuerMissing | ManagedCertificateIncomplete
  | IssuerKindInvalid | ExposureInvalid
  | ManagedKeyInvalid | ManagedKeyTwice | ManagedKeyUnknown string | ManagedKeyDisabled string
  | PortNameInvalid | PortNameTwice | PortRange | PortTwice | ProtocolInvalid | NodePortRange
  | FileSourceInvalid | FileManagedNotAllowed | FileSourceNameInvalid | FileKeyInvalid
  | FileKeyNotInConfig | FileKeyNotInSecret | FilePathInvalid | FilePathTwice | FileDirectorySources
  | TooManyArguments | ArgumentEmpty | ArgumentInvalid

record ValidationIssue =
  is_Field :: string
  is_Message :: issue_message

definition issue :: "string \<Rightarrow> issue_message \<Rightarrow> ValidationIssue" where
  "issue field message = \<lparr>is_Field = field, is_Message = message\<rparr>"

text \<open>\<open>if bad { issues = append(issues, ...) }\<close>\<close>

definition report :: "bool \<Rightarrow> string \<Rightarrow> issue_message \<Rightarrow> ValidationIssue list" where
  "report bad field message = (if bad then [issue field message] else [])"

lemma report_Nil [simp]: "report bad field message = [] \<longleftrightarrow> \<not> bad"
  by (simp add: report_def)

definition indexed :: "string \<Rightarrow> nat \<Rightarrow> string" where
  "indexed field index = field @ ''['' @ show_nat index @ '']''"

section \<open>Arguments, volumes and files\<close>

definition argument_issues :: "string \<Rightarrow> nat \<Rightarrow> string \<Rightarrow> ValidationIssue list" where
  "argument_issues field index value =
     (if value = [] then [issue (indexed field index) ArgumentEmpty]
      else report (length value > 4096 \<or> ContainsAny value [CHR 0x00, CHR 0x0D, CHR 0x0A])
             (indexed field index) ArgumentInvalid)"

definition validateContainerArguments :: "string \<Rightarrow> string list \<Rightarrow> ValidationIssue list" where
  "validateContainerArguments field vals =
     (if length vals > 64 then [issue field TooManyArguments]
      else concat (map (\<lambda>(index, value). argument_issues field index value) (enumerate 0 vals)))"

fun volume_loop ::
  "k8s_checks \<Rightarrow> nat \<Rightarrow> string list \<Rightarrow> string list \<Rightarrow> VolumeMountSpec list \<Rightarrow> ValidationIssue list" where
  "volume_loop k index claimNames mountPaths [] = []"
| "volume_loop k index claimNames mountPaths (volume # volumes) =
     (let field = indexed ''volumes'' index;
          claimName = TrimSpace (vm_ClaimName volume);
          mountPath = TrimSpace (vm_MountPath volume) in
      report (\<not> IsDNS1123Label k claimName) (field @ ''.claim_name'') ClaimNameInvalid @
      report (\<not> HasPrefix mountPath ''/'' \<or> path_Clean mountPath \<noteq> mountPath) (field @ ''.mount_path'') MountPathNotCanonical @
      report (claimName \<in> set claimNames) (field @ ''.claim_name'') ClaimMountedTwice @
      report (mountPath \<in> set mountPaths) (field @ ''.mount_path'') MountPathTwice @
      volume_loop k (Suc index) (claimName # claimNames) (mountPath # mountPaths) volumes)"

definition mount_source :: "FileMountSpec \<Rightarrow> string" where
  "mount_source m = fm_SourceType m @ '':'' @ fm_SourceName m"

definition application_source :: "FileMountSpec \<Rightarrow> bool" where
  "application_source m \<longleftrightarrow>
     fm_SourceType m = FileMountSourceApplicationConfig \<or> fm_SourceType m = FileMountSourceApplicationSecret"

definition known_source :: "FileMountSpec \<Rightarrow> bool" where
  "known_source m \<longleftrightarrow> fm_SourceType m = FileMountSourceConfigMap \<or> fm_SourceType m = FileMountSourceSecret \<or>
     application_source m"

definition file_path_ok :: "string \<Rightarrow> bool" where
  "file_path_ok mountPath \<longleftrightarrow>
     \<not> (\<not> path_IsAbs mountPath \<or> path_Clean mountPath \<noteq> mountPath \<or> path_Base mountPath = ''.'' \<or>
        path_Base mountPath = ''/'')"

definition file_key_issues ::
  "k8s_checks \<Rightarrow> string gomap \<Rightarrow> string gomap \<Rightarrow> string \<Rightarrow> FileMountSpec \<Rightarrow> ValidationIssue list" where
  "file_key_issues k applicationConfig applicationSecrets field m =
     (if \<not> IsConfigMapKey k (fm_Key m) then [issue (field @ ''.key'') FileKeyInvalid]
      else if fm_SourceType m = FileMountSourceApplicationConfig
      then report (map_of applicationConfig (fm_Key m) = None) (field @ ''.key'') FileKeyNotInConfig
      else if fm_SourceType m = FileMountSourceApplicationSecret
      then report (map_of applicationSecrets (fm_Key m) = None) (field @ ''.key'') FileKeyNotInSecret
      else [])"

fun file_loop ::
  "k8s_checks \<Rightarrow> string gomap \<Rightarrow> string gomap \<Rightarrow> nat \<Rightarrow> string list \<Rightarrow> string gomap \<Rightarrow>
   FileMountSpec list \<Rightarrow> ValidationIssue list"
where
  "file_loop k config secrets index paths directories [] = []"
| "file_loop k config secrets index paths directories (m # ms) =
     (let field = indexed ''file_mounts'' index;
          mountPath = TrimSpace (fm_MountPath m);
          directory = path_Dir mountPath;
          source = mount_source m in
      report (\<not> known_source m) (field @ ''.source_type'') FileSourceInvalid @
      report (fm_Managed m \<and> \<not> application_source m) (field @ ''.managed'') FileManagedNotAllowed @
      report (\<not> application_source m \<and> \<not> IsDNS1123Subdomain k (fm_SourceName m)) (field @ ''.source_name'') FileSourceNameInvalid @
      file_key_issues k config secrets field m @
      (if \<not> file_path_ok mountPath
       then issue (field @ ''.mount_path'') FilePathInvalid # file_loop k config secrets (Suc index) paths directories ms
       else report (mountPath \<in> set paths) (field @ ''.mount_path'') FilePathTwice @
            report (case map_of directories directory of None \<Rightarrow> False | Some existing \<Rightarrow> existing \<noteq> source)
              (field @ ''.mount_path'') FileDirectorySources @
            file_loop k config secrets (Suc index) (mountPath # paths) (map_put directory source directories) ms))"

definition validateFileMounts ::
  "k8s_checks \<Rightarrow> FileMountSpec list \<Rightarrow> string gomap \<Rightarrow> string gomap \<Rightarrow> ValidationIssue list" where
  "validateFileMounts k fileMounts applicationConfig applicationSecrets =
     file_loop k applicationConfig applicationSecrets 0 [] [] fileMounts"

fun managed_loop ::
  "k8s_checks \<Rightarrow> string \<Rightarrow> string gomap \<Rightarrow> string list \<Rightarrow> nat \<Rightarrow> string list \<Rightarrow> string list \<Rightarrow> ValidationIssue list" where
  "managed_loop k field vals disabledSet index seen [] = []"
| "managed_loop k field vals disabledSet index seen (rawKey # rawKeys) =
     (let key = TrimSpace rawKey; itemField = indexed field index in
      if \<not> IsConfigMapKey k key
      then issue itemField ManagedKeyInvalid # managed_loop k field vals disabledSet (Suc index) seen rawKeys
      else if key \<in> set seen
      then issue itemField ManagedKeyTwice # managed_loop k field vals disabledSet (Suc index) seen rawKeys
      else report (map_of vals key = None) itemField (ManagedKeyUnknown key) @
           report (key \<in> set disabledSet) itemField (ManagedKeyDisabled key) @
           managed_loop k field vals disabledSet (Suc index) (key # seen) rawKeys)"

definition validateManagedKeys ::
  "k8s_checks \<Rightarrow> string \<Rightarrow> string list \<Rightarrow> string gomap \<Rightarrow> string list \<Rightarrow> ValidationIssue list" where
  "validateManagedKeys k field managedKeys vals disabled =
     managed_loop k field vals (map TrimSpace disabled) 0 [] managedKeys"

section \<open>Service ports\<close>

definition serviceNodePortField :: "ServiceSpec \<Rightarrow> nat \<Rightarrow> string" where
  "serviceNodePortField service index =
     (if sv_Ports service = [] then ''service.node_port''
      else indexed ''service.ports'' index @ ''.node_port'')"

definition port_range :: "int \<Rightarrow> bool" where
  "port_range p \<longleftrightarrow> \<not> (p < 1 \<or> p > 65535)"

fun port_loop ::
  "k8s_checks \<Rightarrow> ServiceSpec \<Rightarrow> nat \<Rightarrow> string list \<Rightarrow> int list \<Rightarrow> ServicePortSpec list \<Rightarrow> ValidationIssue list" where
  "port_loop k service index names servicePorts [] = []"
| "port_loop k service index names servicePorts (port # ports) =
     (let multi = sv_Ports service \<noteq> [];
          field = (if multi then indexed ''service.ports'' index else ''service'');
          name = TrimSpace (po_Name port) in
      report (multi \<and> \<not> IsValidPortName k name) (field @ ''.name'') PortNameInvalid @
      report (multi \<and> IsValidPortName k name \<and> name \<in> set names) (field @ ''.name'') PortNameTwice @
      report (\<not> port_range (po_Port port) \<or> \<not> port_range (po_TargetPort port)) field PortRange @
      report (po_Port port \<in> set servicePorts) (field @ ''.port'') PortTwice @
      report (normalizeServiceProtocol (po_Protocol port) = []) (field @ ''.protocol'') ProtocolInvalid @
      report (po_NodePort port < 0 \<or> po_NodePort port > 65535) (serviceNodePortField service index) NodePortRange @
      port_loop k service (Suc index)
        (if multi \<and> IsValidPortName k name \<and> name \<notin> set names then name # names else names)
        (po_Port port # servicePorts) ports)"

definition validateServicePorts :: "k8s_checks \<Rightarrow> ServiceSpec \<Rightarrow> ServicePortSpec list \<times> ValidationIssue list" where
  "validateServicePorts k service = (PortSpecs service, port_loop k service 0 [] [] (PortSpecs service))"

section \<open>The whole specification\<close>

definition healthProbeEnabled :: "bool \<Rightarrow> string \<Rightarrow> string \<Rightarrow> bool \<times> string" where
  "healthProbeEnabled enabled probeType path = (enabled, if probeType = [] then ''http'' else probeType)"

definition parse_quantity :: "k8s_checks \<Rightarrow> string \<Rightarrow> int option" where
  "parse_quantity k value = (if TrimSpace value = [] then None else ParseQuantity k value)"

definition over_limit :: "int option \<Rightarrow> int option \<Rightarrow> bool" where
  "over_limit request limit = (case (request, limit) of (Some r, Some l) \<Rightarrow> r > l | _ \<Rightarrow> False)"

definition resource_issues :: "k8s_checks \<Rightarrow> ResourceSpec \<Rightarrow> ValidationIssue list" where
  "resource_issues k r =
     (let requestCPU = parse_quantity k (rc_RequestsCPU r); requestMemory = parse_quantity k (rc_RequestsMemory r);
          limitCPU = parse_quantity k (rc_LimitsCPU r); limitMemory = parse_quantity k (rc_LimitsMemory r) in
      report (requestCPU = None) ''resources.requests_cpu'' QuantityInvalid @
      report (requestMemory = None) ''resources.requests_memory'' QuantityInvalid @
      report (limitCPU = None) ''resources.limits_cpu'' QuantityInvalid @
      report (limitMemory = None) ''resources.limits_memory'' QuantityInvalid @
      report (over_limit requestCPU limitCPU) ''resources.requests_cpu'' CPURequestOverLimit @
      report (over_limit requestMemory limitMemory) ''resources.requests_memory'' MemoryRequestOverLimit)"

definition health_issues :: "HealthSpec \<Rightarrow> ValidationIssue list" where
  "health_issues h =
     (let (readiness, readinessType) = healthProbeEnabled (hl_ReadinessEnabled h) (hl_ReadinessType h) (hl_ReadinessPath h);
          (liveness, livenessType) = healthProbeEnabled (hl_LivenessEnabled h) (hl_LivenessType h) (hl_LivenessPath h) in
      report (readiness \<and> readinessType = ''http'' \<and> \<not> HasPrefix (hl_ReadinessPath h) ''/'') ''health.readiness_path'' ReadinessPathInvalid @
      report (liveness \<and> livenessType = ''http'' \<and> \<not> HasPrefix (hl_LivenessPath h) ''/'') ''health.liveness_path'' LivenessPathInvalid @
      report (readinessType \<noteq> ''http'' \<and> readinessType \<noteq> ''tcp'') ''health.readiness_type'' ReadinessTypeInvalid @
      report (livenessType \<noteq> ''http'' \<and> livenessType \<noteq> ''tcp'') ''health.liveness_type'' LivenessTypeInvalid)"

definition service_issues :: "k8s_checks \<Rightarrow> ReleaseSpec \<Rightarrow> ValidationIssue list" where
  "service_issues k spec =
     (let service = sp_Service spec; (servicePorts, serviceIssues) = validateServicePorts k service;
          serviceType = normalizeServiceType (sv_Type service);
          policy = TrimSpace (sv_ExternalTrafficPolicy service) in
      serviceIssues @
      report (serviceType = []) ''service.type'' ServiceTypeInvalid @
      (if serviceType = ''ClusterIP''
       then concat (map (\<lambda>(index, port). report (po_NodePort port \<noteq> 0) (serviceNodePortField service index) ClusterIPNodePort)
              (enumerate 0 servicePorts)) @
            report (policy \<noteq> []) ''service.external_traffic_policy'' ClusterIPTrafficPolicy
       else report (policy \<noteq> [] \<and> policy \<noteq> ''Cluster'' \<and> policy \<noteq> ''Local'') ''service.external_traffic_policy'' TrafficPolicyInvalid) @
      report (PrimaryTCPPort service = None \<and> (hl_ReadinessEnabled (sp_Health spec) \<or> hl_LivenessEnabled (sp_Health spec)))
        ''health'' ProbeNeedsTCP)"

definition endpoint_issues :: "ServiceSpec \<Rightarrow> EndpointSpec \<Rightarrow> ValidationIssue list" where
  "endpoint_issues service e =
     (if ep_Exposure e = ExposureCluster \<or> ep_Exposure e = ExposureTailnet
      then report (ep_TLSEnabled e) ''endpoint.tls_enabled'' TLSNeedsPublic
      else if ep_Exposure e = ExposurePublic
      then report (PrimaryTCPPort service = None) ''endpoint.exposure'' IngressNeedsTCP @
           report (TrimSpace (ep_Domain e) = []) ''endpoint.domain'' DomainMissing @
           report (ep_TLSEnabled e \<and> TrimSpace (ep_IssuerRef e) = [] \<and> TrimSpace (ep_ManagedCertificateName e) = [])
             ''endpoint.issuer_ref'' IssuerMissing @
           report (ep_TLSEnabled e \<and>
               (TrimSpace (ep_ManagedCertificateName e) = []) \<noteq> (TrimSpace (ep_ManagedTLSSecretName e) = []))
             ''endpoint'' ManagedCertificateIncomplete @
           report (ep_TLSEnabled e \<and> ep_IssuerKind e \<noteq> [] \<and> ep_IssuerKind e \<noteq> ''Issuer'' \<and> ep_IssuerKind e \<noteq> ''ClusterIssuer'')
             ''endpoint.issuer_kind'' IssuerKindInvalid
      else [issue ''endpoint.exposure'' ExposureInvalid])"

definition ValidateReleaseSpec :: "k8s_checks \<Rightarrow> ReleaseSpec \<Rightarrow> ValidationIssue list" where
  "ValidateReleaseSpec k spec =
     report (TrimSpace (sp_Image spec) = []) ''image'' ImageEmpty @
     report (\<not> port_range (sp_ContainerPort spec)) ''container_port'' ContainerPortRange @
     report (sp_Replicas spec < 1) ''replicas'' ReplicasMinimum @
     validateContainerArguments ''command'' (sp_Command spec) @
     validateContainerArguments ''args'' (sp_Args spec) @
     report (TrimSpace (sp_NodeName spec) \<noteq> [] \<and> \<not> IsDNS1123Subdomain k (sp_NodeName spec)) ''node_name'' NodeNameInvalid @
     volume_loop k 0 [] [] (sp_Volumes spec) @
     report (sp_Volumes spec \<noteq> [] \<and> sp_Replicas spec > 1) ''volumes'' VolumeNeedsOneReplica @
     validateFileMounts k (sp_FileMounts spec) (enabledStringMap (sp_Config spec) (sp_ConfigDisabled spec))
       (enabledStringMap (sp_Secrets spec) (sp_SecretsDisabled spec)) @
     validateManagedKeys k ''config_managed_keys'' (sp_ConfigManagedKeys spec) (sp_Config spec) (sp_ConfigDisabled spec) @
     validateManagedKeys k ''secret_managed_keys'' (sp_SecretManagedKeys spec) (sp_Secrets spec) (sp_SecretsDisabled spec) @
     resource_issues k (sp_Resources spec) @
     health_issues (sp_Health spec) @
     service_issues k spec @
     endpoint_issues (sp_Service spec) (sp_Endpoint spec)"

definition ValidateApplicationName :: "k8s_checks \<Rightarrow> string \<Rightarrow> bool" where
  "ValidateApplicationName k name = IsDNS1123Label k name"

section \<open>What it means to have no issue\<close>

definition argument_ok :: "string \<Rightarrow> bool" where
  "argument_ok v \<longleftrightarrow> v \<noteq> [] \<and> length v \<le> 4096 \<and> set v \<inter> {CHR 0x00, CHR 0x0D, CHR 0x0A} = {}"

definition arguments_ok :: "string list \<Rightarrow> bool" where
  "arguments_ok vals \<longleftrightarrow> length vals \<le> 64 \<and> (\<forall>v \<in> set vals. argument_ok v)"

definition volumes_ok :: "k8s_checks \<Rightarrow> VolumeMountSpec list \<Rightarrow> bool" where
  "volumes_ok k vs \<longleftrightarrow>
     (\<forall>v \<in> set vs. IsDNS1123Label k (TrimSpace (vm_ClaimName v)) \<and>
        prefix ''/'' (TrimSpace (vm_MountPath v)) \<and> path_Clean (TrimSpace (vm_MountPath v)) = TrimSpace (vm_MountPath v)) \<and>
     distinct (map (TrimSpace \<circ> vm_ClaimName) vs) \<and> distinct (map (TrimSpace \<circ> vm_MountPath) vs)"

definition file_mount_ok :: "k8s_checks \<Rightarrow> string gomap \<Rightarrow> string gomap \<Rightarrow> FileMountSpec \<Rightarrow> bool" where
  "file_mount_ok k config secrets m \<longleftrightarrow>
     known_source m \<and> (fm_Managed m \<longrightarrow> application_source m) \<and>
     (\<not> application_source m \<longrightarrow> IsDNS1123Subdomain k (fm_SourceName m)) \<and>
     IsConfigMapKey k (fm_Key m) \<and>
     (fm_SourceType m = FileMountSourceApplicationConfig \<longrightarrow> map_of config (fm_Key m) \<noteq> None) \<and>
     (fm_SourceType m = FileMountSourceApplicationSecret \<longrightarrow> map_of secrets (fm_Key m) \<noteq> None) \<and>
     file_path_ok (TrimSpace (fm_MountPath m))"

definition mount_dir :: "FileMountSpec \<Rightarrow> string" where
  "mount_dir m = path_Dir (TrimSpace (fm_MountPath m))"

definition file_mounts_ok :: "k8s_checks \<Rightarrow> string gomap \<Rightarrow> string gomap \<Rightarrow> FileMountSpec list \<Rightarrow> bool" where
  "file_mounts_ok k config secrets ms \<longleftrightarrow>
     (\<forall>m \<in> set ms. file_mount_ok k config secrets m) \<and>
     distinct (map (TrimSpace \<circ> fm_MountPath) ms) \<and>
     (\<forall>m \<in> set ms. \<forall>m' \<in> set ms. mount_dir m = mount_dir m' \<longrightarrow> mount_source m = mount_source m')"

definition managed_keys_ok :: "k8s_checks \<Rightarrow> string list \<Rightarrow> string gomap \<Rightarrow> string list \<Rightarrow> bool" where
  "managed_keys_ok k keys vals disabled \<longleftrightarrow>
     distinct (map TrimSpace keys) \<and>
     (\<forall>raw \<in> set keys. IsConfigMapKey k (TrimSpace raw) \<and> map_of vals (TrimSpace raw) \<noteq> None \<and>
        TrimSpace raw \<notin> TrimSpace ` set disabled)"

definition port_ok :: "ServicePortSpec \<Rightarrow> bool" where
  "port_ok port \<longleftrightarrow> port_range (po_Port port) \<and> port_range (po_TargetPort port) \<and>
     normalizeServiceProtocol (po_Protocol port) \<noteq> [] \<and> 0 \<le> po_NodePort port \<and> po_NodePort port \<le> 65535"

definition ports_ok :: "k8s_checks \<Rightarrow> ServiceSpec \<Rightarrow> bool" where
  "ports_ok k service \<longleftrightarrow>
     (\<forall>port \<in> set (PortSpecs service). port_ok port) \<and> distinct (map po_Port (PortSpecs service)) \<and>
     (\<forall>port \<in> set (sv_Ports service). IsValidPortName k (TrimSpace (po_Name port))) \<and>
     distinct (map (TrimSpace \<circ> po_Name) (sv_Ports service))"

definition quantities_ok :: "k8s_checks \<Rightarrow> string \<Rightarrow> string \<Rightarrow> bool" where
  "quantities_ok k request limit \<longleftrightarrow>
     (\<exists>r l. parse_quantity k request = Some r \<and> parse_quantity k limit = Some l \<and> r \<le> l)"

definition probe_ok :: "bool \<Rightarrow> string \<Rightarrow> string \<Rightarrow> bool" where
  "probe_ok enabled probeType path \<longleftrightarrow>
     probeType \<in> {[], ''http'', ''tcp''} \<and> (enabled \<and> probeType \<noteq> ''tcp'' \<longrightarrow> prefix ''/'' path)"

definition exposure_ok :: "ServiceSpec \<Rightarrow> bool \<Rightarrow> bool" where
  "exposure_ok service probes \<longleftrightarrow>
     (let t = normalizeServiceType (sv_Type service); policy = TrimSpace (sv_ExternalTrafficPolicy service) in
      t \<noteq> [] \<and>
      (if t = ''ClusterIP'' then (\<forall>port \<in> set (PortSpecs service). po_NodePort port = 0) \<and> policy = []
       else policy \<in> {[], ''Cluster'', ''Local''}) \<and>
      (probes \<longrightarrow> PrimaryTCPPort service \<noteq> None))"

definition endpoint_ok :: "ServiceSpec \<Rightarrow> EndpointSpec \<Rightarrow> bool" where
  "endpoint_ok service e \<longleftrightarrow>
     (ep_Exposure e = ExposureCluster \<or> ep_Exposure e = ExposureTailnet) \<and> \<not> ep_TLSEnabled e \<or>
     ep_Exposure e = ExposurePublic \<and> PrimaryTCPPort service \<noteq> None \<and> TrimSpace (ep_Domain e) \<noteq> [] \<and>
     (ep_TLSEnabled e \<longrightarrow>
        (TrimSpace (ep_IssuerRef e) \<noteq> [] \<or> TrimSpace (ep_ManagedCertificateName e) \<noteq> []) \<and>
        (TrimSpace (ep_ManagedCertificateName e) = [] \<longleftrightarrow> TrimSpace (ep_ManagedTLSSecretName e) = []) \<and>
        ep_IssuerKind e \<in> {[], ''Issuer'', ''ClusterIssuer''})"

definition spec_ok :: "k8s_checks \<Rightarrow> ReleaseSpec \<Rightarrow> bool" where
  "spec_ok k spec \<longleftrightarrow>
     TrimSpace (sp_Image spec) \<noteq> [] \<and> 1 \<le> sp_ContainerPort spec \<and> sp_ContainerPort spec \<le> 65535 \<and>
     1 \<le> sp_Replicas spec \<and> arguments_ok (sp_Command spec) \<and> arguments_ok (sp_Args spec) \<and>
     (TrimSpace (sp_NodeName spec) = [] \<or> IsDNS1123Subdomain k (sp_NodeName spec)) \<and>
     volumes_ok k (sp_Volumes spec) \<and> (sp_Volumes spec \<noteq> [] \<longrightarrow> sp_Replicas spec = 1) \<and>
     file_mounts_ok k (enabledStringMap (sp_Config spec) (sp_ConfigDisabled spec))
       (enabledStringMap (sp_Secrets spec) (sp_SecretsDisabled spec)) (sp_FileMounts spec) \<and>
     managed_keys_ok k (sp_ConfigManagedKeys spec) (sp_Config spec) (sp_ConfigDisabled spec) \<and>
     managed_keys_ok k (sp_SecretManagedKeys spec) (sp_Secrets spec) (sp_SecretsDisabled spec) \<and>
     quantities_ok k (rc_RequestsCPU (sp_Resources spec)) (rc_LimitsCPU (sp_Resources spec)) \<and>
     quantities_ok k (rc_RequestsMemory (sp_Resources spec)) (rc_LimitsMemory (sp_Resources spec)) \<and>
     probe_ok (hl_ReadinessEnabled (sp_Health spec)) (hl_ReadinessType (sp_Health spec)) (hl_ReadinessPath (sp_Health spec)) \<and>
     probe_ok (hl_LivenessEnabled (sp_Health spec)) (hl_LivenessType (sp_Health spec)) (hl_LivenessPath (sp_Health spec)) \<and>
     ports_ok k (sp_Service spec) \<and>
     exposure_ok (sp_Service spec) (hl_ReadinessEnabled (sp_Health spec) \<or> hl_LivenessEnabled (sp_Health spec)) \<and>
     endpoint_ok (sp_Service spec) (sp_Endpoint spec)"

section \<open>The loops\<close>

lemma enumerate_ball: "(\<forall>x \<in> set (enumerate n xs). P (snd x)) \<longleftrightarrow> (\<forall>v \<in> set xs. P v)"
proof -
  have "snd ` set (enumerate n xs) = set xs" by (metis list.set_map map_snd_enumerate)
  then show ?thesis by (metis (no_types, lifting) imageE imageI)
qed

lemma validateContainerArguments_Nil: "validateContainerArguments field vals = [] \<longleftrightarrow> arguments_ok vals"
proof -
  have "argument_issues field i v = [] \<longleftrightarrow> argument_ok v" for i v
    by (auto simp: argument_issues_def argument_ok_def ContainsAny_iff not_less)
  then show ?thesis
    by (simp add: validateContainerArguments_def arguments_ok_def split_def not_less enumerate_ball)
qed

lemma volume_loop_Nil:
  "volume_loop k index claims paths vs = [] \<longleftrightarrow>
     volumes_ok k vs \<and> set (map (TrimSpace \<circ> vm_ClaimName) vs) \<inter> set claims = {} \<and>
     set (map (TrimSpace \<circ> vm_MountPath) vs) \<inter> set paths = {}"
proof (induction vs arbitrary: index claims paths)
  case (Cons v vs)
  show ?case by (simp add: Cons.IH Let_def volumes_ok_def) blast
qed (simp add: volumes_ok_def)

lemma managed_loop_Nil:
  "managed_loop k field vals disabled index seen keys = [] \<longleftrightarrow>
     distinct (map TrimSpace keys) \<and> set (map TrimSpace keys) \<inter> set seen = {} \<and>
     (\<forall>raw \<in> set keys. IsConfigMapKey k (TrimSpace raw) \<and> map_of vals (TrimSpace raw) \<noteq> None \<and>
        TrimSpace raw \<notin> set disabled)"
proof (induction keys arbitrary: index seen)
  case (Cons key keys)
  show ?case by (simp add: Cons.IH Let_def) blast
qed simp

lemma validateManagedKeys_Nil:
  "validateManagedKeys k field keys vals disabled = [] \<longleftrightarrow> managed_keys_ok k keys vals disabled"
  by (auto simp: validateManagedKeys_def managed_loop_Nil managed_keys_ok_def)

lemma port_loop_Nil:
  "port_loop k service index names seen ports = [] \<longleftrightarrow>
     (\<forall>port \<in> set ports. port_ok port) \<and> distinct (map po_Port ports) \<and> set (map po_Port ports) \<inter> set seen = {} \<and>
     (sv_Ports service \<noteq> [] \<longrightarrow>
        (\<forall>port \<in> set ports. IsValidPortName k (TrimSpace (po_Name port))) \<and>
        distinct (map (TrimSpace \<circ> po_Name) ports) \<and> set (map (TrimSpace \<circ> po_Name) ports) \<inter> set names = {})"
proof (induction ports arbitrary: index names seen)
  case (Cons port ports)
  show ?case
    by (cases "sv_Ports service = []") (simp_all add: Cons.IH Let_def port_ok_def not_less, blast+)
qed simp

lemma validateServicePorts_Nil: "snd (validateServicePorts k service) = [] \<longleftrightarrow> ports_ok k service"
  by (auto simp: validateServicePorts_def port_loop_Nil ports_ok_def PortSpecs_def)

lemma file_key_issues_Nil:
  "file_key_issues k config secrets field m = [] \<longleftrightarrow>
     IsConfigMapKey k (fm_Key m) \<and>
     (fm_SourceType m = FileMountSourceApplicationConfig \<longrightarrow> map_of config (fm_Key m) \<noteq> None) \<and>
     (fm_SourceType m = FileMountSourceApplicationSecret \<longrightarrow> map_of secrets (fm_Key m) \<noteq> None)"
  by (auto simp: file_key_issues_def source_defs)

definition dir_free :: "string gomap \<Rightarrow> FileMountSpec \<Rightarrow> bool" where
  "dir_free directories m \<longleftrightarrow> map_of directories (mount_dir m) \<in> {None, Some (mount_source m)}"

lemma dir_free_put:
  "dir_free (map_put (mount_dir m) (mount_source m) directories) m' \<longleftrightarrow>
     (if mount_dir m' = mount_dir m then mount_source m' = mount_source m else dir_free directories m')"
  by (auto simp: dir_free_def map_of_map_put)

lemma dir_free_same: "mount_dir m' = mount_dir m \<Longrightarrow> mount_source m' = mount_source m \<Longrightarrow> dir_free ds m' = dir_free ds m"
  by (simp add: dir_free_def)

lemma file_loop_Cons_Nil:
  "file_loop k config secrets index paths directories (m # ms) = [] \<longleftrightarrow>
     file_mount_ok k config secrets m \<and> TrimSpace (fm_MountPath m) \<notin> set paths \<and> dir_free directories m \<and>
     file_loop k config secrets (Suc index) (TrimSpace (fm_MountPath m) # paths)
       (map_put (mount_dir m) (mount_source m) directories) ms = []"
proof -
  have dir: "(case map_of directories (mount_dir m) of None \<Rightarrow> False | Some existing \<Rightarrow> existing \<noteq> mount_source m) \<longleftrightarrow>
      \<not> dir_free directories m"
    by (auto simp: dir_free_def split: option.splits)
  show ?thesis
    by (simp add: Let_def file_mount_ok_def file_key_issues_Nil dir [unfolded mount_dir_def] mount_dir_def) blast
qed

lemma file_mounts_ok_Cons:
  "file_mounts_ok k config secrets (m # ms) \<longleftrightarrow>
     file_mount_ok k config secrets m \<and> file_mounts_ok k config secrets ms \<and>
     TrimSpace (fm_MountPath m) \<notin> set (map (TrimSpace \<circ> fm_MountPath) ms) \<and>
     (\<forall>m' \<in> set ms. mount_dir m' = mount_dir m \<longrightarrow> mount_source m' = mount_source m)"
proof -
  have "(\<forall>m' \<in> set ms. mount_dir m = mount_dir m' \<longrightarrow> mount_source m = mount_source m') \<longleftrightarrow>
      (\<forall>m' \<in> set ms. mount_dir m' = mount_dir m \<longrightarrow> mount_source m' = mount_source m)"
    by metis
  then show ?thesis unfolding file_mounts_ok_def by (simp add: ball_conj_distrib) blast
qed

lemma file_loop_Nil:
  "file_loop k config secrets index paths directories ms = [] \<longleftrightarrow>
     file_mounts_ok k config secrets ms \<and> set (map (TrimSpace \<circ> fm_MountPath) ms) \<inter> set paths = {} \<and>
     (\<forall>m \<in> set ms. dir_free directories m)"
proof (induction ms arbitrary: index paths directories)
  case Nil
  then show ?case by (simp add: file_mounts_ok_def)
next
  case (Cons m ms)
  have "dir_free directories m \<Longrightarrow>
      (\<forall>m' \<in> set ms. dir_free (map_put (mount_dir m) (mount_source m) directories) m') \<longleftrightarrow>
      (\<forall>m' \<in> set ms. dir_free directories m') \<and>
      (\<forall>m' \<in> set ms. mount_dir m' = mount_dir m \<longrightarrow> mount_source m' = mount_source m)"
    unfolding dir_free_put using dir_free_same by metis
  then show ?case
    unfolding file_loop_Cons_Nil Cons.IH file_mounts_ok_Cons by auto
qed

lemma validateFileMounts_Nil:
  "validateFileMounts k ms config secrets = [] \<longleftrightarrow> file_mounts_ok k config secrets ms"
  by (simp add: validateFileMounts_def file_loop_Nil dir_free_def)

lemma resource_issues_Nil:
  "resource_issues k r = [] \<longleftrightarrow>
     quantities_ok k (rc_RequestsCPU r) (rc_LimitsCPU r) \<and> quantities_ok k (rc_RequestsMemory r) (rc_LimitsMemory r)"
  by (auto simp: resource_issues_def quantities_ok_def over_limit_def Let_def not_less split: option.splits)

lemma health_issues_Nil:
  "health_issues h = [] \<longleftrightarrow>
     probe_ok (hl_ReadinessEnabled h) (hl_ReadinessType h) (hl_ReadinessPath h) \<and>
     probe_ok (hl_LivenessEnabled h) (hl_LivenessType h) (hl_LivenessPath h)"
  by (auto simp: health_issues_def healthProbeEnabled_def probe_ok_def)

lemma endpoint_issues_Nil: "endpoint_issues service e = [] \<longleftrightarrow> endpoint_ok service e"
  by (auto simp: endpoint_issues_def endpoint_ok_def exposure_defs)

lemma service_issues_Nil:
  "service_issues k spec = [] \<longleftrightarrow> ports_ok k (sp_Service spec) \<and>
     exposure_ok (sp_Service spec) (hl_ReadinessEnabled (sp_Health spec) \<or> hl_LivenessEnabled (sp_Health spec))"
proof -
  have ports: "(\<forall>x \<in> set (enumerate 0 (PortSpecs (sp_Service spec))). po_NodePort (snd x) = 0) \<longleftrightarrow>
      (\<forall>port \<in> set (PortSpecs (sp_Service spec)). po_NodePort port = 0)"
    by (rule enumerate_ball [where P = "\<lambda>port. po_NodePort port = 0"])
  obtain servicePorts issues where v: "validateServicePorts k (sp_Service spec) = (servicePorts, issues)"
    by fastforce
  then have "servicePorts = PortSpecs (sp_Service spec)" and "issues = [] \<longleftrightarrow> ports_ok k (sp_Service spec)"
    using validateServicePorts_Nil [of k "sp_Service spec"] by (auto simp: validateServicePorts_def)
  with v ports show ?thesis
    by (auto simp: service_issues_def exposure_ok_def Let_def split_def)
qed

lemma ValidateReleaseSpec_Nil: "ValidateReleaseSpec k spec = [] \<longleftrightarrow> spec_ok k spec"
  unfolding ValidateReleaseSpec_def spec_ok_def
  by (simp add: validateContainerArguments_Nil volume_loop_Nil validateFileMounts_Nil
      validateManagedKeys_Nil resource_issues_Nil health_issues_Nil service_issues_Nil endpoint_issues_Nil
      port_range_def not_less) auto

section \<open>Properties\<close>

text \<open>
  C22. \<open>ValidateReleaseSpec\<close> reports no issue exactly for the specifications that meet the platform's
  rules: ports and replicas in range, canonical and distinct absolute mount paths, every file from a
  known and existing source with one source per directory, distinct claims and managed keys,
  requests below limits, consistent probes, service type, ports and endpoint.
\<close>

theorem validation_decides_spec_ok: "ValidateReleaseSpec k spec = [] \<longleftrightarrow> spec_ok k spec"
  by (rule ValidateReleaseSpec_Nil)

end
