(* ===== verification/Release_Rendering.thy ===== *)
theory Release_Rendering
  imports Release_Validation Security_Crypto
begin

text \<open>
  \<open>internal/service/application/release_spec_rendering.go\<close>: the Kubernetes objects a release
  specification is rendered to. The objects are records with the fields the code sets; a pointer
  that may be nil is an option. \<open>resource.MustParse\<close> panics on text that is no quantity, which is the
  error \<open>RenderPanic\<close>.
\<close>

section \<open>Kubernetes objects\<close>

record ObjectMeta =
  om_Name :: string
  om_Namespace :: string
  om_Labels :: "string gomap"
  om_Annotations :: "string gomap"

record ConfigMap =
  cm_Meta :: ObjectMeta
  cm_Data :: "string gomap"

text \<open>The payload of a Secret: opaque strings, or the Docker configuration for one registry.\<close>

datatype secret_payload =
    Opaque "string gomap"
  | DockerConfigJson (docker_endpoint: string) (docker_username: string) (docker_password: string)
      (docker_auth: string)

record Secret =
  se_Meta :: ObjectMeta
  se_Payload :: secret_payload

datatype probe = HTTPGet string int | TCPSocket int

datatype volume_source =
    PersistentVolumeClaim string bool
  | SecretVolume string "(string \<times> string) list"
  | ConfigMapVolume string "(string \<times> string) list"

record Volume =
  vo_Name :: string
  vo_Source :: volume_source

record VolumeMount =
  mt_Name :: string
  mt_MountPath :: string
  mt_ReadOnly :: bool

datatype env_from = ConfigMapRef string | SecretRef string

record Container =
  ct_Name :: string
  ct_Image :: string
  ct_Command :: "string list"
  ct_Args :: "string list"
  ct_Ports :: "(int \<times> string) list"
  ct_Requests :: "int \<times> int"
  ct_Limits :: "int \<times> int"
  ct_ReadinessProbe :: "probe option"
  ct_LivenessProbe :: "probe option"
  ct_EnvFrom :: "env_from list"
  ct_VolumeMounts :: "VolumeMount list"

record PodSpec =
  ps_Containers :: "Container list"
  ps_Volumes :: "Volume list"
  ps_HostNetwork :: bool
  ps_DNSPolicy :: string
  ps_NodeSelector :: "string gomap"
  ps_ImagePullSecrets :: "string list"

text \<open>A Deployment or a StatefulSet: they share everything but the strategy and the service name.\<close>

record Workload =
  wl_Meta :: ObjectMeta
  wl_Replicas :: int
  wl_Selector :: "string gomap"
  wl_PodLabels :: "string gomap"
  wl_PodSpec :: PodSpec
  wl_Strategy :: string
  wl_ServiceName :: string

record ServicePort =
  xp_Name :: string
  xp_Protocol :: string
  xp_Port :: int
  xp_TargetPort :: int
  xp_NodePort :: int

record Service =
  sx_Meta :: ObjectMeta
  sx_Type :: string
  sx_Selector :: "string gomap"
  sx_Ports :: "ServicePort list"
  sx_ExternalTrafficPolicy :: string

record IngressRule =
  ir_Host :: string
  ir_Path :: string
  ir_ServiceName :: string
  ir_ServicePort :: int

record IngressTLS =
  it_Hosts :: "string list"
  it_SecretName :: string

record Ingress =
  ig_Meta :: ObjectMeta
  ig_Rules :: "IngressRule list"
  ig_TLS :: "IngressTLS list"

record RenderedResources =
  rr_ConfigMap :: "ConfigMap option"
  rr_Secret :: "Secret option"
  rr_ImagePullSecret :: "Secret option"
  rr_Deployment :: "Workload option"
  rr_StatefulSet :: "Workload option"
  rr_Service :: "Service option"
  rr_Ingress :: "Ingress option"
  rr_SanitizedSpec :: ReleaseSpec

text \<open>\<open>model.ApplicationEndpoint\<close>\<close>

record ApplicationEndpoint =
  ae_ID :: nat
  ae_ApplicationID :: nat
  ae_DomainID :: nat
  ae_Exposure :: string
  ae_Domain :: string
  ae_Path :: string
  ae_ServicePort :: int
  ae_Protocol :: string
  ae_TLSEnabled :: bool
  ae_IngressEnabled :: bool
  ae_IngressMode :: string
  ae_TLSSecretName :: string
  ae_IssuerRef :: string
  ae_AccessMode :: string

section \<open>Labels, ports and probes\<close>

definition managedLabels :: "ApplicationContext \<Rightarrow> string gomap" where
  "managedLabels cx =
     [(ManagedByLabel, ManagedByValue), (ProjectLabel, ''project-'' @ show_nat (cx_ProjectID cx)),
      (ApplicationNameLabel, cx_ApplicationName cx),
      (EnvironmentLabel, ''environment-'' @ show_nat (cx_EnvironmentID cx))]"

definition workloadSelector :: "string \<Rightarrow> string gomap" where
  "workloadSelector applicationName = [(ApplicationNameLabel, applicationName)]"

definition container_port_key :: "ServicePortSpec \<Rightarrow> string" where
  "container_port_key p =
     show_int (po_TargetPort p) @ ''/'' @ normalizeServiceProtocol (po_Protocol p)"

fun container_port_loop :: "string list \<Rightarrow> ServicePortSpec list \<Rightarrow> (int \<times> string) list" where
  "container_port_loop seen [] = []"
| "container_port_loop seen (p # ps) =
     (if container_port_key p \<in> set seen then container_port_loop seen ps
      else (po_TargetPort p, normalizeServiceProtocol (po_Protocol p)) #
           container_port_loop (container_port_key p # seen) ps)"

definition renderContainerPorts :: "ServicePortSpec list \<Rightarrow> (int \<times> string) list" where
  "renderContainerPorts servicePorts = container_port_loop [] servicePorts"

definition renderServicePorts :: "ServicePortSpec list \<Rightarrow> ServicePort list" where
  "renderServicePorts servicePorts =
     map (\<lambda>p. \<lparr>xp_Name = po_Name p, xp_Protocol = normalizeServiceProtocol (po_Protocol p), xp_Port = po_Port p,
       xp_TargetPort = po_TargetPort p, xp_NodePort = (if po_NodePort p \<noteq> 0 then po_NodePort p else 0)\<rparr>) servicePorts"

definition httpProbe :: "string \<Rightarrow> int \<Rightarrow> probe" where
  "httpProbe path port = HTTPGet path port"

definition healthProbe :: "string \<Rightarrow> string \<Rightarrow> int \<Rightarrow> probe" where
  "healthProbe probeType path port = (if probeType = ''tcp'' then TCPSocket port else httpProbe path port)"

definition render_probe :: "bool \<Rightarrow> string \<Rightarrow> string \<Rightarrow> int \<Rightarrow> probe option" where
  "render_probe enabled probeType path port =
     (case healthProbeEnabled enabled probeType path of
        (on, ty) \<Rightarrow> if on then Some (healthProbe ty path port) else None)"

section \<open>Files\<close>

record fileMountGroup =
  gr_sourceType :: string
  gr_sourceName :: string
  gr_mountDir :: string
  gr_items :: "(string \<times> string) list"

definition group_key :: "FileMountSpec \<Rightarrow> string" where
  "group_key m = fm_SourceType m @ [CHR 0x00] @ fm_SourceName m @ [CHR 0x00] @ path_Dir (fm_MountPath m)"

definition file_item :: "FileMountSpec \<Rightarrow> string \<times> string" where
  "file_item m = (fm_Key m, path_Base (fm_MountPath m))"

text \<open>The groups in the order of their first file, with the map from key to position as its graph.\<close>

fun add_to_group :: "FileMountSpec \<Rightarrow> (string \<times> fileMountGroup) list \<Rightarrow> (string \<times> fileMountGroup) list" where
  "add_to_group m [] =
     [(group_key m, \<lparr>gr_sourceType = fm_SourceType m, gr_sourceName = fm_SourceName m,
        gr_mountDir = path_Dir (fm_MountPath m), gr_items = [file_item m]\<rparr>)]"
| "add_to_group m ((key, g) # groups) =
     (if key = group_key m then (key, g\<lparr>gr_items := gr_items g @ [file_item m]\<rparr>) # groups
      else (key, g) # add_to_group m groups)"

definition file_groups :: "FileMountSpec list \<Rightarrow> (string \<times> fileMountGroup) list" where
  "file_groups fileMounts = fold add_to_group fileMounts []"

definition group_source :: "fileMountGroup \<Rightarrow> volume_source" where
  "group_source g =
     (if gr_sourceType g = FileMountSourceSecret \<or> gr_sourceType g = FileMountSourceApplicationSecret
      then SecretVolume (gr_sourceName g) (gr_items g) else ConfigMapVolume (gr_sourceName g) (gr_items g))"

definition file_volume_name :: "nat \<Rightarrow> string" where "file_volume_name index = ''file-'' @ show_nat index"

definition renderFileMounts :: "FileMountSpec list \<Rightarrow> Volume list \<times> VolumeMount list" where
  "renderFileMounts fileMounts =
     (let groups = enumerate 0 (map snd (file_groups fileMounts)) in
      (map (\<lambda>(index, g). \<lparr>vo_Name = file_volume_name index, vo_Source = group_source g\<rparr>) groups,
       map (\<lambda>(index, g). \<lparr>mt_Name = file_volume_name index, mt_MountPath = gr_mountDir g, mt_ReadOnly = True\<rparr>) groups))"

definition resolve_source :: "string \<Rightarrow> FileMountSpec \<Rightarrow> FileMountSpec" where
  "resolve_source applicationConfigName m =
     (let m1 = (if fm_SourceType m = FileMountSourceApplicationConfig
                then m\<lparr>fm_SourceType := FileMountSourceConfigMap, fm_SourceName := applicationConfigName\<rparr> else m)
      in if fm_SourceType m1 = FileMountSourceApplicationSecret
         then m1\<lparr>fm_SourceType := FileMountSourceSecret,
                  fm_SourceName := TrimSuffix applicationConfigName ''-config'' @ ''-secret''\<rparr> else m1)"

definition resolveFileMountSources :: "FileMountSpec list \<Rightarrow> string \<Rightarrow> FileMountSpec list" where
  "resolveFileMountSources fileMounts applicationConfigName = map (resolve_source applicationConfigName) fileMounts"

section \<open>Ingress\<close>

text \<open>The TLS entries in order, with the map from secret name to position as the list itself.\<close>

fun add_tls :: "string \<Rightarrow> string \<Rightarrow> IngressTLS list \<Rightarrow> IngressTLS list" where
  "add_tls host tlsName [] = [\<lparr>it_Hosts = [host], it_SecretName = tlsName\<rparr>]"
| "add_tls host tlsName (t # ts) =
     (if it_SecretName t = tlsName then t\<lparr>it_Hosts := it_Hosts t @ [host]\<rparr> # ts
      else t # add_tls host tlsName ts)"

definition endpoint_rule :: "ApplicationContext \<Rightarrow> int \<Rightarrow> ApplicationEndpoint \<Rightarrow> IngressRule" where
  "endpoint_rule cx servicePort e =
     \<lparr>ir_Host = ae_Domain e, ir_Path = (if ae_Path e = [] then ''/'' else ae_Path e),
      ir_ServiceName = cx_ApplicationName cx,
      ir_ServicePort = (if ae_ServicePort e \<le> 0 then servicePort else ae_ServicePort e)\<rparr>"

definition endpoint_tls_name :: "ApplicationContext \<Rightarrow> ApplicationEndpoint \<Rightarrow> string" where
  "endpoint_tls_name cx e = (if ae_TLSSecretName e = [] then cx_ApplicationName cx @ ''-tls'' else ae_TLSSecretName e)"

definition ingress_step ::
  "ApplicationContext \<Rightarrow> int \<Rightarrow> ApplicationEndpoint \<Rightarrow> IngressRule list \<times> IngressTLS list \<Rightarrow> IngressRule list \<times> IngressTLS list" where
  "ingress_step cx servicePort e acc =
     (case acc of (rules, tls) \<Rightarrow>
        if TrimSpace (ae_Domain e) = [] then (rules, tls)
        else (rules @ [endpoint_rule cx servicePort e],
              if \<not> ae_TLSEnabled e then tls else add_tls (ae_Domain e) (endpoint_tls_name cx e) tls))"

definition applicationEndpointsIngress :: "ApplicationContext \<Rightarrow> ApplicationEndpoint list \<Rightarrow> int \<Rightarrow> Ingress" where
  "applicationEndpointsIngress cx endpoints servicePort =
     (case fold (ingress_step cx servicePort) endpoints ([], []) of (rules, tls) \<Rightarrow>
        \<lparr>ig_Meta = \<lparr>om_Name = cx_ApplicationName cx, om_Namespace = cx_Namespace cx, om_Labels = managedLabels cx,
           om_Annotations = []\<rparr>, ig_Rules = rules, ig_TLS = tls\<rparr>)"

definition endpointIngress :: "ApplicationContext \<Rightarrow> EndpointSpec \<Rightarrow> int \<Rightarrow> Ingress" where
  "endpointIngress cx endpoint servicePort =
     applicationEndpointsIngress cx
       [\<lparr>ae_ID = 0, ae_ApplicationID = 0, ae_DomainID = 0, ae_Exposure = [], ae_Domain = ep_Domain endpoint,
         ae_Path = ep_Path endpoint, ae_ServicePort = 0, ae_Protocol = [], ae_TLSEnabled = ep_TLSEnabled endpoint,
         ae_IngressEnabled = False, ae_IngressMode = [], ae_TLSSecretName = ep_ManagedTLSSecretName endpoint,
         ae_IssuerRef = [], ae_AccessMode = []\<rparr>] servicePort"

section \<open>Rendering\<close>

datatype render_error =
    SpecInvalid issue_message
  | ContextIncomplete
  | ApplicationNameInvalid
  | WorkloadKindInvalid
  | CredentialsIncomplete
  | RenderPanic

definition imagePullSecret :: "ApplicationContext \<Rightarrow> string gomap \<Rightarrow> ReleaseSpec \<Rightarrow> render_error + Secret" where
  "imagePullSecret cx labels spec =
     (if TrimSpace (sp_RegistryEndpoint spec) = [] \<or> TrimSpace (sp_RegistryUsername spec) = [] \<or>
         TrimSpace (sp_RegistryCredential spec) = []
      then Inl CredentialsIncomplete
      else Inr \<lparr>se_Meta = \<lparr>om_Name = ''cylism-regcred-'' @ show_nat (sp_RegistryID spec), om_Namespace = cx_Namespace cx,
             om_Labels = labels, om_Annotations = []\<rparr>,
           se_Payload = DockerConfigJson (sp_RegistryEndpoint spec) (sp_RegistryUsername spec)
             (sp_RegistryCredential spec)
             (std_encode (sp_RegistryUsername spec @ '':'' @ sp_RegistryCredential spec))\<rparr>)"

definition must_parse :: "k8s_checks \<Rightarrow> string \<Rightarrow> string \<Rightarrow> (int \<times> int) option" where
  "must_parse k cpu memory =
     (case (ParseQuantity k cpu, ParseQuantity k memory) of (Some c, Some m) \<Rightarrow> Some (c, m) | _ \<Rightarrow> None)"

definition pvc_volume_name :: "nat \<Rightarrow> string" where "pvc_volume_name index = ''pvc-'' @ show_nat index"

definition render_pvcs :: "VolumeMountSpec list \<Rightarrow> Volume list \<times> VolumeMount list" where
  "render_pvcs vs =
     (map (\<lambda>(index, v). \<lparr>vo_Name = pvc_volume_name index,
         vo_Source = PersistentVolumeClaim (vm_ClaimName v) (vm_ReadOnly v)\<rparr>) (enumerate 0 vs),
      map (\<lambda>(index, v). \<lparr>mt_Name = pvc_volume_name index, mt_MountPath = vm_MountPath v,
         mt_ReadOnly = vm_ReadOnly v\<rparr>) (enumerate 0 vs))"

definition render_container ::
  "ApplicationContext \<Rightarrow> ReleaseSpec \<Rightarrow> int \<times> int \<Rightarrow> int \<times> int \<Rightarrow> env_from list \<Rightarrow> VolumeMount list \<Rightarrow> Container" where
  "render_container cx spec requests limits envFrom mounts =
     \<lparr>ct_Name = cx_ApplicationName cx, ct_Image = sp_Image spec, ct_Command = sp_Command spec, ct_Args = sp_Args spec,
      ct_Ports = renderContainerPorts (PortSpecs (sp_Service spec)), ct_Requests = requests, ct_Limits = limits,
      ct_ReadinessProbe = render_probe (hl_ReadinessEnabled (sp_Health spec)) (hl_ReadinessType (sp_Health spec))
        (hl_ReadinessPath (sp_Health spec)) (sp_ContainerPort spec),
      ct_LivenessProbe = render_probe (hl_LivenessEnabled (sp_Health spec)) (hl_LivenessType (sp_Health spec))
        (hl_LivenessPath (sp_Health spec)) (sp_ContainerPort spec),
      ct_EnvFrom = envFrom, ct_VolumeMounts = mounts\<rparr>"

definition render_pod_labels :: "ApplicationContext \<Rightarrow> string gomap" where
  "render_pod_labels cx =
     map_put ReleaseLabel (show_nat (cx_ReleaseSequence cx))
       (mergeLabels [managedLabels cx, workloadSelector (cx_ApplicationName cx)])"

definition render_service :: "ApplicationContext \<Rightarrow> ServiceSpec \<Rightarrow> Service" where
  "render_service cx service =
     \<lparr>sx_Meta = \<lparr>om_Name = cx_ApplicationName cx, om_Namespace = cx_Namespace cx, om_Labels = managedLabels cx, om_Annotations = []\<rparr>,
      sx_Type = normalizeServiceType (sv_Type service), sx_Selector = workloadSelector (cx_ApplicationName cx),
      sx_Ports = renderServicePorts (PortSpecs service), sx_ExternalTrafficPolicy = sv_ExternalTrafficPolicy service\<rparr>"

definition render_workload :: "ApplicationContext \<Rightarrow> ReleaseSpec \<Rightarrow> PodSpec \<Rightarrow> bool \<Rightarrow> Workload" where
  "render_workload cx spec pod stateful =
     \<lparr>wl_Meta = \<lparr>om_Name = cx_ApplicationName cx, om_Namespace = cx_Namespace cx, om_Labels = managedLabels cx,
        om_Annotations = [(ReleaseLabel, show_nat (cx_ReleaseSequence cx))]\<rparr>,
      wl_Replicas = sp_Replicas spec, wl_Selector = workloadSelector (cx_ApplicationName cx),
      wl_PodLabels = render_pod_labels cx, wl_PodSpec = pod,
      wl_Strategy = (if \<not> stateful \<and> (sp_HostNetwork spec \<or> sp_Volumes spec \<noteq> []) then ''Recreate'' else []),
      wl_ServiceName = (if stateful then cx_ApplicationName cx else [])\<rparr>"

definition needs_pull_secret :: "ReleaseSpec \<Rightarrow> bool" where
  "needs_pull_secret spec \<longleftrightarrow>
     sp_RegistryID spec \<noteq> 0 \<and> sp_RegistryAuthType spec \<noteq> [] \<and> sp_RegistryAuthType spec \<noteq> ''anonymous''"

definition effective_kind :: "ApplicationContext \<Rightarrow> string" where
  "effective_kind cx = (if cx_WorkloadKind cx = [] then WorkloadKindDeployment else cx_WorkloadKind cx)"

definition render_pod ::
  "ApplicationContext \<Rightarrow> ReleaseSpec \<Rightarrow> int \<times> int \<Rightarrow> int \<times> int \<Rightarrow> Secret option \<Rightarrow> PodSpec" where
  "render_pod cx spec requests limits pullSecret =
     (let configName = cx_ApplicationName cx @ ''-config''; secretName = cx_ApplicationName cx @ ''-secret'';
          config = enabledStringMap (sp_Config spec) (sp_ConfigDisabled spec);
          secrets = enabledStringMap (sp_Secrets spec) (sp_SecretsDisabled spec);
          (pvcVolumes, pvcMounts) = render_pvcs (sp_Volumes spec);
          (fileVolumes, fileMounts) = renderFileMounts (resolveFileMountSources (sp_FileMounts spec) configName);
          envFrom = (if config \<noteq> [] then [ConfigMapRef configName] else []) @
                    (if secrets \<noteq> [] then [SecretRef secretName] else []) in
      \<lparr>ps_Containers = [render_container cx spec requests limits envFrom (pvcMounts @ fileMounts)],
       ps_Volumes = pvcVolumes @ fileVolumes, ps_HostNetwork = sp_HostNetwork spec,
       ps_DNSPolicy = (if sp_HostNetwork spec then ''ClusterFirstWithHostNet'' else []),
       ps_NodeSelector = (if sp_NodeName spec \<noteq> [] then [(''kubernetes.io/hostname'', sp_NodeName spec)] else []),
       ps_ImagePullSecrets = (case pullSecret of None \<Rightarrow> [] | Some s \<Rightarrow> [om_Name (se_Meta s)])\<rparr>)"

definition render_objects ::
  "ApplicationContext \<Rightarrow> ReleaseSpec \<Rightarrow> PodSpec \<Rightarrow> Secret option \<Rightarrow> RenderedResources" where
  "render_objects cx spec pod pullSecret =
     (let config = enabledStringMap (sp_Config spec) (sp_ConfigDisabled spec);
          secrets = enabledStringMap (sp_Secrets spec) (sp_SecretsDisabled spec);
          meta = (\<lambda>name. \<lparr>om_Name = name, om_Namespace = cx_Namespace cx, om_Labels = managedLabels cx, om_Annotations = []\<rparr>);
          stateful = (effective_kind cx = WorkloadKindStatefulSet) in
      \<lparr>rr_ConfigMap = (if config \<noteq> [] then Some \<lparr>cm_Meta = meta (cx_ApplicationName cx @ ''-config''), cm_Data = config\<rparr> else None),
       rr_Secret = (if secrets \<noteq> [] \<and> hasSecretValues secrets
          then Some \<lparr>se_Meta = meta (cx_ApplicationName cx @ ''-secret''), se_Payload = Opaque secrets\<rparr> else None),
       rr_ImagePullSecret = pullSecret,
       rr_Deployment = (if stateful then None else Some (render_workload cx spec pod False)),
       rr_StatefulSet = (if stateful then Some (render_workload cx spec pod True) else None),
       rr_Service = Some (render_service cx (sp_Service spec)),
       rr_Ingress = (if ep_Exposure (sp_Endpoint spec) = ExposurePublic
          then Some (endpointIngress cx (sp_Endpoint spec)
             (case PrimaryTCPPort (sp_Service spec) of None \<Rightarrow> 0 | Some p \<Rightarrow> po_Port p)) else None),
       rr_SanitizedSpec = SanitizeReleaseSpec spec\<rparr>)"

definition pull_secret :: "ApplicationContext \<Rightarrow> ReleaseSpec \<Rightarrow> render_error + Secret option" where
  "pull_secret cx spec =
     (if needs_pull_secret spec then map_sum id Some (imagePullSecret cx (managedLabels cx) spec) else Inr None)"

definition RenderResources :: "k8s_checks \<Rightarrow> ApplicationContext \<Rightarrow> ReleaseSpec \<Rightarrow> render_error + RenderedResources" where
  "RenderResources k cx spec =
     (case ValidateReleaseSpec k spec of
        problem # _ \<Rightarrow> Inl (SpecInvalid (is_Message problem))
      | [] \<Rightarrow>
        if cx_ApplicationName cx = [] \<or> cx_Namespace cx = [] \<or> cx_ProjectName cx = [] \<or> cx_EnvironmentName cx = []
        then Inl ContextIncomplete
        else if \<not> ValidateApplicationName k (cx_ApplicationName cx) then Inl ApplicationNameInvalid
        else if effective_kind cx \<noteq> WorkloadKindDeployment \<and> effective_kind cx \<noteq> WorkloadKindStatefulSet
        then Inl WorkloadKindInvalid
        else (case pull_secret cx spec of
                Inl e \<Rightarrow> Inl e
              | Inr pullSecret \<Rightarrow>
                  (case (must_parse k (rc_RequestsCPU (sp_Resources spec)) (rc_RequestsMemory (sp_Resources spec)),
                         must_parse k (rc_LimitsCPU (sp_Resources spec)) (rc_LimitsMemory (sp_Resources spec))) of
                     (Some requests, Some limits) \<Rightarrow>
                       Inr (render_objects cx spec (render_pod cx spec requests limits pullSecret) pullSecret)
                   | _ \<Rightarrow> Inl RenderPanic)))"

section \<open>Lemmas\<close>

lemma RenderResources_Inr:
  assumes "RenderResources k cx spec = Inr r"
  obtains requests limits pullSecret where
    "r = render_objects cx spec (render_pod cx spec requests limits pullSecret) pullSecret"
    and "spec_ok k spec" and "ValidateApplicationName k (cx_ApplicationName cx)"
    and "effective_kind cx = WorkloadKindDeployment \<or> effective_kind cx = WorkloadKindStatefulSet"
proof -
  have "ValidateReleaseSpec k spec = []"
    using assms by (simp add: RenderResources_def split: list.splits)
  with assms that show ?thesis
    by (auto simp: RenderResources_def ValidateReleaseSpec_Nil split: if_splits sum.splits option.splits)
qed

lemma quantities_must_parse:
  assumes "quantities_ok k (rc_RequestsCPU r) (rc_LimitsCPU r)"
    and "quantities_ok k (rc_RequestsMemory r) (rc_LimitsMemory r)"
  shows "\<exists>a b. must_parse k (rc_RequestsCPU r) (rc_RequestsMemory r) = Some a \<and>
    must_parse k (rc_LimitsCPU r) (rc_LimitsMemory r) = Some b"
  using assms by (auto simp: quantities_ok_def parse_quantity_def must_parse_def split: if_splits)

definition credentials_ok :: "ReleaseSpec \<Rightarrow> bool" where
  "credentials_ok spec \<longleftrightarrow>
     (if needs_pull_secret spec
      then TrimSpace (sp_RegistryEndpoint spec) \<noteq> [] \<and> TrimSpace (sp_RegistryUsername spec) \<noteq> [] \<and>
           TrimSpace (sp_RegistryCredential spec) \<noteq> [] else True)"

lemma pull_secret_cases:
  "pull_secret cx spec = Inl e \<Longrightarrow> e = CredentialsIncomplete \<and> \<not> credentials_ok spec"
  "pull_secret cx spec = Inr s \<Longrightarrow> credentials_ok spec"
  by (auto simp: pull_secret_def imagePullSecret_def credentials_ok_def split: if_splits)

subsection \<open>Labels and volume names\<close>

lemma managedLabels_wf: "gomap_wf (managedLabels cx)"
  by (simp add: gomap_wf_def managedLabels_def label_defs)

lemma map_of_pod_labels:
  "map_of (render_pod_labels cx) =
     (map_of (managedLabels cx) ++ map_of (workloadSelector (cx_ApplicationName cx)))
       (ReleaseLabel \<mapsto> show_nat (cx_ReleaseSequence cx))"
proof -
  have "gomap_wf (workloadSelector (cx_ApplicationName cx))"
    by (simp add: gomap_wf_def workloadSelector_def)
  then show ?thesis
    by (simp add: render_pod_labels_def map_of_map_put map_of_mergeLabels managedLabels_wf)
qed

lemma pod_labels:
  "map_of (render_pod_labels cx) ReleaseLabel = Some (show_nat (cx_ReleaseSequence cx))"
  "map_of (workloadSelector (cx_ApplicationName cx)) \<subseteq>\<^sub>m map_of (render_pod_labels cx)"
  "map_of (managedLabels cx) \<subseteq>\<^sub>m map_of (render_pod_labels cx)"
  unfolding map_of_pod_labels
  by (auto simp: map_le_def map_add_def workloadSelector_def managedLabels_def label_defs)

lemma map_enumerate_fst: "map (\<lambda>x. f (fst x)) (enumerate n xs) = map f [n..<n + length xs]"
  by (induction xs arbitrary: n) (simp_all add: upt_rec)

lemma map_enumerate_snd: "map (\<lambda>x. f (snd x)) (enumerate n xs) = map f xs"
  by (induction xs arbitrary: n) simp_all

lemma pvc_names: "map vo_Name (fst (render_pvcs vs)) = map pvc_volume_name [0..<length vs]"
  "map mt_Name (snd (render_pvcs vs)) = map pvc_volume_name [0..<length vs]"
  by (simp_all add: render_pvcs_def split_def comp_def map_enumerate_fst)

lemma file_names:
  "map vo_Name (fst (renderFileMounts ms)) = map file_volume_name [0..<length (file_groups ms)]"
  "map mt_Name (snd (renderFileMounts ms)) = map file_volume_name [0..<length (file_groups ms)]"
  by (simp_all add: renderFileMounts_def Let_def split_def comp_def map_enumerate_fst)

lemma volume_names_distinct:
  "distinct (map pvc_volume_name [0..<m] @ map file_volume_name [0..<n])"
  by (auto simp: distinct_map inj_on_def pvc_volume_name_def file_volume_name_def)

subsection \<open>File groups\<close>

lemma map_of_add_to_group:
  "map_of (add_to_group m gs) key =
     (if key = group_key m then Some (case map_of gs key of
        None \<Rightarrow> \<lparr>gr_sourceType = fm_SourceType m, gr_sourceName = fm_SourceName m,
          gr_mountDir = path_Dir (fm_MountPath m), gr_items = [file_item m]\<rparr>
      | Some g \<Rightarrow> g\<lparr>gr_items := gr_items g @ [file_item m]\<rparr>) else map_of gs key)"
  by (induction m gs rule: add_to_group.induct) auto

lemma add_to_group_keys:
  "map fst (add_to_group m gs) = (if group_key m \<in> fst ` set gs then map fst gs else map fst gs @ [group_key m])"
  by (induction m gs rule: add_to_group.induct) auto

lemma file_groups_snoc: "file_groups (ms @ [m]) = add_to_group m (file_groups ms)"
  by (simp add: file_groups_def)

lemma file_groups_wf: "distinct (map fst (file_groups ms)) \<and> fst ` set (file_groups ms) = group_key ` set ms"
proof (induction ms rule: rev_induct)
  case (snoc m ms)
  have "fst ` set (add_to_group m (file_groups ms)) = insert (group_key m) (group_key ` set ms)"
    using snoc add_to_group_keys [of m "file_groups ms"]
    by (metis (no_types, lifting) Un_insert_right insert_absorb list.set_map set_append list.simps(15) sup_bot_right
        empty_set)
  with snoc show ?case by (auto simp: file_groups_snoc add_to_group_keys)
qed (simp add: file_groups_def)

text \<open>Every group has the source and directory of one of its files and holds exactly its files.\<close>

definition group_of :: "FileMountSpec \<Rightarrow> fileMountGroup \<Rightarrow> bool" where
  "group_of m g \<longleftrightarrow> gr_sourceType g = fm_SourceType m \<and> gr_sourceName g = fm_SourceName m \<and>
     gr_mountDir g = path_Dir (fm_MountPath m)"

lemma file_groups_content:
  "map_of (file_groups ms) key = Some g \<Longrightarrow>
   (\<exists>m \<in> set ms. group_key m = key \<and> group_of m g) \<and>
   gr_items g = map file_item (filter (\<lambda>m. group_key m = key) ms)"
proof (induction ms arbitrary: g rule: rev_induct)
  case (snoc m ms)
  show ?case
  proof (cases "key = group_key m")
    case False
    with snoc show ?thesis by (auto simp: file_groups_snoc map_of_add_to_group)
  next
    case True
    show ?thesis
    proof (cases "map_of (file_groups ms) key")
      case None
      then have "key \<notin> group_key ` set ms" using file_groups_wf by (metis map_of_eq_None_iff)
      then have "filter (\<lambda>m. group_key m = key) ms = []" by (auto simp: filter_empty_conv)
      with snoc.prems True None show ?thesis
        by (auto simp: file_groups_snoc map_of_add_to_group group_of_def)
    next
      case (Some g0)
      with snoc.prems True have g: "g = g0\<lparr>gr_items := gr_items g0 @ [file_item m]\<rparr>"
        by (simp add: file_groups_snoc map_of_add_to_group)
      from snoc.IH [OF Some] show ?thesis
        by (auto simp: g True group_of_def)
    qed
  qed
qed (simp add: file_groups_def)

lemma file_groups_member: "(key, g) \<in> set (file_groups ms) \<longleftrightarrow> map_of (file_groups ms) key = Some g"
  using file_groups_wf by (metis map_of_eq_Some_iff)

lemma in_set_enumerate_pair: "x \<in> set xs \<Longrightarrow> \<exists>i. (i, x) \<in> set (enumerate n xs)"
  by (metis in_set_conv_nth in_set_enumerate_eq fst_conv snd_conv add_diff_cancel_right' le_add2 add_less_cancel_right)

lemma renderFileMounts_group:
  assumes "(key, g) \<in> set (file_groups ms)"
  shows "\<exists>v \<in> set (fst (renderFileMounts ms)). \<exists>mt \<in> set (snd (renderFileMounts ms)).
    mt_Name mt = vo_Name v \<and> vo_Source v = group_source g \<and> mt_MountPath mt = gr_mountDir g \<and> mt_ReadOnly mt"
proof -
  have "g \<in> set (map snd (file_groups ms))" using assms by force
  then obtain i where "(i, g) \<in> set (enumerate 0 (map snd (file_groups ms)))"
    using in_set_enumerate_pair by metis
  then show ?thesis
    by (intro bexI [of _ "\<lparr>vo_Name = file_volume_name i, vo_Source = group_source g\<rparr>"]
        bexI [of _ "\<lparr>mt_Name = file_volume_name i, mt_MountPath = gr_mountDir g, mt_ReadOnly = True\<rparr>"])
      (force simp: renderFileMounts_def Let_def image_iff)+
qed

lemma renderFileMounts_dirs:
  "map mt_MountPath (snd (renderFileMounts ms)) = map (gr_mountDir \<circ> snd) (file_groups ms)"
  by (simp add: renderFileMounts_def Let_def split_def comp_def map_enumerate_snd)

subsection \<open>Sources of files\<close>

definition expected_source :: "ApplicationContext \<Rightarrow> FileMountSpec \<Rightarrow> (string \<times> string) list \<Rightarrow> volume_source" where
  "expected_source cx m items =
     (if fm_SourceType m = FileMountSourceApplicationConfig then ConfigMapVolume (cx_ApplicationName cx @ ''-config'') items
      else if fm_SourceType m = FileMountSourceApplicationSecret then SecretVolume (cx_ApplicationName cx @ ''-secret'') items
      else if fm_SourceType m = FileMountSourceSecret then SecretVolume (fm_SourceName m) items
      else ConfigMapVolume (fm_SourceName m) items)"

lemma resolve_source_simps [simp]:
  "fm_MountPath (resolve_source c m) = fm_MountPath m" "fm_Key (resolve_source c m) = fm_Key m"
  "file_item (resolve_source c m) = file_item m"
  by (simp_all add: resolve_source_def file_item_def Let_def)

lemma group_source_expected:
  assumes "group_of (resolve_source (cx_ApplicationName cx @ ''-config'') m) g" and "known_source m"
  shows "group_source g = expected_source cx m (gr_items g)"
  using assms
  by (auto simp: group_of_def group_source_def expected_source_def resolve_source_def known_source_def
      application_source_def source_defs Let_def TrimSuffix_append [of _ "''-config''", simplified])

text \<open>Names that the library accepts contain no NUL byte.\<close>

definition names_without_nul :: "k8s_checks \<Rightarrow> bool" where
  "names_without_nul k \<longleftrightarrow>
     (\<forall>s. IsDNS1123Subdomain k s \<longrightarrow> CHR 0x00 \<notin> set s) \<and> (\<forall>s. IsDNS1123Label k s \<longrightarrow> CHR 0x00 \<notin> set s)"

lemma nul_free_source:
  assumes "names_without_nul k" and "file_mount_ok k config secrets m" and "IsDNS1123Label k (cx_ApplicationName cx)"
  shows "CHR 0x00 \<notin> set (fm_SourceType (resolve_source (cx_ApplicationName cx @ ''-config'') m))"
    and "CHR 0x00 \<notin> set (fm_SourceName (resolve_source (cx_ApplicationName cx @ ''-config'') m))"
  using assms
  by (auto simp: names_without_nul_def file_mount_ok_def known_source_def application_source_def
      resolve_source_def source_defs Let_def TrimSuffix_append [of _ "''-config''", simplified])

lemma split_at_nul:
  assumes "CHR 0x00 \<notin> set a" and "CHR 0x00 \<notin> set a'" and "a @ CHR 0x00 # b = a' @ CHR 0x00 # b'"
  shows "a = a' \<and> b = b'"
  using assms by (induction a arbitrary: a') (case_tac a'; auto)+

lemma group_key_inj:
  assumes "group_key m = group_key m'"
    and "CHR 0x00 \<notin> set (fm_SourceType m)" "CHR 0x00 \<notin> set (fm_SourceName m)"
    and "CHR 0x00 \<notin> set (fm_SourceType m')" "CHR 0x00 \<notin> set (fm_SourceName m')"
  shows "fm_SourceType m = fm_SourceType m' \<and> fm_SourceName m = fm_SourceName m' \<and>
    path_Dir (fm_MountPath m) = path_Dir (fm_MountPath m')"
  using assms split_at_nul [of "fm_SourceType m" "fm_SourceType m'"]
    split_at_nul [of "fm_SourceName m" "fm_SourceName m'"]
  unfolding group_key_def by (metis append_Cons append_Nil)

lemma same_source_same_key:
  assumes "known_source m" "known_source m'" and "mount_source m = mount_source m'"
    and "path_Dir (fm_MountPath m) = path_Dir (fm_MountPath m')"
  shows "group_key (resolve_source c m) = group_key (resolve_source c m')"
proof -
  have "fm_SourceType m = fm_SourceType m' \<and> fm_SourceName m = fm_SourceName m'"
    using assms(1-3)
    by (auto simp: mount_source_def known_source_def application_source_def source_defs)
  with assms(4) show ?thesis by (simp add: group_key_def resolve_source_def Let_def)
qed

text \<open>With validated, trimmed mount paths no two groups have the same directory.\<close>

lemma file_dirs_distinct:
  assumes ok: "file_mounts_ok k config secrets ms"
    and trimmed: "\<forall>m \<in> set ms. TrimSpace (fm_MountPath m) = fm_MountPath m"
  shows "distinct (map (gr_mountDir \<circ> snd) (file_groups (resolveFileMountSources ms c)))"
proof -
  let ?ms = "resolveFileMountSources ms c"
  have "inj_on (gr_mountDir \<circ> snd) (set (file_groups ?ms))"
  proof (rule inj_onI)
    fix x y
    assume x: "x \<in> set (file_groups ?ms)" and y: "y \<in> set (file_groups ?ms)"
      and eq: "(gr_mountDir \<circ> snd) x = (gr_mountDir \<circ> snd) y"
    obtain kx gx ky gy where xy: "x = (kx, gx)" "y = (ky, gy)" by (cases x, cases y) auto
    obtain m where m: "m \<in> set ms" "group_key (resolve_source c m) = kx" "group_of (resolve_source c m) gx"
      using file_groups_content [of ?ms kx gx] x file_groups_member xy
      by (auto simp: resolveFileMountSources_def)
    obtain m' where m': "m' \<in> set ms" "group_key (resolve_source c m') = ky" "group_of (resolve_source c m') gy"
      using file_groups_content [of ?ms ky gy] y file_groups_member xy
      by (auto simp: resolveFileMountSources_def)
    have dir: "path_Dir (fm_MountPath m) = path_Dir (fm_MountPath m')"
      using eq m m' by (simp add: xy group_of_def)
    then have "mount_dir m = mount_dir m'" using trimmed m(1) m'(1) by (simp add: mount_dir_def)
    then have "mount_source m = mount_source m'"
      using ok m(1) m'(1) unfolding file_mounts_ok_def by blast
    moreover have "known_source m" "known_source m'"
      using ok m(1) m'(1) unfolding file_mounts_ok_def file_mount_ok_def by blast+
    ultimately have "kx = ky" using same_source_same_key dir m(2) m'(2) by metis
    with x y xy show "x = y" using file_groups_member by (metis option.inject)
  qed
  moreover have "distinct (file_groups ?ms)" using file_groups_wf by (metis distinct_map)
  ultimately show ?thesis by (simp add: distinct_map)
qed

subsection \<open>TLS entries\<close>

definition tls_host :: "ApplicationContext \<Rightarrow> ApplicationEndpoint list \<Rightarrow> string \<Rightarrow> string \<Rightarrow> bool" where
  "tls_host cx es secret host \<longleftrightarrow>
     (\<exists>e \<in> set es. TrimSpace (ae_Domain e) \<noteq> [] \<and> ae_TLSEnabled e \<and> ae_Domain e = host \<and> endpoint_tls_name cx e = secret)"

lemma add_tls_names:
  "map it_SecretName (add_tls host n ts) =
     (if n \<in> it_SecretName ` set ts then map it_SecretName ts else map it_SecretName ts @ [n])"
  by (induction host n ts rule: add_tls.induct) auto

lemma add_tls_hosts:
  "(\<exists>t \<in> set (add_tls host n ts). it_SecretName t = s \<and> h \<in> set (it_Hosts t)) \<longleftrightarrow>
     (\<exists>t \<in> set ts. it_SecretName t = s \<and> h \<in> set (it_Hosts t)) \<or> s = n \<and> h = host"
  by (induction host n ts rule: add_tls.induct) auto

lemma ingress_fold:
  "fold (ingress_step cx port) es (rules, tls) = (rules', tls') \<Longrightarrow> distinct (map it_SecretName tls) \<Longrightarrow>
   rules' = rules @ map (endpoint_rule cx port) (filter (\<lambda>e. TrimSpace (ae_Domain e) \<noteq> []) es) \<and>
   distinct (map it_SecretName tls') \<and>
   (\<forall>s h. (\<exists>t \<in> set tls'. it_SecretName t = s \<and> h \<in> set (it_Hosts t)) \<longleftrightarrow>
     (\<exists>t \<in> set tls. it_SecretName t = s \<and> h \<in> set (it_Hosts t)) \<or> tls_host cx es s h)"
proof (induction es arbitrary: rules tls)
  case Nil
  then show ?case by (simp add: tls_host_def)
next
  case (Cons e es)
  obtain r1 t1 where step: "ingress_step cx port e (rules, tls) = (r1, t1)" by fastforce
  then have rest: "fold (ingress_step cx port) es (r1, t1) = (rules', tls')" using Cons.prems(1) by simp
  have d: "distinct (map it_SecretName t1)"
    using step Cons.prems(2) by (auto simp: ingress_step_def add_tls_names split: if_splits)
  have r1: "r1 = rules @ map (endpoint_rule cx port) (filter (\<lambda>e. TrimSpace (ae_Domain e) \<noteq> []) [e])"
    using step by (auto simp: ingress_step_def split: if_splits)
  have t1: "(\<exists>t \<in> set t1. it_SecretName t = s \<and> h \<in> set (it_Hosts t)) \<longleftrightarrow>
     (\<exists>t \<in> set tls. it_SecretName t = s \<and> h \<in> set (it_Hosts t)) \<or> tls_host cx [e] s h" for s h
    using step add_tls_hosts [of "ae_Domain e" "endpoint_tls_name cx e" tls s h]
    by (auto simp: ingress_step_def tls_host_def split: if_splits)
  have split: "tls_host cx (e # es) s h \<longleftrightarrow> tls_host cx [e] s h \<or> tls_host cx es s h" for s h
    by (auto simp: tls_host_def)
  show ?case using Cons.IH [OF rest d] r1 t1 unfolding split by simp
qed

lemma render_ok_iff:
  "((\<exists>r. RenderResources k cx spec = Inr r) \<longleftrightarrow>
      spec_ok k spec \<and> cx_ApplicationName cx \<noteq> [] \<and> cx_Namespace cx \<noteq> [] \<and> cx_ProjectName cx \<noteq> [] \<and>
      cx_EnvironmentName cx \<noteq> [] \<and> IsDNS1123Label k (cx_ApplicationName cx) \<and>
      cx_WorkloadKind cx \<in> {[], WorkloadKindDeployment, WorkloadKindStatefulSet} \<and>
      credentials_ok spec) \<and>
   RenderResources k cx spec \<noteq> Inl RenderPanic"
proof (cases "ValidateReleaseSpec k spec")
  case (Cons problem rest)
  then have "\<not> spec_ok k spec" using ValidateReleaseSpec_Nil by (metis list.distinct(1))
  with Cons show ?thesis by (simp add: RenderResources_def)
next
  case Nil
  then have ok: "spec_ok k spec" using ValidateReleaseSpec_Nil by metis
  then obtain a b where
    "must_parse k (rc_RequestsCPU (sp_Resources spec)) (rc_RequestsMemory (sp_Resources spec)) = Some a"
    "must_parse k (rc_LimitsCPU (sp_Resources spec)) (rc_LimitsMemory (sp_Resources spec)) = Some b"
    using quantities_must_parse [of k "sp_Resources spec"] by (auto simp: spec_ok_def)
  then show ?thesis
    using Nil ok pull_secret_cases [of cx spec]
    by (cases "pull_secret cx spec")
      (simp_all add: RenderResources_def ValidateApplicationName_def effective_kind_def)
qed

section \<open>Properties\<close>

text \<open>
  C20. Rendering succeeds exactly on a valid specification in a complete context with a valid
  application name and workload kind, with complete credentials where a pull secret is needed; and
  the unchecked quantity parsing never panics.
\<close>

theorem render_succeeds_iff:
  "((\<exists>r. RenderResources k cx spec = Inr r) \<longleftrightarrow>
      spec_ok k spec \<and> cx_ApplicationName cx \<noteq> [] \<and> cx_Namespace cx \<noteq> [] \<and> cx_ProjectName cx \<noteq> [] \<and>
      cx_EnvironmentName cx \<noteq> [] \<and> IsDNS1123Label k (cx_ApplicationName cx) \<and>
      cx_WorkloadKind cx \<in> {[], WorkloadKindDeployment, WorkloadKindStatefulSet} \<and>
      credentials_ok spec) \<and>
   RenderResources k cx spec \<noteq> Inl RenderPanic"
  by (rule render_ok_iff)


text \<open>
  Every file of the specification is projected where it was asked for: with mount paths free of
  surrounding white space, the pod has a volume from the requested ConfigMap or Secret (the
  application's own for application sources) that holds the file's key under its base name, mounted
  read-only at the file's directory, and no two of these mounts share a directory.
\<close>

theorem files_projected:
  assumes rendered: "RenderResources k cx spec = Inr r" and nul: "names_without_nul k"
    and trimmed: "\<forall>m \<in> set (sp_FileMounts spec). TrimSpace (fm_MountPath m) = fm_MountPath m"
    and pod: "pod = wl_PodSpec (case rr_Deployment r of Some w \<Rightarrow> w | None \<Rightarrow> the (rr_StatefulSet r))"
  shows "(\<forall>m \<in> set (sp_FileMounts spec). \<exists>v \<in> set (ps_Volumes pod). \<exists>c \<in> set (ps_Containers pod).
      \<exists>mt \<in> set (ct_VolumeMounts c). \<exists>items. mt_Name mt = vo_Name v \<and> vo_Source v = expected_source cx m items \<and>
        (fm_Key m, path_Base (fm_MountPath m)) \<in> set items \<and>
        mt_MountPath mt = path_Dir (fm_MountPath m) \<and> mt_ReadOnly mt) \<and>
    distinct (map mt_MountPath (snd (renderFileMounts
      (resolveFileMountSources (sp_FileMounts spec) (cx_ApplicationName cx @ ''-config'')))))"
proof (intro conjI ballI)
  obtain requests limits pull where
    r: "r = render_objects cx spec (render_pod cx spec requests limits pull) pull"
    and ok: "spec_ok k spec" and name: "ValidateApplicationName k (cx_ApplicationName cx)"
    using rendered by (rule RenderResources_Inr)
  let ?c = "cx_ApplicationName cx @ ''-config''"
  let ?ms = "resolveFileMountSources (sp_FileMounts spec) ?c"
  have p: "pod = render_pod cx spec requests limits pull"
    by (auto simp: pod r render_objects_def render_workload_def Let_def)
  obtain config secrets where files: "file_mounts_ok k config secrets (sp_FileMounts spec)"
    using ok by (auto simp: spec_ok_def)
  show "distinct (map mt_MountPath (snd (renderFileMounts ?ms)))"
    using file_dirs_distinct [OF files trimmed, of ?c] by (simp add: renderFileMounts_dirs)
  fix m
  assume m: "m \<in> set (sp_FileMounts spec)"
  then have mok: "file_mount_ok k config secrets m" using files by (simp add: file_mounts_ok_def)
  let ?key = "group_key (resolve_source ?c m)"
  have "?key \<in> fst ` set (file_groups ?ms)"
    using file_groups_wf m by (auto simp: resolveFileMountSources_def)
  then obtain g where g: "(?key, g) \<in> set (file_groups ?ms)" by auto
  then have content: "map_of (file_groups ?ms) ?key = Some g" using file_groups_member by metis
  from file_groups_content [OF this] obtain m0 where m0: "m0 \<in> set (sp_FileMounts spec)"
      "group_key (resolve_source ?c m0) = ?key" "group_of (resolve_source ?c m0) g"
      and items: "gr_items g = map file_item (filter (\<lambda>x. group_key x = ?key) ?ms)"
    by (auto simp: resolveFileMountSources_def)
  have "file_mount_ok k config secrets m0" using files m0(1) by (simp add: file_mounts_ok_def)
  note nuls = nul_free_source [OF nul this] nul_free_source [OF nul mok]
  have "group_of (resolve_source ?c m) g"
    using group_key_inj [OF m0(2)] nuls name m0(3)
    by (auto simp: group_of_def ValidateApplicationName_def)
  then have src: "group_source g = expected_source cx m (gr_items g)" and dir: "gr_mountDir g = path_Dir (fm_MountPath m)"
    using group_source_expected mok by (auto simp: file_mount_ok_def group_of_def)
  have item: "(fm_Key m, path_Base (fm_MountPath m)) \<in> set (gr_items g)"
    unfolding items resolveFileMountSources_def using m
    by (simp add: image_iff Bex_def) (metis file_item_def resolve_source_simps(3))
  obtain v mt where "v \<in> set (fst (renderFileMounts ?ms))" "mt \<in> set (snd (renderFileMounts ?ms))"
      "mt_Name mt = vo_Name v" "vo_Source v = group_source g" "mt_MountPath mt = gr_mountDir g" "mt_ReadOnly mt"
    using renderFileMounts_group [OF g] by blast
  with src dir item show "\<exists>v \<in> set (ps_Volumes pod). \<exists>c \<in> set (ps_Containers pod).
      \<exists>mt \<in> set (ct_VolumeMounts c). \<exists>items. mt_Name mt = vo_Name v \<and> vo_Source v = expected_source cx m items \<and>
        (fm_Key m, path_Base (fm_MountPath m)) \<in> set items \<and>
        mt_MountPath mt = path_Dir (fm_MountPath m) \<and> mt_ReadOnly mt"
    by (intro bexI [of _ v]) (auto simp: p render_pod_def render_container_def Let_def split_def)
qed

text \<open>
  The Ingress of an application has one rule per endpoint with a domain, in order, and its TLS
  entries have distinct secrets: a host is listed under a secret exactly when an endpoint with TLS
  asks for that host with that secret.
\<close>

theorem ingress_entries:
  "ig_Rules (applicationEndpointsIngress cx es port) =
     map (endpoint_rule cx port) (filter (\<lambda>e. TrimSpace (ae_Domain e) \<noteq> []) es) \<and>
   distinct (map it_SecretName (ig_TLS (applicationEndpointsIngress cx es port))) \<and>
   ((\<exists>t \<in> set (ig_TLS (applicationEndpointsIngress cx es port)). it_SecretName t = s \<and> h \<in> set (it_Hosts t)) \<longleftrightarrow>
      tls_host cx es s h)"
proof -
  obtain rules tls where "fold (ingress_step cx port) es ([], []) = (rules, tls)" by fastforce
  with ingress_fold [OF this] show ?thesis by (simp add: applicationEndpointsIngress_def)
qed

section \<open>A concrete release\<close>

definition demo_checks :: k8s_checks where
  "demo_checks = \<lparr>IsDNS1123Subdomain = (\<lambda>s. s \<noteq> [] \<and> CHR 0x00 \<notin> set s), IsDNS1123Label = (\<lambda>s. s \<noteq> [] \<and> CHR 0x00 \<notin> set s),
     IsConfigMapKey = (\<lambda>s. s \<noteq> []), IsValidPortName = (\<lambda>s. s \<noteq> []), ParseQuantity = (\<lambda>s. map_option int (ParseUint64 s))\<rparr>"

definition demo_context :: ApplicationContext where
  "demo_context = \<lparr>cx_ProjectID = 1, cx_EnvironmentID = 2, cx_ProjectName = ''shop'', cx_EnvironmentName = ''prod'',
     cx_ApplicationName = ''web'', cx_Namespace = ''shop-prod'', cx_ReleaseSequence = 5, cx_WorkloadKind = []\<rparr>"

definition demo_rendered :: RenderedResources where
  "demo_rendered = projr (RenderResources demo_checks demo_context demo_spec)"

lemma demo_paths:
  "path_Clean ''/data'' = ''/data''" "file_path_ok ''/etc/app/app.conf''"
  by code_simp+

lemma demo_normalised:
  "normalizeServiceProtocol ''tcp'' = ''TCP''" "normalizeServiceType [] = ''ClusterIP''"
  by code_simp+

lemma demo_quantities:
  "ParseQuantity demo_checks ''1'' = Some 1" "ParseQuantity demo_checks ''2'' = Some 2"
  "ParseQuantity demo_checks ''3'' = Some 3" "ParseQuantity demo_checks ''4'' = Some 4"
  by code_simp+

lemmas demo_plain = TrimSpace_plain space_bytes_def space_runes_def

lemma demo_service_ok:
  "ports_ok demo_checks demo_service_spec" "exposure_ok demo_service_spec True"
  "endpoint_ok demo_service_spec demo_endpoint"
  by (simp_all add: ports_ok_def exposure_ok_def endpoint_ok_def PortSpecs_def PrimaryTCPPort_def port_ok_def
      port_range_def demo_service_spec_def demo_endpoint_def demo_normalised Let_def exposure_defs demo_plain)

lemma demo_quantities_ok: "quantities_ok demo_checks ''1'' ''3''" "quantities_ok demo_checks ''2'' ''4''"
  by (simp_all add: quantities_ok_def parse_quantity_def demo_quantities demo_plain)

lemma demo_files_ok:
  "volumes_ok demo_checks (sp_Volumes demo_spec)"
  "file_mounts_ok demo_checks (enabledStringMap (sp_Config demo_spec) (sp_ConfigDisabled demo_spec))
     (enabledStringMap (sp_Secrets demo_spec) (sp_SecretsDisabled demo_spec)) (sp_FileMounts demo_spec)"
  by (simp_all add: demo_spec_def volumes_ok_def file_mounts_ok_def file_mount_ok_def known_source_def
      application_source_def source_defs map_of_enabled demo_checks_def demo_paths demo_plain)

lemma demo_spec_ok: "spec_ok demo_checks demo_spec"
  using demo_files_ok demo_service_ok demo_quantities_ok
  by (simp add: spec_ok_def demo_spec_def arguments_ok_def argument_ok_def managed_keys_ok_def demo_health_def
      probe_ok_def demo_plain)

lemma demo_admissible: "credentials_ok demo_spec" "IsDNS1123Label demo_checks ''web''"
  by (simp_all add: credentials_ok_def needs_pull_secret_def demo_spec_def demo_checks_def)

lemma demo_rendered_eq: "RenderResources demo_checks demo_context demo_spec = Inr demo_rendered"
proof -
  have "\<exists>r. RenderResources demo_checks demo_context demo_spec = Inr r"
    by (rule iffD2 [OF conjunct1 [OF render_ok_iff]])
      (simp add: demo_spec_ok demo_context_def demo_admissible)
  then show ?thesis by (auto simp: demo_rendered_def)
qed

lemma demo_names_without_nul: "names_without_nul demo_checks"
  by (simp add: names_without_nul_def demo_checks_def)


lemma demo_mount_trimmed: "\<forall>m \<in> set (sp_FileMounts demo_spec). TrimSpace (fm_MountPath m) = fm_MountPath m"
  by (simp add: demo_spec_def TrimSpace_plain space_bytes_def space_runes_def)

theorem files_projected_witness:
  "\<exists>v \<in> set (ps_Volumes (wl_PodSpec (case rr_Deployment demo_rendered of Some w \<Rightarrow> w | None \<Rightarrow> the (rr_StatefulSet demo_rendered)))).
     \<exists>items. vo_Source v = expected_source demo_context (hd (sp_FileMounts demo_spec)) items"
proof -
  have "hd (sp_FileMounts demo_spec) \<in> set (sp_FileMounts demo_spec)" by (simp add: demo_spec_def)
  then show ?thesis
    using conjunct1 [OF files_projected [OF demo_rendered_eq demo_names_without_nul demo_mount_trimmed refl]] by blast
qed

end
