(* ===== verification/Application_Model.thy ===== *)
theory Application_Model
  imports Release_Spec
begin

text \<open>
  \<open>internal/model/application.go\<close>: projects, environments, applications and their deployment templates
  and managed files, and the capability labels of an application. The update timestamps and the fields
  that are only displayed are left out.
\<close>

section \<open>Tables\<close>

record Project =
  pj_ID :: nat
  pj_Name :: string
  pj_DefaultImageRegistryID :: "nat option"
  pj_OwnerID :: nat
  pj_CreatedAt :: int

record Environment =
  en_ID :: nat
  en_ProjectID :: nat
  en_Name :: string
  en_Namespace :: string
  en_CreatedAt :: int

record Application =
  ap_ID :: nat
  ap_ProjectID :: nat
  ap_EnvironmentID :: nat
  ap_Name :: string
  ap_WorkloadKind :: string
  ap_CapabilitiesData :: "string list json"
  ap_Capabilities :: "string list"
  ap_DefaultDeploymentTemplateID :: "nat option"
  ap_CreatedAt :: int
  ap_Project :: Project
  ap_Environment :: Environment

text \<open>The secrets of a template are the encryption of a JSON object.\<close>

record ApplicationDeploymentTemplate =
  dt_ID :: nat
  dt_ApplicationID :: nat
  dt_Name :: string
  dt_Enabled :: bool
  dt_Spec :: "ReleaseSpec json"
  dt_EncryptedSecrets :: string
  dt_Revision :: nat
  dt_CreatedAt :: int

record ApplicationManagedFile =
  mf_ID :: nat
  mf_ApplicationID :: nat
  mf_ResourceKind :: string
  mf_ResourceName :: string
  mf_Key :: string
  mf_MountPath :: string
  mf_Format :: string
  mf_Version :: nat
  mf_Enabled :: bool
  mf_CreatedBy :: nat

section \<open>Capabilities\<close>

definition maxApplicationCapabilities :: nat where "maxApplicationCapabilities = 16"

definition capability_end :: "char \<Rightarrow> bool" where
  "capability_end c \<longleftrightarrow> is_lower c \<or> is_digit c"

definition capability_inner :: "char \<Rightarrow> bool" where
  "capability_inner c \<longleftrightarrow> capability_end c \<or> c = CHR ''-''"

text \<open>\<open>^[a-z0-9](?:[a-z0-9-]{0,62}[a-z0-9])?$\<close>\<close>

definition applicationCapabilityPattern :: "string \<Rightarrow> bool" where
  "applicationCapabilityPattern s \<longleftrightarrow>
     (case s of
        [] \<Rightarrow> False
      | c # rest \<Rightarrow> capability_end c \<and>
          (rest = [] \<or> (length rest \<le> 63 \<and> list_all capability_inner (butlast rest) \<and> capability_end (last rest))))"

datatype capability_error = TooManyCapabilities | CapabilityInvalid string

fun capability_loop :: "string list \<Rightarrow> string list \<Rightarrow> capability_error + string list" where
  "capability_loop unique [] = Inr unique"
| "capability_loop unique (value # rest) =
     (let capability = ToLower (TrimSpace value) in
      if \<not> applicationCapabilityPattern capability then Inl (CapabilityInvalid value)
      else capability_loop (List.insert capability unique) rest)"

definition NormalizeApplicationCapabilities :: "string list \<Rightarrow> capability_error + string list" where
  "NormalizeApplicationCapabilities vals =
     (if length vals > maxApplicationCapabilities then Inl TooManyCapabilities
      else map_sum id sort (capability_loop [] vals))"

definition SetCapabilities :: "string list \<Rightarrow> Application \<Rightarrow> capability_error + Application" where
  "SetCapabilities vals app =
     map_sum id (\<lambda>normalized. app\<lparr>ap_Capabilities := normalized, ap_CapabilitiesData := JSON normalized\<rparr>)
       (NormalizeApplicationCapabilities vals)"

definition LoadCapabilities :: "Application \<Rightarrow> Application" where
  "LoadCapabilities app =
     app\<lparr>ap_Capabilities :=
       (case unmarshal (ap_CapabilitiesData app) of
          None \<Rightarrow> []
        | Some vals \<Rightarrow> (case NormalizeApplicationCapabilities vals of Inl _ \<Rightarrow> [] | Inr normalized \<Rightarrow> normalized))\<rparr>"

section \<open>Lemmas\<close>

lemma pattern_chars:
  assumes "applicationCapabilityPattern s"
  shows "list_all capability_inner s"
proof -
  obtain c rest where s: "s = c # rest" and c: "capability_end c"
      and rest: "rest = [] \<or> list_all capability_inner (butlast rest) \<and> capability_end (last rest)"
    using assms by (auto simp: applicationCapabilityPattern_def split: list.splits)
  have "list_all capability_inner rest"
    using rest by (cases rest rule: rev_cases) (auto simp: capability_inner_def)
  with s c show ?thesis by (simp add: capability_inner_def)
qed

lemma inner_char: "capability_inner c \<Longrightarrow> c \<le> CHR 0x7F \<and> c \<notin> space_bytes \<and> lower_char c = c"
  by (auto simp: capability_inner_def capability_end_def char_class_defs less_eq_char_def less_char_def space_bytes_def
      space_runes_def lower_char_def)

lemma pattern_fixed:
  assumes "applicationCapabilityPattern s"
  shows "ToLower (TrimSpace s) = s"
proof -
  have inner: "\<forall>c \<in> set s. capability_inner c" using pattern_chars [OF assms] by (simp add: list_all_iff)
  then have "TrimSpace s = s" using inner_char by (intro TrimSpace_plain) blast
  moreover have "ascii s" using inner inner_char by (auto simp: ascii_def list_all_iff)
  moreover have "map lower_char s = s" using inner inner_char by (intro map_idI) blast
  ultimately show ?thesis by (simp add: ToLower_ascii)
qed

lemma capability_loop_spec:
  "(capability_loop unique vals = Inr caps \<longleftrightarrow>
      list_all (\<lambda>v. applicationCapabilityPattern (ToLower (TrimSpace v))) vals \<and>
      caps = fold (\<lambda>v. List.insert (ToLower (TrimSpace v))) vals unique)"
  by (induction unique vals rule: capability_loop.induct) (auto simp: Let_def)

lemma fold_insert_spec:
  "set (fold (\<lambda>v. List.insert (f v)) vals unique) = f ` set vals \<union> set unique \<and>
   (distinct unique \<longrightarrow> distinct (fold (\<lambda>v. List.insert (f v)) vals unique))"
  by (induction vals arbitrary: unique) auto

lemma Normalize_Inr:
  "NormalizeApplicationCapabilities vals = Inr caps \<longleftrightarrow>
     length vals \<le> 16 \<and> list_all (\<lambda>v. applicationCapabilityPattern (ToLower (TrimSpace v))) vals \<and>
     caps = sorted_list_of_set ((\<lambda>v. ToLower (TrimSpace v)) ` set vals)"
proof -
  let ?u = "fold (\<lambda>v. List.insert (ToLower (TrimSpace v))) vals []"
  have "distinct ?u" using fold_insert_spec [of "\<lambda>v. ToLower (TrimSpace v)" vals "[]"] by simp
  then have "sort ?u = sorted_list_of_set (set ?u)"
    by (simp only: sorted_list_of_set_sort_remdups distinct_remdups_id)
  moreover have "set ?u = (\<lambda>v. ToLower (TrimSpace v)) ` set vals"
    using fold_insert_spec [of "\<lambda>v. ToLower (TrimSpace v)" vals "[]"] by simp
  moreover have "map_sum id sort r = Inr caps \<longleftrightarrow> (\<exists>u. r = Inr u \<and> caps = sort u)" for r :: "capability_error + string list"
    by (cases r) auto
  ultimately show ?thesis
    by (auto simp: NormalizeApplicationCapabilities_def maxApplicationCapabilities_def capability_loop_spec)
qed

lemma Normalize_idem:
  assumes "NormalizeApplicationCapabilities vals = Inr caps"
  shows "NormalizeApplicationCapabilities caps = Inr caps"
proof -
  let ?f = "\<lambda>v. ToLower (TrimSpace v)"
  have vals: "length vals \<le> 16" "\<forall>v \<in> set vals. applicationCapabilityPattern (?f v)"
      and caps: "caps = sorted_list_of_set (?f ` set vals)"
    using assms by (simp_all add: Normalize_Inr list_all_iff)
  have fixed: "?f v = v" if "v \<in> set caps" for v using that vals(2) pattern_fixed by (auto simp: caps)
  have "length caps \<le> 16"
    using card_image_le [of "set vals" ?f] card_length [of vals] vals(1) by (simp add: caps)
  moreover have "?f ` set caps = set caps" using fixed by simp
  then have "sorted_list_of_set (?f ` set caps) = caps" by (simp add: caps)
  moreover have "applicationCapabilityPattern (?f v)" if "v \<in> set caps" for v
    using that vals(2) fixed [OF that] by (auto simp: caps)
  ultimately show ?thesis using \<open>sorted_list_of_set (?f ` set caps) = caps\<close> by (simp add: Normalize_Inr list_all_iff)
qed

section \<open>Properties\<close>

text \<open>
  Capability labels have a normal form: up to sixteen well-formed labels are accepted, and the
  result is the sorted list, without duplicates, of their trimmed lower-case forms, so neither order
  nor repetition matters. Normalising again changes nothing, and what \<open>SetCapabilities\<close> stores is
  what \<open>LoadCapabilities\<close> reads back.
\<close>

theorem capabilities_normal_form:
  "case NormalizeApplicationCapabilities vals of
     Inl _ \<Rightarrow> \<not> (length vals \<le> 16 \<and> list_all (\<lambda>v. applicationCapabilityPattern (ToLower (TrimSpace v))) vals)
   | Inr caps \<Rightarrow>
       caps = sorted_list_of_set ((\<lambda>v. ToLower (TrimSpace v)) ` set vals) \<and> length caps \<le> 16 \<and>
       list_all applicationCapabilityPattern caps \<and> NormalizeApplicationCapabilities caps = Inr caps \<and>
       SetCapabilities vals app = Inr (app\<lparr>ap_Capabilities := caps, ap_CapabilitiesData := JSON caps\<rparr>) \<and>
       LoadCapabilities (app\<lparr>ap_CapabilitiesData := JSON caps\<rparr>) = app\<lparr>ap_Capabilities := caps, ap_CapabilitiesData := JSON caps\<rparr>"
proof (cases "NormalizeApplicationCapabilities vals")
  case (Inl e)
  then show ?thesis
    using Normalize_Inr [of vals "sorted_list_of_set ((\<lambda>v. ToLower (TrimSpace v)) ` set vals)"] by auto
next
  case (Inr caps)
  note again = Normalize_idem [OF Inr]
  have "list_all applicationCapabilityPattern caps"
    using Inr pattern_fixed by (auto simp: Normalize_Inr list_all_iff)
  moreover have "caps = sorted_list_of_set ((\<lambda>v. ToLower (TrimSpace v)) ` set vals)" and "length caps \<le> 16"
    using Inr again unfolding Normalize_Inr by blast+
  ultimately show ?thesis using Inr again by (simp add: SetCapabilities_def LoadCapabilities_def)
qed

end
