(* ===== verification/Registry_Rules.thy ===== *)
theory Registry_Rules
  imports Release_Validation Security_Crypto
begin

text \<open>
  Rules shared by the registry components: \<open>internal/model/registry.go\<close> and the functions of
  \<open>internal/service/registry/image_reference.go\<close>, \<open>resource_validation.go\<close>, \<open>registry_credentials.go\<close>
  and \<open>validation.go\<close>. The parser of image references is a third-party package and a parameter,
  \<open>image_names\<close>: \<open>ParseReference\<close> yields the registry, the repository and the tag or digest.
  Timestamps that nothing reads are left out.
\<close>

section \<open>Tables\<close>

record ImageRegistry =
  ir_ID :: nat
  ir_Name :: string
  ir_Endpoint :: string
  ir_VerificationImage :: string
  ir_AuthType :: string
  ir_Username :: string
  ir_Credential :: string
  ir_Enabled :: bool
  ir_LastVerifiedAt :: "int option"
  ir_LastVerifyStatus :: string
  ir_LastVerifyError :: string
  ir_CreatedBy :: nat
  ir_ManagedRegistryID :: "nat option"
  ir_Projects :: "nat list"
  ir_CredentialConfigured :: bool

text \<open>\<open>model.Server\<close>: the fields the cluster logic reads.\<close>

record Server =
  sr_ID :: nat
  sr_Name :: string
  sr_Host :: string
  sr_ClusterRole :: string
  sr_K8sNodeName :: string

record NodeRegistryMirrorNode =
  ms_ID :: nat
  ms_MirrorID :: nat
  ms_ServerID :: nat
  ms_Status :: string
  ms_Detail :: string
  ms_AppliedAt :: "int option"
  ms_Server :: "Server option"

record NodeRegistryMirror =
  nm_ID :: nat
  nm_Name :: string
  nm_Registry :: string
  nm_Endpoints :: "string list json"
  nm_VerificationImage :: string
  nm_Username :: string
  nm_Credential :: string
  nm_InsecureSkipVerify :: bool
  nm_Enabled :: bool
  nm_CreatedBy :: nat
  nm_ManagedRegistryID :: "nat option"
  nm_LastVerifiedAt :: "int option"
  nm_LastVerifyStatus :: string
  nm_LastVerifyError :: string
  nm_LastAppliedAt :: "int option"
  nm_LastApplyStatus :: string
  nm_LastApplyError :: string
  nm_CreatedAt :: int
  nm_CredentialConfigured :: bool
  nm_NodeStatuses :: "NodeRegistryMirrorNode list"

record ManagedOCIRegistry =
  mr_ID :: nat
  mr_Name :: string
  mr_Namespace :: string
  mr_ResourceName :: string
  mr_Endpoint :: string
  mr_VerificationImage :: string
  mr_RegistryImage :: string
  mr_DataNode :: string
  mr_PVCName :: string
  mr_CPURequest :: string
  mr_CPULimit :: string
  mr_MemoryRequest :: string
  mr_MemoryLimit :: string
  mr_InsecureHTTP :: bool
  mr_CertificateName :: string
  mr_PullUsername :: string
  mr_EncryptedCredential :: string
  mr_ImageRegistryID :: "nat option"
  mr_NodeRegistryMirrorID :: "nat option"
  mr_Status :: string
  mr_LastError :: string
  mr_CreatedBy :: nat

section \<open>Image references\<close>

datatype image_version = Tag string | Digest string

record image_reference =
  rf_Registry :: string
  rf_Repository :: string
  rf_Version :: image_version

record image_names =
  ParseReference :: "string \<Rightarrow> image_reference option"
  NewRegistry_ok :: "string \<Rightarrow> bool"

datatype registry_error =
    ImageEndpointInvalid | VerificationImageMissing | VerificationImageInvalid
  | VerificationImageMismatch | RegistryAddressInvalid | ResourceQuantityInvalid string
  | RequestAboveLimit | PVCNameInvalid

definition NormalizeImageRegistryEndpoint :: "string \<Rightarrow> registry_error + string" where
  "NormalizeImageRegistryEndpoint value =
     (let endpoint0 = TrimSuffix (TrimSpace value) ''/'';
          endpoint1 = TrimPrefix endpoint0 ''https://'';
          endpoint = TrimPrefix endpoint1 ''http://'' in
      if endpoint = [] \<or> ContainsAny endpoint '' /?#@'' \<or> Contains endpoint ''://'' then Inl ImageEndpointInvalid
      else Inr endpoint)"

definition canonical_registry :: "string \<Rightarrow> string" where
  "canonical_registry value =
     (let v = ToLower (TrimSpace value) in
      if v = ''index.docker.io'' \<or> v = ''registry-1.docker.io'' then ''docker.io'' else v)"

definition SameRegistry :: "string \<Rightarrow> string \<Rightarrow> bool" where
  "SameRegistry left right \<longleftrightarrow> canonical_registry left = canonical_registry right"

definition VerificationImageReference :: "image_names \<Rightarrow> string \<Rightarrow> string \<Rightarrow> registry_error + image_reference" where
  "VerificationImageReference names registry img =
     (let trimmed = TrimSpace img in
      if trimmed = [] then Inl VerificationImageMissing
      else case ParseReference names trimmed of
          None \<Rightarrow> Inl VerificationImageInvalid
        | Some ref \<Rightarrow> if \<not> SameRegistry (rf_Registry ref) registry then Inl VerificationImageMismatch else Inr ref)"

definition ValidateVerificationImage :: "image_names \<Rightarrow> string \<Rightarrow> string \<Rightarrow> registry_error + unit" where
  "ValidateVerificationImage names registry img =
     (if \<not> NewRegistry_ok names (TrimSpace registry) then Inl RegistryAddressInvalid
      else map_sum id (\<lambda>_. ()) (VerificationImageReference names registry img))"

section \<open>Credentials\<close>

definition AuthTypeAnonymous :: string where "AuthTypeAnonymous = ''anonymous''"
definition AuthTypeBasic :: string where "AuthTypeBasic = ''basic''"
definition AuthTypeToken :: string where "AuthTypeToken = ''token''"

definition EncryptCredential :: "aead \<Rightarrow> string option \<Rightarrow> string \<Rightarrow> string \<Rightarrow> crypto_error + string" where
  "EncryptCredential a random key credential = Encrypt a random key credential"

definition DecryptCredential :: "aead \<Rightarrow> string \<Rightarrow> string \<Rightarrow> crypto_error + string" where
  "DecryptCredential a key encrypted = Decrypt a key encrypted"

definition CredentialConfigured :: "string \<Rightarrow> bool" where
  "CredentialConfigured encrypted \<longleftrightarrow> encrypted \<noteq> []"

section \<open>Resources and certificates\<close>

definition positive_quantity :: "k8s_checks \<Rightarrow> string \<Rightarrow> bool" where
  "positive_quantity k value \<longleftrightarrow> (case ParseQuantity k value of None \<Rightarrow> False | Some q \<Rightarrow> q > 0)"

definition quantity_value :: "k8s_checks \<Rightarrow> string \<Rightarrow> int" where
  "quantity_value k value = (case ParseQuantity k value of None \<Rightarrow> 0 | Some q \<Rightarrow> q)"

definition ValidateResourceQuantities :: "k8s_checks \<Rightarrow> string \<Rightarrow> string \<Rightarrow> string \<Rightarrow> string \<Rightarrow> registry_error + unit" where
  "ValidateResourceQuantities k cpuRequest cpuLimit memoryRequest memoryLimit =
     (case find (\<lambda>value. \<not> positive_quantity k value) [cpuRequest, cpuLimit, memoryRequest, memoryLimit] of
        Some value \<Rightarrow> Inl (ResourceQuantityInvalid value)
      | None \<Rightarrow>
          if quantity_value k cpuRequest > quantity_value k cpuLimit \<or>
             quantity_value k memoryRequest > quantity_value k memoryLimit
          then Inl RequestAboveLimit else Inr ())"

definition ValidateExistingPVCName :: "k8s_checks \<Rightarrow> string \<Rightarrow> registry_error + unit" where
  "ValidateExistingPVCName k name = (if name = [] \<or> \<not> IsDNS1123Subdomain k name then Inl PVCNameInvalid else Inr ())"

definition certificateCoversHostname :: "string \<Rightarrow> string \<Rightarrow> bool" where
  "certificateCoversHostname certificateDomain0 hostname0 =
     (let certificateDomain = ToLower (TrimSpace certificateDomain0); hostname = ToLower (TrimSpace hostname0) in
      if certificateDomain = hostname then True
      else if \<not> HasPrefix certificateDomain ''*.'' then False
      else let suff = TrimPrefix certificateDomain ''*'' in
        if \<not> HasSuffix hostname suff then False
        else let pref = TrimSuffix hostname suff in pref \<noteq> [] \<and> \<not> Contains pref ''.'')"

definition CertificateDomainsCoverHostname :: "string list \<Rightarrow> string \<Rightarrow> bool" where
  "CertificateDomainsCoverHostname domains hostname = list_ex (\<lambda>domain. certificateCoversHostname domain hostname) domains"

definition managed_name :: "string \<Rightarrow> string" where
  "managed_name name = map char_of [0xe5 :: nat, 0x8f, 0x97, 0xe7, 0xae, 0xa1, 0xe5, 0x88, 0xb6, 0xe5, 0x93, 0x81, 0xe5, 0xba, 0x93]
     @ '' '' @ map char_of [0xc2 :: nat, 0xb7] @ '' '' @ name"

definition ManagedRegistryAssociations :: "ManagedOCIRegistry \<Rightarrow> ImageRegistry \<times> NodeRegistryMirror" where
  "ManagedRegistryAssociations registry =
     (let scheme = (if mr_InsecureHTTP registry then ''http'' else ''https'');
          endpoints = JSON [scheme @ ''://'' @ mr_Endpoint registry];
          name = managed_name (mr_Name registry) in
      (\<lparr>ir_ID = 0, ir_Name = name, ir_Endpoint = mr_Endpoint registry, ir_VerificationImage = mr_VerificationImage registry,
        ir_AuthType = ''basic'', ir_Username = mr_PullUsername registry, ir_Credential = mr_EncryptedCredential registry,
        ir_Enabled = True, ir_LastVerifiedAt = None, ir_LastVerifyStatus = [], ir_LastVerifyError = [],
        ir_CreatedBy = mr_CreatedBy registry, ir_ManagedRegistryID = Some (mr_ID registry), ir_Projects = [],
        ir_CredentialConfigured = False\<rparr>,
       \<lparr>nm_ID = 0, nm_Name = name, nm_Registry = mr_Endpoint registry, nm_Endpoints = endpoints,
        nm_VerificationImage = mr_VerificationImage registry, nm_Username = mr_PullUsername registry,
        nm_Credential = mr_EncryptedCredential registry, nm_InsecureSkipVerify = False, nm_Enabled = True,
        nm_CreatedBy = mr_CreatedBy registry, nm_ManagedRegistryID = Some (mr_ID registry), nm_LastVerifiedAt = None,
        nm_LastVerifyStatus = [], nm_LastVerifyError = [], nm_LastAppliedAt = None, nm_LastApplyStatus = [],
        nm_LastApplyError = [], nm_CreatedAt = 0, nm_CredentialConfigured = False, nm_NodeStatuses = []\<rparr>))"

section \<open>Lemmas\<close>

lemma SameRegistry_equivp: "equivp SameRegistry"
  by (auto simp: SameRegistry_def intro!: equivpI reflpI sympI transpI)

lemma wildcard_suffix:
  assumes "suffix (CHR ''.'' # rest) h"
  shows "(TrimSuffix h (CHR ''.'' # rest) \<noteq> [] \<and> CHR ''.'' \<notin> set (TrimSuffix h (CHR ''.'' # rest))) \<longleftrightarrow>
    (\<exists>label. h = label @ ''.'' @ rest \<and> label \<noteq> [] \<and> CHR ''.'' \<notin> set label)"
  using TrimSuffix_eq [OF assms] by (metis TrimSuffix_append append_Cons append_Nil)

section \<open>Properties\<close>

text \<open>
  A certificate covers a host name exactly when one of its names, up to case and surrounding
  white space, is the host name or is a wildcard that stands for one non-empty label of it.
\<close>

theorem certificate_coverage:
  "CertificateDomainsCoverHostname domains hostname \<longleftrightarrow>
     (\<exists>domain \<in> set domains.
        let d = ToLower (TrimSpace domain); h = ToLower (TrimSpace hostname) in
        d = h \<or> (\<exists>label rest. d = ''*.'' @ rest \<and> h = label @ ''.'' @ rest \<and> label \<noteq> [] \<and> CHR ''.'' \<notin> set label))"
proof -
  have "certificateCoversHostname domain hostname \<longleftrightarrow>
      (let d = ToLower (TrimSpace domain); h = ToLower (TrimSpace hostname) in
        d = h \<or> (\<exists>label rest. d = ''*.'' @ rest \<and> h = label @ ''.'' @ rest \<and> label \<noteq> [] \<and> CHR ''.'' \<notin> set label))"
    for domain
  proof (cases "prefix ''*.'' (ToLower (TrimSpace domain))")
    case False
    then show ?thesis by (auto simp: certificateCoversHostname_def HasPrefix_def Let_def)
  next
    case True
    then obtain rest where d: "ToLower (TrimSpace domain) = ''*.'' @ rest" by (auto elim: prefixE)
    let ?h = "ToLower (TrimSpace hostname)"
    have suff: "TrimPrefix (''*.'' @ rest) ''*'' = CHR ''.'' # rest"
      using TrimPrefix_append [of "''*''" "CHR ''.'' # rest"] by simp
    have "(suffix (CHR ''.'' # rest) ?h \<and> TrimSuffix ?h (CHR ''.'' # rest) \<noteq> [] \<and>
        CHR ''.'' \<notin> set (TrimSuffix ?h (CHR ''.'' # rest))) \<longleftrightarrow>
      (\<exists>label. ?h = label @ ''.'' @ rest \<and> label \<noteq> [] \<and> CHR ''.'' \<notin> set label)"
      using wildcard_suffix [of rest ?h] by (auto simp: suffix_def)
    then show ?thesis
      using suff by (auto simp: certificateCoversHostname_def HasPrefix_def HasSuffix_def Contains_def Contains_single d Let_def)
  qed
  then show ?thesis by (simp add: CertificateDomainsCoverHostname_def list_ex_iff)
qed

end
