(* ===== verification/Release_Execution.thy ===== *)
theory Release_Execution
  imports Release_Rendering Application_Model Registry_Rules
begin

text \<open>
  Creating and executing an application release:
  \<open>internal/service/application/release_execution.go\<close> over
  \<open>internal/store/application_release_repository.go\<close> and \<open>internal/model/release.go\<close>.

  The state holds the tables and the trace of calls made to the cluster through the
  \<open>ResourceApplier\<close> interface. What an applier call answers is a parameter that may depend on all
  calls made before. A wall clock reading is \<open>clock n\<close> where \<open>n\<close> counts the database calls made so
  far; which of these fail is \<open>fault\<close>.
\<close>

section \<open>Tables\<close>

record Release =
  rl_ID :: nat
  rl_ApplicationID :: nat
  rl_Sequence :: nat
  rl_Image :: string
  rl_Version :: string
  rl_TemplateID :: "nat option"
  rl_TemplateRevision :: nat
  rl_ImageRegistryID :: "nat option"
  rl_PodTrackingEnabled :: bool
  rl_DesiredSpec :: "ReleaseSpec json"
  rl_Status :: string
  rl_SourceReleaseID :: "nat option"
  rl_CreatedBy :: nat
  rl_StartedAt :: "int option"
  rl_CompletedAt :: "int option"

record ReleaseOperation =
  ro_ID :: nat
  ro_ReleaseID :: nat
  ro_Step :: string
  ro_Status :: string
  ro_Detail :: string
  ro_StartedAt :: "int option"
  ro_CompletedAt :: "int option"

record OperationLog =
  ol_ID :: nat
  ol_ResourceType :: string
  ol_ResourceID :: nat
  ol_Step :: string
  ol_Status :: string
  ol_Detail :: string
  ol_CreatedAt :: int

datatype applier_event =
    EvVerifyImage ReleaseSpec
  | EvPreflight ApplicationContext ReleaseSpec
  | EvApply RenderedResources
  | EvWaitReady ApplicationContext ReleaseSpec
  | EvSyncEndpoints ApplicationContext "ApplicationEndpoint list" int

record release_db =
  rd_apps :: "Application list"
  rd_releases :: "Release list"
  rd_operations :: "ReleaseOperation list"
  rd_logs :: "OperationLog list"
  rd_endpoints :: "ApplicationEndpoint list"
  rd_templates :: "ApplicationDeploymentTemplate list"
  rd_files :: "ApplicationManagedFile list"
  rd_registries :: "ImageRegistry list"
  rd_mirrors :: "NodeRegistryMirror list"
  rd_trace :: "applier_event list"

type_synonym ('e, 'a) release_proc = "(release_db world, 'e, 'a) proc"

definition ReleaseStatusDraft :: string where "ReleaseStatusDraft = ''draft''"
definition ReleaseStatusValidating :: string where "ReleaseStatusValidating = ''validating''"
definition ReleaseStatusApplying :: string where "ReleaseStatusApplying = ''applying''"
definition ReleaseStatusWaitingReady :: string where "ReleaseStatusWaitingReady = ''waiting_ready''"
definition ReleaseStatusSucceeded :: string where "ReleaseStatusSucceeded = ''succeeded''"
definition ReleaseStatusFailed :: string where "ReleaseStatusFailed = ''failed''"

lemmas status_defs = ReleaseStatusDraft_def ReleaseStatusValidating_def ReleaseStatusApplying_def
  ReleaseStatusWaitingReady_def ReleaseStatusSucceeded_def ReleaseStatusFailed_def

definition IsReleaseStatusValid :: "string \<Rightarrow> bool" where
  "IsReleaseStatusValid status \<longleftrightarrow> status \<in> {ReleaseStatusDraft, ReleaseStatusValidating, ReleaseStatusApplying,
     ReleaseStatusWaitingReady, ''verifying'', ReleaseStatusSucceeded, ReleaseStatusFailed, ''rolling_back'', ''rolled_back''}"

subsection \<open>Repository\<close>

definition GetApplication :: "(nat \<Rightarrow> bool) \<Rightarrow> nat \<Rightarrow> (db_error, Application) release_proc" where
  "GetApplication fault i = db_read fault (\<lambda>d. found (map_option LoadCapabilities (tbl_find ap_ID i (rd_apps d))))"

text \<open>The pair of application and sequence has a unique index.\<close>

definition Store_CreateRelease :: "(nat \<Rightarrow> bool) \<Rightarrow> Release \<Rightarrow> (db_error, Release) release_proc" where
  "Store_CreateRelease fault release = db_call fault (\<lambda>d.
     let row = release\<lparr>rl_ID := tbl_next rl_ID (rd_releases d)\<rparr> in
     if list_ex (\<lambda>r. rl_ApplicationID r = rl_ApplicationID row \<and> rl_Sequence r = rl_Sequence row) (rd_releases d)
     then (Inl ErrConstraint, d) else (Inr row, d\<lparr>rd_releases := rd_releases d @ [row]\<rparr>))"

definition Store_GetRelease :: "(nat \<Rightarrow> bool) \<Rightarrow> nat \<Rightarrow> (db_error, Release) release_proc" where
  "Store_GetRelease fault i = db_read fault (\<lambda>d. found (tbl_find rl_ID i (rd_releases d)))"

definition app_releases :: "nat \<Rightarrow> Release list \<Rightarrow> Release list" where
  "app_releases applicationID rows = rev (sort_key rl_Sequence (filter (\<lambda>r. rl_ApplicationID r = applicationID) rows))"

definition ListReleases :: "(nat \<Rightarrow> bool) \<Rightarrow> nat \<Rightarrow> (db_error, Release list) release_proc" where
  "ListReleases fault applicationID = db_read fault (\<lambda>d. Inr (app_releases applicationID (rd_releases d)))"

definition Store_UpdateRelease :: "(nat \<Rightarrow> bool) \<Rightarrow> Release \<Rightarrow> (db_error, unit) release_proc" where
  "Store_UpdateRelease fault release =
     db_write fault (\<lambda>d. d\<lparr>rd_releases := tbl_save rl_ID release (rd_releases d)\<rparr>)"

definition GetLatestSuccessfulRelease :: "(nat \<Rightarrow> bool) \<Rightarrow> nat \<Rightarrow> (db_error, Release) release_proc" where
  "GetLatestSuccessfulRelease fault applicationID = db_read fault (\<lambda>d.
     found (find (\<lambda>r. rl_Status r = ReleaseStatusSucceeded) (app_releases applicationID (rd_releases d))))"

definition CreateReleaseOperation ::
  "(nat \<Rightarrow> bool) \<Rightarrow> ReleaseOperation \<Rightarrow> (db_error, ReleaseOperation) release_proc" where
  "CreateReleaseOperation fault operation = db_call fault (\<lambda>d.
     let row = operation\<lparr>ro_ID := tbl_next ro_ID (rd_operations d)\<rparr>
     in (Inr row, d\<lparr>rd_operations := rd_operations d @ [row]\<rparr>))"

definition UpdateReleaseOperation :: "(nat \<Rightarrow> bool) \<Rightarrow> ReleaseOperation \<Rightarrow> (db_error, unit) release_proc" where
  "UpdateReleaseOperation fault operation =
     db_write fault (\<lambda>d. d\<lparr>rd_operations := tbl_save ro_ID operation (rd_operations d)\<rparr>)"

definition CreateOperationLog :: "(nat \<Rightarrow> bool) \<Rightarrow> OperationLog \<Rightarrow> (db_error, OperationLog) release_proc" where
  "CreateOperationLog fault log = db_call fault (\<lambda>d.
     let row = log\<lparr>ol_ID := tbl_next ol_ID (rd_logs d)\<rparr> in (Inr row, d\<lparr>rd_logs := rd_logs d @ [row]\<rparr>))"

definition UpdateOperationLog :: "(nat \<Rightarrow> bool) \<Rightarrow> OperationLog \<Rightarrow> (db_error, unit) release_proc" where
  "UpdateOperationLog fault log = db_write fault (\<lambda>d. d\<lparr>rd_logs := tbl_save ol_ID log (rd_logs d)\<rparr>)"

section \<open>The service\<close>

text \<open>The errors, in the shape in which the code wraps them.\<close>

datatype port_error =
    NoServicePorts | ProtocolUnknown | ProtocolMismatch int string string | UDPWithIngress | ServicePortMissing int

datatype endpoint_error =
    SynchronizerMissing | EndpointsRead db_error | EndpointsWithoutPort | EndpointSyncFailed string
  | EndpointUpdateFailed db_error | EndpointPortInvalid port_error | EndpointUsesUDP string

datatype release_error =
    ErrReadApplication db_error
  | ErrReleaseInvalid issue_message
  | ErrReleaseHistory db_error
  | ErrRender render_error
  | ErrStoreRelease db_error
  | ErrReleaseDB db_error
  | ErrApplierMissing
  | ErrApplierCall string
  | ErrReleaseStep string release_error
  | ErrNoRollbackTarget
  | ErrReadSnapshot
  | ErrReleaseStatus string
  | ErrEndpointSync endpoint_error

text \<open>The answers of the cluster: \<open>None\<close> for success, or the text of the error.\<close>

record ResourceApplier =
  ra_VerifyImage :: "applier_event list \<Rightarrow> ReleaseSpec \<Rightarrow> string option"
  ra_Preflight :: "applier_event list \<Rightarrow> ApplicationContext \<Rightarrow> ReleaseSpec \<Rightarrow> string option"
  ra_Apply :: "applier_event list \<Rightarrow> RenderedResources \<Rightarrow> string option"
  ra_WaitReady :: "applier_event list \<Rightarrow> ApplicationContext \<Rightarrow> ReleaseSpec \<Rightarrow> string option"

record release_env =
  ev_fault :: "nat \<Rightarrow> bool"
  ev_clock :: "nat \<Rightarrow> int"
  ev_checks :: k8s_checks
  ev_describe :: "release_error \<Rightarrow> string"

definition lift_db :: "(db_error \<Rightarrow> 'e) \<Rightarrow> (db_error, 'a) release_proc \<Rightarrow> ('e, 'a) release_proc" where
  "lift_db wrap m w = (case m w of (Inl e, w') \<Rightarrow> (Inl (wrap e), w') | (Inr x, w') \<Rightarrow> (Inr x, w'))"

text \<open>\<open>time.Now()\<close>\<close>

definition timeNow :: "release_env \<Rightarrow> ('e, int) release_proc" where
  "timeNow env w = (Inr (ev_clock env (calls w)), w)"

text \<open>One call of the applier: it is recorded and answered.\<close>

definition call_applier :: "(applier_event list \<Rightarrow> string option) \<Rightarrow> applier_event \<Rightarrow> (release_error, unit) release_proc" where
  "call_applier answer event w =
     (let trace = rd_trace (db w); w' = w\<lparr>db := (db w)\<lparr>rd_trace := trace @ [event]\<rparr>\<rparr> in
      case answer trace of None \<Rightarrow> (Inr (), w') | Some text \<Rightarrow> (Inl (ErrApplierCall text), w'))"

definition applicationContext :: "Application \<Rightarrow> nat \<Rightarrow> ApplicationContext" where
  "applicationContext app sequence =
     \<lparr>cx_ProjectID = pj_ID (ap_Project app), cx_EnvironmentID = en_ID (ap_Environment app),
      cx_ProjectName = pj_Name (ap_Project app), cx_EnvironmentName = en_Name (ap_Environment app),
      cx_ApplicationName = ap_Name app, cx_Namespace = en_Namespace (ap_Environment app),
      cx_ReleaseSequence = sequence, cx_WorkloadKind = ap_WorkloadKind app\<rparr>"

definition releaseSpecFromSnapshot :: "ReleaseSpec json \<Rightarrow> release_error + ReleaseSpec" where
  "releaseSpecFromSnapshot snapshot =
     (case unmarshal snapshot of None \<Rightarrow> Inl ErrReadSnapshot | Some spec \<Rightarrow> Inr (json_visible spec))"

definition next_sequence :: "Release list \<Rightarrow> nat" where
  "next_sequence history = (case history of [] \<Rightarrow> 1 | r # _ \<Rightarrow> (rl_Sequence r + 1) mod 2 ^ 64)"

definition draft_release :: "nat \<Rightarrow> nat \<Rightarrow> nat \<Rightarrow> ReleaseSpec \<Rightarrow> ReleaseSpec \<Rightarrow> Release" where
  "draft_release applicationID userID sequence spec snapshot =
     \<lparr>rl_ID = 0, rl_ApplicationID = applicationID, rl_Sequence = sequence, rl_Image = sp_Image spec,
      rl_Version = sp_Version spec, rl_TemplateID = None, rl_TemplateRevision = 0,
      rl_ImageRegistryID = (if sp_RegistryID spec \<noteq> 0 then Some (sp_RegistryID spec) else None),
      rl_PodTrackingEnabled = True, rl_DesiredSpec = JSON (json_visible snapshot), rl_Status = ReleaseStatusDraft,
      rl_SourceReleaseID = None, rl_CreatedBy = userID, rl_StartedAt = None, rl_CompletedAt = None\<rparr>"

definition Service_CreateRelease ::
  "release_env \<Rightarrow> nat \<Rightarrow> nat \<Rightarrow> ReleaseSpec \<Rightarrow> (release_error, Release) release_proc" where
  "Service_CreateRelease env applicationID userID spec =
     bindP (lift_db ErrReadApplication (GetApplication (ev_fault env) applicationID)) (\<lambda>app.
       case ValidateReleaseSpec (ev_checks env) spec of
         problem # _ \<Rightarrow> failP (ErrReleaseInvalid (is_Message problem))
       | [] \<Rightarrow>
           bindP (lift_db ErrReleaseHistory (ListReleases (ev_fault env) applicationID)) (\<lambda>history.
             let sequence = next_sequence history in
             case RenderResources (ev_checks env) (applicationContext app sequence) spec of
               Inl e \<Rightarrow> failP (ErrRender e)
             | Inr resources \<Rightarrow>
                 lift_db ErrStoreRelease (Store_CreateRelease (ev_fault env)
                   (draft_release applicationID userID sequence spec (rr_SanitizedSpec resources)))))"

definition transitioned :: "int \<Rightarrow> string \<Rightarrow> Release \<Rightarrow> Release" where
  "transitioned now status release =
     release\<lparr>
       rl_StartedAt := (if status = ReleaseStatusValidating \<and> rl_StartedAt release = None then Some now else rl_StartedAt release),
       rl_CompletedAt := (if status = ReleaseStatusSucceeded \<or> status = ReleaseStatusFailed then Some now else rl_CompletedAt release),
       rl_Status := status\<rparr>"

definition transition :: "release_env \<Rightarrow> Release \<Rightarrow> string \<Rightarrow> (release_error, Release) release_proc" where
  "transition env release status =
     (if \<not> IsReleaseStatusValid status then failP (ErrReleaseStatus status)
      else bindP (timeNow env) (\<lambda>now.
        bindP (lift_db ErrReleaseDB (Store_UpdateRelease (ev_fault env) (transitioned now status release)))
          (\<lambda>_. returnP (transitioned now status release))))"

definition failRelease :: "release_env \<Rightarrow> nat \<Rightarrow> string \<Rightarrow> release_error \<Rightarrow> (release_error, 'a) release_proc" where
  "failRelease env releaseID step cause =
     tryP (Store_GetRelease (ev_fault env) releaseID) (\<lambda>r. case r of
       Inl _ \<Rightarrow> failP cause
     | Inr release \<Rightarrow>
         if rl_Status release \<noteq> ReleaseStatusFailed
         then tryP (transition env release ReleaseStatusFailed) (\<lambda>_. failP (ErrReleaseStep step cause))
         else failP (ErrReleaseStep step cause))"

definition finish_operation :: "release_env \<Rightarrow> ReleaseOperation \<Rightarrow> OperationLog \<Rightarrow> release_error + unit \<Rightarrow> (release_error, unit) release_proc" where
  "finish_operation env operation log result =
     (let status = (case result of Inl _ \<Rightarrow> ''failed'' | Inr _ \<Rightarrow> ''success'');
          detail = (case result of Inl e \<Rightarrow> ev_describe env e | Inr _ \<Rightarrow> []) in
      bindP (timeNow env) (\<lambda>completedAt.
      bindP (lift_db ErrReleaseDB (UpdateReleaseOperation (ev_fault env)
          (operation\<lparr>ro_CompletedAt := Some completedAt, ro_Status := status, ro_Detail := detail\<rparr>))) (\<lambda>_.
      bindP (lift_db ErrReleaseDB (UpdateOperationLog (ev_fault env) (log\<lparr>ol_Status := status, ol_Detail := detail\<rparr>)))
        (\<lambda>_. case result of Inl e \<Rightarrow> failP e | Inr _ \<Rightarrow> returnP ()))))"

definition running_operation :: "nat \<Rightarrow> string \<Rightarrow> int \<Rightarrow> ReleaseOperation" where
  "running_operation releaseID step now =
     \<lparr>ro_ID = 0, ro_ReleaseID = releaseID, ro_Step = step, ro_Status = ''running'', ro_Detail = [],
      ro_StartedAt = Some now, ro_CompletedAt = None\<rparr>"

definition running_log :: "nat \<Rightarrow> string \<Rightarrow> int \<Rightarrow> OperationLog" where
  "running_log releaseID step now =
     \<lparr>ol_ID = 0, ol_ResourceType = ''release'', ol_ResourceID = releaseID, ol_Step = step,
      ol_Status = ''running'', ol_Detail = [], ol_CreatedAt = now\<rparr>"

definition runStep ::
  "release_env \<Rightarrow> nat \<Rightarrow> string \<Rightarrow> (release_error, unit) release_proc \<Rightarrow> (release_error, unit) release_proc" where
  "runStep env releaseID step run =
     bindP (timeNow env) (\<lambda>now.
     bindP (lift_db ErrReleaseDB (CreateReleaseOperation (ev_fault env) (running_operation releaseID step now))) (\<lambda>operation.
     bindP (lift_db ErrReleaseDB (CreateOperationLog (ev_fault env) (running_log releaseID step now))) (\<lambda>log.
     tryP run (finish_operation env operation log))))"

text \<open>A step of the execution: on an error the release is failed under the name of the step.\<close>

definition step_or_fail ::
  "release_env \<Rightarrow> nat \<Rightarrow> string \<Rightarrow> (release_error, unit) release_proc \<Rightarrow> (release_error, 'a) release_proc \<Rightarrow>
   (release_error, 'a) release_proc"
where
  "step_or_fail env releaseID step run rest =
     tryP (runStep env releaseID step run) (\<lambda>r. case r of
       Inl e \<Rightarrow> failRelease env releaseID step e
     | Inr _ \<Rightarrow> rest)"

text \<open>
  \<open>executeRelease\<close>, cut at the changes of status: the stage that waits for the workload, the one that
  applies the resources, the one that verifies, and the whole.
\<close>

definition ready_stage ::
  "release_env \<Rightarrow> ResourceApplier \<Rightarrow> nat \<Rightarrow> ApplicationContext \<Rightarrow> ReleaseSpec \<Rightarrow> Release \<Rightarrow> (release_error, unit) release_proc"
where
  "ready_stage env a releaseID cx spec release2 =
     bindP (transition env release2 ReleaseStatusWaitingReady) (\<lambda>release3.
       step_or_fail env releaseID ''wait_ready''
         (call_applier (\<lambda>t. ra_WaitReady a t cx spec) (EvWaitReady cx spec))
         (bindP (transition env release3 ReleaseStatusSucceeded) (\<lambda>_. returnP ())))"

definition apply_stage ::
  "release_env \<Rightarrow> ResourceApplier \<Rightarrow> nat \<Rightarrow> ApplicationContext \<Rightarrow> ReleaseSpec \<Rightarrow> RenderedResources \<Rightarrow>
   (release_error, unit) release_proc option \<Rightarrow> Release \<Rightarrow> (release_error, unit) release_proc"
where
  "apply_stage env a releaseID cx spec resources postApply release1 =
     bindP (transition env release1 ReleaseStatusApplying) (\<lambda>release2.
       step_or_fail env releaseID ''apply_resources''
         (call_applier (\<lambda>t. ra_Apply a t resources) (EvApply resources))
         ((case postApply of None \<Rightarrow> id | Some run \<Rightarrow> step_or_fail env releaseID ''sync_endpoints'' run)
            (ready_stage env a releaseID cx spec release2)))"

definition validate_stage ::
  "release_env \<Rightarrow> ResourceApplier \<Rightarrow> nat \<Rightarrow> ApplicationContext \<Rightarrow> ReleaseSpec \<Rightarrow> RenderedResources \<Rightarrow>
   (release_error, unit) release_proc option \<Rightarrow> Release \<Rightarrow> (release_error, unit) release_proc"
where
  "validate_stage env a releaseID cx spec resources postApply release =
     bindP (transition env release ReleaseStatusValidating) (\<lambda>release1.
       step_or_fail env releaseID ''verify_image''
         (call_applier (\<lambda>t. ra_VerifyImage a t spec) (EvVerifyImage spec))
       (step_or_fail env releaseID ''preflight''
         (call_applier (\<lambda>t. ra_Preflight a t cx spec) (EvPreflight cx spec))
       (apply_stage env a releaseID cx spec resources postApply release1)))"

definition executeRelease ::
  "release_env \<Rightarrow> ResourceApplier option \<Rightarrow> nat \<Rightarrow> Application \<Rightarrow> ReleaseSpec \<Rightarrow>
   (release_error, unit) release_proc option \<Rightarrow> (release_error, unit) release_proc"
where
  "executeRelease env applier releaseID app spec postApply =
     (case applier of
        None \<Rightarrow> failRelease env releaseID ''preflight'' ErrApplierMissing
      | Some a \<Rightarrow>
          bindP (lift_db ErrReleaseDB (Store_GetRelease (ev_fault env) releaseID)) (\<lambda>release.
            let cx = applicationContext app (rl_Sequence release) in
            case RenderResources (ev_checks env) cx spec of
              Inl e \<Rightarrow> failRelease env releaseID ''preflight'' (ErrRender e)
            | Inr resources \<Rightarrow>
                validate_stage env a releaseID cx spec resources postApply release))"

definition ExecuteRelease where
  "ExecuteRelease env applier releaseID app spec = executeRelease env applier releaseID app spec None"

definition ExecuteReleaseWithPostApply where
  "ExecuteReleaseWithPostApply env applier releaseID app spec postApply =
     executeRelease env applier releaseID app spec (Some postApply)"

definition cluster_endpoint :: EndpointSpec where
  "cluster_endpoint = \<lparr>ep_Exposure = ExposureCluster, ep_DomainID = 0, ep_Domain = [], ep_Path = [], ep_TLSEnabled = False,
     ep_IssuerRef = [], ep_IssuerKind = [], ep_ManagedCertificateName = [], ep_ManagedTLSSecretName = []\<rparr>"

definition RetryRelease ::
  "release_env \<Rightarrow> nat \<Rightarrow> nat \<Rightarrow> (release_error, Release \<times> ReleaseSpec) release_proc" where
  "RetryRelease env releaseID userID =
     bindP (lift_db ErrReleaseDB (Store_GetRelease (ev_fault env) releaseID)) (\<lambda>release.
       case releaseSpecFromSnapshot (rl_DesiredSpec release) of
         Inl e \<Rightarrow> failP e
       | Inr snapshot \<Rightarrow>
           let spec = snapshot\<lparr>sp_Endpoint := cluster_endpoint\<rparr> in
           bindP (Service_CreateRelease env (rl_ApplicationID release) userID spec) (\<lambda>retry.
             let retry' = retry\<lparr>rl_TemplateID := rl_TemplateID release, rl_TemplateRevision := rl_TemplateRevision release\<rparr> in
             bindP (lift_db ErrReleaseDB (Store_UpdateRelease (ev_fault env) retry')) (\<lambda>_. returnP (retry', spec))))"

definition RollbackRelease ::
  "release_env \<Rightarrow> nat \<Rightarrow> nat \<Rightarrow> (release_error, Release \<times> ReleaseSpec) release_proc" where
  "RollbackRelease env releaseID userID =
     bindP (lift_db ErrReleaseDB (Store_GetRelease (ev_fault env) releaseID)) (\<lambda>current.
     bindP (lift_db ErrReleaseDB (ListReleases (ev_fault env) (rl_ApplicationID current))) (\<lambda>history.
       case find (\<lambda>candidate. rl_Sequence candidate < rl_Sequence current \<and> rl_Status candidate = ReleaseStatusSucceeded) history of
         None \<Rightarrow> failP ErrNoRollbackTarget
       | Some source \<Rightarrow>
           (case releaseSpecFromSnapshot (rl_DesiredSpec source) of
              Inl e \<Rightarrow> failP e
            | Inr snapshot \<Rightarrow>
                let spec = snapshot\<lparr>sp_Endpoint := cluster_endpoint\<rparr> in
                bindP (Service_CreateRelease env (rl_ApplicationID current) userID spec) (\<lambda>rollback.
                  let rollback' = rollback\<lparr>rl_SourceReleaseID := Some (rl_ID source), rl_TemplateID := rl_TemplateID source,
                        rl_TemplateRevision := rl_TemplateRevision source\<rparr> in
                  bindP (lift_db ErrReleaseDB (Store_UpdateRelease (ev_fault env) rollback')) (\<lambda>_. returnP (rollback', spec))))))"

section \<open>What the building blocks do\<close>

text \<open>The calls made to the cluster: a procedure only adds events, and only events of \<open>S\<close>.\<close>

definition adds_events :: "applier_event set \<Rightarrow> release_db \<Rightarrow> release_db \<Rightarrow> bool" where
  "adds_events S d d' \<longleftrightarrow> (\<exists>es. rd_trace d' = rd_trace d @ es \<and> set es \<subseteq> S)"

definition same_releases :: "release_db \<Rightarrow> release_db \<Rightarrow> bool" where
  "same_releases d d' \<longleftrightarrow> rd_releases d' = rd_releases d"

interpretation events: data_evolution "adds_events S" for S
proof
  show "adds_events S d d" for d by (simp add: adds_events_def)
  show "adds_events S d d' \<Longrightarrow> adds_events S d' d'' \<Longrightarrow> adds_events S d d''" for d d' d''
    by (fastforce simp: adds_events_def)
qed

interpretation rows: data_evolution same_releases
  by unfold_locales (simp_all add: same_releases_def)

lemma keeps_lift: "keeps R m \<Longrightarrow> keeps R (lift_db wrap m)"
  by (auto simp: keeps_def lift_db_def split: prod.splits sum.splits) (metis snd_conv)+

lemma lift_db_Inr [simp]: "lift_db wrap m w = (Inr x, w') \<longleftrightarrow> m w = (Inr x, w')"
  by (auto simp: lift_db_def split: prod.splits sum.splits)

lemma repo_events:
  "keeps (adds_events S) (timeNow env)" "keeps (adds_events S) (Store_UpdateRelease f r)"
  "keeps (adds_events S) (Store_GetRelease f i)" "keeps (adds_events S) (CreateReleaseOperation f op)"
  "keeps (adds_events S) (UpdateReleaseOperation f op)" "keeps (adds_events S) (CreateOperationLog f log)"
  "keeps (adds_events S) (UpdateOperationLog f log)" "keeps (adds_events S) (Store_CreateRelease f r)"
  "keeps (adds_events S) (ListReleases f i)" "keeps (adds_events S) (GetApplication f i)"
  by (auto simp: keeps_def adds_events_def timeNow_def Store_UpdateRelease_def Store_GetRelease_def
      CreateReleaseOperation_def UpdateReleaseOperation_def CreateOperationLog_def UpdateOperationLog_def
      Store_CreateRelease_def ListReleases_def GetApplication_def db_defs Let_def)

lemma repo_rows:
  "keeps same_releases (timeNow env)" "keeps same_releases (Store_GetRelease f i)"
  "keeps same_releases (CreateReleaseOperation f op)" "keeps same_releases (UpdateReleaseOperation f op)"
  "keeps same_releases (CreateOperationLog f log)" "keeps same_releases (UpdateOperationLog f log)"
  by (auto simp: keeps_def same_releases_def timeNow_def Store_GetRelease_def
      CreateReleaseOperation_def UpdateReleaseOperation_def CreateOperationLog_def UpdateOperationLog_def
      db_defs Let_def)

lemmas event_intros = events.keeps_intros keeps_lift repo_events
lemmas row_intros = rows.keeps_intros keeps_lift repo_rows

lemma transition_events: "keeps (adds_events S) (transition env release status)"
  unfolding transition_def by (intro event_intros)

lemma failRelease_events: "keeps (adds_events S) (failRelease env i step cause)"
  unfolding failRelease_def by (auto split: sum.splits intro!: event_intros transition_events)

lemma finish_operation_keeps:
  "keeps (adds_events S) (finish_operation env operation log result)"
  "keeps same_releases (finish_operation env operation log result)"
  unfolding finish_operation_def Let_def
  by (auto split: sum.splits intro!: event_intros row_intros)

lemma runStep_events: "keeps (adds_events S) run \<Longrightarrow> keeps (adds_events S) (runStep env i step run)"
  unfolding runStep_def by (intro event_intros finish_operation_keeps)

lemma runStep_rows: "keeps same_releases run \<Longrightarrow> keeps same_releases (runStep env i step run)"
  unfolding runStep_def by (intro row_intros finish_operation_keeps)

lemma call_applier_keeps:
  "keeps (adds_events {event}) (call_applier answer event)" "keeps same_releases (call_applier answer event)"
  by (auto simp: keeps_def call_applier_def adds_events_def same_releases_def Let_def split: option.splits)

lemma adds_events_mono: "adds_events S d d' \<Longrightarrow> S \<subseteq> T \<Longrightarrow> adds_events T d d'"
  by (auto simp: adds_events_def)

lemma keeps_events_mono: "keeps (adds_events S) m \<Longrightarrow> S \<subseteq> T \<Longrightarrow> keeps (adds_events T) m"
  by (auto simp: keeps_def intro: adds_events_mono)

lemma step_or_fail_events:
  "keeps (adds_events S) run \<Longrightarrow> keeps (adds_events S) rest \<Longrightarrow> keeps (adds_events S) (step_or_fail env i step run rest)"
  by (auto simp: step_or_fail_def split: sum.splits
      intro!: events.keeps_intros runStep_events failRelease_events)

subsection \<open>Successful steps\<close>

lemma failRelease_not_Inr: "failRelease env i step cause w \<noteq> (Inr x, w')"
  by (auto simp: failRelease_def tryP_def failP_def split: prod.splits sum.splits)

lemma step_or_fail_Inr:
  assumes "step_or_fail env i step run rest w = (Inr x, w')"
  obtains w1 where "runStep env i step run w = (Inr (), w1)" and "rest w1 = (Inr x, w')"
proof -
  obtain r w1 where r: "runStep env i step run w = (r, w1)"
      and k: "(case r of Inl e \<Rightarrow> failRelease env i step e | Inr _ \<Rightarrow> rest) w1 = (Inr x, w')"
    using assms unfolding step_or_fail_def by (rule tryP_elim)
  show ?thesis
  proof (cases r)
    case (Inl e)
    with k failRelease_not_Inr show ?thesis by (metis sum.case(1))
  next
    case (Inr u)
    with r k that show ?thesis by simp
  qed
qed

text \<open>
  A step that succeeded has run its action once, successfully, from a state with the same releases
  and trace, and leaves what the action left.
\<close>

lemma runStep_Inr:
  assumes "runStep env i step run w = (Inr (), w')"
  obtains w1 w2 where "run w1 = (Inr (), w2)"
    and "rd_trace (db w1) = rd_trace (db w)" and "rd_releases (db w1) = rd_releases (db w)"
    and "rd_trace (db w') = rd_trace (db w2)" and "rd_releases (db w') = rd_releases (db w2)"
proof -
  let ?op = "(running_operation i step (ev_clock env (calls w)))\<lparr>ro_ID := tbl_next ro_ID (rd_operations (db w))\<rparr>"
  let ?log = "(running_log i step (ev_clock env (calls w)))\<lparr>ol_ID := tbl_next ol_ID (rd_logs (db w))\<rparr>"
  let ?w1 = "w\<lparr>db := (db w)\<lparr>rd_operations := rd_operations (db w) @ [?op], rd_logs := rd_logs (db w) @ [?log]\<rparr>,
    calls := Suc (Suc (calls w))\<rparr>"
  have "tryP run (finish_operation env ?op ?log) ?w1 = (Inr (), w')"
    using assms
    by (simp add: runStep_def bindP_def timeNow_def lift_db_def CreateReleaseOperation_def CreateOperationLog_def
        db_call_def Let_def split: if_splits)
  then obtain x w2 where run: "run ?w1 = (x, w2)" and fin: "finish_operation env ?op ?log x w2 = (Inr (), w')"
    by (rule tryP_elim)
  from fin have "x = Inr ()" and "rd_trace (db w') = rd_trace (db w2)" "rd_releases (db w') = rd_releases (db w2)"
    by (auto simp: finish_operation_def Let_def UpdateReleaseOperation_def UpdateOperationLog_def db_defs
        timeNow_def failP_def returnP_def elim!: bindP_Inr_elim split: if_splits sum.splits)
  with run show ?thesis by (intro that [of ?w1 w2]) simp_all
qed

lemma applier_step_Inr:
  assumes "runStep env i step (call_applier answer event) w = (Inr (), w')"
  shows "answer (rd_trace (db w)) = None \<and> rd_trace (db w') = rd_trace (db w) @ [event] \<and>
    rd_releases (db w') = rd_releases (db w)"
proof -
  obtain w1 w2 where "call_applier answer event w1 = (Inr (), w2)"
      "rd_trace (db w1) = rd_trace (db w)" "rd_releases (db w1) = rd_releases (db w)"
      "rd_trace (db w') = rd_trace (db w2)" "rd_releases (db w') = rd_releases (db w2)"
    using assms by (rule runStep_Inr)
  then show ?thesis by (auto simp: call_applier_def Let_def split: option.splits)
qed

lemma transition_Inr:
  assumes "transition env release status w = (Inr release', w')"
  shows "rl_ID release' = rl_ID release \<and> rl_Status release' = status \<and>
    (status = ReleaseStatusSucceeded \<longrightarrow> rl_CompletedAt release' \<noteq> None) \<and>
    rd_releases (db w') = tbl_save rl_ID release' (rd_releases (db w)) \<and> rd_trace (db w') = rd_trace (db w)"
  using assms
  by (auto simp: transition_def transitioned_def timeNow_def Store_UpdateRelease_def db_defs failP_def returnP_def
      elim!: bindP_Inr_elim split: if_splits)

subsection \<open>Without database failures\<close>

definition release_exists :: "nat \<Rightarrow> release_db world \<Rightarrow> bool" where
  "release_exists i w \<longleftrightarrow> tbl_find rl_ID i (rd_releases (db w)) \<noteq> None"

definition release_status :: "nat \<Rightarrow> release_db world \<Rightarrow> string option" where
  "release_status i w = map_option rl_Status (tbl_find rl_ID i (rd_releases (db w)))"

text \<open>A finished execution: success with status succeeded, or an error of a step with status failed.\<close>

definition finished :: "nat \<Rightarrow> (release_error + 'a) \<times> release_db world \<Rightarrow> bool" where
  "finished i result \<longleftrightarrow>
     (case result of
        (Inr _, w) \<Rightarrow> release_status i w = Some ReleaseStatusSucceeded
      | (Inl e, w) \<Rightarrow> release_status i w = Some ReleaseStatusFailed \<and> (\<exists>step cause. e = ErrReleaseStep step cause))"

lemma finished_Inr [simp]: "finished i (Inr x, w) \<longleftrightarrow> release_status i w = Some ReleaseStatusSucceeded"
  by (simp add: finished_def)

lemma valid_statuses:
  "IsReleaseStatusValid ReleaseStatusValidating" "IsReleaseStatusValid ReleaseStatusApplying"
  "IsReleaseStatusValid ReleaseStatusWaitingReady" "IsReleaseStatusValid ReleaseStatusSucceeded"
  "IsReleaseStatusValid ReleaseStatusFailed"
  by (simp_all add: IsReleaseStatusValid_def)

lemma transition_ok:
  assumes "ev_fault env = (\<lambda>_. False)" and "IsReleaseStatusValid status"
  shows "\<exists>release' w'. transition env release status w = (Inr release', w') \<and> rl_ID release' = rl_ID release \<and>
    tbl_find rl_ID (rl_ID release) (rd_releases (db w')) = Some release' \<and> rl_Status release' = status"
  using assms
  by (auto simp: transition_def go_proc timeNow_def lift_db_def Store_UpdateRelease_def db_defs transitioned_def
      tbl.find_save)

lemma failRelease_finished:
  assumes ok: "ev_fault env = (\<lambda>_. False)" and row: "release_exists i w"
  shows "finished i (failRelease env i step cause w)"
proof -
  obtain r where r: "tbl_find rl_ID i (rd_releases (db w)) = Some r" using row by (auto simp: release_exists_def)
  then have get: "Store_GetRelease (ev_fault env) i w = (Inr r, w\<lparr>calls := Suc (calls w)\<rparr>)"
    using ok by (simp add: Store_GetRelease_def db_defs)
  have id: "rl_ID r = i" using tbl_find_key [OF r] by simp
  obtain r' w' where "transition env r ReleaseStatusFailed (w\<lparr>calls := Suc (calls w)\<rparr>) = (Inr r', w')"
      "tbl_find rl_ID (rl_ID r) (rd_releases (db w')) = Some r'" "rl_Status r' = ReleaseStatusFailed"
    using transition_ok [OF ok valid_statuses(5), of r "w\<lparr>calls := Suc (calls w)\<rparr>"] by blast
  with get r id show ?thesis
    by (auto simp: failRelease_def tryP_def failP_def finished_def release_status_def)
qed

lemma transition_finished:
  assumes ok: "ev_fault env = (\<lambda>_. False)" and st: "IsReleaseStatusValid status" and id: "rl_ID release = i"
    and rest: "\<And>release' w'. rl_ID release' = i \<Longrightarrow> release_exists i w' \<Longrightarrow>
      tbl_find rl_ID i (rd_releases (db w')) = Some release' \<Longrightarrow> rl_Status release' = status \<Longrightarrow> finished i (k release' w')"
  shows "finished i (bindP (transition env release status) k w)"
proof -
  obtain r' w' where "transition env release status w = (Inr r', w')" "rl_ID r' = rl_ID release"
      "tbl_find rl_ID (rl_ID release) (rd_releases (db w')) = Some r'" "rl_Status r' = status"
    using transition_ok [OF ok st] by blast
  with rest [of r' w'] id show ?thesis by (simp add: bindP_def release_exists_def)
qed

lemma step_finished:
  assumes ok: "ev_fault env = (\<lambda>_. False)" and row: "release_exists i w" and run: "keeps same_releases run"
    and rest: "\<And>w'. release_exists i w' \<Longrightarrow> finished i (rest w')"
  shows "finished i (step_or_fail env i step run rest w)"
proof -
  obtain r w' where r: "runStep env i step run w = (r, w')" by fastforce
  have "same_releases (db w) (db w')"
    using keepsD [OF runStep_rows [OF run, of env i step], of w] by (simp add: r)
  then have "release_exists i w'" using row by (simp add: release_exists_def same_releases_def)
  with r rest failRelease_finished [OF ok] show ?thesis
    by (auto simp: step_or_fail_def tryP_def split: sum.splits)
qed

subsection \<open>The trace of a step, on every outcome\<close>

definition trace_after :: "(release_error, 'a) release_proc \<Rightarrow> release_db world \<Rightarrow> applier_event list" where
  "trace_after m w = rd_trace (db (snd (m w)))"

lemma keeps_trace:
  assumes "keeps (adds_events S) m"
  obtains es where "trace_after m w = rd_trace (db w) @ es" and "set es \<subseteq> S"
  using keepsD [OF assms, of w] that by (auto simp: adds_events_def trace_after_def)

lemma keeps_no_events: "keeps (adds_events {}) m \<Longrightarrow> trace_after m w = rd_trace (db w)"
  by (erule keeps_trace [of _ _ w]) simp

lemma failRelease_trace: "trace_after (failRelease env i step cause) w = rd_trace (db w)"
  by (intro keeps_no_events failRelease_events)

lemma transition_trace:
  "trace_after (bindP (transition env release status) k) w = rd_trace (db w) \<or>
   (\<exists>release' w'. transition env release status w = (Inr release', w') \<and> rd_trace (db w') = rd_trace (db w) \<and>
      trace_after (bindP (transition env release status) k) w = trace_after (k release') w')"
proof (cases "transition env release status w")
  case (Pair r w')
  have "rd_trace (db w') = rd_trace (db w)"
    using keeps_no_events [OF transition_events, of env release status w] Pair by (simp add: trace_after_def)
  with Pair show ?thesis by (cases r) (auto simp: trace_after_def bindP_def)
qed

lemma step_trace:
  "trace_after (step_or_fail env i step run rest) w = trace_after (runStep env i step run) w \<or>
   (\<exists>w1. runStep env i step run w = (Inr (), w1) \<and>
      trace_after (step_or_fail env i step run rest) w = trace_after rest w1)"
proof -
  obtain r w1 where r: "runStep env i step run w = (r, w1)" by fastforce
  have "trace_after (step_or_fail env i step run rest) w =
      (case r of Inl e \<Rightarrow> rd_trace (db w1) | Inr _ \<Rightarrow> trace_after rest w1)"
    using failRelease_trace [of env i step _ w1]
    by (auto simp: step_or_fail_def tryP_def trace_after_def r split: sum.splits)
  with r show ?thesis by (auto simp: trace_after_def split: sum.splits)
qed

lemma call_trace:
  "\<exists>es. trace_after (call_applier answer event) w = rd_trace (db w) @ es \<and> length es \<le> 1"
  by (auto simp: trace_after_def call_applier_def Let_def split: option.splits)

lemma runStep_call_trace: "length (trace_after (runStep env i step (call_applier answer event)) w) \<le> Suc (length (rd_trace (db w)))"
proof -
  let ?run = "call_applier answer event"
  have "trace_after (tryP ?run (finish_operation env operation log)) w1 = trace_after ?run w1" for operation log w1
    using keeps_no_events [OF finish_operation_keeps(1)]
    by (cases "?run w1") (simp add: trace_after_def tryP_def)
  moreover have "length (trace_after ?run w1) \<le> Suc (length (rd_trace (db w1)))" for w1
    using call_trace [of answer event w1] by auto
  ultimately have run: "length (trace_after (tryP ?run (finish_operation env operation log)) w1) \<le> Suc (length (rd_trace (db w1)))"
    for operation log w1 by simp
  let ?op = "(running_operation i step (ev_clock env (calls w)))\<lparr>ro_ID := tbl_next ro_ID (rd_operations (db w))\<rparr>"
  let ?log = "(running_log i step (ev_clock env (calls w)))\<lparr>ol_ID := tbl_next ol_ID (rd_logs (db w))\<rparr>"
  let ?w1 = "w\<lparr>db := (db w)\<lparr>rd_operations := rd_operations (db w) @ [?op], rd_logs := rd_logs (db w) @ [?log]\<rparr>,
    calls := Suc (Suc (calls w))\<rparr>"
  show ?thesis
    using run [of ?op ?log ?w1]
    by (simp add: trace_after_def runStep_def bindP_def timeNow_def lift_db_def CreateReleaseOperation_def
        CreateOperationLog_def db_call_def Let_def)
qed

lemma call_step_trace:
  "(\<exists>es. prefix es [event] \<and>
      trace_after (step_or_fail env i step (call_applier answer event) rest) w = rd_trace (db w) @ es) \<or>
   (\<exists>w1. rd_trace (db w1) = rd_trace (db w) @ [event] \<and> answer (rd_trace (db w)) = None \<and>
      trace_after (step_or_fail env i step (call_applier answer event) rest) w = trace_after rest w1)"
proof -
  let ?run = "call_applier answer event"
  obtain es where es: "trace_after (runStep env i step ?run) w = rd_trace (db w) @ es" "set es \<subseteq> {event}"
    using keeps_trace [OF runStep_events [OF call_applier_keeps(1)]] by blast
  have "length es \<le> 1" using runStep_call_trace [of env i step answer event w] es by simp
  with es(2) have "prefix es [event]" by (cases es) auto
  with es step_trace [of env i step ?run rest w] applier_step_Inr [of env i step answer event w] show ?thesis
    by metis
qed

text \<open>
  A rule per construct: \<open>traces P m\<close> says that the events \<open>es\<close> that \<open>m\<close> adds to a trace \<open>t\<close> satisfy \<open>P t es\<close>.
\<close>

definition traces :: "(applier_event list \<Rightarrow> applier_event list \<Rightarrow> bool) \<Rightarrow> (release_error, 'a) release_proc \<Rightarrow> bool" where
  "traces P m \<longleftrightarrow> (\<forall>w. \<exists>es. trace_after m w = rd_trace (db w) @ es \<and> P (rd_trace (db w)) es)"

lemma tracesD:
  assumes "traces P m"
  obtains es where "trace_after m w = rd_trace (db w) @ es" and "P (rd_trace (db w)) es"
  using assms by (auto simp: traces_def)

lemma traces_silent: "keeps (adds_events {}) m \<Longrightarrow> (\<And>t. P t []) \<Longrightarrow> traces P m"
  by (simp add: traces_def keeps_no_events)

lemma traces_transition:
  assumes "\<And>t. P t []" and rest: "\<And>release'. traces P (k release')"
  shows "traces P (bindP (transition env release status) k)"
  unfolding traces_def
proof
  fix w
  consider "trace_after (bindP (transition env release status) k) w = rd_trace (db w)"
    | release' w' where "rd_trace (db w') = rd_trace (db w)"
        "trace_after (bindP (transition env release status) k) w = trace_after (k release') w'"
    using transition_trace [of env release status k w] by auto
  then show "\<exists>es. trace_after (bindP (transition env release status) k) w = rd_trace (db w) @ es \<and> P (rd_trace (db w)) es"
    by cases (use assms(1) tracesD [OF rest] in \<open>metis append_Nil2\<close>)+
qed

lemma traces_call:
  assumes stop: "\<And>t es. prefix es [event] \<Longrightarrow> P t es"
    and rest: "traces Q rest" and go: "\<And>t es. answer t = None \<Longrightarrow> Q (t @ [event]) es \<Longrightarrow> P t (event # es)"
  shows "traces P (step_or_fail env i step (call_applier answer event) rest)"
  unfolding traces_def
proof
  fix w
  let ?m = "step_or_fail env i step (call_applier answer event) rest"
  consider es where "prefix es [event]" "trace_after ?m w = rd_trace (db w) @ es"
    | w1 where "rd_trace (db w1) = rd_trace (db w) @ [event]" "answer (rd_trace (db w)) = None"
        "trace_after ?m w = trace_after rest w1"
    using call_step_trace [of event env i step answer rest w] by blast
  then show "\<exists>es. trace_after ?m w = rd_trace (db w) @ es \<and> P (rd_trace (db w)) es"
  proof cases
    case (2 w1)
    obtain es where "trace_after rest w1 = rd_trace (db w1) @ es" "Q (rd_trace (db w1)) es" using tracesD [OF rest] .
    with 2 go show ?thesis by (intro exI [of _ "event # es"]) simp
  qed (use stop in auto)
qed

section \<open>Execution with a hook\<close>

definition sync_events :: "applier_event set" where
  "sync_events = {EvSyncEndpoints cx es port | cx es port. True}"

text \<open>
  What the execution needs of the hook that runs after the resources are applied: it leaves the
  release rows alone and makes no other cluster calls than endpoint synchronisations.
\<close>

locale endpoint_hook =
  fixes postApply :: "(release_error, unit) release_proc option"
  assumes hook_rows: "postApply = Some run \<Longrightarrow> keeps same_releases run"
    and hook_events: "postApply = Some run \<Longrightarrow> keeps (adds_events sync_events) run"
begin

lemma hook_step_events:
  "keeps (adds_events S) rest \<Longrightarrow> sync_events \<subseteq> S \<Longrightarrow>
   keeps (adds_events S) ((case postApply of None \<Rightarrow> id | Some run \<Rightarrow> step_or_fail env i step run) rest)"
  using hook_events by (auto split: option.splits intro!: step_or_fail_events intro: keeps_events_mono)

lemma hook_finished:
  assumes "ev_fault env = (\<lambda>_. False)" and "release_exists i w" and "\<And>w'. release_exists i w' \<Longrightarrow> finished i (rest w')"
  shows "finished i ((case postApply of None \<Rightarrow> id | Some run \<Rightarrow> step_or_fail env i step run) rest w)"
  using assms hook_rows by (auto split: option.splits intro: step_finished)

lemma hook_Inr:
  assumes "(case postApply of None \<Rightarrow> id | Some run \<Rightarrow> step_or_fail env i step run) rest w = (Inr x, w')"
  obtains w1 syncs where "rest w1 = (Inr x, w')" and "rd_trace (db w1) = rd_trace (db w) @ syncs"
    and "set syncs \<subseteq> sync_events" and "rd_releases (db w1) = rd_releases (db w)"
proof (cases postApply)
  case None
  with assms that [of w "[]"] show ?thesis by simp
next
  case (Some run)
  with assms obtain w1 where w1: "runStep env i step run w = (Inr (), w1)" "rest w1 = (Inr x, w')"
    by (auto elim: step_or_fail_Inr)
  have "adds_events sync_events (db w) (db w1)" and "same_releases (db w) (db w1)"
    using keepsD [OF runStep_events [OF hook_events [OF Some]], of w]
      keepsD [OF runStep_rows [OF hook_rows [OF Some]], of w] w1(1) by (metis snd_conv)+
  with w1 that show ?thesis by (auto simp: adds_events_def same_releases_def)
qed

lemma traces_hook:
  assumes stop: "\<And>t syncs. set syncs \<subseteq> sync_events \<Longrightarrow> P t syncs"
    and rest: "traces Q rest" and go: "\<And>t syncs es. set syncs \<subseteq> sync_events \<Longrightarrow> Q (t @ syncs) es \<Longrightarrow> P t (syncs @ es)"
  shows "traces P ((case postApply of None \<Rightarrow> id | Some run \<Rightarrow> step_or_fail env i step run) rest)"
proof (cases postApply)
  case None
  then show ?thesis using rest go [of "[]"] by (auto simp: traces_def) (metis append_Nil append_Nil2)
next
  case (Some run)
  have "\<exists>es. trace_after (step_or_fail env i step run rest) w = rd_trace (db w) @ es \<and> P (rd_trace (db w)) es" for w
  proof -
    obtain syncs where syncs: "trace_after (runStep env i step run) w = rd_trace (db w) @ syncs" "set syncs \<subseteq> sync_events"
      using keeps_trace [OF runStep_events [OF hook_events [OF Some]]] by blast
    consider "trace_after (step_or_fail env i step run rest) w = rd_trace (db w) @ syncs"
      | w1 where "rd_trace (db w1) = rd_trace (db w) @ syncs" "trace_after (step_or_fail env i step run rest) w = trace_after rest w1"
      using step_trace [of env i step run rest w] syncs(1) by (auto simp: trace_after_def)
    then show ?thesis
    proof cases
      case (2 w1)
      obtain es where "trace_after rest w1 = rd_trace (db w1) @ es" "Q (rd_trace (db w1)) es" using tracesD [OF rest] .
      with 2 go syncs(2) show ?thesis by (intro exI [of _ "syncs @ es"]) simp
    qed (use stop syncs in auto)
  qed
  with Some show ?thesis by (simp add: traces_def)
qed

text \<open>
  On every outcome, database failures included, the calls made are an initial part of the full
  sequence, and no call is made unless the ones before it were answered with success.
\<close>

lemma ready_stage_traces: "traces (\<lambda>t es. prefix es [EvWaitReady cx spec]) (ready_stage env a i cx spec release)"
  unfolding ready_stage_def
  by (intro traces_transition traces_call [where Q = "\<lambda>t es. es = []"] traces_silent event_intros transition_events) auto

lemma apply_stage_traces:
  "traces (\<lambda>t es. \<exists>syncs. set syncs \<subseteq> sync_events \<and> prefix es (EvApply resources # syncs @ [EvWaitReady cx spec]) \<and>
      (1 < length es \<longrightarrow> ra_Apply a t resources = None))
     (apply_stage env a i cx spec resources postApply release)"
proof -
  have "traces (\<lambda>t es. \<exists>syncs. set syncs \<subseteq> sync_events \<and> prefix es (syncs @ [EvWaitReady cx spec]))
      ((case postApply of None \<Rightarrow> id | Some run \<Rightarrow> step_or_fail env i ''sync_endpoints'' run) (ready_stage env a i cx spec r))" for r
    by (rule traces_hook [OF _ ready_stage_traces]) (metis append_prefixD prefixI same_prefix_prefix)+
  then show ?thesis
    unfolding apply_stage_def
    by (intro traces_transition traces_call) (auto simp: prefix_Cons intro: exI [of _ "[]"])
qed

lemma validate_stage_traces:
  fixes cx spec resources
  defines "done \<equiv> [EvVerifyImage spec, EvPreflight cx spec, EvApply resources]"
  shows "traces (\<lambda>t es. \<exists>syncs. set syncs \<subseteq> sync_events \<and> prefix es (done @ syncs @ [EvWaitReady cx spec]) \<and>
      (1 < length es \<longrightarrow> ra_VerifyImage a t spec = None) \<and>
      (2 < length es \<longrightarrow> ra_Preflight a (t @ take 1 done) cx spec = None) \<and>
      (3 < length es \<longrightarrow> ra_Apply a (t @ take 2 done) resources = None))
    (validate_stage env a i cx spec resources postApply release)"
proof -
  have pre: "traces (\<lambda>t es. \<exists>syncs. set syncs \<subseteq> sync_events \<and>
        prefix es (EvPreflight cx spec # EvApply resources # syncs @ [EvWaitReady cx spec]) \<and>
        (1 < length es \<longrightarrow> ra_Preflight a t cx spec = None) \<and>
        (2 < length es \<longrightarrow> ra_Apply a (t @ [EvPreflight cx spec]) resources = None))
      (step_or_fail env i ''preflight'' (call_applier (\<lambda>t. ra_Preflight a t cx spec) (EvPreflight cx spec))
       (apply_stage env a i cx spec resources postApply release1))" for release1
    by (intro traces_call [OF _ apply_stage_traces]) (auto simp: prefix_Cons intro: exI [of _ "[]"])
  show ?thesis
    unfolding done_def validate_stage_def
    by (intro traces_transition traces_call [OF _ pre]) (auto simp: prefix_Cons numeral_eq_Suc intro: exI [of _ "[]"])
qed

lemma execute_protocol:
  "\<exists>es. trace_after (executeRelease env (Some a) i app spec postApply) w = rd_trace (db w) @ es \<and>
    (es = [] \<or> (\<exists>release resources syncs. tbl_find rl_ID i (rd_releases (db w)) = Some release \<and>
       (let cx = applicationContext app (rl_Sequence release); t = rd_trace (db w);
            done = [EvVerifyImage spec, EvPreflight cx spec, EvApply resources] in
        RenderResources (ev_checks env) cx spec = Inr resources \<and> set syncs \<subseteq> sync_events \<and>
        prefix es (done @ syncs @ [EvWaitReady cx spec]) \<and>
        (1 < length es \<longrightarrow> ra_VerifyImage a t spec = None) \<and>
        (2 < length es \<longrightarrow> ra_Preflight a (t @ take 1 done) cx spec = None) \<and>
        (3 < length es \<longrightarrow> ra_Apply a (t @ take 2 done) resources = None))))"
proof (cases "lift_db ErrReleaseDB (Store_GetRelease (ev_fault env) i) w")
  case (Pair r w1)
  have w1: "db w1 = db w" using Pair by (auto simp: lift_db_def Store_GetRelease_def db_defs split: if_splits sum.splits)
  show ?thesis
  proof (cases r)
    case (Inl e)
    then show ?thesis using Pair w1 by (simp add: trace_after_def executeRelease_def bindP_def)
  next
    case (Inr release)
    let ?cx = "applicationContext app (rl_Sequence release)"
    have row: "tbl_find rl_ID i (rd_releases (db w)) = Some release"
      using Pair Inr by (auto simp: Store_GetRelease_def db_defs split: if_splits option.splits)
    show ?thesis
    proof (cases "RenderResources (ev_checks env) ?cx spec")
      case (Inl e)
      then show ?thesis using Pair Inr w1
        by (simp add: \<open>r = Inr release\<close> failRelease_trace [unfolded trace_after_def] trace_after_def
            executeRelease_def bindP_def Let_def del: lift_db_Inr)
    next
      case res: (Inr resources)
      have "trace_after (executeRelease env (Some a) i app spec postApply) w =
          trace_after (validate_stage env a i ?cx spec resources postApply release) w1"
        using Pair Inr res by (simp add: trace_after_def executeRelease_def bindP_def [of "lift_db _ _"] Let_def del: lift_db_Inr)
      then show ?thesis
        by (rule_tac tracesD [OF validate_stage_traces, of env a i ?cx spec resources release w1])
          (use row res w1 in \<open>auto simp: Let_def intro!: exI [of _ release] exI [of _ resources]\<close>)
    qed
  qed
qed

text \<open>Success means that every step ran, in order, with a positive answer.\<close>

lemma ready_stage_success:
  assumes "ready_stage env a i cx spec release w = (Inr (), w')" and "rl_ID release = i"
  shows "rd_trace (db w') = rd_trace (db w) @ [EvWaitReady cx spec] \<and> ra_WaitReady a (rd_trace (db w)) cx spec = None \<and>
    (\<exists>r'. tbl_find rl_ID i (rd_releases (db w')) = Some r' \<and> rl_Status r' = ReleaseStatusSucceeded \<and> rl_CompletedAt r' \<noteq> None)"
proof -
  obtain r1 w1 w2 r2 where t1: "transition env release ReleaseStatusWaitingReady w = (Inr r1, w1)"
      and s: "runStep env i ''wait_ready'' (call_applier (\<lambda>t. ra_WaitReady a t cx spec) (EvWaitReady cx spec)) w1 = (Inr (), w2)"
      and t2: "transition env r1 ReleaseStatusSucceeded w2 = (Inr r2, w')"
    using assms(1) unfolding ready_stage_def by (auto simp: returnP_def elim!: bindP_Inr_elim step_or_fail_Inr)
  have "rl_ID r2 = i" using transition_Inr [OF t1] transition_Inr [OF t2] assms(2) by simp
  then have "tbl_find rl_ID i (rd_releases (db w')) = Some r2" using transition_Inr [OF t2] by (auto simp: tbl.find_save)
  then show ?thesis using transition_Inr [OF t1] transition_Inr [OF t2] applier_step_Inr [OF s] by simp
qed

lemma apply_stage_success:
  assumes "apply_stage env a i cx spec resources postApply release w = (Inr (), w')" and "rl_ID release = i"
  shows "\<exists>syncs. rd_trace (db w') = rd_trace (db w) @ [EvApply resources] @ syncs @ [EvWaitReady cx spec] \<and>
    set syncs \<subseteq> sync_events \<and> ra_Apply a (rd_trace (db w)) resources = None \<and>
    ra_WaitReady a (rd_trace (db w) @ [EvApply resources] @ syncs) cx spec = None \<and>
    (\<exists>r'. tbl_find rl_ID i (rd_releases (db w')) = Some r' \<and> rl_Status r' = ReleaseStatusSucceeded \<and> rl_CompletedAt r' \<noteq> None)"
proof -
  obtain r1 w1 w2 where t: "transition env release ReleaseStatusApplying w = (Inr r1, w1)"
      and s: "runStep env i ''apply_resources'' (call_applier (\<lambda>t. ra_Apply a t resources) (EvApply resources)) w1 = (Inr (), w2)"
      and k: "(case postApply of None \<Rightarrow> id | Some run \<Rightarrow> step_or_fail env i ''sync_endpoints'' run)
        (ready_stage env a i cx spec r1) w2 = (Inr (), w')"
    using assms(1) unfolding apply_stage_def by (elim bindP_Inr_elim step_or_fail_Inr)
  obtain w3 syncs where r: "ready_stage env a i cx spec r1 w3 = (Inr (), w')"
      and h: "rd_trace (db w3) = rd_trace (db w2) @ syncs" "set syncs \<subseteq> sync_events"
    using k by (rule hook_Inr)
  have "rl_ID r1 = i" using transition_Inr [OF t] assms(2) by simp
  from ready_stage_success [OF r this] show ?thesis
    by (intro exI [of _ syncs]) (use transition_Inr [OF t] applier_step_Inr [OF s] h in simp)
qed

lemma execute_success:
  assumes "executeRelease env (Some a) i app spec postApply w = (Inr (), w')"
  shows "\<exists>release resources syncs. tbl_find rl_ID i (rd_releases (db w)) = Some release \<and>
    RenderResources (ev_checks env) (applicationContext app (rl_Sequence release)) spec = Inr resources \<and>
    (let cx = applicationContext app (rl_Sequence release); t = rd_trace (db w);
         done = [EvVerifyImage spec, EvPreflight cx spec, EvApply resources] in
     rd_trace (db w') = t @ done @ syncs @ [EvWaitReady cx spec] \<and> set syncs \<subseteq> sync_events \<and>
     ra_VerifyImage a t spec = None \<and> ra_Preflight a (t @ take 1 done) cx spec = None \<and>
     ra_Apply a (t @ take 2 done) resources = None \<and> ra_WaitReady a (t @ done @ syncs) cx spec = None) \<and>
    (\<exists>r'. tbl_find rl_ID i (rd_releases (db w')) = Some r' \<and> rl_Status r' = ReleaseStatusSucceeded \<and> rl_CompletedAt r' \<noteq> None)"
proof -
  obtain release w1 where g: "Store_GetRelease (ev_fault env) i w = (Inr release, w1)"
      and k: "(let cx = applicationContext app (rl_Sequence release) in
            case RenderResources (ev_checks env) cx spec of
              Inl e \<Rightarrow> failRelease env i ''preflight'' (ErrRender e)
            | Inr resources \<Rightarrow>
                validate_stage env a i cx spec resources postApply release) w1 = (Inr (), w')"
    using assms unfolding executeRelease_def by (auto elim: bindP_Inr_elim)
  have w1: "tbl_find rl_ID i (rd_releases (db w)) = Some release" "db w1 = db w"
    using db_read_Inr [OF g [unfolded Store_GetRelease_def]] by auto
  let ?cx = "applicationContext app (rl_Sequence release)"
  obtain resources where res: "RenderResources (ev_checks env) ?cx spec = Inr resources"
    using k by (cases "RenderResources (ev_checks env) ?cx spec") (auto simp: Let_def failRelease_not_Inr)
  obtain r1 w2 w3 w4 where t: "transition env release ReleaseStatusValidating w1 = (Inr r1, w2)"
      and s1: "runStep env i ''verify_image'' (call_applier (\<lambda>t. ra_VerifyImage a t spec) (EvVerifyImage spec)) w2 = (Inr (), w3)"
      and s2: "runStep env i ''preflight'' (call_applier (\<lambda>t. ra_Preflight a t ?cx spec) (EvPreflight ?cx spec)) w3 = (Inr (), w4)"
      and k: "apply_stage env a i ?cx spec resources postApply r1 w4 = (Inr (), w')"
    using k unfolding Let_def res sum.case validate_stage_def by (elim bindP_Inr_elim step_or_fail_Inr)
  have "rl_ID r1 = i" using transition_Inr [OF t] tbl_find_key [OF w1(1)] by simp
  from apply_stage_success [OF k this] obtain syncs where
    rest: "rd_trace (db w') = rd_trace (db w4) @ [EvApply resources] @ syncs @ [EvWaitReady ?cx spec] \<and>
      set syncs \<subseteq> sync_events \<and> ra_Apply a (rd_trace (db w4)) resources = None \<and>
      ra_WaitReady a (rd_trace (db w4) @ [EvApply resources] @ syncs) ?cx spec = None \<and>
      (\<exists>r'. tbl_find rl_ID i (rd_releases (db w')) = Some r' \<and> rl_Status r' = ReleaseStatusSucceeded \<and> rl_CompletedAt r' \<noteq> None)"
    by blast
  show ?thesis
    by (rule exI [of _ release], rule exI [of _ resources], rule exI [of _ syncs])
      (use transition_Inr [OF t] applier_step_Inr [OF s1] applier_step_Inr [OF s2] rest w1 res in
        \<open>simp add: Let_def numeral_2_eq_2\<close>)
qed

text \<open>Without database failures the execution always ends in a final status.\<close>

lemma ready_stage_finished:
  assumes ok: "ev_fault env = (\<lambda>_. False)" and "rl_ID release = i"
  shows "finished i (ready_stage env a i cx spec release w)"
  unfolding ready_stage_def
  by (auto simp: returnP_def release_status_def assms
      intro!: transition_finished [OF ok] step_finished [OF ok] call_applier_keeps valid_statuses)

lemma apply_stage_finished:
  assumes ok: "ev_fault env = (\<lambda>_. False)" and "rl_ID release = i"
  shows "finished i (apply_stage env a i cx spec resources postApply release w)"
  unfolding apply_stage_def
  by (auto simp: assms intro!: transition_finished [OF ok] step_finished [OF ok] hook_finished [OF ok]
      ready_stage_finished [OF ok] call_applier_keeps valid_statuses)

lemma execute_finished:
  assumes ok: "ev_fault env = (\<lambda>_. False)" and row: "release_exists i w"
  shows "finished i (executeRelease env (Some a) i app spec postApply w)"
proof -
  obtain release where r: "tbl_find rl_ID i (rd_releases (db w)) = Some release"
    using row by (auto simp: release_exists_def)
  have id: "rl_ID release = i" using tbl_find_key [OF r] by simp
  have get: "lift_db ErrReleaseDB (Store_GetRelease (ev_fault env) i) w = (Inr release, w\<lparr>calls := Suc (calls w)\<rparr>)"
    using ok r by (simp add: Store_GetRelease_def db_defs)
  have here: "release_exists i (w\<lparr>calls := Suc (calls w)\<rparr>)" using row by (simp add: release_exists_def)
  show ?thesis
    unfolding executeRelease_def option.case bindP_def [of "lift_db ErrReleaseDB (Store_GetRelease (ev_fault env) i)"]
      get prod.case sum.case Let_def validate_stage_def
    by (cases "RenderResources (ev_checks env) (applicationContext app (rl_Sequence release)) spec")
      (auto simp: here id intro!: failRelease_finished [OF ok] transition_finished [OF ok] step_finished [OF ok]
          apply_stage_finished [OF ok] call_applier_keeps valid_statuses)
qed

end

interpretation no_hook: endpoint_hook None
  by unfold_locales simp_all

section \<open>Creating releases\<close>

definition app_sequences :: "nat \<Rightarrow> release_db \<Rightarrow> nat set" where
  "app_sequences applicationID d = rl_Sequence ` {r \<in> set (rd_releases d). rl_ApplicationID r = applicationID}"

definition unique_sequences :: "release_db \<Rightarrow> bool" where
  "unique_sequences d \<longleftrightarrow> distinct (map (\<lambda>r. (rl_ApplicationID r, rl_Sequence r)) (rd_releases d))"

lemma app_sequences_filter:
  "app_sequences i d = set (map rl_Sequence (filter (\<lambda>r. rl_ApplicationID r = i) (rd_releases d)))"
  by (auto simp: app_sequences_def)

lemma rev_sort_key_head:
  assumes "rev (sort_key key xs) = x # ys"
  shows "x \<in> set xs \<and> (\<forall>y \<in> set xs. key y \<le> key x)"
proof -
  have sort: "sort_key key xs = rev ys @ [x]" using assms by (metis rev.simps(2) rev_rev_ident)
  then have "sorted (map key (rev ys @ [x]))" by (metis sorted_sort_key)
  then have "\<forall>y \<in> set (rev ys @ [x]). key y \<le> key x" by (auto simp: sorted_append)
  then show ?thesis by (metis sort in_set_conv_decomp set_sort)
qed

lemma set_app_releases: "set (app_releases i rows) = {r \<in> set rows. rl_ApplicationID r = i}"
  by (auto simp: app_releases_def)

lemma next_sequence_max:
  "next_sequence (app_releases i (rd_releases d)) =
     (if app_sequences i d = {} then 1 else (Max (app_sequences i d) + 1) mod 2 ^ 64)"
proof (cases "app_releases i (rd_releases d)")
  case Nil
  then have "app_sequences i d = {}" using set_app_releases [of i "rd_releases d"] by (simp add: app_sequences_def)
  with Nil show ?thesis by (simp add: next_sequence_def)
next
  case (Cons r rs)
  then have r: "r \<in> set (rd_releases d)" "rl_ApplicationID r = i"
      and le: "y \<in> app_sequences i d \<Longrightarrow> y \<le> rl_Sequence r" for y
    using rev_sort_key_head [OF Cons [unfolded app_releases_def]] by (auto simp: app_sequences_def)
  then have "Max (app_sequences i d) = rl_Sequence r"
    by (intro Max_eqI) (auto simp: app_sequences_def)
  with Cons r show ?thesis by (auto simp: next_sequence_def app_sequences_def)
qed

lemma find_app_releases:
  assumes "find P (app_releases i rows) = Some r"
  shows "r \<in> set rows \<and> rl_ApplicationID r = i \<and> P r \<and>
    (\<forall>r' \<in> set rows. rl_ApplicationID r' = i \<longrightarrow> P r' \<longrightarrow> rl_Sequence r' \<le> rl_Sequence r)"
proof -
  let ?ys = "app_releases i rows"
  obtain j where j: "j < length ?ys" "P (?ys ! j)" "r = ?ys ! j" "\<forall>k < j. \<not> P (?ys ! k)"
    using assms by (auto simp: find_Some_iff)
  have desc: "sorted_wrt (\<lambda>x y. rl_Sequence y \<le> rl_Sequence x) ?ys"
    using sorted_sort_key [of rl_Sequence] by (simp add: app_releases_def sorted_wrt_rev sorted_map)
  have "rl_Sequence r' \<le> rl_Sequence r" if "r' \<in> set ?ys" and "P r'" for r'
  proof -
    obtain k where k: "k < length ?ys" "r' = ?ys ! k" using \<open>r' \<in> set ?ys\<close> by (metis in_set_conv_nth)
    then have "j \<le> k" using j(4) \<open>P r'\<close> by (metis not_le)
    then show ?thesis using desc j k by (cases "j = k") (auto simp: sorted_wrt_iff_nth_less)
  qed
  with j nth_mem [OF j(1)] show ?thesis by (auto simp: set_app_releases)
qed

lemma Service_CreateRelease_Inr:
  assumes "Service_CreateRelease env applicationID userID spec w = (Inr r, w')"
  shows "\<exists>app sequence. map_option LoadCapabilities (tbl_find ap_ID applicationID (rd_apps (db w))) = Some app \<and> spec_ok (ev_checks env) spec \<and>
    sequence = next_sequence (app_releases applicationID (rd_releases (db w))) \<and>
    (\<exists>resources. RenderResources (ev_checks env) (applicationContext app sequence) spec = Inr resources) \<and>
    r = (draft_release applicationID userID sequence spec (SanitizeReleaseSpec spec))\<lparr>rl_ID := tbl_next rl_ID (rd_releases (db w))\<rparr> \<and>
    sequence \<notin> app_sequences applicationID (db w) \<and>
    db w' = (db w)\<lparr>rd_releases := rd_releases (db w) @ [r]\<rparr>"
proof -
  obtain app w1 where a: "GetApplication (ev_fault env) applicationID w = (Inr app, w1)"
      and k: "(case ValidateReleaseSpec (ev_checks env) spec of
         problem # _ \<Rightarrow> failP (ErrReleaseInvalid (is_Message problem))
       | [] \<Rightarrow>
           bindP (lift_db ErrReleaseHistory (ListReleases (ev_fault env) applicationID)) (\<lambda>history.
             let sequence = next_sequence history in
             case RenderResources (ev_checks env) (applicationContext app sequence) spec of
               Inl e \<Rightarrow> failP (ErrRender e)
             | Inr resources \<Rightarrow>
                 lift_db ErrStoreRelease (Store_CreateRelease (ev_fault env)
                   (draft_release applicationID userID sequence spec (rr_SanitizedSpec resources))))) w1 = (Inr r, w')"
    using assms unfolding Service_CreateRelease_def by (auto elim: bindP_Inr_elim)
  have app: "map_option LoadCapabilities (tbl_find ap_ID applicationID (rd_apps (db w))) = Some app" "db w1 = db w"
    using db_read_Inr [OF a [unfolded GetApplication_def]] by auto
  have valid: "ValidateReleaseSpec (ev_checks env) spec = []"
    using k by (auto simp: failP_def split: list.splits)
  let ?seq = "next_sequence (app_releases applicationID (rd_releases (db w)))"
  obtain w2 resources where w2: "db w2 = db w"
      and res: "RenderResources (ev_checks env) (applicationContext app ?seq) spec = Inr resources"
      and k: "Store_CreateRelease (ev_fault env)
        (draft_release applicationID userID ?seq spec (rr_SanitizedSpec resources)) w2 = (Inr r, w')"
    using k valid app(2)
    by (auto simp: ListReleases_def failP_def Let_def elim!: bindP_Inr_elim dest!: db_read_Inr split: sum.splits)
  have san: "rr_SanitizedSpec resources = SanitizeReleaseSpec spec"
    using res by (auto elim!: RenderResources_Inr simp: render_objects_def Let_def)
  show ?thesis
    using app valid w2 res k
    by (intro exI [of _ app] exI [of _ ?seq])
      (auto simp: san ValidateReleaseSpec_Nil Store_CreateRelease_def db_call_def Let_def app_sequences_def
        draft_release_def list_ex_iff split: if_splits)
qed

lemma unique_append:
  "rl_Sequence r \<notin> app_sequences (rl_ApplicationID r) d \<Longrightarrow> unique_sequences d \<Longrightarrow>
   unique_sequences (d\<lparr>rd_releases := rd_releases d @ [r]\<rparr>)"
  by (auto simp: unique_sequences_def app_sequences_def)

lemma tbl_save_last:
  assumes "key r = tbl_next key rows"
  shows "tbl_save key r (rows @ [r']) = (if key r' = key r then rows @ [r] else rows @ [r', r])"
proof -
  have "\<forall>x \<in> set rows. key x \<noteq> key r" using tbl_next_fresh [of _ rows key] assms by fastforce
  then show ?thesis by (induction rows) auto
qed

text \<open>Retry and rollback create the release and then complete its row.\<close>

lemma completed_Inr:
  assumes "bindP (Service_CreateRelease env applicationID userID spec) (\<lambda>r.
      let r' = f r in bindP (lift_db ErrReleaseDB (Store_UpdateRelease (ev_fault env) r')) (\<lambda>_. returnP (r', spec))) w = (Inr (r', spec'), w')"
    and id: "\<And>r. rl_ID (f r) = rl_ID r"
  obtains r w1 where "Service_CreateRelease env applicationID userID spec w = (Inr r, w1)" and "r' = f r" and "spec' = spec"
    and "db w' = (db w)\<lparr>rd_releases := rd_releases (db w) @ [r']\<rparr>"
proof -
  obtain r w1 w2 where c: "Service_CreateRelease env applicationID userID spec w = (Inr r, w1)"
      and u: "Store_UpdateRelease (ev_fault env) (f r) w1 = (Inr (), w2)" and e: "r' = f r" "spec' = spec" "w' = w2"
    using assms(1) by (auto simp: returnP_def Let_def elim!: bindP_Inr_elim)
  from Service_CreateRelease_Inr [OF c] have r: "rl_ID r = tbl_next rl_ID (rd_releases (db w))"
    and w1: "db w1 = (db w)\<lparr>rd_releases := rd_releases (db w) @ [r]\<rparr>" by auto
  have "db w' = (db w)\<lparr>rd_releases := rd_releases (db w) @ [f r]\<rparr>"
    using db_write_Inr [OF u [unfolded Store_UpdateRelease_def]] w1 tbl_save_last [of rl_ID "f r" "rd_releases (db w)" r] r id e
    by simp
  with c e that show ?thesis by simp
qed

section \<open>Properties\<close>

text \<open>
  A release that is created is a draft with a valid, renderable specification; its number follows
  the largest number of the application's releases (as an unsigned 64-bit integer) and is unused; it
  is appended to an otherwise unchanged database without a call to the cluster; and the snapshot
  that is stored is the specification without its secrets.
\<close>

theorem create_release_numbering:
  assumes "Service_CreateRelease env applicationID userID spec w = (Inr r, w')"
  shows "db w' = (db w)\<lparr>rd_releases := rd_releases (db w) @ [r]\<rparr> \<and> rl_ApplicationID r = applicationID \<and>
    rl_Status r = ReleaseStatusDraft \<and> spec_ok (ev_checks env) spec \<and>
    rl_Sequence r = (if app_sequences applicationID (db w) = {} then 1 else (Max (app_sequences applicationID (db w)) + 1) mod 2 ^ 64) \<and>
    rl_Sequence r \<notin> app_sequences applicationID (db w) \<and> rl_ID r \<notin> rl_ID ` set (rd_releases (db w)) \<and>
    rl_DesiredSpec r = JSON (SanitizeReleaseSpec spec) \<and> (unique_sequences (db w) \<longrightarrow> unique_sequences (db w'))"
proof -
  have "json_visible (SanitizeReleaseSpec spec) = SanitizeReleaseSpec spec"
    by (simp add: json_visible_def SanitizeReleaseSpec_def clear_runtime_fields_def)
  moreover have "tbl_next rl_ID (rd_releases (db w)) \<notin> rl_ID ` set (rd_releases (db w))"
    using tbl_next_fresh [of _ "rd_releases (db w)" rl_ID] by fastforce
  moreover obtain sequence where "sequence = next_sequence (app_releases applicationID (rd_releases (db w)))"
      "spec_ok (ev_checks env) spec" "sequence \<notin> app_sequences applicationID (db w)"
      "r = (draft_release applicationID userID sequence spec (SanitizeReleaseSpec spec))\<lparr>rl_ID := tbl_next rl_ID (rd_releases (db w))\<rparr>"
      "db w' = (db w)\<lparr>rd_releases := rd_releases (db w) @ [r]\<rparr>"
    using Service_CreateRelease_Inr [OF assms] by blast
  moreover from this have "unique_sequences (db w) \<longrightarrow> unique_sequences (db w')"
    using unique_append [of r "db w"] by (simp add: draft_release_def)
  ultimately show ?thesis by (simp add: draft_release_def next_sequence_max)
qed

text \<open>
  A rollback that succeeds takes the newest release of the application that succeeded and is
  older than the given one, creates a new release that records it as its source, from its stored
  specification with the endpoint reset, and leaves every existing release as it is.
\<close>

theorem rollback_target:
  assumes "RollbackRelease env i userID w = (Inr (r, spec), w')"
  shows "\<exists>current source snapshot. tbl_find rl_ID i (rd_releases (db w)) = Some current \<and>
    source \<in> set (rd_releases (db w)) \<and> rl_ApplicationID source = rl_ApplicationID current \<and>
    rl_Sequence source < rl_Sequence current \<and> rl_Status source = ReleaseStatusSucceeded \<and>
    (\<forall>r' \<in> set (rd_releases (db w)). rl_ApplicationID r' = rl_ApplicationID current \<longrightarrow> rl_Status r' = ReleaseStatusSucceeded \<longrightarrow>
       rl_Sequence r' < rl_Sequence current \<longrightarrow> rl_Sequence r' \<le> rl_Sequence source) \<and>
    releaseSpecFromSnapshot (rl_DesiredSpec source) = Inr snapshot \<and> spec = snapshot\<lparr>sp_Endpoint := cluster_endpoint\<rparr> \<and>
    rl_SourceReleaseID r = Some (rl_ID source) \<and> rl_TemplateID r = rl_TemplateID source \<and>
    rl_Status r = ReleaseStatusDraft \<and> rl_DesiredSpec r = JSON (SanitizeReleaseSpec spec) \<and>
    db w' = (db w)\<lparr>rd_releases := rd_releases (db w) @ [r]\<rparr>"
proof -
  obtain current history w1 w2 where
      c: "Store_GetRelease (ev_fault env) i w = (Inr current, w1)"
      and h: "ListReleases (ev_fault env) (rl_ApplicationID current) w1 = (Inr history, w2)"
      and k: "(case find (\<lambda>candidate. rl_Sequence candidate < rl_Sequence current \<and> rl_Status candidate = ReleaseStatusSucceeded) history of
         None \<Rightarrow> failP ErrNoRollbackTarget
       | Some source \<Rightarrow>
           (case releaseSpecFromSnapshot (rl_DesiredSpec source) of
              Inl e \<Rightarrow> failP e
            | Inr snapshot \<Rightarrow>
                let spec = snapshot\<lparr>sp_Endpoint := cluster_endpoint\<rparr> in
                bindP (Service_CreateRelease env (rl_ApplicationID current) userID spec) (\<lambda>rollback.
                  let rollback' = rollback\<lparr>rl_SourceReleaseID := Some (rl_ID source), rl_TemplateID := rl_TemplateID source,
                        rl_TemplateRevision := rl_TemplateRevision source\<rparr> in
                  bindP (lift_db ErrReleaseDB (Store_UpdateRelease (ev_fault env) rollback')) (\<lambda>_. returnP (rollback', spec))))) w2 = (Inr (r, spec), w')"
    using assms unfolding RollbackRelease_def by (auto elim!: bindP_Inr_elim)
  have rows: "tbl_find rl_ID i (rd_releases (db w)) = Some current" "db w2 = db w"
      "history = app_releases (rl_ApplicationID current) (rd_releases (db w))"
    using db_read_Inr [OF c [unfolded Store_GetRelease_def]] db_read_Inr [OF h [unfolded ListReleases_def]] by auto
  obtain source where source: "find (\<lambda>candidate. rl_Sequence candidate < rl_Sequence current \<and>
      rl_Status candidate = ReleaseStatusSucceeded) history = Some source"
    using k by (auto simp: failP_def split: option.splits)
  obtain snapshot where snapshot: "releaseSpecFromSnapshot (rl_DesiredSpec source) = Inr snapshot"
    using k source by (auto simp: failP_def split: sum.splits)
  let ?spec = "snapshot\<lparr>sp_Endpoint := cluster_endpoint\<rparr>"
  obtain r0 w3 where r0: "Service_CreateRelease env (rl_ApplicationID current) userID ?spec w2 = (Inr r0, w3)"
      and r: "r = r0\<lparr>rl_SourceReleaseID := Some (rl_ID source), rl_TemplateID := rl_TemplateID source,
        rl_TemplateRevision := rl_TemplateRevision source\<rparr>" "spec = ?spec"
      and w': "db w' = (db w2)\<lparr>rd_releases := rd_releases (db w2) @ [r]\<rparr>"
    using k unfolding source option.case snapshot sum.case Let_def [of ?spec] by (rule completed_Inr) auto
  have "rl_Status r = ReleaseStatusDraft \<and> rl_DesiredSpec r = JSON (SanitizeReleaseSpec spec)"
    using Service_CreateRelease_Inr [OF r0] r
    by (auto simp: draft_release_def json_visible_def SanitizeReleaseSpec_def clear_runtime_fields_def)
  with find_app_releases [OF source [unfolded rows]] rows(1,2) snapshot r w' show ?thesis
    by (intro exI [of _ current] exI [of _ source] exI [of _ snapshot]) simp
qed

section \<open>A concrete history\<close>

definition demo_app :: Application where
  "demo_app = \<lparr>ap_ID = 5, ap_ProjectID = 1, ap_EnvironmentID = 2, ap_Name = ''web'', ap_WorkloadKind = [],
     ap_CapabilitiesData = JSON [], ap_Capabilities = [], ap_DefaultDeploymentTemplateID = None, ap_CreatedAt = 0,
     ap_Project = \<lparr>pj_ID = 1, pj_Name = ''shop'', pj_DefaultImageRegistryID = None, pj_OwnerID = 1, pj_CreatedAt = 0\<rparr>,
     ap_Environment = \<lparr>en_ID = 2, en_ProjectID = 1, en_Name = ''prod'', en_Namespace = ''shop-prod'', en_CreatedAt = 0\<rparr>\<rparr>"

definition demo_release :: "nat \<Rightarrow> string \<Rightarrow> Release" where
  "demo_release i status =
     (draft_release 5 7 i demo_spec (SanitizeReleaseSpec demo_spec))\<lparr>rl_ID := i, rl_Status := status\<rparr>"

definition demo_env :: release_env where
  "demo_env = \<lparr>ev_fault = (\<lambda>_. False), ev_clock = int, ev_checks = demo_checks, ev_describe = (\<lambda>_. [])\<rparr>"

definition demo_db :: release_db where
  "demo_db = \<lparr>rd_apps = [demo_app],
     rd_releases = [demo_release 1 ReleaseStatusSucceeded, demo_release 2 ReleaseStatusSucceeded, demo_release 3 ReleaseStatusFailed],
     rd_operations = [], rd_logs = [], rd_endpoints = [], rd_templates = [], rd_files = [], rd_registries = [], rd_mirrors = [],
     rd_trace = []\<rparr>"

definition demo_world :: "release_db world" where
  "demo_world = \<lparr>db = demo_db, calls = 0\<rparr>"

definition demo_snapshot :: ReleaseSpec where
  "demo_snapshot = (json_visible (SanitizeReleaseSpec demo_spec))\<lparr>sp_Endpoint := cluster_endpoint\<rparr>"

lemma demo_snapshot_ok: "spec_ok demo_checks demo_snapshot"
proof -
  have files: "file_mounts_ok demo_checks (enabledStringMap (sp_Config demo_snapshot) (sp_ConfigDisabled demo_snapshot))
     (enabledStringMap (sp_Secrets demo_snapshot) (sp_SecretsDisabled demo_snapshot)) (sp_FileMounts demo_snapshot)"
    by (simp add: demo_snapshot_def json_visible_def SanitizeReleaseSpec_def clear_runtime_fields_def demo_spec_def file_mounts_ok_def
        file_mount_ok_def known_source_def application_source_def source_defs map_of_enabled demo_checks_def demo_paths demo_plain)
  have "endpoint_ok demo_service_spec cluster_endpoint" "exposure_ok demo_service_spec False"
    by (simp_all add: endpoint_ok_def exposure_ok_def cluster_endpoint_def exposure_defs demo_service_spec_def PortSpecs_def
        PrimaryTCPPort_def demo_normalised Let_def demo_plain)
  with files demo_spec_ok show ?thesis
    by (simp add: spec_ok_def demo_snapshot_def json_visible_def SanitizeReleaseSpec_def clear_runtime_fields_def demo_spec_def
        managed_keys_ok_def cluster_endpoint_def exposure_defs)
qed

lemma json_visible_idem: "json_visible (json_visible spec) = json_visible spec"
  by (simp add: json_visible_def clear_runtime_fields_def)

lemma demo_load: "LoadCapabilities demo_app = demo_app"
  by (simp add: LoadCapabilities_def demo_app_def NormalizeApplicationCapabilities_def maxApplicationCapabilities_def)

lemma demo_renders:
  assumes "spec_ok demo_checks spec" and "credentials_ok spec"
  shows "\<exists>r. RenderResources demo_checks (applicationContext demo_app n) spec = Inr r"
  by (rule iffD2 [OF conjunct1 [OF render_ok_iff]])
    (simp add: assms applicationContext_def demo_app_def demo_admissible)

lemma demo_sequence: "next_sequence (app_releases 5 (rd_releases demo_db)) = 4"
proof -
  have "app_sequences 5 demo_db = {1, 2, 3}"
    by (auto simp: app_sequences_filter demo_db_def demo_release_def draft_release_def)
  then show ?thesis by (simp add: next_sequence_max)
qed

lemma demo_create:
  assumes "spec_ok demo_checks spec" and "credentials_ok spec" and "db w = demo_db"
  shows "\<exists>r w'. Service_CreateRelease demo_env 5 7 spec w = (Inr r, w')"
proof -
  obtain res where "RenderResources demo_checks (applicationContext demo_app 4) spec = Inr res"
    using demo_renders [OF assms(1,2)] by blast
  moreover have "ValidateReleaseSpec demo_checks spec = []" using assms(1) by (simp add: ValidateReleaseSpec_Nil)
  moreover have "tbl_find ap_ID 5 (rd_apps demo_db) = Some demo_app" by (simp add: demo_db_def demo_app_def tbl_find_def)
  moreover have "\<not> list_ex (\<lambda>r. rl_ApplicationID r = 5 \<and> rl_Sequence r = 4) (rd_releases demo_db)"
    by (simp add: demo_db_def demo_release_def draft_release_def)
  ultimately show ?thesis
    by (simp add: Service_CreateRelease_def bindP_def lift_db_def GetApplication_def ListReleases_def Store_CreateRelease_def
        db_defs demo_env_def assms(3) demo_load demo_sequence draft_release_def Let_def)
qed

theorem create_release_numbering_witness:
  "\<exists>r w'. Service_CreateRelease demo_env 5 7 demo_spec demo_world = (Inr r, w') \<and> rl_Sequence r = 4"
proof -
  obtain r w' where "Service_CreateRelease demo_env 5 7 demo_spec demo_world = (Inr r, w')"
    using demo_create [OF demo_spec_ok demo_admissible(1), of demo_world] by (auto simp: demo_world_def)
  moreover from create_release_numbering [OF this] have "rl_Sequence r = next_sequence (app_releases 5 (rd_releases demo_db))"
    unfolding next_sequence_max by (simp only: demo_world_def world.simps)
  ultimately show ?thesis by (simp add: demo_sequence)
qed

lemma demo_rollback: "\<exists>r spec w'. RollbackRelease demo_env 3 7 demo_world = (Inr (r, spec), w')"
proof -
  have "credentials_ok demo_snapshot"
    by (simp add: credentials_ok_def needs_pull_secret_def demo_snapshot_def json_visible_def SanitizeReleaseSpec_def
        clear_runtime_fields_def demo_spec_def)
  then obtain r w1 where c: "Service_CreateRelease demo_env 5 7 demo_snapshot \<lparr>db = demo_db, calls = 2\<rparr> = (Inr r, w1)"
    using demo_create [OF demo_snapshot_ok, of "\<lparr>db = demo_db, calls = 2\<rparr>"] by auto
  have source: "find (\<lambda>c. rl_Sequence c < 3 \<and> rl_Status c = ReleaseStatusSucceeded) (app_releases 5 (rd_releases demo_db)) =
      Some (demo_release 2 ReleaseStatusSucceeded)"
    unfolding app_releases_def
    by (rule find_rev_sort_key) (auto simp: demo_db_def demo_release_def draft_release_def status_defs)
  have "tbl_find rl_ID 3 (rd_releases demo_db) = Some (demo_release 3 ReleaseStatusFailed)"
    by (simp add: demo_db_def demo_release_def draft_release_def tbl_find_def)
  with source c show ?thesis
    by (simp add: RollbackRelease_def bindP_def lift_db_def Store_GetRelease_def ListReleases_def Store_UpdateRelease_def db_defs
        demo_env_def demo_world_def numeral_2_eq_2 demo_release_def draft_release_def releaseSpecFromSnapshot_def
        demo_snapshot_def json_visible_idem Let_def returnP_def)
qed

theorem rollback_target_witness:
  "\<exists>r spec w'. RollbackRelease demo_env 3 7 demo_world = (Inr (r, spec), w') \<and> rl_Status r = ReleaseStatusDraft"
  using demo_rollback rollback_target by blast

end
