(* ===== verification/Release_Workflow.thy ===== *)
theory Release_Workflow
  imports Release_Execution
begin

text \<open>
  The release use cases: \<open>internal/service/application/release_workflow.go\<close> with the parts of
  \<open>internal/store/application_repository.go\<close>, \<open>application_release_repository.go\<close> and
  \<open>registry_repository.go\<close> it calls. It prepares the run-time form of a specification (registry,
  mirror, secrets), creates the release, executes it with the synchronisation of the endpoints as
  hook, and keeps the table of managed files. The JSON coding of the template secrets is the
  parameter \<open>wf_decode\<close>; the decryption of credentials is \<^const>\<open>Decrypt\<close>.
\<close>

section \<open>Image names\<close>

datatype image_path_error = ImagePathInvalid | ImagePathTagged | VersionNotTag | ImagePathBlank

definition version_start :: "char \<Rightarrow> bool" where
  "version_start c \<longleftrightarrow> is_lower c \<or> is_upper c \<or> is_digit c \<or> c = CHR ''_''"

definition version_char :: "char \<Rightarrow> bool" where
  "version_char c \<longleftrightarrow> version_start c \<or> c = CHR ''.'' \<or> c = CHR ''-''"

text \<open>\<open>^[A-Za-z0-9_][A-Za-z0-9_.-]{0,127}$\<close>\<close>

definition releaseImageTagPattern :: "string \<Rightarrow> bool" where
  "releaseImageTagPattern s \<longleftrightarrow>
     (case s of [] \<Rightarrow> False | c # rest \<Rightarrow> version_start c \<and> length rest \<le> 127 \<and> list_all version_char rest)"

text \<open>\<open>s[strings.LastIndex(s, "/")+1:]\<close>\<close>

definition after_last_slash :: "string \<Rightarrow> string" where
  "after_last_slash s = rev (takeWhile (\<lambda>c. c \<noteq> CHR ''/'') (rev s))"

definition blank_chars :: string where
  "blank_chars = [CHR '' '', CHR 0x09, CHR 0x0D, CHR 0x0A]"

definition imageWithVersion :: "string \<Rightarrow> string \<Rightarrow> image_path_error + string" where
  "imageWithVersion repository0 version0 =
     (let repository = Trim (TrimSpace repository0) ''/''; version = TrimSpace version0 in
      if repository = [] \<or> ContainsAny repository blank_chars \<or> Contains repository ''@'' then Inl ImagePathInvalid
      else if Contains (after_last_slash repository) '':'' then Inl ImagePathTagged
      else if \<not> releaseImageTagPattern version then Inl VersionNotTag
      else Inr (repository @ '':'' @ version))"

definition registryImageReference :: "string \<Rightarrow> string \<Rightarrow> image_path_error + string" where
  "registryImageReference endpoint image0 =
     (let img = Trim (TrimSpace image0) ''/'' in
      if img = [] \<or> ContainsAny img blank_chars then Inl ImagePathBlank
      else let pref = Trim (TrimSpace endpoint) ''/'' @ ''/'' in
        if HasPrefix img pref then Inr img else Inr (pref @ img))"

section \<open>Ports and endpoints\<close>

definition servicePortExists :: "ServiceSpec \<Rightarrow> int \<Rightarrow> string \<Rightarrow> bool" where
  "servicePortExists spec requestedPort requestedProtocol =
     list_ex (\<lambda>port. let p0 = ToUpper (TrimSpace (po_Protocol port)); protocol = (if p0 = [] then ''TCP'' else p0)
        in po_Port port = requestedPort \<and> protocol = requestedProtocol) (PortSpecs spec)"

definition endpointUsesIngress :: "ApplicationEndpoint \<Rightarrow> bool" where
  "endpointUsesIngress endpoint \<longleftrightarrow> ToLower (TrimSpace (ae_IngressMode endpoint)) \<noteq> ''metadata''"

definition actual_protocol :: "ServicePortSpec \<Rightarrow> string" where
  "actual_protocol port = (let p = ToUpper (TrimSpace (po_Protocol port)) in if p = [] then ''TCP'' else p)"

text \<open>The port and protocol that are looked for: an unset port stands for the primary TCP port.\<close>

definition requested :: "ServiceSpec \<Rightarrow> ServicePortSpec list \<Rightarrow> int \<Rightarrow> string \<Rightarrow> int \<times> string" where
  "requested spec ports requestedPort protocol =
     (if requestedPort = 0 then
        (case PrimaryTCPPort spec of
           Some primary \<Rightarrow> (po_Port primary, if protocol = [] then ''TCP'' else protocol)
         | None \<Rightarrow> (po_Port (hd ports), protocol))
      else (requestedPort, protocol))"

definition ResolveEndpointServicePort :: "ServiceSpec \<Rightarrow> int \<Rightarrow> string \<Rightarrow> bool \<Rightarrow> port_error + ServicePortSpec" where
  "ResolveEndpointServicePort spec requestedPort0 requestedProtocol ingress =
     (let ports = PortSpecs spec in
      if ports = [] then Inl NoServicePorts
      else let protocol0 = ToUpper (TrimSpace requestedProtocol) in
        if protocol0 \<noteq> [] \<and> protocol0 \<noteq> ''TCP'' \<and> protocol0 \<noteq> ''UDP'' then Inl ProtocolUnknown
        else let (requestedPort, protocol) = requested spec ports requestedPort0 protocol0 in
          (case find (\<lambda>port. po_Port port = requestedPort) ports of
             None \<Rightarrow> Inl (ServicePortMissing requestedPort)
           | Some port \<Rightarrow>
               let actual = actual_protocol port in
               if protocol \<noteq> [] \<and> protocol \<noteq> actual then Inl (ProtocolMismatch requestedPort actual protocol)
               else if ingress \<and> actual \<noteq> ''TCP'' then Inl UDPWithIngress
               else Inr (port\<lparr>po_Protocol := actual\<rparr>)))"

definition ListApplicationEndpoints :: "(nat \<Rightarrow> bool) \<Rightarrow> nat \<Rightarrow> (db_error, ApplicationEndpoint list) release_proc" where
  "ListApplicationEndpoints fault applicationID = db_read fault (\<lambda>d.
     Inr (sort_key ae_ID (filter (\<lambda>e. ae_ApplicationID e = applicationID) (rd_endpoints d))))"

definition UpdateApplicationEndpoint :: "(nat \<Rightarrow> bool) \<Rightarrow> ApplicationEndpoint \<Rightarrow> (db_error, unit) release_proc" where
  "UpdateApplicationEndpoint fault endpoint =
     db_write fault (\<lambda>d. d\<lparr>rd_endpoints := tbl_save ae_ID endpoint (rd_endpoints d)\<rparr>)"

definition releaseApplicationContextFor :: "Application \<Rightarrow> ApplicationContext" where
  "releaseApplicationContextFor app =
     \<lparr>cx_ProjectID = ap_ProjectID app, cx_EnvironmentID = ap_EnvironmentID app,
      cx_ProjectName = pj_Name (ap_Project app), cx_EnvironmentName = en_Name (ap_Environment app),
      cx_ApplicationName = ap_Name app, cx_Namespace = en_Namespace (ap_Environment app),
      cx_ReleaseSequence = 0, cx_WorkloadKind = ap_WorkloadKind app\<rparr>"

text \<open>The three steps of the loop body: move to an existing port, fill in the protocol, check it.\<close>

definition move_to_port :: "release_env \<Rightarrow> ServiceSpec \<Rightarrow> int \<Rightarrow> ApplicationEndpoint \<Rightarrow> (release_error, ApplicationEndpoint) release_proc" where
  "move_to_port env service primary endpoint =
     (if ae_Protocol endpoint = ''TCP'' \<and> \<not> servicePortExists service (ae_ServicePort endpoint) ''TCP'' then
        let e = endpoint\<lparr>ae_ServicePort := primary\<rparr> in
        bindP (lift_db (\<lambda>x. ErrEndpointSync (EndpointUpdateFailed x)) (UpdateApplicationEndpoint (ev_fault env) e)) (\<lambda>_. returnP e)
      else returnP endpoint)"

definition fill_protocol :: "release_env \<Rightarrow> ServiceSpec \<Rightarrow> ApplicationEndpoint \<Rightarrow> (release_error, ApplicationEndpoint) release_proc" where
  "fill_protocol env service endpoint =
     (if ae_Protocol endpoint = [] then
        (case ResolveEndpointServicePort service (ae_ServicePort endpoint) [] (endpointUsesIngress endpoint) of
           Inl e \<Rightarrow> failP (ErrEndpointSync (EndpointPortInvalid e))
         | Inr resolved \<Rightarrow>
             let e = endpoint\<lparr>ae_ServicePort := po_Port resolved, ae_Protocol := po_Protocol resolved\<rparr> in
             bindP (lift_db (\<lambda>x. ErrEndpointSync (EndpointUpdateFailed x)) (UpdateApplicationEndpoint (ev_fault env) e)) (\<lambda>_. returnP e))
      else returnP endpoint)"

definition check_ingress :: "ApplicationEndpoint \<Rightarrow> (release_error, ApplicationEndpoint) release_proc" where
  "check_ingress endpoint =
     (if endpointUsesIngress endpoint \<and> ToUpper (ae_Protocol endpoint) \<noteq> ''TCP''
      then failP (ErrEndpointSync (EndpointUsesUDP (ae_Domain endpoint))) else returnP endpoint)"

fun sync_loop ::
  "release_env \<Rightarrow> ServiceSpec \<Rightarrow> int \<Rightarrow> ApplicationEndpoint list \<Rightarrow> (release_error, ApplicationEndpoint list) release_proc" where
  "sync_loop env service primary [] = returnP []"
| "sync_loop env service primary (endpoint # rest) =
     bindP (move_to_port env service primary endpoint) (\<lambda>e1.
     bindP (fill_protocol env service e1) (\<lambda>e2.
     bindP (check_ingress e2) (\<lambda>e3.
     bindP (sync_loop env service primary rest) (\<lambda>es. returnP (e3 # es)))))"

type_synonym endpoint_synchronizer =
  "applier_event list \<Rightarrow> ApplicationContext \<Rightarrow> ApplicationEndpoint list \<Rightarrow> int \<Rightarrow> string option"

definition call_synchronizer ::
  "endpoint_synchronizer \<Rightarrow> ApplicationContext \<Rightarrow> ApplicationEndpoint list \<Rightarrow> int \<Rightarrow> (release_error, unit) release_proc" where
  "call_synchronizer sync cx endpoints port =
     tryP (call_applier (\<lambda>t. sync t cx endpoints port) (EvSyncEndpoints cx endpoints port)) (\<lambda>r. case r of
       Inl (ErrApplierCall text) \<Rightarrow> failP (ErrEndpointSync (EndpointSyncFailed text))
     | Inl e \<Rightarrow> failP e
     | Inr _ \<Rightarrow> returnP ())"

text \<open>\<open>None\<close>: the applier is no synchroniser.\<close>

definition syncApplicationEndpoints ::
  "release_env \<Rightarrow> endpoint_synchronizer option \<Rightarrow> Application \<Rightarrow> ServiceSpec \<Rightarrow> (release_error, unit) release_proc" where
  "syncApplicationEndpoints env synchronizer app service =
     (case synchronizer of
        None \<Rightarrow> failP (ErrEndpointSync SynchronizerMissing)
      | Some sync \<Rightarrow>
          bindP (lift_db (\<lambda>x. ErrEndpointSync (EndpointsRead x)) (ListApplicationEndpoints (ev_fault env) (ap_ID app))) (\<lambda>endpoints.
            let cx = releaseApplicationContextFor app in
            case PrimaryTCPPort service of
              None \<Rightarrow>
                (case PortSpecs service of
                   [] \<Rightarrow> failP (ErrEndpointSync EndpointsWithoutPort)
                 | p # _ \<Rightarrow> call_synchronizer sync cx [] (po_Port p))
            | Some primary \<Rightarrow>
                bindP (sync_loop env service (po_Port primary) endpoints) (\<lambda>synced.
                  call_synchronizer sync cx synced (po_Port primary))))"

definition SyncApplicationEndpoints where
  "SyncApplicationEndpoints env synchronizer app service = syncApplicationEndpoints env synchronizer app service"

text \<open>The goroutine that \<open>ExecuteAsync\<close> starts.\<close>

definition ExecuteAsync ::
  "release_env \<Rightarrow> ResourceApplier option \<Rightarrow> endpoint_synchronizer option \<Rightarrow> Application \<Rightarrow> Release \<Rightarrow> ReleaseSpec \<Rightarrow>
   (release_error, unit) release_proc" where
  "ExecuteAsync env applier synchronizer app release spec =
     ExecuteReleaseWithPostApply env applier (rl_ID release) app spec
       (syncApplicationEndpoints env synchronizer app (sp_Service spec))"

section \<open>Preparing a release\<close>

datatype workflow_error =
    WfRelease release_error
  | TemplateUnavailable | TemplateRead | SecretRead | SecretsNotConfigured
  | WfImagePath image_path_error
  | WfApplicationMissing | RegistryUnavailable | RegistryCredentialRead
  | ImageReferenceInvalid | MirrorsRead db_error | MirrorBroken string | MirrorWithoutEndpoint string | MirrorCredentialRead string
  | NoDefaultTemplate | NothingToRestart | WfDB db_error

record workflow_env =
  wf_env :: release_env
  wf_names :: image_names
  wf_aead :: aead
  wf_key :: string
  wf_decode :: "string \<Rightarrow> string gomap option"

abbreviation wf_fault :: "workflow_env \<Rightarrow> nat \<Rightarrow> bool" where
  "wf_fault we \<equiv> ev_fault (wf_env we)"

type_synonym 'a workflow_proc = "(workflow_error, 'a) release_proc"

definition lift_release :: "(release_error, 'a) release_proc \<Rightarrow> 'a workflow_proc" where
  "lift_release m w = (case m w of (Inl e, w') \<Rightarrow> (Inl (WfRelease e), w') | (Inr x, w') \<Rightarrow> (Inr x, w'))"

subsection \<open>Store\<close>

definition GetImageRegistryForProject :: "(nat \<Rightarrow> bool) \<Rightarrow> nat \<Rightarrow> nat \<Rightarrow> (db_error, ImageRegistry) release_proc" where
  "GetImageRegistryForProject fault i projectID = db_read fault (\<lambda>d.
     found (map_option (\<lambda>r. r\<lparr>ir_CredentialConfigured := ir_Credential r \<noteq> []\<rparr>)
       (find (\<lambda>r. ir_ID r = i \<and> projectID \<in> set (ir_Projects r)) (rd_registries d))))"

definition ListNodeRegistryMirrors :: "(nat \<Rightarrow> bool) \<Rightarrow> (db_error, NodeRegistryMirror list) release_proc" where
  "ListNodeRegistryMirrors fault = db_read fault (\<lambda>d.
     Inr (map (\<lambda>m. m\<lparr>nm_CredentialConfigured := nm_Credential m \<noteq> []\<rparr>) (rev (sort_key nm_CreatedAt (rd_mirrors d)))))"

definition GetApplicationDeploymentTemplate ::
  "(nat \<Rightarrow> bool) \<Rightarrow> nat \<Rightarrow> nat \<Rightarrow> (db_error, ApplicationDeploymentTemplate) release_proc" where
  "GetApplicationDeploymentTemplate fault applicationID templateID = db_read fault (\<lambda>d.
     found (find (\<lambda>t. dt_ApplicationID t = applicationID \<and> dt_ID t = templateID) (rd_templates d)))"

definition GetDefaultApplicationDeploymentTemplate ::
  "(nat \<Rightarrow> bool) \<Rightarrow> nat \<Rightarrow> (db_error, ApplicationDeploymentTemplate) release_proc" where
  "GetDefaultApplicationDeploymentTemplate fault applicationID =
     bindP (db_read fault (\<lambda>d. found (tbl_find ap_ID applicationID (rd_apps d)))) (\<lambda>app.
       case ap_DefaultDeploymentTemplateID app of
         None \<Rightarrow> failP ErrRecordNotFound
       | Some templateID \<Rightarrow> GetApplicationDeploymentTemplate fault applicationID templateID)"

subsection \<open>The run-time specification\<close>

definition decryptTemplateSecrets :: "workflow_env \<Rightarrow> string \<Rightarrow> workflow_error + string gomap" where
  "decryptTemplateSecrets we encrypted =
     (if TrimSpace encrypted = [] then Inr []
      else if wf_key we = [] then Inl SecretRead
      else case DecryptCredential (wf_aead we) (wf_key we) encrypted of
          Inl _ \<Rightarrow> Inl SecretRead
        | Inr plaintext \<Rightarrow> (case wf_decode we plaintext of None \<Rightarrow> Inl SecretRead | Some vals \<Rightarrow> Inr vals))"

definition with_registry :: "workflow_env \<Rightarrow> ImageRegistry \<Rightarrow> string \<Rightarrow> ReleaseSpec \<Rightarrow> workflow_error + ReleaseSpec" where
  "with_registry we registry img spec =
     (let spec1 = spec\<lparr>sp_Image := img, sp_RegistryEndpoint := ir_Endpoint registry, sp_RegistryAuthType := ir_AuthType registry\<rparr> in
      if ir_AuthType registry = AuthTypeAnonymous then Inr spec1
      else case DecryptCredential (wf_aead we) (wf_key we) (ir_Credential registry) of
          Inl _ \<Rightarrow> Inl RegistryCredentialRead
        | Inr credential \<Rightarrow>
            Inr (spec1\<lparr>sp_RegistryUsername := (if ir_AuthType registry = AuthTypeToken \<and> ir_Username registry = []
                     then ''token'' else ir_Username registry),
                   sp_RegistryCredential := credential\<rparr>))"

definition PrepareRegistrySpec :: "workflow_env \<Rightarrow> Application option \<Rightarrow> ReleaseSpec \<Rightarrow> ReleaseSpec workflow_proc" where
  "PrepareRegistrySpec we app spec =
     (if sp_RegistryID spec = 0 then returnP spec
      else case app of
        None \<Rightarrow> failP WfApplicationMissing
      | Some a \<Rightarrow>
          tryP (GetImageRegistryForProject (wf_fault we) (sp_RegistryID spec) (ap_ProjectID a)) (\<lambda>r. case r of
            Inl _ \<Rightarrow> failP RegistryUnavailable
          | Inr registry \<Rightarrow>
              if \<not> ir_Enabled registry then failP RegistryUnavailable
              else case registryImageReference (ir_Endpoint registry) (sp_Image spec) of
                  Inl e \<Rightarrow> failP (WfImagePath e)
                | Inr img \<Rightarrow> (case with_registry we registry img spec of Inl e \<Rightarrow> failP e | Inr spec' \<Rightarrow> returnP spec')))"

definition parseImageReference :: "image_names \<Rightarrow> string \<Rightarrow> string option" where
  "parseImageReference names img = map_option rf_Registry (ParseReference names (TrimSpace img))"

definition mirrorAppliedToNode :: "NodeRegistryMirror \<Rightarrow> string \<Rightarrow> bool" where
  "mirrorAppliedToNode mirror nodeName =
     list_ex (\<lambda>status. ms_Status status = ''success'' \<and>
       (case ms_Server status of None \<Rightarrow> [] | Some server \<Rightarrow> sr_K8sNodeName server) = nodeName) (nm_NodeStatuses mirror)"

definition clear_verification :: "ReleaseSpec \<Rightarrow> ReleaseSpec" where
  "clear_verification spec =
     spec\<lparr>sp_ImageVerificationEndpoint := [], sp_ImageVerificationUsername := [], sp_ImageVerificationCredential := [],
          sp_ImageVerificationInsecureSkipVerify := False\<rparr>"

definition with_mirror :: "workflow_env \<Rightarrow> NodeRegistryMirror \<Rightarrow> ReleaseSpec \<Rightarrow> workflow_error + ReleaseSpec" where
  "with_mirror we mirror spec =
     (case unmarshal (nm_Endpoints mirror) of
        None \<Rightarrow> Inl (MirrorBroken (nm_Name mirror))
      | Some [] \<Rightarrow> Inl (MirrorBroken (nm_Name mirror))
      | Some (first # _) \<Rightarrow>
          let endpoint = TrimSpace first in
          if endpoint = [] then Inl (MirrorWithoutEndpoint (nm_Name mirror))
          else let spec1 = spec\<lparr>sp_ImageVerificationEndpoint := endpoint, sp_ImageVerificationUsername := nm_Username mirror,
                 sp_ImageVerificationInsecureSkipVerify := nm_InsecureSkipVerify mirror\<rparr> in
            if nm_Username mirror = [] then Inr spec1
            else case DecryptCredential (wf_aead we) (wf_key we) (nm_Credential mirror) of
                Inl _ \<Rightarrow> Inl (MirrorCredentialRead (nm_Name mirror))
              | Inr credential \<Rightarrow> Inr (spec1\<lparr>sp_ImageVerificationCredential := credential\<rparr>))"

definition mirror_matches :: "string \<Rightarrow> string \<Rightarrow> NodeRegistryMirror \<Rightarrow> bool" where
  "mirror_matches ref nodeName mirror \<longleftrightarrow>
     nm_Enabled mirror \<and> SameRegistry (nm_Registry mirror) ref \<and> mirrorAppliedToNode mirror nodeName"

definition prepareMirrorSpec :: "workflow_env \<Rightarrow> ReleaseSpec \<Rightarrow> ReleaseSpec workflow_proc" where
  "prepareMirrorSpec we spec0 =
     (let spec = clear_verification spec0 in
      if TrimSpace (sp_NodeName spec) = [] then returnP spec
      else case parseImageReference (wf_names we) (sp_Image spec) of
          None \<Rightarrow> failP ImageReferenceInvalid
        | Some ref \<Rightarrow>
            bindP (lift_db MirrorsRead (ListNodeRegistryMirrors (wf_fault we))) (\<lambda>mirrors.
              case find (mirror_matches ref (sp_NodeName spec)) mirrors of
                None \<Rightarrow> returnP spec
              | Some mirror \<Rightarrow> (case with_mirror we mirror spec of Inl e \<Rightarrow> failP e | Inr spec' \<Rightarrow> returnP spec')))"

definition PrepareRuntimeSpec :: "workflow_env \<Rightarrow> Application option \<Rightarrow> ReleaseSpec \<Rightarrow> ReleaseSpec workflow_proc" where
  "PrepareRuntimeSpec we app spec = bindP (PrepareRegistrySpec we app spec) (prepareMirrorSpec we)"

subsection \<open>Use cases\<close>

definition create :: "workflow_env \<Rightarrow> Application \<Rightarrow> ApplicationDeploymentTemplate \<Rightarrow> nat \<Rightarrow> ReleaseSpec \<Rightarrow> (Release \<times> ReleaseSpec) workflow_proc" where
  "create we app template userID spec =
     bindP (lift_release (Service_CreateRelease (wf_env we) (ap_ID app) userID spec)) (\<lambda>release.
       let release' = release\<lparr>rl_TemplateID := Some (dt_ID template), rl_TemplateRevision := dt_Revision template\<rparr> in
       bindP (lift_db WfDB (Store_UpdateRelease (wf_fault we) release')) (\<lambda>_. returnP (release', spec)))"

definition CreateFromTemplate ::
  "workflow_env \<Rightarrow> Application option \<Rightarrow> ApplicationDeploymentTemplate option \<Rightarrow> string \<Rightarrow> nat \<Rightarrow> (Release \<times> ReleaseSpec) workflow_proc" where
  "CreateFromTemplate we app template version userID =
     (case (app, template) of
        (Some a, Some t) \<Rightarrow>
          if \<not> dt_Enabled t then failP TemplateUnavailable
          else case unmarshal (dt_Spec t) of
              None \<Rightarrow> failP TemplateRead
            | Some spec0 \<Rightarrow>
                let spec = json_visible spec0 in
                (case decryptTemplateSecrets we (dt_EncryptedSecrets t) of
                   Inl e \<Rightarrow> failP e
                 | Inr secrets \<Rightarrow>
                     if sp_Secrets spec \<noteq> [] \<and> secrets = [] then failP SecretsNotConfigured
                     else let v = TrimSpace version in
                       (case imageWithVersion (sp_Image spec) v of
                          Inl e \<Rightarrow> failP (WfImagePath e)
                        | Inr img \<Rightarrow>
                            bindP (PrepareRuntimeSpec we app (spec\<lparr>sp_Secrets := secrets, sp_Version := v, sp_Image := img\<rparr>)) (\<lambda>prepared.
                              create we a t userID (prepared\<lparr>sp_Endpoint := cluster_endpoint\<rparr>))))
      | _ \<Rightarrow> failP TemplateUnavailable)"

definition Restart :: "workflow_env \<Rightarrow> Application \<Rightarrow> nat \<Rightarrow> (Release \<times> ReleaseSpec) workflow_proc" where
  "Restart we app userID =
     tryP (GetDefaultApplicationDeploymentTemplate (wf_fault we) (ap_ID app)) (\<lambda>t. case t of
       Inl _ \<Rightarrow> failP NoDefaultTemplate
     | Inr template \<Rightarrow>
         if \<not> dt_Enabled template then failP NoDefaultTemplate
         else tryP (GetLatestSuccessfulRelease (wf_fault we) (ap_ID app)) (\<lambda>a. case a of
           Inl _ \<Rightarrow> failP NothingToRestart
         | Inr active \<Rightarrow>
             (case unmarshal (dt_Spec template) of
                None \<Rightarrow> failP TemplateRead
              | Some spec0 \<Rightarrow>
                  (case decryptTemplateSecrets we (dt_EncryptedSecrets template) of
                     Inl _ \<Rightarrow> failP SecretRead
                   | Inr secrets \<Rightarrow>
                       bindP (PrepareRuntimeSpec we (Some app)
                           ((json_visible spec0)\<lparr>sp_Secrets := secrets, sp_Image := rl_Image active, sp_Version := rl_Version active\<rparr>)) (\<lambda>prepared.
                         create we app template userID (prepared\<lparr>sp_Endpoint := cluster_endpoint\<rparr>))))))"

definition prepare_again :: "workflow_env \<Rightarrow> Release \<times> ReleaseSpec \<Rightarrow> (Release \<times> ReleaseSpec) workflow_proc" where
  "prepare_again we rs =
     bindP (lift_db WfDB (GetApplication (wf_fault we) (rl_ApplicationID (fst rs)))) (\<lambda>app.
     bindP (PrepareRuntimeSpec we (Some app) (snd rs)) (\<lambda>prepared.
       returnP (fst rs, prepared\<lparr>sp_Endpoint := cluster_endpoint\<rparr>)))"

definition Retry :: "workflow_env \<Rightarrow> nat \<Rightarrow> nat \<Rightarrow> (Release \<times> ReleaseSpec) workflow_proc" where
  "Retry we releaseID userID = bindP (lift_release (RetryRelease (wf_env we) releaseID userID)) (prepare_again we)"

definition Workflow_Rollback :: "workflow_env \<Rightarrow> nat \<Rightarrow> nat \<Rightarrow> (Release \<times> ReleaseSpec) workflow_proc" where
  "Workflow_Rollback we releaseID userID = bindP (lift_release (RollbackRelease (wf_env we) releaseID userID)) (prepare_again we)"

subsection \<open>Managed files\<close>

definition CreateApplicationManagedFile :: "(nat \<Rightarrow> bool) \<Rightarrow> ApplicationManagedFile \<Rightarrow> (db_error, unit) release_proc" where
  "CreateApplicationManagedFile fault file = db_call fault (\<lambda>d.
     let row = file\<lparr>mf_ID := tbl_next mf_ID (rd_files d), mf_Version := (if mf_Version file = 0 then 1 else mf_Version file),
           mf_Format := (if mf_Format file = [] then ''text'' else mf_Format file)\<rparr>
     in (Inr (), d\<lparr>rd_files := rd_files d @ [row]\<rparr>))"

definition ListApplicationManagedFiles :: "(nat \<Rightarrow> bool) \<Rightarrow> nat \<Rightarrow> (db_error, ApplicationManagedFile list) release_proc" where
  "ListApplicationManagedFiles fault applicationID = db_read fault (\<lambda>d.
     Inr (sort_key mf_ID (filter (\<lambda>f. mf_ApplicationID f = applicationID \<and> mf_Enabled f) (rd_files d))))"

definition same_binding :: "ApplicationManagedFile \<Rightarrow> ApplicationManagedFile \<Rightarrow> bool" where
  "same_binding file row \<longleftrightarrow> mf_ApplicationID row = mf_ApplicationID file \<and> mf_ResourceKind row = mf_ResourceKind file \<and>
     mf_ResourceName row = mf_ResourceName file \<and> mf_Key row = mf_Key file"

definition UpsertApplicationManagedFile :: "(nat \<Rightarrow> bool) \<Rightarrow> ApplicationManagedFile \<Rightarrow> (db_error, unit) release_proc" where
  "UpsertApplicationManagedFile fault file =
     tryP (db_read fault (\<lambda>d. found (find (same_binding file) (rd_files d)))) (\<lambda>r. case r of
       Inl ErrRecordNotFound \<Rightarrow> CreateApplicationManagedFile fault file
     | Inl e \<Rightarrow> failP e
     | Inr existing \<Rightarrow> db_write fault (\<lambda>d. d\<lparr>rd_files :=
         map (\<lambda>row. if mf_ID row = mf_ID existing
           then row\<lparr>mf_MountPath := mf_MountPath file, mf_Format := mf_Format file, mf_Enabled := mf_Enabled file\<rparr> else row) (rd_files d)\<rparr>))"

definition managedFileBinding :: "string \<Rightarrow> string \<Rightarrow> string \<Rightarrow> string" where
  "managedFileBinding kind name key = join_with [CHR 0x00] [kind, name, key]"

definition file_binding :: "ApplicationManagedFile \<Rightarrow> string" where
  "file_binding file = managedFileBinding (mf_ResourceKind file) (mf_ResourceName file) (mf_Key file)"

definition disable_file :: "(nat \<Rightarrow> bool) \<Rightarrow> nat \<Rightarrow> (db_error, unit) release_proc" where
  "disable_file fault i = db_write fault (\<lambda>d. d\<lparr>rd_files :=
     map (\<lambda>row. if mf_ID row = i then row\<lparr>mf_Enabled := False\<rparr> else row) (rd_files d)\<rparr>)"

fun disable_loop :: "(nat \<Rightarrow> bool) \<Rightarrow> string list \<Rightarrow> ApplicationManagedFile list \<Rightarrow> (db_error, unit) release_proc" where
  "disable_loop fault bindings [] = returnP ()"
| "disable_loop fault bindings (file # files) =
     (if file_binding file \<in> set bindings then disable_loop fault bindings files
      else bindP (disable_file fault (mf_ID file)) (\<lambda>_. disable_loop fault bindings files))"

definition DisableApplicationManagedFilesNotIn :: "(nat \<Rightarrow> bool) \<Rightarrow> nat \<Rightarrow> string list \<Rightarrow> (db_error, unit) release_proc" where
  "DisableApplicationManagedFilesNotIn fault applicationID bindings =
     bindP (ListApplicationManagedFiles fault applicationID) (disable_loop fault bindings)"

definition managedMountPath :: "ReleaseSpec \<Rightarrow> bool \<Rightarrow> string \<Rightarrow> string" where
  "managedMountPath spec secret key =
     (let wantSource = (if secret then FileMountSourceApplicationSecret else FileMountSourceApplicationConfig) in
      case find (\<lambda>m. fm_SourceType m = wantSource \<and> fm_Key m = key) (sp_FileMounts spec) of
        None \<Rightarrow> [] | Some m \<Rightarrow> fm_MountPath m)"

definition managed_file :: "Application \<Rightarrow> ReleaseSpec \<Rightarrow> nat \<Rightarrow> string \<Rightarrow> string \<Rightarrow> bool \<Rightarrow> string \<Rightarrow> ApplicationManagedFile" where
  "managed_file app spec userID kind name secret key =
     \<lparr>mf_ID = 0, mf_ApplicationID = ap_ID app, mf_ResourceKind = kind, mf_ResourceName = name, mf_Key = key,
      mf_MountPath = managedMountPath spec secret key, mf_Format = ''text'', mf_Version = 0, mf_Enabled = True, mf_CreatedBy = userID\<rparr>"

definition managed_files :: "Application \<Rightarrow> ReleaseSpec \<Rightarrow> nat \<Rightarrow> ApplicationManagedFile list" where
  "managed_files app spec userID =
     map (managed_file app spec userID FileMountSourceConfigMap (ap_Name app @ ''-config'') False)
       (filter (\<lambda>key. key \<noteq> []) (map TrimSpace (sp_ConfigManagedKeys spec))) @
     map (managed_file app spec userID FileMountSourceSecret (ap_Name app @ ''-secret'') True)
       (filter (\<lambda>key. key \<noteq> []) (map TrimSpace (sp_SecretManagedKeys spec)))"

fun upsert_loop :: "(nat \<Rightarrow> bool) \<Rightarrow> ApplicationManagedFile list \<Rightarrow> (db_error, unit) release_proc" where
  "upsert_loop fault [] = returnP ()"
| "upsert_loop fault (file # files) = bindP (UpsertApplicationManagedFile fault file) (\<lambda>_. upsert_loop fault files)"

definition SyncManagedFiles :: "(nat \<Rightarrow> bool) \<Rightarrow> Application \<Rightarrow> ReleaseSpec \<Rightarrow> nat \<Rightarrow> (db_error, unit) release_proc" where
  "SyncManagedFiles fault app spec userID =
     (let files = managed_files app (NormalizeManagedKeys spec) userID in
      bindP (upsert_loop fault files) (\<lambda>_.
        DisableApplicationManagedFilesNotIn fault (ap_ID app) (map file_binding files)))"

text \<open>The optimistic update of a file's version, with \<open>expected+1\<close> as an unsigned 64-bit integer.\<close>

definition AdvanceApplicationManagedFileVersion :: "(nat \<Rightarrow> bool) \<Rightarrow> nat \<Rightarrow> nat \<Rightarrow> nat \<Rightarrow> (db_error, nat) release_proc" where
  "AdvanceApplicationManagedFileVersion fault applicationID fileID expected = db_call fault (\<lambda>d.
     let hit = (\<lambda>f. mf_ApplicationID f = applicationID \<and> mf_ID f = fileID \<and> mf_Version f = expected \<and> mf_Enabled f);
         successor = (expected + 1) mod 2 ^ 64 in
     (if length (filter hit (rd_files d)) \<noteq> 1 then Inl ErrRecordNotFound else Inr successor,
      d\<lparr>rd_files := map (\<lambda>f. if hit f then f\<lparr>mf_Version := successor\<rparr> else f) (rd_files d)\<rparr>))"

section \<open>Execution\<close>

subsection \<open>What the synchronisation touches\<close>

lemma endpoint_repo_keeps:
  "keeps same_releases (ListApplicationEndpoints f i)" "keeps same_releases (UpdateApplicationEndpoint f e)"
  "keeps (adds_events S) (ListApplicationEndpoints f i)" "keeps (adds_events S) (UpdateApplicationEndpoint f e)"
  by (auto simp: keeps_def same_releases_def adds_events_def ListApplicationEndpoints_def UpdateApplicationEndpoint_def db_defs)

lemmas sync_intros = event_intros row_intros endpoint_repo_keeps

lemma sync_parts_keep:
  "keeps same_releases (move_to_port env service primary e)" "keeps (adds_events S) (move_to_port env service primary e)"
  "keeps same_releases (fill_protocol env service e)" "keeps (adds_events S) (fill_protocol env service e)"
  "keeps same_releases (check_ingress e)" "keeps (adds_events S) (check_ingress e)"
  unfolding move_to_port_def fill_protocol_def check_ingress_def Let_def
  by (auto split: sum.splits intro!: sync_intros)

lemma sync_loop_keeps:
  "keeps same_releases (sync_loop env service primary es)" "keeps (adds_events S) (sync_loop env service primary es)"
  by (induction es) (auto intro!: sync_intros sync_parts_keep)

lemma call_synchronizer_keeps:
  "keeps same_releases (call_synchronizer sync cx es port)"
  "keeps (adds_events sync_events) (call_synchronizer sync cx es port)"
proof -
  have "{EvSyncEndpoints cx es port} \<subseteq> sync_events" by (auto simp: sync_events_def)
  note call = keeps_events_mono [OF call_applier_keeps(1) this]
  show "keeps same_releases (call_synchronizer sync cx es port)"
      and "keeps (adds_events sync_events) (call_synchronizer sync cx es port)"
    unfolding call_synchronizer_def
    by (auto split: sum.splits release_error.splits intro!: sync_intros call call_applier_keeps(2))
qed

lemma syncApplicationEndpoints_keeps:
  "keeps same_releases (syncApplicationEndpoints env synchronizer app service)"
  "keeps (adds_events sync_events) (syncApplicationEndpoints env synchronizer app service)"
  unfolding syncApplicationEndpoints_def Let_def
  by (auto split: option.splits list.splits intro!: sync_intros sync_loop_keeps call_synchronizer_keeps)

interpretation sync_hook: endpoint_hook "Some (syncApplicationEndpoints env synchronizer app service)"
  for env synchronizer app service
  by unfold_locales (auto simp: syncApplicationEndpoints_keeps)

subsection \<open>The endpoints after a synchronisation\<close>

lemma primary_port_exists:
  assumes "PrimaryTCPPort service = Some p"
  shows "servicePortExists service (po_Port p) ''TCP''"
proof -
  have "p \<in> set (PortSpecs service)" "normalizeServiceProtocol (po_Protocol p) = ''TCP''"
    using assms by (auto simp: PrimaryTCPPort_def find_Some_iff)
  then show ?thesis
    by (auto simp: servicePortExists_def list_ex_iff normalizeServiceProtocol_def Let_def split: if_splits)
qed

lemma actual_protocol_normal:
  "normalizeServiceProtocol (po_Protocol port) \<noteq> [] \<Longrightarrow> actual_protocol port = normalizeServiceProtocol (po_Protocol port)"
  by (auto simp: actual_protocol_def normalizeServiceProtocol_def Let_def split: if_splits)

lemma resolved_port:
  assumes "ResolveEndpointServicePort service rp proto ingress = Inr p"
  shows "\<exists>port \<in> set (PortSpecs service). p = port\<lparr>po_Protocol := actual_protocol port\<rparr> \<and> (ingress \<longrightarrow> po_Protocol p = ''TCP'')"
  using assms
  by (auto simp: ResolveEndpointServicePort_def Let_def find_Some_iff split: if_splits prod.splits option.splits)

text \<open>An endpoint the ingress may serve, on a port of the service.\<close>

definition endpoint_valid :: "ServiceSpec \<Rightarrow> ApplicationEndpoint \<Rightarrow> bool" where
  "endpoint_valid service e \<longleftrightarrow> ae_Protocol e \<noteq> [] \<and>
     (endpointUsesIngress e \<longrightarrow> ToUpper (ae_Protocol e) = ''TCP'') \<and>
     (ae_Protocol e = ''TCP'' \<longrightarrow> servicePortExists service (ae_ServicePort e) ''TCP'')"

lemma move_to_port_Inr:
  assumes "move_to_port env service primary e w = (Inr e1, w')"
  shows "(e1 = e \<and> db w' = db w \<and> (ae_Protocol e = ''TCP'' \<longrightarrow> servicePortExists service (ae_ServicePort e) ''TCP'')) \<or>
    (e1 = e\<lparr>ae_ServicePort := primary\<rparr> \<and> ae_Protocol e = ''TCP'' \<and>
     db w' = (db w)\<lparr>rd_endpoints := tbl_save ae_ID e1 (rd_endpoints (db w))\<rparr>)"
  using assms
  by (auto simp: move_to_port_def Let_def UpdateApplicationEndpoint_def returnP_def elim!: bindP_Inr_elim
      dest!: db_write_Inr split: if_splits)

lemma fill_protocol_Inr:
  assumes "fill_protocol env service e w = (Inr e1, w')"
  shows "(e1 = e \<and> db w' = db w \<and> ae_Protocol e \<noteq> []) \<or>
    (\<exists>p. ResolveEndpointServicePort service (ae_ServicePort e) [] (endpointUsesIngress e) = Inr p \<and> ae_Protocol e = [] \<and>
       e1 = e\<lparr>ae_ServicePort := po_Port p, ae_Protocol := po_Protocol p\<rparr> \<and>
       db w' = (db w)\<lparr>rd_endpoints := tbl_save ae_ID e1 (rd_endpoints (db w))\<rparr>)"
  using assms
  by (auto simp: fill_protocol_def Let_def UpdateApplicationEndpoint_def returnP_def failP_def elim!: bindP_Inr_elim
      dest!: db_write_Inr split: if_splits sum.splits)

lemma actual_exists:
  assumes "port \<in> set (PortSpecs service)"
  shows "servicePortExists service (po_Port port) (actual_protocol port)"
  using assms by (auto simp: servicePortExists_def list_ex_iff actual_protocol_def Let_def)

lemma actual_not_Nil: "actual_protocol port \<noteq> []"
  by (simp add: actual_protocol_def Let_def)

lemma resolved_exists:
  assumes "ResolveEndpointServicePort service rp proto ingress = Inr q"
  shows "servicePortExists service (po_Port q) (po_Protocol q)" and "po_Protocol q \<noteq> []"
proof -
  obtain port where "port \<in> set (PortSpecs service)" "q = port\<lparr>po_Protocol := actual_protocol port\<rparr>"
    using resolved_port [OF assms] by blast
  then show "servicePortExists service (po_Port q) (po_Protocol q)" "po_Protocol q \<noteq> []"
    using actual_exists [of port service] actual_not_Nil [of port] by simp_all
qed

text \<open>What one round of the loop makes of an endpoint, and what it stores.\<close>

definition endpoint_key_fields :: "ApplicationEndpoint \<Rightarrow> ApplicationEndpoint" where
  "endpoint_key_fields e = e\<lparr>ae_ServicePort := 0, ae_Protocol := []\<rparr>"

lemma sync_round:
  assumes "PrimaryTCPPort service = Some p"
    and "move_to_port env service (po_Port p) e w = (Inr e1, w1)" and "fill_protocol env service e1 w1 = (Inr e2, w2)"
    and "check_ingress e2 w2 = (Inr e3, w3)"
  shows "endpoint_valid service e3" and "endpoint_key_fields e3 = endpoint_key_fields e"
    and "db w3 = db w \<and> e3 = e \<or> (\<exists>rows. db w3 = (db w)\<lparr>rd_endpoints := tbl_save ae_ID e3 rows\<rparr> \<and>
      (rows = rd_endpoints (db w) \<or> rows = tbl_save ae_ID e1 (rd_endpoints (db w)) \<and> ae_ID e1 = ae_ID e))"
proof -
  have e3: "e3 = e2" "w3 = w2" and ing: "endpointUsesIngress e2 \<longrightarrow> ToUpper (ae_Protocol e2) = ''TCP''"
    using assms(4) by (auto simp: check_ingress_def returnP_def failP_def split: if_splits)
  note m = move_to_port_Inr [OF assms(2)] and f = fill_protocol_Inr [OF assms(3)]
  show "endpoint_valid service e3"
    using m f ing primary_port_exists [OF assms(1)] resolved_exists by (fastforce simp: endpoint_valid_def e3)
  show "endpoint_key_fields e3 = endpoint_key_fields e"
    using m f by (auto simp: e3 endpoint_key_fields_def)
  show "db w3 = db w \<and> e3 = e \<or> (\<exists>rows. db w3 = (db w)\<lparr>rd_endpoints := tbl_save ae_ID e3 rows\<rparr> \<and>
      (rows = rd_endpoints (db w) \<or> rows = tbl_save ae_ID e1 (rd_endpoints (db w)) \<and> ae_ID e1 = ae_ID e))"
    using m f by (auto simp: e3)
qed

definition stored :: "ApplicationEndpoint \<Rightarrow> release_db \<Rightarrow> bool" where
  "stored e d \<longleftrightarrow> tbl_find ae_ID (ae_ID e) (rd_endpoints d) = Some e"

lemma sync_loop_Inr:
  assumes "PrimaryTCPPort service = Some p" and "sync_loop env service (po_Port p) es w = (Inr es', w')"
  shows "list_all (endpoint_valid service) es' \<and> map endpoint_key_fields es' = map endpoint_key_fields es \<and>
    (\<forall>e. ae_ID e \<notin> ae_ID ` set es \<longrightarrow> stored e (db w) \<longrightarrow> stored e (db w')) \<and>
    (distinct (map ae_ID es) \<longrightarrow> (\<forall>e \<in> set es. stored e (db w)) \<longrightarrow> (\<forall>e \<in> set es'. stored e (db w')))"
  using assms(2)
proof (induction es arbitrary: w es' w')
  case Nil
  then show ?case by (simp add: returnP_def)
next
  case (Cons e es)
  obtain e1 w1 e2 w2 e3 w3 es3 where r1: "move_to_port env service (po_Port p) e w = (Inr e1, w1)"
      and r2: "fill_protocol env service e1 w1 = (Inr e2, w2)" and r3: "check_ingress e2 w2 = (Inr e3, w3)"
      and rest: "sync_loop env service (po_Port p) es w3 = (Inr es3, w')" and es': "es' = e3 # es3"
    using Cons.prems by (auto simp: returnP_def elim!: bindP_Inr_elim)
  note round = sync_round [OF assms(1) r1 r2 r3] and IH = Cons.IH [OF rest]
  have id: "ae_ID e3 = ae_ID e" using arg_cong [OF round(2), of ae_ID] by (simp add: endpoint_key_fields_def)
  have here: "stored e (db w) \<Longrightarrow> stored e3 (db w3)" using round(3) by (auto simp: stored_def tbl.find_save)
  have other: "stored x (db w3)" if "stored x (db w)" and "ae_ID x \<noteq> ae_ID e" for x
    using round(3) id that by (auto simp: stored_def tbl.find_save)
  show ?case
    unfolding es'
  proof (intro conjI allI impI ballI)
    show "list_all (endpoint_valid service) (e3 # es3)" and "map endpoint_key_fields (e3 # es3) = map endpoint_key_fields (e # es)"
      using IH round(1,2) by simp_all
    show "stored x (db w')" if "ae_ID x \<notin> ae_ID ` set (e # es)" and "stored x (db w)" for x
      using IH other [of x] that by auto
    show "stored x (db w')" if d: "distinct (map ae_ID (e # es))" and s: "\<forall>e \<in> set (e # es). stored e (db w)"
        and x: "x \<in> set (e3 # es3)" for x
    proof (cases "x = e3")
      case True
      then show ?thesis using IH here d s id by auto
    next
      case False
      moreover have "stored y (db w3)" if "y \<in> set es" for y
        using other [of y] s d that by (auto simp: image_iff)
      ultimately show ?thesis using IH d x by auto
    qed
  qed
qed

lemma call_synchronizer_Inr:
  assumes "call_synchronizer sync cx es port w = (Inr (), w')"
  shows "sync (rd_trace (db w)) cx es port = None \<and> rd_trace (db w') = rd_trace (db w) @ [EvSyncEndpoints cx es port] \<and>
    rd_endpoints (db w') = rd_endpoints (db w)"
  using assms
  by (auto simp: call_synchronizer_def tryP_def call_applier_def failP_def returnP_def Let_def split: option.splits)

lemma sync_loop_trace:
  assumes "sync_loop env service primary es w = (Inr es', w')"
  shows "rd_trace (db w') = rd_trace (db w)"
  using keepsD [OF sync_loop_keeps(2) [of "{}" env service primary es], of w] assms by (simp add: adds_events_def)

subsection \<open>Port resolution\<close>

definition wanted_port :: "ServiceSpec \<Rightarrow> int \<Rightarrow> ServicePortSpec \<Rightarrow> bool" where
  "wanted_port spec rp port \<longleftrightarrow>
     (if rp \<noteq> 0 then po_Port port = rp
      else case PrimaryTCPPort spec of Some q \<Rightarrow> port = q | None \<Rightarrow> port = hd (PortSpecs spec))"

lemma find_distinct:
  assumes "distinct (map f xs)" and "x \<in> set xs"
  shows "find (\<lambda>y. f y = f x) xs = Some x"
  using assms by (induction xs) (auto simp: image_iff)

lemma PortSpecs_not_Nil: "PortSpecs spec \<noteq> []"
  by (simp add: PortSpecs_def)

lemma requested_find:
  assumes ok: "ports_ok k spec"
  shows "find (\<lambda>port. po_Port port = fst (requested spec (PortSpecs spec) rp proto)) (PortSpecs spec) = Some port \<longleftrightarrow>
    port \<in> set (PortSpecs spec) \<and> wanted_port spec rp port"
proof -
  have d: "distinct (map po_Port (PortSpecs spec))" using ok by (simp add: ports_ok_def)
  have *: "find (\<lambda>port. po_Port port = n) (PortSpecs spec) = Some port \<longleftrightarrow> port \<in> set (PortSpecs spec) \<and> po_Port port = n" for n
    using find_distinct [OF d, of port] by (auto simp: find_Some_iff)
  have inj: "q \<in> set (PortSpecs spec) \<Longrightarrow> port \<in> set (PortSpecs spec) \<Longrightarrow> po_Port port = po_Port q \<longleftrightarrow> port = q" for q
    using d by (auto simp: distinct_map dest: inj_onD)
  have prim: "PrimaryTCPPort spec = Some q \<Longrightarrow> q \<in> set (PortSpecs spec)" for q
    by (auto simp: PrimaryTCPPort_def find_Some_iff)
  show ?thesis
    unfolding * using inj prim hd_in_set [OF PortSpecs_not_Nil [of spec]]
    by (auto simp: requested_def wanted_port_def split: option.splits)
qed

lemma requested_protocol:
  "snd (requested spec ports rp proto) =
     (if rp = 0 \<and> proto = [] \<and> PrimaryTCPPort spec \<noteq> None then ''TCP'' else proto)"
  by (auto simp: requested_def split: option.splits)

lemma port_protocol:
  assumes "ports_ok k spec" and "port \<in> set (PortSpecs spec)"
  shows "actual_protocol port = ''TCP'' \<or> actual_protocol port = ''UDP''"
    and "PrimaryTCPPort spec = Some port \<Longrightarrow> actual_protocol port = ''TCP''"
  using assms actual_protocol_normal [of port] normalizeServiceProtocol_cases [of "po_Protocol port"]
  by (auto simp: ports_ok_def port_ok_def PrimaryTCPPort_def find_Some_iff)

lemma Resolve_iff:
  assumes ok: "ports_ok k spec"
  shows "ResolveEndpointServicePort spec rp proto ingress = Inr p \<longleftrightarrow>
    (\<exists>port \<in> set (PortSpecs spec). wanted_port spec rp port \<and> p = port\<lparr>po_Protocol := actual_protocol port\<rparr> \<and>
       ToUpper (TrimSpace proto) \<in> {[], actual_protocol port} \<and> (ingress \<longrightarrow> actual_protocol port = ''TCP''))"
proof -
  let ?u = "ToUpper (TrimSpace proto)"
  obtain n q where r: "requested spec (PortSpecs spec) rp ?u = (n, q)" by fastforce
  have q: "q = (if rp = 0 \<and> ?u = [] \<and> PrimaryTCPPort spec \<noteq> None then ''TCP'' else ?u)"
    using requested_protocol [of spec "PortSpecs spec" rp ?u] r by simp
  have f: "find (\<lambda>port. po_Port port = n) (PortSpecs spec) = Some port \<longleftrightarrow> port \<in> set (PortSpecs spec) \<and> wanted_port spec rp port" for port
    using requested_find [OF ok, of rp ?u port] r by simp
  have u: "?u = actual_protocol port \<Longrightarrow> ?u = ''TCP'' \<or> ?u = ''UDP''" if "port \<in> set (PortSpecs spec)" for port
    using port_protocol(1) [OF ok that] by simp
  have tcp: "actual_protocol port = ''TCP''" if "port \<in> set (PortSpecs spec)" "wanted_port spec rp port" "rp = 0" "PrimaryTCPPort spec = Some r" for port r
    using that port_protocol(2) [OF ok that(1)] by (auto simp: wanted_port_def)
  show ?thesis
  proof (cases "find (\<lambda>port. po_Port port = n) (PortSpecs spec)")
    case None
    then have "\<not> (\<exists>port \<in> set (PortSpecs spec). wanted_port spec rp port)" using f by (metis option.distinct(1))
    with None r show ?thesis by (auto simp: ResolveEndpointServicePort_def Let_def PortSpecs_not_Nil)
  next
    case (Some port)
    then have port: "port \<in> set (PortSpecs spec)" "wanted_port spec rp port" using f by auto
    have only: "port' \<in> set (PortSpecs spec) \<and> wanted_port spec rp port' \<longleftrightarrow> port' = port" for port'
      using f [of port'] Some by auto
    have "ResolveEndpointServicePort spec rp proto ingress = Inr p \<longleftrightarrow>
        ?u \<in> {[], ''TCP'', ''UDP''} \<and> (q = [] \<or> q = actual_protocol port) \<and> (ingress \<longrightarrow> actual_protocol port = ''TCP'') \<and>
        p = port\<lparr>po_Protocol := actual_protocol port\<rparr>"
      using Some r by (auto simp: ResolveEndpointServicePort_def Let_def PortSpecs_not_Nil)
    also have "\<dots> \<longleftrightarrow> ?u \<in> {[], actual_protocol port} \<and> (ingress \<longrightarrow> actual_protocol port = ''TCP'') \<and>
        p = port\<lparr>po_Protocol := actual_protocol port\<rparr>"
      using u [OF port(1)] tcp [OF port] by (auto simp: q)
    finally show ?thesis using only by metis
  qed
qed

section \<open>Managed files\<close>

text \<open>
  The abstract content of the table: the bindings that are enabled. The unique index makes a binding
  identify its row.
\<close>

type_synonym binding = "nat \<times> string \<times> string \<times> string"

definition binding_of :: "ApplicationManagedFile \<Rightarrow> binding" where
  "binding_of f = (mf_ApplicationID f, mf_ResourceKind f, mf_ResourceName f, mf_Key f)"

definition enabled_bindings :: "ApplicationManagedFile list \<Rightarrow> binding set" where
  "enabled_bindings rows = binding_of ` {f \<in> set rows. mf_Enabled f}"

definition files_wf :: "ApplicationManagedFile list \<Rightarrow> bool" where
  "files_wf rows \<longleftrightarrow> distinct (map mf_ID rows) \<and> distinct (map binding_of rows)"

text \<open>No row is lost, and every row keeps its identity, binding and version.\<close>

definition files_kept :: "ApplicationManagedFile list \<Rightarrow> ApplicationManagedFile list \<Rightarrow> bool" where
  "files_kept rows rows' \<longleftrightarrow> (\<forall>f \<in> set rows. \<exists>f' \<in> set rows'.
     mf_ID f' = mf_ID f \<and> binding_of f' = binding_of f \<and> mf_Version f' = mf_Version f)"

lemma files_kept_refl: "files_kept rows rows"
  by (auto simp: files_kept_def)

lemma files_kept_trans: "files_kept r1 r2 \<Longrightarrow> files_kept r2 r3 \<Longrightarrow> files_kept r1 r3"
  unfolding files_kept_def by metis

lemma same_binding_iff: "same_binding file row \<longleftrightarrow> binding_of row = binding_of file"
  by (auto simp: same_binding_def binding_of_def)

lemma map_rows_wf:
  assumes "\<And>f. mf_ID (g f) = mf_ID f \<and> binding_of (g f) = binding_of f \<and> mf_Version (g f) = mf_Version f"
  shows "files_wf (map g rows) \<longleftrightarrow> files_wf rows" and "files_kept rows (map g rows)"
proof -
  have "mf_ID \<circ> g = mf_ID" "binding_of \<circ> g = binding_of" using assms by auto
  then show "files_wf (map g rows) \<longleftrightarrow> files_wf rows" by (simp add: files_wf_def)
  show "files_kept rows (map g rows)" using assms by (auto simp: files_kept_def)
qed

text \<open>A change of the rows with one key is a change of the row with that binding.\<close>

lemma enabled_after_map:
  assumes wf: "files_wf rows" and x: "x \<in> set rows"
    and g: "\<And>f. mf_ID (g f) = mf_ID f \<and> binding_of (g f) = binding_of f" and en: "\<And>f. mf_Enabled (g f) = on"
  shows "enabled_bindings (map (\<lambda>f. if mf_ID f = mf_ID x then g f else f) rows) =
    (if on then insert (binding_of x) (enabled_bindings rows) else enabled_bindings rows - {binding_of x})"
proof -
  have id: "mf_ID f = mf_ID x \<longleftrightarrow> f = x" "binding_of f = binding_of x \<longleftrightarrow> f = x" if "f \<in> set rows" for f
    using wf x that by (auto simp: files_wf_def distinct_map dest: inj_onD)
  have "f \<in> set rows \<Longrightarrow> (if mf_ID f = mf_ID x then g f else f) = (if f = x then g x else f)" for f
    using id by auto
  then have "set (map (\<lambda>f. if mf_ID f = mf_ID x then g f else f) rows) = insert (g x) (set rows - {x})"
    using x by (auto simp: image_iff)
  then have "enabled_bindings (map (\<lambda>f. if mf_ID f = mf_ID x then g f else f) rows) =
      binding_of ` {f \<in> insert (g x) (set rows - {x}). mf_Enabled f}"
    by (simp add: enabled_bindings_def)
  also have "{f \<in> insert (g x) (set rows - {x}). mf_Enabled f} = (if on then {g x} else {}) \<union> {f \<in> set rows - {x}. mf_Enabled f}"
    using en [of x] by auto
  also have "binding_of ` \<dots> = (if on then {binding_of x} else {}) \<union> binding_of ` {f \<in> set rows - {x}. mf_Enabled f}"
    using g [of x] by (simp add: image_Un)
  also have "{f \<in> set rows - {x}. mf_Enabled f} = {f \<in> set rows. mf_Enabled f} - {x}" by auto
  also have "binding_of ` \<dots> = enabled_bindings rows - {binding_of x}"
    using inj_on_image_set_diff [of binding_of "set rows" "{f \<in> set rows. mf_Enabled f}" "{x}"] wf x
    by (auto simp: files_wf_def distinct_map enabled_bindings_def)
  finally show ?thesis by auto
qed

lemma Upsert_Inr:
  assumes "UpsertApplicationManagedFile fault file w = (Inr (), w')" and wf: "files_wf (rd_files (db w))"
    and "mf_Enabled file"
  shows "files_wf (rd_files (db w')) \<and> files_kept (rd_files (db w)) (rd_files (db w')) \<and>
    enabled_bindings (rd_files (db w')) = insert (binding_of file) (enabled_bindings (rd_files (db w)))"
proof (cases "find (same_binding file) (rd_files (db w))")
  case None
  then have new: "binding_of file \<notin> binding_of ` set (rd_files (db w))"
    by (auto simp: find_None_iff same_binding_iff image_iff)
  obtain row where row: "rd_files (db w') = rd_files (db w) @ [row]" "binding_of row = binding_of file" "mf_Enabled row"
      "mf_ID row = tbl_next mf_ID (rd_files (db w))"
    using assms(1,3) None
    by (auto simp: UpsertApplicationManagedFile_def tryP_def CreateApplicationManagedFile_def db_defs failP_def binding_of_def Let_def
        split: if_splits)
  have "mf_ID row \<notin> mf_ID ` set (rd_files (db w))" using row(4) tbl_next_fresh [of _ "rd_files (db w)" mf_ID] by fastforce
  then have "files_wf (rd_files (db w'))" using wf new row(2) by (simp add: row(1) files_wf_def)
  moreover have "files_kept (rd_files (db w)) (rd_files (db w'))" by (auto simp: row(1) files_kept_def)
  moreover have "{f \<in> set (rd_files (db w')). mf_Enabled f} = insert row {f \<in> set (rd_files (db w)). mf_Enabled f}"
    using row(3) by (auto simp: row(1))
  ultimately show ?thesis by (simp add: enabled_bindings_def row(2))
next
  case (Some x)
  then have x: "x \<in> set (rd_files (db w))" "binding_of x = binding_of file"
    by (auto simp: find_Some_iff same_binding_iff)
  let ?g = "\<lambda>f. f\<lparr>mf_MountPath := mf_MountPath file, mf_Format := mf_Format file, mf_Enabled := mf_Enabled file\<rparr>"
  have g: "mf_ID (?g f) = mf_ID f \<and> binding_of (?g f) = binding_of f \<and> mf_Version (?g f) = mf_Version f" for f
    by (simp add: binding_of_def)
  have rows: "rd_files (db w') = map (\<lambda>f. if mf_ID f = mf_ID x then ?g f else f) (rd_files (db w))"
    using assms(1) Some by (auto simp: UpsertApplicationManagedFile_def tryP_def db_defs failP_def split: if_splits)
  show ?thesis
    using map_rows_wf [of "\<lambda>f. if mf_ID f = mf_ID x then ?g f else f" "rd_files (db w)"] g wf x
      enabled_after_map [OF wf x(1), of ?g True] assms(3)
    by (simp add: rows)
qed

lemma upsert_loop_Inr:
  assumes "upsert_loop fault files w = (Inr (), w')" and "files_wf (rd_files (db w))" and "\<forall>f \<in> set files. mf_Enabled f"
  shows "files_wf (rd_files (db w')) \<and> files_kept (rd_files (db w)) (rd_files (db w')) \<and>
    enabled_bindings (rd_files (db w')) = enabled_bindings (rd_files (db w)) \<union> binding_of ` set files"
  using assms
proof (induction files arbitrary: w)
  case Nil
  then show ?case by (simp add: returnP_def files_kept_refl)
next
  case (Cons f files)
  then obtain w1 where u: "UpsertApplicationManagedFile fault f w = (Inr (), w1)" and k: "upsert_loop fault files w1 = (Inr (), w')"
    by (auto elim: bindP_Inr_elim)
  show ?case using Upsert_Inr [OF u Cons.prems(2)] Cons.IH [OF k] Cons.prems(3) files_kept_trans by auto
qed

lemma disable_loop_Inr:
  assumes "disable_loop fault bindings files w = (Inr (), w')" and "files_wf (rd_files (db w))"
    and "\<forall>f \<in> set files. \<exists>f' \<in> set (rd_files (db w)). mf_ID f' = mf_ID f \<and> binding_of f' = binding_of f"
  shows "files_wf (rd_files (db w')) \<and> files_kept (rd_files (db w)) (rd_files (db w')) \<and>
    enabled_bindings (rd_files (db w')) =
      enabled_bindings (rd_files (db w)) - binding_of ` {f \<in> set files. file_binding f \<notin> set bindings}"
  using assms
proof (induction files arbitrary: w)
  case Nil
  then show ?case by (simp add: returnP_def files_kept_refl)
next
  case (Cons f files)
  show ?case
  proof (cases "file_binding f \<in> set bindings")
    case True
    then show ?thesis using Cons by (auto intro: arg_cong)
  next
    case False
    then obtain w1 where u: "disable_file fault (mf_ID f) w = (Inr (), w1)" and k: "disable_loop fault bindings files w1 = (Inr (), w')"
      using Cons.prems(1) by (auto elim: bindP_Inr_elim)
    obtain x where x: "x \<in> set (rd_files (db w))" "mf_ID x = mf_ID f" "binding_of x = binding_of f" using Cons.prems(3) by auto
    let ?g = "\<lambda>f. f\<lparr>mf_Enabled := False\<rparr>"
    have rows: "rd_files (db w1) = map (\<lambda>f. if mf_ID f = mf_ID x then ?g f else f) (rd_files (db w))"
      using db_write_Inr [OF u [unfolded disable_file_def]] x by simp
    have g: "mf_ID (?g f) = mf_ID f \<and> binding_of (?g f) = binding_of f \<and> mf_Version (?g f) = mf_Version f" for f
      by (simp add: binding_of_def)
    have w1: "files_wf (rd_files (db w1))" "files_kept (rd_files (db w)) (rd_files (db w1))"
        "enabled_bindings (rd_files (db w1)) = enabled_bindings (rd_files (db w)) - {binding_of f}"
      using map_rows_wf [of "\<lambda>f. if mf_ID f = mf_ID x then ?g f else f" "rd_files (db w)"] g Cons.prems(2) x
        enabled_after_map [OF Cons.prems(2) x(1), of ?g False] by (simp_all add: rows)
    have "\<forall>f \<in> set files. \<exists>f' \<in> set (rd_files (db w1)). mf_ID f' = mf_ID f \<and> binding_of f' = binding_of f"
      using Cons.prems(3) w1(2) unfolding files_kept_def by (metis list.set_intros(2))
    from Cons.IH [OF k w1(1) this] w1 False files_kept_trans show ?thesis by auto
  qed
qed

text \<open>A row whose kind and name are free of the separator, as Kubernetes names are.\<close>

definition nul_free_row :: "ApplicationManagedFile \<Rightarrow> bool" where
  "nul_free_row f \<longleftrightarrow> CHR 0x00 \<notin> set (mf_ResourceKind f) \<and> CHR 0x00 \<notin> set (mf_ResourceName f)"

lemma file_binding_eq: "file_binding f = mf_ResourceKind f @ CHR 0x00 # mf_ResourceName f @ CHR 0x00 # mf_Key f"
  by (simp add: file_binding_def managedFileBinding_def)

lemma file_binding_inj:
  assumes "nul_free_row f" and "nul_free_row g" and "mf_ApplicationID f = mf_ApplicationID g"
  shows "file_binding f = file_binding g \<longleftrightarrow> binding_of f = binding_of g"
proof
  assume eq: "file_binding f = file_binding g"
  have kind: "mf_ResourceKind f = mf_ResourceKind g \<and>
      mf_ResourceName f @ CHR 0x00 # mf_Key f = mf_ResourceName g @ CHR 0x00 # mf_Key g"
    using eq assms by (intro split_at_nul) (simp_all add: nul_free_row_def file_binding_eq)
  then have "mf_ResourceName f = mf_ResourceName g \<and> mf_Key f = mf_Key g"
    using assms by (intro split_at_nul) (simp_all add: nul_free_row_def)
  with kind assms(3) show "binding_of f = binding_of g" by (simp add: binding_of_def)
qed (simp add: file_binding_eq binding_of_def)

lemma fst_binding_of: "fst (binding_of f) = mf_ApplicationID f"
  by (simp add: binding_of_def)

lemma managed_files_rows:
  assumes "CHR 0x00 \<notin> set (ap_Name app)" and "f \<in> set (managed_files app spec userID)"
  shows "nul_free_row f \<and> mf_Enabled f \<and> mf_ApplicationID f = ap_ID app"
  using assms by (auto simp: managed_files_def managed_file_def nul_free_row_def source_defs)

definition managed_bindings :: "Application \<Rightarrow> ReleaseSpec \<Rightarrow> binding set" where
  "managed_bindings app spec =
     (\<lambda>key. (ap_ID app, ''configmap'', ap_Name app @ ''-config'', key)) ` (TrimSpace ` set (sp_ConfigManagedKeys spec) - {[]}) \<union>
     (\<lambda>key. (ap_ID app, ''secret'', ap_Name app @ ''-secret'', key)) ` (TrimSpace ` set (sp_SecretManagedKeys spec) - {[]})"

lemma managed_files_bindings: "binding_of ` set (managed_files app spec userID) = managed_bindings app spec"
proof -
  have "set (filter (\<lambda>key. key \<noteq> []) (map TrimSpace keys)) = TrimSpace ` set keys - {[]}" for keys by auto
  then show ?thesis
    by (simp only: managed_files_def managed_bindings_def set_append set_map image_Un image_image)
      (simp add: managed_file_def binding_of_def source_defs)
qed

section \<open>Preparation\<close>

lemma sync_files_total: "\<exists>w'. SyncManagedFiles (\<lambda>_. False) app spec userID w = (Inr (), w')"
proof -
  have up: "\<exists>w'. UpsertApplicationManagedFile (\<lambda>_. False) f w = (Inr (), w')" for f w
    by (auto simp: UpsertApplicationManagedFile_def tryP_def CreateApplicationManagedFile_def db_defs found_def Let_def
        split: option.splits)
  have loop: "\<exists>w'. upsert_loop (\<lambda>_. False) files w = (Inr (), w')" for files w
  proof (induction files arbitrary: w)
    case (Cons f files)
    then show ?case using up [of f w] by (auto simp: bindP_def)
  qed (simp add: returnP_def)
  have disable: "\<exists>w'. disable_loop (\<lambda>_. False) bindings files w = (Inr (), w')" for bindings files w
  proof (induction files arbitrary: w)
    case (Cons f files)
    then show ?case by (auto simp: bindP_def disable_file_def db_defs)
  qed (simp add: returnP_def)
  show ?thesis
    using loop [of "managed_files app (NormalizeManagedKeys spec) userID" w] disable
    by (auto simp: SyncManagedFiles_def Let_def bindP_def DisableApplicationManagedFilesNotIn_def
        ListApplicationManagedFiles_def db_defs)
qed

lemma lift_release_Inr [simp]: "lift_release m w = (Inr x, w') \<longleftrightarrow> m w = (Inr x, w')"
  by (auto simp: lift_release_def split: prod.splits sum.splits)

text \<open>Preparing a specification reads the database and changes only the image and the run-time fields.\<close>

definition runtime_image :: "ReleaseSpec \<Rightarrow> ReleaseSpec" where
  "runtime_image spec = (clear_runtime_fields spec)\<lparr>sp_Image := []\<rparr>"

lemma with_registry_Inr:
  "with_registry we registry img spec = Inr spec' \<Longrightarrow> runtime_image spec' = runtime_image spec \<and> sp_Image spec' = img"
  by (auto simp: with_registry_def runtime_image_def clear_runtime_fields_def Let_def split: if_splits sum.splits)

lemma with_mirror_Inr:
  "with_mirror we mirror spec = Inr spec' \<Longrightarrow> runtime_image spec' = runtime_image spec \<and> sp_Image spec' = sp_Image spec"
  by (auto simp: with_mirror_def runtime_image_def clear_runtime_fields_def Let_def split: if_splits sum.splits option.splits list.splits)

lemma PrepareRegistrySpec_Inr:
  assumes "PrepareRegistrySpec we app spec w = (Inr spec', w')"
  shows "db w' = db w \<and> runtime_image spec' = runtime_image spec \<and> (sp_RegistryID spec = 0 \<longrightarrow> sp_Image spec' = sp_Image spec)"
proof (cases "sp_RegistryID spec = 0")
  case True
  then show ?thesis using assms by (simp add: PrepareRegistrySpec_def returnP_def)
next
  case False
  then obtain a :: Application and r img where "GetImageRegistryForProject (wf_fault we) (sp_RegistryID spec) (ap_ProjectID a) w = (Inr r, w')"
      and k: "with_registry we r img spec = Inr spec'"
    using assms
    by (auto simp: PrepareRegistrySpec_def failP_def returnP_def elim!: tryP_elim split: option.splits sum.splits if_splits)
  then have "db w' = db w" by (auto simp: GetImageRegistryForProject_def dest!: db_read_Inr)
  with False with_registry_Inr [OF k] show ?thesis by simp
qed

lemma prepareMirrorSpec_Inr:
  assumes "prepareMirrorSpec we spec w = (Inr spec', w')"
  shows "db w' = db w \<and> runtime_image spec' = runtime_image spec \<and> sp_Image spec' = sp_Image spec"
proof -
  have clear: "runtime_image (clear_verification spec) = runtime_image spec" "sp_Image (clear_verification spec) = sp_Image spec"
    by (simp_all add: runtime_image_def clear_runtime_fields_def clear_verification_def)
  show ?thesis
    using assms clear
    by (auto simp: prepareMirrorSpec_def ListNodeRegistryMirrors_def Let_def failP_def returnP_def elim!: bindP_Inr_elim
        dest!: db_read_Inr with_mirror_Inr split: if_splits option.splits sum.splits)
qed

lemma PrepareRuntimeSpec_Inr:
  assumes "PrepareRuntimeSpec we app spec w = (Inr spec', w')"
  shows "db w' = db w \<and> runtime_image spec' = runtime_image spec \<and> (sp_RegistryID spec = 0 \<longrightarrow> sp_Image spec' = sp_Image spec)"
  using assms by (auto simp: PrepareRuntimeSpec_def elim!: bindP_Inr_elim dest!: PrepareRegistrySpec_Inr prepareMirrorSpec_Inr)

lemma create_Inr:
  assumes "create we app template userID spec w = (Inr (r, spec'), w')"
  shows "spec' = spec \<and> spec_ok (ev_checks (wf_env we)) spec \<and> db w' = (db w)\<lparr>rd_releases := rd_releases (db w) @ [r]\<rparr> \<and>
    rl_ApplicationID r = ap_ID app \<and> rl_Status r = ReleaseStatusDraft \<and> rl_TemplateID r = Some (dt_ID template) \<and>
    rl_TemplateRevision r = dt_Revision template \<and> rl_DesiredSpec r = JSON (SanitizeReleaseSpec spec)"
proof -
  let ?r = "\<lambda>r0. r0\<lparr>rl_TemplateID := Some (dt_ID template), rl_TemplateRevision := dt_Revision template\<rparr>"
  obtain r0 w1 where c: "Service_CreateRelease (wf_env we) (ap_ID app) userID spec w = (Inr r0, w1)"
      and k: "bindP (lift_db WfDB (Store_UpdateRelease (wf_fault we) (?r r0))) (\<lambda>_. returnP (?r r0, spec)) w1 = (Inr (r, spec'), w')"
    using assms unfolding create_def Let_def by (rule bindP_Inr_elim) simp
  then have r: "r = ?r r0" "spec' = spec" and u: "Store_UpdateRelease (wf_fault we) r w1 = (Inr (), w')"
    by (auto simp: returnP_def elim!: bindP_Inr_elim)
  have i: "rl_ID r0 = tbl_next rl_ID (rd_releases (db w))" "db w1 = (db w)\<lparr>rd_releases := rd_releases (db w) @ [r0]\<rparr>"
      "spec_ok (ev_checks (wf_env we)) spec" "rl_ApplicationID r0 = ap_ID app" "rl_Status r0 = ReleaseStatusDraft"
      "rl_DesiredSpec r0 = JSON (SanitizeReleaseSpec spec)"
    using Service_CreateRelease_Inr [OF c]
    by (auto simp: draft_release_def json_visible_def SanitizeReleaseSpec_def clear_runtime_fields_def)
  have "db w' = (db w)\<lparr>rd_releases := rd_releases (db w) @ [r]\<rparr>"
    using db_write_Inr [OF u [unfolded Store_UpdateRelease_def]] i tbl_save_last [of rl_ID r "rd_releases (db w)" r0] r(1) by simp
  with i r show ?thesis by simp
qed

section \<open>Image references\<close>

lemma Trim_set: "set (Trim s cs) \<subseteq> set s"
  by (auto simp: Trim_def dest!: set_dropWhileD)

lemma Trim_id: "(s \<noteq> [] \<Longrightarrow> hd s \<notin> set cs \<and> last s \<notin> set cs) \<Longrightarrow> Trim s cs = s"
proof (cases "s = []")
  case False
  moreover assume "s \<noteq> [] \<Longrightarrow> hd s \<notin> set cs \<and> last s \<notin> set cs"
  ultimately have "hd s \<notin> set cs" "hd (rev s) \<notin> set cs" by (auto simp: hd_rev)
  then have "dropWhile (\<lambda>c. c \<in> set cs) s = s" "dropWhile (\<lambda>c. c \<in> set cs) (rev s) = rev s"
    using False by (auto simp: dropWhile_eq_self_iff)
  then show ?thesis by (simp add: Trim_def)
qed (simp add: Trim_def)

lemma Trim_ends:
  assumes "Trim s cs \<noteq> []"
  shows "hd (Trim s cs) \<notin> set cs" and "last (Trim s cs) \<notin> set cs"
proof -
  let ?a = "dropWhile (\<lambda>c. c \<in> set cs) s"
  let ?b = "dropWhile (\<lambda>c. c \<in> set cs) (rev ?a)"
  have b: "?b \<noteq> []" using assms by (simp add: Trim_def)
  then show "last (Trim s cs) \<notin> set cs" using hd_dropWhile [OF b] by (simp add: Trim_def last_rev)
  have "suffix ?b (rev ?a)" by (rule suffix_dropWhile)
  then obtain zs where "?a = rev ?b @ rev zs" by (metis rev_append rev_rev_ident suffix_def)
  moreover have "?a \<noteq> []" using b by (cases "?a = []") simp_all
  ultimately show "hd (Trim s cs) \<notin> set cs" using hd_dropWhile [of "\<lambda>c. c \<in> set cs" s] b by (metis Trim_def hd_append2 rev_is_Nil_conv)
qed

lemma blank_space: "set blank_chars \<subseteq> space_bytes"
  by (auto simp: blank_chars_def space_bytes_def space_runes_def)

lemma registry_reference_again:
  assumes ref: "registryImageReference endpoint img = Inr ref"
    and plain: "set endpoint \<inter> space_bytes = {}" "set img \<inter> space_bytes = {}"
  shows "registryImageReference endpoint ref = Inr ref \<and> prefix (Trim endpoint ''/'' @ ''/'') ref"
proof -
  let ?e = "Trim endpoint ''/''" and ?i = "Trim img ''/''"
  have t: "TrimSpace endpoint = endpoint" "TrimSpace img = img" using plain TrimSpace_plain by auto
  have i: "?i \<noteq> []" "hd ?i \<noteq> CHR ''/''" "last ?i \<noteq> CHR ''/''"
    using ref Trim_ends [of img "''/''"] by (auto simp: registryImageReference_def t Let_def split: if_splits)
  have slash: "CHR ''/'' \<notin> space_bytes" by (simp add: space_bytes_def space_runes_def)
  have parts: "set ?e \<inter> space_bytes = {}" "set ?i \<inter> space_bytes = {}"
    using plain Trim_set [of endpoint "''/''"] Trim_set [of img "''/''"] by (meson disjoint_iff subsetD)+
  have "ref = ?i \<or> ref = ?e @ ''/'' @ ?i" using ref by (auto simp: registryImageReference_def t Let_def split: if_splits)
  with parts slash have ref_set: "set ref \<inter> space_bytes = {}" by (auto simp: Int_Un_distrib2)
  then have r: "TrimSpace ref = ref" by (rule TrimSpace_plain)
  have blank: "\<not> ContainsAny s blank_chars" if "set s \<subseteq> set ref" for s
    using ref_set that blank_space by (auto simp: ContainsAny_iff)
  have pre: "prefix (?e @ ''/'') ref" and last: "last ref = last ?i" and ne: "ref \<noteq> []"
    using ref i by (auto simp: registryImageReference_def t Let_def HasPrefix_def split: if_splits)
  show ?thesis
  proof (cases "?e = []")
    case False
    then have "hd ref = hd ?e" using pre by (metis append_is_Nil_conv hd_append2 prefix_def)
    then have "Trim ref ''/'' = ref" using Trim_ends(1) [OF False] last i ne by (intro Trim_id) simp
    with pre ne r blank show ?thesis by (simp add: registryImageReference_def t Let_def HasPrefix_def)
  next
    case True
    have "\<not> prefix ''/'' ?i" using i by (cases ?i) auto
    then have ref_eq: "ref = CHR ''/'' # ?i" using ref True by (auto simp: registryImageReference_def t Let_def HasPrefix_def split: if_splits)
    have "Trim ref ''/'' = ?i"
      using Trim_id [of ?i "''/''"] i by (simp add: ref_eq Trim_def [of "CHR ''/'' # ?i"]) (simp add: Trim_def)
    with True pre i r blank \<open>\<not> prefix ''/'' ?i\<close> show ?thesis
      by (auto simp: registryImageReference_def t Let_def HasPrefix_def ref_eq)
  qed
qed

section \<open>Properties\<close>

text \<open>
  C11. The table of managed files follows the template: after a synchronisation the enabled bindings of
  the application are exactly the managed keys of its ConfigMap and its Secret, the bindings of the
  other applications are as before, and no row is lost: every row keeps its key, binding and version,
  so that a binding that is enabled again continues its version history.
\<close>

theorem managed_files_follow_template:
  assumes run: "SyncManagedFiles fault app spec userID w = (Inr (), w')"
    and wf: "files_wf (rd_files (db w))" and nul: "list_all nul_free_row (rd_files (db w))" "CHR 0x00 \<notin> set (ap_Name app)"
  shows "enabled_bindings (rd_files (db w')) =
      {b \<in> enabled_bindings (rd_files (db w)). fst b \<noteq> ap_ID app} \<union> managed_bindings app (NormalizeManagedKeys spec) \<and>
    files_kept (rd_files (db w)) (rd_files (db w')) \<and> files_wf (rd_files (db w'))"
proof -
  let ?files = "managed_files app (NormalizeManagedKeys spec) userID"
  obtain w1 w2 rows where u: "upsert_loop fault ?files w = (Inr (), w1)"
      and l: "ListApplicationManagedFiles fault (ap_ID app) w1 = (Inr rows, w2)"
      and d: "disable_loop fault (map file_binding ?files) rows w2 = (Inr (), w')"
    using run unfolding SyncManagedFiles_def DisableApplicationManagedFilesNotIn_def Let_def by (auto elim!: bindP_Inr_elim)
  have up: "files_wf (rd_files (db w1))" "files_kept (rd_files (db w)) (rd_files (db w1))"
      "enabled_bindings (rd_files (db w1)) = enabled_bindings (rd_files (db w)) \<union> binding_of ` set ?files"
    using upsert_loop_Inr [OF u wf] managed_files_rows [OF nul(2)] by auto
  have rows: "rows = sort_key mf_ID (filter (\<lambda>f. mf_ApplicationID f = ap_ID app \<and> mf_Enabled f) (rd_files (db w1)))" and w2: "db w2 = db w1"
    using db_read_Inr [OF l [unfolded ListApplicationManagedFiles_def]] by auto
  have down: "files_wf (rd_files (db w'))" "files_kept (rd_files (db w2)) (rd_files (db w'))"
      "enabled_bindings (rd_files (db w')) = enabled_bindings (rd_files (db w2)) -
        binding_of ` {f \<in> set rows. file_binding f \<notin> set (map file_binding ?files)}"
    using disable_loop_Inr [OF d] up(1) rows by (auto simp: w2)
  have nf: "nul_free_row f" if f: "f \<in> set rows" for f
  proof -
    have "binding_of f \<in> enabled_bindings (rd_files (db w)) \<union> binding_of ` set ?files"
      using f up(3) by (auto simp: rows enabled_bindings_def)
    then obtain g where "binding_of f = binding_of g" "nul_free_row g"
      using nul(1) managed_files_rows [OF nul(2)] by (auto simp: enabled_bindings_def list_all_iff)
    then show ?thesis by (simp add: nul_free_row_def binding_of_def)
  qed
  have "file_binding f \<in> file_binding ` set ?files \<longleftrightarrow> binding_of f \<in> binding_of ` set ?files" if "f \<in> set rows" for f
    using file_binding_inj nf [OF that] that managed_files_rows [OF nul(2)] by (auto simp: rows image_iff)
  then have gone: "{f \<in> set rows. file_binding f \<notin> set (map file_binding ?files)} = {f \<in> set rows. binding_of f \<notin> binding_of ` set ?files}"
    by auto
  have image: "binding_of ` {f \<in> set rows. binding_of f \<notin> F} =
      {b \<in> enabled_bindings (rd_files (db w1)). fst b = ap_ID app \<and> b \<notin> F}" for F
    by (auto simp: rows enabled_bindings_def fst_binding_of)
  have alg: "(E \<union> F) - {b \<in> E \<union> F. fst b = ap_ID app \<and> b \<notin> F} = {b \<in> E. fst b \<noteq> ap_ID app} \<union> F"
    if "\<forall>b \<in> F. fst b = ap_ID app" for E F :: "binding set" using that by auto
  have app: "\<forall>b \<in> binding_of ` set ?files. fst b = ap_ID app"
    using managed_files_rows [OF nul(2)] by (auto simp: fst_binding_of)
  have "enabled_bindings (rd_files (db w')) =
      {b \<in> enabled_bindings (rd_files (db w)). fst b \<noteq> ap_ID app} \<union> binding_of ` set ?files"
    unfolding down(3) gone w2 image up(3) by (rule alg [OF app])
  with up down show ?thesis using files_kept_trans by (auto simp: w2 managed_files_bindings)
qed

text \<open>
  C9. The calls a release makes to the cluster: on every outcome, database failures included, they are
  an initial part of verifying the image, the preflight, applying the rendered resources, the
  synchronisations of the endpoints and waiting for readiness, and the preflight, the application and
  what follows are only reached when every call before was answered with success.
\<close>

theorem release_protocol:
  "\<exists>es. rd_trace (db (snd (ExecuteAsync env (Some a) sync app r spec w))) = rd_trace (db w) @ es \<and>
    (es = [] \<or> (\<exists>release resources syncs. tbl_find rl_ID (rl_ID r) (rd_releases (db w)) = Some release \<and>
       (let cx = applicationContext app (rl_Sequence release); t = rd_trace (db w);
            done = [EvVerifyImage spec, EvPreflight cx spec, EvApply resources] in
        RenderResources (ev_checks env) cx spec = Inr resources \<and> set syncs \<subseteq> sync_events \<and>
        prefix es (done @ syncs @ [EvWaitReady cx spec]) \<and>
        (1 < length es \<longrightarrow> ra_VerifyImage a t spec = None) \<and>
        (2 < length es \<longrightarrow> ra_Preflight a (t @ take 1 done) cx spec = None) \<and>
        (3 < length es \<longrightarrow> ra_Apply a (t @ take 2 done) resources = None))))"
  unfolding ExecuteAsync_def ExecuteReleaseWithPostApply_def
  by (rule sync_hook.execute_protocol [unfolded trace_after_def])


text \<open>
  For a service with valid ports, an endpoint's port resolves exactly when it is declared: the port
  that was asked for or, if none was, the primary TCP port (the first port when the service has no
  TCP port), with its own protocol, which must be the requested one and TCP under an ingress.
\<close>

theorem endpoint_port_resolution:
  assumes "ports_ok k spec"
  shows "ResolveEndpointServicePort spec rp proto ingress = Inr p \<longleftrightarrow>
    (\<exists>port \<in> set (PortSpecs spec).
       (if rp \<noteq> 0 then po_Port port = rp
        else case PrimaryTCPPort spec of Some q \<Rightarrow> port = q | None \<Rightarrow> port = hd (PortSpecs spec)) \<and>
       p = port\<lparr>po_Protocol := actual_protocol port\<rparr> \<and>
       ToUpper (TrimSpace proto) \<in> {[], actual_protocol port} \<and> (ingress \<longrightarrow> actual_protocol port = ''TCP''))"
  using Resolve_iff [OF assms] unfolding wanted_port_def .


text \<open>
  C12. A release created from a template is made from the template's specification with the decrypted
  secrets, the version as image tag and the endpoint reset; it records the template and its revision.
  What is stored holds no secret and no registry credential, nothing else of the database changes,
  and a template that declares secrets is refused when it has no values for them.
\<close>

theorem template_release:
  assumes run: "CreateFromTemplate we (Some app) (Some template) version userID w = (Inr (r, spec), w')"
  shows "\<exists>spec0 secrets img. dt_Enabled template \<and> dt_Spec template = JSON spec0 \<and>
    decryptTemplateSecrets we (dt_EncryptedSecrets template) = Inr secrets \<and> (sp_Secrets spec0 \<noteq> [] \<longrightarrow> secrets \<noteq> []) \<and>
    imageWithVersion (sp_Image spec0) (TrimSpace version) = Inr img \<and> (sp_RegistryID spec0 = 0 \<longrightarrow> sp_Image spec = img) \<and>
    runtime_image spec =
      runtime_image (spec0\<lparr>sp_Secrets := secrets, sp_Version := TrimSpace version, sp_Endpoint := cluster_endpoint\<rparr>) \<and>
    rl_TemplateID r = Some (dt_ID template) \<and> rl_TemplateRevision r = dt_Revision template \<and> rl_Status r = ReleaseStatusDraft \<and>
    rl_DesiredSpec r = JSON (SanitizeReleaseSpec spec) \<and> db w' = (db w)\<lparr>rd_releases := rd_releases (db w) @ [r]\<rparr>"
proof -
  obtain spec0 where t: "dt_Enabled template" "dt_Spec template = JSON spec0"
    using run by (cases "dt_Spec template") (auto simp: CreateFromTemplate_def failP_def split: if_splits)
  obtain secrets where d: "decryptTemplateSecrets we (dt_EncryptedSecrets template) = Inr secrets"
    using run t by (auto simp: CreateFromTemplate_def failP_def Let_def split: sum.splits)
  have s: "sp_Secrets spec0 \<noteq> [] \<longrightarrow> secrets \<noteq> []"
    using run t d by (auto simp: CreateFromTemplate_def failP_def Let_def json_visible_def clear_runtime_fields_def split: if_splits)
  obtain img where i: "imageWithVersion (sp_Image spec0) (TrimSpace version) = Inr img"
    using run t d s by (auto simp: CreateFromTemplate_def failP_def Let_def json_visible_def clear_runtime_fields_def split: sum.splits if_splits)
  let ?spec = "(json_visible spec0)\<lparr>sp_Secrets := secrets, sp_Version := TrimSpace version, sp_Image := img\<rparr>"
  obtain prepared w1 where p: "PrepareRuntimeSpec we (Some app) ?spec w = (Inr prepared, w1)"
      and c: "create we app template userID (prepared\<lparr>sp_Endpoint := cluster_endpoint\<rparr>) w1 = (Inr (r, spec), w')"
    using run t d s i
    by (auto simp: CreateFromTemplate_def failP_def Let_def json_visible_def clear_runtime_fields_def elim!: bindP_Inr_elim split: if_splits)
  have fields: "runtime_image (x\<lparr>sp_Endpoint := cluster_endpoint\<rparr>) = (runtime_image x)\<lparr>sp_Endpoint := cluster_endpoint\<rparr>" for x
    by (simp add: runtime_image_def clear_runtime_fields_def)
  have "runtime_image spec = runtime_image (spec0\<lparr>sp_Secrets := secrets, sp_Version := TrimSpace version, sp_Endpoint := cluster_endpoint\<rparr>)"
    using create_Inr [OF c] PrepareRuntimeSpec_Inr [OF p]
    by (simp add: fields) (simp add: runtime_image_def clear_runtime_fields_def json_visible_def)
  with t d s i create_Inr [OF c] PrepareRuntimeSpec_Inr [OF p] show ?thesis
    by (intro exI [of _ spec0] exI [of _ secrets] exI [of _ img])
      (simp add: json_visible_def clear_runtime_fields_def)
qed

text \<open>
  The reference of an image in a registry starts with the registry's address, and naming the
  result again changes nothing, so preparing a stored image twice is harmless.
\<close>

theorem registry_reference_stable:
  assumes "registryImageReference endpoint img = Inr ref"
    and "set endpoint \<inter> space_bytes = {}" and "set img \<inter> space_bytes = {}"
  shows "registryImageReference endpoint ref = Inr ref \<and> prefix (Trim endpoint ''/'' @ ''/'') ref"
  by (rule registry_reference_again [OF assms])

section \<open>Concrete runs\<close>

theorem registry_reference_stable_witness:
  "registryImageReference ''hub.lan/'' ''hub.lan/app'' = Inr ''hub.lan/app'' \<and> prefix (Trim ''hub.lan/'' ''/'' @ ''/'') ''hub.lan/app''"
proof -
  have "registryImageReference ''hub.lan/'' ''app'' = Inr ''hub.lan/app''" by code_simp
  from registry_reference_stable [OF this] show ?thesis by (simp add: space_bytes_def space_runes_def)
qed

definition demo_applier :: ResourceApplier where
  "demo_applier = \<lparr>ra_VerifyImage = (\<lambda>_ _. None), ra_Preflight = (\<lambda>_ _ _. None), ra_Apply = (\<lambda>_ _. None),
     ra_WaitReady = (\<lambda>_ _ _. None)\<rparr>"

definition demo_sync :: endpoint_synchronizer where
  "demo_sync = (\<lambda>_ _ _ _. None)"

abbreviation demo_executed :: "(release_error + unit) \<times> release_db world" where
  "demo_executed \<equiv> ExecuteAsync demo_env (Some demo_applier) (Some demo_sync) demo_app (demo_release 3 ReleaseStatusFailed)
     demo_spec demo_world"

theorem release_protocol_witness:
  "\<exists>es. rd_trace (db (snd demo_executed)) = es \<and> (es = [] \<or> hd es = EvVerifyImage demo_spec)"
  using release_protocol [of demo_env demo_applier "Some demo_sync" demo_app "demo_release 3 ReleaseStatusFailed" demo_spec demo_world]
  by (auto simp: Let_def demo_world_def demo_db_def prefix_Cons)


lemma demo_ports: "PortSpecs demo_service_spec =
    [\<lparr>po_Name = ''service'', po_Port = 80, po_TargetPort = 8080, po_Protocol = ''tcp'', po_NodePort = 0\<rparr>]"
    "actual_protocol \<lparr>po_Name = ''service'', po_Port = 80, po_TargetPort = 8080, po_Protocol = ''tcp'', po_NodePort = 0\<rparr> = ''TCP''"
    "PrimaryTCPPort demo_service_spec =
    Some \<lparr>po_Name = ''service'', po_Port = 80, po_TargetPort = 8080, po_Protocol = ''tcp'', po_NodePort = 0\<rparr>"
  by code_simp+

theorem endpoint_port_resolution_witness:
  "ResolveEndpointServicePort demo_service_spec 0 [] True =
     Inr \<lparr>po_Name = ''service'', po_Port = 80, po_TargetPort = 8080, po_Protocol = ''TCP'', po_NodePort = 0\<rparr>"
  using endpoint_port_resolution [OF demo_service_ok(1), of 0 "[]" True] by (simp add: demo_ports)

definition demo_endpoint_row :: ApplicationEndpoint where
  "demo_endpoint_row = \<lparr>ae_ID = 9, ae_ApplicationID = 5, ae_DomainID = 0, ae_Exposure = ''public'', ae_Domain = ''a.lan'', ae_Path = ''/'',
     ae_ServicePort = 99, ae_Protocol = ''TCP'', ae_TLSEnabled = False, ae_IngressEnabled = True, ae_IngressMode = ''ingress'',
     ae_TLSSecretName = [], ae_IssuerRef = [], ae_AccessMode = ''public''\<rparr>"

definition demo_endpoint_world :: "release_db world" where
  "demo_endpoint_world = \<lparr>db = demo_db\<lparr>rd_endpoints := [demo_endpoint_row]\<rparr>, calls = 0\<rparr>"

lemma demo_endpoint_facts:
  "\<not> servicePortExists demo_service_spec 99 ''TCP''" "endpointUsesIngress demo_endpoint_row" "ToUpper ''TCP'' = ''TCP''"
  by code_simp+

lemma demo_synced: "\<exists>w'. syncApplicationEndpoints demo_env (Some demo_sync) demo_app demo_service_spec demo_endpoint_world = (Inr (), w')"
  using demo_endpoint_facts
  by (simp add: syncApplicationEndpoints_def ListApplicationEndpoints_def bindP_def lift_db_def db_defs demo_env_def demo_endpoint_world_def
      demo_app_def demo_ports move_to_port_def fill_protocol_def check_ingress_def UpdateApplicationEndpoint_def returnP_def
      call_synchronizer_def call_applier_def tryP_def demo_sync_def demo_endpoint_row_def endpointUsesIngress_def Let_def)


definition demo_file_row :: ApplicationManagedFile where
  "demo_file_row = managed_file demo_app demo_spec 7 ''configmap'' ''web-config'' False ''old.conf''"

definition demo_files_world :: "release_db world" where
  "demo_files_world = \<lparr>db = demo_db\<lparr>rd_files := [demo_file_row]\<rparr>, calls = 0\<rparr>"

theorem managed_files_follow_template_witness:
  "\<exists>w'. SyncManagedFiles (\<lambda>_. False) demo_app demo_spec 7 demo_files_world = (Inr (), w') \<and>
     enabled_bindings (rd_files (db w')) = {(5, ''configmap'', ''web-config'', ''app.conf'')}"
proof -
  obtain w' where run: "SyncManagedFiles (\<lambda>_. False) demo_app demo_spec 7 demo_files_world = (Inr (), w')"
    using sync_files_total by blast
  have pre: "files_wf (rd_files (db demo_files_world))" "list_all nul_free_row (rd_files (db demo_files_world))" "CHR 0x00 \<notin> set (ap_Name demo_app)"
    by (simp_all add: files_wf_def nul_free_row_def demo_files_world_def demo_file_row_def managed_file_def demo_app_def)
  have keys: "sp_ConfigManagedKeys (NormalizeManagedKeys demo_spec) = [''app.conf'']" "sp_SecretManagedKeys (NormalizeManagedKeys demo_spec) = []"
      "TrimSpace ''app.conf'' = ''app.conf''"
    by code_simp+
  show ?thesis
    using managed_files_follow_template [OF run pre] run
    by (intro exI [of _ w'])
      (auto simp: managed_bindings_def keys demo_app_def enabled_bindings_def binding_of_def demo_files_world_def demo_file_row_def managed_file_def)
qed

text \<open>A template without secrets, released with version 2.\<close>

definition demo_workflow :: workflow_env where
  "demo_workflow = \<lparr>wf_env = demo_env, wf_names = \<lparr>ParseReference = (\<lambda>_. None), NewRegistry_ok = (\<lambda>_. True)\<rparr>, wf_aead = demo_aead,
     wf_key = [], wf_decode = (\<lambda>_. None)\<rparr>"

definition demo_template :: ApplicationDeploymentTemplate where
  "demo_template = \<lparr>dt_ID = 6, dt_ApplicationID = 5, dt_Name = ''default'', dt_Enabled = True,
     dt_Spec = JSON (demo_spec\<lparr>sp_Image := ''r.example/app'', sp_Secrets := []\<rparr>), dt_EncryptedSecrets = [], dt_Revision = 3,
     dt_CreatedAt = 0\<rparr>"

definition demo_prepared :: ReleaseSpec where
  "demo_prepared = demo_snapshot\<lparr>sp_Image := ''r.example/app:2'', sp_Version := ''2'', sp_Secrets := []\<rparr>"

lemma demo_prepared_ok: "spec_ok demo_checks demo_prepared" "credentials_ok demo_prepared"
proof -
  have "file_mounts_ok demo_checks (enabledStringMap (sp_Config demo_prepared) (sp_ConfigDisabled demo_prepared))
     (enabledStringMap (sp_Secrets demo_prepared) (sp_SecretsDisabled demo_prepared)) (sp_FileMounts demo_prepared)"
    by (simp add: demo_prepared_def demo_snapshot_def json_visible_def SanitizeReleaseSpec_def clear_runtime_fields_def demo_spec_def
        file_mounts_ok_def file_mount_ok_def known_source_def application_source_def source_defs map_of_enabled demo_checks_def demo_paths
        demo_plain)
  then show "spec_ok demo_checks demo_prepared"
    using demo_snapshot_ok by (simp add: spec_ok_def demo_prepared_def managed_keys_ok_def demo_plain
        demo_snapshot_def json_visible_def SanitizeReleaseSpec_def clear_runtime_fields_def demo_spec_def)
  show "credentials_ok demo_prepared"
    by (simp add: credentials_ok_def needs_pull_secret_def demo_prepared_def demo_snapshot_def json_visible_def SanitizeReleaseSpec_def
        clear_runtime_fields_def demo_spec_def)
qed

lemma demo_image: "imageWithVersion ''r.example/app'' ''2'' = Inr ''r.example/app:2''" "TrimSpace ''2'' = ''2''"
  by code_simp+

lemma demo_from_template:
  "\<exists>r spec w'. CreateFromTemplate demo_workflow (Some demo_app) (Some demo_template) ''2'' 7 demo_world = (Inr (r, spec), w')"
proof -
  obtain r w1 where c: "Service_CreateRelease demo_env 5 7 demo_prepared demo_world = (Inr r, w1)"
    using demo_create [OF demo_prepared_ok, of demo_world] by (auto simp: demo_world_def)
  have spec: "(clear_verification (json_visible (demo_spec\<lparr>sp_Image := ''r.example/app'', sp_Secrets := []\<rparr>)
      \<lparr>sp_Secrets := [], sp_Version := ''2'', sp_Image := ''r.example/app:2''\<rparr>))\<lparr>sp_Endpoint := cluster_endpoint\<rparr> = demo_prepared"
    by (simp add: demo_prepared_def demo_snapshot_def json_visible_def SanitizeReleaseSpec_def clear_runtime_fields_def
        clear_verification_def demo_spec_def)
  have fields: "sp_RegistryID (json_visible (demo_spec\<lparr>sp_Image := ''r.example/app'', sp_Secrets := []\<rparr>)) = 0"
      "sp_Secrets (json_visible (demo_spec\<lparr>sp_Image := ''r.example/app'', sp_Secrets := []\<rparr>)) = []"
      "sp_Image (json_visible (demo_spec\<lparr>sp_Image := ''r.example/app'', sp_Secrets := []\<rparr>)) = ''r.example/app''"
      "sp_NodeName (clear_verification (json_visible (demo_spec\<lparr>sp_Image := ''r.example/app'', sp_Secrets := []\<rparr>)
         \<lparr>sp_Secrets := [], sp_Version := ''2'', sp_Image := ''r.example/app:2''\<rparr>)) = []"
    by (simp_all add: json_visible_def clear_runtime_fields_def clear_verification_def demo_spec_def)
  have "create demo_workflow demo_app demo_template 7 demo_prepared demo_world \<noteq> (Inl e, w')" for e w'
    using c by (auto simp: create_def bindP_def lift_release_def lift_db_def demo_workflow_def demo_app_def Store_UpdateRelease_def
        db_defs demo_env_def returnP_def Let_def)
  then obtain x w' where "create demo_workflow demo_app demo_template 7 demo_prepared demo_world = (Inr x, w')"
    by (metis obj_sumE surj_pair)
  then show ?thesis
    by (cases x) (auto simp: CreateFromTemplate_def demo_template_def decryptTemplateSecrets_def demo_image fields PrepareRuntimeSpec_def
        PrepareRegistrySpec_def prepareMirrorSpec_def spec Let_def)
qed

theorem template_release_witness:
  "\<exists>r spec w'. CreateFromTemplate demo_workflow (Some demo_app) (Some demo_template) ''2'' 7 demo_world = (Inr (r, spec), w') \<and>
     rl_TemplateRevision r = 3"
proof -
  obtain r spec w' where "CreateFromTemplate demo_workflow (Some demo_app) (Some demo_template) ''2'' 7 demo_world = (Inr (r, spec), w')"
    using demo_from_template by blast
  with template_release [OF this] show ?thesis by (auto simp: demo_template_def)
qed

end
