(* ===== verification/Application_Store.thy ===== *)
theory Application_Store
  imports Release_Workflow "HOL-Library.Product_Lexorder"
begin

text \<open>
  The workspace tables: \<open>internal/store/application_repository.go\<close>, the rest of
  \<open>application_release_repository.go\<close> and the template part of \<open>schema_backfill.go\<close>, over the tables
  of the releases and those of projects and environments. Unique indexes are checked where the code
  writes; the index on namespaces exists only once it has been created. Primary keys are given out as
  SQLite's \<open>AUTOINCREMENT\<close> does: the key of a deleted row is not used again.
\<close>

section \<open>State\<close>

datatype table_name = Projects | Environments | Applications | Endpoints | Templates

record workspace_db = release_db +
  wd_projects :: "Project list"
  wd_environments :: "Environment list"
  wd_namespace_index :: bool
  wd_seq :: "table_name \<Rightarrow> nat"

datatype store_error =
    StoreDB db_error
  | EnvironmentRequired
  | NamespaceConflictError string nat nat
  | TemplateRevisionConflictError nat nat
  | TemplateInUse
  | StoreCapabilities capability_error

type_synonym ('e, 'a) workspace_proc = "(workspace_db world, 'e, 'a) proc"

definition lift_store :: "(db_error, 'a) workspace_proc \<Rightarrow> (store_error, 'a) workspace_proc" where
  "lift_store m w = (case m w of (Inl e, w') \<Rightarrow> (Inl (StoreDB e), w') | (Inr x, w') \<Rightarrow> (Inr x, w'))"

text \<open>An operation on the tables of the releases, run on all tables.\<close>

definition on_releases :: "('e, 'a) release_proc \<Rightarrow> ('e, 'a) workspace_proc" where
  "on_releases m w =
     (case m \<lparr>db = release_db.truncate (db w), calls = calls w\<rparr> of
        (r, w') \<Rightarrow> (r, \<lparr>db = release_db.extend (db w') (release_db.more (db w)), calls = calls w'\<rparr>))"

text \<open>The key of a new row, and the record of the largest key that was used.\<close>

definition assign_id :: "workspace_db \<Rightarrow> table_name \<Rightarrow> nat \<Rightarrow> nat" where
  "assign_id d tab i = (if i = 0 then Suc (wd_seq d tab) else i)"

definition note_id :: "table_name \<Rightarrow> nat \<Rightarrow> workspace_db \<Rightarrow> workspace_db" where
  "note_id tab i d = d\<lparr>wd_seq := (wd_seq d)(tab := max (wd_seq d tab) i)\<rparr>"

text \<open>\<open>time.Time{}\<close>, which GORM replaces by the current time when a row is created.\<close>

definition zero_time :: int where "zero_time = - 62135596800 * 10 ^ 9"

definition created_at :: "int \<Rightarrow> int \<Rightarrow> int" where
  "created_at now t = (if t = zero_time then now else t)"

section \<open>Projects\<close>

definition CreateProject :: "(nat \<Rightarrow> bool) \<Rightarrow> int \<Rightarrow> Project \<Rightarrow> (db_error, Project) workspace_proc" where
  "CreateProject fault now project = db_call fault (\<lambda>d.
     let row = project\<lparr>pj_ID := assign_id d Projects (pj_ID project), pj_CreatedAt := created_at now (pj_CreatedAt project)\<rparr> in
     if list_ex (\<lambda>p. pj_ID p = pj_ID row \<or> pj_Name p = pj_Name row) (wd_projects d) then (Inl ErrConstraint, d)
     else (Inr row, note_id Projects (pj_ID row) (d\<lparr>wd_projects := wd_projects d @ [row]\<rparr>)))"

text \<open>A project with its environments and its default registry.\<close>

definition preload_project :: "workspace_db \<Rightarrow> Project \<Rightarrow> Project \<times> Environment list \<times> ImageRegistry option" where
  "preload_project d project =
     (project, filter (\<lambda>e. en_ProjectID e = pj_ID project) (wd_environments d),
      Option.bind (pj_DefaultImageRegistryID project) (\<lambda>i. tbl_find ir_ID i (rd_registries d)))"

definition ListProjects ::
  "(nat \<Rightarrow> bool) \<Rightarrow> (db_error, (Project \<times> Environment list \<times> ImageRegistry option) list) workspace_proc" where
  "ListProjects fault = db_read fault (\<lambda>d.
     Inr (map (preload_project d) (rev (sort_key pj_CreatedAt (wd_projects d)))))"

definition GetProject ::
  "(nat \<Rightarrow> bool) \<Rightarrow> nat \<Rightarrow> (db_error, Project \<times> Environment list \<times> ImageRegistry option) workspace_proc" where
  "GetProject fault i = db_read fault (\<lambda>d. found (map_option (preload_project d) (tbl_find pj_ID i (wd_projects d))))"

definition UpdateProject :: "(nat \<Rightarrow> bool) \<Rightarrow> int \<Rightarrow> Project \<Rightarrow> (db_error, Project) workspace_proc" where
  "UpdateProject fault now project =
     (if pj_ID project = 0 then CreateProject fault now project
      else db_call fault (\<lambda>d.
        if list_ex (\<lambda>p. pj_ID p \<noteq> pj_ID project \<and> pj_Name p = pj_Name project) (wd_projects d) then (Inl ErrConstraint, d)
        else (Inr project, note_id Projects (pj_ID project)
          (d\<lparr>wd_projects := tbl_save pj_ID project (wd_projects d)\<rparr>))))"

definition DeleteProject :: "(nat \<Rightarrow> bool) \<Rightarrow> nat \<Rightarrow> (db_error, unit) workspace_proc" where
  "DeleteProject fault i = db_write fault (\<lambda>d. d\<lparr>wd_projects := filter (\<lambda>p. pj_ID p \<noteq> i) (wd_projects d)\<rparr>)"

definition CountProjectEnvironments :: "(nat \<Rightarrow> bool) \<Rightarrow> nat \<Rightarrow> (db_error, nat) workspace_proc" where
  "CountProjectEnvironments fault projectID = db_read fault (\<lambda>d.
     Inr (length (filter (\<lambda>e. en_ProjectID e = projectID) (wd_environments d))))"

definition CountProjectApplications :: "(nat \<Rightarrow> bool) \<Rightarrow> nat \<Rightarrow> (db_error, nat) workspace_proc" where
  "CountProjectApplications fault projectID = db_read fault (\<lambda>d.
     Inr (length (filter (\<lambda>a. ap_ProjectID a = projectID) (rd_apps d))))"

section \<open>Environments\<close>

definition ensureNamespaceAvailable :: "(nat \<Rightarrow> bool) \<Rightarrow> string \<Rightarrow> nat \<Rightarrow> (store_error, unit) workspace_proc" where
  "ensureNamespaceAvailable fault namespace excludeEnvironmentID =
     tryP (db_read fault (\<lambda>d. found (find (\<lambda>e. en_Namespace e = namespace \<and>
              (excludeEnvironmentID \<noteq> 0 \<longrightarrow> en_ID e \<noteq> excludeEnvironmentID)) (sort_key en_ID (wd_environments d)))))
       (\<lambda>r. case r of
          Inr existing \<Rightarrow> failP (NamespaceConflictError namespace (en_ID existing) (en_ProjectID existing))
        | Inl ErrRecordNotFound \<Rightarrow> returnP ()
        | Inl e \<Rightarrow> failP (StoreDB e))"

definition EnsureNamespaceAvailable :: "(nat \<Rightarrow> bool) \<Rightarrow> string \<Rightarrow> nat \<Rightarrow> (store_error, unit) workspace_proc" where
  "EnsureNamespaceAvailable fault namespace excludeEnvironmentID = ensureNamespaceAvailable fault namespace excludeEnvironmentID"

text \<open>The unique indexes of the table: project and name, and the namespace when its index exists.\<close>

definition environment_clash :: "bool \<Rightarrow> Environment \<Rightarrow> Environment \<Rightarrow> bool" where
  "environment_clash index row e \<longleftrightarrow>
     en_ProjectID e = en_ProjectID row \<and> en_Name e = en_Name row \<or> index \<and> en_Namespace e = en_Namespace row"

definition insert_environment :: "int \<Rightarrow> Environment \<Rightarrow> workspace_db \<Rightarrow> (db_error + Environment) \<times> workspace_db" where
  "insert_environment now environment d =
     (let row = environment\<lparr>en_ID := assign_id d Environments (en_ID environment),
            en_CreatedAt := created_at now (en_CreatedAt environment)\<rparr> in
      if list_ex (\<lambda>e. en_ID e = en_ID row \<or> environment_clash (wd_namespace_index d) row e) (wd_environments d)
      then (Inl ErrConstraint, d)
      else (Inr row, note_id Environments (en_ID row) (d\<lparr>wd_environments := wd_environments d @ [row]\<rparr>)))"

definition save_environment :: "int \<Rightarrow> Environment \<Rightarrow> workspace_db \<Rightarrow> (db_error + Environment) \<times> workspace_db" where
  "save_environment now environment d =
     (if en_ID environment = 0 then insert_environment now environment d
      else if list_ex (\<lambda>e. en_ID e \<noteq> en_ID environment \<and> environment_clash (wd_namespace_index d) environment e) (wd_environments d)
      then (Inl ErrConstraint, d)
      else (Inr environment, note_id Environments (en_ID environment)
        (d\<lparr>wd_environments := tbl_save en_ID environment (wd_environments d)\<rparr>)))"

text \<open>\<open>None\<close> is a nil pointer.\<close>

definition CreateEnvironment ::
  "(nat \<Rightarrow> bool) \<Rightarrow> int \<Rightarrow> Environment option \<Rightarrow> (store_error, Environment) workspace_proc" where
  "CreateEnvironment fault now environment =
     (case environment of
        None \<Rightarrow> failP EnvironmentRequired
      | Some e \<Rightarrow> transaction fault StoreDB (
          bindP (ensureNamespaceAvailable fault (en_Namespace e) 0) (\<lambda>_.
            lift_store (db_call fault (insert_environment now e)))))"

definition ListEnvironments :: "(nat \<Rightarrow> bool) \<Rightarrow> nat \<Rightarrow> (db_error, Environment list) workspace_proc" where
  "ListEnvironments fault projectID = db_read fault (\<lambda>d.
     Inr (sort_key en_CreatedAt (filter (\<lambda>e. en_ProjectID e = projectID) (wd_environments d))))"

definition GetEnvironment :: "(nat \<Rightarrow> bool) \<Rightarrow> nat \<Rightarrow> nat \<Rightarrow> (db_error, Environment) workspace_proc" where
  "GetEnvironment fault projectID environmentID = db_read fault (\<lambda>d.
     found (find (\<lambda>e. en_ProjectID e = projectID \<and> en_ID e = environmentID) (wd_environments d)))"

text \<open>\<open>GROUP BY namespace HAVING COUNT(*) > 1\<close>, in ascending order, without the empty namespace.\<close>

definition duplicate_namespaces :: "Environment list \<Rightarrow> string list" where
  "duplicate_namespaces rows =
     sort (remdups (filter (\<lambda>n. n \<noteq> [] \<and> count_list (map en_Namespace rows) n > 1) (map en_Namespace rows)))"

fun conflict_loop :: "(nat \<Rightarrow> bool) \<Rightarrow> string list \<Rightarrow> (db_error, (string \<times> Environment list) list) workspace_proc" where
  "conflict_loop fault [] = returnP []"
| "conflict_loop fault (namespace # rest) =
     bindP (db_read fault (\<lambda>d. Inr (sort_key (\<lambda>e. (en_ProjectID e, en_ID e))
              (filter (\<lambda>e. en_Namespace e = namespace) (wd_environments d))))) (\<lambda>environments.
     bindP (conflict_loop fault rest) (\<lambda>conflicts. returnP ((namespace, environments) # conflicts)))"

definition ListEnvironmentNamespaceConflicts ::
  "(nat \<Rightarrow> bool) \<Rightarrow> (db_error, (string \<times> Environment list) list) workspace_proc" where
  "ListEnvironmentNamespaceConflicts fault =
     bindP (db_read fault (\<lambda>d. Inr (duplicate_namespaces (wd_environments d)))) (conflict_loop fault)"

definition IsEnvironmentNamespaceConflicted :: "(nat \<Rightarrow> bool) \<Rightarrow> string \<Rightarrow> (db_error, bool) workspace_proc" where
  "IsEnvironmentNamespaceConflicted fault namespace = db_read fault (\<lambda>d.
     Inr (length (filter (\<lambda>e. en_Namespace e = namespace) (wd_environments d)) > 1))"

text \<open>\<open>CREATE UNIQUE INDEX IF NOT EXISTS\<close>\<close>

definition create_namespace_index :: "workspace_db \<Rightarrow> (db_error + unit) \<times> workspace_db" where
  "create_namespace_index d =
     (if wd_namespace_index d \<or> distinct (map en_Namespace (wd_environments d))
      then (Inr (), d\<lparr>wd_namespace_index := True\<rparr>) else (Inl ErrConstraint, d))"

definition ReconcileEnvironmentNamespaceUniqueness :: "(nat \<Rightarrow> bool) \<Rightarrow> (db_error, unit) workspace_proc" where
  "ReconcileEnvironmentNamespaceUniqueness fault =
     bindP (ListEnvironmentNamespaceConflicts fault) (\<lambda>conflicts.
       if conflicts \<noteq> [] then returnP ()
       else db_call fault create_namespace_index)"

definition UpdateEnvironment ::
  "(nat \<Rightarrow> bool) \<Rightarrow> int \<Rightarrow> Environment option \<Rightarrow> (store_error, unit) workspace_proc" where
  "UpdateEnvironment fault now environment =
     (case environment of
        None \<Rightarrow> failP EnvironmentRequired
      | Some e \<Rightarrow>
          bindP (transaction fault StoreDB (
            bindP (ensureNamespaceAvailable fault (en_Namespace e) (en_ID e)) (\<lambda>_.
              lift_store (db_call fault (save_environment now e))))) (\<lambda>_.
          lift_store (ReconcileEnvironmentNamespaceUniqueness fault)))"

definition DeleteEnvironment :: "(nat \<Rightarrow> bool) \<Rightarrow> nat \<Rightarrow> (db_error, unit) workspace_proc" where
  "DeleteEnvironment fault i =
     bindP (db_write fault (\<lambda>d. d\<lparr>wd_environments := filter (\<lambda>e. en_ID e \<noteq> i) (wd_environments d)\<rparr>)) (\<lambda>_.
       ReconcileEnvironmentNamespaceUniqueness fault)"

definition CountEnvironmentApplications :: "(nat \<Rightarrow> bool) \<Rightarrow> nat \<Rightarrow> (db_error, nat) workspace_proc" where
  "CountEnvironmentApplications fault environmentID = db_read fault (\<lambda>d.
     Inr (length (filter (\<lambda>a. ap_EnvironmentID a = environmentID) (rd_apps d))))"

section \<open>Applications\<close>

text \<open>An application with its project and environment; a missing row is loaded as the zero value.\<close>

definition zero_project :: Project where
  "zero_project = \<lparr>pj_ID = 0, pj_Name = [], pj_DefaultImageRegistryID = None, pj_OwnerID = 0, pj_CreatedAt = zero_time\<rparr>"

definition zero_environment :: Environment where
  "zero_environment = \<lparr>en_ID = 0, en_ProjectID = 0, en_Name = [], en_Namespace = [], en_CreatedAt = zero_time\<rparr>"

definition preload_application :: "workspace_db \<Rightarrow> Application \<Rightarrow> Application" where
  "preload_application d app =
     app\<lparr>ap_Project := case_option zero_project id (tbl_find pj_ID (ap_ProjectID app) (wd_projects d)),
         ap_Environment := case_option zero_environment id (tbl_find en_ID (ap_EnvironmentID app) (wd_environments d))\<rparr>"

text \<open>The unique index on environment and name; an empty workload kind is stored as \<open>deployment\<close>.\<close>

definition application_clash :: "Application \<Rightarrow> Application \<Rightarrow> bool" where
  "application_clash row a \<longleftrightarrow> ap_EnvironmentID a = ap_EnvironmentID row \<and> ap_Name a = ap_Name row"

definition insert_application :: "int \<Rightarrow> Application \<Rightarrow> workspace_db \<Rightarrow> (db_error + Application) \<times> workspace_db" where
  "insert_application now app d =
     (let row = app\<lparr>ap_ID := assign_id d Applications (ap_ID app), ap_CreatedAt := created_at now (ap_CreatedAt app),
            ap_WorkloadKind := (if ap_WorkloadKind app = [] then ''deployment'' else ap_WorkloadKind app)\<rparr> in
      if list_ex (\<lambda>a. ap_ID a = ap_ID row \<or> application_clash row a) (rd_apps d) then (Inl ErrConstraint, d)
      else (Inr row, note_id Applications (ap_ID row) (d\<lparr>rd_apps := rd_apps d @ [row]\<rparr>)))"

definition save_application :: "int \<Rightarrow> Application \<Rightarrow> workspace_db \<Rightarrow> (db_error + Application) \<times> workspace_db" where
  "save_application now app d =
     (if ap_ID app = 0 then insert_application now app d
      else if list_ex (\<lambda>a. ap_ID a \<noteq> ap_ID app \<and> application_clash app a) (rd_apps d) then (Inl ErrConstraint, d)
      else (Inr app, note_id Applications (ap_ID app) (d\<lparr>rd_apps := tbl_save ap_ID app (rd_apps d)\<rparr>)))"

definition CreateApplication :: "(nat \<Rightarrow> bool) \<Rightarrow> int \<Rightarrow> Application \<Rightarrow> (store_error, Application) workspace_proc" where
  "CreateApplication fault now app =
     (case SetCapabilities (ap_Capabilities app) app of
        Inl e \<Rightarrow> failP (StoreCapabilities e)
      | Inr app' \<Rightarrow> lift_store (db_call fault (insert_application now app')))"

definition UpdateApplication :: "(nat \<Rightarrow> bool) \<Rightarrow> int \<Rightarrow> Application \<Rightarrow> (store_error, Application) workspace_proc" where
  "UpdateApplication fault now app =
     (case SetCapabilities (ap_Capabilities app) app of
        Inl e \<Rightarrow> failP (StoreCapabilities e)
      | Inr app' \<Rightarrow> lift_store (db_call fault (save_application now app')))"

definition read_application :: "(nat \<Rightarrow> bool) \<Rightarrow> nat \<Rightarrow> (db_error, Application) workspace_proc" where
  "read_application fault i = db_read fault (\<lambda>d.
     found (map_option (\<lambda>a. LoadCapabilities (preload_application d a)) (tbl_find ap_ID i (rd_apps d))))"

definition GetApplicationByEnvironmentName :: "(nat \<Rightarrow> bool) \<Rightarrow> nat \<Rightarrow> string \<Rightarrow> (db_error, Application) workspace_proc" where
  "GetApplicationByEnvironmentName fault environmentID name = db_read fault (\<lambda>d.
     found (map_option (\<lambda>a. LoadCapabilities (preload_application d a))
       (find (\<lambda>a. ap_EnvironmentID a = environmentID \<and> ap_Name a = name) (rd_apps d))))"

text \<open>The optional scope: project, then environment; zero is no restriction.\<close>

definition in_scope :: "nat list \<Rightarrow> Application \<Rightarrow> bool" where
  "in_scope scope a \<longleftrightarrow>
     (length scope > 0 \<and> scope ! 0 \<noteq> 0 \<longrightarrow> ap_ProjectID a = scope ! 0) \<and>
     (length scope > 1 \<and> scope ! 1 \<noteq> 0 \<longrightarrow> ap_EnvironmentID a = scope ! 1)"

definition ListApplications :: "(nat \<Rightarrow> bool) \<Rightarrow> nat list \<Rightarrow> (db_error, Application list) workspace_proc" where
  "ListApplications fault scope = db_read fault (\<lambda>d.
     Inr (map (\<lambda>a. LoadCapabilities (preload_application d a))
       (rev (sort_key ap_CreatedAt (filter (in_scope scope) (rd_apps d))))))"

definition ReplaceApplicationCapabilities ::
  "(nat \<Rightarrow> bool) \<Rightarrow> nat \<Rightarrow> string list \<Rightarrow> (store_error, Application) workspace_proc" where
  "ReplaceApplicationCapabilities fault applicationID vals =
     (case NormalizeApplicationCapabilities vals of
        Inl e \<Rightarrow> failP (StoreCapabilities e)
      | Inr normalized \<Rightarrow>
          bindP (lift_store (db_write fault (\<lambda>d. d\<lparr>rd_apps := map (\<lambda>a. if ap_ID a = applicationID
              then a\<lparr>ap_CapabilitiesData := JSON normalized\<rparr> else a) (rd_apps d)\<rparr>))) (\<lambda>_.
          lift_store (read_application fault applicationID)))"

definition ListReleasesByApplications ::
  "(nat \<Rightarrow> bool) \<Rightarrow> nat list \<Rightarrow> (db_error, (nat \<times> Release list) list) workspace_proc" where
  "ListReleasesByApplications fault applicationIDs =
     (if applicationIDs = [] then returnP []
      else db_read fault (\<lambda>d.
        Inr (fold (\<lambda>r result. map_put (rl_ApplicationID r)
               ((case map_of result (rl_ApplicationID r) of None \<Rightarrow> [] | Some rs \<Rightarrow> rs) @ [r]) result)
          (rev (sort_key rl_Sequence (filter (\<lambda>r. rl_ApplicationID r \<in> set applicationIDs) (rd_releases d)))) [])))"

text \<open>Operations are created in the order of their keys.\<close>

definition ListReleaseOperations :: "(nat \<Rightarrow> bool) \<Rightarrow> nat \<Rightarrow> (db_error, ReleaseOperation list) workspace_proc" where
  "ListReleaseOperations fault releaseID = db_read fault (\<lambda>d.
     Inr (sort_key ro_ID (filter (\<lambda>r. ro_ReleaseID r = releaseID) (rd_operations d))))"

definition GetApplicationManagedFile :: "(nat \<Rightarrow> bool) \<Rightarrow> nat \<Rightarrow> nat \<Rightarrow> (db_error, ApplicationManagedFile) workspace_proc" where
  "GetApplicationManagedFile fault applicationID fileID = db_read fault (\<lambda>d.
     found (find (\<lambda>f. mf_ApplicationID f = applicationID \<and> mf_ID f = fileID \<and> mf_Enabled f) (rd_files d)))"

section \<open>Endpoints\<close>

text \<open>The defaults of the columns replace zero values when a row is created.\<close>

definition endpoint_defaults :: "ApplicationEndpoint \<Rightarrow> ApplicationEndpoint" where
  "endpoint_defaults e =
     e\<lparr>ae_Exposure := (if ae_Exposure e = [] then ''cluster'' else ae_Exposure e),
       ae_Path := (if ae_Path e = [] then ''/'' else ae_Path e),
       ae_Protocol := (if ae_Protocol e = [] then ''TCP'' else ae_Protocol e),
       ae_IngressEnabled := True,
       ae_IngressMode := (if ae_IngressMode e = [] then ''ingress'' else ae_IngressMode e),
       ae_AccessMode := (if ae_AccessMode e = [] then ''public'' else ae_AccessMode e)\<rparr>"

definition CreateApplicationEndpoint :: "(nat \<Rightarrow> bool) \<Rightarrow> ApplicationEndpoint \<Rightarrow> (db_error, ApplicationEndpoint) workspace_proc" where
  "CreateApplicationEndpoint fault endpoint = db_call fault (\<lambda>d.
     let row = endpoint_defaults (endpoint\<lparr>ae_ID := assign_id d Endpoints (ae_ID endpoint)\<rparr>) in
     if list_ex (\<lambda>e. ae_ID e = ae_ID row) (rd_endpoints d) then (Inl ErrConstraint, d)
     else (Inr row, note_id Endpoints (ae_ID row) (d\<lparr>rd_endpoints := rd_endpoints d @ [row]\<rparr>)))"

definition GetApplicationEndpoint :: "(nat \<Rightarrow> bool) \<Rightarrow> nat \<Rightarrow> nat \<Rightarrow> (db_error, ApplicationEndpoint) workspace_proc" where
  "GetApplicationEndpoint fault applicationID endpointID = db_read fault (\<lambda>d.
     found (find (\<lambda>e. ae_ApplicationID e = applicationID \<and> ae_ID e = endpointID) (rd_endpoints d)))"

definition DeleteApplicationEndpoint :: "(nat \<Rightarrow> bool) \<Rightarrow> nat \<Rightarrow> nat \<Rightarrow> (db_error, unit) workspace_proc" where
  "DeleteApplicationEndpoint fault applicationID endpointID = db_write fault (\<lambda>d.
     d\<lparr>rd_endpoints := filter (\<lambda>e. \<not> (ae_ApplicationID e = applicationID \<and> ae_ID e = endpointID)) (rd_endpoints d)\<rparr>)"

definition CountApplicationEndpointsByDomain :: "(nat \<Rightarrow> bool) \<Rightarrow> nat \<Rightarrow> (db_error, nat) workspace_proc" where
  "CountApplicationEndpointsByDomain fault domainID = db_read fault (\<lambda>d.
     Inr (length (filter (\<lambda>e. ae_DomainID e = domainID) (rd_endpoints d))))"

definition CountApplicationEndpointRoute :: "(nat \<Rightarrow> bool) \<Rightarrow> nat \<Rightarrow> string \<Rightarrow> nat \<Rightarrow> (db_error, nat) workspace_proc" where
  "CountApplicationEndpointRoute fault domainID path exceptEndpointID = db_read fault (\<lambda>d.
     Inr (length (filter (\<lambda>e. ae_DomainID e = domainID \<and> ae_Path e = path \<and> ae_IngressMode e \<noteq> ''metadata'' \<and>
       (exceptEndpointID \<noteq> 0 \<longrightarrow> ae_ID e \<noteq> exceptEndpointID)) (rd_endpoints d))))"

section \<open>Deployment templates\<close>

text \<open>
  The unique index on application and name. \<open>Enabled\<close> has a column default, so that a row is always
  created enabled.
\<close>

definition template_clash :: "ApplicationDeploymentTemplate \<Rightarrow> ApplicationDeploymentTemplate \<Rightarrow> bool" where
  "template_clash row t \<longleftrightarrow> dt_ApplicationID t = dt_ApplicationID row \<and> dt_Name t = dt_Name row"

definition insert_template ::
  "int \<Rightarrow> ApplicationDeploymentTemplate \<Rightarrow> workspace_db \<Rightarrow> (db_error + ApplicationDeploymentTemplate) \<times> workspace_db" where
  "insert_template now template d =
     (let row = template\<lparr>dt_ID := assign_id d Templates (dt_ID template), dt_Enabled := True,
            dt_CreatedAt := created_at now (dt_CreatedAt template)\<rparr> in
      if list_ex (\<lambda>t. dt_ID t = dt_ID row \<or> template_clash row t) (rd_templates d) then (Inl ErrConstraint, d)
      else (Inr row, note_id Templates (dt_ID row) (d\<lparr>rd_templates := rd_templates d @ [row]\<rparr>)))"

definition save_template ::
  "int \<Rightarrow> ApplicationDeploymentTemplate \<Rightarrow> workspace_db \<Rightarrow> (db_error + ApplicationDeploymentTemplate) \<times> workspace_db" where
  "save_template now template d =
     (if dt_ID template = 0 then insert_template now template d
      else if list_ex (\<lambda>t. dt_ID t \<noteq> dt_ID template \<and> template_clash template t) (rd_templates d) then (Inl ErrConstraint, d)
      else (Inr template, note_id Templates (dt_ID template)
        (d\<lparr>rd_templates := tbl_save dt_ID template (rd_templates d)\<rparr>)))"

definition set_default :: "nat option \<Rightarrow> (Application \<Rightarrow> bool) \<Rightarrow> workspace_db \<Rightarrow> workspace_db" where
  "set_default templateID P d =
     d\<lparr>rd_apps := map (\<lambda>a. if P a then a\<lparr>ap_DefaultDeploymentTemplateID := templateID\<rparr> else a) (rd_apps d)\<rparr>"

definition ListApplicationDeploymentTemplates ::
  "(nat \<Rightarrow> bool) \<Rightarrow> nat \<Rightarrow> (db_error, ApplicationDeploymentTemplate list) workspace_proc" where
  "ListApplicationDeploymentTemplates fault applicationID = db_read fault (\<lambda>d.
     Inr (sort_key dt_CreatedAt (filter (\<lambda>t. dt_ApplicationID t = applicationID) (rd_templates d))))"

definition CreateApplicationDeploymentTemplate ::
  "(nat \<Rightarrow> bool) \<Rightarrow> int \<Rightarrow> ApplicationDeploymentTemplate \<Rightarrow> bool \<Rightarrow> (db_error, ApplicationDeploymentTemplate) workspace_proc" where
  "CreateApplicationDeploymentTemplate fault now template makeDefault = transaction fault id (
     bindP (db_call fault (insert_template now (template\<lparr>dt_Revision := 1\<rparr>))) (\<lambda>row.
       if makeDefault then
         bindP (db_write fault (set_default (Some (dt_ID row)) (\<lambda>a. ap_ID a = dt_ApplicationID row))) (\<lambda>_. returnP row)
       else returnP row))"

text \<open>The stored row of a template that is about to be changed.\<close>

definition current_template ::
  "(nat \<Rightarrow> bool) \<Rightarrow> ApplicationDeploymentTemplate \<Rightarrow> (db_error, ApplicationDeploymentTemplate) workspace_proc" where
  "current_template fault template = db_read fault (\<lambda>d.
     found (find (\<lambda>t. dt_ID t = dt_ID template \<and> dt_ApplicationID t = dt_ApplicationID template) (rd_templates d)))"

definition advanced :: "ApplicationDeploymentTemplate \<Rightarrow> ApplicationDeploymentTemplate \<Rightarrow> ApplicationDeploymentTemplate" where
  "advanced current template =
     template\<lparr>dt_CreatedAt := dt_CreatedAt current, dt_Revision := (dt_Revision current + 1) mod 2 ^ 64\<rparr>"

definition UpdateApplicationDeploymentTemplate ::
  "(nat \<Rightarrow> bool) \<Rightarrow> int \<Rightarrow> ApplicationDeploymentTemplate \<Rightarrow> (db_error, ApplicationDeploymentTemplate) workspace_proc" where
  "UpdateApplicationDeploymentTemplate fault now template = transaction fault id (
     bindP (current_template fault template) (\<lambda>current.
       db_call fault (save_template now (advanced current template))))"

definition UpdateApplicationDeploymentTemplateIfRevision ::
  "(nat \<Rightarrow> bool) \<Rightarrow> int \<Rightarrow> ApplicationDeploymentTemplate \<Rightarrow> nat \<Rightarrow> (store_error, ApplicationDeploymentTemplate) workspace_proc" where
  "UpdateApplicationDeploymentTemplateIfRevision fault now template expectedRevision = transaction fault StoreDB (
     bindP (lift_store (current_template fault template)) (\<lambda>current.
       if dt_Revision current \<noteq> expectedRevision
       then failP (TemplateRevisionConflictError (dt_Revision current) expectedRevision)
       else lift_store (db_call fault (save_template now (advanced current template)))))"

definition SetDefaultApplicationDeploymentTemplate :: "(nat \<Rightarrow> bool) \<Rightarrow> nat \<Rightarrow> nat \<Rightarrow> (db_error, unit) workspace_proc" where
  "SetDefaultApplicationDeploymentTemplate fault applicationID templateID = transaction fault id (
     bindP (db_read fault (\<lambda>d. found (find (\<lambda>t. dt_ID t = templateID \<and> dt_ApplicationID t = applicationID \<and> dt_Enabled t)
              (rd_templates d)))) (\<lambda>_.
       db_write fault (set_default (Some templateID) (\<lambda>a. ap_ID a = applicationID))))"

definition DeleteApplicationDeploymentTemplate :: "(nat \<Rightarrow> bool) \<Rightarrow> nat \<Rightarrow> nat \<Rightarrow> (store_error, unit) workspace_proc" where
  "DeleteApplicationDeploymentTemplate fault applicationID templateID = transaction fault StoreDB (
     bindP (lift_store (db_read fault (\<lambda>d. Inr (length (filter (\<lambda>r. rl_TemplateID r = Some templateID) (rd_releases d)))))) (\<lambda>releases.
       if releases > 0 then failP TemplateInUse
       else bindP (lift_store (db_write fault (\<lambda>d.
              d\<lparr>rd_templates := filter (\<lambda>t. \<not> (dt_ID t = templateID \<and> dt_ApplicationID t = applicationID)) (rd_templates d)\<rparr>))) (\<lambda>_.
            lift_store (db_write fault (set_default None
              (\<lambda>a. ap_ID a = applicationID \<and> ap_DefaultDeploymentTemplateID a = Some templateID))))))"

text \<open>The upgrade of legacy rows at start: name the unnamed templates and fill in missing defaults.\<close>

definition legacy_template_name :: string where
  "legacy_template_name = map char_of [0xE9, 0xBB, 0x98, 0xE8, 0xAE, 0xA4, 0xE6, 0xA8, 0xA1, 0xE6, 0x9D, 0xBF :: nat]"

fun name_loop :: "(nat \<Rightarrow> bool) \<Rightarrow> int \<Rightarrow> ApplicationDeploymentTemplate list \<Rightarrow> (db_error, unit) workspace_proc" where
  "name_loop fault now [] = returnP ()"
| "name_loop fault now (template # rest) =
     bindP (db_call fault (save_template now (template\<lparr>dt_Name := legacy_template_name, dt_Enabled := True\<rparr>))) (\<lambda>_.
       name_loop fault now rest)"

fun default_loop :: "(nat \<Rightarrow> bool) \<Rightarrow> Application list \<Rightarrow> (db_error, unit) workspace_proc" where
  "default_loop fault [] = returnP ()"
| "default_loop fault (app # rest) =
     tryP (db_read fault (\<lambda>d. found (find (\<lambda>t. dt_ApplicationID t = ap_ID app) (sort_key dt_ID (rd_templates d))))) (\<lambda>r. case r of
       Inl ErrRecordNotFound \<Rightarrow> default_loop fault rest
     | Inl e \<Rightarrow> failP e
     | Inr template \<Rightarrow>
         bindP (db_write fault (set_default (Some (dt_ID template)) (\<lambda>a. ap_ID a = ap_ID app))) (\<lambda>_. default_loop fault rest))"

definition backfillApplicationDeploymentTemplates :: "(nat \<Rightarrow> bool) \<Rightarrow> int \<Rightarrow> (db_error, unit) workspace_proc" where
  "backfillApplicationDeploymentTemplates fault now = transaction fault id (
     bindP (db_read fault (\<lambda>d. Inr (filter (\<lambda>t. dt_Name t = []) (rd_templates d)))) (\<lambda>templates.
     bindP (name_loop fault now templates) (\<lambda>_.
     bindP (db_read fault (\<lambda>d. Inr (filter (\<lambda>a. ap_DefaultDeploymentTemplateID a = None) (rd_apps d)))) (default_loop fault))))"

section \<open>References to a resource\<close>

record ResourceReference =
  rr_ApplicationID :: nat
  rr_ApplicationName :: string
  rr_Kind :: string
  rr_Name :: string

definition mounts_resource :: "string \<Rightarrow> string \<Rightarrow> ReleaseSpec json \<Rightarrow> bool" where
  "mounts_resource sourceType sourceName raw =
     (case unmarshal raw of
        None \<Rightarrow> False
      | Some spec \<Rightarrow> list_ex (\<lambda>mount. fm_SourceType mount = sourceType \<and> fm_SourceName mount = sourceName) (sp_FileMounts spec))"

definition reference_to :: "Application list \<Rightarrow> nat \<Rightarrow> string \<Rightarrow> string \<Rightarrow> ResourceReference" where
  "reference_to apps applicationID kind name =
     (case tbl_find ap_ID applicationID apps of
        None \<Rightarrow> \<lparr>rr_ApplicationID = 0, rr_ApplicationName = [], rr_Kind = kind, rr_Name = name\<rparr>
      | Some app \<Rightarrow> \<lparr>rr_ApplicationID = ap_ID app, rr_ApplicationName = ap_Name app, rr_Kind = kind, rr_Name = name\<rparr>)"

definition ListResourceReferences ::
  "(nat \<Rightarrow> bool) \<Rightarrow> string \<Rightarrow> string \<Rightarrow> string \<Rightarrow> (db_error, ResourceReference list) workspace_proc" where
  "ListResourceReferences fault namespace sourceType sourceName =
     bindP (db_read fault (\<lambda>d. Inr (map (preload_application d) (rd_apps d)))) (\<lambda>applications.
       let apps = filter (\<lambda>a. en_Namespace (ap_Environment a) = namespace) applications; ids = map ap_ID apps in
       if ids = [] then returnP []
       else
         bindP (db_read fault (\<lambda>d. Inr (filter (\<lambda>t. dt_ApplicationID t \<in> set ids) (rd_templates d)))) (\<lambda>templates.
         bindP (db_read fault (\<lambda>d. Inr (filter (\<lambda>r. rl_ApplicationID r \<in> set ids) (rd_releases d)))) (\<lambda>releases.
           returnP
             (map (\<lambda>t. reference_to apps (dt_ApplicationID t) ''template'' (dt_Name t))
                (filter (\<lambda>t. mounts_resource sourceType sourceName (dt_Spec t)) templates) @
              map (\<lambda>r. reference_to apps (rl_ApplicationID r) ''release'' (''Release #'' @ show_nat (rl_Sequence r)))
                (filter (\<lambda>r. mounts_resource sourceType sourceName (rl_DesiredSpec r)) releases)))))"

section \<open>Queries\<close>

text \<open>\<open>internal/service/application/query.go\<close>: any failure to read the pair is the same answer.\<close>

datatype query_error = ErrEnvironmentNotInProject

definition ResolveEnvironment :: "(nat \<Rightarrow> bool) \<Rightarrow> nat \<Rightarrow> nat \<Rightarrow> (query_error, Environment) workspace_proc" where
  "ResolveEnvironment fault projectID environmentID =
     tryP (GetEnvironment fault projectID environmentID) (\<lambda>r. case r of
       Inl _ \<Rightarrow> failP ErrEnvironmentNotInProject | Inr environment \<Rightarrow> returnP environment)"

section \<open>Changing the workload kind\<close>

text \<open>
  \<open>internal/service/application/workload.go\<close>. The cluster is a parameter that answers from what was asked
  before; the asked migrations are kept beside the tables. \<open>UpdateKind\<close> returns the application the
  caller's pointer holds afterwards.
\<close>

datatype workload_error =
    ApplicationNil | ErrWorkloadPersistence store_error | ErrWorkloadSnapshot | MigratorUnavailable | MigratorFailed string

datatype migrator_event = EvMigratePreflight ApplicationContext ReleaseSpec | EvMigrate ApplicationContext ReleaseSpec string

record WorkloadMigrator =
  wm_Preflight :: "migrator_event list \<Rightarrow> ApplicationContext \<Rightarrow> ReleaseSpec \<Rightarrow> string option"
  wm_MigrateWorkloadKind :: "migrator_event list \<Rightarrow> ApplicationContext \<Rightarrow> ReleaseSpec \<Rightarrow> string \<Rightarrow> string option"

definition applicationContextFor :: "Application \<Rightarrow> ApplicationContext" where
  "applicationContextFor app =
     \<lparr>cx_ProjectID = ap_ProjectID app, cx_EnvironmentID = ap_EnvironmentID app, cx_ProjectName = [], cx_EnvironmentName = [],
      cx_ApplicationName = ap_Name app, cx_Namespace = en_Namespace (ap_Environment app), cx_ReleaseSequence = 0,
      cx_WorkloadKind = ap_WorkloadKind app\<rparr>"

definition persist_kind ::
  "(nat \<Rightarrow> bool) \<Rightarrow> int \<Rightarrow> Application \<Rightarrow> string \<Rightarrow> (workload_error, unit) workspace_proc" where
  "persist_kind fault now app target =
     tryP (UpdateApplication fault now (app\<lparr>ap_WorkloadKind := target\<rparr>)) (\<lambda>r. case r of
       Inl e \<Rightarrow> failP (ErrWorkloadPersistence e) | Inr _ \<Rightarrow> returnP ())"

definition UpdateKind ::
  "(nat \<Rightarrow> bool) \<Rightarrow> int \<Rightarrow> WorkloadMigrator option \<Rightarrow> Application option \<Rightarrow> string \<Rightarrow> workspace_db world \<Rightarrow>
   (workload_error + unit) \<times> migrator_event list \<times> workspace_db world" where
  "UpdateKind fault now migrator app target w =
     (let ending = (\<lambda>evs (r, w'). (r, evs, w')) in
      case app of
        None \<Rightarrow> (Inl ApplicationNil, [], w)
      | Some a \<Rightarrow>
          if ap_WorkloadKind a = target then (Inr (), [], w)
          else case on_releases (GetLatestSuccessfulRelease fault (ap_ID a)) w of
              (Inl ErrRecordNotFound, w1) \<Rightarrow> ending [] (persist_kind fault now a target w1)
            | (Inl e, w1) \<Rightarrow> (Inl (ErrWorkloadPersistence (StoreDB e)), [], w1)
            | (Inr release, w1) \<Rightarrow>
                (case unmarshal (rl_DesiredSpec release) of
                   None \<Rightarrow> (Inl ErrWorkloadSnapshot, [], w1)
                 | Some spec \<Rightarrow>
                     let cx = (applicationContextFor a)\<lparr>cx_ReleaseSequence := rl_Sequence release\<rparr> in
                     (case migrator of
                        None \<Rightarrow> (Inl MigratorUnavailable, [], w1)
                      | Some m \<Rightarrow>
                          let pre = [EvMigratePreflight cx spec] in
                          (case wm_Preflight m [] cx spec of
                             Some text \<Rightarrow> (Inl (MigratorFailed text), pre, w1)
                           | None \<Rightarrow>
                               let evs = pre @ [EvMigrate cx spec target] in
                               (case wm_MigrateWorkloadKind m pre cx spec target of
                                  Some text \<Rightarrow> (Inl (MigratorFailed text), evs, w1)
                                | None \<Rightarrow> ending evs (persist_kind fault now a target w1))))))"

section \<open>Invariants\<close>

text \<open>Namespaces: keys are distinct, and the unique index is only there over distinct namespaces.\<close>

definition conflicted :: "workspace_db \<Rightarrow> string set" where
  "conflicted d = {n. count_list (map en_Namespace (wd_environments d)) n > 1}"

definition namespaces_ok :: "workspace_db \<Rightarrow> bool" where
  "namespaces_ok d \<longleftrightarrow> distinct (map en_ID (wd_environments d)) \<and> 0 \<notin> en_ID ` set (wd_environments d) \<and>
     (wd_namespace_index d \<longrightarrow> distinct (map en_Namespace (wd_environments d)))"

definition namespaces_evolve :: "workspace_db \<Rightarrow> workspace_db \<Rightarrow> bool" where
  "namespaces_evolve d d' \<longleftrightarrow> (namespaces_ok d \<longrightarrow>
     namespaces_ok d' \<and> conflicted d' \<subseteq> conflicted d \<and> (wd_namespace_index d \<longrightarrow> wd_namespace_index d'))"

interpretation ns: data_evolution namespaces_evolve
  by unfold_locales (auto simp: namespaces_evolve_def)

text \<open>
  Templates: keys are distinct and were given out, revisions are 64-bit numbers, and the default
  template of an application and the template of a release are stored.
\<close>

definition template_keys :: "workspace_db \<Rightarrow> (nat \<times> nat) set" where
  "template_keys d = (\<lambda>t. (dt_ID t, dt_ApplicationID t)) ` set (rd_templates d)"

definition default_stored :: "workspace_db \<Rightarrow> Application \<Rightarrow> bool" where
  "default_stored d a \<longleftrightarrow> (\<forall>i. ap_DefaultDeploymentTemplateID a = Some i \<longrightarrow> (i, ap_ID a) \<in> template_keys d)"

definition templates_ok :: "workspace_db \<Rightarrow> bool" where
  "templates_ok d \<longleftrightarrow> distinct (map dt_ID (rd_templates d)) \<and>
     (\<forall>t \<in> set (rd_templates d). 0 < dt_ID t \<and> dt_ID t \<le> wd_seq d Templates \<and> dt_Revision t < 2 ^ 64) \<and>
     (\<forall>a \<in> set (rd_apps d). default_stored d a) \<and>
     (\<forall>r \<in> set (rd_releases d). \<forall>i. rl_TemplateID r = Some i \<longrightarrow> i \<in> dt_ID ` set (rd_templates d))"

text \<open>
  \<open>templates_evolve\<close>: the invariant is kept and no revision changes; \<open>template_step\<close>: the invariant is
  kept, a revision goes up by at most one and a key that was given out is not given out again.
\<close>

definition template_marks :: "workspace_db \<Rightarrow> (nat \<times> nat \<times> nat) set" where
  "template_marks d = (\<lambda>t. (dt_ID t, dt_ApplicationID t, dt_Revision t)) ` set (rd_templates d)"

definition templates_evolve :: "workspace_db \<Rightarrow> workspace_db \<Rightarrow> bool" where
  "templates_evolve d d' \<longleftrightarrow> (templates_ok d \<longrightarrow>
     templates_ok d' \<and> template_marks d' = template_marks d \<and> wd_seq d' Templates = wd_seq d Templates)"

interpretation tp: data_evolution templates_evolve
  by unfold_locales (auto simp: templates_evolve_def)

definition marks_step :: "workspace_db \<Rightarrow> workspace_db \<Rightarrow> bool" where
  "marks_step d d' \<longleftrightarrow> wd_seq d Templates \<le> wd_seq d' Templates \<and>
     (\<forall>i a' r'. i \<le> wd_seq d Templates \<longrightarrow> (i, a', r') \<in> template_marks d' \<longrightarrow>
        (\<exists>a r. (i, a, r) \<in> template_marks d \<and> (r' = r \<or> r' = (r + 1) mod 2 ^ 64)))"

definition template_step :: "workspace_db \<Rightarrow> workspace_db \<Rightarrow> bool" where
  "template_step d d' \<longleftrightarrow> (templates_ok d \<longrightarrow> templates_ok d' \<and> marks_step d d')"

lemma template_step_refl: "template_step d d"
  by (auto simp: template_step_def marks_step_def)

lemma templates_evolve_step: "templates_evolve d d' \<Longrightarrow> template_step d d'"
  by (auto simp: templates_evolve_def template_step_def marks_step_def)

subsection \<open>Tables\<close>

lemma lift_store_Inr: "lift_store m w = (Inr x, w') \<longleftrightarrow> m w = (Inr x, w')"
  by (auto simp: lift_store_def split: prod.splits sum.splits)

lemma lift_store_snd [simp]: "snd (lift_store m w) = snd (m w)"
  by (auto simp: lift_store_def split: prod.splits sum.splits)

lemma lift_store_keeps: "keeps R (lift_store m) = keeps R m"
  by (simp add: keeps_def)

lemma note_id_simps [simp]:
  "wd_environments (note_id tab i d) = wd_environments d" "wd_namespace_index (note_id tab i d) = wd_namespace_index d"
  "rd_templates (note_id tab i d) = rd_templates d" "rd_apps (note_id tab i d) = rd_apps d"
  "rd_releases (note_id tab i d) = rd_releases d" "wd_projects (note_id tab i d) = wd_projects d"
  by (simp_all add: note_id_def)

lemma count_list_filter: "count_list (map f xs) n = length (filter (\<lambda>x. f x = n) xs)"
  by (induction xs) auto

lemma count_list_distinct: "distinct xs \<longleftrightarrow> (\<forall>n. count_list xs n \<le> 1)"
proof (induction xs)
  case (Cons x xs)
  have "count_list xs x = 0 \<longleftrightarrow> x \<notin> set xs" by (metis count_list_0_iff)
  with Cons show ?case by (auto simp: le_Suc_eq)
qed simp

lemma distinct_conflicted: "distinct (map en_Namespace (wd_environments d)) \<longleftrightarrow> conflicted d = {}"
  by (simp add: count_list_distinct conflicted_def) (meson leI le_refl not_less order.strict_trans1)

text \<open>Storing a row whose value no other row has adds no repetition of values.\<close>

lemma count_list_save:
  assumes "\<forall>x \<in> set rows. key x \<noteq> key r \<longrightarrow> f x \<noteq> f r" and "distinct (map key rows)"
  shows "count_list (map f (tbl_save key r rows)) n \<le> (if n = f r then 1 else count_list (map f rows) n)"
  using assms
proof (induction rows)
  case (Cons x xs)
  have none: "count_list (map f xs) (f r) = 0" if "key x = key r"
  proof -
    have "f y \<noteq> f r" if "y \<in> set xs" for y
      using that \<open>key x = key r\<close> Cons.prems by (metis distinct.simps(2) image_eqI list.set_intros(2) list.set_map list.simps(9))
    then have "f r \<notin> set (map f xs)" by force
    then show ?thesis by (simp only: count_list_0_iff not_False_eq_True)
  qed
  show ?case
  proof (cases "key x = key r")
    case True
    with none show ?thesis by auto
  next
    case False
    with Cons show ?thesis by (auto split: if_splits)
  qed
qed simp

subsection \<open>Environments\<close>

lemma ensure_Inr:
  assumes "ensureNamespaceAvailable fault namespace i w = (Inr u, w')"
  shows "db w' = db w \<and> (\<forall>e \<in> set (wd_environments (db w)). (i = 0 \<or> en_ID e \<noteq> i) \<longrightarrow> en_Namespace e \<noteq> namespace)"
proof -
  have "db w' = db w \<and> find (\<lambda>e. en_Namespace e = namespace \<and> (i \<noteq> 0 \<longrightarrow> en_ID e \<noteq> i)) (sort_key en_ID (wd_environments (db w))) = None"
    using assms by (auto simp: ensureNamespaceAvailable_def tryP_def db_defs failP_def returnP_def found_def
        split: if_splits option.splits db_error.splits sum.splits)
  then show ?thesis by (auto simp: find_None_iff)
qed

lemma ensure_db: "db (snd (ensureNamespaceAvailable fault namespace i w)) = db w"
  by (auto simp: ensureNamespaceAvailable_def tryP_def db_defs failP_def returnP_def
      split: if_splits option.splits db_error.splits sum.splits prod.splits)

text \<open>The two ways a row of the table is written, after the check for the namespace.\<close>

lemma insert_environment_ok:
  assumes "namespaces_ok d" and "\<forall>e \<in> set (wd_environments d). en_Namespace e \<noteq> en_Namespace row"
    and "insert_environment now row d = (r, d')"
  shows "namespaces_ok d' \<and> conflicted d' \<subseteq> conflicted d \<and> wd_namespace_index d' = wd_namespace_index d"
proof (cases r)
  case (Inl e)
  with assms show ?thesis by (auto simp: insert_environment_def Let_def split: if_splits)
next
  case (Inr x)
  then have d': "d' = note_id Environments (en_ID x) (d\<lparr>wd_environments := wd_environments d @ [x]\<rparr>)"
      and x: "en_ID x \<notin> en_ID ` set (wd_environments d)" "en_ID x \<noteq> 0" "en_Namespace x = en_Namespace row"
    using assms(3) by (auto simp: insert_environment_def Let_def list_ex_iff assign_id_def split: if_splits)
  have "count_list (map en_Namespace (wd_environments d)) (en_Namespace row) = 0"
    using assms(2) by (auto simp: count_list_0_iff)
  then have "conflicted d' \<subseteq> conflicted d" using d' x by (auto simp: conflicted_def)
  moreover have "namespaces_ok d'" using assms(1,2) d' x by (auto simp: namespaces_ok_def)
  ultimately show ?thesis using d' by simp
qed

lemma save_environment_ok:
  assumes "namespaces_ok d" and "\<forall>e \<in> set (wd_environments d). (en_ID row = 0 \<or> en_ID e \<noteq> en_ID row) \<longrightarrow> en_Namespace e \<noteq> en_Namespace row"
    and "save_environment now row d = (r, d')"
  shows "namespaces_ok d' \<and> conflicted d' \<subseteq> conflicted d \<and> wd_namespace_index d' = wd_namespace_index d"
proof (cases "en_ID row = 0 \<or> (\<exists>e. r = Inl e)")
  case True
  with assms insert_environment_ok [of d row now r d'] show ?thesis
    by (auto simp: save_environment_def split: if_splits)
next
  case False
  then have d': "d' = note_id Environments (en_ID row) (d\<lparr>wd_environments := tbl_save en_ID row (wd_environments d)\<rparr>)"
    using assms(3) by (auto simp: save_environment_def split: if_splits)
  have other: "\<forall>e \<in> set (wd_environments d). en_ID e \<noteq> en_ID row \<longrightarrow> en_Namespace e \<noteq> en_Namespace row"
    using assms(2) by simp
  have ids: "distinct (map en_ID (wd_environments d))" using assms(1) by (simp add: namespaces_ok_def)
  have count: "count_list (map en_Namespace (wd_environments d')) n
      \<le> (if n = en_Namespace row then 1 else count_list (map en_Namespace (wd_environments d)) n)" for n
    using count_list_save [OF other ids, of n] d' by simp
  have conf: "conflicted d' \<subseteq> conflicted d"
  proof
    fix n assume "n \<in> conflicted d'"
    then show "n \<in> conflicted d" using count [of n] by (auto simp: conflicted_def split: if_splits)
  qed
  moreover have "namespaces_ok d'"
    using assms(1) d' False tbl_save_distinct [OF ids, of row] conf distinct_conflicted [of d] distinct_conflicted [of d']
    by (auto simp: namespaces_ok_def tbl_save_keys)
  ultimately show ?thesis using d' by simp
qed

lemma transaction_keeps:
  assumes "\<And>d. R d d" and "\<And>w x w'. body w = (Inr x, w') \<Longrightarrow> R (db w) (db w')"
  shows "keeps R (transaction fault wrap body)"
  unfolding keeps_def
proof
  fix w
  obtain r w' where t: "transaction fault wrap body w = (r, w')" by (cases "transaction fault wrap body w")
  show "R (db w) (db (snd (transaction fault wrap body w)))"
  proof (cases r)
    case (Inl e)
    with t show ?thesis using assms(1) by (simp add: transaction_Inl)
  next
    case (Inr x)
    with t obtain w1 w2 where "db w1 = db w" "body w1 = (Inr x, w2)" "db w' = db w2"
      by (auto elim: transaction_Inr)
    with t assms(2) [of w1 x w2] show ?thesis by simp
  qed
qed

lemma db_call_Inr: "db_call fault f w = (Inr x, w') \<Longrightarrow> f (db w) = (Inr x, db w')"
  by (auto simp: db_call_def split: if_splits prod.splits)

lemma CreateEnvironment_keeps: "keeps namespaces_evolve (CreateEnvironment fault now e)"
proof (cases e)
  case (Some row)
  show ?thesis unfolding CreateEnvironment_def Some option.case
  proof (rule transaction_keeps [OF ns.refl])
    fix w :: "workspace_db world" and x w'
    assume "bindP (ensureNamespaceAvailable fault (en_Namespace row) 0)
      (\<lambda>_. lift_store (db_call fault (insert_environment now row))) w = (Inr x, w')"
    then obtain w1 where e: "ensureNamespaceAvailable fault (en_Namespace row) 0 w = (Inr (), w1)"
        and i: "insert_environment now row (db w1) = (Inr x, db w')"
      by (auto elim!: bindP_Inr_elim simp: lift_store_Inr dest!: db_call_Inr)
    show "namespaces_evolve (db w) (db w')"
      using ensure_Inr [OF e] insert_environment_ok [OF _ _ i] unfolding namespaces_evolve_def by simp
  qed
qed (simp add: CreateEnvironment_def ns.keeps_failP)

lemma conflict_loop_keeps: "keeps namespaces_evolve (conflict_loop fault names)"
  by (induction names) (auto intro!: ns.keeps_intros)

lemma Reconcile_keeps: "keeps namespaces_evolve (ReconcileEnvironmentNamespaceUniqueness fault)"
  unfolding ReconcileEnvironmentNamespaceUniqueness_def ListEnvironmentNamespaceConflicts_def
  by (intro ns.keeps_intros conflict_loop_keeps)
    (auto simp: create_namespace_index_def namespaces_evolve_def namespaces_ok_def conflicted_def)

lemma UpdateEnvironment_keeps: "keeps namespaces_evolve (UpdateEnvironment fault now e)"
proof (cases e)
  case (Some row)
  have "keeps namespaces_evolve (transaction fault StoreDB (
            bindP (ensureNamespaceAvailable fault (en_Namespace row) (en_ID row)) (\<lambda>_.
              lift_store (db_call fault (save_environment now row)))))"
  proof (rule transaction_keeps [OF ns.refl])
    fix w :: "workspace_db world" and x w'
    assume "bindP (ensureNamespaceAvailable fault (en_Namespace row) (en_ID row))
      (\<lambda>_. lift_store (db_call fault (save_environment now row))) w = (Inr x, w')"
    then obtain w1 where e: "ensureNamespaceAvailable fault (en_Namespace row) (en_ID row) w = (Inr (), w1)"
        and s: "save_environment now row (db w1) = (Inr x, db w')"
      by (auto elim!: bindP_Inr_elim simp: lift_store_Inr dest!: db_call_Inr)
    show "namespaces_evolve (db w) (db w')"
      using ensure_Inr [OF e] save_environment_ok [OF _ _ s] unfolding namespaces_evolve_def by simp
  qed
  then show ?thesis unfolding UpdateEnvironment_def Some option.case
    by (rule ns.keeps_bindP) (simp add: lift_store_keeps Reconcile_keeps)
qed (simp add: UpdateEnvironment_def ns.keeps_failP)

lemma DeleteEnvironment_keeps: "keeps namespaces_evolve (DeleteEnvironment fault i)"
proof -
  have "count_list (map en_Namespace (filter P rows)) n \<le> count_list (map en_Namespace rows) n" for P n and rows :: "Environment list"
    by (induction rows) auto
  then have "conflicted (d\<lparr>wd_environments := filter P (wd_environments d)\<rparr>) \<subseteq> conflicted d" for d P
    by (auto simp: conflicted_def) (meson order.strict_trans2)
  then have "namespaces_evolve d (d\<lparr>wd_environments := filter (\<lambda>e. en_ID e \<noteq> i) (wd_environments d)\<rparr>)" for d
    by (auto simp: namespaces_evolve_def namespaces_ok_def intro: distinct_map_filter)
  then show ?thesis unfolding DeleteEnvironment_def by (intro ns.keeps_intros Reconcile_keeps)
qed

subsection \<open>Templates\<close>

text \<open>Writing a template whose key and application are stored, or a new key, keeps the references.\<close>

lemma templates_ok_mono:
  assumes "templates_ok d" and "template_keys d \<subseteq> template_keys d'" and "distinct (map dt_ID (rd_templates d'))"
    and "\<forall>t \<in> set (rd_templates d'). 0 < dt_ID t \<and> dt_ID t \<le> wd_seq d' Templates \<and> dt_Revision t < 2 ^ 64"
    and "rd_apps d' = rd_apps d" and "rd_releases d' = rd_releases d"
  shows "templates_ok d'"
proof -
  have "dt_ID ` set (rd_templates d) \<subseteq> dt_ID ` set (rd_templates d')"
    using assms(2) by (force simp: template_keys_def)
  then have "\<forall>r \<in> set (rd_releases d'). \<forall>i. rl_TemplateID r = Some i \<longrightarrow> i \<in> dt_ID ` set (rd_templates d')"
    using assms(1,6) unfolding templates_ok_def by (metis subsetD)
  moreover have "\<forall>a \<in> set (rd_apps d'). default_stored d' a"
    using assms(1,2,5) unfolding templates_ok_def default_stored_def by (metis subsetD)
  ultimately show ?thesis using assms(3,4) by (simp add: templates_ok_def)
qed

lemma insert_template_ok:
  assumes "templates_ok d" and "dt_Revision row < 2 ^ 64" and "insert_template now row d = (Inr x, d')"
  shows "templates_ok d' \<and> (dt_ID x, dt_ApplicationID x) \<in> template_keys d' \<and> (dt_ID row = 0 \<longrightarrow> marks_step d d')"
proof -
  have d': "d' = note_id Templates (dt_ID x) (d\<lparr>rd_templates := rd_templates d @ [x]\<rparr>)"
      and x: "dt_ID x \<notin> dt_ID ` set (rd_templates d)" "dt_ID x \<noteq> 0" "dt_Revision x = dt_Revision row"
        "dt_ID row = 0 \<longrightarrow> dt_ID x = Suc (wd_seq d Templates)"
    using assms(3) by (auto simp: insert_template_def Let_def list_ex_iff assign_id_def split: if_splits)
  have "templates_ok d'"
  proof (rule templates_ok_mono [OF assms(1)])
    show "\<forall>t \<in> set (rd_templates d'). 0 < dt_ID t \<and> dt_ID t \<le> wd_seq d' Templates \<and> dt_Revision t < 2 ^ 64"
      using assms(1,2) x by (auto simp: d' note_id_def templates_ok_def)
  qed (use assms(1) x in \<open>auto simp: d' template_keys_def templates_ok_def\<close>)
  moreover have "marks_step d d'" if "dt_ID row = 0"
    using that x by (auto simp: marks_step_def template_marks_def d' note_id_def)
  ultimately show ?thesis using x by (simp add: d' template_keys_def)
qed

lemma tbl_save_image:
  assumes "distinct (map key rows)" and "old \<in> set rows" and "key old = key r" and "f old = f r"
  shows "f ` set (tbl_save key r rows) = f ` set rows"
  using assms
proof (induction rows)
  case (Cons x xs)
  show ?case
  proof (cases "key x = key r")
    case True
    then have "x = old" using Cons.prems by (metis distinct.simps(2) image_eqI list.set_map list.simps(9) set_ConsD)
    with True Cons.prems show ?thesis by simp
  next
    case False
    with Cons show ?thesis by auto
  qed
qed simp

lemma save_template_ok:
  assumes "templates_ok d" and "old \<in> set (rd_templates d)" and "dt_ID old = dt_ID row" and "dt_ApplicationID old = dt_ApplicationID row"
    and "dt_Revision row < 2 ^ 64" and "save_template now row d = (Inr x, d')"
  shows "templates_ok d' \<and> template_keys d' = template_keys d \<and> x = row \<and> wd_seq d' = wd_seq d \<and>
    rd_templates d' = tbl_save dt_ID row (rd_templates d)"
proof -
  have row: "0 < dt_ID row" "dt_ID row \<le> wd_seq d Templates" and ids: "distinct (map dt_ID (rd_templates d))"
    using assms(1-3) by (auto simp: templates_ok_def)
  then have d': "d' = note_id Templates (dt_ID row) (d\<lparr>rd_templates := tbl_save dt_ID row (rd_templates d)\<rparr>)" and x: "x = row"
    using assms(6) by (auto simp: save_template_def split: if_splits)
  have keys: "template_keys d' = template_keys d"
    using tbl_save_image [OF ids assms(2,3), of "\<lambda>t. (dt_ID t, dt_ApplicationID t)"] assms(3,4) by (simp add: template_keys_def d')
  have seq: "wd_seq d' = wd_seq d" using row by (auto simp: d' note_id_def fun_eq_iff)
  have "templates_ok d'"
  proof (rule templates_ok_mono [OF assms(1)])
    show "\<forall>t \<in> set (rd_templates d'). 0 < dt_ID t \<and> dt_ID t \<le> wd_seq d' Templates \<and> dt_Revision t < 2 ^ 64"
      using assms(1,5) row seq by (auto simp: d' templates_ok_def dest!: tbl_save_in)
  qed (use keys tbl_save_distinct [OF ids, of row] in \<open>auto simp: d'\<close>)
  with keys x seq d' show ?thesis by simp
qed

lemma set_default_simps [simp]:
  "rd_templates (set_default i P d) = rd_templates d" "rd_releases (set_default i P d) = rd_releases d"
  "wd_seq (set_default i P d) = wd_seq d" "template_keys (set_default i P d) = template_keys d"
  "template_marks (set_default i P d) = template_marks d"
  by (simp_all add: set_default_def template_keys_def template_marks_def)

lemma set_default_ok:
  assumes "templates_ok d" and "\<And>a j. i = Some j \<Longrightarrow> P a \<Longrightarrow> (j, ap_ID a) \<in> template_keys d"
  shows "templates_ok (set_default i P d)"
  using assms by (auto simp: templates_ok_def default_stored_def) (auto simp: set_default_def)

lemma CreateTemplate_Inr:
  assumes "templates_ok (db w)" and "dt_ID template = 0"
    and "bindP (db_call fault (insert_template now (template\<lparr>dt_Revision := 1\<rparr>))) (\<lambda>row.
       if makeDefault then
         bindP (db_write fault (set_default (Some (dt_ID row)) (\<lambda>a. ap_ID a = dt_ApplicationID row))) (\<lambda>_. returnP row)
       else returnP row) w = (Inr x, w')"
  shows "templates_ok (db w') \<and> marks_step (db w) (db w')"
proof -
  obtain w1 where c: "db_call fault (insert_template now (template\<lparr>dt_Revision := 1\<rparr>)) w = (Inr x, w1)"
      and w': "db w' = db w1 \<or> db w' = set_default (Some (dt_ID x)) (\<lambda>a. ap_ID a = dt_ApplicationID x) (db w1)"
    using assms(3) by (auto elim!: bindP_Inr_elim simp: returnP_def split: if_splits dest!: db_write_Inr)
  have i: "templates_ok (db w1) \<and> (dt_ID x, dt_ApplicationID x) \<in> template_keys (db w1) \<and> marks_step (db w) (db w1)"
    using insert_template_ok [OF assms(1) _ db_call_Inr [OF c]] assms(2) by auto
  then have "templates_ok (set_default (Some (dt_ID x)) (\<lambda>a. ap_ID a = dt_ApplicationID x) (db w1))" "templates_ok (db w1)"
    by (auto intro!: set_default_ok)
  with w' i show ?thesis by (auto simp: marks_step_def)
qed

lemma CreateTemplate_keeps:
  "dt_ID template = 0 \<Longrightarrow> keeps template_step (CreateApplicationDeploymentTemplate fault now template makeDefault)"
  unfolding CreateApplicationDeploymentTemplate_def
  by (rule transaction_keeps [OF template_step_refl]) (use CreateTemplate_Inr in \<open>auto simp: template_step_def\<close>)

lemma current_template_Inr:
  "current_template fault template w = (Inr current, w') \<Longrightarrow>
   db w' = db w \<and> current \<in> set (rd_templates (db w)) \<and> dt_ID current = dt_ID template \<and> dt_ApplicationID current = dt_ApplicationID template"
  by (auto simp: current_template_def find_Some_iff dest!: db_read_Inr)

lemma advanced_simps [simp]:
  "dt_ID (advanced c t) = dt_ID t" "dt_ApplicationID (advanced c t) = dt_ApplicationID t"
  "dt_Revision (advanced c t) = (dt_Revision c + 1) mod 2 ^ 64"
  by (simp_all add: advanced_def)

text \<open>What a committed change of a template does.\<close>

lemma advance_template:
  assumes "templates_ok (db w)" and "current_template fault template w = (Inr current, w1)"
    and "db_call fault (save_template now (advanced current template)) w1 = (Inr x, w')"
  shows "templates_ok (db w') \<and> x = advanced current template \<and> current \<in> set (rd_templates (db w)) \<and> dt_ID current = dt_ID template \<and>
    rd_templates (db w') = tbl_save dt_ID x (rd_templates (db w)) \<and> marks_step (db w) (db w')"
proof -
  have save: "templates_ok (db w') \<and> x = advanced current template \<and> current \<in> set (rd_templates (db w)) \<and> dt_ID current = dt_ID template \<and>
    rd_templates (db w') = tbl_save dt_ID x (rd_templates (db w)) \<and> wd_seq (db w') = wd_seq (db w)"
    using current_template_Inr [OF assms(2)] assms(1) save_template_ok [OF _ _ _ _ _ db_call_Inr [OF assms(3)], of current] by auto
  have "\<exists>a r. (dt_ID t, a, r) \<in> template_marks (db w) \<and> (dt_Revision t = r \<or> dt_Revision t = (r + 1) mod 2 ^ 64)"
    if "t \<in> set (rd_templates (db w'))" for t
  proof -
    from that save consider "t = x" | "t \<in> set (rd_templates (db w))" by (metis tbl_save_in)
    then show ?thesis
    proof cases
      case 1
      have "(dt_ID t, dt_ApplicationID current, dt_Revision current) \<in> template_marks (db w)"
        using 1 save by (auto simp: template_marks_def image_iff intro!: bexI [of _ current])
      moreover have "dt_Revision t = (dt_Revision current + 1) mod 2 ^ 64" using 1 save by simp
      ultimately show ?thesis by blast
    next
      case 2
      then show ?thesis by (force simp: template_marks_def image_iff)
    qed
  qed
  then have "marks_step (db w) (db w')"
    using save unfolding marks_step_def by (auto simp: template_marks_def [of "db w'"])
  with save show ?thesis by blast
qed

lemma UpdateTemplate_keeps: "keeps template_step (UpdateApplicationDeploymentTemplate fault now template)"
  unfolding UpdateApplicationDeploymentTemplate_def
  by (rule transaction_keeps [OF template_step_refl])
    (use advance_template in \<open>auto simp: template_step_def elim!: bindP_Inr_elim\<close>)

lemma UpdateTemplateIf_body:
  assumes "bindP (lift_store (current_template fault template)) (\<lambda>current.
       if dt_Revision current \<noteq> expected
       then failP (TemplateRevisionConflictError (dt_Revision current) expected)
       else lift_store (db_call fault (save_template now (advanced current template)))) w = (Inr x, w')"
  obtains current w1 where "current_template fault template w = (Inr current, w1)" and "dt_Revision current = expected"
    and "db_call fault (save_template now (advanced current template)) w1 = (Inr x, w')"
  using assms by (auto elim!: bindP_Inr_elim simp: lift_store_Inr failP_def split: if_splits)

lemma UpdateTemplateIf_keeps: "keeps template_step (UpdateApplicationDeploymentTemplateIfRevision fault now template expected)"
  unfolding UpdateApplicationDeploymentTemplateIfRevision_def
  by (rule transaction_keeps [OF template_step_refl])
    (use advance_template in \<open>auto simp: template_step_def elim!: UpdateTemplateIf_body\<close>)

lemma SetDefault_keeps: "keeps templates_evolve (SetDefaultApplicationDeploymentTemplate fault applicationID templateID)"
  unfolding SetDefaultApplicationDeploymentTemplate_def
proof (rule transaction_keeps [OF tp.refl])
  fix w :: "workspace_db world" and x w'
  assume "bindP (db_read fault (\<lambda>d. found (find (\<lambda>t. dt_ID t = templateID \<and> dt_ApplicationID t = applicationID \<and> dt_Enabled t)
              (rd_templates d)))) (\<lambda>_. db_write fault (set_default (Some templateID) (\<lambda>a. ap_ID a = applicationID))) w = (Inr x, w')"
  then obtain t where "t \<in> set (rd_templates (db w))" "dt_ID t = templateID" "dt_ApplicationID t = applicationID"
      and "db w' = set_default (Some templateID) (\<lambda>a. ap_ID a = applicationID) (db w)"
    by (force elim!: bindP_Inr_elim dest!: db_read_Inr db_write_Inr simp: find_Some_iff)
  then show "templates_evolve (db w) (db w')"
    unfolding templates_evolve_def by (auto intro!: set_default_ok simp: template_keys_def)
qed

lemma DeleteTemplate_ok:
  assumes "templates_ok d" and "\<forall>r \<in> set (rd_releases d). rl_TemplateID r \<noteq> Some i"
  shows "templates_ok (set_default None (\<lambda>a. ap_ID a = app \<and> ap_DefaultDeploymentTemplateID a = Some i)
    (d\<lparr>rd_templates := filter (\<lambda>t. \<not> (dt_ID t = i \<and> dt_ApplicationID t = app)) (rd_templates d)\<rparr>))"
    (is "templates_ok ?d")
proof -
  have "\<forall>r \<in> set (rd_releases ?d). \<forall>j. rl_TemplateID r = Some j \<longrightarrow> j \<in> dt_ID ` set (rd_templates ?d)"
    using assms by (fastforce simp: templates_ok_def)
  moreover have "\<forall>a \<in> set (rd_apps ?d). default_stored ?d a"
  proof
    fix a assume "a \<in> set (rd_apps ?d)"
    then obtain b where b: "b \<in> set (rd_apps d)"
        and a: "a = (if ap_ID b = app \<and> ap_DefaultDeploymentTemplateID b = Some i then b\<lparr>ap_DefaultDeploymentTemplateID := None\<rparr> else b)"
      by (auto simp: set_default_def)
    have "default_stored d b" using assms(1) b by (auto simp: templates_ok_def)
    then show "default_stored ?d a"
      unfolding default_stored_def template_keys_def a by (auto simp: image_iff split: if_splits)
  qed
  ultimately show ?thesis using assms(1) by (simp add: templates_ok_def distinct_map_filter)
qed

lemma DeleteTemplate_keeps: "keeps template_step (DeleteApplicationDeploymentTemplate fault app i)"
  unfolding DeleteApplicationDeploymentTemplate_def
proof (rule transaction_keeps [OF template_step_refl])
  fix w :: "workspace_db world" and x w'
  assume "bindP (lift_store (db_read fault (\<lambda>d. Inr (length (filter (\<lambda>r. rl_TemplateID r = Some i) (rd_releases d)))))) (\<lambda>releases.
       if releases > 0 then failP TemplateInUse
       else bindP (lift_store (db_write fault (\<lambda>d.
              d\<lparr>rd_templates := filter (\<lambda>t. \<not> (dt_ID t = i \<and> dt_ApplicationID t = app)) (rd_templates d)\<rparr>))) (\<lambda>_.
            lift_store (db_write fault (set_default None
              (\<lambda>a. ap_ID a = app \<and> ap_DefaultDeploymentTemplateID a = Some i))))) w = (Inr x, w')"
  then have none: "filter (\<lambda>r. rl_TemplateID r = Some i) (rd_releases (db w)) = []"
      and w': "db w' = set_default None (\<lambda>a. ap_ID a = app \<and> ap_DefaultDeploymentTemplateID a = Some i)
        ((db w)\<lparr>rd_templates := filter (\<lambda>t. \<not> (dt_ID t = i \<and> dt_ApplicationID t = app)) (rd_templates (db w))\<rparr>)"
    by (auto elim!: bindP_Inr_elim dest!: db_read_Inr db_write_Inr simp: lift_store_Inr failP_def split: if_splits)
  from none have "\<forall>r \<in> set (rd_releases (db w)). rl_TemplateID r \<noteq> Some i" by (simp add: filter_empty_conv)
  moreover have "marks_step (db w) (db w')" by (auto simp: w' marks_step_def template_marks_def)
  ultimately show "template_step (db w) (db w')" unfolding template_step_def w' by (blast intro: DeleteTemplate_ok)
qed

text \<open>The upgrade of legacy rows.\<close>

lemma name_loop_ok:
  assumes "templates_ok (db w)" and "name_loop fault now ts w = (r, w')"
    and "\<forall>t \<in> set ts. (dt_ID t, dt_ApplicationID t, dt_Revision t) \<in> template_marks (db w)"
  shows "templates_ok (db w') \<and> template_marks (db w') = template_marks (db w) \<and> wd_seq (db w') = wd_seq (db w)"
  using assms
proof (induction ts arbitrary: w)
  case (Cons t ts)
  let ?t = "t\<lparr>dt_Name := legacy_template_name, dt_Enabled := True\<rparr>"
  obtain x w1 where c: "db_call fault (save_template now ?t) w = (x, w1)" by (cases "db_call fault (save_template now ?t) w")
  obtain old where old: "old \<in> set (rd_templates (db w))" "dt_ID old = dt_ID t" "dt_ApplicationID old = dt_ApplicationID t" "dt_Revision old = dt_Revision t"
    using Cons.prems(3) by (auto simp: template_marks_def)
  show ?case
  proof (cases x)
    case (Inl e)
    with c Cons.prems have "db w' = db w"
      by (auto simp: bindP_def db_call_def save_template_def insert_template_def Let_def split: if_splits prod.splits)
    with Cons.prems show ?thesis by simp
  next
    case (Inr y)
    have rev: "dt_Revision ?t < 2 ^ 64" using Cons.prems(1) old by (auto simp: templates_ok_def)
    have save: "templates_ok (db w1) \<and> rd_templates (db w1) = tbl_save dt_ID ?t (rd_templates (db w)) \<and> wd_seq (db w1) = wd_seq (db w)"
      using save_template_ok [OF Cons.prems(1) old(1) _ _ rev db_call_Inr [OF c [unfolded Inr]]] old by simp
    moreover have "template_marks (db w1) = template_marks (db w)"
      using tbl_save_image [of dt_ID "rd_templates (db w)" old ?t "\<lambda>t. (dt_ID t, dt_ApplicationID t, dt_Revision t)"] Cons.prems(1) old save
      by (simp add: template_marks_def templates_ok_def)
    moreover have "name_loop fault now ts w1 = (r, w')" using Cons.prems(2) c Inr by (simp add: bindP_def)
    ultimately show ?thesis using Cons.IH [of w1] Cons.prems(3) by simp
  qed
qed (simp add: returnP_def)

lemma default_loop_keeps: "keeps templates_evolve (default_loop fault apps)"
proof (induction apps)
  case (Cons app apps)
  have "templates_evolve (db w) (db (snd (default_loop fault (app # apps) w)))" for w
  proof (cases "\<exists>t w1. db_read fault (\<lambda>d. found (find (\<lambda>t. dt_ApplicationID t = ap_ID app) (sort_key dt_ID (rd_templates d)))) w = (Inr t, w1)")
    case True
    then obtain t w1 where r: "db_read fault (\<lambda>d. found (find (\<lambda>t. dt_ApplicationID t = ap_ID app) (sort_key dt_ID (rd_templates d)))) w = (Inr t, w1)"
      by blast
    then have t: "t \<in> set (rd_templates (db w))" "dt_ApplicationID t = ap_ID app" and w1: "db w1 = db w"
      by (auto dest!: db_read_Inr simp: find_Some_iff) (metis nth_mem set_sort length_sort)
    obtain x w2 where c: "db_write fault (set_default (Some (dt_ID t)) (\<lambda>a. ap_ID a = ap_ID app)) w1 = (x, w2)"
      by (cases "db_write fault (set_default (Some (dt_ID t)) (\<lambda>a. ap_ID a = ap_ID app)) w1")
    have "templates_ok (set_default (Some (dt_ID t)) (\<lambda>a. ap_ID a = ap_ID app) (db w))" if "templates_ok (db w)"
      by (rule set_default_ok [OF that]) (use t in \<open>auto simp: template_keys_def image_iff intro!: bexI [of _ t]\<close>)
    then have "templates_evolve (db w) (db w2)"
      using c w1 by (cases x) (auto simp: templates_evolve_def dest!: db_write_Inr db_write_Inl)
    then show ?thesis using keepsD [OF Cons.IH, of w2] r c
      by (cases x) (auto simp: tryP_def bindP_def templates_evolve_def)
  next
    case False
    then show ?thesis using Cons.IH
      by (auto simp: tryP_def db_defs keeps_def templates_evolve_def failP_def found_def split: option.splits sum.splits db_error.splits)
  qed
  then show ?case by (simp add: keeps_def)
qed (simp add: tp.keeps_returnP)

lemma backfill_keeps: "keeps templates_evolve (backfillApplicationDeploymentTemplates fault now)"
  unfolding backfillApplicationDeploymentTemplates_def
proof (rule transaction_keeps [OF tp.refl])
  fix w :: "workspace_db world" and x w'
  assume "bindP (db_read fault (\<lambda>d. Inr (filter (\<lambda>t. dt_Name t = []) (rd_templates d)))) (\<lambda>templates.
     bindP (name_loop fault now templates) (\<lambda>_.
     bindP (db_read fault (\<lambda>d. Inr (filter (\<lambda>a. ap_DefaultDeploymentTemplateID a = None) (rd_apps d)))) (default_loop fault))) w = (Inr x, w')"
  then obtain w1 w2 w3 apps where w1: "db w1 = db w" and n: "name_loop fault now (filter (\<lambda>t. dt_Name t = []) (rd_templates (db w))) w1 = (Inr (), w2)"
      and w3: "db w3 = db w2" and d: "default_loop fault apps w3 = (Inr x, w')"
    by (auto elim!: bindP_Inr_elim dest!: db_read_Inr)
  have "templates_evolve (db w) (db w2)"
    using name_loop_ok [OF _ n] w1 unfolding templates_evolve_def by (auto simp: template_marks_def)
  moreover have "templates_evolve (db w2) (db w')" using keepsD [OF default_loop_keeps, of w3 fault apps] d w3 by simp
  ultimately show "templates_evolve (db w) (db w')" using tp.trans by blast
qed

subsection \<open>Applications\<close>

lemma insert_application_ok:
  "ap_DefaultDeploymentTemplateID app = None \<Longrightarrow> insert_application now app d = (r, d') \<Longrightarrow> templates_evolve d d'"
  unfolding templates_evolve_def
  by (auto simp: insert_application_def Let_def note_id_def templates_ok_def default_stored_def template_keys_def template_marks_def split: if_splits)

lemma save_application_ok:
  assumes "ap_ID app \<noteq> 0" and "default_stored d app" and "save_application now app d = (r, d')"
  shows "templates_evolve d d'"
proof -
  from assms(1,3) consider "d' = d" | "d' = note_id Applications (ap_ID app) (d\<lparr>rd_apps := tbl_save ap_ID app (rd_apps d)\<rparr>)"
    by (auto simp: save_application_def split: if_splits)
  then show ?thesis
  proof cases
    case 2
    then have parts: "template_keys d' = template_keys d" "rd_templates d' = rd_templates d" "rd_releases d' = rd_releases d"
        "wd_seq d' Templates = wd_seq d Templates" "rd_apps d' = tbl_save ap_ID app (rd_apps d)"
      by (simp_all add: template_keys_def note_id_def)
    have "\<forall>a \<in> set (rd_apps d'). default_stored d' a" if "\<forall>a \<in> set (rd_apps d). default_stored d a"
      using that assms(2) parts by (auto simp: default_stored_def dest!: tbl_save_in)
    then show ?thesis using parts by (simp add: templates_evolve_def templates_ok_def template_marks_def)
  qed (simp add: tp.refl)
qed

lemma SetCapabilities_keeps:
  "SetCapabilities vals app = Inr app' \<Longrightarrow> ap_ID app' = ap_ID app \<and> ap_DefaultDeploymentTemplateID app' = ap_DefaultDeploymentTemplateID app"
  by (cases "NormalizeApplicationCapabilities vals") (auto simp: SetCapabilities_def)

lemma CreateApplication_keeps:
  "ap_DefaultDeploymentTemplateID app = None \<Longrightarrow> keeps templates_evolve (CreateApplication fault now app)"
  by (auto simp: CreateApplication_def lift_store_keeps dest: SetCapabilities_keeps split: sum.splits
      intro!: tp.keeps_failP tp.keeps_call)
    (metis SetCapabilities_keeps insert_application_ok prod.collapse)

lemma UpdateApplication_step:
  assumes "ap_ID app \<noteq> 0" and "default_stored (db w) app"
  shows "templates_evolve (db w) (db (snd (UpdateApplication fault now app w)))"
proof (cases "SetCapabilities (ap_Capabilities app) app")
  case (Inr app')
  then have app': "ap_ID app' \<noteq> 0" "default_stored (db w) app'"
    using assms SetCapabilities_keeps [OF Inr] by (auto simp: default_stored_def)
  show ?thesis
    using save_application_ok [OF app', of now "fst (save_application now app' (db w))" "snd (save_application now app' (db w))"]
    by (auto simp: UpdateApplication_def Inr db_call_def tp.refl split: prod.splits)
qed (simp add: UpdateApplication_def failP_def tp.refl)

lemma ReplaceCapabilities_keeps: "keeps templates_evolve (ReplaceApplicationCapabilities fault i vals)"
proof -
  have "templates_evolve d (d\<lparr>rd_apps := map (\<lambda>a. if ap_ID a = i then a\<lparr>ap_CapabilitiesData := x\<rparr> else a) (rd_apps d)\<rparr>)" for d x
    by (auto simp: templates_evolve_def templates_ok_def default_stored_def template_keys_def template_marks_def)
  then show ?thesis unfolding ReplaceApplicationCapabilities_def
    by (auto simp: lift_store_keeps read_application_def intro!: tp.keeps_intros split: sum.splits)
qed

subsection \<open>Frames\<close>

text \<open>The tables that each group of operations leaves alone.\<close>

definition environment_part :: "workspace_db \<Rightarrow> Environment list \<times> bool" where
  "environment_part d = (wd_environments d, wd_namespace_index d)"

definition template_part :: "workspace_db \<Rightarrow> ApplicationDeploymentTemplate list \<times> Application list \<times> Release list \<times> nat" where
  "template_part d = (rd_templates d, rd_apps d, rd_releases d, wd_seq d Templates)"

abbreviation same_environments :: "workspace_db \<Rightarrow> workspace_db \<Rightarrow> bool" where
  "same_environments d d' \<equiv> environment_part d' = environment_part d"

abbreviation same_templates :: "workspace_db \<Rightarrow> workspace_db \<Rightarrow> bool" where
  "same_templates d d' \<equiv> template_part d' = template_part d"

interpretation se: data_evolution same_environments
  by (rule data_evolution_frame)

interpretation st: data_evolution same_templates
  by (rule data_evolution_frame)

lemma same_environments_evolve: "same_environments d d' \<Longrightarrow> namespaces_evolve d d'"
  by (simp add: environment_part_def namespaces_evolve_def namespaces_ok_def conflicted_def)

lemma same_templates_evolve: "same_templates d d' \<Longrightarrow> templates_evolve d d'"
  by (simp add: template_part_def templates_evolve_def templates_ok_def template_marks_def default_stored_def template_keys_def)

lemma part_update_simps [simp]:
  "environment_part (d\<lparr>rd_apps := x\<rparr>) = environment_part d" "environment_part (d\<lparr>rd_templates := y\<rparr>) = environment_part d"
  "template_part (d\<lparr>wd_environments := z\<rparr>) = template_part d" "template_part (d\<lparr>wd_namespace_index := b\<rparr>) = template_part d"
  by (simp_all add: environment_part_def template_part_def)

lemma insert_template_frame: "environment_part (snd (insert_template now t d)) = environment_part d"
  by (simp add: insert_template_def environment_part_def Let_def)

lemma save_template_frame: "environment_part (snd (save_template now t d)) = environment_part d"
  by (simp add: save_template_def insert_template_frame) (simp add: environment_part_def)

lemma set_default_frame: "environment_part (set_default i P d) = environment_part d"
  by (simp add: set_default_def environment_part_def)

lemma application_frames:
  "environment_part (snd (insert_application now a d)) = environment_part d"
  "environment_part (snd (save_application now a d)) = environment_part d"
  by (simp_all add: save_application_def insert_application_def environment_part_def Let_def)

lemma environment_frames:
  "template_part (snd (insert_environment now e d)) = template_part d"
  "template_part (snd (save_environment now e d)) = template_part d"
  by (simp_all add: save_environment_def insert_environment_def template_part_def note_id_def Let_def)

lemmas frame_simps = lift_store_keeps insert_template_frame save_template_frame set_default_frame application_frames environment_frames

lemma name_loop_frame: "keeps same_environments (name_loop fault now ts)"
  by (induction ts) (auto simp: frame_simps intro!: se.keeps_intros)

lemma default_loop_frame: "keeps same_environments (default_loop fault apps)"
  by (induction apps) (auto simp: frame_simps intro!: se.keeps_intros split: sum.splits db_error.splits)

lemma template_operations_frame:
  "keeps same_environments (CreateApplicationDeploymentTemplate fault now t makeDefault)"
  "keeps same_environments (UpdateApplicationDeploymentTemplate fault now t)"
  "keeps same_environments (UpdateApplicationDeploymentTemplateIfRevision fault now t expected)"
  "keeps same_environments (SetDefaultApplicationDeploymentTemplate fault app i)"
  "keeps same_environments (DeleteApplicationDeploymentTemplate fault app i)"
  "keeps same_environments (backfillApplicationDeploymentTemplates fault now)"
  unfolding CreateApplicationDeploymentTemplate_def UpdateApplicationDeploymentTemplate_def current_template_def
    UpdateApplicationDeploymentTemplateIfRevision_def SetDefaultApplicationDeploymentTemplate_def
    DeleteApplicationDeploymentTemplate_def backfillApplicationDeploymentTemplates_def
  by (auto simp: frame_simps intro!: se.keeps_intros name_loop_frame default_loop_frame)

lemma application_operations_frame:
  "keeps same_environments (CreateApplication fault now app)" "keeps same_environments (UpdateApplication fault now app)"
  "keeps same_environments (ReplaceApplicationCapabilities fault i vals)"
  unfolding CreateApplication_def UpdateApplication_def ReplaceApplicationCapabilities_def read_application_def
  by (auto simp: frame_simps intro!: se.keeps_intros split: sum.splits)

lemma ensure_frame: "keeps same_templates (ensureNamespaceAvailable fault namespace i)"
  by (simp add: keeps_def ensure_db)

lemma conflict_loop_frame: "keeps same_templates (conflict_loop fault names)"
  by (induction names) (auto intro!: st.keeps_intros)

lemma Reconcile_frame: "keeps same_templates (ReconcileEnvironmentNamespaceUniqueness fault)"
  unfolding ReconcileEnvironmentNamespaceUniqueness_def ListEnvironmentNamespaceConflicts_def
  by (auto simp: create_namespace_index_def intro!: st.keeps_intros conflict_loop_frame split: if_splits)

lemma environment_operations_frame:
  "keeps same_templates (CreateEnvironment fault now e)" "keeps same_templates (UpdateEnvironment fault now e)"
  "keeps same_templates (DeleteEnvironment fault i)"
  unfolding CreateEnvironment_def UpdateEnvironment_def DeleteEnvironment_def
  by (auto simp: frame_simps intro!: st.keeps_intros ensure_frame Reconcile_frame split: option.splits)

section \<open>Runs\<close>

text \<open>
  One operation of the store, under any failures of the database. An application is created without
  a default template; when it is saved, the default it carries is one that is stored. Operations on
  other tables are one rule.
\<close>

inductive workspace_step :: "workspace_db \<Rightarrow> workspace_db \<Rightarrow> bool" where
  create_environment: "workspace_step (db w) (db (snd (CreateEnvironment fault now e w)))"
| update_environment: "workspace_step (db w) (db (snd (UpdateEnvironment fault now e w)))"
| delete_environment: "workspace_step (db w) (db (snd (DeleteEnvironment fault i w)))"
| reconcile: "workspace_step (db w) (db (snd (ReconcileEnvironmentNamespaceUniqueness fault w)))"
| create_application: "ap_DefaultDeploymentTemplateID app = None \<Longrightarrow>
    workspace_step (db w) (db (snd (CreateApplication fault now app w)))"
| update_application: "ap_ID app \<noteq> 0 \<Longrightarrow> default_stored (db w) app \<Longrightarrow>
    workspace_step (db w) (db (snd (UpdateApplication fault now app w)))"
| replace_capabilities: "workspace_step (db w) (db (snd (ReplaceApplicationCapabilities fault i vals w)))"
| create_template: "dt_ID t = 0 \<Longrightarrow>
    workspace_step (db w) (db (snd (CreateApplicationDeploymentTemplate fault now t makeDefault w)))"
| update_template: "workspace_step (db w) (db (snd (UpdateApplicationDeploymentTemplate fault now t w)))"
| update_template_if: "workspace_step (db w) (db (snd (UpdateApplicationDeploymentTemplateIfRevision fault now t expected w)))"
| set_default_template: "workspace_step (db w) (db (snd (SetDefaultApplicationDeploymentTemplate fault a i w)))"
| delete_template: "workspace_step (db w) (db (snd (DeleteApplicationDeploymentTemplate fault a i w)))"
| backfill: "workspace_step (db w) (db (snd (backfillApplicationDeploymentTemplates fault now w)))"
| other_tables: "same_environments d d' \<Longrightarrow> same_templates d d' \<Longrightarrow> workspace_step d d'"

lemma frame_namespaces: "keeps same_environments m \<Longrightarrow> namespaces_evolve (db w) (db (snd (m w)))"
  by (intro same_environments_evolve) (simp add: keeps_def)

lemma frame_templates: "keeps same_templates m \<Longrightarrow> template_step (db w) (db (snd (m w)))"
  by (intro templates_evolve_step same_templates_evolve) (simp add: keeps_def)

lemma evolve_templates: "keeps templates_evolve m \<Longrightarrow> template_step (db w) (db (snd (m w)))"
  by (intro templates_evolve_step) (simp add: keeps_def)

lemma workspace_step_namespaces: "workspace_step d d' \<Longrightarrow> namespaces_evolve d d'"
  by (induction rule: workspace_step.induct)
    (intro frame_namespaces template_operations_frame application_operations_frame same_environments_evolve
       keepsD [OF CreateEnvironment_keeps] keepsD [OF UpdateEnvironment_keeps] keepsD [OF DeleteEnvironment_keeps]
       keepsD [OF Reconcile_keeps]; assumption)+

lemma workspace_step_templates: "workspace_step d d' \<Longrightarrow> template_step d d'"
proof (induction rule: workspace_step.induct)
  case (create_application app w fault now)
  then show ?case by (intro evolve_templates CreateApplication_keeps)
next
  case (update_application app w fault now)
  then show ?case by (intro templates_evolve_step UpdateApplication_step)
next
  case (create_template t w fault now makeDefault)
  then show ?case by (intro keepsD [OF CreateTemplate_keeps])
next
  case (other_tables d d')
  then show ?case by (intro templates_evolve_step same_templates_evolve)
qed (intro frame_templates environment_operations_frame Reconcile_frame evolve_templates ReplaceCapabilities_keeps
    keepsD [OF UpdateTemplate_keeps] keepsD [OF UpdateTemplateIf_keeps] keepsD [OF DeleteTemplate_keeps] SetDefault_keeps backfill_keeps)+

lemma workspace_run_namespaces: "workspace_step\<^sup>*\<^sup>* d d' \<Longrightarrow> namespaces_evolve d d'"
  by (induction rule: rtranclp_induct) (auto intro: ns.refl ns.trans workspace_step_namespaces)

lemma workspace_run_templates: "workspace_step\<^sup>*\<^sup>* d d' \<Longrightarrow> templates_ok d \<Longrightarrow> templates_ok d'"
  by (induction rule: rtranclp_induct) (auto dest!: workspace_step_templates simp: template_step_def)

lemma workspace_steps_ok:
  "(workspace_step ^^ n) d d' \<Longrightarrow> templates_ok d \<Longrightarrow> templates_ok d' \<and> wd_seq d Templates \<le> wd_seq d' Templates"
proof (induction n arbitrary: d')
  case (Suc n)
  then obtain e where "(workspace_step ^^ n) d e" "workspace_step e d'" by (auto elim: relpowp_Suc_E)
  with Suc show ?case by (fastforce dest!: workspace_step_templates simp: template_step_def marks_step_def)
qed simp

text \<open>In \<open>n\<close> operations the revision of a template that is still there went up by at most \<open>n\<close>.\<close>

lemma workspace_steps_revision:
  assumes "(workspace_step ^^ n) d d'" and "templates_ok d" and "i \<le> wd_seq d Templates" and "(i, a', r') \<in> template_marks d'"
  shows "templates_ok d' \<and> i \<le> wd_seq d' Templates \<and> (\<exists>a r k. (i, a, r) \<in> template_marks d \<and> k \<le> n \<and> r' = (r + k) mod 2 ^ 64)"
  using assms
proof (induction n arbitrary: d' a' r')
  case 0
  then have "r' < 2 ^ 64" by (auto simp: templates_ok_def template_marks_def)
  with 0 have "(i, a', r') \<in> template_marks d \<and> (0 :: nat) \<le> 0 \<and> r' = (r' + 0) mod 2 ^ 64" by simp
  with 0 show ?case by (simp del: add_0_right) blast
next
  case (Suc n)
  then obtain e where e: "(workspace_step ^^ n) d e" "workspace_step e d'" by (auto elim: relpowp_Suc_E)
  have "templates_ok e \<and> i \<le> wd_seq e Templates"
    using workspace_steps_ok [OF e(1) Suc.prems(2)] Suc.prems(3) by (auto intro: order_trans)
  with e(2) have step: "templates_ok d'" "marks_step e d'" "i \<le> wd_seq e Templates"
    using workspace_step_templates by (auto simp: template_step_def)
  then obtain a r where r: "(i, a, r) \<in> template_marks e" "r' = r \<or> r' = (r + 1) mod 2 ^ 64"
    using Suc.prems(4) unfolding marks_step_def by blast
  obtain b s k where k: "(i, b, s) \<in> template_marks d" "k \<le> n" "r = (s + k) mod 2 ^ 64"
    using Suc.IH [OF e(1) Suc.prems(2,3) r(1)] by blast
  have "r' = (s + k) mod 2 ^ 64 \<or> r' = (s + (k + 1)) mod 2 ^ 64"
    using r(2) k(3) by (simp add: mod_simps add.assoc)
  moreover have "i \<le> wd_seq d' Templates" using step(2,3) by (simp add: marks_step_def)
  ultimately show ?case using step(1) k(1,2) by (metis Suc_eq_plus1 Suc_le_mono le_SucI)
qed

section \<open>Properties\<close>

lemma insert_environment_Inr:
  "insert_environment now e d = (Inr row, d') \<Longrightarrow> wd_environments d' = wd_environments d @ [row] \<and> en_Namespace row = en_Namespace e"
  by (auto simp: insert_environment_def Let_def split: if_splits)

lemma CreateEnvironment_only:
  assumes "CreateEnvironment fault now (Some e) w = (Inr row, w')"
  shows "filter (\<lambda>x. en_Namespace x = en_Namespace row) (wd_environments (db w')) = [row]"
proof -
  obtain w1 w3 where "bindP (ensureNamespaceAvailable fault (en_Namespace e) 0)
       (\<lambda>_. lift_store (db_call fault (insert_environment now e))) w1 = (Inr row, w3)" and w': "db w' = db w3"
    using assms unfolding CreateEnvironment_def option.case by (elim transaction_Inr)
  then obtain w2 where c: "ensureNamespaceAvailable fault (en_Namespace e) 0 w1 = (Inr (), w2)"
      and i: "insert_environment now e (db w2) = (Inr row, db w3)"
    by (auto elim!: bindP_Inr_elim simp: lift_store_Inr dest!: db_call_Inr)
  show ?thesis using insert_environment_Inr [OF i] ensure_Inr [OF c] w' by (auto simp: filter_empty_conv)
qed

lemma conflict_loop_empty: "conflict_loop fault names w = (Inr [], w') \<Longrightarrow> names = []"
  by (cases names) (auto elim!: bindP_Inr_elim simp: returnP_def)

lemma ListConflicts_Inr:
  "ListEnvironmentNamespaceConflicts fault w = (Inr cs, w') \<Longrightarrow> duplicate_namespaces (wd_environments (db w)) = [] \<Longrightarrow> cs = []"
  unfolding ListEnvironmentNamespaceConflicts_def by (auto elim!: bindP_Inr_elim dest!: db_read_Inr simp: returnP_def)

lemma create_index_Inr: "create_namespace_index d = (Inr u, d') \<Longrightarrow> wd_namespace_index d'"
  by (auto simp: create_namespace_index_def split: if_splits)

lemma Reconcile_index:
  assumes "ReconcileEnvironmentNamespaceUniqueness fault w = (Inr (), w')" and "conflicted (db w) = {}"
  shows "wd_namespace_index (db w')"
proof -
  have none: "duplicate_namespaces (wd_environments (db w)) = []"
    using assms(2) by (auto simp: duplicate_namespaces_def conflicted_def filter_empty_conv)
  obtain cs w1 where cs: "ListEnvironmentNamespaceConflicts fault w = (Inr cs, w1)"
      and c: "(if cs \<noteq> [] then returnP () else db_call fault create_namespace_index) w1 = (Inr (), w')"
    using assms(1) unfolding ReconcileEnvironmentNamespaceUniqueness_def by (rule bindP_Inr_elim)
  with ListConflicts_Inr [OF cs none] have "db_call fault create_namespace_index w1 = (Inr (), w')" by simp
  from create_index_Inr [OF db_call_Inr [OF this]] show ?thesis .
qed

text \<open>
  C15. A namespace belongs to one environment. Whatever operations run on the store and whichever
  database calls fail, no namespace that had a single owner gets a second one: the shared namespaces
  left over from earlier versions only become fewer, the unique index stays once it exists and only
  exists over distinct namespaces, a created environment is the only one with its namespace, and a
  successful reconciliation without shared namespaces leaves the index in place.
\<close>

theorem namespace_has_one_owner:
  assumes "workspace_step\<^sup>*\<^sup>* d d'" and "namespaces_ok d"
  shows "namespaces_ok d' \<and> conflicted d' \<subseteq> conflicted d \<and> (wd_namespace_index d \<longrightarrow> wd_namespace_index d') \<and>
    (\<forall>fault now e n row w. CreateEnvironment fault now (Some e) \<lparr>db = d', calls = n\<rparr> = (Inr row, w) \<longrightarrow>
       filter (\<lambda>x. en_Namespace x = en_Namespace row) (wd_environments (db w)) = [row]) \<and>
    (\<forall>fault n w. ReconcileEnvironmentNamespaceUniqueness fault \<lparr>db = d', calls = n\<rparr> = (Inr (), w) \<longrightarrow>
       conflicted d' = {} \<longrightarrow> wd_namespace_index (db w))"
  using workspace_run_namespaces [OF assms(1)] assms(2) CreateEnvironment_only Reconcile_index
  by (fastforce simp: namespaces_evolve_def)


lemma templates_ok_seq: "templates_ok d \<Longrightarrow> t \<in> set (rd_templates d) \<Longrightarrow> dt_ID t \<le> wd_seq d Templates"
  by (simp add: templates_ok_def)

text \<open>Fewer than \<open>2 ^ 64\<close> increments do not lead back to the same revision.\<close>

lemma no_wrap:
  fixes r k n :: nat
  assumes "r < 2 ^ 64" and "k \<le> n" and "n + 1 < 2 ^ 64"
  shows "(r + (1 + k)) mod 2 ^ 64 \<noteq> r"
proof (cases "r + (1 + k) < 2 ^ 64")
  case False
  then have "(r + (1 + k)) mod 2 ^ 64 = r + (1 + k) - 2 ^ 64"
    using assms by (simp add: mod_if)
  then show ?thesis using False assms by linarith
qed simp

text \<open>
  C14. An update of a template with the revision that was read is never lost and never overwrites
  another one. When such an update succeeded, the stored template is the new one with the next
  revision, and after up to \<open>2 ^ 64 - 2\<close> further operations of the store, whichever database
  calls fail, a second update that still names the old revision is refused and writes nothing.
\<close>

theorem stale_template_update_refused:
  assumes "templates_ok (db w)" and "UpdateApplicationDeploymentTemplateIfRevision fault now t r w = (Inr row, w1)"
    and "(workspace_step ^^ n) (db w1) (db w2)" and "n + 1 < 2 ^ 64" and "dt_ID s = dt_ID t"
  shows "(\<exists>created. row = t\<lparr>dt_CreatedAt := created, dt_Revision := (r + 1) mod 2 ^ 64\<rparr>) \<and>
    tbl_find dt_ID (dt_ID t) (rd_templates (db w1)) = Some row \<and>
    (\<exists>e w3. UpdateApplicationDeploymentTemplateIfRevision fault' now' s r w2 = (Inl e, w3) \<and> db w3 = db w2)"
proof -
  obtain wa wb where wa: "db wa = db w" and b: "bindP (lift_store (current_template fault t)) (\<lambda>current.
       if dt_Revision current \<noteq> r then failP (TemplateRevisionConflictError (dt_Revision current) r)
       else lift_store (db_call fault (save_template now (advanced current t)))) wa = (Inr row, wb)" and w1: "db w1 = db wb"
    using assms(2) unfolding UpdateApplicationDeploymentTemplateIfRevision_def by (elim transaction_Inr)
  obtain current wc where c: "current_template fault t wa = (Inr current, wc)" "dt_Revision current = r"
      and s: "db_call fault (save_template now (advanced current t)) wc = (Inr row, wb)"
    using UpdateTemplateIf_body [OF b] by blast
  have adv: "templates_ok (db wb) \<and> row = advanced current t \<and> current \<in> set (rd_templates (db wa)) \<and> dt_ID current = dt_ID t \<and>
      rd_templates (db wb) = tbl_save dt_ID row (rd_templates (db wa)) \<and> marks_step (db wa) (db wb)"
    using advance_template [OF _ c(1) s] assms(1) wa by simp
  have row: "tbl_find dt_ID (dt_ID t) (rd_templates (db w1)) = Some row"
    using adv w1 tbl_find_save_same [of dt_ID row] by simp
  have r: "r < 2 ^ 64" using adv wa assms(1) c(2) by (auto simp: templates_ok_def)
  have ok: "templates_ok (db w1)" using adv w1 by simp
  have seq: "dt_ID t \<le> wd_seq (db w1) Templates" using templates_ok_seq [OF ok] tbl_find_key [OF row] by metis
  have "fst (UpdateApplicationDeploymentTemplateIfRevision fault' now' s r w2) \<noteq> Inr y" for y
  proof
    assume "fst (UpdateApplicationDeploymentTemplateIfRevision fault' now' s r w2) = Inr y"
    then obtain v where "UpdateApplicationDeploymentTemplateIfRevision fault' now' s r w2 = (Inr y, v)" by (metis prod.collapse)
    then obtain va vb where va: "db va = db w2" and vb: "bindP (lift_store (current_template fault' s)) (\<lambda>current.
       if dt_Revision current \<noteq> r then failP (TemplateRevisionConflictError (dt_Revision current) r)
       else lift_store (db_call fault' (save_template now' (advanced current s)))) va = (Inr y, vb)"
      unfolding UpdateApplicationDeploymentTemplateIfRevision_def by (elim transaction_Inr)
    obtain cur vc where cur: "current_template fault' s va = (Inr cur, vc)" "dt_Revision cur = r"
      using UpdateTemplateIf_body [OF vb] by blast
    have "(dt_ID t, dt_ApplicationID cur, r) \<in> template_marks (db w2)"
      using current_template_Inr [OF cur(1)] cur(2) va assms(5) by (auto simp: template_marks_def image_iff intro!: bexI [of _ cur])
    from workspace_steps_revision [OF assms(3) ok seq this] obtain a r0 k
      where k: "(dt_ID t, a, r0) \<in> template_marks (db w1)" "k \<le> n" "r = (r0 + k) mod 2 ^ 64" by blast
    have "r0 = (r + 1) mod 2 ^ 64"
    proof -
      obtain u where u: "u \<in> set (rd_templates (db w1))" "dt_ID u = dt_ID t" "dt_Revision u = r0"
        using k(1) by (auto simp: template_marks_def)
      then have "u = row" using ok row tbl_find_member [of dt_ID "rd_templates (db w1)" u] by (auto simp: templates_ok_def)
      with u adv c(2) show ?thesis by simp
    qed
    with k(3) have "r = (r + (1 + k)) mod 2 ^ 64" by (simp add: mod_simps add.assoc)
    moreover have "(r + (1 + k)) mod 2 ^ 64 \<noteq> r" using r k(2) assms(4) by (rule no_wrap)
    ultimately show False by simp
  qed
  then obtain e w3 where "UpdateApplicationDeploymentTemplateIfRevision fault' now' s r w2 = (Inl e, w3)"
    by (metis prod.collapse sum.exhaust)
  moreover from this have "db w3 = db w2" unfolding UpdateApplicationDeploymentTemplateIfRevision_def by (rule transaction_Inl)
  ultimately show ?thesis using row adv c(2) by (auto simp: advanced_def)
qed

text \<open>What the reads and writes of \<open>UpdateKind\<close> do.\<close>

definition newest_success :: "workspace_db \<Rightarrow> nat \<Rightarrow> Release option" where
  "newest_success d i = find (\<lambda>r. rl_Status r = ReleaseStatusSucceeded) (app_releases i (rd_releases d))"

lemma release_part [simp]:
  "release_db.extend (release_db.truncate d) (release_db.more d) = (d :: workspace_db)" "rd_releases (release_db.truncate d) = rd_releases d"
  by (cases d; simp add: release_db.defs)+

lemma on_releases_latest:
  assumes "on_releases (GetLatestSuccessfulRelease fault i) w = (r, w')"
  shows "db w' = db w \<and> (r = Inl ErrDatabase \<or> r = found (newest_success (db w) i))"
  using assms by (auto simp: on_releases_def GetLatestSuccessfulRelease_def db_defs newest_success_def split: if_splits)

lemma persist_kind_cases:
  assumes "persist_kind fault now app target w = (r, w')"
  shows "case r of Inl e \<Rightarrow> db w' = db w \<and> (\<exists>x. e = ErrWorkloadPersistence x)
    | Inr _ \<Rightarrow> ap_ID app \<noteq> 0 \<longrightarrow>
        (\<exists>row. tbl_find ap_ID (ap_ID app) (rd_apps (db w')) = Some row \<and> ap_WorkloadKind row = target \<and> ap_Name row = ap_Name app)"
proof (cases "SetCapabilities (ap_Capabilities app) (app\<lparr>ap_WorkloadKind := target\<rparr>)")
  case (Inl e)
  with assms show ?thesis by (auto simp: persist_kind_def UpdateApplication_def tryP_def failP_def)
next
  case (Inr row)
  then have row: "ap_ID row = ap_ID app" "ap_WorkloadKind row = target" "ap_Name row = ap_Name app"
    by (cases "NormalizeApplicationCapabilities (ap_Capabilities app)"; auto simp: SetCapabilities_def)+
  have find: "tbl_find ap_ID (ap_ID app) (tbl_save ap_ID row rows) = Some row" for rows
    using tbl_find_save_same [of ap_ID row rows] row(1) by simp
  show ?thesis using assms Inr row find
    by (auto simp: persist_kind_def UpdateApplication_def tryP_def failP_def returnP_def lift_store_def db_call_def save_application_def
        insert_application_def Let_def note_id_def split: if_splits sum.splits prod.splits)
qed

text \<open>
  C17. Changing the workload kind of an application keeps the cluster and the stored kind together, on
  every error path. On success the kind is stored, and if the application has a successful release,
  its newest one was checked and migrated first, in this order, and both steps were accepted. On any
  error the store is as it was, and an error after an accepted migration is reported as a failed write.
\<close>

theorem workload_kind_change:
  assumes "UpdateKind fault now migrator (Some app) target w = (r, evs, w')" and "ap_WorkloadKind app \<noteq> target" and "ap_ID app \<noteq> 0"
  shows "case r of
      Inr _ \<Rightarrow>
        (\<exists>row. tbl_find ap_ID (ap_ID app) (rd_apps (db w')) = Some row \<and> ap_WorkloadKind row = target \<and> ap_Name row = ap_Name app) \<and>
        (case newest_success (db w) (ap_ID app) of
           None \<Rightarrow> evs = []
         | Some release \<Rightarrow>
             (\<exists>m spec cx. migrator = Some m \<and> unmarshal (rl_DesiredSpec release) = Some spec \<and>
                cx = (applicationContextFor app)\<lparr>cx_ReleaseSequence := rl_Sequence release\<rparr> \<and>
                evs = [EvMigratePreflight cx spec, EvMigrate cx spec target] \<and>
                wm_Preflight m [] cx spec = None \<and> wm_MigrateWorkloadKind m [EvMigratePreflight cx spec] cx spec target = None))
    | Inl e \<Rightarrow> db w' = db w \<and>
        (\<forall>m cx spec. migrator = Some m \<and> evs = [EvMigratePreflight cx spec, EvMigrate cx spec target] \<and>
           wm_MigrateWorkloadKind m [EvMigratePreflight cx spec] cx spec target = None \<longrightarrow> (\<exists>x. e = ErrWorkloadPersistence x))"
proof -
  obtain q w1 where l: "on_releases (GetLatestSuccessfulRelease fault (ap_ID app)) w = (q, w1)"
    by (cases "on_releases (GetLatestSuccessfulRelease fault (ap_ID app)) w")
  have w1: "db w1 = db w" and q: "q = Inl ErrDatabase \<or> q = found (newest_success (db w) (ap_ID app))"
    using on_releases_latest [OF l] by auto
  obtain p w2 where k: "persist_kind fault now app target w1 = (p, w2)" by (cases "persist_kind fault now app target w1")
  note kc = persist_kind_cases [OF k]
  show ?thesis
  proof (cases "newest_success (db w) (ap_ID app)")
    case None
    then show ?thesis using assms q l k kc w1
      by (cases p) (auto simp: UpdateKind_def Let_def)
  next
    case (Some release)
    then show ?thesis using assms q l k kc w1
      by (cases p) (auto simp: UpdateKind_def Let_def split: option.splits)
  qed
qed

section \<open>A concrete workspace\<close>

definition demo_environment :: "nat \<Rightarrow> string \<Rightarrow> Environment" where
  "demo_environment i namespace = \<lparr>en_ID = i, en_ProjectID = 4, en_Name = namespace, en_Namespace = namespace, en_CreatedAt = 0\<rparr>"

definition demo_workspace :: workspace_db where
  "demo_workspace = \<lparr>rd_apps = [demo_app], rd_releases = [demo_release 3 ReleaseStatusSucceeded], rd_operations = [], rd_logs = [], rd_endpoints = [],
     rd_templates = [demo_template], rd_files = [], rd_registries = [], rd_mirrors = [], rd_trace = [],
     wd_projects = [], wd_environments = [demo_environment 2 ''prod''], wd_namespace_index = False, wd_seq = (\<lambda>_. 6)\<rparr>"

definition demo_store :: "workspace_db world" where
  "demo_store = \<lparr>db = demo_workspace, calls = 0\<rparr>"

lemma demo_namespaces_ok: "namespaces_ok demo_workspace"
  by (simp add: namespaces_ok_def demo_workspace_def demo_environment_def)

lemma demo_templates_ok: "templates_ok demo_workspace"
  by (simp add: templates_ok_def demo_workspace_def demo_template_def demo_app_def default_stored_def demo_release_def draft_release_def)

lemma namespace_has_one_owner_witness:
  "namespaces_ok demo_workspace \<and>
   (\<exists>w. CreateEnvironment (\<lambda>_. False) 7 (Some (demo_environment 0 ''test'')) demo_store = (Inr (demo_environment 7 ''test''), w) \<and>
      namespaces_ok (db w) \<and> length (wd_environments (db w)) = 2)"
proof -
  let ?r = "CreateEnvironment (\<lambda>_. False) 7 (Some (demo_environment 0 ''test'')) demo_store"
  have run: "fst ?r = Inr (demo_environment 7 ''test'')" "length (wd_environments (db (snd ?r))) = 2"
    by (simp_all add: CreateEnvironment_def transaction_def bindP_def ensureNamespaceAvailable_def tryP_def db_defs found_def
        insert_environment_def demo_store_def demo_workspace_def demo_environment_def assign_id_def created_at_def zero_time_def
        environment_clash_def returnP_def lift_store_def note_id_def Let_def)
  have "workspace_step demo_workspace (db (snd ?r))"
    using create_environment [of demo_store "\<lambda>_. False" 7 "Some (demo_environment 0 ''test'')"] by (simp add: demo_store_def)
  from namespace_has_one_owner [OF r_into_rtranclp, OF this demo_namespaces_ok] have "namespaces_ok (db (snd ?r))" by simp
  with run demo_namespaces_ok show ?thesis by (metis prod.collapse)
qed


lemma stale_template_update_refused_witness:
  "\<exists>row w1 e w2.
     UpdateApplicationDeploymentTemplateIfRevision (\<lambda>_. False) 7 demo_template 3 demo_store = (Inr row, w1) \<and> dt_Revision row = 4 \<and>
     UpdateApplicationDeploymentTemplateIfRevision (\<lambda>_. False) 8 (demo_template\<lparr>dt_Name := ''other''\<rparr>) 3 w1 = (Inl e, w2) \<and> db w2 = db w1"
proof -
  have "\<exists>row w1. UpdateApplicationDeploymentTemplateIfRevision (\<lambda>_. False) 7 demo_template 3 demo_store = (Inr row, w1)"
    by (simp add: UpdateApplicationDeploymentTemplateIfRevision_def transaction_def bindP_def db_defs demo_store_def demo_workspace_def
        demo_template_def current_template_def lift_store_def save_template_def advanced_def)
  then obtain row w1 where u: "UpdateApplicationDeploymentTemplateIfRevision (\<lambda>_. False) 7 demo_template 3 demo_store = (Inr row, w1)" by blast
  have ok: "templates_ok (db demo_store)" using demo_templates_ok by (simp add: demo_store_def)
  have run: "(workspace_step ^^ 0) (db w1) (db w1)" by simp
  have id: "dt_ID (demo_template\<lparr>dt_Name := ''other''\<rparr>) = dt_ID demo_template" by simp
  note refused = stale_template_update_refused [OF ok u run _ id, of "\<lambda>_. False" 8]
  then have "dt_Revision row = 4" by auto
  with u refused show ?thesis by auto
qed

definition demo_migrator :: WorkloadMigrator where
  "demo_migrator = \<lparr>wm_Preflight = (\<lambda>_ _ _. None), wm_MigrateWorkloadKind = (\<lambda>_ _ _ _. None)\<rparr>"

lemma workload_kind_change_witness:
  "\<exists>evs w' row. UpdateKind (\<lambda>_. False) 7 (Some demo_migrator) (Some demo_app) ''statefulset'' demo_store = (Inr (), evs, w') \<and>
     length evs = 2 \<and> tbl_find ap_ID 5 (rd_apps (db w')) = Some row \<and> ap_WorkloadKind row = ''statefulset''"
proof -
  have latest: "newest_success demo_workspace 5 = Some (demo_release 3 ReleaseStatusSucceeded)"
    by (simp add: newest_success_def demo_workspace_def app_releases_def demo_release_def draft_release_def)
  have read: "on_releases (GetLatestSuccessfulRelease (\<lambda>_. False) i) w = (found (newest_success (db w) i), w\<lparr>calls := Suc (calls w)\<rparr>)" for i w
    by (simp add: on_releases_def GetLatestSuccessfulRelease_def db_defs newest_success_def)
  have apps: "rd_apps demo_workspace = [demo_app]" by (simp add: demo_workspace_def)
  have "fst (persist_kind (\<lambda>_. False) 7 demo_app ''statefulset'' \<lparr>db = demo_workspace, calls = n\<rparr>) = Inr ()" for n
    by (simp add: persist_kind_def UpdateApplication_def SetCapabilities_def NormalizeApplicationCapabilities_def tryP_def lift_store_def
        db_call_def save_application_def apps demo_app_def maxApplicationCapabilities_def returnP_def)
  then obtain w' where p: "persist_kind (\<lambda>_. False) 7 demo_app ''statefulset'' \<lparr>db = demo_workspace, calls = Suc 0\<rparr> = (Inr (), w')"
    by (metis prod.collapse)
  have "\<exists>evs. UpdateKind (\<lambda>_. False) 7 (Some demo_migrator) (Some demo_app) ''statefulset'' demo_store = (Inr (), evs, w')"
    using latest p unfolding UpdateKind_def
    by (simp add: read demo_store_def demo_app_def [THEN arg_cong [of _ _ ap_ID]] demo_app_def [THEN arg_cong [of _ _ ap_WorkloadKind]]
        demo_release_def draft_release_def demo_migrator_def Let_def)
  then obtain r evs where u: "UpdateKind (\<lambda>_. False) 7 (Some demo_migrator) (Some demo_app) ''statefulset'' demo_store = (r, evs, w')"
      and r: "r = Inr ()" by blast
  have "ap_WorkloadKind demo_app \<noteq> ''statefulset''" "ap_ID demo_app \<noteq> 0" "ap_ID demo_app = 5" by (simp_all add: demo_app_def)
  with workload_kind_change [OF u] r latest u show ?thesis by (auto simp: demo_store_def)
qed

end
