(* ===== verification/Kubernetes_Adapter.thy ===== *)
theory Kubernetes_Adapter
  imports Release_Rendering
begin

text \<open>
  \<open>internal/k8s/application.go\<close>: how the release service reads and writes the objects of the cluster.

  The API server is a parameter that answers each call from all calls before it, so that a theorem
  about every \<open>k8s_api\<close> covers every behaviour of the cluster, its controllers and its other clients.
  The state of a procedure is the trace of its calls, and what a program does to the cluster is stated
  about this trace.
\<close>

section \<open>Objects of the cluster\<close>

datatype k8s_kind = KConfigMap | KSecret | KDeployment | KStatefulSet | KService | KIngress | KCertificate

text \<open>What is sent to the server. A Service carries its cluster address, a Certificate only its metadata.\<close>

datatype k8s_object =
    OConfigMap ConfigMap | OSecret Secret | ODeployment Workload | OStatefulSet Workload
  | OService Service string | OIngress Ingress | OCertificate ObjectMeta

fun object_kind :: "k8s_object \<Rightarrow> k8s_kind" where
  "object_kind (OConfigMap _) = KConfigMap" | "object_kind (OSecret _) = KSecret"
| "object_kind (ODeployment _) = KDeployment" | "object_kind (OStatefulSet _) = KStatefulSet"
| "object_kind (OService _ _) = KService" | "object_kind (OIngress _) = KIngress"
| "object_kind (OCertificate _) = KCertificate"

fun object_meta :: "k8s_object \<Rightarrow> ObjectMeta" where
  "object_meta (OConfigMap o1) = cm_Meta o1" | "object_meta (OSecret o2) = se_Meta o2"
| "object_meta (ODeployment o3) = wl_Meta o3" | "object_meta (OStatefulSet o4) = wl_Meta o4"
| "object_meta (OService o5 _) = sx_Meta o5" | "object_meta (OIngress o6) = ig_Meta o6"
| "object_meta (OCertificate m) = m"

text \<open>What the code reads of an object that the server returns; a nil replica count is \<open>None\<close>.\<close>

record live_object =
  lo_Labels :: "string gomap"
  lo_ResourceVersion :: string
  lo_DataKeys :: "string list"
  lo_BinaryKeys :: "string list"
  lo_ClusterIP :: string
  lo_Workload :: Workload
  lo_Replicas :: "int option"
  lo_Generation :: int
  lo_ObservedGeneration :: int
  lo_UpdatedReplicas :: int
  lo_AvailableReplicas :: int
  lo_UnavailableReplicas :: int
  lo_ReadyReplicas :: int
  lo_CurrentReplicas :: int

datatype get_result = NotFound | GetFailed string | Found live_object

text \<open>Pods and events.\<close>

record ContainerStatus =
  cs_Name :: string
  cs_Image :: string
  cs_Ready :: bool
  cs_RestartCount :: int
  cs_Waiting :: "(string \<times> string) option"
  cs_Terminated :: "(string \<times> string \<times> int) option"
  cs_Running :: bool
  cs_LastTerminated :: "(string \<times> int) option"

record PodCondition =
  pc_Type :: string
  pc_Status :: string
  pc_Message :: string

record Pod =
  pd_Name :: string
  pd_NodeName :: string
  pd_Phase :: string
  pd_Labels :: "string gomap"
  pd_Message :: string
  pd_CreatedAt :: int
  pd_Conditions :: "PodCondition list"
  pd_ContainerStatuses :: "ContainerStatus list"

record cluster_event =
  ce_Type :: string
  ce_InvolvedKind :: string
  ce_InvolvedName :: string
  ce_Reason :: string
  ce_Message :: string

section \<open>Calls\<close>

datatype k8s_event =
    EvGet k8s_kind string string get_result
  | EvCreate k8s_object
  | EvUpdate k8s_object string
  | EvDelete k8s_kind string string
  | EvListPods string string "string + Pod list"
  | EvListEvents string
  | EvGetCertificate string string

record k8s_api =
  api_ready :: bool
  api_get :: "k8s_event list \<Rightarrow> k8s_kind \<Rightarrow> string \<Rightarrow> string \<Rightarrow> get_result"
  api_create :: "k8s_event list \<Rightarrow> k8s_object \<Rightarrow> string option"
  api_update :: "k8s_event list \<Rightarrow> k8s_object \<Rightarrow> string \<Rightarrow> string option"
  api_delete :: "k8s_event list \<Rightarrow> k8s_kind \<Rightarrow> string \<Rightarrow> string \<Rightarrow> string option"
  api_pods :: "k8s_event list \<Rightarrow> string \<Rightarrow> string \<Rightarrow> string + Pod list"
  api_events :: "k8s_event list \<Rightarrow> string \<Rightarrow> string + cluster_event list"
  api_certificate :: "k8s_event list \<Rightarrow> string \<Rightarrow> string \<Rightarrow> string + (string \<times> string) list"

datatype k8s_error = K8sUninitialised | NotManaged | K8sNotFound | K8sFailed string

type_synonym ('e, 'a) k8s_proc = "(k8s_event list, 'e, 'a) proc"

definition k8s_get :: "k8s_api \<Rightarrow> k8s_kind \<Rightarrow> string \<Rightarrow> string \<Rightarrow> (k8s_error, live_object) k8s_proc" where
  "k8s_get api kind ns name t =
     (let r = api_get api t kind ns name in
      (case r of NotFound \<Rightarrow> Inl K8sNotFound | GetFailed e \<Rightarrow> Inl (K8sFailed e) | Found live \<Rightarrow> Inr live, t @ [EvGet kind ns name r]))"

definition k8s_answer :: "string option \<Rightarrow> k8s_error + unit" where
  "k8s_answer a = (case a of None \<Rightarrow> Inr () | Some e \<Rightarrow> Inl (K8sFailed e))"

definition k8s_create :: "k8s_api \<Rightarrow> k8s_object \<Rightarrow> (k8s_error, unit) k8s_proc" where
  "k8s_create api desired t = (k8s_answer (api_create api t desired), t @ [EvCreate desired])"

definition k8s_update :: "k8s_api \<Rightarrow> k8s_object \<Rightarrow> string \<Rightarrow> (k8s_error, unit) k8s_proc" where
  "k8s_update api desired version t = (k8s_answer (api_update api t desired version), t @ [EvUpdate desired version])"

definition k8s_delete :: "k8s_api \<Rightarrow> k8s_kind \<Rightarrow> string \<Rightarrow> string \<Rightarrow> (k8s_error, unit) k8s_proc" where
  "k8s_delete api kind ns name t = (k8s_answer (api_delete api t kind ns name), t @ [EvDelete kind ns name])"

section \<open>The adapters\<close>

definition managed_labels :: "string gomap \<Rightarrow> bool" where
  "managed_labels labels \<longleftrightarrow> map_of labels ManagedByLabel = Some ManagedByValue"

definition ensureApplicationManaged :: "string gomap \<Rightarrow> k8s_error + unit" where
  "ensureApplicationManaged labels = (if \<not> managed_labels labels then Inl NotManaged else Inr ())"

definition ready :: "k8s_api \<Rightarrow> k8s_error + unit" where
  "ready api = (if api_ready api then Inr () else Inl K8sUninitialised)"

text \<open>
  The body the seven functions share: create the object if there is none, else check the owner and
  update it at the version that was read. \<open>build\<close> gives the object from the existing one.
\<close>

definition apply_object ::
  "k8s_api \<Rightarrow> k8s_kind \<Rightarrow> ObjectMeta \<Rightarrow> (live_object option \<Rightarrow> k8s_object) \<Rightarrow> (k8s_error, unit) k8s_proc" where
  "apply_object api kind meta build =
     (case ready api of
        Inl e \<Rightarrow> failP e
      | Inr _ \<Rightarrow>
          tryP (k8s_get api kind (om_Namespace meta) (om_Name meta)) (\<lambda>r. case r of
            Inl K8sNotFound \<Rightarrow> k8s_create api (build None)
          | Inl e \<Rightarrow> failP e
          | Inr existing \<Rightarrow>
              (case ensureApplicationManaged (lo_Labels existing) of
                 Inl e \<Rightarrow> failP e
               | Inr _ \<Rightarrow> k8s_update api (build (Some existing)) (lo_ResourceVersion existing))))"

definition ApplyConfigMap :: "k8s_api \<Rightarrow> ConfigMap \<Rightarrow> (k8s_error, unit) k8s_proc" where
  "ApplyConfigMap api desired = apply_object api KConfigMap (cm_Meta desired) (\<lambda>_. OConfigMap desired)"

definition ApplySecret :: "k8s_api \<Rightarrow> Secret \<Rightarrow> (k8s_error, unit) k8s_proc" where
  "ApplySecret api desired = apply_object api KSecret (se_Meta desired) (\<lambda>_. OSecret desired)"

definition ApplyDeployment :: "k8s_api \<Rightarrow> Workload \<Rightarrow> (k8s_error, unit) k8s_proc" where
  "ApplyDeployment api desired = apply_object api KDeployment (wl_Meta desired) (\<lambda>_. ODeployment desired)"

definition ApplyStatefulSet :: "k8s_api \<Rightarrow> Workload \<Rightarrow> (k8s_error, unit) k8s_proc" where
  "ApplyStatefulSet api desired = apply_object api KStatefulSet (wl_Meta desired) (\<lambda>_. OStatefulSet desired)"

text \<open>The cluster address of a Service is kept.\<close>

definition ApplyService :: "k8s_api \<Rightarrow> Service \<Rightarrow> (k8s_error, unit) k8s_proc" where
  "ApplyService api desired = apply_object api KService (sx_Meta desired)
     (\<lambda>existing. OService desired (case existing of None \<Rightarrow> [] | Some live \<Rightarrow> lo_ClusterIP live))"

definition ApplyIngress :: "k8s_api \<Rightarrow> Ingress \<Rightarrow> (k8s_error, unit) k8s_proc" where
  "ApplyIngress api desired = apply_object api KIngress (ig_Meta desired) (\<lambda>_. OIngress desired)"

definition ApplyCertificate :: "k8s_api \<Rightarrow> ObjectMeta \<Rightarrow> (k8s_error, unit) k8s_proc" where
  "ApplyCertificate api desired = apply_object api KCertificate desired (\<lambda>_. OCertificate desired)"

definition GetDeployment :: "k8s_api \<Rightarrow> string \<Rightarrow> string \<Rightarrow> (k8s_error, live_object) k8s_proc" where
  "GetDeployment api ns name = k8s_get api KDeployment ns name"

definition UpdateDeployment :: "k8s_api \<Rightarrow> Workload \<Rightarrow> string \<Rightarrow> (k8s_error, unit) k8s_proc" where
  "UpdateDeployment api deployment version = k8s_update api (ODeployment deployment) version"

definition GetStatefulSet :: "k8s_api \<Rightarrow> string \<Rightarrow> string \<Rightarrow> (k8s_error, live_object) k8s_proc" where
  "GetStatefulSet api ns name = k8s_get api KStatefulSet ns name"

definition UpdateStatefulSet :: "k8s_api \<Rightarrow> Workload \<Rightarrow> string \<Rightarrow> (k8s_error, unit) k8s_proc" where
  "UpdateStatefulSet api workload version = k8s_update api (OStatefulSet workload) version"

definition ListPods :: "k8s_api \<Rightarrow> string \<Rightarrow> string \<Rightarrow> (k8s_error, Pod list) k8s_proc" where
  "ListPods api ns selector t =
     (let r = api_pods api t ns selector in (map_sum K8sFailed id r, t @ [EvListPods ns selector r]))"

definition ListEvents :: "k8s_api \<Rightarrow> string \<Rightarrow> (k8s_error, cluster_event list) k8s_proc" where
  "ListEvents api ns t = (map_sum K8sFailed id (api_events api t ns), t @ [EvListEvents ns])"

definition DeleteIngress :: "k8s_api \<Rightarrow> string \<Rightarrow> string \<Rightarrow> (k8s_error, unit) k8s_proc" where
  "DeleteIngress api ns name = k8s_delete api KIngress ns name"

definition GetIngress :: "k8s_api \<Rightarrow> string \<Rightarrow> string \<Rightarrow> (k8s_error, live_object) k8s_proc" where
  "GetIngress api ns name = k8s_get api KIngress ns name"

text \<open>The conditions of a certificate as pairs of type and status.\<close>

definition CertificateReady :: "k8s_api \<Rightarrow> string \<Rightarrow> string \<Rightarrow> (k8s_error, bool) k8s_proc" where
  "CertificateReady api namespace name t =
     (map_sum K8sFailed (\<lambda>conditions. list_ex (\<lambda>(type, status). type = ''Ready'' \<and> status = ''True'') conditions)
        (api_certificate api t namespace name), t @ [EvGetCertificate namespace name])"

section \<open>Guarded traces\<close>

text \<open>
  An object is only created right after the server said that there is none, and only updated or
  deleted right after it was read with the label of the platform; an update names the version that
  was read, so that the server refuses it when anybody changed the object since.
\<close>

definition allowed_after :: "k8s_event option \<Rightarrow> k8s_event \<Rightarrow> bool" where
  "allowed_after prev e =
     (case e of
        EvCreate obj \<Rightarrow>
          prev = Some (EvGet (object_kind obj) (om_Namespace (object_meta obj)) (om_Name (object_meta obj)) NotFound)
      | EvUpdate obj version \<Rightarrow>
          (case prev of
             Some (EvGet kind ns name (Found live)) \<Rightarrow>
               kind = object_kind obj \<and> ns = om_Namespace (object_meta obj) \<and> name = om_Name (object_meta obj) \<and>
               managed_labels (lo_Labels live) \<and> version = lo_ResourceVersion live
           | _ \<Rightarrow> False)
      | EvDelete kind ns name \<Rightarrow>
          (case prev of
             Some (EvGet kind' ns' name' (Found live)) \<Rightarrow> kind' = kind \<and> ns' = ns \<and> name' = name \<and> managed_labels (lo_Labels live)
           | _ \<Rightarrow> False)
      | _ \<Rightarrow> True)"

fun guarded_from :: "k8s_event option \<Rightarrow> k8s_event list \<Rightarrow> bool" where
  "guarded_from prev [] = True"
| "guarded_from prev (e # es) = (allowed_after prev e \<and> guarded_from (Some e) es)"

abbreviation guarded :: "k8s_event list \<Rightarrow> bool" where
  "guarded es \<equiv> guarded_from None es"

lemma allowed_after_None: "allowed_after None e \<Longrightarrow> allowed_after prev e"
  by (auto simp: allowed_after_def split: k8s_event.splits)

lemma guarded_from_None: "guarded es \<Longrightarrow> guarded_from prev es"
  by (cases es) (auto dest: allowed_after_None)

lemma guarded_append: "guarded_from prev es \<Longrightarrow> guarded es' \<Longrightarrow> guarded_from prev (es @ es')"
  by (induction prev es rule: guarded_from.induct) (auto intro: guarded_from_None)

section \<open>What a procedure adds to the trace\<close>

definition extends :: "(k8s_event list \<Rightarrow> bool) \<Rightarrow> ('e, 'a) k8s_proc \<Rightarrow> bool" where
  "extends P m \<longleftrightarrow> (\<forall>t. \<exists>es. snd (m t) = t @ es \<and> P es)"

lemma extendsD: "extends P m \<Longrightarrow> \<exists>es. snd (m t) = t @ es \<and> P es"
  by (simp add: extends_def)

lemma extendsE:
  assumes "extends P m" and "m t = (r, t')"
  obtains es where "t' = t @ es" and "P es"
  using extendsD [OF assms(1), of t] assms(2) by auto

lemma bindP_tryP: "bindP m f = tryP m (\<lambda>r. case r of Inl e \<Rightarrow> failP e | Inr x \<Rightarrow> f x)"
  by (simp add: bindP_def tryP_def failP_def fun_eq_iff split: prod.splits sum.splits)

text \<open>Properties of traces that are kept by putting traces together.\<close>

locale trace_property =
  fixes P :: "k8s_event list \<Rightarrow> bool"
  assumes nil: "P []"
    and append: "P es \<Longrightarrow> P es' \<Longrightarrow> P (es @ es')"
begin

lemma extends_returnP: "extends P (returnP x)"
  by (simp add: extends_def returnP_def nil)

lemma extends_failP: "extends P (failP e)"
  by (simp add: extends_def failP_def nil)

lemma extends_tryP:
  assumes "extends P m" and "\<And>r. extends P (f r)"
  shows "extends P (tryP m f)"
  unfolding extends_def
proof
  fix t
  obtain r t1 where m: "m t = (r, t1)" by (cases "m t")
  obtain es where es: "t1 = t @ es" "P es" using extendsD [OF assms(1), of t] m by auto
  obtain es' where es': "snd (f r t1) = t1 @ es'" "P es'" using extendsD [OF assms(2), of r t1] by blast
  show "\<exists>es. snd (tryP m f t) = t @ es \<and> P es"
    using m es es' append [OF es(2) es'(2)] by (auto simp: tryP_def)
qed

lemma extends_bindP: "extends P m \<Longrightarrow> (\<And>x. extends P (f x)) \<Longrightarrow> extends P (bindP m f)"
  unfolding bindP_tryP by (rule extends_tryP) (auto intro: extends_failP split: sum.splits)

lemma extends_if: "(b \<Longrightarrow> extends P m) \<Longrightarrow> (\<not> b \<Longrightarrow> extends P m') \<Longrightarrow> extends P (if b then m else m')"
  by simp

lemmas extends_intros = extends_returnP extends_failP extends_tryP extends_bindP extends_if

end

text \<open>Guarded traces, and traces without a write.\<close>

fun is_read :: "k8s_event \<Rightarrow> bool" where
  "is_read (EvCreate _) = False" | "is_read (EvUpdate _ _) = False" | "is_read (EvDelete _ _ _) = False" | "is_read _ = True"

abbreviation reads_only :: "k8s_event list \<Rightarrow> bool" where
  "reads_only es \<equiv> list_all is_read es"

abbreviation guarded_proc :: "('e, 'a) k8s_proc \<Rightarrow> bool" where
  "guarded_proc m \<equiv> extends (guarded_from None) m"

interpretation g: trace_property "guarded_from None"
  by unfold_locales (auto intro: guarded_append)

interpretation ro: trace_property "list_all is_read"
  by unfold_locales auto

lemma reads_only_guarded: "reads_only es \<Longrightarrow> guarded es"
proof -
  have "reads_only es \<Longrightarrow> guarded_from prev es" for prev
    by (induction prev es rule: guarded_from.induct) (auto simp: allowed_after_def split: k8s_event.splits)
  then show "reads_only es \<Longrightarrow> guarded es" .
qed

lemma extends_reads:
  "extends (list_all is_read) (k8s_get api kind ns name)" "extends (list_all is_read) (ListPods api ns selector)"
  "extends (list_all is_read) (ListEvents api ns)" "extends (list_all is_read) (CertificateReady api ns name)"
  by (auto simp: extends_def k8s_get_def ListPods_def ListEvents_def CertificateReady_def Let_def)

lemma reading_guarded: "extends (list_all is_read) m \<Longrightarrow> guarded_proc m"
  using reads_only_guarded by (auto simp: extends_def)

text \<open>Applying an object of the right kind and name.\<close>

lemma guarded_apply_object:
  assumes "\<And>x. object_kind (build x) = kind" and "\<And>x. object_meta (build x) = meta"
  shows "guarded_proc (apply_object api kind meta build)"
  unfolding extends_def apply_object_def ready_def ensureApplicationManaged_def
  using assms by (auto simp: tryP_def k8s_get_def k8s_create_def k8s_update_def failP_def Let_def allowed_after_def
      split: get_result.splits)

lemma guarded_applies:
  "guarded_proc (ApplyConfigMap api c)" "guarded_proc (ApplySecret api s)" "guarded_proc (ApplyDeployment api d)"
  "guarded_proc (ApplyStatefulSet api d)" "guarded_proc (ApplyService api v)" "guarded_proc (ApplyIngress api i)"
  "guarded_proc (ApplyCertificate api m)"
  unfolding ApplyConfigMap_def ApplySecret_def ApplyDeployment_def ApplyStatefulSet_def ApplyService_def ApplyIngress_def
    ApplyCertificate_def
  by (rule guarded_apply_object; simp)+

end
