(* ===== verification/Kubernetes_Diagnostics.thy ===== *)
theory Kubernetes_Diagnostics
  imports Kubernetes_Adapter
begin

text \<open>
  What the release service says about the pods of a release: \<open>releasePodRuntime\<close>,
  \<open>deploymentFailureDiagnostic\<close> and their helpers in
  \<open>internal/service/application/kubernetes_applier.go\<close>. Texts are UTF-8 byte strings; the Chinese parts
  are given by their bytes.
\<close>

section \<open>Redaction\<close>

text \<open>\<open>strings.ReplaceAll\<close> for a non-empty pattern.\<close>

function ReplaceAll :: "string \<Rightarrow> string \<Rightarrow> string \<Rightarrow> string" where
  "ReplaceAll s old new =
     (case s of
        [] \<Rightarrow> []
      | c # cs \<Rightarrow> if old \<noteq> [] \<and> prefix old s then new @ ReplaceAll (drop (length old) s) old new else c # ReplaceAll cs old new)"
  by pat_completeness auto
termination
  by (relation "measure (\<lambda>(s, old, new). length s)") (auto simp: prefix_def)

declare ReplaceAll.simps [simp del]

definition redact_one :: "string \<Rightarrow> string \<Rightarrow> string" where
  "redact_one credential detail =
     (let c = TrimSpace credential in if c \<noteq> [] then ReplaceAll detail c ''[REDACTED]'' else detail)"

definition redactReleaseDiagnostic :: "string \<Rightarrow> string \<Rightarrow> string \<Rightarrow> string" where
  "redactReleaseDiagnostic detail registryCredential verificationCredential =
     take 1000 (redact_one verificationCredential (redact_one registryCredential (TrimSpace detail)))"

abbreviation redact_for :: "ReleaseSpec \<Rightarrow> string \<Rightarrow> string" where
  "redact_for spec detail \<equiv> redactReleaseDiagnostic detail (sp_RegistryCredential spec) (sp_ImageVerificationCredential spec)"

section \<open>Messages\<close>

definition msg_pod :: "string \<Rightarrow> string" where "msg_pod pod = ''Pod '' @ pod"

definition msg_pod_failed :: "string \<Rightarrow> string \<Rightarrow> string" where
  "msg_pod_failed pod detail = msg_pod pod @ utf8 ''20e5b7b2e5a4b1e8b4a53a20'' @ detail"

definition msg_unscheduled :: "string \<Rightarrow> string \<Rightarrow> string" where
  "msg_unscheduled pod detail = msg_pod pod @ utf8 ''20e8b083e5baa6e5a4b1e8b4a53a20'' @ detail"

definition msg_container :: "string \<Rightarrow> string \<Rightarrow> string" where
  "msg_container pod name = msg_pod pod @ utf8 ''20e79a84e5aeb9e599a820'' @ name"

definition msg_waiting :: "string \<Rightarrow> string \<Rightarrow> string \<Rightarrow> string \<Rightarrow> string" where
  "msg_waiting pod name reason detail =
     msg_container pod name @ '': '' @ reason @ (if detail = [] then [] else '': '' @ detail)"

definition msg_exit :: "int \<Rightarrow> string" where
  "msg_exit code = utf8 ''2028e98080e587bae7a08120'' @ show_int code @ '')''"

definition msg_terminated :: "string \<Rightarrow> string \<Rightarrow> string \<Rightarrow> int \<Rightarrow> string" where
  "msg_terminated pod name reason code = msg_container pod name @ utf8 ''20e5b7b2e98080e587ba3a20'' @ reason @ msg_exit code"

definition msg_clean_exit :: "string \<Rightarrow> string \<Rightarrow> int \<Rightarrow> string" where
  "msg_clean_exit pod name restarts =
     msg_container pod name @ utf8 ''20e69bbee6ada3e5b8b8e98080e587ba'' @ msg_exit 0 @ utf8 ''efbc8ce4bd86e5b7b2e9878de590af20'' @ show_int restarts @ utf8 ''20e6aca1''"

definition msg_last_exit :: "string \<Rightarrow> string \<Rightarrow> string \<Rightarrow> int \<Rightarrow> int \<Rightarrow> string" where
  "msg_last_exit pod name reason code restarts =
     msg_container pod name @ utf8 ''20e4b88ae6aca1e98080e587ba3a20'' @ reason @ msg_exit code @ utf8 ''efbc8ce5b7b2e9878de590af20'' @ show_int restarts @ utf8 ''20e6aca1''"

definition msg_not_ready :: "string \<Rightarrow> string \<Rightarrow> string" where
  "msg_not_ready pod name = msg_container pod name @ utf8 ''20e5b09ae69caae5b0b1e7bbaa''"

definition msg_event :: "cluster_event \<Rightarrow> string" where
  "msg_event e = msg_pod (ce_InvolvedName e) @ '': '' @ ce_Reason e @ '': '' @ ce_Message e"

definition msg_separator :: string where "msg_separator = utf8 ''efbc9b''"

section \<open>Pods of a release\<close>

record ReleaseContainerRuntime =
  cr_Name :: string
  cr_Image :: string
  cr_Ready :: bool
  cr_RestartCount :: int
  cr_State :: string
  cr_Reason :: string
  cr_Message :: string
  cr_ExitCode :: "int option"
  cr_LastState :: string
  cr_LastReason :: string
  cr_LastExitCode :: "int option"

record ReleasePodRuntime =
  pr_PodName :: string
  pr_NodeName :: string
  pr_Phase :: string
  pr_Ready :: bool
  pr_Restarts :: int
  pr_PodCreatedAt :: int
  pr_Containers :: "ReleaseContainerRuntime list"
  pr_Diagnostic :: string

record ReleaseRuntime =
  rt_Tracking :: string
  rt_Pods :: "ReleasePodRuntime list"
  rt_Diagnostic :: string

text \<open>Drop blank texts and repetitions, keep the order.\<close>

fun distinct_texts :: "string list \<Rightarrow> string list \<Rightarrow> string list" where
  "distinct_texts seen [] = []"
| "distinct_texts seen (d # ds) =
     (let text = TrimSpace d in
      if text = [] \<or> text \<in> set seen then distinct_texts seen ds else text # distinct_texts (text # seen) ds)"

definition releaseRuntimeDiagnostic :: "string list \<Rightarrow> string" where
  "releaseRuntimeDiagnostic diagnostics = redactReleaseDiagnostic (join_with msg_separator (distinct_texts [] diagnostics)) [] []"

text \<open>The state of the running container and what it says, then what the last exit adds.\<close>

definition container_state :: "string \<Rightarrow> ContainerStatus \<Rightarrow> ReleaseContainerRuntime \<times> string" where
  "container_state podName status =
     (let result = \<lparr>cr_Name = cs_Name status, cr_Image = cs_Image status, cr_Ready = cs_Ready status,
            cr_RestartCount = cs_RestartCount status, cr_State = [], cr_Reason = [], cr_Message = [], cr_ExitCode = None,
            cr_LastState = [], cr_LastReason = [], cr_LastExitCode = None\<rparr> in
      case cs_Waiting status of
        Some (reason, detail) \<Rightarrow>
          (result\<lparr>cr_State := ''waiting'', cr_Reason := reason, cr_Message := detail\<rparr>, msg_waiting podName (cs_Name status) reason detail)
      | None \<Rightarrow>
          (case cs_Terminated status of
             Some (reason, detail, code) \<Rightarrow>
               (result\<lparr>cr_State := ''terminated'', cr_Reason := reason, cr_Message := detail, cr_ExitCode := Some code\<rparr>,
                msg_terminated podName (cs_Name status) reason code)
           | None \<Rightarrow> (if cs_Running status then result\<lparr>cr_State := ''running''\<rparr> else result, [])))"

definition last_exit :: "string \<Rightarrow> ContainerStatus \<Rightarrow> ReleaseContainerRuntime \<times> string \<Rightarrow> ReleaseContainerRuntime \<times> string" where
  "last_exit podName status r =
     (case r of (result, diagnostic) \<Rightarrow>
      case cs_LastTerminated status of
        None \<Rightarrow> (result, diagnostic)
      | Some (reason, code) \<Rightarrow>
          (result\<lparr>cr_LastState := ''terminated'', cr_LastReason := reason, cr_LastExitCode := Some code\<rparr>,
           if cs_RestartCount status > 0 \<and> code = 0 then
             (let lastExit = msg_clean_exit podName (cs_Name status) (cs_RestartCount status) in
              if diagnostic = [] then lastExit else diagnostic @ msg_separator @ lastExit)
           else if diagnostic = [] \<and> cs_RestartCount status > 0
           then msg_last_exit podName (cs_Name status) reason code (cs_RestartCount status)
           else diagnostic))"

definition releaseContainerRuntime :: "string \<Rightarrow> ContainerStatus \<Rightarrow> ReleaseContainerRuntime \<times> string" where
  "releaseContainerRuntime podName status =
     (case last_exit podName status (container_state podName status) of (result, diagnostic) \<Rightarrow>
        (result, if diagnostic = [] \<and> \<not> cs_Ready status then msg_not_ready podName (cs_Name status) else diagnostic))"

text \<open>A 32-bit sum.\<close>

definition int32 :: "int \<Rightarrow> int" where
  "int32 i = (i + 2 ^ 31) mod 2 ^ 32 - 2 ^ 31"

definition unscheduled :: "PodCondition \<Rightarrow> bool" where
  "unscheduled condition \<longleftrightarrow> pc_Type condition = ''PodScheduled'' \<and> pc_Status condition = ''False'' \<and> pc_Message condition \<noteq> []"

definition releasePodRuntime :: "Pod \<Rightarrow> ReleasePodRuntime \<times> string" where
  "releasePodRuntime pod =
     (let reports = map (releaseContainerRuntime (pd_Name pod)) (pd_ContainerStatuses pod);
          containers = map fst reports;
          diagnostics =
            (if pd_Phase pod = ''Failed'' then [msg_pod_failed (pd_Name pod) (TrimSpace (pd_Message pod))] else []) @
            map (\<lambda>condition. msg_unscheduled (pd_Name pod) (pc_Message condition)) (filter unscheduled (pd_Conditions pod)) @
            filter (\<lambda>d. d \<noteq> []) (map snd reports);
          diagnostic = releaseRuntimeDiagnostic diagnostics in
      (\<lparr>pr_PodName = pd_Name pod, pr_NodeName = pd_NodeName pod, pr_Phase = pd_Phase pod,
        pr_Ready = (containers \<noteq> [] \<and> pd_Phase pod = ''Running'' \<and> list_all cr_Ready containers),
        pr_Restarts = foldl (\<lambda>n status. int32 (n + cs_RestartCount status)) 0 (pd_ContainerStatuses pod),
        pr_PodCreatedAt = pd_CreatedAt pod, pr_Containers = containers, pr_Diagnostic = diagnostic\<rparr>, diagnostic))"

definition pod_warning :: "string list \<Rightarrow> cluster_event \<Rightarrow> bool" where
  "pod_warning names e \<longleftrightarrow> ce_Type e = ''Warning'' \<and> ce_InvolvedKind e = ''Pod'' \<and> ce_Message e \<noteq> [] \<and> ce_InvolvedName e \<in> set names"

definition release_selector :: "ApplicationContext \<Rightarrow> string" where
  "release_selector cx =
     ApplicationNameLabel @ ''='' @ cx_ApplicationName cx @ '','' @ ReleaseLabel @ ''='' @ show_nat (cx_ReleaseSequence cx)"

definition InspectReleasePods :: "k8s_api option \<Rightarrow> ApplicationContext \<Rightarrow> (k8s_error, ReleaseRuntime) k8s_proc" where
  "InspectReleasePods diagnostics cx =
     (case diagnostics of
        None \<Rightarrow> failP K8sUninitialised
      | Some api \<Rightarrow>
          bindP (ListPods api (cx_Namespace cx) (release_selector cx)) (\<lambda>pods.
            let reports = map releasePodRuntime pods;
                pending = map pd_Name (filter (\<lambda>pod. \<not> pr_Ready (fst (releasePodRuntime pod))) pods);
                texts = filter (\<lambda>d. d \<noteq> []) (map snd reports);
                finish = (\<lambda>ts. \<lparr>rt_Tracking = ''exact'', rt_Pods = sort_key pr_PodName (map fst reports),
                   rt_Diagnostic = releaseRuntimeDiagnostic ts\<rparr>) in
            if pending = [] then returnP (finish texts)
            else tryP (ListEvents api (cx_Namespace cx)) (\<lambda>r. case r of
                Inl _ \<Rightarrow> returnP (finish texts)
              | Inr events \<Rightarrow> returnP (finish (texts @ map msg_event (filter (pod_warning pending) events))))))"

section \<open>Why a workload does not start\<close>

definition terminalContainerWaitingReason :: "string \<Rightarrow> bool" where
  "terminalContainerWaitingReason reason \<longleftrightarrow>
     reason \<in> {''ErrImagePull'', ''ImagePullBackOff'', ''InvalidImageName'', ''CreateContainerConfigError'',
       ''CreateContainerError'', ''RunContainerError''}"

text \<open>The loops return the last text and whether the failure is final.\<close>

fun scan_containers :: "ReleaseSpec \<Rightarrow> string \<Rightarrow> string \<Rightarrow> ContainerStatus list \<Rightarrow> string \<times> bool" where
  "scan_containers spec podName lastText [] = (lastText, False)"
| "scan_containers spec podName lastText (status # statuses) =
     (case cs_Waiting status of
        Some (reason, detail) \<Rightarrow>
          if reason = [] then scan_containers spec podName lastText statuses
          else let diagnostic = redact_for spec (msg_waiting podName (cs_Name status) reason detail) in
            if terminalContainerWaitingReason reason then (diagnostic, True)
            else scan_containers spec podName diagnostic statuses
      | None \<Rightarrow> scan_containers spec podName lastText statuses)"

fun scan_conditions :: "ReleaseSpec \<Rightarrow> string \<Rightarrow> string \<Rightarrow> PodCondition list \<Rightarrow> string" where
  "scan_conditions spec podName lastText [] = lastText"
| "scan_conditions spec podName lastText (condition # conditions) =
     scan_conditions spec podName
       (if unscheduled condition then redact_for spec (msg_unscheduled podName (pc_Message condition)) else lastText) conditions"

fun scan_pods :: "ReleaseSpec \<Rightarrow> string \<Rightarrow> Pod list \<Rightarrow> string \<times> bool" where
  "scan_pods spec lastText [] = (lastText, False)"
| "scan_pods spec lastText (pod # pods) =
     (if pd_Phase pod = ''Failed'' then (redact_for spec (msg_pod_failed (pd_Name pod) (pd_Message pod)), True)
      else case scan_containers spec (pd_Name pod) lastText (pd_ContainerStatuses pod) of
          (diagnostic, True) \<Rightarrow> (diagnostic, True)
        | (diagnostic, False) \<Rightarrow> scan_pods spec (scan_conditions spec (pd_Name pod) diagnostic (pd_Conditions pod)) pods)"

fun scan_events :: "ReleaseSpec \<Rightarrow> string list \<Rightarrow> string \<Rightarrow> cluster_event list \<Rightarrow> string" where
  "scan_events spec names lastText [] = lastText"
| "scan_events spec names lastText (e # es) =
     scan_events spec names (if pod_warning names e then redact_for spec (msg_event e) else lastText) es"

definition failure_selector :: "ApplicationContext \<Rightarrow> string" where
  "failure_selector cx = (if cx_ReleaseSequence cx > 0 then release_selector cx else ApplicationNameLabel @ ''='' @ cx_ApplicationName cx)"

definition deploymentFailureDiagnostic :: "k8s_api \<Rightarrow> ApplicationContext \<Rightarrow> ReleaseSpec \<Rightarrow> ('e, string \<times> bool) k8s_proc" where
  "deploymentFailureDiagnostic api cx spec =
     tryP (ListPods api (cx_Namespace cx) (failure_selector cx)) (\<lambda>r. case r of
       Inl _ \<Rightarrow> returnP ([], False)
     | Inr pods \<Rightarrow>
         (case scan_pods spec [] pods of
            (diagnostic, True) \<Rightarrow> returnP (diagnostic, True)
          | (lastText, False) \<Rightarrow>
              tryP (ListEvents api (cx_Namespace cx)) (\<lambda>r. case r of
                Inl _ \<Rightarrow> returnP (lastText, False)
              | Inr events \<Rightarrow> returnP (scan_events spec (map pd_Name pods) lastText events, False))))"

section \<open>Lemmas\<close>

lemma redact_bound: "length (redactReleaseDiagnostic detail c d) \<le> 1000"
  by (simp add: redactReleaseDiagnostic_def)

text \<open>Replacing a text that does not occur changes nothing, and none is left of a text that cannot arise anew.\<close>

lemma ReplaceAll_absent: "\<not> sublist old s \<Longrightarrow> ReplaceAll s old new = s"
proof (induction s)
  case (Cons c s)
  then have "\<not> prefix old (c # s)" "\<not> sublist old s" by (auto simp: sublist_Cons_right)
  with Cons show ?case by (simp add: ReplaceAll.simps [of "c # s"])
qed (simp add: ReplaceAll.simps)

lemma diagnostic_reads: "extends (list_all is_read) (deploymentFailureDiagnostic api cx spec)"
  unfolding deploymentFailureDiagnostic_def
  by (intro ro.extends_tryP extends_reads)
    (auto intro!: ro.extends_intros extends_reads split: sum.splits prod.splits bool.splits)

lemma InspectReleasePods_reads: "extends (list_all is_read) (InspectReleasePods diagnostics cx)"
  unfolding InspectReleasePods_def Let_def
  by (auto intro!: ro.extends_intros extends_reads split: option.splits sum.splits)

text \<open>A failure is called final only for a failed pod or a container that waits for a final reason.\<close>

definition waits_finally :: "ContainerStatus \<Rightarrow> bool" where
  "waits_finally status = (case cs_Waiting status of Some (reason, _) \<Rightarrow> terminalContainerWaitingReason reason | None \<Rightarrow> False)"

definition failed_finally :: "Pod \<Rightarrow> bool" where
  "failed_finally pod \<longleftrightarrow> pd_Phase pod = ''Failed'' \<or> list_ex waits_finally (pd_ContainerStatuses pod)"

lemma scan_containers_final: "snd (scan_containers spec podName lastText sts) = list_ex waits_finally sts"
  by (induction sts arbitrary: lastText)
    (auto simp: waits_finally_def terminalContainerWaitingReason_def Let_def split: option.splits)

lemma scan_pods_final: "snd (scan_pods spec lastText pods) = list_ex failed_finally pods"
proof (induction pods arbitrary: lastText)
  case (Cons pod pods)
  obtain d b where s: "scan_containers spec (pd_Name pod) lastText (pd_ContainerStatuses pod) = (d, b)" by fastforce
  have "list_ex waits_finally (pd_ContainerStatuses pod) = b"
    using scan_containers_final [of spec "pd_Name pod" lastText "pd_ContainerStatuses pod"] s by simp
  with Cons s show ?case by (cases b) (simp_all add: failed_finally_def)
qed simp

end
