(* ===== verification/Kubernetes_Applier.thy ===== *)
theory Kubernetes_Applier
  imports Kubernetes_Diagnostics
begin

text \<open>
  \<open>internal/service/application/kubernetes_applier.go\<close>: the preflight checks of a release, applying its
  objects, keeping the ingress of an application, waiting for the workload and replacing a workload by
  one of the other kind. Image verification, which asks a registry, is not modelled.
\<close>

section \<open>The applier\<close>

text \<open>\<open>PersistentVolumeClaimInfo\<close> as far as it is read here.\<close>

record claim_info =
  cl_Phase :: string
  cl_BoundNode :: string
  cl_WaitForFirstConsumer :: bool

text \<open>
  The reads of \<open>ApplicationPreflightReader\<close> beside those of Secrets and ConfigMaps: the phase of a
  namespace, the existence of a node, whether the ingress controller runs (\<open>None\<close> is a nil status),
  the existence of a custom resource definition, and a claim of the platform.
\<close>

record ApplicationPreflightReader =
  pf_GetNamespace :: "k8s_event list \<Rightarrow> string \<Rightarrow> k8s_error + string"
  pf_GetNode :: "k8s_event list \<Rightarrow> string \<Rightarrow> string option"
  pf_DetectIngressController :: "k8s_event list \<Rightarrow> string + bool option"
  pf_CheckCRD :: "k8s_event list \<Rightarrow> string \<Rightarrow> string + bool"
  pf_GetManagedPVC :: "k8s_event list \<Rightarrow> string \<Rightarrow> string \<Rightarrow> nat \<Rightarrow> string + claim_info"

text \<open>
  A field of an interface type is either nil or the adapter over the API server. \<open>ka_done\<close> says
  whether a deadline or the caller's context has ended when the code looks at it.
\<close>

record KubernetesApplier =
  ka_api :: k8s_api
  ka_resources :: bool
  ka_preflight :: "ApplicationPreflightReader option"
  ka_workloads :: bool
  ka_endpoints :: bool
  ka_diagnostics :: bool
  ka_ReadinessTimeout :: int
  ka_checks :: k8s_checks
  ka_done :: "k8s_event list \<Rightarrow> bool"

datatype applier_error =
    ClientMissing
  | ApplierK8s k8s_error
  | NamespaceMissing string | NamespaceCheck k8s_error | NamespaceNotActive string
  | AppConfigKeyMissing string | AppSecretKeyMissing string
  | MountSourceMissing k8s_kind string | MountSourceRead k8s_kind string k8s_error | MountKeyMissing k8s_kind string string
  | MountSourceUnknown string
  | ClaimNeedsOneReplica | NodeCheck string string | ClaimRead string | ClaimOnOtherNode string string
  | ClaimPending string | ClaimPhase string string
  | IngressControllerNotReady | CertificateCRDMissing
  | ServiceNilPanic
  | ReadinessRead k8s_kind k8s_error | WorkloadFailed string | WaitTimeout string | CertificateRead k8s_error
  | TargetKindInvalid | ScaleRead k8s_kind k8s_error | ScaleWrite k8s_kind k8s_error
  | OldPodsRead k8s_error | OldPodsTimeout
  | RenderFailed render_error | CreateNewFailed applier_error | NewNotReady applier_error
  | StopNewFailed applier_error applier_error | RestoreFailed applier_error applier_error

type_synonym 'a applier_proc = "(applier_error, 'a) k8s_proc"

definition lift_k8s :: "(k8s_error \<Rightarrow> applier_error) \<Rightarrow> (k8s_error, 'a) k8s_proc \<Rightarrow> 'a applier_proc" where
  "lift_k8s wrap m = tryP m (\<lambda>r. case r of Inl e \<Rightarrow> failP (wrap e) | Inr x \<Rightarrow> returnP x)"

text \<open>A read that leaves no trace.\<close>

definition ask :: "(k8s_event list \<Rightarrow> applier_error + 'a) \<Rightarrow> 'a applier_proc" where
  "ask f t = (f t, t)"

section \<open>Preflight\<close>

definition check_external_source :: "k8s_api \<Rightarrow> ApplicationContext \<Rightarrow> k8s_kind \<Rightarrow> FileMountSpec \<Rightarrow> unit applier_proc" where
  "check_external_source api cx kind mount =
     tryP (k8s_get api kind (cx_Namespace cx) (fm_SourceName mount)) (\<lambda>r. case r of
       Inl K8sNotFound \<Rightarrow> failP (MountSourceMissing kind (fm_SourceName mount))
     | Inl e \<Rightarrow> failP (MountSourceRead kind (fm_SourceName mount) e)
     | Inr live \<Rightarrow>
         if fm_Key mount \<in> set (lo_DataKeys live) \<or> kind = KConfigMap \<and> fm_Key mount \<in> set (lo_BinaryKeys live) then returnP ()
         else failP (MountKeyMissing kind (fm_SourceName mount) (fm_Key mount)))"

definition check_mount :: "k8s_api \<Rightarrow> ApplicationContext \<Rightarrow> ReleaseSpec \<Rightarrow> FileMountSpec \<Rightarrow> unit applier_proc" where
  "check_mount api cx spec mount =
     (if fm_SourceType mount = FileMountSourceApplicationConfig then
        (if map_of (enabledStringMap (sp_Config spec) (sp_ConfigDisabled spec)) (fm_Key mount) = None
         then failP (AppConfigKeyMissing (fm_Key mount)) else returnP ())
      else if fm_SourceType mount = FileMountSourceApplicationSecret then
        (if map_of (enabledStringMap (sp_Secrets spec) (sp_SecretsDisabled spec)) (fm_Key mount) = None
         then failP (AppSecretKeyMissing (fm_Key mount)) else returnP ())
      else if fm_SourceType mount = FileMountSourceSecret then check_external_source api cx KSecret mount
      else if fm_SourceType mount = FileMountSourceConfigMap then check_external_source api cx KConfigMap mount
      else failP (MountSourceUnknown (fm_SourceType mount)))"

fun each :: "('x \<Rightarrow> unit applier_proc) \<Rightarrow> 'x list \<Rightarrow> unit applier_proc" where
  "each f [] = returnP ()"
| "each f (x # xs) = bindP (f x) (\<lambda>_. each f xs)"

definition ValidateFileMountSources :: "k8s_api \<Rightarrow> ApplicationContext \<Rightarrow> ReleaseSpec \<Rightarrow> unit applier_proc" where
  "ValidateFileMountSources api cx spec = each (check_mount api cx spec) (sp_FileMounts spec)"

definition check_claim :: "ApplicationPreflightReader \<Rightarrow> ApplicationContext \<Rightarrow> ReleaseSpec \<Rightarrow> VolumeMountSpec \<Rightarrow> unit applier_proc" where
  "check_claim pf cx spec volume = ask (\<lambda>t.
     case pf_GetManagedPVC pf t (cx_Namespace cx) (vm_ClaimName volume) (cx_EnvironmentID cx) of
       Inl e \<Rightarrow> Inl (ClaimRead e)
     | Inr claim \<Rightarrow>
         if cl_Phase claim = ''Bound'' then
           (if cl_BoundNode claim \<noteq> [] \<and> cl_BoundNode claim \<noteq> sp_NodeName spec
            then Inl (ClaimOnOtherNode (vm_ClaimName volume) (cl_BoundNode claim)) else Inr ())
         else if cl_Phase claim = ''Pending'' then
           (if \<not> cl_WaitForFirstConsumer claim \<or> sp_NodeName spec = [] then Inl (ClaimPending (vm_ClaimName volume)) else Inr ())
         else Inl (ClaimPhase (vm_ClaimName volume) (cl_Phase claim)))"

definition ValidatePersistentVolumeClaims ::
  "ApplicationPreflightReader \<Rightarrow> ApplicationContext \<Rightarrow> ReleaseSpec \<Rightarrow> unit applier_proc" where
  "ValidatePersistentVolumeClaims pf cx spec =
     (if sp_Volumes spec = [] then returnP ()
      else if sp_Replicas spec \<noteq> 1 then failP ClaimNeedsOneReplica
      else bindP
        (if sp_NodeName spec \<noteq> [] then
           ask (\<lambda>t. case pf_GetNode pf t (sp_NodeName spec) of None \<Rightarrow> Inr () | Some e \<Rightarrow> Inl (NodeCheck (sp_NodeName spec) e))
         else returnP ())
        (\<lambda>_. each (check_claim pf cx spec) (sp_Volumes spec)))"

definition check_namespace :: "ApplicationPreflightReader \<Rightarrow> ApplicationContext \<Rightarrow> unit applier_proc" where
  "check_namespace pf cx = ask (\<lambda>t.
     case pf_GetNamespace pf t (cx_Namespace cx) of
       Inl K8sNotFound \<Rightarrow> Inl (NamespaceMissing (cx_Namespace cx))
     | Inl e \<Rightarrow> Inl (NamespaceCheck e)
     | Inr phase \<Rightarrow> if phase \<noteq> ''Active'' then Inl (NamespaceNotActive (cx_Namespace cx)) else Inr ())"

definition check_ingress_controller :: "ApplicationPreflightReader \<Rightarrow> bool \<Rightarrow> unit applier_proc" where
  "check_ingress_controller pf tls =
     bindP (ask (\<lambda>t. if pf_DetectIngressController pf t = Inr (Some True) then Inr () else Inl IngressControllerNotReady)) (\<lambda>_.
       if tls then ask (\<lambda>t. if pf_CheckCRD pf t ''certificates.cert-manager.io'' = Inr True then Inr () else Inl CertificateCRDMissing)
       else returnP ())"

definition Applier_Preflight :: "KubernetesApplier \<Rightarrow> ApplicationContext \<Rightarrow> ReleaseSpec \<Rightarrow> unit applier_proc" where
  "Applier_Preflight a cx spec =
     (case ka_preflight a of
        None \<Rightarrow> failP ClientMissing
      | Some pf \<Rightarrow>
          if \<not> ka_resources a then failP ClientMissing
          else bindP (check_namespace pf cx) (\<lambda>_.
            bindP (ValidatePersistentVolumeClaims pf cx spec) (\<lambda>_.
            bindP (ValidateFileMountSources (ka_api a) cx spec) (\<lambda>_.
              if ep_Exposure (sp_Endpoint spec) \<noteq> ExposurePublic then returnP ()
              else check_ingress_controller pf (ep_TLSEnabled (sp_Endpoint spec))))))"

section \<open>Applying the objects\<close>

definition apply_some :: "('x \<Rightarrow> (k8s_error, unit) k8s_proc) \<Rightarrow> 'x option \<Rightarrow> unit applier_proc" where
  "apply_some f x = (case x of None \<Rightarrow> returnP () | Some obj \<Rightarrow> lift_k8s ApplierK8s (f obj))"

text \<open>Rendering never sets the certificate of the resources.\<close>

definition Applier_Apply :: "KubernetesApplier \<Rightarrow> RenderedResources \<Rightarrow> unit applier_proc" where
  "Applier_Apply a resources =
     (let api = ka_api a in
      if \<not> ka_resources a then failP ClientMissing
      else
        bindP (apply_some (ApplySecret api) (rr_ImagePullSecret resources)) (\<lambda>_.
        bindP (apply_some (ApplyConfigMap api) (rr_ConfigMap resources)) (\<lambda>_.
        bindP (apply_some (ApplySecret api) (rr_Secret resources)) (\<lambda>_.
        bindP (apply_some (ApplyDeployment api) (rr_Deployment resources)) (\<lambda>_.
        bindP (apply_some (ApplyStatefulSet api) (rr_StatefulSet resources)) (\<lambda>_.
        bindP (case rr_Service resources of None \<Rightarrow> failP ServiceNilPanic | Some s \<Rightarrow> lift_k8s ApplierK8s (ApplyService api s)) (\<lambda>_.
          apply_some (ApplyIngress api) (rr_Ingress resources))))))))"

definition ensureManaged :: "string gomap \<Rightarrow> k8s_error + unit" where
  "ensureManaged labels = (if \<not> managed_labels labels then Inl NotManaged else Inr ())"

definition RemoveEndpoint :: "KubernetesApplier \<Rightarrow> ApplicationContext \<Rightarrow> unit applier_proc" where
  "RemoveEndpoint a cx =
     (if \<not> ka_endpoints a then failP ClientMissing
      else tryP (GetIngress (ka_api a) (cx_Namespace cx) (cx_ApplicationName cx)) (\<lambda>r. case r of
        Inl K8sNotFound \<Rightarrow> returnP ()
      | Inl e \<Rightarrow> failP (ApplierK8s e)
      | Inr ingress \<Rightarrow>
          (case ensureManaged (lo_Labels ingress) of
             Inl e \<Rightarrow> failP (ApplierK8s e)
           | Inr _ \<Rightarrow> lift_k8s ApplierK8s (DeleteIngress (ka_api a) (cx_Namespace cx) (cx_ApplicationName cx)))))"

definition public_endpoint :: "ApplicationEndpoint \<Rightarrow> bool" where
  "public_endpoint endpoint \<longleftrightarrow>
     ae_IngressMode endpoint \<noteq> ''metadata'' \<and> (ae_Exposure endpoint = [] \<or> ae_Exposure endpoint = ExposurePublic)"

definition Applier_SyncApplicationEndpoints ::
  "KubernetesApplier \<Rightarrow> ApplicationContext \<Rightarrow> ApplicationEndpoint list \<Rightarrow> int \<Rightarrow> unit applier_proc" where
  "Applier_SyncApplicationEndpoints a cx endpoints servicePort =
     (if \<not> ka_endpoints a \<or> \<not> ka_resources a then failP ClientMissing
      else let publicEndpoints = filter public_endpoint endpoints in
        if publicEndpoints = [] then RemoveEndpoint a cx
        else lift_k8s ApplierK8s (ApplyIngress (ka_api a) (applicationEndpointsIngress cx publicEndpoints servicePort)))"

definition SyncEndpoint :: "KubernetesApplier \<Rightarrow> ApplicationContext \<Rightarrow> EndpointSpec \<Rightarrow> int \<Rightarrow> unit applier_proc" where
  "SyncEndpoint a cx endpoint servicePort =
     Applier_SyncApplicationEndpoints a cx
       [\<lparr>ae_ID = 0, ae_ApplicationID = 0, ae_DomainID = 0, ae_Exposure = ep_Exposure endpoint, ae_Domain = ep_Domain endpoint,
         ae_Path = ep_Path endpoint, ae_ServicePort = 0, ae_Protocol = [], ae_TLSEnabled = ep_TLSEnabled endpoint,
         ae_IngressEnabled = False, ae_IngressMode = [], ae_TLSSecretName = ep_ManagedTLSSecretName endpoint, ae_IssuerRef = [],
         ae_AccessMode = []\<rparr>] servicePort"

section \<open>Waiting for the workload\<close>

definition workload_kind :: "string \<Rightarrow> k8s_kind" where
  "workload_kind kind = (if kind = WorkloadKindStatefulSet then KStatefulSet else KDeployment)"

definition workload_is_ready :: "string \<Rightarrow> int \<Rightarrow> live_object \<Rightarrow> bool" where
  "workload_is_ready kind replicas live \<longleftrightarrow>
     lo_ObservedGeneration live \<ge> lo_Generation live \<and>
     (if kind = WorkloadKindStatefulSet then lo_ReadyReplicas live \<ge> replicas \<and> lo_CurrentReplicas live \<ge> replicas
      else lo_UpdatedReplicas live \<ge> replicas \<and> lo_AvailableReplicas live \<ge> replicas \<and> lo_UnavailableReplicas live = 0)"

definition workloadReady :: "KubernetesApplier \<Rightarrow> ApplicationContext \<Rightarrow> int \<Rightarrow> bool applier_proc" where
  "workloadReady a cx replicas =
     (let kind = workload_kind (cx_WorkloadKind cx) in
      bindP (lift_k8s (ReadinessRead kind) (k8s_get (ka_api a) kind (cx_Namespace cx) (cx_ApplicationName cx))) (\<lambda>live.
        returnP (workload_is_ready (cx_WorkloadKind cx) replicas live)))"

definition certificateReady :: "KubernetesApplier \<Rightarrow> ApplicationContext \<Rightarrow> EndpointSpec \<Rightarrow> bool applier_proc" where
  "certificateReady a cx endpoint =
     (if \<not> ka_diagnostics a then failP ClientMissing
      else let certificateName = (if ep_ManagedCertificateName endpoint \<noteq> [] then ep_ManagedCertificateName endpoint
             else cx_ApplicationName cx @ ''-tls'') in
        lift_k8s CertificateRead (CertificateReady (ka_api a) (cx_Namespace cx) certificateName))"

text \<open>One pass of the loop: \<open>None\<close> when everything is ready, else the last diagnostic.\<close>

definition wait_round :: "KubernetesApplier \<Rightarrow> ApplicationContext \<Rightarrow> ReleaseSpec \<Rightarrow> string \<Rightarrow> string option applier_proc" where
  "wait_round a cx spec lastDiagnostic =
     bindP (workloadReady a cx (sp_Replicas spec)) (\<lambda>workload_ok.
     bindP (deploymentFailureDiagnostic (ka_api a) cx spec) (\<lambda>(diagnostic, terminal).
       if diagnostic \<noteq> [] \<and> terminal then failP (WorkloadFailed diagnostic)
       else let lastText = (if diagnostic \<noteq> [] then diagnostic else lastDiagnostic) in
         if \<not> workload_ok then returnP (Some lastText)
         else if \<not> ep_TLSEnabled (sp_Endpoint spec) then returnP None
         else bindP (certificateReady a cx (sp_Endpoint spec)) (\<lambda>cert_ok.
           returnP (if cert_ok then None else Some lastText))))"

text \<open>
  \<open>n\<close> ticks of the one-second ticker are left before the deadline; whether the deadline ends first
  is \<open>ka_done\<close>. Every pass takes a tick, so the loop ends.
\<close>

fun wait_loop :: "KubernetesApplier \<Rightarrow> ApplicationContext \<Rightarrow> ReleaseSpec \<Rightarrow> nat \<Rightarrow> string \<Rightarrow> unit applier_proc" where
  "wait_loop a cx spec 0 lastDiagnostic =
     bindP (wait_round a cx spec lastDiagnostic) (\<lambda>r. case r of None \<Rightarrow> returnP () | Some text \<Rightarrow> failP (WaitTimeout text))"
| "wait_loop a cx spec (Suc n) lastDiagnostic =
     bindP (wait_round a cx spec lastDiagnostic) (\<lambda>r. case r of
       None \<Rightarrow> returnP ()
     | Some text \<Rightarrow> (\<lambda>t. if ka_done a t then failP (WaitTimeout text) t else wait_loop a cx spec n text t))"

definition readiness_ticks :: "KubernetesApplier \<Rightarrow> nat" where
  "readiness_ticks a = nat ((if ka_ReadinessTimeout a \<le> 0 then 120 * 10 ^ 9 else ka_ReadinessTimeout a) div 10 ^ 9)"

definition Applier_WaitReady :: "KubernetesApplier \<Rightarrow> ApplicationContext \<Rightarrow> ReleaseSpec \<Rightarrow> unit applier_proc" where
  "Applier_WaitReady a cx spec = wait_loop a cx spec (readiness_ticks a) []"

section \<open>Changing the kind of a workload\<close>

fun workload_object :: "k8s_kind \<Rightarrow> Workload \<Rightarrow> k8s_object" where
  "workload_object KStatefulSet w = OStatefulSet w"
| "workload_object _ w = ODeployment w"

definition previous_replicas :: "live_object \<Rightarrow> int" where
  "previous_replicas live = (case lo_Replicas live of None \<Rightarrow> 1 | Some n \<Rightarrow> n)"

definition update_replicas :: "k8s_api \<Rightarrow> k8s_kind \<Rightarrow> live_object \<Rightarrow> int \<Rightarrow> (k8s_error, unit) k8s_proc" where
  "update_replicas api kind live replicas =
     (let w = (lo_Workload live)\<lparr>wl_Replicas := replicas\<rparr> in
      if kind = KStatefulSet then UpdateStatefulSet api w (lo_ResourceVersion live)
      else UpdateDeployment api w (lo_ResourceVersion live))"

definition scaleManagedWorkload :: "k8s_api \<Rightarrow> string \<Rightarrow> string \<Rightarrow> string \<Rightarrow> int \<Rightarrow> int applier_proc" where
  "scaleManagedWorkload api namespace name kind replicas =
     (let k = workload_kind kind in
      tryP (k8s_get api k namespace name) (\<lambda>r. case r of
        Inl e \<Rightarrow> failP (ScaleRead k e)
      | Inr live \<Rightarrow>
          (case ensureManaged (lo_Labels live) of
             Inl e \<Rightarrow> failP (ApplierK8s e)
           | Inr _ \<Rightarrow>
               bindP (lift_k8s (ScaleWrite k) (update_replicas api k live replicas)) (\<lambda>_.
                 returnP (previous_replicas live)))))"

definition restoreManagedWorkload :: "k8s_api \<Rightarrow> string \<Rightarrow> string \<Rightarrow> string \<Rightarrow> int \<Rightarrow> unit applier_proc" where
  "restoreManagedWorkload api namespace name kind replicas =
     bindP (scaleManagedWorkload api namespace name kind replicas) (\<lambda>_. returnP ())"

definition stopManagedWorkloadIfExists :: "k8s_api \<Rightarrow> string \<Rightarrow> string \<Rightarrow> string \<Rightarrow> unit applier_proc" where
  "stopManagedWorkloadIfExists api namespace name kind =
     (let k = workload_kind kind in
      tryP (k8s_get api k namespace name) (\<lambda>r. case r of
        Inl K8sNotFound \<Rightarrow> returnP ()
      | Inl e \<Rightarrow> failP (ApplierK8s e)
      | Inr live \<Rightarrow>
          (case ensureManaged (lo_Labels live) of
             Inl e \<Rightarrow> failP (ApplierK8s e)
           | Inr _ \<Rightarrow> lift_k8s ApplierK8s (update_replicas api k live 0))))"

definition workload_selector :: "string \<Rightarrow> string" where
  "workload_selector name = ApplicationNameLabel @ ''='' @ name"

fun stopped_loop :: "KubernetesApplier \<Rightarrow> string \<Rightarrow> string \<Rightarrow> nat \<Rightarrow> unit applier_proc" where
  "stopped_loop a namespace name 0 =
     bindP (lift_k8s OldPodsRead (ListPods (ka_api a) namespace (workload_selector name))) (\<lambda>pods.
       if pods = [] then returnP () else failP OldPodsTimeout)"
| "stopped_loop a namespace name (Suc n) =
     bindP (lift_k8s OldPodsRead (ListPods (ka_api a) namespace (workload_selector name))) (\<lambda>pods.
       if pods = [] then returnP ()
       else (\<lambda>t. if ka_done a t then failP OldPodsTimeout t else stopped_loop a namespace name n t))"

definition waitForWorkloadPodsStopped :: "KubernetesApplier \<Rightarrow> string \<Rightarrow> string \<Rightarrow> unit applier_proc" where
  "waitForWorkloadPodsStopped a namespace name = stopped_loop a namespace name 120"

text \<open>The closure \<open>restore\<close>.\<close>

definition restore_old ::
  "KubernetesApplier \<Rightarrow> ApplicationContext \<Rightarrow> string \<Rightarrow> string \<Rightarrow> int \<Rightarrow> bool \<Rightarrow> applier_error \<Rightarrow> unit applier_proc" where
  "restore_old a cx currentKind targetKind replicas targetApplied cause =
     tryP (if targetApplied then stopManagedWorkloadIfExists (ka_api a) (cx_Namespace cx) (cx_ApplicationName cx) targetKind
           else returnP ()) (\<lambda>r. case r of
       Inl e \<Rightarrow> failP (StopNewFailed cause e)
     | Inr _ \<Rightarrow>
         tryP (restoreManagedWorkload (ka_api a) (cx_Namespace cx) (cx_ApplicationName cx) currentKind replicas) (\<lambda>r. case r of
           Inl e \<Rightarrow> failP (RestoreFailed cause e)
         | Inr _ \<Rightarrow> failP cause))"

definition start_target ::
  "KubernetesApplier \<Rightarrow> ApplicationContext \<Rightarrow> ReleaseSpec \<Rightarrow> string \<Rightarrow> string \<Rightarrow> int \<Rightarrow> unit applier_proc" where
  "start_target a cx spec currentKind targetKind replicas =
     (let target = cx\<lparr>cx_WorkloadKind := targetKind\<rparr>; restore = restore_old a cx currentKind targetKind replicas in
      case RenderResources (ka_checks a) target spec of
        Inl e \<Rightarrow> restore False (RenderFailed e)
      | Inr resources \<Rightarrow>
          tryP (Applier_Apply a resources) (\<lambda>r. case r of
            Inl e \<Rightarrow> restore False (CreateNewFailed e)
          | Inr _ \<Rightarrow>
              tryP (Applier_WaitReady a target spec) (\<lambda>r. case r of
                Inl e \<Rightarrow> restore True (NewNotReady e)
              | Inr _ \<Rightarrow> returnP ())))"

definition MigrateWorkloadKind :: "KubernetesApplier \<Rightarrow> ApplicationContext \<Rightarrow> ReleaseSpec \<Rightarrow> string \<Rightarrow> unit applier_proc" where
  "MigrateWorkloadKind a cx spec targetKind =
     (if \<not> ka_workloads a then failP ClientMissing
      else let currentKind = (if cx_WorkloadKind cx = [] then WorkloadKindDeployment else cx_WorkloadKind cx) in
        if currentKind = targetKind then returnP ()
        else if targetKind \<noteq> WorkloadKindDeployment \<and> targetKind \<noteq> WorkloadKindStatefulSet then failP TargetKindInvalid
        else bindP (scaleManagedWorkload (ka_api a) (cx_Namespace cx) (cx_ApplicationName cx) currentKind 0) (\<lambda>replicas.
          tryP (waitForWorkloadPodsStopped a (cx_Namespace cx) (cx_ApplicationName cx)) (\<lambda>r. case r of
            Inl e \<Rightarrow> restore_old a cx currentKind targetKind replicas False e
          | Inr _ \<Rightarrow> start_target a cx spec currentKind targetKind replicas)))"

section \<open>What the operations add to the trace\<close>

lemma extends_cases:
  "(\<And>x. extends P (f x)) \<Longrightarrow> (\<And>x. extends P (g x)) \<Longrightarrow> extends P (case r of Inl x \<Rightarrow> f x | Inr y \<Rightarrow> g y)"
  by (cases r) auto

lemma g_lift: "guarded_proc m \<Longrightarrow> guarded_proc (lift_k8s wrap m)"
  unfolding lift_k8s_def by (intro g.extends_tryP extends_cases g.extends_failP g.extends_returnP)

lemma ro_lift: "extends (list_all is_read) m \<Longrightarrow> extends (list_all is_read) (lift_k8s wrap m)"
  unfolding lift_k8s_def by (intro ro.extends_tryP extends_cases ro.extends_failP ro.extends_returnP)

lemma ro_ask: "extends (list_all is_read) (ask f)"
  by (simp add: extends_def ask_def)

lemma ro_each: "(\<And>x. extends (list_all is_read) (f x)) \<Longrightarrow> extends (list_all is_read) (each f xs)"
  by (induction xs) (auto intro: ro.extends_intros)

lemma ro_external_source: "extends (list_all is_read) (check_external_source api cx kind mount)"
  unfolding check_external_source_def
  by (intro ro.extends_tryP extends_reads) (auto intro!: ro.extends_intros split: sum.splits k8s_error.splits)

lemma Preflight_reads: "extends (list_all is_read) (Applier_Preflight a cx spec)"
  unfolding Applier_Preflight_def check_namespace_def ValidatePersistentVolumeClaims_def ValidateFileMountSources_def
    check_mount_def check_claim_def check_ingress_controller_def
  by (auto intro!: ro.extends_intros ro_ask ro_each ro_external_source split: option.splits)

lemma g_apply_some: "(\<And>x. guarded_proc (f x)) \<Longrightarrow> guarded_proc (apply_some f y)"
  by (auto simp: apply_some_def intro: g_lift g.extends_returnP split: option.splits)

lemma Apply_guarded: "guarded_proc (Applier_Apply a resources)"
  unfolding Applier_Apply_def Let_def
  by (auto intro!: g.extends_intros g_apply_some guarded_applies g_lift split: option.splits)

lemma RemoveEndpoint_guarded: "guarded_proc (RemoveEndpoint a cx)"
  unfolding RemoveEndpoint_def extends_def
  by (auto simp: tryP_def GetIngress_def k8s_get_def Let_def ensureManaged_def failP_def returnP_def lift_k8s_def DeleteIngress_def
      k8s_delete_def allowed_after_def k8s_answer_def split: get_result.splits option.splits)

lemma Sync_guarded: "guarded_proc (Applier_SyncApplicationEndpoints a cx endpoints servicePort)"
  unfolding Applier_SyncApplicationEndpoints_def Let_def
  by (intro g.extends_if g.extends_failP RemoveEndpoint_guarded g_lift guarded_applies)

lemma wait_round_reads: "extends (list_all is_read) (wait_round a cx spec lastText)"
  unfolding wait_round_def workloadReady_def certificateReady_def Let_def
  by (auto intro!: ro.extends_intros ro_lift extends_reads diagnostic_reads split: prod.splits)

lemma extends_read_state: "(\<And>b. extends P (f b)) \<Longrightarrow> extends P (\<lambda>t. f (c t) t)"
  by (simp add: extends_def)

lemma wait_loop_reads: "extends (list_all is_read) (wait_loop a cx spec n lastText)"
proof (induction n arbitrary: lastText)
  case (Suc n)
  have "extends (list_all is_read) (\<lambda>t. (if ka_done a t then failP (WaitTimeout x) else wait_loop a cx spec n x) t)" for x
    by (rule extends_read_state) (auto intro: ro.extends_intros Suc.IH)
  then have "extends (list_all is_read) (\<lambda>t. if ka_done a t then failP (WaitTimeout x) t else wait_loop a cx spec n x t)" for x
    by (simp add: if_distrib if_distribR cong: if_cong)
  then show ?case by (auto intro!: ro.extends_intros wait_round_reads split: option.splits)
qed (auto intro!: ro.extends_intros wait_round_reads split: option.splits)

lemma WaitReady_reads: "extends (list_all is_read) (Applier_WaitReady a cx spec)"
  unfolding Applier_WaitReady_def by (rule wait_loop_reads)

subsection \<open>Migration\<close>

text \<open>The server answers a read of a workload with the workload that was asked for.\<close>

definition returns_asked :: "k8s_api \<Rightarrow> bool" where
  "returns_asked api \<longleftrightarrow> (\<forall>t kind ns name live. kind = KDeployment \<or> kind = KStatefulSet \<longrightarrow> api_get api t kind ns name = Found live \<longrightarrow>
     om_Namespace (wl_Meta (lo_Workload live)) = ns \<and> om_Name (wl_Meta (lo_Workload live)) = name)"

lemma workload_kind_cases: "workload_kind k = KDeployment \<or> workload_kind k = KStatefulSet"
  by (simp add: workload_kind_def)

lemma workload_object_simps [simp]:
  "object_kind (workload_object (workload_kind k) w) = workload_kind k" "object_meta (workload_object kind w) = wl_Meta w"
  by (auto simp: workload_kind_def) (cases kind; simp)

lemma update_replicas_eq:
  "update_replicas api (workload_kind k) live n t =
     (k8s_answer (api_update api t (workload_object (workload_kind k) ((lo_Workload live)\<lparr>wl_Replicas := n\<rparr>)) (lo_ResourceVersion live)),
      t @ [EvUpdate (workload_object (workload_kind k) ((lo_Workload live)\<lparr>wl_Replicas := n\<rparr>)) (lo_ResourceVersion live)])"
  by (auto simp: update_replicas_def workload_kind_def UpdateStatefulSet_def UpdateDeployment_def k8s_update_def Let_def)

text \<open>A workload of the platform was read and its replica count written back.\<close>

definition scaling :: "k8s_kind \<Rightarrow> string \<Rightarrow> string \<Rightarrow> int \<Rightarrow> int \<Rightarrow> k8s_event list \<Rightarrow> bool" where
  "scaling kind ns name n prev es \<longleftrightarrow> (\<exists>live.
     es = [EvGet kind ns name (Found live), EvUpdate (workload_object kind ((lo_Workload live)\<lparr>wl_Replicas := n\<rparr>)) (lo_ResourceVersion live)] \<and>
     managed_labels (lo_Labels live) \<and> prev = previous_replicas live)"

lemma scale_cases:
  assumes "scaleManagedWorkload api ns name kind n t = (r, t')"
  shows "\<exists>es. t' = t @ es \<and> (returns_asked api \<longrightarrow> guarded es) \<and>
    (case r of Inr prev \<Rightarrow> scaling (workload_kind kind) ns name n prev es | Inl e \<Rightarrow> length es \<le> 2)"
  using assms workload_kind_cases [of kind]
  by (auto simp: scaleManagedWorkload_def tryP_def bindP_def k8s_get_def Let_def ensureManaged_def failP_def returnP_def lift_k8s_def
      update_replicas_eq k8s_answer_def scaling_def allowed_after_def returns_asked_def
      split: get_result.splits option.splits if_splits)

lemma restore_cases:
  assumes "restoreManagedWorkload api ns name kind n t = (r, t')"
  shows "\<exists>es. t' = t @ es \<and> (returns_asked api \<longrightarrow> guarded es) \<and> (r = Inr () \<longrightarrow> (\<exists>prev. scaling (workload_kind kind) ns name n prev es))"
proof -
  obtain q t1 where s: "scaleManagedWorkload api ns name kind n t = (q, t1)" by (cases "scaleManagedWorkload api ns name kind n t")
  with assms have "t1 = t'" "r = Inr () \<longrightarrow> (\<exists>prev. q = Inr prev)"
    by (auto simp: restoreManagedWorkload_def bindP_def returnP_def split: sum.splits)
  with scale_cases [OF s] show ?thesis by auto
qed

lemma stop_cases:
  assumes "stopManagedWorkloadIfExists api ns name kind t = (r, t')"
  shows "\<exists>es. t' = t @ es \<and> (returns_asked api \<longrightarrow> guarded es) \<and>
    (r = Inr () \<longrightarrow> es = [EvGet (workload_kind kind) ns name NotFound] \<or> (\<exists>prev. scaling (workload_kind kind) ns name 0 prev es))"
  using assms workload_kind_cases [of kind]
  by (auto simp: stopManagedWorkloadIfExists_def tryP_def k8s_get_def Let_def ensureManaged_def failP_def returnP_def lift_k8s_def
      update_replicas_eq k8s_answer_def scaling_def allowed_after_def returns_asked_def
      split: get_result.splits option.splits if_splits)

text \<open>The old workload gets its replicas back, after the new one was stopped if it had been started.\<close>

definition brought_back :: "ApplicationContext \<Rightarrow> string \<Rightarrow> string \<Rightarrow> int \<Rightarrow> bool \<Rightarrow> k8s_event list \<Rightarrow> bool" where
  "brought_back cx currentKind targetKind replicas started es \<longleftrightarrow> (\<exists>stop redo prev. es = stop @ redo \<and>
     scaling (workload_kind currentKind) (cx_Namespace cx) (cx_ApplicationName cx) replicas prev redo \<and>
     (if started then stop = [EvGet (workload_kind targetKind) (cx_Namespace cx) (cx_ApplicationName cx) NotFound] \<or>
          (\<exists>prev'. scaling (workload_kind targetKind) (cx_Namespace cx) (cx_ApplicationName cx) 0 prev' stop)
      else stop = []))"

lemma restore_old_cases:
  assumes "restore_old a cx currentKind targetKind replicas started cause t = (r, t')"
  shows "\<exists>es. t' = t @ es \<and> (returns_asked (ka_api a) \<longrightarrow> guarded es) \<and>
    ((\<exists>e. r = Inl (StopNewFailed cause e) \<or> r = Inl (RestoreFailed cause e)) \<or>
     r = Inl cause \<and> brought_back cx currentKind targetKind replicas started es)"
proof -
  let ?stop = "if started then stopManagedWorkloadIfExists (ka_api a) (cx_Namespace cx) (cx_ApplicationName cx) targetKind else returnP ()"
  let ?redo = "restoreManagedWorkload (ka_api a) (cx_Namespace cx) (cx_ApplicationName cx) currentKind replicas"
  obtain q t1 where s: "?stop t = (q, t1)" by (cases "?stop t")
  obtain es1 where es1: "t1 = t @ es1" "returns_asked (ka_api a) \<longrightarrow> guarded es1"
      and q: "q = Inr () \<longrightarrow> (if started then es1 = [EvGet (workload_kind targetKind) (cx_Namespace cx) (cx_ApplicationName cx) NotFound] \<or>
          (\<exists>prev'. scaling (workload_kind targetKind) (cx_Namespace cx) (cx_ApplicationName cx) 0 prev' es1) else es1 = [])"
    using s stop_cases [of "ka_api a" "cx_Namespace cx" "cx_ApplicationName cx" targetKind t q t1]
    by (cases started) (auto simp: returnP_def)
  show ?thesis
  proof (cases q)
    case (Inl e)
    with s assms es1 show ?thesis by (auto simp: restore_old_def tryP_def failP_def)
  next
    case (Inr u)
    obtain p t2 where b: "?redo t1 = (p, t2)" by (cases "?redo t1")
    from restore_cases [OF b] obtain es2 where es2: "t2 = t1 @ es2" "returns_asked (ka_api a) \<longrightarrow> guarded es2"
        and p: "p = Inr () \<longrightarrow> (\<exists>prev. scaling (workload_kind currentKind) (cx_Namespace cx) (cx_ApplicationName cx) replicas prev es2)"
      by blast
    have r: "t' = t2" "r = (case p of Inl e \<Rightarrow> Inl (RestoreFailed cause e) | Inr _ \<Rightarrow> Inl cause)"
      using assms s Inr b by (auto simp: restore_old_def tryP_def failP_def split: sum.splits)
    have "brought_back cx currentKind targetKind replicas started (es1 @ es2)" if "p = Inr ()"
    proof -
      from that p obtain prev where "scaling (workload_kind currentKind) (cx_Namespace cx) (cx_ApplicationName cx) replicas prev es2" by blast
      then show ?thesis using q Inr unfolding brought_back_def by (intro exI [of _ es1] exI [of _ es2] exI [of _ prev]) simp
    qed
    moreover have "returns_asked (ka_api a) \<longrightarrow> guarded (es1 @ es2)" using es1 es2 guarded_append by blast
    ultimately show ?thesis using r es1(1) es2(1) by (cases p) auto
  qed
qed

definition left_behind :: "applier_error \<Rightarrow> bool" where
  "left_behind e = (case e of StopNewFailed _ _ \<Rightarrow> True | RestoreFailed _ _ \<Rightarrow> True | _ \<Rightarrow> False)"

lemma restore_old_outcome:
  assumes "restore_old a cx currentKind targetKind replicas started cause t = (r, t')"
  obtains es e where "t' = t @ es" and "returns_asked (ka_api a) \<longrightarrow> guarded es" and "r = Inl e"
    and "left_behind e \<or> brought_back cx currentKind targetKind replicas started es"
  using restore_old_cases [OF assms] by (auto simp: left_behind_def)

lemma map_sum_Inr: "map_sum f g r = Inr x \<longleftrightarrow> (\<exists>y. r = Inr y \<and> x = g y)"
  by (cases r) auto

lemma stopped_cases:
  assumes "stopped_loop a ns name n t = (r, t')"
  shows "\<exists>es. t' = t @ es \<and> reads_only es \<and> (r = Inr () \<longrightarrow> es \<noteq> [] \<and> last es = EvListPods ns (workload_selector name) (Inr []))"
  using assms
proof (induction n arbitrary: t)
  case 0
  then show ?case
    by (auto simp: bindP_def lift_k8s_def tryP_def ListPods_def Let_def failP_def returnP_def map_sum_Inr split: sum.splits if_splits)
next
  case (Suc n)
  let ?r = "api_pods (ka_api a) t ns (workload_selector name)" and ?e = "EvListPods ns (workload_selector name) (api_pods (ka_api a) t ns (workload_selector name))"
  consider (stop) "t' = t @ [?e] \<and> (r = Inr () \<longrightarrow> ?r = Inr [])" | (again) "stopped_loop a ns name n (t @ [?e]) = (r, t')"
    using Suc.prems
    by (auto simp: bindP_def lift_k8s_def tryP_def ListPods_def Let_def failP_def returnP_def map_sum_Inr split: sum.splits if_splits)
  then show ?case
  proof cases
    case stop
    then show ?thesis by (intro exI [of _ "[?e]"]) auto
  next
    case again
    then obtain es where "t' = (t @ [?e]) @ es" "reads_only es" "r = Inr () \<longrightarrow> es \<noteq> [] \<and> last es = EvListPods ns (workload_selector name) (Inr [])"
      using Suc.IH by blast
    then show ?thesis by (intro exI [of _ "?e # es"]) auto
  qed
qed

lemma extends_first:
  assumes "extends (\<lambda>es. list_all is_read es \<and> es \<noteq> []) m" and "\<And>x. extends (list_all is_read) (f x)"
  shows "extends (\<lambda>es. list_all is_read es \<and> es \<noteq> []) (bindP m f)"
  unfolding extends_def
proof
  fix t
  obtain q t1 where m: "m t = (q, t1)" by (cases "m t")
  then obtain es where es: "t1 = t @ es" "list_all is_read es" "es \<noteq> []" using extendsE [OF assms(1) m] by blast
  show "\<exists>es. snd (bindP m f t) = t @ es \<and> list_all is_read es \<and> es \<noteq> []"
  proof (cases q)
    case (Inl e)
    with m es show ?thesis by (simp add: bindP_def)
  next
    case (Inr x)
    obtain es' where "snd (f x t1) = t1 @ es'" "list_all is_read es'" using extendsD [OF assms(2), of x t1] by blast
    with m es Inr show ?thesis by (simp add: bindP_def)
  qed
qed

lemma wait_round_first: "extends (\<lambda>es. list_all is_read es \<and> es \<noteq> []) (wait_round a cx spec lastText)"
proof -
  have "extends (\<lambda>es. list_all is_read es \<and> es \<noteq> []) (workloadReady a cx (sp_Replicas spec))"
    by (auto simp: workloadReady_def extends_def Let_def bindP_def lift_k8s_def tryP_def k8s_get_def failP_def returnP_def split: get_result.splits)
  then show ?thesis unfolding wait_round_def
    by (rule extends_first)
      (auto simp: certificateReady_def Let_def intro!: ro.extends_intros ro_lift extends_reads diagnostic_reads split: prod.splits)
qed

lemma WaitReady_first: "extends (\<lambda>es. list_all is_read es \<and> es \<noteq> []) (Applier_WaitReady a cx spec)"
proof -
  have "extends (list_all is_read) (\<lambda>t. if ka_done a t then failP (WaitTimeout x) t else wait_loop a cx spec n x t)" for x n
    using extends_read_state [of "list_all is_read" "\<lambda>b. if b then failP (WaitTimeout x) else wait_loop a cx spec n x" "ka_done a"]
    by (simp add: if_distribR ro.extends_failP wait_loop_reads)
  then have "extends (\<lambda>es. list_all is_read es \<and> es \<noteq> []) (wait_loop a cx spec n lastText)" for n lastText
    by (cases n) (auto intro!: extends_first wait_round_first ro.extends_intros split: option.splits)
  then show ?thesis by (simp add: Applier_WaitReady_def)
qed

lemma start_target_cases:
  assumes "start_target a cx spec currentKind targetKind replicas t = (r, t')"
  shows "\<exists>app wait redo. t' = t @ app @ wait @ redo \<and> (returns_asked (ka_api a) \<longrightarrow> guarded (app @ wait @ redo)) \<and> reads_only wait \<and>
    (case r of
       Inr _ \<Rightarrow> wait \<noteq> [] \<and> redo = []
     | Inl e \<Rightarrow> left_behind e \<or> brought_back cx currentKind targetKind replicas (wait \<noteq> []) redo)"
proof (cases "RenderResources (ka_checks a) (cx\<lparr>cx_WorkloadKind := targetKind\<rparr>) spec")
  case (Inl e)
  with assms have "restore_old a cx currentKind targetKind replicas False (RenderFailed e) t = (r, t')"
    by (simp add: start_target_def Let_def)
  then obtain es x where "t' = t @ es" "returns_asked (ka_api a) \<longrightarrow> guarded es" "r = Inl x"
      "left_behind x \<or> brought_back cx currentKind targetKind replicas False es" by (rule restore_old_outcome)
  then show ?thesis by (intro exI [of _ "[]"] exI [of _ es]) simp
next
  case render: (Inr resources)
  let ?target = "cx\<lparr>cx_WorkloadKind := targetKind\<rparr>"
  obtain q t1 where ap: "Applier_Apply a resources t = (q, t1)" by (cases "Applier_Apply a resources t")
  obtain app where app: "t1 = t @ app" "guarded app" using extendsE [OF Apply_guarded ap] by blast
  show ?thesis
  proof (cases q)
    case (Inl e)
    with assms render ap have "restore_old a cx currentKind targetKind replicas False (CreateNewFailed e) t1 = (r, t')"
      by (simp add: start_target_def Let_def tryP_def)
    then obtain es x where "t' = t1 @ es" "returns_asked (ka_api a) \<longrightarrow> guarded es" "r = Inl x"
      "left_behind x \<or> brought_back cx currentKind targetKind replicas False es" by (rule restore_old_outcome)
    with app guarded_append [OF app(2), of es] show ?thesis by (intro exI [of _ app] exI [of _ "[]"] exI [of _ es]) simp
  next
    case (Inr u)
    obtain p t2 where wr: "Applier_WaitReady a ?target spec t1 = (p, t2)" by (cases "Applier_WaitReady a ?target spec t1")
    obtain wait where wait: "t2 = t1 @ wait" "reads_only wait" "wait \<noteq> []" using extendsE [OF WaitReady_first wr] by blast
    have gw: "guarded (app @ wait)" using guarded_append [OF app(2) reads_only_guarded [OF wait(2)]] .
    show ?thesis
    proof (cases p)
      case (Inl e)
      with assms render ap Inr wr have "restore_old a cx currentKind targetKind replicas True (NewNotReady e) t2 = (r, t')"
        by (simp add: start_target_def Let_def tryP_def)
      then obtain es x where "t' = t2 @ es" "returns_asked (ka_api a) \<longrightarrow> guarded es" "r = Inl x"
        "left_behind x \<or> brought_back cx currentKind targetKind replicas True es" by (rule restore_old_outcome)
      with app wait guarded_append [OF gw, of es] show ?thesis by (intro exI [of _ app] exI [of _ wait] exI [of _ es]) simp
    next
      case p: (Inr v)
      with assms render ap Inr wr have "r = Inr ()" "t' = t2" by (simp_all add: start_target_def Let_def tryP_def returnP_def)
      with app wait gw show ?thesis by (intro exI [of _ app] exI [of _ wait] exI [of _ "[]"]) simp
    qed
  qed
qed

lemma MigrateWorkloadKind_runs:
  assumes "ka_workloads a" and "effective_kind cx \<noteq> targetKind" and "targetKind = WorkloadKindDeployment \<or> targetKind = WorkloadKindStatefulSet"
  shows "MigrateWorkloadKind a cx spec targetKind =
    bindP (scaleManagedWorkload (ka_api a) (cx_Namespace cx) (cx_ApplicationName cx) (effective_kind cx) 0) (\<lambda>replicas.
      tryP (waitForWorkloadPodsStopped a (cx_Namespace cx) (cx_ApplicationName cx)) (\<lambda>r. case r of
        Inl e \<Rightarrow> restore_old a cx (effective_kind cx) targetKind replicas False e
      | Inr _ \<Rightarrow> start_target a cx spec (effective_kind cx) targetKind replicas))"
  using assms unfolding MigrateWorkloadKind_def Let_def effective_kind_def [symmetric] by auto

lemma migrate_cases:
  assumes "MigrateWorkloadKind a cx spec targetKind t = (r, t')"
  shows "\<exists>scale stop app wait redo. t' = t @ scale @ stop @ app @ wait @ redo \<and>
    (returns_asked (ka_api a) \<longrightarrow> guarded (scale @ stop @ app @ wait @ redo)) \<and> reads_only stop \<and> reads_only wait \<and>
    (app \<noteq> [] \<longrightarrow> stop \<noteq> [] \<and> last stop = EvListPods (cx_Namespace cx) (workload_selector (cx_ApplicationName cx)) (Inr [])) \<and>
    (stop @ app @ wait @ redo = [] \<and> length scale \<le> 2 \<and> (r = Inr () \<longrightarrow> effective_kind cx = targetKind) \<or>
     (\<exists>replicas. scaling (workload_kind (effective_kind cx)) (cx_Namespace cx) (cx_ApplicationName cx) 0 replicas scale \<and>
        (case r of
           Inr _ \<Rightarrow> wait \<noteq> [] \<and> redo = []
         | Inl e \<Rightarrow> left_behind e \<or> brought_back cx (effective_kind cx) targetKind replicas (wait \<noteq> []) redo)))"
proof (cases "\<not> ka_workloads a \<or> effective_kind cx = targetKind \<or> targetKind \<noteq> WorkloadKindDeployment \<and> targetKind \<noteq> WorkloadKindStatefulSet")
  case True
  with assms have "t' = t" "r = Inr () \<longrightarrow> effective_kind cx = targetKind"
    by (auto simp: MigrateWorkloadKind_def effective_kind_def failP_def returnP_def Let_def split: if_splits)
  then show ?thesis by (intro exI [of _ "[]"]) simp
next
  case False
  let ?ns = "cx_Namespace cx" and ?name = "cx_ApplicationName cx" and ?kind = "effective_kind cx"
  have run: "MigrateWorkloadKind a cx spec targetKind =
    bindP (scaleManagedWorkload (ka_api a) ?ns ?name ?kind 0) (\<lambda>replicas. tryP (waitForWorkloadPodsStopped a ?ns ?name) (\<lambda>r. case r of
        Inl e \<Rightarrow> restore_old a cx ?kind targetKind replicas False e
      | Inr _ \<Rightarrow> start_target a cx spec ?kind targetKind replicas))"
    using False by (intro MigrateWorkloadKind_runs) auto
  obtain q t1 where s: "scaleManagedWorkload (ka_api a) ?ns ?name ?kind 0 t = (q, t1)" by (cases "scaleManagedWorkload (ka_api a) ?ns ?name ?kind 0 t")
  obtain scale where scale: "t1 = t @ scale" "returns_asked (ka_api a) \<longrightarrow> guarded scale"
      "case q of Inr prev \<Rightarrow> scaling (workload_kind ?kind) ?ns ?name 0 prev scale | Inl e \<Rightarrow> length scale \<le> 2"
    using scale_cases [OF s] by blast
  show ?thesis
  proof (cases q)
    case (Inl e)
    with run assms s have "r = Inl e" "t' = t1" by (simp_all add: bindP_def)
    with scale Inl show ?thesis by (intro exI [of _ scale] exI [of _ "[]"]) simp
  next
    case (Inr replicas)
    obtain p t2 where w: "waitForWorkloadPodsStopped a ?ns ?name t1 = (p, t2)" by (cases "waitForWorkloadPodsStopped a ?ns ?name t1")
    obtain stop where stop: "t2 = t1 @ stop" "reads_only stop"
        "p = Inr () \<longrightarrow> stop \<noteq> [] \<and> last stop = EvListPods ?ns (workload_selector ?name) (Inr [])"
      using stopped_cases [OF w [unfolded waitForWorkloadPodsStopped_def]] by blast
    have gs: "returns_asked (ka_api a) \<longrightarrow> guarded (scale @ stop)"
      using scale(2) guarded_append reads_only_guarded [OF stop(2)] by blast
    have rest: "(case p of Inl e \<Rightarrow> restore_old a cx ?kind targetKind replicas False e | Inr _ \<Rightarrow> start_target a cx spec ?kind targetKind replicas) t2 = (r, t')"
      using run assms s Inr w by (simp add: bindP_def tryP_def)
    show ?thesis
    proof (cases p)
      case (Inl e)
      with rest have "restore_old a cx ?kind targetKind replicas False e t2 = (r, t')" by simp
      then obtain es x where es: "t' = t2 @ es" "returns_asked (ka_api a) \<longrightarrow> guarded es" "r = Inl x"
          "left_behind x \<or> brought_back cx ?kind targetKind replicas False es" by (rule restore_old_outcome)
      have t': "t' = t @ scale @ stop @ [] @ [] @ es" using es(1) stop(1) scale(1) by simp
      have guard: "returns_asked (ka_api a) \<longrightarrow> guarded (scale @ stop @ [] @ [] @ es)"
        using gs es(2) guarded_append [of None "scale @ stop" es] by simp
      have sc: "scaling (workload_kind ?kind) ?ns ?name 0 replicas scale" using scale(3) Inr by simp
      have out: "case r of Inr _ \<Rightarrow> [] \<noteq> ([] :: k8s_event list) \<and> es = []
           | Inl e \<Rightarrow> left_behind e \<or> brought_back cx ?kind targetKind replicas ([] \<noteq> ([] :: k8s_event list)) es" using es(3,4) by simp
      have "reads_only []" by simp
      then show ?thesis using t' guard stop(2) sc out by blast
    next
      case p: (Inr u)
      with rest have "start_target a cx spec ?kind targetKind replicas t2 = (r, t')" by simp
      from start_target_cases [OF this] obtain app wait bk where run2: "t' = t2 @ app @ wait @ bk"
          "returns_asked (ka_api a) \<longrightarrow> guarded (app @ wait @ bk)" "reads_only wait"
          "case r of Inr _ \<Rightarrow> wait \<noteq> [] \<and> bk = []
           | Inl e \<Rightarrow> left_behind e \<or> brought_back cx ?kind targetKind replicas (wait \<noteq> []) bk" by blast
      have t': "t' = t @ scale @ stop @ app @ wait @ bk" using run2(1) stop(1) scale(1) by simp
      have guard: "returns_asked (ka_api a) \<longrightarrow> guarded (scale @ stop @ app @ wait @ bk)"
        using gs run2(2) guarded_append [of None "scale @ stop" "app @ wait @ bk"] by simp
      have sc: "scaling (workload_kind ?kind) ?ns ?name 0 replicas scale" using scale(3) Inr by simp
      have before: "app \<noteq> [] \<longrightarrow> stop \<noteq> [] \<and> last stop = EvListPods ?ns (workload_selector ?name) (Inr [])" using stop(3) p by simp
      show ?thesis
        using t' guard stop(2) run2(3) before sc run2(4) by blast
    qed
  qed
qed

lemma Migrate_guarded: "returns_asked (ka_api a) \<Longrightarrow> guarded_proc (MigrateWorkloadKind a cx spec targetKind)"
  unfolding extends_def using migrate_cases by (metis prod.collapse)

section \<open>Properties\<close>

text \<open>
  C18. The applier only touches what belongs to the platform. Against every behaviour of the API server
  that answers a read of a workload with that workload, all operations extend the trace of calls so
  that an object is created only right after the server said that there is none, and updated or
  deleted only right after it was read with the label of the platform, the update naming the version
  that was read. The checks before a release and the wait for it write nothing.
\<close>

theorem only_managed_objects_changed:
  assumes "returns_asked (ka_api a)"
  shows "extends (guarded_from None) (Applier_Apply a resources) \<and>
    extends (guarded_from None) (Applier_SyncApplicationEndpoints a cx endpoints servicePort) \<and>
    extends (guarded_from None) (RemoveEndpoint a cx) \<and>
    extends (guarded_from None) (MigrateWorkloadKind a cx spec targetKind) \<and>
    extends (list_all is_read) (Applier_Preflight a cx spec) \<and> extends (list_all is_read) (Applier_WaitReady a cx spec)"
  using Apply_guarded Sync_guarded RemoveEndpoint_guarded Migrate_guarded [OF assms] Preflight_reads WaitReady_reads by blast


section \<open>A concrete cluster\<close>

definition demo_live :: "string \<Rightarrow> string \<Rightarrow> live_object" where
  "demo_live ns name =
     \<lparr>lo_Labels = [(ManagedByLabel, ManagedByValue)], lo_ResourceVersion = ''5'', lo_DataKeys = [], lo_BinaryKeys = [], lo_ClusterIP = [],
      lo_Workload = \<lparr>wl_Meta = \<lparr>om_Name = name, om_Namespace = ns, om_Labels = [], om_Annotations = []\<rparr>, wl_Replicas = 2, wl_Selector = [],
        wl_PodLabels = [], wl_PodSpec = \<lparr>ps_Containers = [], ps_Volumes = [], ps_HostNetwork = False, ps_DNSPolicy = [], ps_NodeSelector = [],
          ps_ImagePullSecrets = []\<rparr>, wl_Strategy = [], wl_ServiceName = []\<rparr>,
      lo_Replicas = Some 2, lo_Generation = 0, lo_ObservedGeneration = 0, lo_UpdatedReplicas = 2, lo_AvailableReplicas = 2,
      lo_UnavailableReplicas = 0, lo_ReadyReplicas = 2, lo_CurrentReplicas = 2\<rparr>"

text \<open>There is a Deployment; Services cannot be created; the pods are given.\<close>

definition demo_api :: "string + Pod list \<Rightarrow> k8s_api" where
  "demo_api pods =
     \<lparr>api_ready = True, api_get = (\<lambda>_ kind ns name. if kind = KDeployment then Found (demo_live ns name) else NotFound),
      api_create = (\<lambda>_ obj. if object_kind obj = KService then Some ''refused'' else None), api_update = (\<lambda>_ _ _. None),
      api_delete = (\<lambda>_ _ _ _. None), api_pods = (\<lambda>_ _ _. pods), api_events = (\<lambda>_ _. Inr []), api_certificate = (\<lambda>_ _ _. Inr [])\<rparr>"

definition demo_applier :: "string + Pod list \<Rightarrow> KubernetesApplier" where
  "demo_applier pods =
     \<lparr>ka_api = demo_api pods, ka_resources = True, ka_preflight = None, ka_workloads = True, ka_endpoints = True, ka_diagnostics = True,
      ka_ReadinessTimeout = 0, ka_checks = demo_checks, ka_done = (\<lambda>_. False)\<rparr>"

lemma demo_returns_asked: "returns_asked (ka_api (demo_applier pods))"
  by (auto simp: returns_asked_def demo_applier_def demo_api_def demo_live_def)

lemma only_managed_objects_changed_witness:
  "returns_asked (ka_api (demo_applier (Inr []))) \<and>
   (\<exists>es. snd (MigrateWorkloadKind (demo_applier (Inr [])) demo_context demo_spec WorkloadKindStatefulSet []) = es \<and> guarded es)"
proof -
  have "extends (guarded_from None) (MigrateWorkloadKind (demo_applier (Inr [])) demo_context demo_spec WorkloadKindStatefulSet)"
    using only_managed_objects_changed [OF demo_returns_asked] by blast
  from extendsD [OF this, of "[]"] demo_returns_asked show ?thesis by simp
qed

lemma demo_kinds: "effective_kind demo_context = WorkloadKindDeployment" "workload_kind WorkloadKindDeployment = KDeployment"
  by (simp_all add: effective_kind_def demo_context_def workload_kind_def WorkloadKindDeployment_def WorkloadKindStatefulSet_def)

lemma demo_runs: "MigrateWorkloadKind (demo_applier p) demo_context demo_spec WorkloadKindStatefulSet =
    bindP (scaleManagedWorkload (ka_api (demo_applier p)) (cx_Namespace demo_context) (cx_ApplicationName demo_context) WorkloadKindDeployment 0) (\<lambda>replicas.
      tryP (waitForWorkloadPodsStopped (demo_applier p) (cx_Namespace demo_context) (cx_ApplicationName demo_context)) (\<lambda>r. case r of
        Inl e \<Rightarrow> restore_old (demo_applier p) demo_context WorkloadKindDeployment WorkloadKindStatefulSet replicas False e
      | Inr _ \<Rightarrow> start_target (demo_applier p) demo_context demo_spec WorkloadKindDeployment WorkloadKindStatefulSet replicas))"
  unfolding demo_kinds(1) [symmetric]
  by (rule MigrateWorkloadKind_runs)
    (simp_all add: demo_applier_def effective_kind_def demo_context_def WorkloadKindDeployment_def WorkloadKindStatefulSet_def)

lemma stopped_first:
  "waitForWorkloadPodsStopped a ns name =
     bindP (lift_k8s OldPodsRead (ListPods (ka_api a) ns (workload_selector name))) (\<lambda>pods.
       if pods = [] then returnP ()
       else (\<lambda>t. if ka_done a t then failP OldPodsTimeout t else stopped_loop a ns name 119 t))"
proof -
  have "(120 :: nat) = Suc 119" by simp
  then have "stopped_loop a ns name 120 = stopped_loop a ns name (Suc 119)" by (rule arg_cong)
  then show ?thesis by (simp only: waitForWorkloadPodsStopped_def stopped_loop.simps)
qed

lemma demo_wait:
  "waitForWorkloadPodsStopped (demo_applier (Inl e)) ns name t =
     (Inl (OldPodsRead (K8sFailed e)), t @ [EvListPods ns (workload_selector name) (Inl e)])"
  "waitForWorkloadPodsStopped (demo_applier (Inr [])) ns name t = (Inr (), t @ [EvListPods ns (workload_selector name) (Inr [])])"
  by (simp_all add: stopped_first bindP_def lift_k8s_def tryP_def ListPods_def demo_applier_def demo_api_def failP_def returnP_def)

lemma demo_scale: "scaleManagedWorkload (ka_api (demo_applier p)) ns name WorkloadKindDeployment n t =
    (Inr 2, t @ [EvGet KDeployment ns name (Found (demo_live ns name)), EvUpdate (ODeployment ((lo_Workload (demo_live ns name))\<lparr>wl_Replicas := n\<rparr>)) ''5''])"
  by (simp add: scaleManagedWorkload_def demo_kinds tryP_def k8s_get_def demo_applier_def demo_api_def ensureManaged_def managed_labels_def
      bindP_def lift_k8s_def update_replicas_def UpdateDeployment_def k8s_update_def k8s_answer_def returnP_def previous_replicas_def Let_def)
    (simp add: demo_live_def)


section \<open>A start that fails half way\<close>

text \<open>
  When applying the new objects fails after the new workload was created, the flag that it has to be
  stopped is not set yet: the old workload is scaled up again and the new one stays.
\<close>

definition updates_new :: "k8s_event \<Rightarrow> bool" where
  "updates_new e = (case e of EvUpdate (OStatefulSet _) _ \<Rightarrow> True | _ \<Rightarrow> False)"

lemma demo_apply:
  assumes "kind \<noteq> KDeployment" and "object_kind (build None) = kind"
  shows "apply_object (demo_api p) kind meta build t =
    (if kind = KService then Inl (K8sFailed ''refused'') else Inr (),
     t @ [EvGet kind (om_Namespace meta) (om_Name meta) NotFound, EvCreate (build None)])"
  using assms by (simp add: apply_object_def ready_def tryP_def k8s_get_def k8s_create_def k8s_answer_def demo_api_def)

lemma demo_apply_some:
  "\<exists>es. apply_some (ApplySecret (demo_api p)) x t = (Inr (), t @ es) \<and> \<not> list_ex updates_new es"
  "\<exists>es. apply_some (ApplyConfigMap (demo_api p)) y t = (Inr (), t @ es) \<and> \<not> list_ex updates_new es"
  by (auto simp: apply_some_def ApplySecret_def ApplyConfigMap_def demo_apply lift_k8s_def tryP_def returnP_def updates_new_def
      split: option.splits)

lemma demo_apply_fails:
  assumes "rr_Deployment resources = None" and "rr_StatefulSet resources = Some w" and "rr_Service resources = Some service"
  shows "\<exists>es. Applier_Apply (demo_applier p) resources t = (Inl (ApplierK8s (K8sFailed ''refused'')), t @ es) \<and>
    EvCreate (OStatefulSet w) \<in> set es \<and> \<not> list_ex updates_new es"
proof -
  obtain e1 where e1: "apply_some (ApplySecret (demo_api p)) (rr_ImagePullSecret resources) t = (Inr (), t @ e1)" "\<not> list_ex updates_new e1"
    using demo_apply_some(1) by blast
  obtain e2 where e2: "apply_some (ApplyConfigMap (demo_api p)) (rr_ConfigMap resources) (t @ e1) = (Inr (), (t @ e1) @ e2)" "\<not> list_ex updates_new e2"
    using demo_apply_some(2) by blast
  obtain e3 where e3: "apply_some (ApplySecret (demo_api p)) (rr_Secret resources) ((t @ e1) @ e2) = (Inr (), ((t @ e1) @ e2) @ e3)" "\<not> list_ex updates_new e3"
    using demo_apply_some(1) by blast
  have api: "ka_api (demo_applier p) = demo_api p" "ka_resources (demo_applier p)" by (simp_all add: demo_applier_def)
  show ?thesis using assms e1 e2 e3
    by (auto simp: Applier_Apply_def Let_def api bindP_def apply_some_def [of "ApplyDeployment _"] apply_some_def [of "ApplyStatefulSet _"]
        ApplyStatefulSet_def ApplyService_def demo_apply lift_k8s_def tryP_def returnP_def failP_def updates_new_def)
qed

lemma failed_start_keeps_new_workload:
  "\<exists>w t'. MigrateWorkloadKind (demo_applier (Inr [])) demo_context demo_spec WorkloadKindStatefulSet [] =
       (Inl (CreateNewFailed (ApplierK8s (K8sFailed ''refused''))), t') \<and>
     EvCreate (OStatefulSet w) \<in> set t' \<and> wl_Replicas w = sp_Replicas demo_spec \<and> \<not> list_ex updates_new t' \<and>
     last t' = EvUpdate (ODeployment ((lo_Workload (demo_live ''shop-prod'' ''web''))\<lparr>wl_Replicas := 2\<rparr>)) ''5''"
proof -
  let ?target = "demo_context\<lparr>cx_WorkloadKind := WorkloadKindStatefulSet\<rparr>"
  have "\<exists>r. RenderResources demo_checks ?target demo_spec = Inr r"
    by (rule iffD2 [OF conjunct1 [OF render_ok_iff]]) (simp add: demo_spec_ok demo_context_def demo_admissible)
  then obtain resources where render: "RenderResources demo_checks ?target demo_spec = Inr resources" by blast
  then obtain pod pull where r: "resources = render_objects ?target demo_spec pod pull" by (auto elim: RenderResources_Inr)
  let ?w = "render_workload ?target demo_spec pod True"
  have kinds: "effective_kind ?target = WorkloadKindStatefulSet"
    by (simp add: effective_kind_def WorkloadKindStatefulSet_def)
  have w: "rr_Deployment resources = None" "rr_StatefulSet resources = Some ?w" "rr_Service resources = Some (render_service ?target (sp_Service demo_spec))"
    by (simp_all add: r render_objects_def kinds Let_def)
  let ?t = "[EvGet KDeployment ''shop-prod'' ''web'' (Found (demo_live ''shop-prod'' ''web'')),
     EvUpdate (ODeployment ((lo_Workload (demo_live ''shop-prod'' ''web''))\<lparr>wl_Replicas := 0\<rparr>)) ''5'',
     EvListPods ''shop-prod'' (workload_selector ''web'') (Inr [])]"
  obtain es where es: "Applier_Apply (demo_applier (Inr [])) resources ?t = (Inl (ApplierK8s (K8sFailed ''refused'')), ?t @ es)"
      "EvCreate (OStatefulSet ?w) \<in> set es" "\<not> list_ex updates_new es"
    using demo_apply_fails [OF w] by blast
  have names: "cx_Namespace demo_context = ''shop-prod''" "cx_ApplicationName demo_context = ''web''" "ka_checks (demo_applier p) = demo_checks" for p
    by (simp_all add: demo_context_def demo_applier_def)
  have start: "start_target (demo_applier (Inr [])) demo_context demo_spec WorkloadKindDeployment WorkloadKindStatefulSet 2 ?t =
     restore_old (demo_applier (Inr [])) demo_context WorkloadKindDeployment WorkloadKindStatefulSet 2 False
       (CreateNewFailed (ApplierK8s (K8sFailed ''refused''))) (?t @ es)"
    using es(1) render by (simp add: start_target_def Let_def names tryP_def)
  have "MigrateWorkloadKind (demo_applier (Inr [])) demo_context demo_spec WorkloadKindStatefulSet [] =
     (Inl (CreateNewFailed (ApplierK8s (K8sFailed ''refused''))), ?t @ es @
        [EvGet KDeployment ''shop-prod'' ''web'' (Found (demo_live ''shop-prod'' ''web'')),
         EvUpdate (ODeployment ((lo_Workload (demo_live ''shop-prod'' ''web''))\<lparr>wl_Replicas := 2\<rparr>)) ''5''])"
    using start by (simp add: demo_runs bindP_def tryP_def demo_wait demo_scale names restore_old_def restoreManagedWorkload_def returnP_def failP_def)
  moreover have "wl_Replicas ?w = sp_Replicas demo_spec" by (simp add: render_workload_def)
  ultimately show ?thesis using es(2,3) by (auto simp: updates_new_def)
qed

section \<open>Contexts without names\<close>

text \<open>
  Rendering needs the names of the project and the environment. A migration in a context without
  them stops the old workload, fails and starts it again.
\<close>

lemma nameless_render: "cx_ProjectName cx = [] \<Longrightarrow> \<exists>e. RenderResources k cx spec = Inl e"
  by (cases "ValidateReleaseSpec k spec") (simp_all add: RenderResources_def)

lemma nameless_migration_fails:
  assumes "cx_ProjectName cx = []" and "effective_kind cx \<noteq> targetKind"
  shows "fst (MigrateWorkloadKind a cx spec targetKind t) \<noteq> Inr ()"
proof
  assume ok: "fst (MigrateWorkloadKind a cx spec targetKind t) = Inr ()"
  have fails: "fst (restore_old a cx k k' n b e t) \<noteq> Inr ()" for k k' n b e t
    by (metis Inl_Inr_False prod.collapse restore_old_outcome)
  obtain e where "RenderResources (ka_checks a) (cx\<lparr>cx_WorkloadKind := targetKind\<rparr>) spec = Inl e"
    using nameless_render [of "cx\<lparr>cx_WorkloadKind := targetKind\<rparr>"] assms(1) by auto
  then have start: "fst (start_target a cx spec k targetKind n t) \<noteq> Inr ()" for k n t
    using fails by (simp add: start_target_def Let_def)
  show False
  proof (cases "ka_workloads a \<and> (targetKind = WorkloadKindDeployment \<or> targetKind = WorkloadKindStatefulSet)")
    case True
    then show False using ok fails start unfolding MigrateWorkloadKind_runs [OF conjunct1 [OF True] assms(2) conjunct2 [OF True]]
      by (auto simp: bindP_def tryP_def split: prod.splits sum.splits)
  next
    case False
    then show False using ok assms(2)
      by (auto simp: MigrateWorkloadKind_def failP_def Let_def effective_kind_def split: if_splits)
  qed
qed

end
