(* ===== verification/Storage_Paths.thy ===== *)
theory Storage_Paths
  imports Go_Path Go_Base64
begin

text \<open>
  The string functions of the storage component: the paths that volumes are imported from and backed up
  to (\<open>internal/service/storage/service.go\<close>), the name of a migrated claim, the shell words of remote
  commands and the texts read from their output (\<open>internal/api/infrastructure/storage\<close>).
\<close>

section \<open>Library functions\<close>

text \<open>\<open>path.Join\<close>\<close>

definition path_Join :: "string list \<Rightarrow> string" where
  "path_Join elems =
     (let ps = dropWhile (\<lambda>e. e = []) elems in if ps = [] then [] else path_Clean (join_with ''/'' ps))"

text \<open>\<open>strings.Fields\<close>: the maximal parts without white space; \<open>cur\<close> is the part read so far, reversed.\<close>

function fields_from :: "string \<Rightarrow> string \<Rightarrow> string list" where
  "fields_from cur s =
     (case find (\<lambda>w. w \<noteq> [] \<and> prefix w s) space_runes of
        Some w \<Rightarrow> (if cur = [] then [] else [rev cur]) @ fields_from [] (drop (length w) s)
      | None \<Rightarrow> (case s of [] \<Rightarrow> (if cur = [] then [] else [rev cur]) | c # cs \<Rightarrow> fields_from (c # cur) cs))"
  by pat_completeness auto
termination
  by (relation "measure (\<lambda>(cur, s). length s)") (auto simp: find_Some_iff prefix_def)

declare fields_from.simps [simp del]

definition Fields :: "string \<Rightarrow> string list" where
  "Fields s = fields_from [] s"

section \<open>Paths\<close>

definition protected_paths :: "string list" where
  "protected_paths =
     [''/boot'', ''/dev'', ''/etc'', ''/proc'', ''/run'', ''/sys'', ''/usr'', ''/bin'', ''/sbin'', ''/lib'', ''/lib64'',
      ''/var/lib/rancher/k3s'', ''/var/lib/kubelet'']"

definition ValidateHostDirectoryImportPath :: "string \<Rightarrow> string option" where
  "ValidateHostDirectoryImportPath value =
     (let cleaned = path_Clean (TrimSpace value) in
      if \<not> prefix ''/'' cleaned \<or> cleaned = ''/'' then None
      else if list_ex (\<lambda>p. cleaned = p \<or> prefix (p @ ''/'') cleaned) protected_paths then None
      else Some cleaned)"

definition HostDirectoryImportPathsOverlap :: "string \<Rightarrow> string \<Rightarrow> bool" where
  "HostDirectoryImportPathsOverlap left right =
     (let l = path_Clean left; r = path_Clean right in l = r \<or> prefix (r @ ''/'') l \<or> prefix (l @ ''/'') r)"

datatype path_error = BackupRootInvalid | ArchiveOutsideRoot

definition ValidateBackupRoot :: "string \<Rightarrow> path_error + string" where
  "ValidateBackupRoot value =
     (let root = path_Clean (TrimSpace value) in
      if \<not> prefix ''/'' root \<or> root = ''/'' then Inl BackupRootInvalid else Inr root)"

definition persistentVolumeUsagePathAllowed :: "string \<Rightarrow> bool" where
  "persistentVolumeUsagePathAllowed localPath = prefix (''/var/lib/rancher/k3s/storage'' @ ''/'') (path_Clean localPath)"

definition hostDirectoryImportBackupRoot :: string where
  "hostDirectoryImportBackupRoot = ''/data/cylism-import-backups''"

definition hostDirectoryImportBackupPath :: "string \<Rightarrow> nat \<Rightarrow> bool \<Rightarrow> string" where
  "hostDirectoryImportBackupPath pvcName i target =
     path_Join [hostDirectoryImportBackupRoot,
       pvcName @ ''-import-'' @ show_nat i @ ''-'' @ (if target then ''target'' else ''source'') @ ''.tar.gz'']"

text \<open>The check at the start of \<open>deleteHostDirectoryImportArchive\<close>.\<close>

definition archive_path :: "string \<Rightarrow> path_error + string" where
  "archive_path archivePath =
     (let cleaned = path_Clean archivePath in
      if \<not> prefix (hostDirectoryImportBackupRoot @ ''/'') cleaned \<or> \<not> suffix ''.tar.gz'' cleaned
      then Inl ArchiveOutsideRoot else Inr cleaned)"

section \<open>Names, shell words, output\<close>

text \<open>\<open>strings.TrimRight(s, "-")\<close>\<close>

definition trim_dashes :: "string \<Rightarrow> string" where
  "trim_dashes s = rev (dropWhile (\<lambda>c. c = CHR ''-'') (rev s))"

definition migrationPVCName :: "string \<Rightarrow> nat \<Rightarrow> string" where
  "migrationPVCName source i =
     (let ending = ''-migrate-'' @ show_nat i;
          base = TrimSuffix (TrimSpace source) ''-'';
          base' = (if length base + length ending > 63 then trim_dashes (take (63 - length ending) base) else base)
      in base' @ ending)"

text \<open>\<open>strings.ReplaceAll\<close> of a quote character.\<close>

definition quote_char :: char where "quote_char = CHR 0x27"

definition quoted_quote :: string where
  "quoted_quote = [quote_char, CHR 0x22, quote_char, CHR 0x22, quote_char]"

definition storageShellQuote :: "string \<Rightarrow> string" where
  "storageShellQuote value = quote_char # concat (map (\<lambda>c. if c = quote_char then quoted_quote else [c]) value) @ [quote_char]"

definition is_hex_lower :: "char \<Rightarrow> bool" where
  "is_hex_lower c \<longleftrightarrow> CHR ''0'' \<le> c \<and> c \<le> CHR ''9'' \<or> CHR ''a'' \<le> c \<and> c \<le> CHR ''f''"

definition is_checksum :: "string \<Rightarrow> bool" where
  "is_checksum s \<longleftrightarrow> length s = 64 \<and> list_all is_hex_lower s"

definition hostDirectoryImportChecksumFromSSHOutput :: "string \<Rightarrow> string" where
  "hostDirectoryImportChecksumFromSSHOutput output =
     (case find is_checksum (rev (Fields output)) of None \<Rightarrow> [] | Some candidate \<Rightarrow> candidate)"

definition streamCommandDiagnostic :: "string \<Rightarrow> string" where
  "streamCommandDiagnostic output =
     join_with '' '' (filter (\<lambda>line. line \<noteq> [] \<and> \<not> prefix ''Warning: Permanently added '' line)
       (map TrimSpace (split_on CHR 0x0A output)))"

text \<open>The text without a failure is the Chinese for ``no error''.\<close>

definition streamCommandFailure :: "string option \<Rightarrow> string \<Rightarrow> string" where
  "streamCommandFailure runErr output =
     (let diagnostic = streamCommandDiagnostic output in
      case runErr of
        None \<Rightarrow> if diagnostic = [] then utf8 ''e697a0e99499e8afaf'' else diagnostic
      | Some e \<Rightarrow> if diagnostic = [] then e else e @ '': '' @ diagnostic)"

text \<open>The last line that starts with a non-negative number.\<close>

fun usage_of_lines :: "string list \<Rightarrow> int option" where
  "usage_of_lines [] = None"
| "usage_of_lines (line # rest) =
     (case Fields line of
        [] \<Rightarrow> usage_of_lines rest
      | field # _ \<Rightarrow>
          (case ParseInt64 field of
             Some used \<Rightarrow> if used \<ge> 0 then Some used else usage_of_lines rest
           | None \<Rightarrow> usage_of_lines rest))"

definition parsePersistentVolumeUsage :: "string \<Rightarrow> int option" where
  "parsePersistentVolumeUsage output = usage_of_lines (rev (split_on CHR 0x0A output))"

section \<open>Paths by segments\<close>

lemma split_on_at: "split_on c (a @ c # b) = split_on c a @ split_on c b"
  by (induction a) (auto split: list.splits)

lemma join_append: "ps \<noteq> [] \<Longrightarrow> qs \<noteq> [] \<Longrightarrow> join_with sep (ps @ qs) = join_with sep ps @ sep @ join_with sep qs"
  by (induction ps rule: list_nonempty_induct) (simp_all add: join_with_Cons)

abbreviation abs_path :: "string list \<Rightarrow> string" where
  "abs_path ps \<equiv> CHR ''/'' # join_with ''/'' ps"

lemma split_canonical: "canonical_segs True ps \<Longrightarrow> ps \<noteq> [] \<Longrightarrow> split_on CHR ''/'' (join_with ''/'' ps) = ps"
  by (intro split_join) (auto simp: canonical_segs_def list_all_iff)

lemma abs_path_eq:
  assumes "canonical_segs True ps" and "canonical_segs True qs"
  shows "abs_path ps = abs_path qs \<longleftrightarrow> ps = qs"
  using clean_join_id [OF assms(1)] clean_join_id [OF assms(2)] by (metis list.inject)

lemma abs_path_below:
  assumes "canonical_segs True ps" and "canonical_segs True qs" and "ps \<noteq> []"
  shows "prefix (abs_path ps @ ''/'') (abs_path qs) \<longleftrightarrow> strict_prefix ps qs"
proof
  assume "prefix (abs_path ps @ ''/'') (abs_path qs)"
  then obtain rest where rest: "join_with ''/'' qs = join_with ''/'' ps @ CHR ''/'' # rest"
    by (auto simp: prefix_def)
  then have "qs \<noteq> []" by auto
  then have "qs = split_on CHR ''/'' (join_with ''/'' qs)" using assms(2) by (simp add: split_canonical)
  also have "\<dots> = ps @ split_on CHR ''/'' rest" using assms by (simp add: rest split_on_at split_canonical)
  finally show "strict_prefix ps qs" by (metis append_self_conv split_on_not_Nil strict_prefix_def prefix_def)
next
  assume "strict_prefix ps qs"
  then obtain rs where "qs = ps @ rs" "rs \<noteq> []" by (auto simp: strict_prefix_def prefix_def)
  with assms(3) show "prefix (abs_path ps @ ''/'') (abs_path qs)" by (simp add: join_append prefix_def)
qed

lemma path_Clean_segs:
  assumes "prefix ''/'' (path_Clean s)"
  obtains ps where "canonical_segs True ps" and "path_Clean s = abs_path ps"
  using clean_abs_segs [of "path_Clean s"] assms by (auto simp: path_IsAbs_def)

definition protected_segs :: "string list list" where
  "protected_segs = map (\<lambda>p. split_on CHR ''/'' (tl p)) protected_paths"

lemma protected_segs_abs:
  "protected_paths = map abs_path protected_segs" "list_all (\<lambda>ps. canonical_segs True ps \<and> ps \<noteq> []) protected_segs"
  by (simp_all add: protected_segs_def protected_paths_def canonical_segs_def)

lemma below_or_equal:
  assumes "canonical_segs True ps" and "canonical_segs True qs" and "ps \<noteq> []"
  shows "abs_path qs = abs_path ps \<or> prefix (abs_path ps @ ''/'') (abs_path qs) \<longleftrightarrow> prefix ps qs"
  using abs_path_eq [OF assms(2) assms(1)] abs_path_below [OF assms] by (auto simp: strict_prefix_def)

lemma root_path: "canonical_segs True ps \<Longrightarrow> abs_path ps = ''/'' \<longleftrightarrow> ps = []"
  using abs_path_eq [of ps "[]"] by simp

text \<open>
  An accepted source directory is a clean absolute path that is neither the root nor in or below a
  protected directory, whatever \<open>..\<close>, \<open>.\<close> and repeated slashes the request holds.
\<close>

lemma import_path_decided:
  "ValidateHostDirectoryImportPath value = Some p \<longleftrightarrow>
     (\<exists>ps. path_Clean (TrimSpace value) = abs_path ps \<and> p = abs_path ps \<and> canonical_segs True ps \<and> ps \<noteq> [] \<and>
        list_all (\<lambda>ds. \<not> prefix ds ps) protected_segs)"
proof (cases "prefix ''/'' (path_Clean (TrimSpace value))")
  case True
  then obtain ps where ps: "canonical_segs True ps" "path_Clean (TrimSpace value) = abs_path ps" by (rule path_Clean_segs)
  have "list_ex (\<lambda>d. abs_path ps = d \<or> prefix (d @ ''/'') (abs_path ps)) protected_paths \<longleftrightarrow> list_ex (\<lambda>ds. prefix ds ps) protected_segs"
    unfolding protected_segs_abs(1) list_ex_iff using protected_segs_abs(2) below_or_equal [OF _ ps(1)]
    by (fastforce simp: list_all_iff)
  then have "ValidateHostDirectoryImportPath value =
      (if ps = [] \<or> list_ex (\<lambda>ds. prefix ds ps) protected_segs then None else Some (abs_path ps))"
    using root_path [OF ps(1)] by (simp add: ValidateHostDirectoryImportPath_def Let_def ps(2))
  moreover have "(\<exists>qs. abs_path ps = abs_path qs \<and> p = abs_path qs \<and> canonical_segs True qs \<and> Q qs) \<longleftrightarrow> p = abs_path ps \<and> Q ps" for Q
    using abs_path_eq [OF ps(1)] ps(1) by metis
  ultimately show ?thesis unfolding ps(2) by (auto simp: list_ex_iff list_all_iff)
next
  case False
  then show ?thesis by (auto simp: ValidateHostDirectoryImportPath_def Let_def)
qed

lemma paths_overlap_segs:
  assumes "path_Clean left = abs_path ps" "canonical_segs True ps" "ps \<noteq> []"
    and "path_Clean right = abs_path qs" "canonical_segs True qs" "qs \<noteq> []"
  shows "HostDirectoryImportPathsOverlap left right \<longleftrightarrow> prefix ps qs \<or> prefix qs ps"
  using below_or_equal [OF assms(2,5,3)] below_or_equal [OF assms(5,2,6)] abs_path_eq [OF assms(2,5)]
  by (auto simp: HostDirectoryImportPathsOverlap_def Let_def assms(1,4))

section \<open>The archives of an import\<close>

lemma segment_joined:
  assumes "CHR ''/'' \<notin> set name" and "name \<noteq> []" and "name \<noteq> ''.''" and "name \<noteq> ''..''"
  shows "path_Join [hostDirectoryImportBackupRoot, name] = hostDirectoryImportBackupRoot @ ''/'' @ name"
proof -
  have can: "canonical_segs True [''data'', ''cylism-import-backups'', name]"
    using assms by (auto simp: canonical_segs_def)
  have "join_with ''/'' [hostDirectoryImportBackupRoot, name] = abs_path [''data'', ''cylism-import-backups'', name]"
    by (simp add: hostDirectoryImportBackupRoot_def)
  then have "path_Clean (join_with ''/'' [hostDirectoryImportBackupRoot, name]) = abs_path [''data'', ''cylism-import-backups'', name]"
    using clean_join_id [OF can] by (simp add: path_Clean_rooted del: join_with.simps)
  then show ?thesis by (simp add: path_Join_def hostDirectoryImportBackupRoot_def)
qed

text \<open>What an import writes is what its deletion accepts, and no two imports share an archive.\<close>

lemma show_nat_no_slash: "c \<in> set (show_nat n) \<Longrightarrow> is_digit c"
  using show_nat_digits [of n] by (auto simp: list_all_iff)

lemma backup_path_managed:
  assumes "CHR ''/'' \<notin> set pvcName"
  shows "archive_path (hostDirectoryImportBackupPath pvcName i target) = Inr (hostDirectoryImportBackupPath pvcName i target)"
    and "hostDirectoryImportBackupPath pvcName i target =
      hostDirectoryImportBackupRoot @ ''/'' @ pvcName @ ''-import-'' @ show_nat i @ ''-'' @ (if target then ''target'' else ''source'') @ ''.tar.gz''"
proof -
  let ?name = "pvcName @ ''-import-'' @ show_nat i @ ''-'' @ (if target then ''target'' else ''source'') @ ''.tar.gz''"
  have slash: "CHR ''/'' \<notin> set (show_nat i)" using show_nat_no_slash [of "CHR ''/''" i] by (auto simp: is_digit_def less_eq_char_def)
  have len: "length ?name > 2" by simp
  have "hostDirectoryImportBackupPath pvcName i target = hostDirectoryImportBackupRoot @ ''/'' @ ?name"
    unfolding hostDirectoryImportBackupPath_def using assms slash len by (intro segment_joined) auto
  then show p: "hostDirectoryImportBackupPath pvcName i target = hostDirectoryImportBackupRoot @ ''/'' @ ?name" .
  have "path_Clean (hostDirectoryImportBackupPath pvcName i target) = hostDirectoryImportBackupPath pvcName i target"
    by (simp add: hostDirectoryImportBackupPath_def path_Join_def hostDirectoryImportBackupRoot_def)
  moreover have "suffix ''.tar.gz'' (hostDirectoryImportBackupPath pvcName i target)"
    unfolding p by (simp add: suffix_def)
  ultimately show "archive_path (hostDirectoryImportBackupPath pvcName i target) = Inr (hostDirectoryImportBackupPath pvcName i target)"
    by (simp add: archive_path_def Let_def p)
qed

section \<open>The name of a migrated claim\<close>

lemma show_nat_length: "n < 10 ^ Suc k \<Longrightarrow> length (show_nat n) \<le> Suc k"
proof (induction k arbitrary: n)
  case 0
  then show ?case by (simp add: show_nat.simps [of n])
next
  case (Suc k)
  then have "n div 10 < 10 ^ Suc k" by (simp add: less_mult_imp_div_less)
  with Suc.IH [of "n div 10"] show ?case by (simp add: show_nat.simps [of n])
qed

lemma trim_dashes_length: "length (trim_dashes s) \<le> length s"
  unfolding trim_dashes_def by (metis length_dropWhile_le length_rev)

lemma migrated_name_bounded: "i < 2 ^ 64 \<Longrightarrow> length (migrationPVCName source i) \<le> 63"
  using show_nat_length [of i 19] trim_dashes_length [of "take (63 - length (''-migrate-'' @ show_nat i)) (TrimSuffix (TrimSpace source) ''-'')"]
  by (auto simp: migrationPVCName_def Let_def)

lemma digits_end: "takeWhile is_digit (rev (x @ ''-migrate-'' @ show_nat i)) = rev (show_nat i)"
proof -
  have "takeWhile is_digit (rev (show_nat i) @ CHR ''-'' # y) = rev (show_nat i)" for y
    using show_nat_digits [of i] by (subst takeWhile_append2) (auto simp: list_all_iff is_digit_def less_eq_char_def)
  then show ?thesis by simp
qed

lemma migrated_name_inj: "migrationPVCName source i = migrationPVCName source' j \<Longrightarrow> i = j"
  unfolding migrationPVCName_def Let_def by (metis digits_end rev_swap show_nat_inj)

section \<open>Shell words\<close>

text \<open>
  How a POSIX shell reads one word: unquoted, in single quotes and in double quotes. Characters with a
  special meaning that \<open>storageShellQuote\<close> never leaves unprotected are not read (\<open>None\<close>).
\<close>

datatype quoting = Unquoted | SingleQuoted | DoubleQuoted

definition shell_delimiter :: "char \<Rightarrow> bool" where
  "shell_delimiter c \<longleftrightarrow> c \<in> set (CHR 0x09 # CHR 0x0A # '' |&;<>()'')"

definition shell_special :: "char \<Rightarrow> bool" where
  "shell_special c \<longleftrightarrow> c \<in> set (CHR 0x5C # CHR 0x60 # ''$*?[#~{}!'')"

fun shell_word :: "quoting \<Rightarrow> string \<Rightarrow> (string \<times> string) option" where
  "shell_word Unquoted [] = Some ([], [])"
| "shell_word Unquoted (c # cs) =
     (if c = quote_char then shell_word SingleQuoted cs
      else if c = CHR 0x22 then shell_word DoubleQuoted cs
      else if shell_delimiter c then Some ([], c # cs)
      else if shell_special c then None
      else map_option (\<lambda>(w, rest). (c # w, rest)) (shell_word Unquoted cs))"
| "shell_word SingleQuoted [] = None"
| "shell_word SingleQuoted (c # cs) =
     (if c = quote_char then shell_word Unquoted cs
      else map_option (\<lambda>(w, rest). (c # w, rest)) (shell_word SingleQuoted cs))"
| "shell_word DoubleQuoted [] = None"
| "shell_word DoubleQuoted (c # cs) =
     (if c = CHR 0x22 then shell_word Unquoted cs
      else if c \<in> set (CHR 0x5C # CHR 0x60 # ''$'') then None
      else map_option (\<lambda>(w, rest). (c # w, rest)) (shell_word DoubleQuoted cs))"

lemma quoted_body:
  assumes "shell_word Unquoted rest = Some ([], rest)"
  shows "shell_word SingleQuoted (concat (map (\<lambda>c. if c = quote_char then quoted_quote else [c]) v) @ quote_char # rest) = Some (v, rest)"
  by (induction v) (auto simp: assms quoted_quote_def quote_char_def)

text \<open>The shell reads a quoted value as one word, which is the value, whatever characters it holds.\<close>

lemma shell_quote_exact:
  assumes "rest = [] \<or> shell_delimiter (hd rest)"
  shows "shell_word Unquoted (storageShellQuote value @ rest) = Some (value, rest)"
proof -
  have "shell_word Unquoted rest = Some ([], rest)"
    using assms by (cases rest) (auto simp: shell_delimiter_def quote_char_def)
  from quoted_body [OF this] show ?thesis by (simp add: storageShellQuote_def)
qed

lemma checksum_read: "hostDirectoryImportChecksumFromSSHOutput output = c \<Longrightarrow> c = [] \<or> is_checksum c \<and> c \<in> set (Fields output)"
  by (auto simp: hostDirectoryImportChecksumFromSSHOutput_def find_Some_iff in_set_conv_nth rev_nth split: option.splits)
    (metis diff_Suc_less dual_order.strict_trans2 nat_le_linear not_less_zero zero_le)

end
