(* ===== verification/Go_Triples.thy ===== *)
theory Go_Triples
  imports Go_Store
begin

text \<open>
  Pre- and postconditions of procedures. Procedures are total functions, so a triple also says that
  the procedure returns. The postcondition sees the result, an error or a value.
\<close>

definition triple :: "('s \<Rightarrow> bool) \<Rightarrow> ('s, 'e, 'a) proc \<Rightarrow> ('e + 'a \<Rightarrow> 's \<Rightarrow> bool) \<Rightarrow> bool" where
  "triple P m Q \<longleftrightarrow> (\<forall>s r s'. P s \<longrightarrow> m s = (r, s') \<longrightarrow> Q r s')"

lemma tripleI: "(\<And>s r s'. P s \<Longrightarrow> m s = (r, s') \<Longrightarrow> Q r s') \<Longrightarrow> triple P m Q"
  by (auto simp: triple_def)

lemma tripleD: "triple P m Q \<Longrightarrow> P s \<Longrightarrow> m s = (r, s') \<Longrightarrow> Q r s'"
  by (auto simp: triple_def)

lemma triple_conseq:
  "triple P m Q \<Longrightarrow> (\<And>s. P' s \<Longrightarrow> P s) \<Longrightarrow> (\<And>r s. Q r s \<Longrightarrow> Q' r s) \<Longrightarrow> triple P' m Q'"
  unfolding triple_def by blast

lemma triple_post: "triple P m Q \<Longrightarrow> (\<And>r s. Q r s \<Longrightarrow> Q' r s) \<Longrightarrow> triple P m Q'"
  by (rule triple_conseq)

lemma triple_pre: "triple P m Q \<Longrightarrow> (\<And>s. P' s \<Longrightarrow> P s) \<Longrightarrow> triple P' m Q"
  by (rule triple_conseq)

lemma triple_conj: "triple P m Q \<Longrightarrow> triple P' m Q' \<Longrightarrow> triple (\<lambda>s. P s \<and> P' s) m (\<lambda>r s. Q r s \<and> Q' r s)"
  by (auto simp: triple_def)

lemma triple_and: "triple P m Q \<Longrightarrow> triple P m Q' \<Longrightarrow> triple P m (\<lambda>r s. Q r s \<and> Q' r s)"
  by (auto simp: triple_def)

text \<open>A fact that does not depend on the state moves out of the precondition.\<close>

lemma triple_fact: "(b \<Longrightarrow> triple P m Q) \<Longrightarrow> triple (\<lambda>s. P s \<and> b) m Q"
  by (auto simp: triple_def)

lemma triple_ex: "(\<And>x. triple (P x) m Q) \<Longrightarrow> triple (\<lambda>s. \<exists>x. P x s) m Q"
  unfolding triple_def by blast

lemma triple_returnP: "(\<And>s. P s \<Longrightarrow> Q (Inr x) s) \<Longrightarrow> triple P (returnP x) Q"
  by (simp add: triple_def returnP_def)

lemma triple_failP: "(\<And>s. P s \<Longrightarrow> Q (Inl e) s) \<Longrightarrow> triple P (failP e) Q"
  by (simp add: triple_def failP_def)

lemma triple_tryP:
  assumes "triple P m R" and "\<And>r. triple (R r) (f r) Q"
  shows "triple P (tryP m f) Q"
proof (rule tripleI)
  fix s r s'
  assume "P s" and "tryP m f s = (r, s')"
  then obtain q s1 where "m s = (q, s1)" and "f q s1 = (r, s')" by (auto elim: tryP_elim)
  with \<open>P s\<close> show "Q r s'" using assms by (blast dest: tripleD)
qed

lemma triple_bindP:
  assumes "triple P m R" and "\<And>x. triple (R (Inr x)) (f x) Q" and "\<And>e s. R (Inl e) s \<Longrightarrow> Q (Inl e) s"
  shows "triple P (bindP m f) Q"
proof (rule tripleI)
  fix s r s'
  assume "P s" and b: "bindP m f s = (r, s')"
  obtain q s1 where m: "m s = (q, s1)" by (cases "m s")
  with \<open>P s\<close> have "R q s1" using assms(1) by (blast dest: tripleD)
  with b m show "Q r s'" using assms(2,3) by (cases q) (auto simp: bindP_def dest: tripleD)
qed

lemma keep_tryP: "triple S p (\<lambda>_. S) \<Longrightarrow> (\<And>r. triple S (f r) (\<lambda>_. S)) \<Longrightarrow> triple S (tryP p f) (\<lambda>_. S)"
  by (rule triple_tryP)

lemma keep_bindP: "triple S p (\<lambda>_. S) \<Longrightarrow> (\<And>x. triple S (f x) (\<lambda>_. S)) \<Longrightarrow> triple S (bindP p f) (\<lambda>_. S)"
  by (rule triple_bindP)

lemma triple_if:
  "(b \<Longrightarrow> triple P m Q) \<Longrightarrow> (\<not> b \<Longrightarrow> triple P m' Q) \<Longrightarrow> triple P (if b then m else m') Q"
  by simp

lemma triple_sum:
  "(\<And>e. r = Inl e \<Longrightarrow> triple P (f e) Q) \<Longrightarrow> (\<And>x. r = Inr x \<Longrightarrow> triple P (g x) Q) \<Longrightarrow>
   triple P (case r of Inl e \<Rightarrow> f e | Inr x \<Rightarrow> g x) Q"
  by (cases r) auto

lemma triple_option:
  "(x = None \<Longrightarrow> triple P m Q) \<Longrightarrow> (\<And>y. x = Some y \<Longrightarrow> triple P (g y) Q) \<Longrightarrow>
   triple P (case x of None \<Rightarrow> m | Some y \<Rightarrow> g y) Q"
  by (cases x) auto

lemma triple_prod: "(\<And>a b. p = (a, b) \<Longrightarrow> triple P (f a b) Q) \<Longrightarrow> triple P (case p of (a, b) \<Rightarrow> f a b) Q"
  by (cases p) auto

text \<open>A sequence of steps that all keep an invariant keeps it.\<close>

fun foreach :: "('x \<Rightarrow> ('s, 'e, unit) proc) \<Rightarrow> 'x list \<Rightarrow> ('s, 'e, unit) proc" where
  "foreach f [] = returnP ()"
| "foreach f (x # xs) = bindP (f x) (\<lambda>_. foreach f xs)"

lemma triple_foreach:
  assumes "\<And>x. x \<in> set xs \<Longrightarrow> triple I (f x) (\<lambda>_. I)"
  shows "triple I (foreach f xs) (\<lambda>_. I)"
  using assms
proof (induction xs)
  case Nil
  then show ?case by (auto intro: triple_returnP)
next
  case (Cons x xs)
  then show ?case by (auto intro!: triple_bindP [where R = "\<lambda>_. I"])
qed

text \<open>Reads and writes of the stored data.\<close>

lemma triple_db_read:
  assumes "\<And>w. P w \<Longrightarrow> Q (Inl ErrDatabase) (w\<lparr>calls := Suc (calls w)\<rparr>)"
    and "\<And>w. P w \<Longrightarrow> Q (f (db w)) (w\<lparr>calls := Suc (calls w)\<rparr>)"
  shows "triple P (db_read fault f) Q"
  using assms by (auto simp: triple_def db_read_def db_call_def)

lemma triple_db_call:
  assumes "\<And>w. P w \<Longrightarrow> Q (Inl ErrDatabase) (w\<lparr>calls := Suc (calls w)\<rparr>)"
    and "\<And>w r d. P w \<Longrightarrow> f (db w) = (r, d) \<Longrightarrow> Q r (w\<lparr>db := d, calls := Suc (calls w)\<rparr>)"
  shows "triple P (db_call fault f) Q"
  using assms by (auto simp: triple_def db_call_def split: prod.splits)

end
