(* ===== verification/Storage_Model.thy ===== *)
theory Storage_Model
  imports Application_Store Storage_Paths Go_Triples
begin

text \<open>
  The records of the storage component: servers, volume migrations, backups and directory imports
  (\<open>internal/model/pvc.go\<close>, \<open>server.go\<close>) with their operations in \<open>internal/store/infrastructure_repository.go\<close>
  and the record part of \<open>internal/service/storage/service.go\<close>. The texts of errors and progress notes
  are constructors; the text of a note that is only displayed is left out.
\<close>

section \<open>Errors and notes\<close>

text \<open>How a call of the API server fails, as far as the code distinguishes it.\<close>

datatype api_error = ApiNotFound | ApiExists | ApiFailed string

text \<open>Refusals that concern a claim, and those that concern a task.\<close>

datatype claim_refusal =
    ClaimNotOfEnvironment string | ClaimOfInfrastructure string string
  | PVCNameInvalid | PVCNameRequired | PVCStorageInvalid | BindingPodIncomplete | BoundTimeout
  | DeploymentUnmanaged string | DeploymentWithoutClaim string string
  | NamespaceRequired | NamespaceMismatch | NamespaceUnreachable | EnvironmentMissing
  | DeletionMigrating | DeletionReferenced | DeletionUnconfirmed string

datatype task_refusal =
    StorageClientMissing | StoreMissing | ExecutorMissing
  | ClaimChanged | TargetNodeNotReady | ServersNeedKeys | TargetNotOnNode | ReadyTimeout | StopTimeout
  | NotOneDeployment | ClaimUserUnmanaged | ClaimUserUnknown | TemplateBroken
  | ServerNeedsKey string | TargetHasData | UnmanagedUser string
  | ArchiveNoChecksum | ArchiveOutside | ChecksumMissing | ChecksumMismatch | NodeWithoutServer string | ClaimNotLocal

text \<open>The remote command that failed.\<close>

datatype command_step =
  StepServer string | StepTargetPath | StepSource | StepTarget | StepArchive | StepChecksum | StepClear | StepDelete

text \<open>\<open>CallFailed\<close> is \<open>fmt.Errorf("operation: %w", err)\<close>.\<close>

datatype volume_error =
    CallFailed string api_error | ApiDirect api_error | NodeUnavailable api_error
  | ClaimRefused claim_refusal | TaskRefused task_refusal
  | CommandFailed command_step string
  | CopyStart string | CopyBroken nat string string
  | StorageDB db_error | StoragePath path_error

datatype task_note = NoNote | Note string | Failure volume_error

section \<open>Records\<close>

record Server =
  sv_ID :: nat
  sv_Name :: string
  sv_Host :: string
  sv_SSHPort :: int
  sv_SSHUser :: string
  sv_SSHAuthType :: string
  sv_SSHPassword :: string
  sv_SSHKey :: string
  sv_SSHKeyPassphrase :: string
  sv_SSHKeyHash :: string
  sv_ClusterRole :: string
  sv_K8sNodeName :: string
  sv_CreatedAt :: int
  sv_DeletedAt :: "int option"

text \<open>The specifications of all templates of an application, by template; the empty text is \<open>None\<close>.\<close>

type_synonym template_snapshot = "(nat \<times> ReleaseSpec json) list"

record PersistentVolumeMigration =
  vg_ID :: nat
  vg_EnvironmentID :: nat
  vg_ApplicationID :: nat
  vg_SourcePVCName :: string
  vg_TargetPVCName :: string
  vg_SourceNodeName :: string
  vg_TargetNodeName :: string
  vg_SourceDeployment :: string
  vg_SourceReplicas :: int
  vg_Status :: string
  vg_Detail :: task_note
  vg_BytesCopied :: nat
  vg_SourceTemplateSpec :: "template_snapshot json option"
  vg_CompletedAt :: "int option"
  vg_CreatedAt :: int

record PersistentVolumeBackup =
  vb_ID :: nat
  vb_EnvironmentID :: nat
  vb_PVCName :: string
  vb_SourceNodeName :: string
  vb_BackupServerID :: nat
  vb_BackupPath :: string
  vb_Bytes :: nat
  vb_Status :: string
  vb_Detail :: task_note
  vb_RestoreStatus :: string
  vb_RestoreDetail :: task_note
  vb_CreatedBy :: nat
  vb_StartedAt :: "int option"
  vb_CompletedAt :: "int option"
  vb_RestoreStartedAt :: "int option"
  vb_RestoreCompletedAt :: "int option"
  vb_CreatedAt :: int

record HostDirectoryPVCImport =
  vi_ID :: nat
  vi_EnvironmentID :: nat
  vi_PVCName :: string
  vi_SourceServerID :: nat
  vi_SourceNodeName :: string
  vi_SourcePath :: string
  vi_TargetNodeName :: string
  vi_TargetPath :: string
  vi_BackupPath :: string
  vi_BackupChecksum :: string
  vi_TargetBackupPath :: string
  vi_TargetBackupChecksum :: string
  vi_SourceChecksum :: string
  vi_TargetChecksum :: string
  vi_BytesCopied :: nat
  vi_ApplicationReplicas :: "(string \<times> int) list"
  vi_Status :: string
  vi_Detail :: task_note
  vi_VerifiedAt :: "int option"
  vi_BackupDeletedAt :: "int option"
  vi_CreatedBy :: nat
  vi_StartedAt :: "int option"
  vi_CompletedAt :: "int option"
  vi_CreatedAt :: int

definition IsPVCMigrationTerminal :: "string \<Rightarrow> bool" where
  "IsPVCMigrationTerminal status \<longleftrightarrow> status \<in> set [''succeeded'', ''failed'', ''rolled_back'', ''cleaned'']"

definition IsPVCImportTerminal :: "string \<Rightarrow> bool" where
  "IsPVCImportTerminal status \<longleftrightarrow> status = ''succeeded'' \<or> status = ''failed''"

section \<open>Tables\<close>

datatype storage_table = Servers | Migrations | Backups | Imports

record storage_db = workspace_db +
  sd_servers :: "Server list"
  sd_migrations :: "PersistentVolumeMigration list"
  sd_backups :: "PersistentVolumeBackup list"
  sd_imports :: "HostDirectoryPVCImport list"
  sd_seq :: "storage_table \<Rightarrow> nat"

type_synonym ('e, 'a) storage_proc = "(storage_db world, 'e, 'a) proc"

text \<open>An operation on the tables of the workspace, run on all tables.\<close>

definition on_workspace :: "('e, 'a) workspace_proc \<Rightarrow> ('e, 'a) storage_proc" where
  "on_workspace m w =
     (case m \<lparr>db = workspace_db.truncate (db w), calls = calls w\<rparr> of
        (r, w') \<Rightarrow> (r, \<lparr>db = workspace_db.extend (db w') (workspace_db.more (db w)), calls = calls w'\<rparr>))"

definition storage_id :: "storage_db \<Rightarrow> storage_table \<Rightarrow> nat \<Rightarrow> nat" where
  "storage_id d tab i = (if i = 0 then Suc (sd_seq d tab) else i)"

definition note_storage_id :: "storage_table \<Rightarrow> nat \<Rightarrow> storage_db \<Rightarrow> storage_db" where
  "note_storage_id tab i d = d\<lparr>sd_seq := (sd_seq d)(tab := max (sd_seq d tab) i)\<rparr>"

definition GetEnvironmentByID :: "(nat \<Rightarrow> bool) \<Rightarrow> nat \<Rightarrow> (db_error, Environment) storage_proc" where
  "GetEnvironmentByID fault environmentID = db_read fault (\<lambda>d. found (tbl_find en_ID environmentID (wd_environments d)))"

subsection \<open>Servers\<close>

text \<open>A deleted server keeps its row, and its host stays taken.\<close>

definition live_servers :: "storage_db \<Rightarrow> Server list" where
  "live_servers d = filter (\<lambda>s. sv_DeletedAt s = None) (sd_servers d)"

definition insert_server :: "int \<Rightarrow> Server \<Rightarrow> storage_db \<Rightarrow> (db_error + Server) \<times> storage_db" where
  "insert_server now server d =
     (let row = server\<lparr>sv_ID := storage_id d Servers (sv_ID server),
            sv_SSHPort := (if sv_SSHPort server = 0 then 22 else sv_SSHPort server),
            sv_CreatedAt := created_at now (sv_CreatedAt server)\<rparr> in
      if list_ex (\<lambda>s. sv_ID s = sv_ID row \<or> sv_Host s = sv_Host row) (sd_servers d) then (Inl ErrConstraint, d)
      else (Inr row, note_storage_id Servers (sv_ID row) (d\<lparr>sd_servers := sd_servers d @ [row]\<rparr>)))"

definition CreateServer :: "(nat \<Rightarrow> bool) \<Rightarrow> int \<Rightarrow> Server \<Rightarrow> (db_error, Server) storage_proc" where
  "CreateServer fault now server = db_call fault (insert_server now server)"

definition GetServer :: "(nat \<Rightarrow> bool) \<Rightarrow> nat \<Rightarrow> (db_error, Server) storage_proc" where
  "GetServer fault i = db_read fault (\<lambda>d. found (tbl_find sv_ID i (live_servers d)))"

definition GetServerByHost :: "(nat \<Rightarrow> bool) \<Rightarrow> string \<Rightarrow> (db_error, Server) storage_proc" where
  "GetServerByHost fault host = db_read fault (\<lambda>d. found (find (\<lambda>s. sv_Host s = host) (sort_key sv_ID (live_servers d))))"

definition ListServers :: "(nat \<Rightarrow> bool) \<Rightarrow> (db_error, Server list) storage_proc" where
  "ListServers fault = db_read fault (\<lambda>d. Inr (rev (sort_key sv_CreatedAt (live_servers d))))"

definition UpdateServer :: "(nat \<Rightarrow> bool) \<Rightarrow> int \<Rightarrow> Server \<Rightarrow> (db_error, Server) storage_proc" where
  "UpdateServer fault now server =
     (if sv_ID server = 0 then CreateServer fault now server
      else db_call fault (\<lambda>d.
        if list_ex (\<lambda>s. sv_ID s \<noteq> sv_ID server \<and> sv_Host s = sv_Host server) (sd_servers d) then (Inl ErrConstraint, d)
        else (Inr server, note_storage_id Servers (sv_ID server) (d\<lparr>sd_servers := tbl_save sv_ID server (sd_servers d)\<rparr>))))"

definition UnbindServersFromClusterNode :: "(nat \<Rightarrow> bool) \<Rightarrow> string \<Rightarrow> (db_error, unit) storage_proc" where
  "UnbindServersFromClusterNode fault nodeName = db_write fault (\<lambda>d. d\<lparr>sd_servers :=
     map (\<lambda>s. if sv_DeletedAt s = None \<and> sv_K8sNodeName s = nodeName then s\<lparr>sv_ClusterRole := [], sv_K8sNodeName := []\<rparr> else s)
       (sd_servers d)\<rparr>)"

definition DeleteServer :: "(nat \<Rightarrow> bool) \<Rightarrow> int \<Rightarrow> nat \<Rightarrow> (db_error, unit) storage_proc" where
  "DeleteServer fault now i = db_write fault (\<lambda>d. d\<lparr>sd_servers :=
     map (\<lambda>s. if sv_DeletedAt s = None \<and> sv_ID s = i then s\<lparr>sv_DeletedAt := Some now\<rparr> else s) (sd_servers d)\<rparr>)"

subsection \<open>Migrations\<close>

definition insert_migration ::
  "int \<Rightarrow> PersistentVolumeMigration \<Rightarrow> storage_db \<Rightarrow> (db_error + PersistentVolumeMigration) \<times> storage_db" where
  "insert_migration now m d =
     (let row = m\<lparr>vg_ID := storage_id d Migrations (vg_ID m), vg_CreatedAt := created_at now (vg_CreatedAt m)\<rparr> in
      if list_ex (\<lambda>x. vg_ID x = vg_ID row) (sd_migrations d) then (Inl ErrConstraint, d)
      else (Inr row, note_storage_id Migrations (vg_ID row) (d\<lparr>sd_migrations := sd_migrations d @ [row]\<rparr>)))"

definition CreatePersistentVolumeMigration ::
  "(nat \<Rightarrow> bool) \<Rightarrow> int \<Rightarrow> PersistentVolumeMigration \<Rightarrow> (db_error, PersistentVolumeMigration) storage_proc" where
  "CreatePersistentVolumeMigration fault now m = db_call fault (insert_migration now m)"

definition GetPersistentVolumeMigration :: "(nat \<Rightarrow> bool) \<Rightarrow> nat \<Rightarrow> (db_error, PersistentVolumeMigration) storage_proc" where
  "GetPersistentVolumeMigration fault i = db_read fault (\<lambda>d. found (tbl_find vg_ID i (sd_migrations d)))"

definition ListPersistentVolumeMigrations ::
  "(nat \<Rightarrow> bool) \<Rightarrow> nat \<Rightarrow> (db_error, PersistentVolumeMigration list) storage_proc" where
  "ListPersistentVolumeMigrations fault environmentID = db_read fault (\<lambda>d.
     Inr (rev (sort_key vg_CreatedAt (filter (\<lambda>m. environmentID \<noteq> 0 \<longrightarrow> vg_EnvironmentID m = environmentID) (sd_migrations d)))))"

definition FindActivePVCMigration ::
  "(nat \<Rightarrow> bool) \<Rightarrow> nat \<Rightarrow> string \<Rightarrow> (db_error, PersistentVolumeMigration) storage_proc" where
  "FindActivePVCMigration fault environmentID sourcePVCName = db_read fault (\<lambda>d.
     found (find (\<lambda>m. vg_EnvironmentID m = environmentID \<and> vg_SourcePVCName m = sourcePVCName \<and>
              vg_Status m \<notin> set [''succeeded'', ''failed'', ''rolled_back'', ''cleaned''])
       (rev (sort_key vg_CreatedAt (sd_migrations d)))))"

text \<open>The row in memory changes even if it cannot be stored.\<close>

definition stamp_migration :: "int \<Rightarrow> PersistentVolumeMigration \<Rightarrow> string \<Rightarrow> task_note \<Rightarrow> PersistentVolumeMigration" where
  "stamp_migration now m status detail =
     m\<lparr>vg_Status := status, vg_Detail := detail,
       vg_CompletedAt := (if IsPVCMigrationTerminal status then Some now else vg_CompletedAt m)\<rparr>"

definition save_migration :: "(nat \<Rightarrow> bool) \<Rightarrow> int \<Rightarrow> PersistentVolumeMigration \<Rightarrow> (db_error, PersistentVolumeMigration) storage_proc" where
  "save_migration fault now m =
     (if vg_ID m = 0 then CreatePersistentVolumeMigration fault now m
      else db_call fault (\<lambda>d. (Inr m, note_storage_id Migrations (vg_ID m) (d\<lparr>sd_migrations := tbl_save vg_ID m (sd_migrations d)\<rparr>))))"

definition UpdatePersistentVolumeMigration ::
  "(nat \<Rightarrow> bool) \<Rightarrow> int \<Rightarrow> PersistentVolumeMigration \<Rightarrow> string \<Rightarrow> task_note \<Rightarrow> (db_error, PersistentVolumeMigration) storage_proc" where
  "UpdatePersistentVolumeMigration fault now m status detail = save_migration fault now (stamp_migration now m status detail)"

subsection \<open>Backups\<close>

definition CreatePersistentVolumeBackup ::
  "(nat \<Rightarrow> bool) \<Rightarrow> int \<Rightarrow> PersistentVolumeBackup \<Rightarrow> (db_error, PersistentVolumeBackup) storage_proc" where
  "CreatePersistentVolumeBackup fault now b = db_call fault (\<lambda>d.
     let row = b\<lparr>vb_ID := storage_id d Backups (vb_ID b), vb_CreatedAt := created_at now (vb_CreatedAt b)\<rparr> in
     if list_ex (\<lambda>x. vb_ID x = vb_ID row) (sd_backups d) then (Inl ErrConstraint, d)
     else (Inr row, note_storage_id Backups (vb_ID row) (d\<lparr>sd_backups := sd_backups d @ [row]\<rparr>)))"

definition GetPersistentVolumeBackup :: "(nat \<Rightarrow> bool) \<Rightarrow> nat \<Rightarrow> (db_error, PersistentVolumeBackup) storage_proc" where
  "GetPersistentVolumeBackup fault i = db_read fault (\<lambda>d. found (tbl_find vb_ID i (sd_backups d)))"

definition ListPersistentVolumeBackups ::
  "(nat \<Rightarrow> bool) \<Rightarrow> nat \<Rightarrow> string \<Rightarrow> (db_error, PersistentVolumeBackup list) storage_proc" where
  "ListPersistentVolumeBackups fault environmentID pvcName = db_read fault (\<lambda>d.
     Inr (rev (sort_key vb_CreatedAt (filter (\<lambda>b. vb_EnvironmentID b = environmentID \<and> vb_PVCName b = pvcName) (sd_backups d)))))"

definition UpdatePersistentVolumeBackup ::
  "(nat \<Rightarrow> bool) \<Rightarrow> int \<Rightarrow> PersistentVolumeBackup \<Rightarrow> (db_error, PersistentVolumeBackup) storage_proc" where
  "UpdatePersistentVolumeBackup fault now b =
     (if vb_ID b = 0 then CreatePersistentVolumeBackup fault now b
      else db_call fault (\<lambda>d. (Inr b, note_storage_id Backups (vb_ID b) (d\<lparr>sd_backups := tbl_save vb_ID b (sd_backups d)\<rparr>))))"

subsection \<open>Imports\<close>

definition CreateHostDirectoryPVCImport ::
  "(nat \<Rightarrow> bool) \<Rightarrow> int \<Rightarrow> HostDirectoryPVCImport \<Rightarrow> (db_error, HostDirectoryPVCImport) storage_proc" where
  "CreateHostDirectoryPVCImport fault now t = db_call fault (\<lambda>d.
     let row = t\<lparr>vi_ID := storage_id d Imports (vi_ID t), vi_CreatedAt := created_at now (vi_CreatedAt t)\<rparr> in
     if list_ex (\<lambda>x. vi_ID x = vi_ID row) (sd_imports d) then (Inl ErrConstraint, d)
     else (Inr row, note_storage_id Imports (vi_ID row) (d\<lparr>sd_imports := sd_imports d @ [row]\<rparr>)))"

definition GetHostDirectoryPVCImport :: "(nat \<Rightarrow> bool) \<Rightarrow> nat \<Rightarrow> (db_error, HostDirectoryPVCImport) storage_proc" where
  "GetHostDirectoryPVCImport fault i = db_read fault (\<lambda>d. found (tbl_find vi_ID i (sd_imports d)))"

definition ListHostDirectoryPVCImports ::
  "(nat \<Rightarrow> bool) \<Rightarrow> nat \<Rightarrow> string \<Rightarrow> (db_error, HostDirectoryPVCImport list) storage_proc" where
  "ListHostDirectoryPVCImports fault environmentID pvcName = db_read fault (\<lambda>d.
     Inr (rev (sort_key vi_CreatedAt (filter (\<lambda>t. vi_EnvironmentID t = environmentID \<and> vi_PVCName t = pvcName) (sd_imports d)))))"

definition FindActiveHostDirectoryPVCImport ::
  "(nat \<Rightarrow> bool) \<Rightarrow> nat \<Rightarrow> string \<Rightarrow> (db_error, HostDirectoryPVCImport) storage_proc" where
  "FindActiveHostDirectoryPVCImport fault environmentID pvcName = db_read fault (\<lambda>d.
     found (find (\<lambda>t. vi_EnvironmentID t = environmentID \<and> vi_PVCName t = pvcName \<and> vi_Status t \<notin> set [''succeeded'', ''failed''])
       (rev (sort_key vi_CreatedAt (sd_imports d)))))"

definition stamp_import :: "int \<Rightarrow> HostDirectoryPVCImport \<Rightarrow> string \<Rightarrow> task_note \<Rightarrow> HostDirectoryPVCImport" where
  "stamp_import now t status detail =
     t\<lparr>vi_Status := status, vi_Detail := detail,
       vi_CompletedAt := (if IsPVCImportTerminal status \<and> vi_CompletedAt t = None then Some now else vi_CompletedAt t)\<rparr>"

definition save_import :: "(nat \<Rightarrow> bool) \<Rightarrow> int \<Rightarrow> HostDirectoryPVCImport \<Rightarrow> (db_error, HostDirectoryPVCImport) storage_proc" where
  "save_import fault now t =
     (if vi_ID t = 0 then CreateHostDirectoryPVCImport fault now t
      else db_call fault (\<lambda>d. (Inr t, note_storage_id Imports (vi_ID t) (d\<lparr>sd_imports := tbl_save vi_ID t (sd_imports d)\<rparr>))))"

definition UpdateHostDirectoryPVCImport ::
  "(nat \<Rightarrow> bool) \<Rightarrow> int \<Rightarrow> HostDirectoryPVCImport \<Rightarrow> string \<Rightarrow> task_note \<Rightarrow> (db_error, HostDirectoryPVCImport) storage_proc" where
  "UpdateHostDirectoryPVCImport fault now t status detail = save_import fault now (stamp_import now t status detail)"

end
