(* ===== verification/Storage_Cluster.thy ===== *)
theory Storage_Cluster
  imports Storage_Model Security_Crypto
begin

text \<open>
  What the storage component asks of the cluster and of the servers: \<open>internal/k8s/pvc.go\<close>, the scaling and
  listing functions of \<open>internal/k8s/workload.go\<close> and \<open>internal/transport/ssh.go\<close>.

  The API server and the remote shells are parameters that answer each call from all calls before it, so
  that they may behave in any way, fail at any time and change in between. A procedure works on the stored
  data and on the trace of its calls.
\<close>

section \<open>Objects\<close>

text \<open>A quantity is its canonical text; the capacity is \<open>None\<close> when it is zero.\<close>

record VolumeClaim =
  pv_Name :: string
  pv_Namespace :: string
  pv_Labels :: "string gomap"
  pv_Phase :: string
  pv_StorageClassName :: "string option"
  pv_VolumeName :: string
  pv_Capacity :: "string option"
  pv_Requested :: string
  pv_AccessModes :: "string list"
  pv_CreatedAt :: string

record StorageClass =
  sc_Name :: string
  sc_Provisioner :: string
  sc_Annotations :: "string gomap"
  sc_VolumeBindingMode :: "string option"
  sc_ReclaimPolicy :: "string option"

text \<open>The required terms of the node affinity: per term its expressions of key, operator and values.\<close>

record PersistentVolume =
  vo_Name :: string
  vo_ReclaimPolicy :: string
  vo_Terms :: "(string \<times> string \<times> string list) list list option"
  vo_HostPath :: "string option"
  vo_Local :: "string option"

record BindingPod =
  bp_Name :: string
  bp_Namespace :: string
  bp_Labels :: "string gomap"
  bp_NodeSelector :: "string gomap"
  bp_Image :: string
  bp_ClaimName :: string

text \<open>A Deployment or StatefulSet; a volume without a claim has \<open>None\<close>, a nil replica count is \<open>None\<close>.\<close>

record VolumeWorkload =
  dy_Name :: string
  dy_Namespace :: string
  dy_Labels :: "string gomap"
  dy_Volumes :: "(string \<times> string option) list"
  dy_NodeSelector :: "string gomap"
  dy_Replicas :: "int option"
  dy_Selector :: string
  dy_AvailableReplicas :: int
  dy_ResourceVersion :: string

record PersistentVolumeClaimRequest =
  vq_Name :: string
  vq_Storage :: string
  vq_StorageClassName :: string

record PersistentVolumeClaimInfo =
  ci_Name :: string
  ci_Namespace :: string
  ci_Managed :: bool
  ci_EnvironmentID :: nat
  ci_OwnerType :: string
  ci_Owner :: string
  ci_ReadOnly :: bool
  ci_Phase :: string
  ci_Storage :: string
  ci_StorageClassName :: string
  ci_VolumeName :: string
  ci_AccessModes :: "string list"
  ci_BoundNode :: string
  ci_LocalPath :: string
  ci_IsLocal :: bool
  ci_ReclaimPolicy :: string
  ci_WaitForFirstConsumer :: bool
  ci_CreationTimestamp :: string

record StorageClassInfo =
  si_Name :: string
  si_Provisioner :: string
  si_IsDefault :: bool
  si_VolumeBindingMode :: string
  si_ReclaimPolicy :: string

section \<open>Calls\<close>

text \<open>The outcome of the two piped commands of \<open>streamPVCData\<close>: bytes copied, error and output of each side.\<close>

datatype stream_run =
    PipeFailed string | TargetStart string | SourceStart string
  | StreamRan nat "string option" string "string option" string

datatype volume_event =
    VGetClaim string string
  | VListClaims string string
  | VCreateClaim VolumeClaim
  | VDeleteClaim string string
  | VGetClass string | VListClasses | VGetVolume string | VListVolumes | VGetNode string | VGetNamespace string
  | VCreatePod BindingPod | VGetPod string string | VDeletePod string string
  | VGetDeployment string string "api_error + VolumeWorkload"
  | VUpdateDeployment VolumeWorkload "api_error option"
  | VListDeployments string | VListStatefulSets string
  | VListPods string string "api_error + nat"
  | VCommand Server string "bool \<times> string"
  | VStream Server Server string string bool

record volume_api =
  va_get_claim :: "volume_event list \<Rightarrow> string \<Rightarrow> string \<Rightarrow> api_error + VolumeClaim"
  va_list_claims :: "volume_event list \<Rightarrow> string \<Rightarrow> string \<Rightarrow> api_error + VolumeClaim list"
  va_create_claim :: "volume_event list \<Rightarrow> VolumeClaim \<Rightarrow> api_error + VolumeClaim"
  va_delete_claim :: "volume_event list \<Rightarrow> string \<Rightarrow> string \<Rightarrow> api_error option"
  va_get_class :: "volume_event list \<Rightarrow> string \<Rightarrow> api_error + StorageClass"
  va_list_classes :: "volume_event list \<Rightarrow> api_error + StorageClass list"
  va_get_volume :: "volume_event list \<Rightarrow> string \<Rightarrow> api_error + PersistentVolume"
  va_list_volumes :: "volume_event list \<Rightarrow> api_error + PersistentVolume list"
  va_get_node :: "volume_event list \<Rightarrow> string \<Rightarrow> api_error + (string \<times> string) list"
  va_get_namespace :: "volume_event list \<Rightarrow> string \<Rightarrow> api_error option"
  va_create_pod :: "volume_event list \<Rightarrow> BindingPod \<Rightarrow> api_error option"
  va_get_pod :: "volume_event list \<Rightarrow> string \<Rightarrow> string \<Rightarrow> api_error option"
  va_delete_pod :: "volume_event list \<Rightarrow> string \<Rightarrow> string \<Rightarrow> api_error option"
  va_get_deployment :: "volume_event list \<Rightarrow> string \<Rightarrow> string \<Rightarrow> api_error + VolumeWorkload"
  va_update_deployment :: "volume_event list \<Rightarrow> VolumeWorkload \<Rightarrow> api_error option"
  va_list_deployments :: "volume_event list \<Rightarrow> string \<Rightarrow> api_error + VolumeWorkload list"
  va_list_statefulsets :: "volume_event list \<Rightarrow> string \<Rightarrow> api_error + VolumeWorkload list"
  va_list_pods :: "volume_event list \<Rightarrow> string \<Rightarrow> string \<Rightarrow> api_error + nat"

text \<open>
  The surroundings of the component: database failures, the clock at each database call, the API server,
  the checks of the Kubernetes library, the remote shell (success and combined output), the piped copy,
  whether a deadline has passed, the decryption of SSH keys and the order in which a loop over a map visits
  its entries.
\<close>

record storage_env =
  ev_fault :: "nat \<Rightarrow> bool"
  ev_now :: "nat \<Rightarrow> int"
  ev_api :: volume_api
  ev_IsDNS1123Label :: "string \<Rightarrow> bool"
  ev_ParseQuantity :: "string \<Rightarrow> (bool \<times> string) option"
  ev_ssh :: "volume_event list \<Rightarrow> string list \<Rightarrow> bool \<times> string"
  ev_stream :: "volume_event list \<Rightarrow> string list \<Rightarrow> string list \<Rightarrow> stream_run"
  ev_done :: "volume_event list \<Rightarrow> bool"
  ev_aead :: aead
  ev_encKey :: string
  ev_key_file :: "nat \<Rightarrow> string \<Rightarrow> bool"
  ev_order :: "(string \<times> int) list \<Rightarrow> (string \<times> int) list"

record storage_state =
  st_world :: "storage_db world"
  st_trace :: "volume_event list"

type_synonym ('e, 'a) volume_proc = "(storage_state, 'e, 'a) proc"

definition on_db :: "('e, 'a) storage_proc \<Rightarrow> ('e, 'a) volume_proc" where
  "on_db m s = (case m (st_world s) of (r, w) \<Rightarrow> (r, s\<lparr>st_world := w\<rparr>))"

text \<open>A call that is answered from the trace and then recorded, with what was asked or answered.\<close>

definition call :: "(volume_event list \<Rightarrow> 'r) \<Rightarrow> ('r \<Rightarrow> volume_event) \<Rightarrow> ('r \<Rightarrow> 'e + 'a) \<Rightarrow> ('e, 'a) volume_proc" where
  "call ask event result s =
     (let r = ask (st_trace s) in (result r, s\<lparr>st_trace := st_trace s @ [event r]\<rparr>))"

definition wrap_error :: "('x \<Rightarrow> 'e) \<Rightarrow> 'x + 'a \<Rightarrow> 'e + 'a" where
  "wrap_error f r = map_sum f id r"

definition of_option :: "('x \<Rightarrow> 'e) \<Rightarrow> 'x option \<Rightarrow> 'e + unit" where
  "of_option f x = (case x of None \<Rightarrow> Inr () | Some e \<Rightarrow> Inl (f e))"

section \<open>Claims\<close>

definition EnvironmentLabelValue :: "nat \<Rightarrow> string" where
  "EnvironmentLabelValue environmentID = ''environment-'' @ show_nat environmentID"

definition InfrastructureLabel :: string where "InfrastructureLabel = ''cylism.io/infrastructure''"

definition label :: "string gomap \<Rightarrow> string \<Rightarrow> string" where
  "label m k = (case map_of m k of None \<Rightarrow> [] | Some v \<Rightarrow> v)"

definition managedPVCEnvironmentID :: "VolumeClaim \<Rightarrow> bool \<times> nat" where
  "managedPVCEnvironmentID claim =
     (if label (pv_Labels claim) ManagedByLabel \<noteq> ManagedByValue then (False, 0)
      else let env = label (pv_Labels claim) EnvironmentLabel; value = TrimPrefix env ''environment-'' in
        if value = [] \<or> value = env then (True, 0)
        else (case ParseUint64 value of None \<Rightarrow> (True, 0) | Some i \<Rightarrow> (True, i)))"

definition isManagedPVC :: "VolumeClaim \<Rightarrow> nat \<Rightarrow> bool" where
  "isManagedPVC claim environmentID =
     (case managedPVCEnvironmentID claim of (managed, i) \<Rightarrow> managed \<and> (i = environmentID \<or> i = 0))"

definition infrastructurePVCOwner :: "VolumeClaim \<Rightarrow> string" where
  "infrastructurePVCOwner claim =
     (if label (pv_Labels claim) ManagedByLabel \<noteq> ManagedByValue then []
      else if pv_Namespace claim = ''cylism-system'' \<and> pv_Name claim = ''cylism-oci-registry-data'' then ''oci-registry''
      else let owner = label (pv_Labels claim) InfrastructureLabel in
        if owner \<in> set [''alertmanager'', ''victoria-metrics'', ''loki'', ''agent-runtime''] then owner else [])"

definition valueOrEmpty :: "string option \<Rightarrow> string" where
  "valueOrEmpty v = (case v of None \<Rightarrow> [] | Some x \<Rightarrow> x)"

definition hostname_label :: string where "hostname_label = ''kubernetes.io/hostname''"

definition persistentVolumeNodeName :: "PersistentVolume \<Rightarrow> string" where
  "persistentVolumeNodeName volume =
     (case vo_Terms volume of
        None \<Rightarrow> []
      | Some terms \<Rightarrow>
          (case find (\<lambda>(key, operator, vals). key = hostname_label \<and> operator = ''In'' \<and> length vals = 1) (concat terms) of
             None \<Rightarrow> [] | Some (_, _, vals) \<Rightarrow> hd vals))"

definition persistentVolumeLocalPath :: "PersistentVolume \<Rightarrow> string \<times> bool" where
  "persistentVolumeLocalPath volume =
     (case vo_HostPath volume of
        Some p \<Rightarrow> if TrimSpace p \<noteq> [] then (p, True)
          else (case vo_Local volume of Some q \<Rightarrow> if TrimSpace q \<noteq> [] then (q, True) else ([], False) | None \<Rightarrow> ([], False))
      | None \<Rightarrow> (case vo_Local volume of Some q \<Rightarrow> if TrimSpace q \<noteq> [] then (q, True) else ([], False) | None \<Rightarrow> ([], False)))"

definition pvcInfoFromResources ::
  "VolumeClaim \<Rightarrow> StorageClass option \<Rightarrow> PersistentVolume option \<Rightarrow> PersistentVolumeClaimInfo" where
  "pvcInfoFromResources claim storageClass volume =
     (let owner = infrastructurePVCOwner claim; managed = fst (managedPVCEnvironmentID claim);
          local_path = (case volume of None \<Rightarrow> ([], False) | Some v \<Rightarrow> persistentVolumeLocalPath v) in
      \<lparr>ci_Name = pv_Name claim, ci_Namespace = pv_Namespace claim, ci_Managed = managed,
       ci_EnvironmentID = snd (managedPVCEnvironmentID claim),
       ci_OwnerType = (if owner \<noteq> [] then ''infrastructure'' else if managed then ''application'' else ''external''),
       ci_Owner = owner, ci_ReadOnly = (owner \<noteq> []), ci_Phase = pv_Phase claim,
       ci_Storage = (case pv_Capacity claim of Some q \<Rightarrow> q | None \<Rightarrow> pv_Requested claim),
       ci_StorageClassName = valueOrEmpty (pv_StorageClassName claim), ci_VolumeName = pv_VolumeName claim,
       ci_AccessModes = pv_AccessModes claim,
       ci_BoundNode = (case volume of None \<Rightarrow> [] | Some v \<Rightarrow> persistentVolumeNodeName v),
       ci_LocalPath = fst local_path, ci_IsLocal = snd local_path,
       ci_ReclaimPolicy = (case volume of None \<Rightarrow> [] | Some v \<Rightarrow> vo_ReclaimPolicy v),
       ci_WaitForFirstConsumer =
         (case storageClass of None \<Rightarrow> False | Some c \<Rightarrow> sc_VolumeBindingMode c = Some ''WaitForFirstConsumer''),
       ci_CreationTimestamp = pv_CreatedAt claim\<rparr>)"

text \<open>A class or volume that is named but not found is left out.\<close>

definition optional_get ::
  "(volume_event list \<Rightarrow> string \<Rightarrow> api_error + 'x) \<Rightarrow> (string \<Rightarrow> volume_event) \<Rightarrow> string \<Rightarrow> string \<Rightarrow>
   (volume_error, 'x option) volume_proc" where
  "optional_get get event operation name =
     (if name = [] then returnP None
      else call (\<lambda>t. get t name) (\<lambda>_. event name) (\<lambda>r. case r of
        Inr x \<Rightarrow> Inr (Some x)
      | Inl ApiNotFound \<Rightarrow> Inr None
      | Inl e \<Rightarrow> Inl (CallFailed (operation @ name) e)))"

definition pvcInfo :: "storage_env \<Rightarrow> VolumeClaim \<Rightarrow> (volume_error, PersistentVolumeClaimInfo) volume_proc" where
  "pvcInfo env claim =
     bindP (optional_get (va_get_class (ev_api env)) VGetClass ''get storageclass '' (valueOrEmpty (pv_StorageClassName claim))) (\<lambda>storageClass.
     bindP (optional_get (va_get_volume (ev_api env)) VGetVolume ''get persistentvolume '' (pv_VolumeName claim)) (\<lambda>volume.
       returnP (pvcInfoFromResources claim storageClass volume)))"

definition get_claim :: "storage_env \<Rightarrow> string \<Rightarrow> string \<Rightarrow> (volume_error, VolumeClaim) volume_proc" where
  "get_claim env namespace name =
     call (\<lambda>t. va_get_claim (ev_api env) t namespace name) (\<lambda>_. VGetClaim namespace name)
       (wrap_error (CallFailed (''get persistentvolumeclaim '' @ namespace @ ''/'' @ name)))"

definition GetManagedPVCContext ::
  "storage_env \<Rightarrow> string \<Rightarrow> string \<Rightarrow> nat \<Rightarrow> (volume_error, PersistentVolumeClaimInfo) volume_proc" where
  "GetManagedPVCContext env namespace name environmentID =
     bindP (get_claim env namespace name) (\<lambda>claim.
       if \<not> isManagedPVC claim environmentID then failP (ClaimRefused (ClaimNotOfEnvironment name))
       else if infrastructurePVCOwner claim \<noteq> [] then failP (ClaimRefused (ClaimOfInfrastructure name (infrastructurePVCOwner claim)))
       else pvcInfo env claim)"

definition GetPVCInfoContext :: "storage_env \<Rightarrow> string \<Rightarrow> string \<Rightarrow> (volume_error, PersistentVolumeClaimInfo) volume_proc" where
  "GetPVCInfoContext env namespace name = bindP (get_claim env namespace name) (pvcInfo env)"

text \<open>The maps by name keep the last of several entries.\<close>

definition by_name :: "('x \<Rightarrow> string) \<Rightarrow> 'x list \<Rightarrow> string \<Rightarrow> 'x option" where
  "by_name key xs name = find (\<lambda>x. key x = name) (rev xs)"

definition pvcInfos :: "storage_env \<Rightarrow> VolumeClaim list \<Rightarrow> (volume_error, PersistentVolumeClaimInfo list) volume_proc" where
  "pvcInfos env claims =
     (if claims = [] then returnP []
      else bindP (call (va_list_classes (ev_api env)) (\<lambda>_. VListClasses) (wrap_error (CallFailed ''list storageclasses''))) (\<lambda>classes.
        bindP (call (va_list_volumes (ev_api env)) (\<lambda>_. VListVolumes) (wrap_error (CallFailed ''list persistentvolumes''))) (\<lambda>volumes.
          returnP (map (\<lambda>c. pvcInfoFromResources c (by_name sc_Name classes (valueOrEmpty (pv_StorageClassName c)))
            (by_name vo_Name volumes (pv_VolumeName c))) claims))))"

definition list_claims :: "storage_env \<Rightarrow> string \<Rightarrow> string \<Rightarrow> (volume_error, VolumeClaim list) volume_proc" where
  "list_claims env namespace selector =
     call (\<lambda>t. va_list_claims (ev_api env) t namespace selector) (\<lambda>_. VListClaims namespace selector)
       (wrap_error (CallFailed ''list persistentvolumeclaims''))"

definition ListManagedPVCsContext ::
  "storage_env \<Rightarrow> string \<Rightarrow> nat \<Rightarrow> (volume_error, PersistentVolumeClaimInfo list) volume_proc" where
  "ListManagedPVCsContext env namespace environmentID =
     bindP (list_claims env namespace (ManagedByLabel @ ''='' @ ManagedByValue)) (\<lambda>claims.
     bindP (pvcInfos env (filter (\<lambda>c. isManagedPVC c environmentID) claims)) (\<lambda>infos.
       returnP (sort_key ci_Name infos)))"

definition ListPVCsContext :: "storage_env \<Rightarrow> string \<Rightarrow> (volume_error, PersistentVolumeClaimInfo list) volume_proc" where
  "ListPVCsContext env namespace =
     bindP (list_claims env namespace []) (\<lambda>claims.
     bindP (pvcInfos env claims) (\<lambda>infos. returnP (sort_key (\<lambda>c. (ci_Namespace c, ci_Name c)) infos)))"

definition new_claim :: "string \<Rightarrow> nat \<Rightarrow> PersistentVolumeClaimRequest \<Rightarrow> string \<Rightarrow> VolumeClaim" where
  "new_claim namespace environmentID request quantity =
     \<lparr>pv_Name = TrimSpace (vq_Name request), pv_Namespace = namespace,
      pv_Labels = (ManagedByLabel, ManagedByValue) #
        (if environmentID \<noteq> 0 then [(EnvironmentLabel, EnvironmentLabelValue environmentID)] else []),
      pv_Phase = [], pv_StorageClassName = (let c = TrimSpace (vq_StorageClassName request) in if c = [] then None else Some c),
      pv_VolumeName = [], pv_Capacity = None, pv_Requested = quantity, pv_AccessModes = [''ReadWriteOnce''], pv_CreatedAt = []\<rparr>"

definition CreateManagedPVCContext ::
  "storage_env \<Rightarrow> string \<Rightarrow> nat \<Rightarrow> PersistentVolumeClaimRequest \<Rightarrow> (volume_error, VolumeClaim) volume_proc" where
  "CreateManagedPVCContext env namespace environmentID request =
     (let name = TrimSpace (vq_Name request) in
      if name = [] \<or> \<not> ev_IsDNS1123Label env name then failP (ClaimRefused PVCNameInvalid)
      else case ev_ParseQuantity env (TrimSpace (vq_Storage request)) of
        None \<Rightarrow> failP (ClaimRefused PVCStorageInvalid)
      | Some (positive, quantity) \<Rightarrow>
          if \<not> positive then failP (ClaimRefused PVCStorageInvalid)
          else let claim = new_claim namespace environmentID request quantity in
            call (\<lambda>t. va_create_claim (ev_api env) t claim) (\<lambda>_. VCreateClaim claim)
              (wrap_error (CallFailed ''create persistentvolumeclaim'')))"

definition DeleteManagedPVCContext :: "storage_env \<Rightarrow> string \<Rightarrow> string \<Rightarrow> nat \<Rightarrow> (volume_error, unit) volume_proc" where
  "DeleteManagedPVCContext env namespace name environmentID =
     bindP (get_claim env namespace name) (\<lambda>claim.
       if \<not> isManagedPVC claim environmentID then failP (ClaimRefused (ClaimNotOfEnvironment name))
       else if infrastructurePVCOwner claim \<noteq> [] then failP (ClaimRefused (ClaimOfInfrastructure name (infrastructurePVCOwner claim)))
       else call (\<lambda>t. va_delete_claim (ev_api env) t namespace name) (\<lambda>_. VDeleteClaim namespace name)
         (of_option (CallFailed ''delete persistentvolumeclaim'')))"

definition default_class :: "StorageClass \<Rightarrow> bool" where
  "default_class c \<longleftrightarrow> label (sc_Annotations c) ''storageclass.kubernetes.io/is-default-class'' = ''true'' \<or>
     label (sc_Annotations c) ''storageclass.beta.kubernetes.io/is-default-class'' = ''true''"

definition ListStorageClassesContext :: "storage_env \<Rightarrow> (volume_error, StorageClassInfo list) volume_proc" where
  "ListStorageClassesContext env =
     bindP (call (va_list_classes (ev_api env)) (\<lambda>_. VListClasses) (wrap_error (CallFailed ''list storageclasses''))) (\<lambda>classes.
       returnP (sort_key (\<lambda>c. (\<not> si_IsDefault c, si_Name c))
         (map (\<lambda>c. \<lparr>si_Name = sc_Name c, si_Provisioner = sc_Provisioner c, si_IsDefault = default_class c,
            si_VolumeBindingMode = valueOrEmpty (sc_VolumeBindingMode c), si_ReclaimPolicy = valueOrEmpty (sc_ReclaimPolicy c)\<rparr>) classes)))"

section \<open>The pod that binds a claim to a node\<close>

definition binding_pod_name :: "string \<Rightarrow> string" where
  "binding_pod_name migrationID = ''cylism-pvc-migrate-'' @ migrationID"

definition CreatePVCBindingPodContext ::
  "storage_env \<Rightarrow> string \<Rightarrow> string \<Rightarrow> string \<Rightarrow> string \<Rightarrow> string \<Rightarrow> (volume_error, unit) volume_proc" where
  "CreatePVCBindingPodContext env namespace migrationID claimName nodeName img =
     (if TrimSpace migrationID = [] \<or> TrimSpace claimName = [] \<or> TrimSpace nodeName = [] \<or> TrimSpace img = []
      then failP (ClaimRefused BindingPodIncomplete)
      else let pod = \<lparr>bp_Name = binding_pod_name migrationID, bp_Namespace = namespace,
             bp_Labels = [(ManagedByLabel, ManagedByValue), (''cylism.io/pvc-migration'', migrationID)],
             bp_NodeSelector = [(hostname_label, nodeName)], bp_Image = img, bp_ClaimName = claimName\<rparr> in
        tryP (call (\<lambda>t. va_create_pod (ev_api env) t pod) (\<lambda>_. VCreatePod pod) (of_option id)) (\<lambda>r. case r of
          Inr _ \<Rightarrow> returnP ()
        | Inl ApiExists \<Rightarrow> call (\<lambda>t. va_get_pod (ev_api env) t namespace (bp_Name pod)) (\<lambda>_. VGetPod namespace (bp_Name pod)) (of_option ApiDirect)
        | Inl e \<Rightarrow> failP (CallFailed ''create PVC binding pod'' e)))"

definition DeletePVCBindingPodContext :: "storage_env \<Rightarrow> string \<Rightarrow> string \<Rightarrow> (volume_error, unit) volume_proc" where
  "DeletePVCBindingPodContext env namespace migrationID =
     call (\<lambda>t. va_delete_pod (ev_api env) t namespace (binding_pod_name migrationID)) (\<lambda>_. VDeletePod namespace (binding_pod_name migrationID))
       (\<lambda>r. case r of None \<Rightarrow> Inr () | Some ApiNotFound \<Rightarrow> Inr () | Some e \<Rightarrow> Inl (CallFailed ''delete PVC binding pod'' e))"

text \<open>
  The loop reads until the claim is bound; \<open>n\<close> ticks of the one-second ticker are left, and whether the
  deadline comes first is \<open>ev_done\<close>.
\<close>

fun bound_loop :: "storage_env \<Rightarrow> (volume_error, PersistentVolumeClaimInfo) volume_proc \<Rightarrow> nat \<Rightarrow> (volume_error, PersistentVolumeClaimInfo) volume_proc" where
  "bound_loop env get 0 = bindP get (\<lambda>claim. if ci_Phase claim = ''Bound'' then returnP claim else failP (ClaimRefused BoundTimeout))"
| "bound_loop env get (Suc n) = bindP get (\<lambda>claim.
     if ci_Phase claim = ''Bound'' then returnP claim
     else (\<lambda>s. if ev_done env (st_trace s) then failP (ClaimRefused BoundTimeout) s else bound_loop env get n s))"

definition WaitForPVCBound :: "storage_env \<Rightarrow> nat \<Rightarrow> string \<Rightarrow> string \<Rightarrow> (volume_error, PersistentVolumeClaimInfo) volume_proc" where
  "WaitForPVCBound env ticks namespace name = bound_loop env (GetPVCInfoContext env namespace name) ticks"

definition WaitForManagedPVCBound ::
  "storage_env \<Rightarrow> nat \<Rightarrow> string \<Rightarrow> string \<Rightarrow> nat \<Rightarrow> (volume_error, PersistentVolumeClaimInfo) volume_proc" where
  "WaitForManagedPVCBound env ticks namespace name environmentID = bound_loop env (GetManagedPVCContext env namespace name environmentID) ticks"

section \<open>Workloads\<close>

definition DeploymentReferencesPVC :: "VolumeWorkload \<Rightarrow> string \<Rightarrow> bool" where
  "DeploymentReferencesPVC deployment claimName = list_ex (\<lambda>(_, claim). claim = Some claimName) (dy_Volumes deployment)"

definition StatefulSetReferencesPVC :: "VolumeWorkload \<Rightarrow> string \<Rightarrow> bool" where
  "StatefulSetReferencesPVC statefulSet claimName = list_ex (\<lambda>(_, claim). claim = Some claimName) (dy_Volumes statefulSet)"

definition get_deployment :: "storage_env \<Rightarrow> string \<Rightarrow> string \<Rightarrow> (api_error, VolumeWorkload) volume_proc" where
  "get_deployment env namespace name =
     call (\<lambda>t. va_get_deployment (ev_api env) t namespace name) (VGetDeployment namespace name) id"

definition update_deployment :: "storage_env \<Rightarrow> VolumeWorkload \<Rightarrow> (api_error, unit) volume_proc" where
  "update_deployment env d = call (\<lambda>t. va_update_deployment (ev_api env) t d) (VUpdateDeployment d) (of_option id)"

definition lift_api :: "(api_error \<Rightarrow> volume_error) \<Rightarrow> (api_error, 'a) volume_proc \<Rightarrow> (volume_error, 'a) volume_proc" where
  "lift_api f m s = (case m s of (r, s') \<Rightarrow> (wrap_error f r, s'))"

definition switched :: "string \<Rightarrow> string \<Rightarrow> string \<Rightarrow> VolumeWorkload \<Rightarrow> VolumeWorkload" where
  "switched sourceClaim targetClaim targetNode d =
     d\<lparr>dy_Volumes := map (\<lambda>(v, claim). (v, if claim = Some sourceClaim then Some targetClaim else claim)) (dy_Volumes d),
       dy_NodeSelector := map_put hostname_label targetNode (dy_NodeSelector d)\<rparr>"

definition replica_count :: "VolumeWorkload \<Rightarrow> int" where
  "replica_count d = (case dy_Replicas d of None \<Rightarrow> 1 | Some n \<Rightarrow> n)"

definition managed_workload :: "VolumeWorkload \<Rightarrow> bool" where
  "managed_workload d \<longleftrightarrow> label (dy_Labels d) ManagedByLabel = ManagedByValue"

definition ReplaceDeploymentPVCNodeContext ::
  "storage_env \<Rightarrow> string \<Rightarrow> string \<Rightarrow> string \<Rightarrow> string \<Rightarrow> string \<Rightarrow> (volume_error, int) volume_proc" where
  "ReplaceDeploymentPVCNodeContext env namespace name sourceClaim targetClaim targetNode =
     bindP (lift_api (CallFailed ''get deployment'') (get_deployment env namespace name)) (\<lambda>deployment.
       if \<not> managed_workload deployment then failP (ClaimRefused (DeploymentUnmanaged name))
       else if \<not> DeploymentReferencesPVC deployment sourceClaim then failP (ClaimRefused (DeploymentWithoutClaim name sourceClaim))
       else bindP (lift_api (CallFailed ''update deployment PVC'') (update_deployment env (switched sourceClaim targetClaim targetNode deployment))) (\<lambda>_.
         returnP (replica_count deployment)))"

definition DeploymentUsingPVCContext :: "storage_env \<Rightarrow> string \<Rightarrow> string \<Rightarrow> (volume_error, VolumeWorkload list) volume_proc" where
  "DeploymentUsingPVCContext env namespace claimName =
     bindP (call (\<lambda>t. va_list_deployments (ev_api env) t namespace) (\<lambda>_. VListDeployments namespace) (wrap_error (CallFailed ''list deployments''))) (\<lambda>deployments.
       returnP (filter (\<lambda>d. list_ex (\<lambda>(_, claim). claim = Some claimName) (dy_Volumes d)) deployments))"

definition ScaleDeploymentContext :: "storage_env \<Rightarrow> string \<Rightarrow> string \<Rightarrow> int \<Rightarrow> (volume_error, unit) volume_proc" where
  "ScaleDeploymentContext env namespace name replicas =
     bindP (lift_api (CallFailed ''get deployment scale'') (get_deployment env namespace name)) (\<lambda>deployment.
       lift_api (CallFailed ''update deployment scale'') (update_deployment env (deployment\<lparr>dy_Replicas := Some replicas\<rparr>)))"

text \<open>Of the pods only their number matters here.\<close>

definition ListDeploymentPodsContext :: "storage_env \<Rightarrow> string \<Rightarrow> string \<Rightarrow> (volume_error, nat) volume_proc" where
  "ListDeploymentPodsContext env namespace name =
     bindP (lift_api (CallFailed ''get deployment'') (get_deployment env namespace name)) (\<lambda>deployment.
       call (\<lambda>t. va_list_pods (ev_api env) t namespace (dy_Selector deployment)) (VListPods namespace (dy_Selector deployment))
         (wrap_error (CallFailed ''list pods'')))"

text \<open>The first condition of type \<open>Ready\<close> decides whether a node is ready.\<close>

definition node_ready :: "(string \<times> string) list \<Rightarrow> bool" where
  "node_ready conditions = (case find (\<lambda>(type, _). type = ''Ready'') conditions of None \<Rightarrow> False | Some (_, status) \<Rightarrow> status = ''True'')"

definition GetNodeInfoContext :: "storage_env \<Rightarrow> string \<Rightarrow> (api_error, bool) volume_proc" where
  "GetNodeInfoContext env name = call (\<lambda>t. va_get_node (ev_api env) t name) (\<lambda>_. VGetNode name) (map_sum id node_ready)"

section \<open>Remote commands\<close>

text \<open>A key that decrypts is written to a file of the server; \<open>ev_key_file\<close> tells whether this succeeds.\<close>

definition key_arguments :: "storage_env \<Rightarrow> Server \<Rightarrow> string list" where
  "key_arguments env server =
     (if sv_SSHAuthType server = ''key'' \<and> sv_SSHKey server \<noteq> [] then
        (case Decrypt (ev_aead env) (ev_encKey env) (sv_SSHKey server) of
           Inl _ \<Rightarrow> []
         | Inr key \<Rightarrow>
             if key = [] then []
             else let content = (if suffix [CHR 0x0A] key then key else key @ [CHR 0x0A]) in
               if ev_key_file env (sv_ID server) content then [''-i'', ''/data/tmp/cylism-ssh-'' @ show_nat (sv_ID server)] else [])
      else [])"

definition BuildSSHArgs :: "storage_env \<Rightarrow> Server \<Rightarrow> string \<Rightarrow> string list" where
  "BuildSSHArgs env server host =
     [''-o'', ''StrictHostKeyChecking=no'', ''-o'', ''UserKnownHostsFile=/dev/null'', ''-o'', ''GlobalKnownHostsFile=/dev/null'',
      ''-o'', ''ConnectTimeout=5'', ''-o'', ''BatchMode=yes'', ''-p'', show_int (if sv_SSHPort server > 0 then sv_SSHPort server else 22)] @
     key_arguments env server @ [sv_SSHUser server @ ''@'' @ host]"

text \<open>\<open>SSHExecContext(ctx, timeout, append(BuildSSHArgs(server, key, server.Host), command))\<close> with its combined output.\<close>

definition SSHExec :: "storage_env \<Rightarrow> Server \<Rightarrow> string \<Rightarrow> (string, string) volume_proc" where
  "SSHExec env server command =
     call (\<lambda>t. ev_ssh env t (BuildSSHArgs env server (sv_Host server) @ [command])) (VCommand server command)
       (\<lambda>(ok, output). if ok then Inr output else Inl output)"

definition stream_ok :: "stream_run \<Rightarrow> bool" where
  "stream_ok r = (case r of StreamRan _ None _ None _ \<Rightarrow> True | _ \<Rightarrow> False)"

definition streamPVCData :: "storage_env \<Rightarrow> Server \<Rightarrow> Server \<Rightarrow> string \<Rightarrow> string \<Rightarrow> ('e, nat \<times> volume_error option) volume_proc" where
  "streamPVCData env source target sourcePath targetPath =
     (let sourceArgs = BuildSSHArgs env source (sv_Host source) @
            [''sudo -n tar --numeric-owner -C '' @ storageShellQuote sourcePath @ '' -cpf - .''];
          targetArgs = BuildSSHArgs env target (sv_Host target) @
            [''sudo -n mkdir -p '' @ storageShellQuote targetPath @ '' && sudo -n tar --numeric-owner -C '' @
             storageShellQuote targetPath @ '' -xpf -''] in
      call (\<lambda>t. ev_stream env t sourceArgs targetArgs) (\<lambda>r. VStream source target sourcePath targetPath (stream_ok r))
        (\<lambda>r. case r of
           PipeFailed e \<Rightarrow> Inr (0, Some (CopyStart e))
         | TargetStart e \<Rightarrow> Inr (0, Some (CopyStart e))
         | SourceStart e \<Rightarrow> Inr (0, Some (CopyStart e))
         | StreamRan n se so te to \<Rightarrow>
             if se \<noteq> None \<or> te \<noteq> None
             then Inr (n, Some (CopyBroken n (streamCommandFailure se so) (streamCommandFailure te to)))
             else Inr (n, None)))"

section \<open>What a procedure adds to the trace\<close>

text \<open>The procedures of this component never change the environments.\<close>

abbreviation environments_kept :: "storage_db \<Rightarrow> storage_db \<Rightarrow> bool" where
  "environments_kept d d' \<equiv> wd_environments d' = wd_environments d"

interpretation ek: data_evolution environments_kept
  by unfold_locales simp_all

definition adds :: "(volume_event \<Rightarrow> bool) \<Rightarrow> ('e, 'a) volume_proc \<Rightarrow> bool" where
  "adds P m \<longleftrightarrow> (\<forall>s. environments_kept (db (st_world s)) (db (st_world (snd (m s)))) \<and>
     (\<exists>es. st_trace (snd (m s)) = st_trace s @ es \<and> list_all P es))"

lemma addsE:
  assumes "adds P m" and "m s = (r, s')"
  obtains es where "st_trace s' = st_trace s @ es" and "list_all P es"
    and "wd_environments (db (st_world s')) = wd_environments (db (st_world s))"
  using assms unfolding adds_def by (metis snd_conv)

lemma adds_returnP: "adds P (returnP x)"
  by (simp add: adds_def returnP_def)

lemma adds_failP: "adds P (failP e)"
  by (simp add: adds_def failP_def)

lemma adds_tryP:
  assumes "adds P m" and "\<And>r. adds P (f r)"
  shows "adds P (tryP m f)"
  unfolding adds_def
proof
  fix s
  obtain r s1 where m: "m s = (r, s1)" by (cases "m s")
  obtain q s2 where f: "f r s1 = (q, s2)" by (cases "f r s1")
  obtain es where es: "st_trace s1 = st_trace s @ es" "list_all P es" "environments_kept (db (st_world s)) (db (st_world s1))"
    using assms(1) m by (rule addsE)
  obtain es' where es': "st_trace s2 = st_trace s1 @ es'" "list_all P es'" "environments_kept (db (st_world s1)) (db (st_world s2))"
    using assms(2) f by (rule addsE)
  have "st_trace s2 = st_trace s @ (es @ es') \<and> list_all P (es @ es')" using es es' by simp
  with es(3) es'(3) m f show "environments_kept (db (st_world s)) (db (st_world (snd (tryP m f s)))) \<and>
      (\<exists>es. st_trace (snd (tryP m f s)) = st_trace s @ es \<and> list_all P es)"
    by (auto simp: tryP_def)
qed

lemma bindP_as_tryP: "bindP m f = tryP m (\<lambda>r. case r of Inl e \<Rightarrow> failP e | Inr x \<Rightarrow> f x)"
  by (simp add: bindP_def tryP_def failP_def fun_eq_iff split: prod.splits sum.splits)

lemma adds_bindP: "adds P m \<Longrightarrow> (\<And>x. adds P (f x)) \<Longrightarrow> adds P (bindP m f)"
  unfolding bindP_as_tryP by (rule adds_tryP) (auto split: sum.splits intro: adds_failP)

lemma adds_if: "(b \<Longrightarrow> adds P m) \<Longrightarrow> (\<not> b \<Longrightarrow> adds P m') \<Longrightarrow> adds P (if b then m else m')"
  by simp

lemma adds_choice: "adds P m \<Longrightarrow> adds P m' \<Longrightarrow> adds P (\<lambda>s. if b s then m s else m' s)"
  by (simp add: adds_def)

lemma adds_call: "(\<And>r. P (event r)) \<Longrightarrow> adds P (call ask event result)"
  by (simp add: adds_def call_def Let_def)

lemma adds_on_db: "keeps environments_kept m \<Longrightarrow> adds P (on_db m)"
  by (simp add: adds_def on_db_def keeps_def case_prod_beta)

lemma adds_read: "adds P (on_db (db_read fault f))"
  by (rule adds_on_db) (rule ek.keeps_read)

lemma keeps_on_workspace:
  "keeps (\<lambda>d d'. wd_environments d' = wd_environments d) m \<Longrightarrow> keeps environments_kept (on_workspace m)"
  by (simp add: keeps_def on_workspace_def case_prod_beta workspace_db.defs)

lemma template_update_adds: "adds P (on_db (on_workspace (UpdateApplicationDeploymentTemplate fault now t)))"
proof (rule adds_on_db, rule keeps_on_workspace)
  show "keeps (\<lambda>d d'. wd_environments d' = wd_environments d) (UpdateApplicationDeploymentTemplate fault now t)"
    using template_operations_frame(2) by (auto simp: keeps_def environment_part_def)
qed

lemma template_list_adds: "adds P (on_db (on_workspace (ListApplicationDeploymentTemplates fault i)))"
  by (rule adds_on_db, rule keeps_on_workspace) (simp add: ListApplicationDeploymentTemplates_def keeps_def db_read_db)

lemma adds_lift_api: "adds P m \<Longrightarrow> adds P (lift_api f m)"
  unfolding adds_def lift_api_def by (simp add: case_prod_beta)

lemma adds_foreach: "(\<And>x. x \<in> set xs \<Longrightarrow> adds P (f x)) \<Longrightarrow> adds P (foreach f xs)"
  by (induction xs) (auto intro: adds_returnP adds_bindP)

lemma adds_mono: "adds P m \<Longrightarrow> (\<And>e. P e \<Longrightarrow> Q e) \<Longrightarrow> adds Q m"
  unfolding adds_def list_all_iff by blast

lemmas adds_intros = adds_returnP adds_failP adds_tryP adds_bindP adds_if adds_call adds_read adds_lift_api adds_foreach

lemma triple_call:
  assumes "\<And>s. P s \<Longrightarrow> Q (result (ask (st_trace s))) (s\<lparr>st_trace := st_trace s @ [event (ask (st_trace s))]\<rparr>)"
  shows "triple P (call ask event result) Q"
  using assms by (simp add: triple_def call_def Let_def)

lemma triple_on_db: "(\<And>s. P s \<Longrightarrow> (case m (st_world s) of (r, w) \<Rightarrow> Q r (s\<lparr>st_world := w\<rparr>))) \<Longrightarrow> triple P (on_db m) Q"
  by (fastforce simp: triple_def on_db_def split: prod.splits)

lemma triple_lift_api: "triple P m (\<lambda>r. Q (wrap_error f r)) \<Longrightarrow> triple P (lift_api f m) Q"
  by (auto simp: triple_def lift_api_def split: prod.splits)

lemma wrap_error_simps [simp]:
  "wrap_error f (Inl e) = Inl (f e)" "wrap_error f (Inr x) = Inr x"
  "wrap_error f r = Inr x \<longleftrightarrow> r = Inr x"
  by (cases r; simp add: wrap_error_def)+

lemma of_option_simps [simp]:
  "of_option f None = Inr ()" "of_option f (Some e) = Inl (f e)" "of_option f x = Inr u \<longleftrightarrow> x = None"
  by (cases x; simp add: of_option_def)+

text \<open>Reading the cluster, and handling the pod that binds a claim.\<close>

fun harmless :: "volume_event \<Rightarrow> bool" where
  "harmless (VCreateClaim _) = False"
| "harmless (VDeleteClaim _ _) = False"
| "harmless (VUpdateDeployment _ _) = False"
| "harmless (VCommand _ _ _) = False"
| "harmless (VStream _ _ _ _ _) = False"
| "harmless _ = True"

lemma adds_optional_get: "(\<And>n. P (event n)) \<Longrightarrow> adds P (optional_get get event operation name)"
  by (auto simp: optional_get_def intro!: adds_intros)

lemma adds_get_claim: "adds harmless (get_claim env namespace name)"
  by (auto simp: get_claim_def intro!: adds_intros)

lemma adds_pvcInfo: "adds harmless (pvcInfo env claim)"
  by (auto simp: pvcInfo_def intro!: adds_intros adds_optional_get)

lemma adds_GetManagedPVC: "adds harmless (GetManagedPVCContext env namespace name environmentID)"
  by (auto simp: GetManagedPVCContext_def intro!: adds_intros adds_get_claim adds_pvcInfo)

lemma adds_bound_loop: "adds harmless get \<Longrightarrow> adds harmless (bound_loop env get n)"
  by (induction n) (auto intro!: adds_intros adds_choice)

lemma adds_WaitForManagedPVCBound: "adds harmless (WaitForManagedPVCBound env n namespace name environmentID)"
  by (simp add: WaitForManagedPVCBound_def adds_bound_loop adds_GetManagedPVC)

lemma adds_get_deployment: "adds harmless (get_deployment env namespace name)"
  by (auto simp: get_deployment_def intro!: adds_intros)

lemma adds_DeploymentUsingPVC: "adds harmless (DeploymentUsingPVCContext env namespace claimName)"
  by (auto simp: DeploymentUsingPVCContext_def intro!: adds_intros)

lemma adds_ListDeploymentPods: "adds harmless (ListDeploymentPodsContext env namespace name)"
  by (auto simp: ListDeploymentPodsContext_def intro!: adds_intros adds_get_deployment)

lemma adds_GetNodeInfo: "adds harmless (GetNodeInfoContext env name)"
  by (auto simp: GetNodeInfoContext_def intro!: adds_intros)

lemma adds_CreatePVCBindingPod: "adds harmless (CreatePVCBindingPodContext env namespace i claimName nodeName img)"
  by (auto simp: CreatePVCBindingPodContext_def Let_def split: sum.splits api_error.splits intro!: adds_intros)

lemma adds_DeletePVCBindingPod: "adds harmless (DeletePVCBindingPodContext env namespace i)"
  by (auto simp: DeletePVCBindingPodContext_def intro!: adds_intros)

lemmas adds_cluster = adds_get_claim adds_pvcInfo adds_GetManagedPVC adds_WaitForManagedPVCBound adds_get_deployment
  adds_DeploymentUsingPVC adds_ListDeploymentPods adds_GetNodeInfo adds_CreatePVCBindingPod adds_DeletePVCBindingPod

end
