(* ===== verification/Storage_Claims.thy ===== *)
theory Storage_Claims
  imports Storage_Cluster
begin

text \<open>
  The requests about volume claims: \<open>internal/api/infrastructure/storage/pvc_handler.go\<close> and
  \<open>pvc_usage_handler.go\<close> with the claim operations of \<open>internal/service/storage/service.go\<close>. A handler takes
  the parts of the request it reads and returns the body of its answer; an answer with an error code is a
  \<open>storage_refusal\<close>. A body that does not parse is \<open>None\<close>.
\<close>

section \<open>Handlers\<close>

text \<open>Which parts of the handler are configured.\<close>

record storage_ports =
  po_pvc :: bool
  po_migration :: bool
  po_workloads :: bool
  po_store :: bool
  po_executor :: bool

datatype usage_reference = TemplateRef string string | WorkloadRef string

datatype storage_refusal =
    K8sUnavailable | StoreUnavailable | NilPointer
  | RequestInvalid | EnvironmentIDInvalid | TaskIDInvalid
  | EnvironmentNotFound | TaskNotFound | ServerNotFound
  | StoreFailed
  | ClaimFailed volume_error
  | MigrationRunning PersistentVolumeMigration | ImportRunning HostDirectoryPVCImport
  | NotLocalVolume | SameNode | WorkloadRefused volume_error | CleanupRefused | SourceInUse
  | DeletionRefused volume_error "usage_reference list"
  | PathRefused | ServerWithoutKey | PathsOverlap | NotVerified
  | NotRestorable | RestoreRunning
  | ExecutorRefused

text \<open>Why the usage of a claim is not shown.\<close>

datatype usage_obstacle =
  NotBoundYet | NotManaged | NotLocal | PathNotAllowed | NodeUnknown | NodeWithoutSSH | NodeUnreachable

text \<open>What a request starts in the background.\<close>

datatype storage_job = RunMigration nat string | RunImport nat bool | RunBackup nat | RunRestore nat

text \<open>\<open>internal/api/shared/http.go\<close> and \<open>identity.go\<close>.\<close>

definition ParsePositiveID :: "string \<Rightarrow> nat option" where
  "ParsePositiveID v = (case ParseUint64 v of None \<Rightarrow> None | Some i \<Rightarrow> if i = 0 then None else Some i)"

definition OptionalID :: "string \<Rightarrow> nat option" where
  "OptionalID v = (if v = [] then Some 0 else ParsePositiveID v)"

text \<open>The error of a procedure becomes a refusal.\<close>

definition refusing :: "('x \<Rightarrow> 'e) \<Rightarrow> (storage_state, 'x, 'a) proc \<Rightarrow> (storage_state, 'e, 'a) proc" where
  "refusing f m s = (case m s of (r, s') \<Rightarrow> (wrap_error f r, s'))"

definition environment_by_id :: "storage_env \<Rightarrow> nat \<Rightarrow> (storage_refusal, Environment) volume_proc" where
  "environment_by_id env i = refusing (\<lambda>_. EnvironmentNotFound) (on_db (GetEnvironmentByID (ev_fault env) i))"

fun collect :: "('x \<Rightarrow> ('s, 'e, 'y list) proc) \<Rightarrow> 'x list \<Rightarrow> ('s, 'e, 'y list) proc" where
  "collect f [] = returnP []"
| "collect f (x # xs) = bindP (f x) (\<lambda>ys. bindP (collect f xs) (\<lambda>zs. returnP (ys @ zs)))"

text \<open>A failure that is ignored gives \<open>d\<close>.\<close>

definition default_to :: "'a \<Rightarrow> ('s, 'x, 'a) proc \<Rightarrow> ('s, 'e, 'a) proc" where
  "default_to d m = tryP m (\<lambda>r. case r of Inl _ \<Rightarrow> returnP d | Inr x \<Rightarrow> returnP x)"

section \<open>The service\<close>

definition ValidatePVCDeletion :: "bool \<Rightarrow> bool \<Rightarrow> 'r list \<Rightarrow> string \<Rightarrow> claim_refusal option" where
  "ValidatePVCDeletion confirmDataDelete migrationActive references reclaimPolicy =
     (if migrationActive then Some DeletionMigrating
      else if references \<noteq> [] then Some DeletionReferenced
      else if \<not> confirmDataDelete then Some (DeletionUnconfirmed (TrimSpace reclaimPolicy))
      else None)"

definition ResolveNamespace :: "storage_env \<Rightarrow> storage_ports \<Rightarrow> string \<Rightarrow> nat \<Rightarrow> (volume_error, string) volume_proc" where
  "ResolveNamespace env ports namespace environmentID =
     (let namespace = TrimSpace namespace in
      if environmentID = 0 then (if namespace = [] then failP (ClaimRefused NamespaceRequired) else returnP namespace)
      else if \<not> po_store ports then failP (TaskRefused StoreMissing)
      else tryP (on_db (GetEnvironmentByID (ev_fault env) environmentID)) (\<lambda>r. case r of
        Inl _ \<Rightarrow> failP (ClaimRefused EnvironmentMissing)
      | Inr environment \<Rightarrow>
          if namespace \<noteq> [] \<and> namespace \<noteq> en_Namespace environment then failP (ClaimRefused NamespaceMismatch)
          else returnP (en_Namespace environment)))"

definition Service_ListPVCsContext ::
  "storage_env \<Rightarrow> storage_ports \<Rightarrow> string \<Rightarrow> nat \<Rightarrow> (storage_refusal, PersistentVolumeClaimInfo list) volume_proc" where
  "Service_ListPVCsContext env ports namespace environmentID =
     (if \<not> po_pvc ports then failP (ClaimFailed (TaskRefused StorageClientMissing))
      else if environmentID \<noteq> 0 then
        (if \<not> po_store ports then failP NilPointer
         else tryP (on_db (GetEnvironmentByID (ev_fault env) environmentID)) (\<lambda>r. case r of
           Inl _ \<Rightarrow> failP (ClaimFailed (ClaimRefused EnvironmentMissing))
         | Inr environment \<Rightarrow>
             if namespace \<noteq> [] \<and> TrimSpace namespace \<noteq> en_Namespace environment then failP (ClaimFailed (ClaimRefused NamespaceMismatch))
             else refusing ClaimFailed (ListManagedPVCsContext env (en_Namespace environment) environmentID)))
      else refusing ClaimFailed (ListPVCsContext env (TrimSpace namespace)))"

definition Service_GetPVCContext ::
  "storage_env \<Rightarrow> storage_ports \<Rightarrow> string \<Rightarrow> string \<Rightarrow> nat \<Rightarrow> (volume_error, PersistentVolumeClaimInfo) volume_proc" where
  "Service_GetPVCContext env ports namespace name environmentID =
     (if \<not> po_pvc ports then failP (TaskRefused StorageClientMissing)
      else if TrimSpace name = [] then failP (ClaimRefused PVCNameRequired)
      else bindP (ResolveNamespace env ports namespace environmentID) (\<lambda>resolved.
        GetManagedPVCContext env resolved (TrimSpace name) environmentID))"

definition Service_CreatePVCContext ::
  "storage_env \<Rightarrow> storage_ports \<Rightarrow> string \<Rightarrow> nat \<Rightarrow> PersistentVolumeClaimRequest \<Rightarrow> (volume_error, VolumeClaim) volume_proc" where
  "Service_CreatePVCContext env ports namespace environmentID request =
     (if \<not> po_pvc ports then failP (TaskRefused StorageClientMissing)
      else bindP (ResolveNamespace env ports namespace environmentID) (\<lambda>resolved.
        CreateManagedPVCContext env resolved environmentID request))"

definition Service_DeletePVCContext :: "storage_env \<Rightarrow> storage_ports \<Rightarrow> string \<Rightarrow> string \<Rightarrow> nat \<Rightarrow> (volume_error, unit) volume_proc" where
  "Service_DeletePVCContext env ports namespace name environmentID =
     (if \<not> po_pvc ports then failP (TaskRefused StorageClientMissing)
      else if TrimSpace name = [] then failP (ClaimRefused PVCNameRequired)
      else DeleteManagedPVCContext env namespace (TrimSpace name) environmentID)"

definition Service_ListStorageClassesContext :: "storage_env \<Rightarrow> storage_ports \<Rightarrow> (volume_error, StorageClassInfo list) volume_proc" where
  "Service_ListStorageClassesContext env ports =
     (if \<not> po_pvc ports then failP (TaskRefused StorageClientMissing) else ListStorageClassesContext env)"

section \<open>Who uses a claim\<close>

definition volumeClaimReferenced :: "VolumeMountSpec list \<Rightarrow> string \<Rightarrow> bool" where
  "volumeClaimReferenced volumes claimName = list_ex (\<lambda>v. vm_ClaimName v = claimName) volumes"

definition template_references :: "string \<Rightarrow> string \<Rightarrow> ApplicationDeploymentTemplate list \<Rightarrow> usage_reference list" where
  "template_references app claimName templates =
     map (\<lambda>t. TemplateRef app (dt_Name t)) (filter (\<lambda>t. case unmarshal (dt_Spec t) of
        None \<Rightarrow> False | Some spec \<Rightarrow> volumeClaimReferenced (sp_Volumes spec) claimName) templates)"

definition application_references :: "storage_env \<Rightarrow> string \<Rightarrow> Application \<Rightarrow> ('e, usage_reference list) volume_proc" where
  "application_references env claimName app =
     bindP (default_to [] (on_db (on_workspace (ListApplicationDeploymentTemplates (ev_fault env) (ap_ID app))))) (\<lambda>templates.
       returnP (template_references (ap_Name app) claimName templates))"

definition workload_references ::
  "(volume_event list \<Rightarrow> string \<Rightarrow> api_error + VolumeWorkload list) \<Rightarrow> (string \<Rightarrow> volume_event) \<Rightarrow> (VolumeWorkload \<Rightarrow> string \<Rightarrow> bool) \<Rightarrow>
   string \<Rightarrow> string \<Rightarrow> ('e, usage_reference list) volume_proc" where
  "workload_references ask event refers namespace claimName =
     bindP (default_to [] (call (\<lambda>t. ask t namespace) (\<lambda>_. event namespace) id)) (\<lambda>workloads.
       returnP (map (\<lambda>w. WorkloadRef (dy_Name w)) (filter (\<lambda>w. refers w claimName) workloads)))"

definition pvcReferences :: "storage_env \<Rightarrow> storage_ports \<Rightarrow> nat \<Rightarrow> string \<Rightarrow> string \<Rightarrow> ('e, usage_reference list) volume_proc" where
  "pvcReferences env ports environmentID namespace claimName =
     bindP (if po_store ports
            then bindP (default_to [] (on_db (on_workspace (ListApplications (ev_fault env) [0, environmentID])))) (collect (application_references env claimName))
            else returnP []) (\<lambda>templates.
     bindP (if po_workloads ports
            then bindP (workload_references (va_list_deployments (ev_api env)) VListDeployments DeploymentReferencesPVC namespace claimName) (\<lambda>ds.
                 bindP (workload_references (va_list_statefulsets (ev_api env)) VListStatefulSets StatefulSetReferencesPVC namespace claimName) (\<lambda>ss.
                   returnP (ds @ ss)))
            else returnP []) (\<lambda>workloads.
       returnP (templates @ workloads)))"

record persistentVolumeClaimResponse =
  pr_Claim :: PersistentVolumeClaimInfo
  pr_BoundNodeDisplayName :: string
  pr_References :: "usage_reference list"
  pr_ProjectID :: nat
  pr_ProjectName :: string
  pr_EnvironmentName :: string

definition node_display_name :: "storage_env \<Rightarrow> storage_ports \<Rightarrow> string \<Rightarrow> ('e, string) volume_proc" where
  "node_display_name env ports node =
     (if po_store ports \<and> node \<noteq> []
      then bindP (default_to [] (on_db (ListServers (ev_fault env)))) (\<lambda>servers.
        returnP (case find (\<lambda>s. sv_K8sNodeName s = node) servers of None \<Rightarrow> [] | Some s \<Rightarrow> sv_Name s))
      else returnP [])"

definition claim_place :: "storage_env \<Rightarrow> storage_ports \<Rightarrow> nat \<Rightarrow> ('e, nat \<times> string \<times> string) volume_proc" where
  "claim_place env ports environmentID =
     (if po_store ports \<and> environmentID \<noteq> 0
      then tryP (on_db (GetEnvironmentByID (ev_fault env) environmentID)) (\<lambda>r. case r of
        Inl _ \<Rightarrow> returnP (0, [], [])
      | Inr environment \<Rightarrow>
          tryP (on_db (on_workspace (GetProject (ev_fault env) (en_ProjectID environment)))) (\<lambda>p. returnP (en_ProjectID environment,
            (case p of Inl _ \<Rightarrow> [] | Inr (project, _) \<Rightarrow> pj_Name project), en_Name environment)))
      else returnP (0, [], []))"

definition pvcResponse :: "storage_env \<Rightarrow> storage_ports \<Rightarrow> PersistentVolumeClaimInfo \<Rightarrow> ('e, persistentVolumeClaimResponse) volume_proc" where
  "pvcResponse env ports claim =
     bindP (node_display_name env ports (ci_BoundNode claim)) (\<lambda>node.
     bindP (claim_place env ports (ci_EnvironmentID claim)) (\<lambda>(project, projectName, environmentName).
     bindP (pvcReferences env ports (ci_EnvironmentID claim) (ci_Namespace claim) (ci_Name claim)) (\<lambda>references.
       returnP \<lparr>pr_Claim = claim, pr_BoundNodeDisplayName = node, pr_References = references, pr_ProjectID = project,
         pr_ProjectName = projectName, pr_EnvironmentName = environmentName\<rparr>)))"

section \<open>Requests\<close>

record persistentVolumeClaimRequest =
  pq_EnvironmentID :: nat
  pq_Namespace :: string
  pq_Name :: string
  pq_Storage :: string
  pq_StorageClassName :: string
  pq_ConfirmDataDelete :: bool

definition ListPersistentVolumeClaims ::
  "storage_env \<Rightarrow> storage_ports \<Rightarrow> string \<Rightarrow> string \<Rightarrow> (storage_refusal, persistentVolumeClaimResponse list) volume_proc" where
  "ListPersistentVolumeClaims env ports environment_query namespace_query =
     (if \<not> po_pvc ports then failP K8sUnavailable
      else case OptionalID (TrimSpace environment_query) of
        None \<Rightarrow> failP EnvironmentIDInvalid
      | Some environmentID \<Rightarrow>
          bindP (Service_ListPVCsContext env ports (TrimSpace namespace_query) environmentID)
            (collect (\<lambda>claim. bindP (pvcResponse env ports claim) (\<lambda>r. returnP [r]))))"

definition CreatePersistentVolumeClaim ::
  "storage_env \<Rightarrow> storage_ports \<Rightarrow> persistentVolumeClaimRequest option \<Rightarrow> (storage_refusal, persistentVolumeClaimResponse) volume_proc" where
  "CreatePersistentVolumeClaim env ports body =
     (if \<not> po_pvc ports then failP K8sUnavailable
      else if \<not> po_store ports then failP StoreUnavailable
      else case body of
        None \<Rightarrow> failP RequestInvalid
      | Some request \<Rightarrow>
          bindP (refusing ClaimFailed (ResolveNamespace env ports (pq_Namespace request) (pq_EnvironmentID request))) (\<lambda>namespace.
          bindP (refusing ClaimFailed (Service_CreatePVCContext env ports namespace (pq_EnvironmentID request)
              \<lparr>vq_Name = pq_Name request, vq_Storage = pq_Storage request, vq_StorageClassName = pq_StorageClassName request\<rparr>)) (\<lambda>claim.
          bindP (refusing ClaimFailed (Service_GetPVCContext env ports namespace (pv_Name claim) (pq_EnvironmentID request))) (pvcResponse env ports))))"

definition active_migration :: "storage_env \<Rightarrow> nat \<Rightarrow> string \<Rightarrow> (storage_refusal, PersistentVolumeMigration option) volume_proc" where
  "active_migration env environmentID name =
     tryP (on_db (FindActivePVCMigration (ev_fault env) environmentID name)) (\<lambda>r. case r of
       Inr m \<Rightarrow> returnP (Some m)
     | Inl e \<Rightarrow> if e = ErrRecordNotFound then returnP None else failP StoreFailed)"

text \<open>The answer to a refused deletion also describes the claim when nothing else refuses it.\<close>

definition refuse_deletion ::
  "storage_env \<Rightarrow> storage_ports \<Rightarrow> PersistentVolumeMigration option \<Rightarrow> usage_reference list \<Rightarrow> PersistentVolumeClaimInfo \<Rightarrow> claim_refusal \<Rightarrow>
   (storage_refusal, string) volume_proc" where
  "refuse_deletion env ports active references claim e =
     (case active of
        Some m \<Rightarrow> failP (MigrationRunning m)
      | None \<Rightarrow>
          if references \<noteq> [] then failP (DeletionRefused (ClaimRefused e) references)
          else bindP (pvcResponse env ports claim) (\<lambda>_. failP (DeletionRefused (ClaimRefused e) [])))"

definition decide_deletion ::
  "storage_env \<Rightarrow> storage_ports \<Rightarrow> persistentVolumeClaimRequest \<Rightarrow> string \<Rightarrow> string \<Rightarrow> PersistentVolumeClaimInfo \<Rightarrow>
   PersistentVolumeMigration option \<Rightarrow> usage_reference list \<Rightarrow> (storage_refusal, string) volume_proc" where
  "decide_deletion env ports request name namespace claim active references =
     (case ValidatePVCDeletion (pq_ConfirmDataDelete request) (active \<noteq> None) references (ci_ReclaimPolicy claim) of
        Some e \<Rightarrow> refuse_deletion env ports active references claim e
      | None \<Rightarrow>
          bindP (refusing ClaimFailed (Service_DeletePVCContext env ports namespace name (pq_EnvironmentID request))) (\<lambda>_. returnP name))"

definition DeletePersistentVolumeClaim ::
  "storage_env \<Rightarrow> storage_ports \<Rightarrow> persistentVolumeClaimRequest option \<Rightarrow> string \<Rightarrow> (storage_refusal, string) volume_proc" where
  "DeletePersistentVolumeClaim env ports body name =
     (if \<not> po_pvc ports then failP K8sUnavailable
      else if \<not> po_store ports then failP StoreUnavailable
      else case body of
        None \<Rightarrow> failP RequestInvalid
      | Some request \<Rightarrow>
          bindP (refusing ClaimFailed (ResolveNamespace env ports (pq_Namespace request) (pq_EnvironmentID request))) (\<lambda>namespace.
          bindP (refusing ClaimFailed (GetManagedPVCContext env namespace name (pq_EnvironmentID request))) (\<lambda>claim.
          bindP (if pq_EnvironmentID request \<noteq> 0 then active_migration env (pq_EnvironmentID request) name else returnP None) (\<lambda>active.
          bindP (pvcReferences env ports (pq_EnvironmentID request) namespace name)
            (decide_deletion env ports request name namespace claim active)))))"

definition ListStorageClasses :: "storage_env \<Rightarrow> storage_ports \<Rightarrow> (storage_refusal, StorageClassInfo list) volume_proc" where
  "ListStorageClasses env ports =
     (if \<not> po_pvc ports then failP K8sUnavailable else refusing ClaimFailed (ListStorageClassesContext env))"

definition pvcEnvironment :: "storage_env \<Rightarrow> storage_ports \<Rightarrow> string \<Rightarrow> (storage_refusal, Environment) volume_proc" where
  "pvcEnvironment env ports environment_query =
     (if \<not> po_pvc ports then failP K8sUnavailable
      else if \<not> po_store ports then failP StoreUnavailable
      else case ParsePositiveID (TrimSpace environment_query) of
        None \<Rightarrow> failP EnvironmentIDInvalid
      | Some i \<Rightarrow> environment_by_id env i)"

definition pvcRequestNamespace :: "storage_env \<Rightarrow> storage_ports \<Rightarrow> persistentVolumeClaimRequest \<Rightarrow> (volume_error, string) volume_proc" where
  "pvcRequestNamespace env ports request =
     (let namespace = TrimSpace (pq_Namespace request) in
      if pq_EnvironmentID request \<noteq> 0 then
        tryP (on_db (GetEnvironmentByID (ev_fault env) (pq_EnvironmentID request))) (\<lambda>r. case r of
          Inl _ \<Rightarrow> failP (ClaimRefused EnvironmentMissing)
        | Inr environment \<Rightarrow>
            if namespace \<noteq> [] \<and> namespace \<noteq> en_Namespace environment then failP (ClaimRefused NamespaceMismatch)
            else returnP (en_Namespace environment))
      else if namespace = [] then failP (ClaimRefused NamespaceRequired)
      else if \<not> po_workloads ports then failP (ClaimRefused NamespaceUnreachable)
      else call (\<lambda>t. va_get_namespace (ev_api env) t namespace) (\<lambda>_. VGetNamespace namespace)
        (\<lambda>r. if r \<noteq> None then Inl (ClaimRefused NamespaceUnreachable) else Inr namespace))"

section \<open>Usage\<close>

record persistentVolumeClaimUsageResponse =
  pu_Namespace :: string
  pu_Name :: string
  pu_UsedBytes :: int
  pu_CapacityBytes :: int
  pu_Status :: string
  pu_Message :: "usage_obstacle option"

definition servers_by_node :: "Server list \<Rightarrow> string \<Rightarrow> Server option" where
  "servers_by_node servers node =
     find (\<lambda>s. TrimSpace (sv_K8sNodeName s) = node \<and> TrimSpace (sv_K8sNodeName s) \<noteq> []) (rev servers)"

text \<open>\<open>quantityValue\<close> reads a quantity as a number; it is only called where \<open>ParseQuantity\<close> accepts the text.\<close>

definition pvcCapacityBytes :: "storage_env \<Rightarrow> (string \<Rightarrow> int) \<Rightarrow> string \<Rightarrow> int" where
  "pvcCapacityBytes env quantityValue storage =
     (case ev_ParseQuantity env (TrimSpace storage) of
        None \<Rightarrow> 0 | Some (positive, _) \<Rightarrow> if \<not> positive then 0 else quantityValue (TrimSpace storage))"

text \<open>Why the usage of a claim cannot be read, or the server that can tell it.\<close>

definition usage_server :: "(string \<Rightarrow> Server option) \<Rightarrow> PersistentVolumeClaimInfo \<Rightarrow> usage_obstacle + Server" where
  "usage_server servers claim =
     (if ci_Phase claim \<noteq> ''Bound'' then Inl NotBoundYet
      else if \<not> ci_Managed claim then Inl NotManaged
      else if \<not> ci_IsLocal claim \<or> ci_LocalPath claim = [] then Inl NotLocal
      else if \<not> persistentVolumeUsagePathAllowed (ci_LocalPath claim) then Inl PathNotAllowed
      else if ci_BoundNode claim = [] then Inl NodeUnknown
      else case servers (ci_BoundNode claim) of None \<Rightarrow> Inl NodeWithoutSSH | Some s \<Rightarrow> Inr s)"

definition readLocalPersistentVolumeUsage :: "storage_env \<Rightarrow> Server \<Rightarrow> string \<Rightarrow> (unit, int) volume_proc" where
  "readLocalPersistentVolumeUsage env server localPath =
     tryP (SSHExec env server (''sudo -n du -sb -- '' @ storageShellQuote localPath)) (\<lambda>r. case r of
       Inl _ \<Rightarrow> failP ()
     | Inr output \<Rightarrow> (case parsePersistentVolumeUsage output of None \<Rightarrow> failP () | Some n \<Rightarrow> returnP n))"

definition usage_response :: "storage_env \<Rightarrow> (string \<Rightarrow> int) \<Rightarrow> PersistentVolumeClaimInfo \<Rightarrow> usage_obstacle option \<Rightarrow> persistentVolumeClaimUsageResponse" where
  "usage_response env quantityValue claim obstacle =
     \<lparr>pu_Namespace = ci_Namespace claim, pu_Name = ci_Name claim, pu_UsedBytes = 0,
      pu_CapacityBytes = pvcCapacityBytes env quantityValue (ci_Storage claim), pu_Status = ''unavailable'', pu_Message = obstacle\<rparr>"

text \<open>
  The workers take the jobs from a queue and write their answers at the index of the job; \<open>schedule\<close> is the
  order in which the jobs run.
\<close>

fun usage_jobs ::
  "storage_env \<Rightarrow> (nat \<times> PersistentVolumeClaimInfo \<times> Server) list \<Rightarrow> persistentVolumeClaimUsageResponse list \<Rightarrow>
   ('e, persistentVolumeClaimUsageResponse list) volume_proc" where
  "usage_jobs env [] responses = returnP responses"
| "usage_jobs env ((index, claim, server) # jobs) responses =
     tryP (readLocalPersistentVolumeUsage env server (ci_LocalPath claim)) (\<lambda>r.
       usage_jobs env jobs (responses[index := (case r of
         Inl _ \<Rightarrow> (responses ! index)\<lparr>pu_Message := Some NodeUnreachable\<rparr>
       | Inr used \<Rightarrow> (responses ! index)\<lparr>pu_UsedBytes := used, pu_Status := ''available''\<rparr>)]))"

definition plan_usage ::
  "(string \<Rightarrow> Server option) \<Rightarrow> PersistentVolumeClaimInfo list \<Rightarrow> (nat \<times> PersistentVolumeClaimInfo \<times> Server) list" where
  "plan_usage servers claims = concat (map (\<lambda>(i, claim). case usage_server servers claim of Inl _ \<Rightarrow> [] | Inr s \<Rightarrow> [(i, claim, s)]) (enumerate 0 claims))"

definition ListPersistentVolumeClaimUsage ::
  "storage_env \<Rightarrow> storage_ports \<Rightarrow> (string \<Rightarrow> int) \<Rightarrow>
   ((nat \<times> PersistentVolumeClaimInfo \<times> Server) list \<Rightarrow> (nat \<times> PersistentVolumeClaimInfo \<times> Server) list) \<Rightarrow> string \<Rightarrow>
   (storage_refusal, persistentVolumeClaimUsageResponse list) volume_proc" where
  "ListPersistentVolumeClaimUsage env ports quantityValue schedule namespace_query =
     (if \<not> po_pvc ports then failP K8sUnavailable
      else bindP (refusing ClaimFailed (ListPVCsContext env (TrimSpace namespace_query))) (\<lambda>claims.
        bindP (if po_store ports then default_to [] (on_db (ListServers (ev_fault env))) else returnP []) (\<lambda>servers.
          usage_jobs env (schedule (plan_usage (servers_by_node servers) claims))
            (map (\<lambda>c. usage_response env quantityValue c (case usage_server (servers_by_node servers) c of Inl e \<Rightarrow> Some e | Inr _ \<Rightarrow> None)) claims))))"

section \<open>When a claim is deleted\<close>

text \<open>The stored data as it was, and no claim deleted so far.\<close>

definition untouched :: "storage_db \<Rightarrow> storage_state \<Rightarrow> bool" where
  "untouched d s \<longleftrightarrow> db (st_world s) = d \<and> (\<forall>ns n. VDeleteClaim ns n \<notin> set (st_trace s))"

definition looks :: "('e, 'a) volume_proc \<Rightarrow> bool" where
  "looks m \<longleftrightarrow> (\<forall>d. triple (untouched d) m (\<lambda>_. untouched d))"

lemma looksD: "looks m \<Longrightarrow> triple (untouched d) m (\<lambda>_. untouched d)"
  by (simp add: looks_def)

lemma looks_returnP: "looks (returnP x)"
  by (simp add: looks_def triple_returnP)

lemma looks_failP: "looks (failP e)"
  by (simp add: looks_def triple_failP)

lemma looks_tryP: "looks m \<Longrightarrow> (\<And>r. looks (f r)) \<Longrightarrow> looks (tryP m f)"
  unfolding looks_def by (blast intro: triple_tryP)

lemma looks_bindP: "looks m \<Longrightarrow> (\<And>x. looks (f x)) \<Longrightarrow> looks (bindP m f)"
  unfolding looks_def by (blast intro: triple_bindP)

lemma looks_if: "(b \<Longrightarrow> looks m) \<Longrightarrow> (\<not> b \<Longrightarrow> looks m') \<Longrightarrow> looks (if b then m else m')"
  by simp

lemma looks_call: "(\<And>r ns n. event r \<noteq> VDeleteClaim ns n) \<Longrightarrow> looks (call ask event result)"
  unfolding looks_def by (intro allI triple_call) (simp add: untouched_def eq_commute [of "VDeleteClaim _ _" "event _"])

lemma looks_on_db: "(\<And>w. db (snd (m w)) = db w) \<Longrightarrow> looks (on_db m)"
  unfolding looks_def by (intro allI triple_on_db) (auto simp: untouched_def split: prod.splits, metis snd_conv)

lemma looks_read: "looks (on_db (db_read fault f))"
  by (rule looks_on_db) (rule db_read_db)

lemma looks_workspace_read: "looks (on_db (on_workspace (db_read fault f)))"
proof (rule looks_on_db)
  fix w :: "storage_db world"
  show "db (snd (on_workspace (db_read fault f) w)) = db w"
    by (cases "db w") (simp add: on_workspace_def case_prod_beta db_read_db workspace_db.defs)
qed

lemma looks_refusing: "looks m \<Longrightarrow> looks (refusing f m)"
  unfolding looks_def triple_def refusing_def by (fastforce split: prod.splits)

lemma looks_default_to: "looks m \<Longrightarrow> looks (default_to d m)"
  unfolding default_to_def by (rule looks_tryP) (auto intro: looks_returnP split: sum.splits)

lemma looks_collect: "(\<And>x. looks (f x)) \<Longrightarrow> looks (collect f xs)"
  by (induction xs) (auto intro: looks_returnP looks_bindP)

lemmas looks_intros = looks_returnP looks_failP looks_tryP looks_bindP looks_if looks_call looks_read looks_workspace_read
  looks_refusing looks_default_to looks_collect

lemma looks_get_claim: "looks (get_claim env namespace name)"
  by (auto simp: get_claim_def intro!: looks_intros)

lemma looks_GetManagedPVC: "looks (GetManagedPVCContext env namespace name environmentID)"
  by (auto simp: GetManagedPVCContext_def pvcInfo_def optional_get_def intro!: looks_intros looks_get_claim)

lemma looks_application_references: "looks (application_references env claimName app)"
  by (auto simp: application_references_def ListApplicationDeploymentTemplates_def intro!: looks_intros)

lemma looks_pvcReferences: "looks (pvcReferences env ports i namespace claimName)"
  unfolding pvcReferences_def workload_references_def ListApplications_def
  by (intro looks_intros looks_application_references) simp_all

lemma looks_pvcResponse: "looks (pvcResponse env ports claim)"
  unfolding pvcResponse_def node_display_name_def claim_place_def ListServers_def GetEnvironmentByID_def GetProject_def
  by (auto intro!: looks_intros looks_pvcReferences split: sum.splits prod.splits)

lemma looks_ResolveNamespace: "looks (ResolveNamespace env ports namespace i)"
  unfolding ResolveNamespace_def GetEnvironmentByID_def by (auto simp: Let_def intro!: looks_intros split: sum.splits)


text \<open>What the templates of the applications in scope say.\<close>

definition templates_use :: "storage_db \<Rightarrow> nat \<Rightarrow> string \<Rightarrow> bool" where
  "templates_use d environmentID claimName \<longleftrightarrow>
     (\<exists>a \<in> set (rd_apps d). (environmentID \<noteq> 0 \<longrightarrow> ap_EnvironmentID a = environmentID) \<and>
        (\<exists>t \<in> set (rd_templates d). dt_ApplicationID t = ap_ID a \<and>
           (\<exists>spec. unmarshal (dt_Spec t) = Some spec \<and> volumeClaimReferenced (sp_Volumes spec) claimName)))"

text \<open>What the API server said about the workloads of the namespace.\<close>

definition workloads_free :: "storage_env \<Rightarrow> string \<Rightarrow> string \<Rightarrow> volume_event list \<Rightarrow> bool" where
  "workloads_free env namespace claimName tr \<longleftrightarrow>
     (\<exists>t t'. tr = t @ [VListDeployments namespace, VListStatefulSets namespace] @ t' \<and>
        (\<forall>ws. va_list_deployments (ev_api env) t namespace = Inr ws \<longrightarrow> list_all (\<lambda>w. \<not> DeploymentReferencesPVC w claimName) ws) \<and>
        (\<forall>ws. va_list_statefulsets (ev_api env) (t @ [VListDeployments namespace]) namespace = Inr ws \<longrightarrow>
           list_all (\<lambda>w. \<not> StatefulSetReferencesPVC w claimName) ws))"

lemma workloads_free_append: "workloads_free env ns n tr \<Longrightarrow> workloads_free env ns n (tr @ es)"
  unfolding workloads_free_def by (metis append.assoc)

lemma triple_collect:
  assumes "\<And>x. triple S (f x) (\<lambda>r s. S s \<and> r = Inr (g x))"
  shows "triple S (collect f xs) (\<lambda>r s. S s \<and> r = Inr (concat (map g xs)))"
proof (induction xs)
  case Nil
  then show ?case by (simp add: triple_returnP)
next
  case (Cons x xs)
  show ?case
    unfolding collect.simps
    by (rule triple_bindP [OF assms], simp_all, rule triple_fact, rule triple_bindP [OF Cons], simp_all add: triple_returnP)
qed

lemma untouched_calls [simp]: "untouched d (s\<lparr>st_world := (st_world s)\<lparr>calls := c\<rparr>\<rparr>) = untouched d s"
  by (simp add: untouched_def)

lemma triple_workspace_read:
  assumes "\<And>n. \<not> fault n"
  shows "triple (untouched d) (on_db (on_workspace (db_read fault f))) (\<lambda>r s. untouched d s \<and> r = f (workspace_db.truncate d))"
proof (rule triple_and [OF looksD [OF looks_workspace_read]])
  show "triple (untouched d) (on_db (on_workspace (db_read fault f))) (\<lambda>r s. r = f (workspace_db.truncate d))"
    by (rule triple_on_db) (use assms in \<open>auto simp: untouched_def on_workspace_def db_read_def db_call_def\<close>)
qed

lemma triple_default_to: "triple P m (\<lambda>r s. R s \<and> r = Inr x) \<Longrightarrow> triple P (default_to d m) (\<lambda>r s. R s \<and> r = Inr x)"
  unfolding default_to_def by (rule triple_tryP) (auto simp: triple_def returnP_def split: sum.splits)

lemma application_references_exact:
  assumes "\<And>n. \<not> ev_fault env n"
  shows "triple (untouched d) (application_references env claimName app) (\<lambda>r s. untouched d s \<and> r = Inr (template_references (ap_Name app) claimName
    (sort_key dt_CreatedAt (filter (\<lambda>t. dt_ApplicationID t = ap_ID app) (rd_templates d)))))"
  unfolding application_references_def ListApplicationDeploymentTemplates_def
  by (rule triple_bindP [OF triple_default_to [where R = "untouched d", OF triple_post [OF triple_workspace_read]]])
    (auto simp: assms triple_def returnP_def workspace_db.defs)

lemma templates_use_listed:
  assumes "templates_use d i claimName"
  shows "\<exists>a \<in> set (map (\<lambda>a. LoadCapabilities (preload_application w a)) (rev (sort_key ap_CreatedAt (filter (in_scope [0, i]) (rd_apps d))))).
    template_references (ap_Name a) claimName (sort_key dt_CreatedAt (filter (\<lambda>t. dt_ApplicationID t = ap_ID a) (rd_templates d))) \<noteq> []"
proof -
  obtain a t spec where a: "a \<in> set (rd_apps d)" "i \<noteq> 0 \<longrightarrow> ap_EnvironmentID a = i"
    and t: "t \<in> set (rd_templates d)" "dt_ApplicationID t = ap_ID a" "unmarshal (dt_Spec t) = Some spec" "volumeClaimReferenced (sp_Volumes spec) claimName"
    using assms by (auto simp: templates_use_def)
  let ?a = "LoadCapabilities (preload_application w a)"
  have "ap_ID ?a = ap_ID a" by (simp add: LoadCapabilities_def preload_application_def)
  with a t show ?thesis
    by (intro bexI [of _ ?a]) (auto simp: template_references_def filter_empty_conv in_scope_def)
qed

lemma template_part:
  assumes "\<And>n. \<not> ev_fault env n" and "templates_use d i claimName"
  shows "triple (untouched d)
    (bindP (default_to [] (on_db (on_workspace (ListApplications (ev_fault env) [0, i])))) (collect (application_references env claimName)))
    (\<lambda>r s. \<exists>x. r = Inr x \<and> x \<noteq> [])"
  unfolding ListApplications_def
proof (rule triple_bindP [OF triple_default_to [where R = "untouched d", OF triple_post [OF triple_workspace_read]]])
  let ?l = "map (\<lambda>a. LoadCapabilities (preload_application (workspace_db.truncate d) a)) (rev (sort_key ap_CreatedAt (filter (in_scope [0, i]) (rd_apps d))))"
  fix x :: "Application list"
  show "triple (\<lambda>s. untouched d s \<and> (Inr x :: 'a + _) = Inr ?l) (collect (application_references env claimName) x :: ('a, _) volume_proc)
      (\<lambda>r s. \<exists>x. r = Inr x \<and> x \<noteq> [])"
    by (rule triple_fact, rule triple_post [OF triple_collect [OF application_references_exact [OF assms(1)]]])
      (use templates_use_listed [OF assms(2), of "workspace_db.truncate d"] in \<open>auto simp: concat_eq_Nil_conv\<close>)
qed (auto simp: assms workspace_db.defs)

lemma workload_part:
  "triple (\<lambda>_. True) (bindP (workload_references (va_list_deployments (ev_api env)) VListDeployments DeploymentReferencesPVC ns n) (\<lambda>ds.
      bindP (workload_references (va_list_statefulsets (ev_api env)) VListStatefulSets StatefulSetReferencesPVC ns n) (\<lambda>ss. returnP (ds @ ss))))
    (\<lambda>r s. r = Inr [] \<longrightarrow> workloads_free env ns n (st_trace s))"
  by (rule tripleI) (auto simp: workload_references_def default_to_def call_def Let_def bindP_def tryP_def returnP_def workloads_free_def
      filter_empty_conv list_all_iff split: sum.splits)

lemma references_empty:
  assumes "po_store ports" and "po_workloads ports"
  shows "triple (untouched d) (pvcReferences env ports i ns n :: ('a, _) volume_proc)
    (\<lambda>r s. untouched d s \<and> (r = Inr [] \<longrightarrow> workloads_free env ns n (st_trace s) \<and> ((\<forall>k. \<not> ev_fault env k) \<longrightarrow> \<not> templates_use d i n)))"
proof (rule triple_and [OF looksD [OF looks_pvcReferences]])
  let ?T = "bindP (default_to [] (on_db (on_workspace (ListApplications (ev_fault env) [0, i])))) (collect (application_references env n)) :: ('a, _) volume_proc"
  have T: "triple (untouched d) ?T (\<lambda>r s. r = Inr [] \<longrightarrow> (\<forall>k. \<not> ev_fault env k) \<longrightarrow> \<not> templates_use d i n)"
  proof (cases "(\<forall>k. \<not> ev_fault env k) \<and> templates_use d i n")
    case True
    then show ?thesis by (intro triple_post [OF template_part]) auto
  qed (auto simp: triple_def)
  show "triple (untouched d) (pvcReferences env ports i ns n :: ('a, _) volume_proc)
    (\<lambda>r s. r = Inr [] \<longrightarrow> workloads_free env ns n (st_trace s) \<and> ((\<forall>k. \<not> ev_fault env k) \<longrightarrow> \<not> templates_use d i n))"
    unfolding pvcReferences_def if_P [OF assms(1)] if_P [OF assms(2)]
  proof (rule triple_bindP [OF T])
    fix ts :: "usage_reference list"
    let ?F = "(Inr ts :: 'a + _) = Inr [] \<longrightarrow> (\<forall>k. \<not> ev_fault env k) \<longrightarrow> \<not> templates_use d i n"
    have "triple (\<lambda>s. True \<and> ?F) (bindP (bindP (workload_references (va_list_deployments (ev_api env)) VListDeployments DeploymentReferencesPVC ns n) (\<lambda>ds.
        bindP (workload_references (va_list_statefulsets (ev_api env)) VListStatefulSets StatefulSetReferencesPVC ns n) (\<lambda>ss. returnP (ds @ ss))))
        (\<lambda>workloads. returnP (ts @ workloads)) :: ('a, _) volume_proc)
      (\<lambda>r s. r = Inr [] \<longrightarrow> workloads_free env ns n (st_trace s) \<and> ((\<forall>k. \<not> ev_fault env k) \<longrightarrow> \<not> templates_use d i n))"
      by (rule triple_fact, rule triple_bindP [OF workload_part]) (auto simp: triple_def returnP_def)
    then show "triple (\<lambda>_. ?F) (bindP (bindP (workload_references (va_list_deployments (ev_api env)) VListDeployments DeploymentReferencesPVC ns n) (\<lambda>ds.
        bindP (workload_references (va_list_statefulsets (ev_api env)) VListStatefulSets StatefulSetReferencesPVC ns n) (\<lambda>ss. returnP (ds @ ss))))
        (\<lambda>workloads. returnP (ts @ workloads)) :: ('a, _) volume_proc)
      (\<lambda>r s. r = Inr [] \<longrightarrow> workloads_free env ns n (st_trace s) \<and> ((\<forall>k. \<not> ev_fault env k) \<longrightarrow> \<not> templates_use d i n))"
      by simp
  qed simp
qed

definition migrating :: "storage_db \<Rightarrow> nat \<Rightarrow> string \<Rightarrow> bool" where
  "migrating d i n \<longleftrightarrow> (\<exists>m \<in> set (sd_migrations d). vg_EnvironmentID m = i \<and> vg_SourcePVCName m = n \<and> \<not> IsPVCMigrationTerminal (vg_Status m))"

lemma active_migration_exact:
  "triple (untouched d) (active_migration env i n) (\<lambda>r s. untouched d s \<and> (r = Inr None \<longrightarrow> \<not> migrating d i n))"
proof (rule triple_and [OF looksD])
  show "looks (active_migration env i n)"
    by (auto simp: active_migration_def FindActivePVCMigration_def intro!: looks_intros split: sum.splits)
  show "triple (untouched d) (active_migration env i n) (\<lambda>r s. r = Inr None \<longrightarrow> \<not> migrating d i n)"
    by (rule tripleI) (auto simp: active_migration_def FindActivePVCMigration_def tryP_def on_db_def db_read_def db_call_def returnP_def failP_def
        untouched_def migrating_def found_def find_None_iff IsPVCMigrationTerminal_def split: if_splits option.splits)
qed

text \<open>All that has to hold for the deletion of a claim.\<close>

definition may_delete :: "storage_env \<Rightarrow> storage_db \<Rightarrow> persistentVolumeClaimRequest \<Rightarrow> string \<Rightarrow> string \<Rightarrow> string \<Rightarrow> volume_event list \<Rightarrow> bool" where
  "may_delete env d request name ns n t \<longleftrightarrow>
     pq_ConfirmDataDelete request \<and> n = TrimSpace name \<and>
     (if pq_EnvironmentID request = 0 then ns = TrimSpace (pq_Namespace request)
      else (\<exists>e. tbl_find en_ID (pq_EnvironmentID request) (wd_environments d) = Some e \<and> ns = en_Namespace e) \<and>
        \<not> migrating d (pq_EnvironmentID request) name) \<and>
     workloads_free env ns name t \<and>
     ((\<forall>k. \<not> ev_fault env k) \<longrightarrow> \<not> templates_use d (pq_EnvironmentID request) name)"

definition resolved :: "storage_db \<Rightarrow> persistentVolumeClaimRequest \<Rightarrow> string \<Rightarrow> bool" where
  "resolved d request ns \<longleftrightarrow> (if pq_EnvironmentID request = 0 then ns = TrimSpace (pq_Namespace request)
     else (\<exists>e. tbl_find en_ID (pq_EnvironmentID request) (wd_environments d) = Some e \<and> ns = en_Namespace e))"

lemma ResolveNamespace_exact:
  "triple (untouched d) (refusing ClaimFailed (ResolveNamespace env ports (pq_Namespace request) (pq_EnvironmentID request)))
     (\<lambda>r s. untouched d s \<and> (\<forall>ns. r = Inr ns \<longrightarrow> resolved d request ns))"
  by (rule triple_and [OF looksD [OF looks_refusing [OF looks_ResolveNamespace]]], rule tripleI)
    (auto simp: refusing_def ResolveNamespace_def Let_def tryP_def on_db_def GetEnvironmentByID_def db_read_def db_call_def returnP_def failP_def
      untouched_def resolved_def found_def split: if_splits option.splits)

text \<open>The one call that deletes a claim, after facts \<open>F\<close> about the trace.\<close>

lemma delete_call:
  assumes app: "\<And>t es. F t \<Longrightarrow> F (t @ es)" and may: "\<And>t. F t \<Longrightarrow> G ns name t"
  shows "triple (\<lambda>s. untouched d s \<and> F (st_trace s)) (DeleteManagedPVCContext env ns name i)
    (\<lambda>_ s. \<forall>ns' n. VDeleteClaim ns' n \<in> set (st_trace s) \<longrightarrow> G ns' n (st_trace s))"
proof -
  let ?S = "\<lambda>s. untouched d s \<and> F (st_trace s)"
  let ?Q = "\<lambda>_ s. \<forall>ns' n. VDeleteClaim ns' n \<in> set (st_trace s) \<longrightarrow> G ns' n (st_trace s)"
  have get: "triple ?S (get_claim env ns name) (\<lambda>_. ?S)"
    unfolding get_claim_def by (rule triple_call) (simp add: untouched_def app)
  have del: "triple ?S (call (\<lambda>t. va_delete_claim (ev_api env) t ns name) (\<lambda>_. VDeleteClaim ns name)
      (of_option (CallFailed ''delete persistentvolumeclaim''))) ?Q"
    by (rule triple_call) (auto simp: untouched_def app may)
  show ?thesis
    unfolding DeleteManagedPVCContext_def
    by (intro triple_bindP [OF get] triple_if triple_failP del) (auto simp: untouched_def)
qed

text \<open>What a read of the stored data gives.\<close>

lemma triple_read_exact: "triple (untouched d) (on_db (db_read fault f)) (\<lambda>r s. untouched d s \<and> (r = Inl ErrDatabase \<or> r = f d))"
  by (rule triple_and [OF looksD [OF looks_read]], rule triple_on_db) (auto simp: untouched_def db_read_def db_call_def)

lemma environment_exact:
  "triple (untouched d) (environment_by_id env i) (\<lambda>r s. untouched d s \<and> (\<forall>e. r = Inr e \<longrightarrow> tbl_find en_ID i (wd_environments d) = Some e))"
proof (rule triple_and [OF looksD])
  show "looks (environment_by_id env i)"
    by (simp add: environment_by_id_def GetEnvironmentByID_def looks_refusing looks_read)
  show "triple (untouched d) (environment_by_id env i) (\<lambda>r s. \<forall>e. r = Inr e \<longrightarrow> tbl_find en_ID i (wd_environments d) = Some e)"
    by (rule tripleI) (auto simp: environment_by_id_def refusing_def on_db_def GetEnvironmentByID_def db_read_def db_call_def untouched_def found_def
        split: if_splits option.splits)
qed

lemma triple_refusing: "triple P m (\<lambda>_. Q) \<Longrightarrow> triple P (refusing f m) (\<lambda>_. Q)"
  by (auto simp: triple_def refusing_def split: prod.splits)

definition deletions_guarded :: "storage_env \<Rightarrow> storage_db \<Rightarrow> persistentVolumeClaimRequest \<Rightarrow> string \<Rightarrow> storage_state \<Rightarrow> bool" where
  "deletions_guarded env d request name s \<longleftrightarrow>
     (\<forall>ns n. VDeleteClaim ns n \<in> set (st_trace s) \<longrightarrow> may_delete env d request name ns n (st_trace s))"

lemma untouched_guarded: "untouched d s \<Longrightarrow> deletions_guarded env d request name s"
  by (simp add: untouched_def deletions_guarded_def)

definition unused :: "storage_env \<Rightarrow> storage_db \<Rightarrow> nat \<Rightarrow> string \<Rightarrow> string \<Rightarrow> storage_state \<Rightarrow> bool" where
  "unused env d i ns name s \<longleftrightarrow> workloads_free env ns name (st_trace s) \<and> ((\<forall>k. \<not> ev_fault env k) \<longrightarrow> \<not> templates_use d i name)"

lemma decide_guarded:
  assumes ns: "resolved d request ns"
    and ac: "active = None \<longrightarrow> pq_EnvironmentID request \<noteq> 0 \<longrightarrow> \<not> migrating d (pq_EnvironmentID request) name"
  shows "triple (\<lambda>s. untouched d s \<and> (references = [] \<longrightarrow> unused env d (pq_EnvironmentID request) ns name s))
    (decide_deletion env ports request name ns claim active references) (\<lambda>_. deletions_guarded env d request name)"
  unfolding decide_deletion_def
proof (rule triple_option)
  fix e
  have "looks (refuse_deletion env ports active references claim e)"
    by (auto simp: refuse_deletion_def intro!: looks_intros looks_pvcResponse split: option.splits)
  from looksD [OF this, of d]
  show "triple (\<lambda>s. untouched d s \<and> (references = [] \<longrightarrow> unused env d (pq_EnvironmentID request) ns name s))
      (refuse_deletion env ports active references claim e) (\<lambda>_. deletions_guarded env d request name)"
    by (rule triple_conseq) (auto intro: untouched_guarded)
next
  let ?i = "pq_EnvironmentID request"
  assume v: "ValidatePVCDeletion (pq_ConfirmDataDelete request) (active \<noteq> None) references (ci_ReclaimPolicy claim) = None"
  have del: "triple (\<lambda>s. (untouched d s \<and> workloads_free env ns name (st_trace s)) \<and> ((\<forall>k. \<not> ev_fault env k) \<longrightarrow> \<not> templates_use d ?i name))
      (refusing ClaimFailed (Service_DeletePVCContext env ports ns name ?i)) (\<lambda>_. deletions_guarded env d request name)"
  proof (rule triple_fact, rule triple_refusing)
    assume free: "(\<forall>k. \<not> ev_fault env k) \<longrightarrow> \<not> templates_use d ?i name"
    have may: "may_delete env d request name ns (TrimSpace name) t" if "workloads_free env ns name t" for t
      using that v ns ac free by (auto simp: may_delete_def resolved_def ValidatePVCDeletion_def split: if_splits)
    show "triple (\<lambda>s. untouched d s \<and> workloads_free env ns name (st_trace s)) (Service_DeletePVCContext env ports ns name ?i)
        (\<lambda>_. deletions_guarded env d request name)"
      unfolding Service_DeletePVCContext_def deletions_guarded_def
      by (intro triple_if triple_failP delete_call [where F = "workloads_free env ns name", OF workloads_free_append] may) (auto simp: untouched_def)
  qed
  show "triple (\<lambda>s. untouched d s \<and> (references = [] \<longrightarrow> unused env d ?i ns name s))
      (bindP (refusing ClaimFailed (Service_DeletePVCContext env ports ns name ?i)) (\<lambda>_. returnP name)) (\<lambda>_. deletions_guarded env d request name)"
    by (rule triple_bindP [OF triple_pre [OF del]])
      (use v in \<open>auto simp: ValidatePVCDeletion_def unused_def triple_returnP split: if_splits\<close>)
qed

lemma delete_guarded:
  assumes "po_workloads ports"
  shows "triple (untouched d) (DeletePersistentVolumeClaim env ports (Some request) name) (\<lambda>_. deletions_guarded env d request name)"
proof -
  let ?i = "pq_EnvironmentID request"
  let ?Q = "\<lambda>_. deletions_guarded env d request name"
  have active: "triple (untouched d) (if ?i \<noteq> 0 then active_migration env ?i name else returnP None)
      (\<lambda>r s. untouched d s \<and> (r = Inr None \<longrightarrow> ?i \<noteq> 0 \<longrightarrow> \<not> migrating d ?i name))"
    by (rule triple_if) (auto intro: triple_post [OF active_migration_exact] triple_returnP)
  have refs: "triple (untouched d) (bindP (pvcReferences env ports ?i ns name) (decide_deletion env ports request name ns claim active)) ?Q"
    if "po_store ports" "resolved d request ns" "active = None \<longrightarrow> ?i \<noteq> 0 \<longrightarrow> \<not> migrating d ?i name" for ns claim active
    by (rule triple_bindP [OF references_empty [OF that(1) assms] triple_pre [OF decide_guarded [OF that(2,3)]]])
      (auto intro: untouched_guarded simp: unused_def)
  have tail: "triple (untouched d) (bindP (if ?i \<noteq> 0 then active_migration env ?i name else returnP None) (\<lambda>active.
      bindP (pvcReferences env ports ?i ns name) (decide_deletion env ports request name ns claim active))) ?Q"
    if "po_store ports" "resolved d request ns" for ns claim
  proof (rule triple_bindP [OF active])
    fix a :: "PersistentVolumeMigration option"
    show "triple (\<lambda>s. untouched d s \<and> ((Inr a :: storage_refusal + _) = Inr None \<longrightarrow> ?i \<noteq> 0 \<longrightarrow> \<not> migrating d ?i name))
        (bindP (pvcReferences env ports ?i ns name) (decide_deletion env ports request name ns claim a)) ?Q"
      by (rule triple_fact, rule refs [OF that]) simp
  qed (auto intro: untouched_guarded)
  have claim: "triple (untouched d) (bindP (refusing ClaimFailed (GetManagedPVCContext env ns name ?i)) (\<lambda>claim.
      bindP (if ?i \<noteq> 0 then active_migration env ?i name else returnP None) (\<lambda>active.
      bindP (pvcReferences env ports ?i ns name) (decide_deletion env ports request name ns claim active)))) ?Q"
    if "po_store ports" "resolved d request ns" for ns
    by (rule triple_bindP [OF looksD [OF looks_refusing [OF looks_GetManagedPVC]] tail [OF that]]) (rule untouched_guarded)
  have "triple (\<lambda>s. untouched d s \<and> (\<forall>n. (Inr ns :: storage_refusal + _) = Inr n \<longrightarrow> resolved d request n))
      (bindP (refusing ClaimFailed (GetManagedPVCContext env ns name ?i)) (\<lambda>claim.
      bindP (if ?i \<noteq> 0 then active_migration env ?i name else returnP None) (\<lambda>active.
      bindP (pvcReferences env ports ?i ns name) (decide_deletion env ports request name ns claim active)))) ?Q" if "po_store ports" for ns
    by (rule triple_fact, rule claim [OF that]) simp
  from triple_bindP [OF ResolveNamespace_exact this] show ?thesis
    unfolding DeletePersistentVolumeClaim_def option.case
    by (intro triple_if triple_failP) (simp_all only: not_not conj_absorb untouched_guarded)
qed

end
