(* ===== verification/Storage_Migration.thy ===== *)
theory Storage_Migration
  imports Storage_Cluster
begin

text \<open>
  Moving a local volume to another node: \<open>internal/api/infrastructure/storage/pvc_migration_handler.go\<close> with the
  adapters of \<open>storage_handler.go\<close>. A run stops the Deployment that uses the claim, copies the data into a new
  claim on the target node, switches the Deployment and the templates of its application over and starts it
  again; on an error it puts everything back.
\<close>

section \<open>Shared steps\<close>

text \<open>\<open>m; k\<close> where the result of \<open>m\<close> is ignored.\<close>

definition ignoring :: "('s, 'e, 'a) proc \<Rightarrow> ('s, 'f, 'b) proc \<Rightarrow> ('s, 'f, 'b) proc" where
  "ignoring m k = tryP m (\<lambda>_. k)"

text \<open>
  One pass reads the Deployment and, unless it is to become ready, its pods; \<open>n\<close> seconds are left, and
  whether the deadline comes first is \<open>ev_done\<close>.
\<close>

definition pods_settled :: "storage_env \<Rightarrow> string \<Rightarrow> string \<Rightarrow> bool \<Rightarrow> (volume_error, bool) volume_proc" where
  "pods_settled env namespace name ready =
     bindP (lift_api ApiDirect (get_deployment env namespace name)) (\<lambda>deployment.
       if ready then returnP (dy_AvailableReplicas deployment \<ge> 1)
       else bindP (ListDeploymentPodsContext env namespace name) (\<lambda>pods. returnP (pods = 0)))"

definition settle_timeout :: "bool \<Rightarrow> volume_error" where
  "settle_timeout ready = TaskRefused (if ready then ReadyTimeout else StopTimeout)"

fun settle_loop :: "storage_env \<Rightarrow> string \<Rightarrow> string \<Rightarrow> bool \<Rightarrow> nat \<Rightarrow> (volume_error, unit) volume_proc" where
  "settle_loop env namespace name ready 0 = bindP (pods_settled env namespace name ready) (\<lambda>ok.
     if ok then returnP () else failP (settle_timeout ready))"
| "settle_loop env namespace name ready (Suc n) = bindP (pods_settled env namespace name ready) (\<lambda>ok.
     if ok then returnP ()
     else (\<lambda>s. if ev_done env (st_trace s) then failP (settle_timeout ready) s else settle_loop env namespace name ready n s))"

definition waitForStorageDeploymentPods ::
  "storage_env \<Rightarrow> string \<Rightarrow> string \<Rightarrow> bool \<Rightarrow> nat \<Rightarrow> (volume_error, unit) volume_proc" where
  "waitForStorageDeploymentPods env namespace name ready seconds = settle_loop env namespace name ready seconds"

definition clock :: "storage_env \<Rightarrow> storage_state \<Rightarrow> int" where
  "clock env s = ev_now env (calls (st_world s))"

text \<open>\<open>Service.UpdateMigration\<close>: the row in memory afterwards and the error, if any.\<close>

definition UpdateMigration ::
  "storage_env \<Rightarrow> PersistentVolumeMigration \<Rightarrow> string \<Rightarrow> task_note \<Rightarrow> ('e, db_error option \<times> PersistentVolumeMigration) volume_proc" where
  "UpdateMigration env m status detail s =
     (let m' = stamp_migration (clock env s) m status detail in
      case on_db (save_migration (ev_fault env) (clock env s) m') s of
        (Inl e, s') \<Rightarrow> (Inr (Some e, m'), s')
      | (Inr row, s') \<Rightarrow> (Inr (None, row), s'))"

section \<open>Templates\<close>

definition migrationTemplateSnapshot :: "storage_env \<Rightarrow> nat \<Rightarrow> (db_error, template_snapshot json) volume_proc" where
  "migrationTemplateSnapshot env applicationID =
     bindP (on_db (on_workspace (ListApplicationDeploymentTemplates (ev_fault env) applicationID))) (\<lambda>templates.
       returnP (JSON (map (\<lambda>t. (dt_ID t, dt_Spec t)) templates)))"

definition with_claim :: "string \<Rightarrow> string \<Rightarrow> string \<Rightarrow> ReleaseSpec \<Rightarrow> ReleaseSpec" where
  "with_claim sourceClaim targetClaim targetNode spec =
     spec\<lparr>sp_Volumes := map (\<lambda>v. if vm_ClaimName v = sourceClaim then v\<lparr>vm_ClaimName := targetClaim\<rparr> else v) (sp_Volumes spec),
          sp_NodeName := targetNode\<rparr>"

definition update_template :: "storage_env \<Rightarrow> ApplicationDeploymentTemplate \<Rightarrow> (volume_error, unit) volume_proc" where
  "update_template env template s =
     bindP (\<lambda>s. case on_db (on_workspace (UpdateApplicationDeploymentTemplate (ev_fault env) (clock env s) template)) s of
        (r, s') \<Rightarrow> (wrap_error StorageDB r, s')) (\<lambda>_. returnP ()) s"

definition replace_in_template :: "storage_env \<Rightarrow> string \<Rightarrow> string \<Rightarrow> string \<Rightarrow> ApplicationDeploymentTemplate \<Rightarrow> (volume_error, unit) volume_proc" where
  "replace_in_template env sourceClaim targetClaim targetNode template =
     (case unmarshal (dt_Spec template) of
        None \<Rightarrow> failP (TaskRefused TemplateBroken)
      | Some spec \<Rightarrow>
          if \<not> list_ex (\<lambda>v. vm_ClaimName v = sourceClaim) (sp_Volumes spec) then returnP ()
          else update_template env (template\<lparr>dt_Spec := JSON (with_claim sourceClaim targetClaim targetNode spec)\<rparr>))"

definition list_templates :: "storage_env \<Rightarrow> nat \<Rightarrow> (volume_error, ApplicationDeploymentTemplate list) volume_proc" where
  "list_templates env applicationID s =
     (case on_db (on_workspace (ListApplicationDeploymentTemplates (ev_fault env) applicationID)) s of
        (r, s') \<Rightarrow> (wrap_error StorageDB r, s'))"

definition replaceMigrationTemplateClaims :: "storage_env \<Rightarrow> nat \<Rightarrow> string \<Rightarrow> string \<Rightarrow> string \<Rightarrow> (volume_error, unit) volume_proc" where
  "replaceMigrationTemplateClaims env applicationID sourceClaim targetClaim targetNode =
     bindP (list_templates env applicationID) (foreach (replace_in_template env sourceClaim targetClaim targetNode))"

definition restore_template :: "storage_env \<Rightarrow> template_snapshot \<Rightarrow> ApplicationDeploymentTemplate \<Rightarrow> (volume_error, unit) volume_proc" where
  "restore_template env snapshot template =
     (case map_of snapshot (dt_ID template) of
        None \<Rightarrow> returnP ()
      | Some spec \<Rightarrow> if dt_Spec template \<noteq> spec then update_template env (template\<lparr>dt_Spec := spec\<rparr>) else returnP ())"

definition restoreMigrationTemplates :: "storage_env \<Rightarrow> PersistentVolumeMigration \<Rightarrow> (volume_error, unit) volume_proc" where
  "restoreMigrationTemplates env m =
     (case vg_SourceTemplateSpec m of
        None \<Rightarrow> returnP ()
      | Some doc \<Rightarrow>
          (case unmarshal doc of
             None \<Rightarrow> failP (TaskRefused TemplateBroken)
           | Some snapshot \<Rightarrow> bindP (list_templates env (vg_ApplicationID m)) (foreach (restore_template env snapshot))))"

section \<open>The run\<close>

definition cleanupMigrationTarget :: "storage_env \<Rightarrow> Environment \<Rightarrow> PersistentVolumeMigration \<Rightarrow> ('e, unit) volume_proc" where
  "cleanupMigrationTarget env environment m =
     ignoring (DeletePVCBindingPodContext env (en_Namespace environment) (show_nat (vg_ID m)))
       (if vg_TargetPVCName m \<noteq> []
        then ignoring (DeleteManagedPVCContext env (en_Namespace environment) (vg_TargetPVCName m) (en_ID environment)) (returnP ())
        else returnP ())"

definition put_back :: "storage_env \<Rightarrow> string \<Rightarrow> PersistentVolumeMigration \<Rightarrow> ('e, unit) volume_proc" where
  "put_back env namespace m =
     tryP (DeploymentUsingPVCContext env namespace (vg_TargetPVCName m)) (\<lambda>r.
       ignoring (if (case r of Inl _ \<Rightarrow> 0 | Inr deployments \<Rightarrow> length deployments) = 1
           then ReplaceDeploymentPVCNodeContext env namespace (vg_SourceDeployment m) (vg_TargetPVCName m) (vg_SourcePVCName m) (vg_SourceNodeName m)
           else returnP 0)
       (ignoring (ScaleDeploymentContext env namespace (vg_SourceDeployment m) (vg_SourceReplicas m))
       (ignoring (restoreMigrationTemplates env m) (returnP ()))))"

definition restore_source :: "storage_env \<Rightarrow> PersistentVolumeMigration \<Rightarrow> ('e, unit) volume_proc" where
  "restore_source env m =
     tryP (on_db (GetEnvironmentByID (ev_fault env) (vg_EnvironmentID m))) (\<lambda>r. case r of
       Inl _ \<Rightarrow> returnP ()
     | Inr environment \<Rightarrow> put_back env (en_Namespace environment) m)"

definition failMigration :: "storage_env \<Rightarrow> PersistentVolumeMigration \<Rightarrow> volume_error \<Rightarrow> bool \<Rightarrow> ('e, unit) volume_proc" where
  "failMigration env m cause restoreSource =
     bindP (if restoreSource then restore_source env m else returnP ()) (\<lambda>_.
     bindP (UpdateMigration env m ''failed'' (Failure cause)) (\<lambda>_. returnP ()))"

text \<open>Store the next status; the run ends when this fails.\<close>

definition advance ::
  "storage_env \<Rightarrow> PersistentVolumeMigration \<Rightarrow> string \<Rightarrow> (PersistentVolumeMigration \<Rightarrow> ('e, unit) volume_proc) \<Rightarrow> ('e, unit) volume_proc" where
  "advance env m status k = bindP (UpdateMigration env m status (Note status)) (\<lambda>(err, m'). if err \<noteq> None then returnP () else k m')"

definition server_of_node :: "Server list \<Rightarrow> string \<Rightarrow> Server option" where
  "server_of_node servers nodeName = find (\<lambda>s. sv_K8sNodeName s = nodeName) (rev servers)"

definition check_server :: "storage_env \<Rightarrow> Server \<Rightarrow> (volume_error, unit) volume_proc" where
  "check_server env server = tryP (SSHExec env server ''sudo -n true && command -v tar >/dev/null'') (\<lambda>r. case r of
     Inl out \<Rightarrow> failP (CommandFailed (StepServer (sv_Name server)) (TrimSpace out)) | Inr _ \<Rightarrow> returnP ())"

definition preflightMigration ::
  "storage_env \<Rightarrow> Environment \<Rightarrow> PersistentVolumeMigration \<Rightarrow> (volume_error, Server \<times> Server \<times> PersistentVolumeClaimInfo) volume_proc" where
  "preflightMigration env environment m =
     bindP (GetManagedPVCContext env (en_Namespace environment) (vg_SourcePVCName m) (en_ID environment)) (\<lambda>claim.
       if \<not> ci_IsLocal claim \<or> ci_LocalPath claim = [] \<or> ci_BoundNode claim \<noteq> vg_SourceNodeName m then failP (TaskRefused ClaimChanged)
       else bindP (lift_api NodeUnavailable (GetNodeInfoContext env (vg_TargetNodeName m))) (\<lambda>ready.
         if \<not> ready then failP (TaskRefused TargetNodeNotReady)
         else tryP (on_db (ListServers (ev_fault env))) (\<lambda>r. case r of
           Inl e \<Rightarrow> failP (StorageDB e)
         | Inr servers \<Rightarrow>
             (case (server_of_node servers (vg_SourceNodeName m), server_of_node servers (vg_TargetNodeName m)) of
                (Some source, Some target) \<Rightarrow>
                  if sv_SSHAuthType source \<noteq> ''key'' \<or> sv_SSHAuthType target \<noteq> ''key'' then failP (TaskRefused ServersNeedKeys)
                  else bindP (foreach (check_server env) [source, target]) (\<lambda>_. returnP (source, target, claim))
              | _ \<Rightarrow> failP (TaskRefused ServersNeedKeys)))))"

definition checkMigrationTargetPath :: "storage_env \<Rightarrow> Server \<Rightarrow> string \<Rightarrow> (volume_error, unit) volume_proc" where
  "checkMigrationTargetPath env server path =
     tryP (SSHExec env server (''sudo -n test -d '' @ storageShellQuote path @ '' && df -Pk '' @ storageShellQuote path @ '' >/dev/null'')) (\<lambda>r. case r of
       Inl out \<Rightarrow> failP (CommandFailed StepTargetPath (TrimSpace out)) | Inr _ \<Rightarrow> returnP ())"

text \<open>From the switch of the Deployment to the end.\<close>

definition start_again :: "storage_env \<Rightarrow> Environment \<Rightarrow> PersistentVolumeMigration \<Rightarrow> ('e, unit) volume_proc" where
  "start_again env environment m =
     tryP (ScaleDeploymentContext env (en_Namespace environment) (vg_SourceDeployment m) (vg_SourceReplicas m)) (\<lambda>r. case r of
       Inl e \<Rightarrow> failMigration env m e True
     | Inr _ \<Rightarrow> advance env m ''waiting_ready'' (\<lambda>m.
         tryP (waitForStorageDeploymentPods env (en_Namespace environment) (vg_SourceDeployment m) True 120) (\<lambda>r. case r of
           Inl e \<Rightarrow> failMigration env m e True
         | Inr _ \<Rightarrow> bindP (UpdateMigration env m ''cleanup_pending'' (Note ''cleanup_pending'')) (\<lambda>_. returnP ()))))"

definition cut_over :: "storage_env \<Rightarrow> Environment \<Rightarrow> PersistentVolumeMigration \<Rightarrow> ('e, unit) volume_proc" where
  "cut_over env environment m =
     tryP (DeletePVCBindingPodContext env (en_Namespace environment) (show_nat (vg_ID m))) (\<lambda>r. case r of
       Inl e \<Rightarrow> failMigration env m e True
     | Inr _ \<Rightarrow>
         tryP (ReplaceDeploymentPVCNodeContext env (en_Namespace environment) (vg_SourceDeployment m)
             (vg_SourcePVCName m) (vg_TargetPVCName m) (vg_TargetNodeName m)) (\<lambda>r. case r of
           Inl e \<Rightarrow> failMigration env m e True
         | Inr _ \<Rightarrow>
             tryP (replaceMigrationTemplateClaims env (vg_ApplicationID m) (vg_SourcePVCName m) (vg_TargetPVCName m) (vg_TargetNodeName m)) (\<lambda>r. case r of
               Inl e \<Rightarrow> failMigration env m e True
             | Inr _ \<Rightarrow> start_again env environment m)))"

definition undo_and_fail :: "storage_env \<Rightarrow> Environment \<Rightarrow> PersistentVolumeMigration \<Rightarrow> volume_error \<Rightarrow> bool \<Rightarrow> ('e, unit) volume_proc" where
  "undo_and_fail env environment m cause restoreSource =
     bindP (cleanupMigrationTarget env environment m) (\<lambda>_. failMigration env m cause restoreSource)"

definition copy_data ::
  "storage_env \<Rightarrow> Environment \<Rightarrow> Server \<Rightarrow> Server \<Rightarrow> string \<Rightarrow> string \<Rightarrow> PersistentVolumeMigration \<Rightarrow> ('e, unit) volume_proc" where
  "copy_data env environment source target sourcePath targetPath m =
     bindP (streamPVCData env source target sourcePath targetPath) (\<lambda>(bytesCopied, err).
       let m = m\<lparr>vg_BytesCopied := bytesCopied\<rparr> in
       case err of
         Some e \<Rightarrow> undo_and_fail env environment m e True
       | None \<Rightarrow> advance env m ''cutover'' (cut_over env environment))"

definition stop_and_copy ::
  "storage_env \<Rightarrow> Environment \<Rightarrow> PersistentVolumeMigration \<Rightarrow> Server \<Rightarrow> Server \<Rightarrow> PersistentVolumeClaimInfo \<Rightarrow> PersistentVolumeClaimInfo \<Rightarrow>
   ('e, unit) volume_proc" where
  "stop_and_copy env environment m source target claim targetClaim =
     tryP (ScaleDeploymentContext env (en_Namespace environment) (vg_SourceDeployment m) 0) (\<lambda>r. case r of
       Inl e \<Rightarrow> undo_and_fail env environment m e False
     | Inr _ \<Rightarrow>
         tryP (waitForStorageDeploymentPods env (en_Namespace environment) (vg_SourceDeployment m) False 90) (\<lambda>r. case r of
           Inl e \<Rightarrow> undo_and_fail env environment m e True
         | Inr _ \<Rightarrow> advance env m ''copying'' (copy_data env environment source target (ci_LocalPath claim) (ci_LocalPath targetClaim))))"

definition provision_target ::
  "storage_env \<Rightarrow> Environment \<Rightarrow> PersistentVolumeMigration \<Rightarrow> Server \<Rightarrow> Server \<Rightarrow> PersistentVolumeClaimInfo \<Rightarrow> string \<Rightarrow>
   ('e, unit) volume_proc" where
  "provision_target env environment m source target claim helperImage =
     tryP (CreateManagedPVCContext env (en_Namespace environment) (en_ID environment)
         \<lparr>vq_Name = vg_TargetPVCName m, vq_Storage = ci_Storage claim, vq_StorageClassName = ci_StorageClassName claim\<rparr>) (\<lambda>r. case r of
       Inl e \<Rightarrow> failMigration env m e False
     | Inr _ \<Rightarrow>
         tryP (CreatePVCBindingPodContext env (en_Namespace environment) (show_nat (vg_ID m)) (vg_TargetPVCName m) (vg_TargetNodeName m) helperImage) (\<lambda>r. case r of
           Inl e \<Rightarrow> undo_and_fail env environment m e False
         | Inr _ \<Rightarrow>
             tryP (WaitForManagedPVCBound env 180 (en_Namespace environment) (vg_TargetPVCName m) (en_ID environment)) (\<lambda>r. case r of
               Inl e \<Rightarrow> undo_and_fail env environment m e False
             | Inr targetClaim \<Rightarrow>
                 if \<not> ci_IsLocal targetClaim \<or> ci_BoundNode targetClaim \<noteq> vg_TargetNodeName m
                 then undo_and_fail env environment m (TaskRefused TargetNotOnNode) False
                 else tryP (checkMigrationTargetPath env target (ci_LocalPath targetClaim)) (\<lambda>r. case r of
                   Inl e \<Rightarrow> undo_and_fail env environment m e False
                 | Inr _ \<Rightarrow> advance env m ''stopping_source'' (\<lambda>m. stop_and_copy env environment m source target claim targetClaim)))))"

definition runPersistentVolumeMigration :: "storage_env \<Rightarrow> nat \<Rightarrow> string \<Rightarrow> ('e, unit) volume_proc" where
  "runPersistentVolumeMigration env i helperImage =
     tryP (on_db (GetPersistentVolumeMigration (ev_fault env) i)) (\<lambda>r. case r of
       Inl _ \<Rightarrow> returnP ()
     | Inr m \<Rightarrow>
         tryP (on_db (GetEnvironmentByID (ev_fault env) (vg_EnvironmentID m))) (\<lambda>r. case r of
           Inl e \<Rightarrow> failMigration env m (StorageDB e) False
         | Inr environment \<Rightarrow> advance env m ''preflight'' (\<lambda>m.
             tryP (preflightMigration env environment m) (\<lambda>r. case r of
               Inl e \<Rightarrow> failMigration env m e False
             | Inr (source, target, claim) \<Rightarrow>
                 advance env m ''provisioning_target'' (\<lambda>m. provision_target env environment m source target claim helperImage)))))"

section \<open>Which calls a run may make\<close>

text \<open>
  A policy says which event may follow a trace; a trace obeys it if each of its events may follow the
  events before it.
\<close>

definition obeys :: "(volume_event list \<Rightarrow> volume_event \<Rightarrow> bool) \<Rightarrow> volume_event list \<Rightarrow> bool" where
  "obeys allowed t \<longleftrightarrow> (\<forall>i < length t. allowed (take i t) (t ! i))"

lemma obeys_Nil [simp]: "obeys allowed []"
  by (simp add: obeys_def)

lemma obeys_snoc [simp]: "obeys allowed (t @ [e]) \<longleftrightarrow> obeys allowed t \<and> allowed t e"
  by (auto simp: obeys_def nth_append less_Suc_eq)

lemma obeys_two: "obeys allowed (t @ [e, e']) \<longleftrightarrow> obeys allowed t \<and> allowed t e \<and> allowed (t @ [e]) e'"
  using obeys_snoc [of allowed "t @ [e]" e'] by simp

fun is_copy :: "volume_event \<Rightarrow> bool" where
  "is_copy (VStream _ _ _ _ ok) = ok"
| "is_copy _ = False"

definition copied :: "volume_event list \<Rightarrow> bool" where
  "copied t = list_ex is_copy t"

lemma copied_simps [simp]:
  "\<not> copied []" "copied (t @ t') \<longleftrightarrow> copied t \<or> copied t'" "copied (e # t) \<longleftrightarrow> is_copy e \<or> copied t"
  by (simp_all add: copied_def)

lemma copied_harmless: "list_all harmless es \<Longrightarrow> \<not> copied es"
proof (induction es)
  case (Cons e es)
  then show ?case by (cases e) auto
qed simp

locale event_policy =
  fixes allowed :: "volume_event list \<Rightarrow> volume_event \<Rightarrow> bool"
  assumes harmless_allowed: "harmless e \<Longrightarrow> allowed t e"
begin

lemma obeys_harmless: "list_all harmless es \<Longrightarrow> obeys allowed t \<Longrightarrow> obeys allowed (t @ es)"
proof (induction es rule: rev_induct)
  case (snoc e es)
  then show ?case using obeys_snoc [of allowed "t @ es" e] by (simp add: harmless_allowed)
qed simp

text \<open>Obeying the policy, together with whether data has been copied and with the environments.\<close>

lemma quiet:
  assumes "adds harmless p"
  shows "triple (\<lambda>s. obeys allowed (st_trace s) \<and> copied (st_trace s) = b \<and> E (wd_environments (db (st_world s)))) p
    (\<lambda>_ s. obeys allowed (st_trace s) \<and> copied (st_trace s) = b \<and> E (wd_environments (db (st_world s))))"
proof (rule tripleI)
  fix s r s'
  assume pre: "obeys allowed (st_trace s) \<and> copied (st_trace s) = b \<and> E (wd_environments (db (st_world s)))" and p: "p s = (r, s')"
  obtain es where "st_trace s' = st_trace s @ es" "list_all harmless es"
      "wd_environments (db (st_world s')) = wd_environments (db (st_world s))"
    using assms p by (rule addsE)
  with pre show "obeys allowed (st_trace s') \<and> copied (st_trace s') = b \<and> E (wd_environments (db (st_world s')))"
    by (simp add: obeys_harmless copied_harmless)
qed

end

text \<open>The commands of a migration only look at the servers.\<close>

definition looking_command :: "string \<Rightarrow> bool" where
  "looking_command command \<longleftrightarrow> command = ''sudo -n true && command -v tar >/dev/null'' \<or>
     (\<exists>path. command = ''sudo -n test -d '' @ storageShellQuote path @ '' && df -Pk '' @ storageShellQuote path @ '' >/dev/null'')"

text \<open>
  What a migration may do, where \<open>t\<close> is what it did: delete the target claim as long as nothing was copied;
  change the replica count, or switch the claim of the Deployment it has just read, to the target only after
  the copy; copy only when the last call found no pod of the Deployment.
\<close>

definition mig_allowed :: "string \<Rightarrow> PersistentVolumeMigration \<Rightarrow> volume_event list \<Rightarrow> volume_event \<Rightarrow> bool" where
  "mig_allowed ns m t e =
     (case e of
        VDeleteClaim ns' name \<Rightarrow> ns' = ns \<and> name = vg_TargetPVCName m \<and> \<not> copied t
      | VCreateClaim claim \<Rightarrow> pv_Namespace claim = ns \<and> pv_Name claim = TrimSpace (vg_TargetPVCName m)
      | VUpdateDeployment d _ \<Rightarrow>
          (\<exists>d0. t \<noteq> [] \<and> last t = VGetDeployment ns (vg_SourceDeployment m) (Inr d0) \<and>
             (d = d0\<lparr>dy_Replicas := Some 0\<rparr> \<and> \<not> copied t \<or>
              d = d0\<lparr>dy_Replicas := Some (vg_SourceReplicas m)\<rparr> \<or>
              d = switched (vg_SourcePVCName m) (vg_TargetPVCName m) (vg_TargetNodeName m) d0 \<and> managed_workload d0 \<and> copied t \<or>
              d = switched (vg_TargetPVCName m) (vg_SourcePVCName m) (vg_SourceNodeName m) d0 \<and> managed_workload d0))
      | VStream source target _ _ _ \<Rightarrow>
          sv_K8sNodeName source = vg_SourceNodeName m \<and> sv_K8sNodeName target = vg_TargetNodeName m \<and>
          t \<noteq> [] \<and> (\<exists>selector. last t = VListPods ns selector (Inr 0)) \<and> \<not> copied t
      | VCommand _ command _ \<Rightarrow> looking_command command
      | _ \<Rightarrow> True)"

interpretation mg: event_policy "mig_allowed ns m" for ns m
proof unfold_locales
  fix e t
  show "harmless e \<Longrightarrow> mig_allowed ns m t e" by (cases e) (auto simp: mig_allowed_def)
qed

text \<open>What a migration is about does not change while it runs.\<close>

definition plan :: "PersistentVolumeMigration \<Rightarrow> PersistentVolumeMigration" where
  "plan m = m\<lparr>vg_ID := 0, vg_Status := [], vg_Detail := NoNote, vg_BytesCopied := 0, vg_CompletedAt := None, vg_CreatedAt := 0\<rparr>"

lemma plan_fields:
  assumes "plan m' = plan m"
  shows "vg_EnvironmentID m' = vg_EnvironmentID m" "vg_ApplicationID m' = vg_ApplicationID m"
    "vg_SourcePVCName m' = vg_SourcePVCName m" "vg_TargetPVCName m' = vg_TargetPVCName m"
    "vg_SourceNodeName m' = vg_SourceNodeName m" "vg_TargetNodeName m' = vg_TargetNodeName m"
    "vg_SourceDeployment m' = vg_SourceDeployment m" "vg_SourceReplicas m' = vg_SourceReplicas m"
    "vg_SourceTemplateSpec m' = vg_SourceTemplateSpec m"
  using arg_cong [OF assms, of vg_EnvironmentID]
    arg_cong [OF assms, of vg_ApplicationID]
    arg_cong [OF assms, of vg_SourcePVCName]
    arg_cong [OF assms, of vg_TargetPVCName]
    arg_cong [OF assms, of vg_SourceNodeName]
    arg_cong [OF assms, of vg_TargetNodeName]
    arg_cong [OF assms, of vg_SourceDeployment]
    arg_cong [OF assms, of vg_SourceReplicas]
    arg_cong [OF assms, of vg_SourceTemplateSpec]
  by (simp_all add: plan_def)

lemma plan_simps [simp]:
  "plan (stamp_migration now m status detail) = plan m" "plan (m\<lparr>vg_BytesCopied := n\<rparr>) = plan m"
  "plan (m\<lparr>vg_ID := i, vg_CreatedAt := c\<rparr>) = plan m"
  by (simp_all add: plan_def stamp_migration_def)

lemma mig_allowed_plan:
  assumes "plan m' = plan m"
  shows "mig_allowed ns m' = mig_allowed ns m"
  by (intro ext) (simp only: mig_allowed_def plan_fields [OF assms])

text \<open>The namespace is that of the environment of the migration, which a run does not change.\<close>

definition in_namespace :: "string \<Rightarrow> PersistentVolumeMigration \<Rightarrow> Environment list \<Rightarrow> bool" where
  "in_namespace ns m rows \<longleftrightarrow> (\<forall>e. tbl_find en_ID (vg_EnvironmentID m) rows = Some e \<longrightarrow> en_Namespace e = ns)"

definition mig_state :: "string \<Rightarrow> PersistentVolumeMigration \<Rightarrow> bool \<Rightarrow> storage_state \<Rightarrow> bool" where
  "mig_state ns m b s \<longleftrightarrow> obeys (mig_allowed ns m) (st_trace s) \<and> copied (st_trace s) = b \<and>
     in_namespace ns m (wd_environments (db (st_world s)))"

lemma mig_state_plan:
  assumes "plan m' = plan m"
  shows "mig_state ns m' b s = mig_state ns m b s"
  by (simp only: mig_state_def mig_allowed_plan [OF assms] in_namespace_def plan_fields [OF assms])

section \<open>Every run obeys the policy\<close>

lemma save_migration_row:
  "save_migration fault now m w = (Inr row, w') \<Longrightarrow> plan row = plan m \<and> (vg_ID m \<noteq> 0 \<longrightarrow> row = m)"
  by (auto simp: save_migration_def CreatePersistentVolumeMigration_def insert_migration_def db_call_def Let_def split: if_splits)

lemma save_migration_keeps: "keeps environments_kept (save_migration fault now m)"
  unfolding save_migration_def CreatePersistentVolumeMigration_def
  by (intro ek.keeps_intros) (simp_all add: insert_migration_def note_storage_id_def Let_def)

lemma UpdateMigration_result:
  assumes "UpdateMigration env m status detail s = (r, s')"
  shows "st_trace s' = st_trace s \<and> wd_environments (db (st_world s')) = wd_environments (db (st_world s)) \<and>
    (\<exists>err m'. r = Inr (err, m') \<and> plan m' = plan m)"
  using assms save_migration_row [of "ev_fault env" "clock env s" "stamp_migration (clock env s) m status detail" "st_world s"]
    keepsD [OF save_migration_keeps, of "ev_fault env" "clock env s" "stamp_migration (clock env s) m status detail" "st_world s"]
  by (auto simp: UpdateMigration_def on_db_def Let_def split: prod.splits sum.splits)

lemma adds_UpdateMigration: "adds P (UpdateMigration env m status detail)"
  unfolding adds_def
  using UpdateMigration_result [OF prod.collapse [symmetric], of env m status detail] by (auto intro: exI [of _ "[]"])

text \<open>A stored status does not change what the run may do next.\<close>

lemma advance_obeys:
  fixes k :: "PersistentVolumeMigration \<Rightarrow> ('e, unit) volume_proc"
  assumes "\<And>m'. plan m' = plan m \<Longrightarrow> triple (\<lambda>s. mig_state ns m' b s \<and> F (st_trace s)) (k m') (\<lambda>_ s. \<exists>b'. mig_state ns m' b' s)"
  shows "triple (\<lambda>s. mig_state ns m b s \<and> F (st_trace s)) (advance env m status k) (\<lambda>_ s. \<exists>b'. mig_state ns m b' s)"
proof (rule tripleI)
  fix s r s'
  assume pre: "mig_state ns m b s \<and> F (st_trace s)" and a: "advance env m status k s = (r, s')"
  obtain q :: "'e + db_error option \<times> PersistentVolumeMigration" and s1
    where u: "UpdateMigration env m status (Note status) s = (q, s1)" by fastforce
  obtain err m' where q: "q = Inr (err, m')" "plan m' = plan m" "st_trace s1 = st_trace s"
      "wd_environments (db (st_world s1)) = wd_environments (db (st_world s))"
    using UpdateMigration_result [OF u] by blast
  have s1: "mig_state ns m b s1 \<and> F (st_trace s1)" using pre q by (simp add: mig_state_def)
  show "\<exists>b'. mig_state ns m b' s'"
  proof (cases err)
    case None
    then have "k m' s1 = (r, s')" using a u q(1) by (simp add: advance_def bindP_def)
    then have "\<exists>b'. mig_state ns m' b' s'"
      using tripleD [OF assms [OF q(2)]] s1 mig_state_plan [OF q(2)] by simp
    then show ?thesis using mig_state_plan [OF q(2)] by simp
  next
    case (Some e)
    then show ?thesis using a u q(1) s1 by (auto simp: advance_def bindP_def returnP_def)
  qed
qed

lemma advance_stage:
  assumes "\<And>m'. plan m' = plan m \<Longrightarrow> triple (mig_state ns m' b) (k m') (\<lambda>_ s. \<exists>b'. mig_state ns m' b' s)"
  shows "triple (mig_state ns m b) (advance env m status k) (\<lambda>_ s. \<exists>b'. mig_state ns m b' s)"
  using advance_obeys [where F = "\<lambda>_. True", of m ns b k env status] assms by simp

lemma mig_end: "triple (mig_state ns m b) p (\<lambda>_. mig_state ns m b) \<Longrightarrow> triple (mig_state ns m b) p (\<lambda>_ s. \<exists>b'. mig_state ns m b' s)"
  by (erule triple_post) blast

lemma triple_ScaleDeployment:
  assumes "replicas = vg_SourceReplicas m \<or> replicas = 0 \<and> \<not> b"
  shows "triple (mig_state ns m b) (ScaleDeploymentContext env ns (vg_SourceDeployment m) replicas) (\<lambda>_. mig_state ns m b)"
  by (rule tripleI) (use assms in \<open>auto simp: ScaleDeploymentContext_def lift_api_def get_deployment_def update_deployment_def call_def Let_def bindP_def
      mig_state_def mig_allowed_def obeys_two split: sum.splits prod.splits\<close>)

lemma triple_Replace:
  assumes "(src, tgt, node) = (vg_SourcePVCName m, vg_TargetPVCName m, vg_TargetNodeName m) \<and> b \<or>
    (src, tgt, node) = (vg_TargetPVCName m, vg_SourcePVCName m, vg_SourceNodeName m)"
  shows "triple (mig_state ns m b) (ReplaceDeploymentPVCNodeContext env ns (vg_SourceDeployment m) src tgt node) (\<lambda>_. mig_state ns m b)"
  by (rule tripleI) (use assms in \<open>auto simp: ReplaceDeploymentPVCNodeContext_def lift_api_def get_deployment_def update_deployment_def call_def Let_def
      bindP_def failP_def returnP_def mig_state_def mig_allowed_def obeys_two split: sum.splits prod.splits if_splits\<close>)


lemmas adds_migration = adds_intros adds_cluster adds_UpdateMigration template_update_adds template_list_adds

lemma adds_update_template: "adds P (update_template env template)"
  unfolding adds_def
proof
  fix s
  obtain r s' where u: "on_db (on_workspace (UpdateApplicationDeploymentTemplate (ev_fault env) (clock env s) template)) s = (r, s')" by fastforce
  obtain es where es: "st_trace s' = st_trace s @ es" "list_all P es" "environments_kept (db (st_world s)) (db (st_world s'))"
    using template_update_adds u by (rule addsE)
  have "snd (update_template env template s) = s'"
    using u by (auto simp: update_template_def bindP_def returnP_def wrap_error_def split: sum.splits)
  with es show "environments_kept (db (st_world s)) (db (st_world (snd (update_template env template s)))) \<and>
      (\<exists>es. st_trace (snd (update_template env template s)) = st_trace s @ es \<and> list_all P es)" by auto
qed

lemma adds_list_templates: "adds P (list_templates env i)"
  using template_list_adds [of P "ev_fault env" i] by (simp add: adds_def list_templates_def case_prod_beta)

lemma adds_replace_templates: "adds P (replaceMigrationTemplateClaims env i a b c)"
  unfolding replaceMigrationTemplateClaims_def replace_in_template_def
  by (auto intro!: adds_intros adds_update_template adds_list_templates split: option.splits)

lemma adds_restore_templates: "adds P (restoreMigrationTemplates env m)"
  unfolding restoreMigrationTemplates_def restore_template_def
  by (auto intro!: adds_intros adds_update_template adds_list_templates split: option.splits)

lemma triple_ignoring:
  assumes "triple P m (\<lambda>_. R)" and "triple R k Q"
  shows "triple P (ignoring m k) Q"
  unfolding ignoring_def using assms by (rule triple_tryP)

lemma keep_ignoring: "triple S m (\<lambda>_. S) \<Longrightarrow> triple S k (\<lambda>_. S) \<Longrightarrow> triple S (ignoring m k) (\<lambda>_. S)"
  by (rule triple_ignoring)

lemma mig_quiet: "adds harmless p \<Longrightarrow> triple (mig_state ns m b) p (\<lambda>_. mig_state ns m b)"
  unfolding mig_state_def by (rule mg.quiet)

text \<open>Putting the source back obeys the policy before and after the copy.\<close>

lemma put_back_obeys: "triple (mig_state ns m b) (put_back env ns m) (\<lambda>_. mig_state ns m b)"
  unfolding put_back_def
  by (intro keep_tryP keep_ignoring mig_quiet adds_DeploymentUsingPVC triple_if triple_Replace triple_ScaleDeployment
      adds_restore_templates triple_returnP) simp_all

lemma restore_source_obeys: "triple (mig_state ns m b) (restore_source env m) (\<lambda>_. mig_state ns m b)"
  unfolding restore_source_def
proof (rule triple_tryP)
  show "triple (mig_state ns m b) (on_db (GetEnvironmentByID (ev_fault env) (vg_EnvironmentID m)))
      (\<lambda>r s. mig_state ns m b s \<and> (\<forall>e. r = Inr e \<longrightarrow> en_Namespace e = ns))"
    by (rule triple_on_db) (auto simp: GetEnvironmentByID_def db_read_def db_call_def mig_state_def in_namespace_def)
  fix r :: "db_error + Environment"
  show "triple (\<lambda>s. mig_state ns m b s \<and> (\<forall>e. r = Inr e \<longrightarrow> en_Namespace e = ns))
      (case r of Inl _ \<Rightarrow> returnP () | Inr environment \<Rightarrow> put_back env (en_Namespace environment) m) (\<lambda>_. mig_state ns m b)"
  proof (cases r)
    case (Inr e)
    have "en_Namespace e = ns \<Longrightarrow> triple (mig_state ns m b) (put_back env (en_Namespace e) m) (\<lambda>_. mig_state ns m b)"
      using put_back_obeys by simp
    then have "triple (\<lambda>s. mig_state ns m b s \<and> en_Namespace e = ns) (put_back env (en_Namespace e) m) (\<lambda>_. mig_state ns m b)"
      by (rule triple_fact)
    then show ?thesis using Inr by simp
  qed (simp add: triple_returnP)
qed

lemma failMigration_obeys: "triple (mig_state ns m b) (failMigration env m cause restoreSource) (\<lambda>_. mig_state ns m b)"
  unfolding failMigration_def
proof (rule triple_bindP [where R = "\<lambda>_. mig_state ns m b"])
  show "triple (mig_state ns m b) (if restoreSource then restore_source env m else returnP ()) (\<lambda>_. mig_state ns m b)"
    by (simp add: restore_source_obeys triple_returnP)
  show "triple (mig_state ns m b) (bindP (UpdateMigration env m ''failed'' (Failure cause)) (\<lambda>_. returnP ())) (\<lambda>_. mig_state ns m b)"
    by (intro mig_quiet adds_bindP adds_UpdateMigration adds_returnP)
qed simp

lemma undo_obeys:
  assumes "en_Namespace environment = ns"
  shows "triple (mig_state ns m False) (undo_and_fail env environment m cause restoreSource) (\<lambda>_. mig_state ns m False)"
proof -
  let ?S = "mig_state ns m False"
  have delete: "triple ?S (DeleteManagedPVCContext env ns (vg_TargetPVCName m) i) (\<lambda>_. ?S)" for i
    unfolding DeleteManagedPVCContext_def
  proof (rule keep_bindP [OF mig_quiet [OF adds_get_claim]])
    fix claim
    show "triple ?S (if \<not> isManagedPVC claim i then failP (ClaimRefused (ClaimNotOfEnvironment (vg_TargetPVCName m)))
       else if infrastructurePVCOwner claim \<noteq> [] then failP (ClaimRefused (ClaimOfInfrastructure (vg_TargetPVCName m) (infrastructurePVCOwner claim)))
       else call (\<lambda>t. va_delete_claim (ev_api env) t ns (vg_TargetPVCName m)) (\<lambda>_. VDeleteClaim ns (vg_TargetPVCName m))
         (of_option (CallFailed ''delete persistentvolumeclaim''))) (\<lambda>_. ?S)"
      by (intro triple_if triple_failP triple_call) (auto simp: mig_state_def mig_allowed_def)
  qed
  have "triple ?S (cleanupMigrationTarget env environment m) (\<lambda>_. ?S)"
    unfolding cleanupMigrationTarget_def assms
    by (intro keep_ignoring mig_quiet adds_DeletePVCBindingPod triple_if triple_returnP delete)
  then show ?thesis
    unfolding undo_and_fail_def by (rule keep_bindP) (rule failMigration_obeys)
qed


text \<open>The wait for the stop ends with an empty list of pods.\<close>

definition pods_gone :: "string \<Rightarrow> volume_event list \<Rightarrow> bool" where
  "pods_gone ns t \<longleftrightarrow> t \<noteq> [] \<and> (\<exists>selector. last t = VListPods ns selector (Inr 0))"

lemma adds_pods_settled: "adds harmless (pods_settled env ns name ready)"
  by (auto simp: pods_settled_def intro!: adds_intros adds_cluster)

lemma adds_settle_loop: "adds harmless (settle_loop env ns name ready n)"
  by (induction n) (auto intro!: adds_intros adds_pods_settled adds_choice)

lemma pods_settled_gone: "triple (\<lambda>_. True) (pods_settled env ns name False) (\<lambda>r s. r = Inr True \<longrightarrow> pods_gone ns (st_trace s))"
  by (rule tripleI) (auto simp: pods_settled_def ListDeploymentPodsContext_def lift_api_def get_deployment_def call_def Let_def bindP_def returnP_def
      pods_gone_def split: sum.splits prod.splits)

lemma settle_loop_gone: "triple (\<lambda>_. True) (settle_loop env ns name False n) (\<lambda>r s. r = Inr () \<longrightarrow> pods_gone ns (st_trace s))"
proof (induction n)
  case 0
  show ?case unfolding settle_loop.simps
    by (rule triple_bindP [OF pods_settled_gone]) (auto simp: triple_def returnP_def failP_def split: if_splits)
next
  case (Suc n)
  then show ?case unfolding settle_loop.simps
    by (intro triple_bindP [OF pods_settled_gone]) (auto simp: triple_def returnP_def failP_def split: if_splits)
qed

lemma wait_stopped:
  "triple (mig_state ns m b) (waitForStorageDeploymentPods env ns name False n)
     (\<lambda>r s. mig_state ns m b s \<and> (r = Inr () \<longrightarrow> pods_gone ns (st_trace s)))"
  using triple_conj [OF mig_quiet [OF adds_settle_loop] settle_loop_gone] by (simp add: waitForStorageDeploymentPods_def)

lemma stream_obeys:
  assumes "sv_K8sNodeName source = vg_SourceNodeName m" and "sv_K8sNodeName target = vg_TargetNodeName m"
  shows "triple (\<lambda>s. mig_state ns m False s \<and> pods_gone ns (st_trace s)) (streamPVCData env source target sp tp)
    (\<lambda>r s. \<exists>n err. r = Inr (n, err) \<and> mig_state ns m (err = None) s)"
  unfolding streamPVCData_def Let_def
  by (rule triple_call) (use assms in \<open>auto simp: mig_state_def mig_allowed_def pods_gone_def stream_ok_def split: stream_run.splits option.splits\<close>)

section \<open>The stages\<close>

lemma start_again_obeys:
  assumes "en_Namespace environment = ns"
  shows "triple (mig_state ns m True) (start_again env environment m) (\<lambda>_ s. \<exists>b'. mig_state ns m b' s)"
  unfolding start_again_def assms
proof (rule triple_tryP [OF triple_ScaleDeployment [OF disjI1 [OF refl]]], rule triple_sum)
  fix e :: volume_error
  show "triple (mig_state ns m True) (failMigration env m e True) (\<lambda>_ s. \<exists>b'. mig_state ns m b' s)"
    by (intro mig_end failMigration_obeys)
  show "triple (mig_state ns m True) (advance env m ''waiting_ready'' (\<lambda>m.
         tryP (waitForStorageDeploymentPods env ns (vg_SourceDeployment m) True 120) (\<lambda>r. case r of
           Inl e \<Rightarrow> failMigration env m e True
         | Inr _ \<Rightarrow> bindP (UpdateMigration env m ''cleanup_pending'' (Note ''cleanup_pending'')) (\<lambda>_. returnP ())))) (\<lambda>_ s. \<exists>b'. mig_state ns m b' s)"
    unfolding waitForStorageDeploymentPods_def
    by (intro advance_stage mig_end keep_tryP triple_sum mig_quiet adds_settle_loop failMigration_obeys adds_bindP adds_UpdateMigration adds_returnP)
qed

lemma cut_over_obeys:
  assumes "en_Namespace environment = ns"
  shows "triple (mig_state ns m True) (cut_over env environment m) (\<lambda>_ s. \<exists>b'. mig_state ns m b' s)"
  unfolding cut_over_def assms
  by (intro triple_tryP [OF mig_quiet [OF adds_DeletePVCBindingPod]] triple_tryP [OF triple_Replace] triple_tryP [OF mig_quiet [OF adds_replace_templates]]
      triple_sum start_again_obeys mig_end [OF failMigration_obeys] assms) simp

lemma copy_data_obeys:
  assumes "en_Namespace environment = ns"
    and "sv_K8sNodeName source = vg_SourceNodeName m" and "sv_K8sNodeName target = vg_TargetNodeName m"
  shows "triple (\<lambda>s. mig_state ns m False s \<and> pods_gone ns (st_trace s)) (copy_data env environment source target sp tp m :: ('e, unit) volume_proc)
    (\<lambda>_ s. \<exists>b'. mig_state ns m b' s)"
  unfolding copy_data_def
proof (rule triple_bindP [OF stream_obeys [OF assms(2,3)]])
  fix x :: "nat \<times> volume_error option"
  obtain n err where x: "x = (n, err)" by (cases x)
  let ?m = "m\<lparr>vg_BytesCopied := n\<rparr>"
  have same: "mig_state ns ?m b = mig_state ns m b" for b by (rule ext, rule mig_state_plan) simp
  have "triple (mig_state ns ?m (err = None))
     (case err of Some e \<Rightarrow> undo_and_fail env environment ?m e True | None \<Rightarrow> advance env ?m ''cutover'' (cut_over env environment))
     (\<lambda>_ s. \<exists>b'. mig_state ns ?m b' s)"
    by (cases err) (auto intro!: mig_end [OF undo_obeys] advance_stage cut_over_obeys assms(1))
  then show "triple (\<lambda>s. \<exists>n err. (Inr x :: 'e + _) = Inr (n, err) \<and> mig_state ns m (err = None) s)
      (case x of (bytesCopied, err) \<Rightarrow> let m = m\<lparr>vg_BytesCopied := bytesCopied\<rparr> in
        case err of Some e \<Rightarrow> undo_and_fail env environment m e True | None \<Rightarrow> advance env m ''cutover'' (cut_over env environment))
      (\<lambda>_ s. \<exists>b'. mig_state ns m b' s)"
    by (simp add: x same Let_def)
qed auto

lemma stop_and_copy_obeys:
  assumes ns: "en_Namespace environment = ns"
    and nodes: "sv_K8sNodeName source = vg_SourceNodeName m" "sv_K8sNodeName target = vg_TargetNodeName m"
  shows "triple (mig_state ns m False) (stop_and_copy env environment m source target claim targetClaim) (\<lambda>_ s. \<exists>b'. mig_state ns m b' s)"
proof -
  have copy: "triple (\<lambda>s. mig_state ns m' False s \<and> pods_gone ns (st_trace s)) (copy_data env environment source target sp tp m') (\<lambda>_ s. \<exists>b'. mig_state ns m' b' s)"
    if "plan m' = plan m" for m' sp tp
    by (rule copy_data_obeys) (use ns nodes plan_fields [OF that] in simp_all)
  show ?thesis
    unfolding stop_and_copy_def ns
    by (rule triple_tryP [OF triple_ScaleDeployment], simp, rule triple_sum, intro mig_end undo_obeys ns, rule triple_tryP [OF wait_stopped], rule triple_sum)
      (simp_all add: mig_end [OF undo_obeys [OF ns]] advance_obeys copy)
qed

lemma SSH_obeys: "looking_command command \<Longrightarrow> triple (mig_state ns m b) (SSHExec env server command) (\<lambda>_. mig_state ns m b)"
  unfolding SSHExec_def by (rule triple_call) (auto simp: mig_state_def mig_allowed_def split: prod.splits)

lemma check_server_obeys: "triple (mig_state ns m b) (check_server env server) (\<lambda>_. mig_state ns m b)"
  unfolding check_server_def by (intro keep_tryP SSH_obeys triple_sum triple_failP triple_returnP) (simp add: looking_command_def)

lemma provision_obeys:
  assumes "en_Namespace environment = ns"
    and "sv_K8sNodeName source = vg_SourceNodeName m" and "sv_K8sNodeName target = vg_TargetNodeName m"
  shows "triple (mig_state ns m False) (provision_target env environment m source target claim img) (\<lambda>_ s. \<exists>b'. mig_state ns m b' s)"
proof -
  let ?q = "\<lparr>vq_Name = vg_TargetPVCName m, vq_Storage = ci_Storage claim, vq_StorageClassName = ci_StorageClassName claim\<rparr>"
  have create: "triple (mig_state ns m False) (CreateManagedPVCContext env ns i ?q) (\<lambda>_. mig_state ns m False)" for i
    unfolding CreateManagedPVCContext_def Let_def
    by (intro triple_if triple_failP triple_option triple_prod triple_call) (auto simp: mig_state_def mig_allowed_def new_claim_def)
  have check: "triple (mig_state ns m False) (checkMigrationTargetPath env target path) (\<lambda>_. mig_state ns m False)" for path
    unfolding checkMigrationTargetPath_def
    by (intro keep_tryP SSH_obeys triple_sum triple_failP triple_returnP) (auto simp: looking_command_def)
  have copy: "triple (mig_state ns m' False) (stop_and_copy env environment m' source target claim tc) (\<lambda>_ s. \<exists>b'. mig_state ns m' b' s)"
    if "plan m' = plan m" for m' tc
    by (rule stop_and_copy_obeys) (use assms plan_fields [OF that] in simp_all)
  show ?thesis
    unfolding provision_target_def assms(1)
    by (intro triple_tryP [OF create] triple_tryP [OF mig_quiet [OF adds_CreatePVCBindingPod]] triple_tryP [OF mig_quiet [OF adds_WaitForManagedPVCBound]]
        triple_tryP [OF check] triple_sum triple_if mig_end [OF failMigration_obeys] mig_end [OF undo_obeys [OF assms(1)]] advance_stage copy)
qed

lemma server_of_node_name: "server_of_node servers n = Some s \<Longrightarrow> sv_K8sNodeName s = n"
  by (auto simp: server_of_node_def find_Some_iff)

definition on_nodes :: "PersistentVolumeMigration \<Rightarrow> volume_error + Server \<times> Server \<times> PersistentVolumeClaimInfo \<Rightarrow> bool" where
  "on_nodes m r \<longleftrightarrow> (case r of Inl _ \<Rightarrow> True
     | Inr (source, target, _) \<Rightarrow> sv_K8sNodeName source = vg_SourceNodeName m \<and> sv_K8sNodeName target = vg_TargetNodeName m)"

lemma on_nodes_Inl [simp]: "on_nodes m (Inl e)"
  by (simp add: on_nodes_def)

lemma preflight_obeys:
  assumes "en_Namespace environment = ns"
  shows "triple (mig_state ns m b) (preflightMigration env environment m) (\<lambda>r s. mig_state ns m b s \<and> on_nodes m r)"
proof -
  let ?Q = "\<lambda>r s. mig_state ns m b s \<and> on_nodes m r"
  have list: "triple (mig_state ns m b) (on_db (ListServers (ev_fault env))) (\<lambda>_. mig_state ns m b)"
    unfolding ListServers_def by (rule mig_quiet) (rule adds_read)
  have pair: "triple (mig_state ns m b) (bindP (foreach (check_server env) [source, target]) (\<lambda>_. returnP (source, target, claim))) ?Q"
    if "sv_K8sNodeName source = vg_SourceNodeName m" "sv_K8sNodeName target = vg_TargetNodeName m" for source target claim
    using that by (intro triple_bindP [where R = "\<lambda>_. mig_state ns m b"] triple_foreach check_server_obeys triple_returnP) (auto simp: on_nodes_def)
  show ?thesis
    unfolding preflightMigration_def assms
    by (intro triple_bindP [OF mig_quiet [OF adds_GetManagedPVC]] triple_bindP [OF mig_quiet [OF adds_lift_api [OF adds_GetNodeInfo]]]
        triple_if triple_failP triple_tryP [OF list] triple_sum)
      (auto split: option.splits intro!: triple_failP pair dest: server_of_node_name simp del: foreach.simps)
qed

lemma run_first_obeys:
  assumes "ns = en_Namespace environment"
  shows "triple (mig_state ns m False) (advance env m ''preflight'' (\<lambda>m.
             tryP (preflightMigration env environment m) (\<lambda>r. case r of
               Inl e \<Rightarrow> failMigration env m e False
             | Inr (source, target, claim) \<Rightarrow>
                 advance env m ''provisioning_target'' (\<lambda>m. provision_target env environment m source target claim img)))) (\<lambda>_ s. \<exists>b'. mig_state ns m b' s)"
proof (rule advance_stage, rule triple_tryP [OF preflight_obeys [OF assms [symmetric]]], rule triple_sum)
  fix m' r e
  show "triple (\<lambda>s. mig_state ns m' False s \<and> on_nodes m' r) (failMigration env m' e False) (\<lambda>_ s. \<exists>b'. mig_state ns m' b' s)"
    by (rule triple_pre [OF mig_end [OF failMigration_obeys]]) (erule conjunct1)
next
  fix m' and r :: "volume_error + Server \<times> Server \<times> PersistentVolumeClaimInfo" and x
  assume r: "r = Inr x"
  obtain source target claim where x: "x = (source, target, claim)" by (cases x)
  have go: "triple (mig_state ns m' False) (advance env m' ''provisioning_target'' (\<lambda>m. provision_target env environment m source target claim img))
      (\<lambda>_ s. \<exists>b'. mig_state ns m' b' s)" if nodes: "on_nodes m' r"
  proof (rule advance_stage, rule provision_obeys)
    fix m2
    assume p: "plan m2 = plan m'"
    show "en_Namespace environment = ns" "sv_K8sNodeName source = vg_SourceNodeName m2" "sv_K8sNodeName target = vg_TargetNodeName m2"
      using assms nodes plan_fields [OF p] by (simp_all add: on_nodes_def r x)
  qed
  from triple_fact [OF go] show "triple (\<lambda>s. mig_state ns m' False s \<and> on_nodes m' r)
     (case x of (source, target, claim) \<Rightarrow>
        advance env m' ''provisioning_target'' (\<lambda>m. provision_target env environment m source target claim img)) (\<lambda>_ s. \<exists>b'. mig_state ns m' b' s)"
    by (simp add: r x)
qed

lemma run_obeys:
  assumes m: "tbl_find vg_ID i (sd_migrations (db (st_world s))) = Some m"
    and e: "tbl_find en_ID (vg_EnvironmentID m) (wd_environments (db (st_world s))) = Some environment"
    and s: "st_trace s = []" and run: "runPersistentVolumeMigration env i img s = (r, s')"
  shows "\<exists>b. mig_state (en_Namespace environment) m b s'"
proof -
  let ?ns = "en_Namespace environment"
  have start: "mig_state ?ns m False (s\<lparr>st_world := w\<rparr>)" if "db w = db (st_world s)" for w
    using that e s by (simp add: mig_state_def in_namespace_def)
  have fail: "triple (mig_state ?ns m False) (failMigration env m e False) (\<lambda>_ s. \<exists>b'. mig_state ?ns m b' s)" for e
    by (intro mig_end failMigration_obeys)
  show ?thesis
  proof (cases "ev_fault env (calls (st_world s))")
    case True
    then have "s' = s\<lparr>st_world := (st_world s)\<lparr>calls := Suc (calls (st_world s))\<rparr>\<rparr>"
      using run by (auto simp: runPersistentVolumeMigration_def tryP_def on_db_def GetPersistentVolumeMigration_def db_read_def db_call_def returnP_def)
    then show ?thesis using start [of "(st_world s)\<lparr>calls := Suc (calls (st_world s))\<rparr>"] by auto
  next
    case False
    let ?s2 = "s\<lparr>st_world := (st_world s)\<lparr>calls := Suc (Suc (calls (st_world s)))\<rparr>\<rparr>"
    have s2: "mig_state ?ns m False ?s2" by (rule start) simp
    show ?thesis
      using False run m e tripleD [OF run_first_obeys [OF refl] s2, of env img r s'] tripleD [OF fail s2, of "StorageDB ErrDatabase" r s']
      unfolding runPersistentVolumeMigration_def
      by (auto simp: tryP_def on_db_def GetPersistentVolumeMigration_def GetEnvironmentByID_def db_read_def db_call_def split: if_splits)
  qed
qed


section \<open>How a run ends\<close>

text \<open>The Deployment was changed; and: the last calls were the request to give it its replicas back.\<close>

definition stopped :: "volume_event list \<Rightarrow> bool" where
  "stopped t \<longleftrightarrow> (\<exists>d. VUpdateDeployment d None \<in> set t)"

definition scaled_back :: "string \<Rightarrow> PersistentVolumeMigration \<Rightarrow> volume_event list \<Rightarrow> bool" where
  "scaled_back ns m t \<longleftrightarrow>
     (\<exists>t0 e. t = t0 @ [VGetDeployment ns (vg_SourceDeployment m) (Inl e)]) \<or>
     (\<exists>t0 d x. t = t0 @ [VGetDeployment ns (vg_SourceDeployment m) (Inr d),
        VUpdateDeployment (d\<lparr>dy_Replicas := Some (vg_SourceReplicas m)\<rparr>) x])"

definition seen_ready :: "string \<Rightarrow> PersistentVolumeMigration \<Rightarrow> volume_event list \<Rightarrow> bool" where
  "seen_ready ns m t \<longleftrightarrow> (\<exists>t0 d. t = t0 @ [VGetDeployment ns (vg_SourceDeployment m) (Inr d)] \<and> dy_AvailableReplicas d \<ge> 1)"

definition settled :: "string \<Rightarrow> PersistentVolumeMigration \<Rightarrow> nat \<Rightarrow> storage_state \<Rightarrow> bool" where
  "settled ns m i s \<longleftrightarrow> (\<exists>row. tbl_find vg_ID i (sd_migrations (db (st_world s))) = Some row \<and> plan row = plan m \<and>
     (vg_Status row = ''cleanup_pending'' \<and> seen_ready ns m (st_trace s) \<or>
      vg_Status row = ''failed'' \<and> (\<not> stopped (st_trace s) \<or> scaled_back ns m (st_trace s))))"

definition has_env :: "string \<Rightarrow> PersistentVolumeMigration \<Rightarrow> storage_state \<Rightarrow> bool" where
  "has_env ns m s \<longleftrightarrow> (\<exists>e. tbl_find en_ID (vg_EnvironmentID m) (wd_environments (db (st_world s))) = Some e \<and> en_Namespace e = ns)"

lemma outcome_plan:
  assumes "plan m' = plan m"
  shows "has_env ns m' = has_env ns m" "settled ns m' i = settled ns m i"
  unfolding has_env_def [abs_def] settled_def [abs_def] scaled_back_def seen_ready_def plan_fields [OF assms] assms by (rule refl)+

text \<open>Steps that do not change a Deployment.\<close>

fun idle :: "volume_event \<Rightarrow> bool" where
  "idle (VUpdateDeployment _ x) = (x \<noteq> None)"
| "idle _ = True"

lemma harmless_idle: "harmless e \<Longrightarrow> idle e"
  by (cases e) auto

lemmas adds_idle = adds_mono [OF _ harmless_idle]

lemma stopped_append [simp]: "stopped (t @ t') \<longleftrightarrow> stopped t \<or> stopped t'"
  by (auto simp: stopped_def)

lemma stopped_idle: "list_all idle es \<Longrightarrow> \<not> stopped es"
  by (fastforce simp: stopped_def list_all_iff)

definition running :: "string \<Rightarrow> PersistentVolumeMigration \<Rightarrow> storage_state \<Rightarrow> bool" where
  "running ns m s \<longleftrightarrow> has_env ns m s \<and> \<not> stopped (st_trace s)"

lemma running_plan:
  assumes "plan m' = plan m"
  shows "running ns m' = running ns m"
  by (simp add: running_def fun_eq_iff outcome_plan [OF assms])

lemma keep_env: "adds P p \<Longrightarrow> triple (has_env ns m) p (\<lambda>_. has_env ns m)"
  by (rule tripleI, erule (1) addsE) (simp add: has_env_def)

lemma keep_running: "adds idle p \<Longrightarrow> triple (running ns m) p (\<lambda>_. running ns m)"
  by (rule tripleI, erule (1) addsE) (simp add: has_env_def running_def stopped_idle)

lemmas keep_quiet = keep_running [OF adds_idle]

lemma adds_silent:
  assumes "\<And>P. adds P p" and "p s = (r, s')"
  shows "st_trace s' = st_trace s \<and> wd_environments (db (st_world s')) = wd_environments (db (st_world s))"
  using addsE [OF assms(1) [of "\<lambda>_. False"] assms(2)] by (auto simp: list_all_iff)

text \<open>With a database that works, a status is stored.\<close>

definition holds_row :: "string \<Rightarrow> PersistentVolumeMigration \<Rightarrow> storage_state \<Rightarrow> bool" where
  "holds_row status m s \<longleftrightarrow> (\<exists>row. tbl_find vg_ID (vg_ID m) (sd_migrations (db (st_world s))) = Some row \<and> plan row = plan m \<and> vg_Status row = status)"

lemma UpdateMigration_stores:
  assumes "\<And>n. \<not> ev_fault env n" and "vg_ID m \<noteq> 0" and "UpdateMigration env m status detail s = (r, s')"
  shows "\<exists>m'. r = Inr (None, m') \<and> plan m' = plan m \<and> vg_ID m' = vg_ID m \<and> holds_row status m s'"
  using assms
  by (auto simp: UpdateMigration_def on_db_def save_migration_def db_call_def stamp_migration_def note_storage_id_def holds_row_def plan_def Let_def
      tbl_find_save_same [of vg_ID "stamp_migration (clock env s) m status detail" "sd_migrations (db (st_world s))", unfolded stamp_migration_def, simplified])

lemma UpdateMigration_outcome:
  assumes "\<And>n. \<not> ev_fault env n" and "vg_ID m \<noteq> 0"
  shows "triple S (UpdateMigration env m status detail)
    (\<lambda>r s. \<exists>m' s0. r = Inr (None, m') \<and> plan m' = plan m \<and> vg_ID m' = vg_ID m \<and> holds_row status m s \<and> S s0 \<and>
       st_trace s = st_trace s0 \<and> wd_environments (db (st_world s)) = wd_environments (db (st_world s0)))"
proof (rule tripleI)
  fix s r s'
  assume s: "S s" and u: "UpdateMigration env m status detail s = (r, s')"
  show "\<exists>m' s0. r = Inr (None, m') \<and> plan m' = plan m \<and> vg_ID m' = vg_ID m \<and> holds_row status m s' \<and> S s0 \<and>
       st_trace s' = st_trace s0 \<and> wd_environments (db (st_world s')) = wd_environments (db (st_world s0))"
    using s UpdateMigration_stores [OF assms u] UpdateMigration_result [OF u] by blast
qed

text \<open>The last status: the calls before it decide whether the run has settled.\<close>

lemma finish_outcome:
  assumes "\<And>n. \<not> ev_fault env n" and "vg_ID m \<noteq> 0"
    and "\<And>s. S s \<Longrightarrow> status = ''cleanup_pending'' \<and> seen_ready ns m (st_trace s) \<or>
        status = ''failed'' \<and> (\<not> stopped (st_trace s) \<or> scaled_back ns m (st_trace s))"
  shows "triple S (bindP (UpdateMigration env m status detail) (\<lambda>_. returnP ())) (\<lambda>_. settled ns m (vg_ID m))"
proof (rule triple_bindP [OF UpdateMigration_outcome [OF assms(1,2)]])
  fix x :: "db_error option \<times> PersistentVolumeMigration"
  show "triple (\<lambda>s. \<exists>m' s0. (Inr x :: 'a + _) = Inr (None, m') \<and> plan m' = plan m \<and> vg_ID m' = vg_ID m \<and> holds_row status m s \<and> S s0 \<and>
       st_trace s = st_trace s0 \<and> wd_environments (db (st_world s)) = wd_environments (db (st_world s0))) (returnP ())
     (\<lambda>_. settled ns m (vg_ID m))"
    by (rule triple_returnP) (use assms(3) in \<open>auto simp: settled_def holds_row_def\<close>)
qed auto

lemma advance_outcome:
  assumes "\<And>n. \<not> ev_fault env n" and "vg_ID m \<noteq> 0"
    and S: "\<And>s s0. S s0 \<Longrightarrow> st_trace s = st_trace s0 \<Longrightarrow> wd_environments (db (st_world s)) = wd_environments (db (st_world s0)) \<Longrightarrow> S s"
    and k: "\<And>m'. plan m' = plan m \<Longrightarrow> vg_ID m' = vg_ID m \<Longrightarrow> triple S (k m') Q"
  shows "triple S (advance env m status k) Q"
  unfolding advance_def
proof (rule triple_bindP [OF UpdateMigration_outcome [OF assms(1,2)]])
  fix x :: "db_error option \<times> PersistentVolumeMigration"
  obtain err m' where x: "x = (err, m')" by (cases x)
  have "triple (\<lambda>s. S s \<and> (err = None \<and> plan m' = plan m \<and> vg_ID m' = vg_ID m)) (if err \<noteq> None then returnP () else k m') Q"
    by (rule triple_fact) (simp add: k)
  then show "triple (\<lambda>s. \<exists>m' s0. (Inr x :: 'a + _) = Inr (None, m') \<and> plan m' = plan m \<and> vg_ID m' = vg_ID m \<and> holds_row status m s \<and> S s0 \<and>
       st_trace s = st_trace s0 \<and> wd_environments (db (st_world s)) = wd_environments (db (st_world s0)))
     (case x of (err, m') \<Rightarrow> if err \<noteq> None then returnP () else k m') Q"
    unfolding x prod.case by (rule triple_pre) (auto intro: S)
qed auto

lemma has_env_stable: "has_env ns m s0 \<Longrightarrow> wd_environments (db (st_world s)) = wd_environments (db (st_world s0)) \<Longrightarrow> has_env ns m s"
  by (simp add: has_env_def)

lemma running_stable:
  "running ns m s0 \<Longrightarrow> st_trace s = st_trace s0 \<Longrightarrow> wd_environments (db (st_world s)) = wd_environments (db (st_world s0)) \<Longrightarrow> running ns m s"
  by (simp add: running_def has_env_def)

text \<open>Scaling: the request for the old replica count comes last, whether or not it succeeds.\<close>

lemma scale_back:
  "triple S (ScaleDeploymentContext env ns (vg_SourceDeployment m) (vg_SourceReplicas m)) (\<lambda>_ s. scaled_back ns m (st_trace s))"
  by (rule tripleI) (auto simp: ScaleDeploymentContext_def lift_api_def get_deployment_def update_deployment_def call_def Let_def bindP_def scaled_back_def
      wrap_error_def map_sum_def split: sum.splits prod.splits)

lemma scale_down:
  "triple (running ns m) (ScaleDeploymentContext env ns name 0) (\<lambda>r s. has_env ns m s \<and> (\<forall>e. r = Inl e \<longrightarrow> running ns m s))"
  by (rule tripleI) (auto simp: ScaleDeploymentContext_def lift_api_def get_deployment_def update_deployment_def call_def Let_def bindP_def
      running_def has_env_def stopped_def of_option_def wrap_error_def split: sum.splits prod.splits option.splits)

lemma keep_trace:
  assumes "\<And>P. adds P p"
  shows "triple (\<lambda>s. F (st_trace s)) p (\<lambda>_ s. F (st_trace s))"
  using adds_silent [OF assms] by (auto simp: triple_def)

lemma put_back_outcome: "triple S (put_back env ns m) (\<lambda>r s. r = Inr () \<and> scaled_back ns m (st_trace s))"
  unfolding put_back_def
  by (intro triple_tryP [where R = "\<lambda>_ _. True"] triple_ignoring [where R = "\<lambda>_. True"]
      triple_ignoring [OF scale_back] triple_ignoring [OF keep_trace] adds_restore_templates triple_returnP) (auto simp: triple_def)

lemma restore_outcome: "(\<And>n. \<not> ev_fault env n) \<Longrightarrow> triple (has_env ns m) (restore_source env m) (\<lambda>r s. r = Inr () \<and> scaled_back ns m (st_trace s))"
  unfolding restore_source_def
proof (rule triple_tryP)
  assume nofault: "\<And>n. \<not> ev_fault env n"
  show "triple (has_env ns m) (on_db (GetEnvironmentByID (ev_fault env) (vg_EnvironmentID m))) (\<lambda>r s. True \<and> (\<exists>e. r = Inr e \<and> en_Namespace e = ns))"
    by (rule triple_on_db) (use nofault in \<open>auto simp: GetEnvironmentByID_def db_read_def db_call_def has_env_def\<close>)
  fix r :: "db_error + Environment"
  show "triple (\<lambda>s. True \<and> (\<exists>e. r = Inr e \<and> en_Namespace e = ns)) (case r of Inl _ \<Rightarrow> returnP () | Inr environment \<Rightarrow> put_back env (en_Namespace environment) m)
      (\<lambda>r s. r = Inr () \<and> scaled_back ns m (st_trace s))"
    by (rule triple_fact) (auto intro: put_back_outcome)
qed

lemma fail_back_outcome:
  assumes "\<And>n. \<not> ev_fault env n" and "vg_ID m \<noteq> 0"
  shows "triple (has_env ns m) (failMigration env m cause True) (\<lambda>_. settled ns m (vg_ID m))"
  unfolding failMigration_def if_True
  by (rule triple_bindP [OF restore_outcome]) (auto intro!: finish_outcome assms)

lemma fail_outcome:
  assumes "\<And>n. \<not> ev_fault env n" and "vg_ID m \<noteq> 0"
  shows "triple (running ns m) (failMigration env m cause False) (\<lambda>_. settled ns m (vg_ID m))"
  unfolding failMigration_def if_False
  by (rule triple_bindP [where R = "\<lambda>r s. r = Inr () \<and> running ns m s"]) (auto intro!: triple_returnP finish_outcome assms simp: running_def)

lemma adds_cleanup: "adds idle (cleanupMigrationTarget env environment m)"
  unfolding cleanupMigrationTarget_def DeleteManagedPVCContext_def ignoring_def
  by (auto intro!: adds_intros adds_idle [OF adds_DeletePVCBindingPod] adds_idle [OF adds_get_claim])

lemma cleanup_returns: "triple S (cleanupMigrationTarget env environment m) (\<lambda>r _. r = Inr ())"
  unfolding cleanupMigrationTarget_def ignoring_def
  by (intro triple_tryP [where R = "\<lambda>_ _. True"] triple_if triple_returnP) (auto simp: triple_def)

lemma undo_outcome:
  assumes "\<And>n. \<not> ev_fault env n" and "vg_ID m \<noteq> 0"
  shows "triple (has_env ns m) (undo_and_fail env environment m cause True) (\<lambda>_. settled ns m (vg_ID m))"
    and "triple (running ns m) (undo_and_fail env environment m cause False) (\<lambda>_. settled ns m (vg_ID m))"
  unfolding undo_and_fail_def
  by (rule triple_bindP [OF triple_conj [OF keep_env [OF adds_cleanup] cleanup_returns [of "\<lambda>_. True"]], THEN triple_pre];
      auto intro: triple_pre [OF fail_back_outcome [OF assms]])
    (rule triple_bindP [OF triple_conj [OF keep_running [OF adds_cleanup] cleanup_returns [of "\<lambda>_. True"]], THEN triple_pre];
      auto intro: triple_pre [OF fail_outcome [OF assms]])

text \<open>Advancing to the next stage, before and after the Deployment was stopped.\<close>

lemma advance_env:
  assumes "\<And>n. \<not> ev_fault env n" and "vg_ID m \<noteq> 0"
    and k: "\<And>m'. plan m' = plan m \<Longrightarrow> vg_ID m' \<noteq> 0 \<Longrightarrow> triple (has_env ns m') (k m') (\<lambda>_. settled ns m' (vg_ID m'))"
  shows "triple (has_env ns m) (advance env m status k) (\<lambda>_. settled ns m (vg_ID m))"
proof (rule advance_outcome [OF assms(1,2)])
  fix m'
  assume m': "plan m' = plan m" "vg_ID m' = vg_ID m"
  show "triple (has_env ns m) (k m') (\<lambda>_. settled ns m (vg_ID m))"
    using k [OF m'(1)] assms(2) unfolding outcome_plan [OF m'(1)] m'(2) by simp
qed (rule has_env_stable)

lemma advance_running:
  assumes "\<And>n. \<not> ev_fault env n" and "vg_ID m \<noteq> 0"
    and k: "\<And>m'. plan m' = plan m \<Longrightarrow> vg_ID m' \<noteq> 0 \<Longrightarrow> triple (running ns m') (k m') (\<lambda>_. settled ns m' (vg_ID m'))"
  shows "triple (running ns m) (advance env m status k) (\<lambda>_. settled ns m (vg_ID m))"
proof (rule advance_outcome [OF assms(1,2)])
  fix m'
  assume m': "plan m' = plan m" "vg_ID m' = vg_ID m"
  show "triple (running ns m) (k m') (\<lambda>_. settled ns m (vg_ID m))"
    using k [OF m'(1)] assms(2) unfolding outcome_plan [OF m'(1)] running_plan [OF m'(1)] m'(2) by simp
qed (rule running_stable)

lemma settle_loop_ready:
  "triple (\<lambda>_. True) (settle_loop env ns (vg_SourceDeployment m) True n) (\<lambda>r s. r = Inr () \<longrightarrow> seen_ready ns m (st_trace s))"
proof -
  have one: "triple (\<lambda>_. True) (pods_settled env ns (vg_SourceDeployment m) True) (\<lambda>r s. r = Inr True \<longrightarrow> seen_ready ns m (st_trace s))"
    by (rule tripleI) (auto simp: pods_settled_def lift_api_def get_deployment_def call_def Let_def bindP_def returnP_def seen_ready_def
        split: sum.splits prod.splits)
  show ?thesis
  proof (induction n)
    case 0
    show ?case unfolding settle_loop.simps by (rule triple_bindP [OF one]) (auto simp: triple_def returnP_def failP_def split: if_splits)
  next
    case (Suc n)
    then show ?case unfolding settle_loop.simps by (intro triple_bindP [OF one]) (auto simp: triple_def returnP_def failP_def split: if_splits)
  qed
qed

lemma wait_ready:
  "triple (has_env ns m) (waitForStorageDeploymentPods env ns (vg_SourceDeployment m) True n)
     (\<lambda>r s. has_env ns m s \<and> (r = Inr () \<longrightarrow> seen_ready ns m (st_trace s)))"
  using triple_conj [OF keep_env [OF adds_settle_loop] settle_loop_ready] by (simp add: waitForStorageDeploymentPods_def)

lemma adds_update_deployment: "adds (\<lambda>_. True) (update_deployment env d)"
  by (simp add: update_deployment_def adds_call)

lemma adds_Scale: "adds (\<lambda>_. True) (ScaleDeploymentContext env ns name n)"
  unfolding ScaleDeploymentContext_def by (intro adds_intros adds_mono [OF adds_get_deployment] adds_update_deployment) simp

lemma adds_Replace: "adds (\<lambda>_. True) (ReplaceDeploymentPVCNodeContext env ns name a b c)"
  unfolding ReplaceDeploymentPVCNodeContext_def by (intro adds_intros adds_mono [OF adds_get_deployment] adds_update_deployment) simp

lemma start_again_outcome:
  assumes "\<And>n. \<not> ev_fault env n" and "vg_ID m \<noteq> 0" and ns: "en_Namespace environment = ns"
  shows "triple (has_env ns m) (start_again env environment m) (\<lambda>_. settled ns m (vg_ID m))"
  unfolding start_again_def ns
proof (rule triple_tryP [OF keep_env [OF adds_Scale]], rule triple_sum)
  show "triple (has_env ns m) (failMigration env m e True) (\<lambda>_. settled ns m (vg_ID m))" for e
    by (rule fail_back_outcome [OF assms(1,2)])
  show "triple (has_env ns m) (advance env m ''waiting_ready'' (\<lambda>m.
         tryP (waitForStorageDeploymentPods env ns (vg_SourceDeployment m) True 120) (\<lambda>r. case r of
           Inl e \<Rightarrow> failMigration env m e True
         | Inr _ \<Rightarrow> bindP (UpdateMigration env m ''cleanup_pending'' (Note ''cleanup_pending'')) (\<lambda>_. returnP ())))) (\<lambda>_. settled ns m (vg_ID m))"
    by (rule advance_env [OF assms(1,2)], rule triple_tryP [OF wait_ready], rule triple_sum)
      (auto intro: triple_pre [OF fail_back_outcome [OF assms(1)]] finish_outcome [OF assms(1)])
qed

lemma cut_over_outcome:
  assumes "\<And>n. \<not> ev_fault env n" and "vg_ID m \<noteq> 0" and ns: "en_Namespace environment = ns"
  shows "triple (has_env ns m) (cut_over env environment m) (\<lambda>_. settled ns m (vg_ID m))"
  unfolding cut_over_def ns
  by (intro triple_tryP [OF keep_env [OF adds_DeletePVCBindingPod]] triple_tryP [OF keep_env [OF adds_Replace]]
      triple_tryP [OF keep_env [OF adds_replace_templates]] triple_sum start_again_outcome fail_back_outcome assms)

lemma copy_data_outcome:
  assumes "\<And>n. \<not> ev_fault env n" and "vg_ID m \<noteq> 0" and ns: "en_Namespace environment = ns"
  shows "triple (has_env ns m) (copy_data env environment source target sp tp m) (\<lambda>_. settled ns m (vg_ID m))"
  unfolding copy_data_def
proof (rule triple_bindP)
  show "triple (has_env ns m) (streamPVCData env source target sp tp :: ('a, _) volume_proc) (\<lambda>r s. has_env ns m s \<and> (\<exists>x. r = Inr x))"
    unfolding streamPVCData_def Let_def by (rule triple_call) (auto simp: has_env_def split: stream_run.splits)
  fix x :: "nat \<times> volume_error option"
  obtain n err where x: "x = (n, err)" by (cases x)
  let ?m = "m\<lparr>vg_BytesCopied := n\<rparr>"
  have p: "plan ?m = plan m" by simp
  have "triple (has_env ns ?m) (case err of Some e \<Rightarrow> undo_and_fail env environment ?m e True | None \<Rightarrow> advance env ?m ''cutover'' (cut_over env environment))
      (\<lambda>_. settled ns ?m (vg_ID ?m))"
    using assms by (intro triple_option undo_outcome(1) advance_env cut_over_outcome) simp_all
  then show "triple (\<lambda>s. has_env ns m s \<and> (\<exists>y. (Inr x :: 'a + _) = Inr y)) (case x of (bytesCopied, err) \<Rightarrow> let m = m\<lparr>vg_BytesCopied := bytesCopied\<rparr> in
        case err of Some e \<Rightarrow> undo_and_fail env environment m e True | None \<Rightarrow> advance env m ''cutover'' (cut_over env environment))
      (\<lambda>_. settled ns m (vg_ID m))"
    unfolding outcome_plan [OF p] by (simp add: x Let_def)
qed auto

lemma stop_and_copy_outcome:
  assumes "\<And>n. \<not> ev_fault env n" and "vg_ID m \<noteq> 0" and ns: "en_Namespace environment = ns"
  shows "triple (running ns m) (stop_and_copy env environment m source target claim targetClaim) (\<lambda>_. settled ns m (vg_ID m))"
  unfolding stop_and_copy_def ns
proof (rule triple_tryP [OF scale_down], rule triple_sum)
  show "triple (\<lambda>s. has_env ns m s \<and> (\<forall>e. r = Inl e \<longrightarrow> running ns m s)) (undo_and_fail env environment m e False) (\<lambda>_. settled ns m (vg_ID m))"
    if "r = Inl e" for e and r :: "volume_error + unit"
    using that by (intro triple_pre [OF undo_outcome(2) [OF assms(1,2)]]) simp
  show "triple (\<lambda>s. has_env ns m s \<and> (\<forall>e. r = Inl e \<longrightarrow> running ns m s))
     (tryP (waitForStorageDeploymentPods env ns (vg_SourceDeployment m) False 90) (\<lambda>r. case r of
           Inl e \<Rightarrow> undo_and_fail env environment m e True
         | Inr _ \<Rightarrow> advance env m ''copying'' (copy_data env environment source target (ci_LocalPath claim) (ci_LocalPath targetClaim))))
     (\<lambda>_. settled ns m (vg_ID m))" for r :: "volume_error + unit"
    unfolding waitForStorageDeploymentPods_def
    by (rule triple_pre [OF triple_tryP [OF keep_env [OF adds_settle_loop]]], rule triple_sum)
      (auto intro!: undo_outcome(1) advance_env copy_data_outcome assms)
qed

lemma adds_SSHExec: "adds idle (SSHExec env server command)"
  unfolding SSHExec_def by (rule adds_call) simp

lemma provision_outcome:
  assumes "\<And>n. \<not> ev_fault env n" and "vg_ID m \<noteq> 0" and ns: "en_Namespace environment = ns"
  shows "triple (running ns m) (provision_target env environment m source target claim img) (\<lambda>_. settled ns m (vg_ID m))"
proof -
  have create: "adds idle (CreateManagedPVCContext env ns i q)" for i q
    unfolding CreateManagedPVCContext_def Let_def by (auto intro!: adds_intros split: option.splits)
  have check: "adds idle (checkMigrationTargetPath env target path)" for path
    unfolding checkMigrationTargetPath_def by (auto intro!: adds_intros adds_SSHExec split: sum.splits)
  show ?thesis
    unfolding provision_target_def ns
    by (intro triple_tryP [OF keep_running [OF create]] triple_tryP [OF keep_quiet [OF adds_CreatePVCBindingPod]]
        triple_tryP [OF keep_quiet [OF adds_WaitForManagedPVCBound]] triple_tryP [OF keep_running [OF check]] triple_sum triple_if
        fail_outcome undo_outcome(2) advance_running stop_and_copy_outcome assms)
qed

lemma adds_preflight: "adds idle (preflightMigration env environment m)"
  unfolding preflightMigration_def check_server_def ListServers_def
  by (intro adds_intros adds_idle [OF adds_GetManagedPVC] adds_idle [OF adds_GetNodeInfo])
    (auto intro!: adds_intros adds_SSHExec split: sum.splits option.splits)

lemma run_outcome:
  assumes nofault: "\<And>n. \<not> ev_fault env n" and i: "i \<noteq> 0"
    and m: "tbl_find vg_ID i (sd_migrations (db (st_world s))) = Some m"
    and e: "tbl_find en_ID (vg_EnvironmentID m) (wd_environments (db (st_world s))) = Some environment"
    and s: "st_trace s = []" and run: "runPersistentVolumeMigration env i img s = (r, s')"
  shows "settled (en_Namespace environment) m i s'"
proof -
  let ?ns = "en_Namespace environment"
  let ?p = "advance env m ''preflight'' (\<lambda>m.
             tryP (preflightMigration env environment m) (\<lambda>r. case r of
               Inl e \<Rightarrow> failMigration env m e False
             | Inr (source, target, claim) \<Rightarrow>
                 advance env m ''provisioning_target'' (\<lambda>m. provision_target env environment m source target claim img)))"
  let ?s2 = "s\<lparr>st_world := (st_world s)\<lparr>calls := Suc (Suc (calls (st_world s)))\<rparr>\<rparr>"
  have vg: "vg_ID m = i" using tbl_find_key [OF m] by simp
  have "triple (running ?ns m) ?p (\<lambda>_. settled ?ns m (vg_ID m))"
    by (rule advance_running [OF nofault], simp add: vg i, rule triple_tryP [OF keep_running [OF adds_preflight]], rule triple_sum)
      (auto intro!: fail_outcome advance_running provision_outcome nofault split: prod.splits)
  moreover have "running ?ns m ?s2" using e s by (simp add: running_def has_env_def stopped_def)
  moreover have "?p ?s2 = (r, s')"
    using run m e nofault unfolding runPersistentVolumeMigration_def
    by (simp add: tryP_def on_db_def GetPersistentVolumeMigration_def GetEnvironmentByID_def db_read_def db_call_def)
  ultimately have "settled ?ns m (vg_ID m) s'" by (rule tripleD)
  then show ?thesis by (simp add: vg)
qed

end
