(* ===== verification/Storage_Tasks.thy ===== *)
theory Storage_Tasks
  imports Storage_Claims Storage_Migration
begin

text \<open>
  The requests about volume migrations: the handlers of \<open>pvc_migration_handler.go\<close> around the run of
  \<open>Storage_Migration\<close>, with \<open>StartMigration\<close> of the service. A request that starts a run returns the job; the run
  itself works on the state it finds when it is scheduled.
\<close>

section \<open>Requests\<close>

record pvcMigrationRequest =
  mq_EnvironmentID :: nat
  mq_TargetNode :: string
  mq_HelperImage :: string

definition defaultPVCMigrationHelperImage :: string where
  "defaultPVCMigrationHelperImage = ''registry.k8s.io/pause:3.10''"

definition Handler_ListPersistentVolumeMigrations ::
  "storage_env \<Rightarrow> storage_ports \<Rightarrow> string \<Rightarrow> (storage_refusal, PersistentVolumeMigration list) volume_proc" where
  "Handler_ListPersistentVolumeMigrations env ports environment_query =
     (if \<not> po_store ports then failP StoreUnavailable
      else case OptionalID (TrimSpace environment_query) of
        None \<Rightarrow> failP EnvironmentIDInvalid
      | Some i \<Rightarrow> refusing (\<lambda>_. StoreFailed) (on_db (ListPersistentVolumeMigrations (ev_fault env) i)))"

definition Handler_GetPersistentVolumeMigration ::
  "storage_env \<Rightarrow> storage_ports \<Rightarrow> string \<Rightarrow> (storage_refusal, PersistentVolumeMigration) volume_proc" where
  "Handler_GetPersistentVolumeMigration env ports id_param =
     (if \<not> po_store ports then failP StoreUnavailable
      else case ParsePositiveID (TrimSpace id_param) of
        None \<Rightarrow> failP TaskIDInvalid
      | Some i \<Rightarrow> refusing (\<lambda>_. TaskNotFound) (on_db (GetPersistentVolumeMigration (ev_fault env) i)))"

definition migrationWorkload :: "storage_env \<Rightarrow> nat \<Rightarrow> string \<Rightarrow> string \<Rightarrow> (volume_error, string \<times> Application \<times> int) volume_proc" where
  "migrationWorkload env environmentID namespace claimName =
     bindP (DeploymentUsingPVCContext env namespace claimName) (\<lambda>deployments.
       case deployments of
         [deployment] \<Rightarrow>
           if \<not> managed_workload deployment then failP (TaskRefused ClaimUserUnmanaged)
           else bindP (refusing StorageDB (on_db (on_workspace (ListApplications (ev_fault env) [0, environmentID])))) (\<lambda>applications.
             case find (\<lambda>a. ap_Name a = dy_Name deployment) applications of
               None \<Rightarrow> failP (TaskRefused ClaimUserUnknown)
             | Some app \<Rightarrow> returnP (dy_Name deployment, app, replica_count deployment))
       | _ \<Rightarrow> failP (TaskRefused NotOneDeployment))"

definition StartJob :: "storage_ports \<Rightarrow> storage_job \<Rightarrow> (storage_refusal, storage_job) volume_proc" where
  "StartJob ports job = (if po_executor ports then returnP job else failP ExecutorRefused)"

definition movable :: "PersistentVolumeClaimInfo \<Rightarrow> bool" where
  "movable claim \<longleftrightarrow> ci_Phase claim = ''Bound'' \<and> ci_IsLocal claim \<and> ci_BoundNode claim \<noteq> []"

definition new_migration ::
  "Environment \<Rightarrow> Application \<Rightarrow> string \<Rightarrow> PersistentVolumeClaimInfo \<Rightarrow> string \<Rightarrow> string \<Rightarrow> int \<Rightarrow> template_snapshot json \<Rightarrow> PersistentVolumeMigration" where
  "new_migration environment app sourceName claim targetNode deployment replicas snapshot =
     \<lparr>vg_ID = 0, vg_EnvironmentID = en_ID environment, vg_ApplicationID = ap_ID app, vg_SourcePVCName = sourceName, vg_TargetPVCName = [],
      vg_SourceNodeName = ci_BoundNode claim, vg_TargetNodeName = targetNode, vg_SourceDeployment = deployment, vg_SourceReplicas = replicas,
      vg_Status = ''pending'', vg_Detail = NoNote, vg_BytesCopied = 0, vg_SourceTemplateSpec = Some snapshot, vg_CompletedAt = None, vg_CreatedAt = zero_time\<rparr>"

text \<open>Storing the task, naming the target after its number, and starting it.\<close>

definition create_migration ::
  "storage_env \<Rightarrow> storage_ports \<Rightarrow> PersistentVolumeMigration \<Rightarrow> string \<Rightarrow> (storage_refusal, PersistentVolumeMigration \<times> storage_job) volume_proc" where
  "create_migration env ports m image_text =
     bindP (\<lambda>s. refusing (\<lambda>_. StoreFailed) (on_db (CreatePersistentVolumeMigration (ev_fault env) (clock env s) m)) s) (\<lambda>m.
     bindP (UpdateMigration env (m\<lparr>vg_TargetPVCName := migrationPVCName (vg_SourcePVCName m) (vg_ID m)\<rparr>) ''pending'' (Note ''pending'')) (\<lambda>(err, m).
       if err \<noteq> None then failP StoreFailed
       else let helperImage = TrimSpace image_text in
         bindP (StartJob ports (RunMigration (vg_ID m) (if helperImage = [] then defaultPVCMigrationHelperImage else helperImage))) (\<lambda>job.
           returnP (m, job))))"

definition workload_step ::
  "storage_env \<Rightarrow> storage_ports \<Rightarrow> pvcMigrationRequest \<Rightarrow> string \<Rightarrow> Environment \<Rightarrow> PersistentVolumeClaimInfo \<Rightarrow>
   (storage_refusal, PersistentVolumeMigration \<times> storage_job) volume_proc" where
  "workload_step env ports request sourceName environment claim =
     bindP (refusing WorkloadRefused (migrationWorkload env (en_ID environment) (en_Namespace environment) sourceName)) (\<lambda>(deployment, app, replicas).
     bindP (refusing (\<lambda>_. StoreFailed) (migrationTemplateSnapshot env (ap_ID app))) (\<lambda>snapshot.
       create_migration env ports (new_migration environment app sourceName claim (mq_TargetNode request) deployment replicas snapshot)
         (mq_HelperImage request)))"

definition Handler_CreatePersistentVolumeMigration ::
  "storage_env \<Rightarrow> storage_ports \<Rightarrow> pvcMigrationRequest option \<Rightarrow> string \<Rightarrow> (storage_refusal, PersistentVolumeMigration \<times> storage_job) volume_proc" where
  "Handler_CreatePersistentVolumeMigration env ports body sourceName =
     (if \<not> po_pvc ports \<or> \<not> po_migration ports \<or> \<not> po_workloads ports then failP K8sUnavailable
      else if \<not> po_store ports then failP StoreUnavailable
      else case body of
        None \<Rightarrow> failP RequestInvalid
      | Some request \<Rightarrow>
          if mq_EnvironmentID request = 0 \<or> TrimSpace (mq_TargetNode request) = [] then failP RequestInvalid
          else bindP (environment_by_id env (mq_EnvironmentID request)) (\<lambda>environment.
          bindP (active_migration env (en_ID environment) sourceName) (\<lambda>active.
            case active of
              Some m \<Rightarrow> failP (MigrationRunning m)
            | None \<Rightarrow>
                bindP (refusing ClaimFailed (GetManagedPVCContext env (en_Namespace environment) sourceName (en_ID environment))) (\<lambda>claim.
                if \<not> movable claim then failP NotLocalVolume
                else if ci_BoundNode claim = mq_TargetNode request then failP SameNode
                else workload_step env ports request sourceName environment claim))))"

definition Handler_CleanupPersistentVolumeMigration ::
  "storage_env \<Rightarrow> storage_ports \<Rightarrow> string \<Rightarrow> (storage_refusal, PersistentVolumeMigration) volume_proc" where
  "Handler_CleanupPersistentVolumeMigration env ports id_param =
     (if \<not> po_pvc ports \<or> \<not> po_migration ports then failP K8sUnavailable
      else case ParsePositiveID (TrimSpace id_param) of
        None \<Rightarrow> failP TaskIDInvalid
      | Some i \<Rightarrow>
          tryP (on_db (GetPersistentVolumeMigration (ev_fault env) i)) (\<lambda>r. case r of
            Inl _ \<Rightarrow> failP CleanupRefused
          | Inr m \<Rightarrow>
              if vg_Status m \<noteq> ''cleanup_pending'' then failP CleanupRefused
              else bindP (environment_by_id env (vg_EnvironmentID m)) (\<lambda>environment.
                tryP (DeploymentUsingPVCContext env (en_Namespace environment) (vg_SourcePVCName m)) (\<lambda>r. case r of
                  Inl _ \<Rightarrow> failP SourceInUse
                | Inr deployments \<Rightarrow>
                    if deployments \<noteq> [] then failP SourceInUse
                    else bindP (refusing ClaimFailed (DeleteManagedPVCContext env (en_Namespace environment) (vg_SourcePVCName m) (en_ID environment))) (\<lambda>_.
                      bindP (UpdateMigration env m ''cleaned'' (Note ''cleaned'')) (\<lambda>(_, m). returnP m))))))"

section \<open>Deleting the source of a migration\<close>

definition cleanup_allowed :: "storage_env \<Rightarrow> storage_db \<Rightarrow> string \<Rightarrow> string \<Rightarrow> string \<Rightarrow> volume_event list \<Rightarrow> bool" where
  "cleanup_allowed env d id_param ns n t \<longleftrightarrow>
     (\<exists>i m e. ParsePositiveID (TrimSpace id_param) = Some i \<and> tbl_find vg_ID i (sd_migrations d) = Some m \<and> vg_Status m = ''cleanup_pending'' \<and>
        tbl_find en_ID (vg_EnvironmentID m) (wd_environments d) = Some e \<and> ns = en_Namespace e \<and> n = vg_SourcePVCName m \<and>
        (\<exists>t0 ws t1. t = t0 @ [VListDeployments ns] @ t1 \<and> va_list_deployments (ev_api env) t0 ns = Inr ws \<and>
           list_all (\<lambda>w. \<not> DeploymentReferencesPVC w n) ws))"

definition listed_free :: "storage_env \<Rightarrow> string \<Rightarrow> string \<Rightarrow> volume_event list \<Rightarrow> bool" where
  "listed_free env ns n t \<longleftrightarrow> (\<exists>t0 ws t1. t = t0 @ [VListDeployments ns] @ t1 \<and> va_list_deployments (ev_api env) t0 ns = Inr ws \<and>
     list_all (\<lambda>w. \<not> DeploymentReferencesPVC w n) ws)"

lemma listed_free_append: "listed_free env ns n t \<Longrightarrow> listed_free env ns n (t @ es)"
  unfolding listed_free_def by (metis append.assoc)

lemma DeploymentUsing_exact:
  "triple (untouched d) (DeploymentUsingPVCContext env ns n) (\<lambda>r s. untouched d s \<and> (r = Inr [] \<longrightarrow> listed_free env ns n (st_trace s)))"
  by (rule tripleI) (auto simp: DeploymentUsingPVCContext_def call_def Let_def bindP_def returnP_def untouched_def listed_free_def
      DeploymentReferencesPVC_def filter_empty_conv list_all_iff split: sum.splits)

lemma finish_trace: "triple (\<lambda>s. F (st_trace s)) (bindP (UpdateMigration env m a b) (\<lambda>(_, m). returnP m)) (\<lambda>_ s. F (st_trace s))"
  by (rule triple_bindP [where R = "\<lambda>_ s. F (st_trace s)"]) (auto intro: keep_trace adds_UpdateMigration triple_returnP split: prod.splits)

lemma delete_source_guarded:
  assumes "tbl_find vg_ID i (sd_migrations d) = Some m" "vg_Status m = ''cleanup_pending''"
    "tbl_find en_ID (vg_EnvironmentID m) (wd_environments d) = Some e" "ParsePositiveID (TrimSpace id_param) = Some i"
  shows "triple (\<lambda>s. untouched d s \<and> listed_free env (en_Namespace e) (vg_SourcePVCName m) (st_trace s))
    (bindP (refusing ClaimFailed (DeleteManagedPVCContext env (en_Namespace e) (vg_SourcePVCName m) (en_ID e))) (\<lambda>_.
       bindP (UpdateMigration env m ''cleaned'' (Note ''cleaned'')) (\<lambda>(_, m). returnP m)))
    (\<lambda>_ s. \<forall>ns n. VDeleteClaim ns n \<in> set (st_trace s) \<longrightarrow> cleanup_allowed env d id_param ns n (st_trace s))"
proof -
  let ?F = "listed_free env (en_Namespace e) (vg_SourcePVCName m)"
  have ok: "?F t \<Longrightarrow> cleanup_allowed env d id_param (en_Namespace e) (vg_SourcePVCName m) t" for t
    using assms by (auto simp: cleanup_allowed_def listed_free_def)
  show ?thesis
    by (rule triple_bindP [OF triple_refusing [OF delete_call [where F = ?F and G = "cleanup_allowed env d id_param", OF listed_free_append ok]] finish_trace]) auto
qed

lemma cleanup_guarded:
  "triple (untouched d) (Handler_CleanupPersistentVolumeMigration env ports id_param)
     (\<lambda>_ s. \<forall>ns n. VDeleteClaim ns n \<in> set (st_trace s) \<longrightarrow> cleanup_allowed env d id_param ns n (st_trace s))"
  (is "triple _ _ ?Q")
proof -
  have none: "triple (untouched d) (failP x) ?Q" for x by (rule triple_failP) (simp add: untouched_def)
  have none': "triple (\<lambda>s. untouched d s \<and> b) (failP x) ?Q" for x b by (rule triple_failP) (simp add: untouched_def)
  have free: "triple (\<lambda>s. untouched d s \<and> (r = Inr [] \<longrightarrow> listed_free env (en_Namespace e) (vg_SourcePVCName m) (st_trace s)))
      (case r of Inl _ \<Rightarrow> failP SourceInUse
       | Inr deployments \<Rightarrow> if deployments \<noteq> [] then failP SourceInUse
           else bindP (refusing ClaimFailed (DeleteManagedPVCContext env (en_Namespace e) (vg_SourcePVCName m) (en_ID e))) (\<lambda>_.
             bindP (UpdateMigration env m ''cleaned'' (Note ''cleaned'')) (\<lambda>(_, m). returnP m))) ?Q"
    if "tbl_find vg_ID i (sd_migrations d) = Some m" "vg_Status m = ''cleanup_pending''"
      "tbl_find en_ID (vg_EnvironmentID m) (wd_environments d) = Some e" "ParsePositiveID (TrimSpace id_param) = Some i"
    for r :: "volume_error + VolumeWorkload list" and m e i
    by (rule triple_sum; (rule triple_if)?)
      (auto intro!: triple_pre [OF delete_source_guarded [OF that]] triple_failP simp: untouched_def)
  have found: "triple (untouched d) (bindP (environment_by_id env (vg_EnvironmentID m)) (\<lambda>e.
      tryP (DeploymentUsingPVCContext env (en_Namespace e) (vg_SourcePVCName m)) (\<lambda>r. case r of
        Inl _ \<Rightarrow> failP SourceInUse
      | Inr deployments \<Rightarrow> if deployments \<noteq> [] then failP SourceInUse
           else bindP (refusing ClaimFailed (DeleteManagedPVCContext env (en_Namespace e) (vg_SourcePVCName m) (en_ID e))) (\<lambda>_.
             bindP (UpdateMigration env m ''cleaned'' (Note ''cleaned'')) (\<lambda>(_, m). returnP m))))) ?Q"
    if m: "tbl_find vg_ID i (sd_migrations d) = Some m" "vg_Status m = ''cleanup_pending''" "ParsePositiveID (TrimSpace id_param) = Some i" for m i
    by (rule triple_bindP [OF environment_exact], rule triple_fact, rule triple_tryP [OF DeploymentUsing_exact], rule free [OF m(1,2) _ m(3)])
      (auto simp: untouched_def)
  show ?thesis
    unfolding Handler_CleanupPersistentVolumeMigration_def GetPersistentVolumeMigration_def
    by (intro triple_if none triple_option triple_tryP [OF triple_read_exact] triple_sum none' triple_fact [OF found])
      (auto simp: found_def split: option.splits)
qed

section \<open>Accepted requests\<close>

text \<open>An accepted task is stored as it is answered, with the name of its target, and its job is its run.\<close>

lemma UpdateMigration_saved:
  assumes "UpdateMigration env m status detail s = (Inr (None, row), s')" and "vg_ID m \<noteq> 0"
  shows "row = stamp_migration (clock env s) m status detail \<and> sd_migrations (db (st_world s')) = tbl_save vg_ID row (sd_migrations (db (st_world s)))"
  using assms by (auto simp: UpdateMigration_def on_db_def save_migration_def stamp_migration_def db_call_def note_storage_id_def Let_def split: if_splits)

lemma insert_migration_saved:
  assumes "on_db (CreatePersistentVolumeMigration fault now m) s = (Inr row, s')"
  shows "row = m\<lparr>vg_ID := storage_id (db (st_world s)) Migrations (vg_ID m), vg_CreatedAt := created_at now (vg_CreatedAt m)\<rparr> \<and>
    tbl_find vg_ID (vg_ID row) (sd_migrations (db (st_world s))) = None \<and> vg_ID row \<noteq> 0 \<and>
    st_trace s' = st_trace s \<and> wd_environments (db (st_world s')) = wd_environments (db (st_world s))"
  using assms
  by (auto simp: on_db_def CreatePersistentVolumeMigration_def insert_migration_def db_call_def note_storage_id_def storage_id_def Let_def
      tbl_find_def find_None_iff list_ex_iff split: if_splits)

lemma create_migration_row:
  assumes "create_migration env ports m img s = (Inr (row, job), s')"
  shows "\<exists>i. i \<noteq> 0 \<and> tbl_find vg_ID i (sd_migrations (db (st_world s))) = None \<and>
    tbl_find vg_ID i (sd_migrations (db (st_world s'))) = Some row \<and> vg_ID row = i \<and> vg_Status row = ''pending'' \<and>
    plan row = plan (m\<lparr>vg_TargetPVCName := migrationPVCName (vg_SourcePVCName m) i\<rparr>) \<and>
    (\<exists>img'. img' \<noteq> [] \<and> job = RunMigration i img') \<and>
    wd_environments (db (st_world s')) = wd_environments (db (st_world s)) \<and> st_trace s' = st_trace s"
proof -
  obtain m1 s1 where c: "on_db (CreatePersistentVolumeMigration (ev_fault env) (clock env s) m) s = (Inr m1, s1)"
    using assms by (auto simp: create_migration_def bindP_def refusing_def split: prod.splits sum.splits)
  let ?m2 = "m1\<lparr>vg_TargetPVCName := migrationPVCName (vg_SourcePVCName m1) (vg_ID m1)\<rparr>"
  have m1: "m1 = m\<lparr>vg_ID := storage_id (db (st_world s)) Migrations (vg_ID m), vg_CreatedAt := created_at (clock env s) (vg_CreatedAt m)\<rparr>"
    and new: "tbl_find vg_ID (vg_ID m1) (sd_migrations (db (st_world s))) = None" "vg_ID m1 \<noteq> 0"
    and same: "st_trace s1 = st_trace s" "wd_environments (db (st_world s1)) = wd_environments (db (st_world s))"
    using insert_migration_saved [OF c] by blast+
  obtain row' where u: "UpdateMigration env ?m2 ''pending'' (Note ''pending'') s1 = (Inr (None, row') :: storage_refusal + _, s')"
    and r: "row = row'" and job: "\<exists>img'. img' \<noteq> [] \<and> job = RunMigration (vg_ID row') img'"
    using assms c
    by (auto simp: create_migration_def bindP_def refusing_def StartJob_def returnP_def failP_def Let_def defaultPVCMigrationHelperImage_def
        split: prod.splits sum.splits if_splits)
  have ID: "vg_ID ?m2 \<noteq> 0" using new(2) by simp
  note w = UpdateMigration_saved [OF u ID] UpdateMigration_result [OF u]
  have "vg_ID row = vg_ID m1" "vg_Status row = ''pending''" using w r by (simp_all add: stamp_migration_def)
  moreover have "plan row = plan (m\<lparr>vg_TargetPVCName := migrationPVCName (vg_SourcePVCName m) (vg_ID m1)\<rparr>)"
    using w m1 by (simp add: r plan_def stamp_migration_def)
  moreover have "tbl_find vg_ID (vg_ID m1) (sd_migrations (db (st_world s'))) = Some row"
    using tbl_find_save_same [of vg_ID row] calculation(1) w r by simp
  ultimately show ?thesis using new same w job r by auto
qed

text \<open>What an accepted request means: no other migration of the claim was under way, and the task is stored.\<close>

definition accepted :: "storage_db \<Rightarrow> pvcMigrationRequest \<Rightarrow> string \<Rightarrow> PersistentVolumeMigration \<Rightarrow> storage_job \<Rightarrow> storage_db \<Rightarrow> bool" where
  "accepted d request name m job d' \<longleftrightarrow>
     (\<exists>e img. tbl_find en_ID (mq_EnvironmentID request) (wd_environments d) = Some e \<and> vg_EnvironmentID m = en_ID e \<and>
        \<not> migrating d (en_ID e) name \<and> wd_environments d' = wd_environments d \<and>
        vg_ID m \<noteq> 0 \<and> tbl_find vg_ID (vg_ID m) (sd_migrations d) = None \<and> tbl_find vg_ID (vg_ID m) (sd_migrations d') = Some m \<and>
        vg_Status m = ''pending'' \<and> vg_SourcePVCName m = name \<and> vg_TargetPVCName m = migrationPVCName name (vg_ID m) \<and>
        vg_TargetNodeName m = mq_TargetNode request \<and> vg_SourceNodeName m \<noteq> vg_TargetNodeName m \<and>
        job = RunMigration (vg_ID m) img \<and> img \<noteq> [])"

lemma create_accepted:
  assumes e: "tbl_find en_ID (mq_EnvironmentID request) (wd_environments d) = Some e" "\<not> migrating d (en_ID e) name"
    and node: "ci_BoundNode claim \<noteq> mq_TargetNode request"
  shows "triple (untouched d) (create_migration env ports (new_migration e app name claim (mq_TargetNode request) deployment replicas snapshot) img)
    (\<lambda>r s. \<forall>m job. r = Inr (m, job) \<longrightarrow> accepted d request name m job (db (st_world s)))"
proof (rule tripleI, intro allI impI)
  fix s r s' m job
  let ?m0 = "new_migration e app name claim (mq_TargetNode request) deployment replicas snapshot"
  assume s: "untouched d s" and c: "create_migration env ports ?m0 img s = (r, s')" and r: "r = Inr (m, job)"
  from create_migration_row [OF c [unfolded r]] obtain i where i: "i \<noteq> 0" "tbl_find vg_ID i (sd_migrations (db (st_world s))) = None"
      "tbl_find vg_ID i (sd_migrations (db (st_world s'))) = Some m" "vg_ID m = i" "vg_Status m = ''pending''"
    and p: "plan m = plan (?m0\<lparr>vg_TargetPVCName := migrationPVCName (vg_SourcePVCName ?m0) i\<rparr>)"
    and j: "\<exists>img'. img' \<noteq> [] \<and> job = RunMigration i img'" "wd_environments (db (st_world s')) = wd_environments (db (st_world s))" by blast
  then show "accepted d request name m job (db (st_world s'))"
    using s e node plan_fields [OF p] by (auto simp: accepted_def untouched_def new_migration_def)
qed

lemma workload_step_accepted:
  assumes "tbl_find en_ID (mq_EnvironmentID request) (wd_environments d) = Some e" "\<not> migrating d (en_ID e) name"
    and "ci_BoundNode claim \<noteq> mq_TargetNode request"
  shows "triple (untouched d) (workload_step env ports request name e claim) (\<lambda>r s. \<forall>m job. r = Inr (m, job) \<longrightarrow> accepted d request name m job (db (st_world s)))"
proof -
  have w: "looks (migrationWorkload env i ns n)" for i ns n
    unfolding migrationWorkload_def DeploymentUsingPVCContext_def ListApplications_def
    by (auto intro!: looks_intros split: list.splits option.splits)
  have t: "looks (migrationTemplateSnapshot env i)" for i
    unfolding migrationTemplateSnapshot_def ListApplicationDeploymentTemplates_def by (auto intro!: looks_intros)
  show ?thesis
    unfolding workload_step_def
    by (rule triple_bindP [OF looksD [OF looks_refusing [OF w]]])
      (auto intro!: triple_bindP [OF looksD [OF looks_refusing [OF t]]] create_accepted assms split: prod.splits)
qed

lemma request_accepted:
  "triple (untouched d) (Handler_CreatePersistentVolumeMigration env ports (Some request) name)
     (\<lambda>r s. \<forall>m job. r = Inr (m, job) \<longrightarrow> accepted d request name m job (db (st_world s)))" (is "triple _ _ ?Q")
proof -
  have claim: "triple (untouched d) (bindP (refusing ClaimFailed (GetManagedPVCContext env (en_Namespace e) name (en_ID e))) (\<lambda>claim.
      if \<not> movable claim then failP NotLocalVolume
      else if ci_BoundNode claim = mq_TargetNode request then failP SameNode
      else workload_step env ports request name e claim)) ?Q"
    if "tbl_find en_ID (mq_EnvironmentID request) (wd_environments d) = Some e" "\<not> migrating d (en_ID e) name" for e
    by (rule triple_bindP [OF looksD [OF looks_refusing [OF looks_GetManagedPVC]]]; (intro triple_if triple_failP workload_step_accepted that)?) auto
  have active: "triple (untouched d) (bindP (active_migration env (en_ID e) name) (\<lambda>active. case active of
      Some m \<Rightarrow> failP (MigrationRunning m)
    | None \<Rightarrow> bindP (refusing ClaimFailed (GetManagedPVCContext env (en_Namespace e) name (en_ID e))) (\<lambda>claim.
        if \<not> movable claim then failP NotLocalVolume
        else if ci_BoundNode claim = mq_TargetNode request then failP SameNode
        else workload_step env ports request name e claim))) ?Q"
    if e: "tbl_find en_ID (mq_EnvironmentID request) (wd_environments d) = Some e" for e
    by (rule triple_bindP [OF active_migration_exact], rule triple_fact, rule triple_option; (rule claim [OF e])?) (auto intro: triple_failP)
  show ?thesis
    unfolding Handler_CreatePersistentVolumeMigration_def option.case
    by (intro triple_if triple_failP triple_bindP [OF environment_exact] triple_fact [OF active]) auto
qed

section \<open>A cluster with two nodes\<close>

text \<open>
  A concrete surrounding for the examples: environment 1 has the namespace \<open>shop\<close> with the application
  \<open>web\<close> that uses the claim \<open>data\<close> on node \<open>a\<close>; each node has a server; all calls succeed.
\<close>

definition sample_claim :: "string \<Rightarrow> VolumeClaim" where
  "sample_claim n = \<lparr>pv_Name = n, pv_Namespace = ''shop'', pv_Labels = [(ManagedByLabel, ManagedByValue), (EnvironmentLabel, ''environment-1'')],
     pv_Phase = ''Bound'', pv_StorageClassName = None, pv_VolumeName = n, pv_Capacity = Some ''1Gi'', pv_Requested = ''1Gi'',
     pv_AccessModes = [''ReadWriteOnce''], pv_CreatedAt = []\<rparr>"

definition sample_volume :: "string \<Rightarrow> PersistentVolume" where
  "sample_volume n = \<lparr>vo_Name = n, vo_ReclaimPolicy = ''Delete'',
     vo_Terms = Some [[(hostname_label, ''In'', [if n = ''data'' then ''a'' else ''b''])]], vo_HostPath = Some (''/srv/'' @ n), vo_Local = None\<rparr>"

definition sample_workload :: VolumeWorkload where
  "sample_workload = \<lparr>dy_Name = ''web'', dy_Namespace = ''shop'', dy_Labels = [(ManagedByLabel, ManagedByValue)], dy_Volumes = [(''v'', Some ''data'')],
     dy_NodeSelector = [], dy_Replicas = Some 1, dy_Selector = ''app=web'', dy_AvailableReplicas = 1, dy_ResourceVersion = []\<rparr>"

definition sample_api :: volume_api where
  "sample_api = \<lparr>va_get_claim = \<lambda>_ _ n. Inr (sample_claim n), va_list_claims = \<lambda>_ _ _. Inr [], va_create_claim = \<lambda>_ c. Inr c, va_delete_claim = \<lambda>_ _ _. None,
     va_get_class = \<lambda>_ _. Inl ApiNotFound, va_list_classes = \<lambda>_. Inr [], va_get_volume = \<lambda>_ n. Inr (sample_volume n), va_list_volumes = \<lambda>_. Inr [],
     va_get_node = \<lambda>_ _. Inr [(''Ready'', ''True'')], va_get_namespace = \<lambda>_ _. None, va_create_pod = \<lambda>_ _. None, va_get_pod = \<lambda>_ _ _. None,
     va_delete_pod = \<lambda>_ _ _. None, va_get_deployment = \<lambda>_ _ _. Inr sample_workload, va_update_deployment = \<lambda>_ _. None,
     va_list_deployments = \<lambda>_ _. Inr [sample_workload], va_list_statefulsets = \<lambda>_ _. Inr [], va_list_pods = \<lambda>_ _ _. Inr 0\<rparr>"

definition sample_env :: storage_env where
  "sample_env = \<lparr>ev_fault = \<lambda>_. False, ev_now = int, ev_api = sample_api, ev_IsDNS1123Label = \<lambda>_. True, ev_ParseQuantity = \<lambda>q. Some (True, q),
     ev_ssh = \<lambda>_ _. (True, []), ev_stream = \<lambda>_ _ _. StreamRan 10 None [] None [], ev_done = \<lambda>_. False,
     ev_aead = \<lparr>gcm_Seal = \<lambda>_ _ p. p, gcm_Open = \<lambda>_ _ c. Some c\<rparr>, ev_encKey = [], ev_key_file = \<lambda>_ _. True, ev_order = id\<rparr>"

definition sample_server :: "nat \<Rightarrow> string \<Rightarrow> Server" where
  "sample_server i node = \<lparr>sv_ID = i, sv_Name = node, sv_Host = node, sv_SSHPort = 22, sv_SSHUser = ''root'', sv_SSHAuthType = ''key'', sv_SSHPassword = [],
     sv_SSHKey = [], sv_SSHKeyPassphrase = [], sv_SSHKeyHash = [], sv_ClusterRole = [], sv_K8sNodeName = node, sv_CreatedAt = int i, sv_DeletedAt = None\<rparr>"

definition sample_environment :: Environment where
  "sample_environment = \<lparr>en_ID = 1, en_ProjectID = 1, en_Name = ''prod'', en_Namespace = ''shop'', en_CreatedAt = 1\<rparr>"

definition sample_application :: Application where
  "sample_application = \<lparr>ap_ID = 1, ap_ProjectID = 1, ap_EnvironmentID = 1, ap_Name = ''web'', ap_WorkloadKind = ''deployment'', ap_CapabilitiesData = JSON [],
     ap_Capabilities = [], ap_DefaultDeploymentTemplateID = None, ap_CreatedAt = 1, ap_Project = zero_project, ap_Environment = zero_environment\<rparr>"

definition sample_state :: storage_state where
  "sample_state = \<lparr>st_world = \<lparr>db = \<lparr>rd_apps = [sample_application], rd_releases = [], rd_operations = [], rd_logs = [], rd_endpoints = [], rd_templates = [],
     rd_files = [], rd_registries = [], rd_mirrors = [], rd_trace = [], wd_projects = [], wd_environments = [sample_environment], wd_namespace_index = True,
     wd_seq = \<lambda>_. 1, sd_servers = [sample_server 1 ''a'', sample_server 2 ''b''], sd_migrations = [], sd_backups = [], sd_imports = [], sd_seq = \<lambda>_. 2\<rparr>,
     calls = 0\<rparr>, st_trace = []\<rparr>"

definition sample_ports :: storage_ports where
  "sample_ports = \<lparr>po_pvc = True, po_migration = True, po_workloads = True, po_store = True, po_executor = True\<rparr>"

definition sample_request :: pvcMigrationRequest where
  "sample_request = \<lparr>mq_EnvironmentID = 1, mq_TargetNode = ''b'', mq_HelperImage = []\<rparr>"

lemmas sample_defs = sample_env_def sample_api_def sample_state_def sample_ports_def sample_request_def sample_server_def sample_environment_def sample_application_def
  sample_workload_def sample_volume_def sample_claim_def

fun started_run :: "'e + 'a \<times> storage_job \<Rightarrow> bool" where
  "started_run (Inr (_, RunMigration _ _)) = True"
| "started_run _ = False"

lemma started_runE:
  assumes "started_run (fst p)"
  obtains m i img s where "p = (Inr (m, RunMigration i img), s)"
  using assms by (cases p) (auto elim: started_run.elims)

text \<open>The state after the request, as the run of the task finds it.\<close>

definition sample_accepted :: storage_state where
  "sample_accepted = (snd (Handler_CreatePersistentVolumeMigration sample_env sample_ports (Some sample_request) ''data'' sample_state))\<lparr>st_trace := []\<rparr>"

section \<open>Properties\<close>



text \<open>
  C25. An accepted migration settles. If the database works, then an accepted request is followed by a run
  that ends, whatever the cluster and the servers do: either the task waits for its clean-up and the last
  call saw the Deployment available, or the task has failed and either the Deployment was never stopped or
  the last request to the cluster was to give it its old number of replicas.
\<close>

theorem migration_settles:
  assumes "\<And>n. \<not> ev_fault env n" and "st_trace s = []"
    and "Handler_CreatePersistentVolumeMigration env ports (Some request) name s = (Inr (m, RunMigration i helperImage), s1)"
  shows "\<exists>environment. tbl_find en_ID (mq_EnvironmentID request) (wd_environments (db (st_world s))) = Some environment \<and>
    settled (en_Namespace environment) m i (snd (runPersistentVolumeMigration env i helperImage (s1\<lparr>st_trace := []\<rparr>)))"
proof -
  have "untouched (db (st_world s)) s" using assms(2) by (simp add: untouched_def)
  with tripleD [OF request_accepted this assms(3)] obtain e where e: "vg_ID m \<noteq> 0" "i = vg_ID m"
      "tbl_find vg_ID (vg_ID m) (sd_migrations (db (st_world s1))) = Some m"
      "tbl_find en_ID (mq_EnvironmentID request) (wd_environments (db (st_world s))) = Some e"
      "vg_EnvironmentID m = en_ID e" "wd_environments (db (st_world s1)) = wd_environments (db (st_world s))"
    by (auto simp: accepted_def)
  have "en_ID e = mq_EnvironmentID request" using tbl_find_key [OF e(4)] by simp
  then have "settled (en_Namespace e) m i (snd (runPersistentVolumeMigration env i helperImage (s1\<lparr>st_trace := []\<rparr>)))"
    using e by (intro run_outcome [OF assms(1) _ _ _ _ prod.collapse [symmetric]]) simp_all
  with e(4) show ?thesis by blast
qed

lemma migration_settles_witness:
  "\<exists>m i img s1. Handler_CreatePersistentVolumeMigration sample_env sample_ports (Some sample_request) ''data'' sample_state = (Inr (m, RunMigration i img), s1) \<and>
     (\<exists>environment. tbl_find en_ID 1 (wd_environments (db (st_world sample_state))) = Some environment \<and>
        settled (en_Namespace environment) m i (snd (runPersistentVolumeMigration sample_env i img (s1\<lparr>st_trace := []\<rparr>))))"
proof -
  have "started_run (fst (Handler_CreatePersistentVolumeMigration sample_env sample_ports (Some sample_request) ''data'' sample_state))" by code_simp
  then obtain m i img s1 where r: "Handler_CreatePersistentVolumeMigration sample_env sample_ports (Some sample_request) ''data'' sample_state = (Inr (m, RunMigration i img), s1)"
    by (rule started_runE)
  have "\<not> ev_fault sample_env n" "st_trace sample_state = []" "mq_EnvironmentID sample_request = 1" for n by (simp_all add: sample_defs)
  with migration_settles [OF _ _ r] r show ?thesis by auto
qed


definition sample_deletion :: persistentVolumeClaimRequest where
  "sample_deletion = \<lparr>pq_EnvironmentID = 1, pq_Namespace = [], pq_Name = [], pq_Storage = [], pq_StorageClassName = [], pq_ConfirmDataDelete = True\<rparr>"



definition sample_finished :: storage_state where
  "sample_finished = sample_state\<lparr>st_world := (st_world sample_state)\<lparr>db := (db (st_world sample_state))\<lparr>sd_migrations :=
     [(new_migration sample_environment sample_application ''old'' (pvcInfoFromResources (sample_claim ''old'') None None) ''b'' ''web'' 1 (JSON []))
       \<lparr>vg_ID := 3, vg_Status := ''cleanup_pending''\<rparr>]\<rparr>\<rparr>\<rparr>"


end
