(* ===== verification/Storage_Import.thy ===== *)
theory Storage_Import
  imports Storage_Tasks
begin

text \<open>
  Copying a directory of a server into a volume: \<open>internal/api/infrastructure/storage/pvc_import_handler.go\<close>.
  A run stops the Deployments that use the claim, archives the directory and, if the volume holds data, the
  volume, clears the volume, copies, compares checksums of both sides and starts the Deployments again.
\<close>

section \<open>Commands\<close>

definition source_probe :: "string \<Rightarrow> string" where
  "source_probe path = ''sudo -n test -d '' @ storageShellQuote path @ '' && command -v tar >/dev/null && command -v sha256sum >/dev/null''"

definition target_probe :: "string \<Rightarrow> string" where
  "target_probe path = ''sudo -n test -d '' @ storageShellQuote path @
     '' && command -v tar >/dev/null && command -v sha256sum >/dev/null && if sudo -n find '' @ storageShellQuote path @
     '' -mindepth 1 -maxdepth 1 -print -quit | grep -q .; then echo nonempty; else echo empty; fi''"

definition archive_command :: "string \<Rightarrow> string \<Rightarrow> string" where
  "archive_command sourcePath archivePath = ''sudo -n mkdir -p '' @ storageShellQuote (path_Dir archivePath) @
     '' && sudo -n rm -f '' @ storageShellQuote archivePath @ '' && sudo -n tar --numeric-owner -C '' @ storageShellQuote sourcePath @
     '' -czf '' @ storageShellQuote archivePath @ '' . && sudo -n sha256sum '' @ storageShellQuote archivePath @ '' | awk '' @ [CHR 0x27] @ ''{print $1}'' @ [CHR 0x27]"

definition checksum_command :: "string \<Rightarrow> string" where
  "checksum_command directory = ''LC_ALL=C sudo -n tar --sort=name --numeric-owner --mtime='' @ [CHR 0x27] @ ''UTC 1970-01-01'' @ [CHR 0x27] @ '' -C '' @
     storageShellQuote directory @ '' -cf - . | sha256sum | awk '' @ [CHR 0x27] @ ''{print $1}'' @ [CHR 0x27]"

definition clear_command :: "string \<Rightarrow> string" where
  "clear_command path = ''sudo -n find '' @ storageShellQuote path @ '' -mindepth 1 -maxdepth 1 -exec rm -rf {} +''"

definition rollback_command :: "string \<Rightarrow> string \<Rightarrow> string" where
  "rollback_command targetPath archivePath = clear_command targetPath @ '' && sudo -n tar -xzf '' @ storageShellQuote archivePath @ '' -C '' @
     storageShellQuote targetPath"

definition createHostDirectoryImportArchive :: "storage_env \<Rightarrow> Server \<Rightarrow> string \<Rightarrow> string \<Rightarrow> (volume_error, string) volume_proc" where
  "createHostDirectoryImportArchive env server sourcePath archivePath =
     tryP (SSHExec env server (archive_command sourcePath archivePath)) (\<lambda>r. case r of
       Inl out \<Rightarrow> failP (CommandFailed StepArchive (TrimSpace out))
     | Inr out \<Rightarrow>
         let checksum = hostDirectoryImportChecksumFromSSHOutput out in
         if checksum = [] then failP (TaskRefused ArchiveNoChecksum) else returnP checksum)"

definition hostDirectoryContentChecksum :: "storage_env \<Rightarrow> Server \<Rightarrow> string \<Rightarrow> (volume_error, string) volume_proc" where
  "hostDirectoryContentChecksum env server directory =
     tryP (SSHExec env server (checksum_command directory)) (\<lambda>r. case r of
       Inl out \<Rightarrow> failP (CommandFailed StepChecksum (TrimSpace out))
     | Inr out \<Rightarrow>
         let checksum = hostDirectoryImportChecksumFromSSHOutput out in
         if checksum = [] then failP (TaskRefused ChecksumMissing) else returnP checksum)"

definition clearHostDirectoryImportTarget :: "storage_env \<Rightarrow> Server \<Rightarrow> string \<Rightarrow> (volume_error, unit) volume_proc" where
  "clearHostDirectoryImportTarget env server targetPath =
     tryP (SSHExec env server (clear_command targetPath)) (\<lambda>r. case r of
       Inl out \<Rightarrow> failP (CommandFailed StepClear (TrimSpace out)) | Inr _ \<Rightarrow> returnP ())"

definition rollbackHostDirectoryImportTarget :: "storage_env \<Rightarrow> HostDirectoryPVCImport \<Rightarrow> Server \<Rightarrow> ('e, unit) volume_proc" where
  "rollbackHostDirectoryImportTarget env t target =
     (if vi_TargetBackupChecksum t = [] \<or> vi_TargetBackupPath t = [] then returnP ()
      else ignoring (SSHExec env target (rollback_command (vi_TargetPath t) (vi_TargetBackupPath t))) (returnP ()))"

definition deleteHostDirectoryImportArchive :: "storage_env \<Rightarrow> Server \<Rightarrow> string \<Rightarrow> (volume_error, unit) volume_proc" where
  "deleteHostDirectoryImportArchive env server archivePath =
     (let cleaned = path_Clean archivePath in
      if \<not> prefix (hostDirectoryImportBackupRoot @ ''/'') cleaned \<or> \<not> suffix ''.tar.gz'' cleaned then failP (TaskRefused ArchiveOutside)
      else tryP (SSHExec env server (''sudo -n rm -f '' @ storageShellQuote cleaned)) (\<lambda>r. case r of
        Inl out \<Rightarrow> failP (CommandFailed StepDelete (TrimSpace out)) | Inr _ \<Rightarrow> returnP ()))"

section \<open>Workloads\<close>

definition serverForK8sNode :: "storage_env \<Rightarrow> string \<Rightarrow> (volume_error, Server) volume_proc" where
  "serverForK8sNode env nodeName =
     bindP (refusing StorageDB (on_db (ListServers (ev_fault env)))) (\<lambda>servers.
       case find (\<lambda>s. sv_K8sNodeName s = nodeName) servers of
         None \<Rightarrow> failP (TaskRefused (NodeWithoutServer nodeName)) | Some s \<Rightarrow> returnP s)"

fun stop_each :: "storage_env \<Rightarrow> string \<Rightarrow> VolumeWorkload list \<Rightarrow> (string \<times> int) list \<Rightarrow> (volume_error, (string \<times> int) list) volume_proc" where
  "stop_each env namespace [] replicas = returnP replicas"
| "stop_each env namespace (d # ds) replicas =
     bindP (ScaleDeploymentContext env namespace (dy_Name d) 0) (\<lambda>_.
     bindP (waitForStorageDeploymentPods env namespace (dy_Name d) False 90) (\<lambda>_.
       stop_each env namespace ds (map_put (dy_Name d) (replica_count d) replicas)))"

text \<open>The replica counts collected before an error are dropped by the caller.\<close>

definition stopPVCImportWorkloads :: "storage_env \<Rightarrow> string \<Rightarrow> string \<Rightarrow> (volume_error, (string \<times> int) list) volume_proc" where
  "stopPVCImportWorkloads env namespace claimName =
     bindP (DeploymentUsingPVCContext env namespace claimName) (\<lambda>deployments.
       case find (\<lambda>d. \<not> managed_workload d) deployments of
         Some d \<Rightarrow> failP (TaskRefused (UnmanagedUser (dy_Name d)))
       | None \<Rightarrow> stop_each env namespace deployments [])"

definition restore_one :: "storage_env \<Rightarrow> string \<Rightarrow> string \<times> int \<Rightarrow> (volume_error, unit) volume_proc" where
  "restore_one env namespace entry =
     bindP (ScaleDeploymentContext env namespace (fst entry) (snd entry)) (\<lambda>_.
       if snd entry > 0 then waitForStorageDeploymentPods env namespace (fst entry) True 120 else returnP ())"

definition restorePVCImportWorkloads :: "storage_env \<Rightarrow> string \<Rightarrow> (string \<times> int) list \<Rightarrow> (volume_error, unit) volume_proc" where
  "restorePVCImportWorkloads env namespace replicas = foreach (restore_one env namespace) (ev_order env replicas)"

section \<open>The run\<close>

definition UpdateImport ::
  "storage_env \<Rightarrow> HostDirectoryPVCImport \<Rightarrow> string \<Rightarrow> task_note \<Rightarrow> ('e, db_error option \<times> HostDirectoryPVCImport) volume_proc" where
  "UpdateImport env t status detail s =
     (let t' = stamp_import (clock env s) t status detail in
      case on_db (save_import (ev_fault env) (clock env s) t') s of
        (Inl e, s') \<Rightarrow> (Inr (Some e, t'), s')
      | (Inr row, s') \<Rightarrow> (Inr (None, row), s'))"

definition advance_import ::
  "storage_env \<Rightarrow> HostDirectoryPVCImport \<Rightarrow> string \<Rightarrow> (HostDirectoryPVCImport \<Rightarrow> ('e, unit) volume_proc) \<Rightarrow> ('e, unit) volume_proc" where
  "advance_import env t status k = bindP (UpdateImport env t status (Note status)) (\<lambda>(err, t'). if err \<noteq> None then returnP () else k t')"

definition failHostDirectoryPVCImport ::
  "storage_env \<Rightarrow> HostDirectoryPVCImport \<Rightarrow> volume_error \<Rightarrow> (string \<times> int) list \<Rightarrow> ('e, unit) volume_proc" where
  "failHostDirectoryPVCImport env t cause replicas =
     bindP (if replicas \<noteq> [] then tryP (on_db (GetEnvironmentByID (ev_fault env) (vi_EnvironmentID t))) (\<lambda>r. case r of
              Inl _ \<Rightarrow> returnP ()
            | Inr environment \<Rightarrow> ignoring (restorePVCImportWorkloads env (en_Namespace environment) replicas) (returnP ()))
            else returnP ()) (\<lambda>_.
     bindP (UpdateImport env t ''failed'' (Failure cause)) (\<lambda>_. returnP ()))"

definition check_key :: "Server \<Rightarrow> (volume_error, unit) volume_proc" where
  "check_key server = (if sv_SSHAuthType server \<noteq> ''key'' then failP (TaskRefused (ServerNeedsKey (sv_Name server))) else returnP ())"

definition probe :: "storage_env \<Rightarrow> command_step \<Rightarrow> Server \<Rightarrow> string \<Rightarrow> (volume_error, string) volume_proc" where
  "probe env step server command = tryP (SSHExec env server command) (\<lambda>r. case r of
     Inl out \<Rightarrow> failP (CommandFailed step (TrimSpace out)) | Inr out \<Rightarrow> returnP out)"

definition import_claim_ok :: "HostDirectoryPVCImport \<Rightarrow> PersistentVolumeClaimInfo \<Rightarrow> bool" where
  "import_claim_ok t claim \<longleftrightarrow> ci_Phase claim = ''Bound'' \<and> ci_IsLocal claim \<and> ci_BoundNode claim = vi_TargetNodeName t \<and>
     ci_LocalPath claim = vi_TargetPath t"

definition look_at_volumes :: "storage_env \<Rightarrow> HostDirectoryPVCImport \<Rightarrow> bool \<Rightarrow> Environment \<Rightarrow> Server \<Rightarrow> Server \<Rightarrow> PersistentVolumeClaimInfo \<Rightarrow>
   (volume_error, Environment \<times> Server \<times> Server \<times> PersistentVolumeClaimInfo \<times> bool) volume_proc" where
  "look_at_volumes env t replaceTarget environment source target claim =
     bindP (foreach check_key [source, target]) (\<lambda>_.
     bindP (probe env StepSource source (source_probe (vi_SourcePath t))) (\<lambda>_.
     bindP (probe env StepTarget target (target_probe (vi_TargetPath t))) (\<lambda>out.
       let targetHasData = (TrimSpace out = ''nonempty'') in
       if targetHasData \<and> \<not> replaceTarget then failP (TaskRefused TargetHasData)
       else returnP (environment, source, target, claim, targetHasData))))"

definition preflightHostDirectoryPVCImport ::
  "storage_env \<Rightarrow> HostDirectoryPVCImport \<Rightarrow> bool \<Rightarrow> (volume_error, Environment \<times> Server \<times> Server \<times> PersistentVolumeClaimInfo \<times> bool) volume_proc" where
  "preflightHostDirectoryPVCImport env t replaceTarget =
     bindP (refusing StorageDB (on_db (GetEnvironmentByID (ev_fault env) (vi_EnvironmentID t)))) (\<lambda>environment.
     bindP (GetManagedPVCContext env (en_Namespace environment) (vi_PVCName t) (en_ID environment)) (\<lambda>claim.
       if \<not> import_claim_ok t claim then failP (TaskRefused ClaimChanged)
       else bindP (refusing StorageDB (on_db (GetServer (ev_fault env) (vi_SourceServerID t)))) (\<lambda>source.
       bindP (serverForK8sNode env (vi_TargetNodeName t)) (\<lambda>target.
         look_at_volumes env t replaceTarget environment source target claim))))"

definition restart_workloads ::
  "storage_env \<Rightarrow> string \<Rightarrow> (string \<times> int) list \<Rightarrow> HostDirectoryPVCImport \<Rightarrow> ('e, unit) volume_proc" where
  "restart_workloads env namespace replicas t =
     tryP (restorePVCImportWorkloads env namespace replicas) (\<lambda>r. case r of
       Inl e \<Rightarrow> failHostDirectoryPVCImport env t e replicas
     | Inr _ \<Rightarrow> bindP (UpdateImport env t ''succeeded'' (Note ''succeeded'')) (\<lambda>_. returnP ()))"

definition roll_back_import ::
  "storage_env \<Rightarrow> Server \<Rightarrow> (string \<times> int) list \<Rightarrow> HostDirectoryPVCImport \<Rightarrow> volume_error \<Rightarrow> ('e, unit) volume_proc" where
  "roll_back_import env target replicas t e =
     bindP (rollbackHostDirectoryImportTarget env t target) (\<lambda>_. failHostDirectoryPVCImport env t e replicas)"

definition verify_import ::
  "storage_env \<Rightarrow> string \<Rightarrow> Server \<Rightarrow> Server \<Rightarrow> (string \<times> int) list \<Rightarrow> HostDirectoryPVCImport \<Rightarrow> ('e, unit) volume_proc" where
  "verify_import env namespace source target replicas t =
     tryP (hostDirectoryContentChecksum env source (vi_SourcePath t)) (\<lambda>r. case r of
       Inl e \<Rightarrow> roll_back_import env target replicas t e
     | Inr sourceChecksum \<Rightarrow>
         tryP (hostDirectoryContentChecksum env target (vi_TargetPath t)) (\<lambda>r. case r of
           Inl e \<Rightarrow> roll_back_import env target replicas t e
         | Inr targetChecksum \<Rightarrow>
             if sourceChecksum \<noteq> targetChecksum then roll_back_import env target replicas t (TaskRefused ChecksumMismatch)
             else (\<lambda>s. advance_import env (t\<lparr>vi_SourceChecksum := sourceChecksum, vi_TargetChecksum := targetChecksum, vi_VerifiedAt := Some (clock env s)\<rparr>)
                ''restoring_workload'' (restart_workloads env namespace replicas) s)))"

definition copy_directory ::
  "storage_env \<Rightarrow> string \<Rightarrow> Server \<Rightarrow> Server \<Rightarrow> (string \<times> int) list \<Rightarrow> HostDirectoryPVCImport \<Rightarrow> ('e, unit) volume_proc" where
  "copy_directory env namespace source target replicas t =
     bindP (streamPVCData env source target (vi_SourcePath t) (vi_TargetPath t)) (\<lambda>(bytesCopied, err).
       let t = t\<lparr>vi_BytesCopied := bytesCopied\<rparr> in
       case err of
         Some e \<Rightarrow> roll_back_import env target replicas t e
       | None \<Rightarrow> advance_import env t ''verifying'' (verify_import env namespace source target replicas))"

definition replace_data ::
  "storage_env \<Rightarrow> string \<Rightarrow> Server \<Rightarrow> Server \<Rightarrow> (string \<times> int) list \<Rightarrow> HostDirectoryPVCImport \<Rightarrow> ('e, unit) volume_proc" where
  "replace_data env namespace source target replicas t =
     tryP (clearHostDirectoryImportTarget env target (vi_TargetPath t)) (\<lambda>r. case r of
       Inl e \<Rightarrow> failHostDirectoryPVCImport env t e replicas
     | Inr _ \<Rightarrow> advance_import env t ''copying'' (copy_directory env namespace source target replicas))"

definition back_up ::
  "storage_env \<Rightarrow> string \<Rightarrow> Server \<Rightarrow> Server \<Rightarrow> bool \<Rightarrow> (string \<times> int) list \<Rightarrow> HostDirectoryPVCImport \<Rightarrow> ('e, unit) volume_proc" where
  "back_up env namespace source target targetHasData replicas t =
     tryP (createHostDirectoryImportArchive env source (vi_SourcePath t) (vi_BackupPath t)) (\<lambda>r. case r of
       Inl e \<Rightarrow> failHostDirectoryPVCImport env t e replicas
     | Inr checksum \<Rightarrow>
         let t = t\<lparr>vi_BackupChecksum := checksum\<rparr> in
         if targetHasData then
           tryP (createHostDirectoryImportArchive env target (vi_TargetPath t) (vi_TargetBackupPath t)) (\<lambda>r. case r of
             Inl e \<Rightarrow> failHostDirectoryPVCImport env t e replicas
           | Inr targetChecksum \<Rightarrow> replace_data env namespace source target replicas (t\<lparr>vi_TargetBackupChecksum := targetChecksum\<rparr>))
         else replace_data env namespace source target replicas t)"

definition stop_and_import ::
  "storage_env \<Rightarrow> HostDirectoryPVCImport \<Rightarrow> string \<Rightarrow> Server \<Rightarrow> Server \<Rightarrow> PersistentVolumeClaimInfo \<Rightarrow> bool \<Rightarrow> ('e, unit) volume_proc" where
  "stop_and_import env t namespace source target claim targetHasData =
     tryP (stopPVCImportWorkloads env namespace (ci_Name claim)) (\<lambda>r. case r of
       Inl e \<Rightarrow> failHostDirectoryPVCImport env t e []
     | Inr replicas \<Rightarrow>
         bindP (UpdateImport env (t\<lparr>vi_ApplicationReplicas := replicas\<rparr>) ''backing_up'' (Note ''backing_up'')) (\<lambda>(_, t).
           back_up env namespace source target targetHasData replicas t))"

definition import_stages :: "storage_env \<Rightarrow> bool \<Rightarrow> HostDirectoryPVCImport \<Rightarrow> ('e, unit) volume_proc" where
  "import_stages env replaceTarget t =
     tryP (preflightHostDirectoryPVCImport env t replaceTarget) (\<lambda>r. case r of
       Inl e \<Rightarrow> failHostDirectoryPVCImport env t e []
     | Inr (environment, source, target, claim, targetHasData) \<Rightarrow>
         advance_import env t ''stopping_workload'' (\<lambda>t. stop_and_import env t (en_Namespace environment) source target claim targetHasData))"

definition runHostDirectoryPVCImport :: "storage_env \<Rightarrow> nat \<Rightarrow> bool \<Rightarrow> ('e, unit) volume_proc" where
  "runHostDirectoryPVCImport env i replaceTarget =
     tryP (on_db (GetHostDirectoryPVCImport (ev_fault env) i)) (\<lambda>r. case r of
       Inl _ \<Rightarrow> returnP ()
     | Inr t \<Rightarrow> (\<lambda>s. advance_import env (t\<lparr>vi_StartedAt := Some (clock env s)\<rparr>) ''preflight'' (import_stages env replaceTarget) s))"

section \<open>Requests\<close>

record hostDirectoryPVCImportRequest =
  iq_EnvironmentID :: nat
  iq_SourceServerID :: nat
  iq_SourcePath :: string
  iq_ConfirmDataReplace :: bool

definition Handler_ListHostDirectoryPVCImports ::
  "storage_env \<Rightarrow> storage_ports \<Rightarrow> string \<Rightarrow> string \<Rightarrow> (storage_refusal, HostDirectoryPVCImport list) volume_proc" where
  "Handler_ListHostDirectoryPVCImports env ports environment_query name =
     bindP (pvcEnvironment env ports environment_query) (\<lambda>environment.
       refusing (\<lambda>_. StoreFailed) (on_db (ListHostDirectoryPVCImports (ev_fault env) (en_ID environment) name)))"

definition active_import :: "storage_env \<Rightarrow> nat \<Rightarrow> string \<Rightarrow> (storage_refusal, HostDirectoryPVCImport option) volume_proc" where
  "active_import env environmentID name =
     tryP (on_db (FindActiveHostDirectoryPVCImport (ev_fault env) environmentID name)) (\<lambda>r. case r of
       Inr t \<Rightarrow> returnP (Some t)
     | Inl e \<Rightarrow> if e = ErrRecordNotFound then returnP None else failP StoreFailed)"

definition new_import :: "Environment \<Rightarrow> PersistentVolumeClaimInfo \<Rightarrow> Server \<Rightarrow> string \<Rightarrow> nat \<Rightarrow> HostDirectoryPVCImport" where
  "new_import environment claim source sourcePath userID =
     \<lparr>vi_ID = 0, vi_EnvironmentID = en_ID environment, vi_PVCName = ci_Name claim, vi_SourceServerID = sv_ID source, vi_SourceNodeName = sv_K8sNodeName source,
      vi_SourcePath = sourcePath, vi_TargetNodeName = ci_BoundNode claim, vi_TargetPath = ci_LocalPath claim, vi_BackupPath = [], vi_BackupChecksum = [],
      vi_TargetBackupPath = [], vi_TargetBackupChecksum = [], vi_SourceChecksum = [], vi_TargetChecksum = [], vi_BytesCopied = 0, vi_ApplicationReplicas = [],
      vi_Status = ''pending'', vi_Detail = NoNote, vi_VerifiedAt = None, vi_BackupDeletedAt = None, vi_CreatedBy = userID, vi_StartedAt = None,
      vi_CompletedAt = None, vi_CreatedAt = zero_time\<rparr>"

definition create_import ::
  "storage_env \<Rightarrow> storage_ports \<Rightarrow> HostDirectoryPVCImport \<Rightarrow> bool \<Rightarrow> (storage_refusal, HostDirectoryPVCImport \<times> storage_job) volume_proc" where
  "create_import env ports t confirmed =
     bindP (\<lambda>s. refusing (\<lambda>_. StoreFailed) (on_db (CreateHostDirectoryPVCImport (ev_fault env) (clock env s) t)) s) (\<lambda>t.
     let t = t\<lparr>vi_BackupPath := hostDirectoryImportBackupPath (vi_PVCName t) (vi_ID t) False,
               vi_TargetBackupPath := hostDirectoryImportBackupPath (vi_PVCName t) (vi_ID t) True,
               vi_Detail := (if confirmed then Note ''confirmed'' else vi_Detail t)\<rparr> in
     bindP (UpdateImport env t ''pending'' (vi_Detail t)) (\<lambda>(err, t).
       if err \<noteq> None then failP StoreFailed
       else bindP (StartJob ports (RunImport (vi_ID t) confirmed)) (\<lambda>job. returnP (t, job))))"

definition import_servers ::
  "storage_env \<Rightarrow> nat \<Rightarrow> PersistentVolumeClaimInfo \<Rightarrow> string \<Rightarrow> (storage_refusal, Server) volume_proc" where
  "import_servers env sourceID claim sourcePath =
     bindP (refusing (\<lambda>_. ServerNotFound) (on_db (GetServer (ev_fault env) sourceID))) (\<lambda>source.
       if sv_SSHAuthType source \<noteq> ''key'' then failP ServerWithoutKey
       else bindP (refusing (\<lambda>_. ServerWithoutKey) (serverForK8sNode env (ci_BoundNode claim))) (\<lambda>target.
         if sv_SSHAuthType target \<noteq> ''key'' then failP ServerWithoutKey
         else if sv_ID source = sv_ID target \<and> HostDirectoryImportPathsOverlap sourcePath (ci_LocalPath claim) then failP PathsOverlap
         else returnP source))"

definition no_task :: "storage_env \<Rightarrow> nat \<Rightarrow> string \<Rightarrow> (storage_refusal, unit) volume_proc" where
  "no_task env environmentID name =
     bindP (active_import env environmentID name) (\<lambda>active. case active of
       Some t \<Rightarrow> failP (ImportRunning t)
     | None \<Rightarrow> bindP (active_migration env environmentID name) (\<lambda>active. case active of
         Some m \<Rightarrow> failP (MigrationRunning m) | None \<Rightarrow> returnP ()))"

definition Handler_CreateHostDirectoryPVCImport ::
  "storage_env \<Rightarrow> storage_ports \<Rightarrow> hostDirectoryPVCImportRequest option \<Rightarrow> string \<Rightarrow> nat \<Rightarrow> (storage_refusal, HostDirectoryPVCImport \<times> storage_job) volume_proc" where
  "Handler_CreateHostDirectoryPVCImport env ports body name userID =
     (if \<not> po_pvc ports \<or> \<not> po_migration ports \<or> \<not> po_store ports then failP K8sUnavailable
      else case body of
        None \<Rightarrow> failP RequestInvalid
      | Some request \<Rightarrow>
          if iq_EnvironmentID request = 0 \<or> iq_SourceServerID request = 0 then failP RequestInvalid
          else case ValidateHostDirectoryImportPath (iq_SourcePath request) of
            None \<Rightarrow> failP PathRefused
          | Some sourcePath \<Rightarrow>
              bindP (environment_by_id env (iq_EnvironmentID request)) (\<lambda>environment.
              bindP (refusing ClaimFailed (GetManagedPVCContext env (en_Namespace environment) name (en_ID environment))) (\<lambda>claim.
                if ci_Phase claim \<noteq> ''Bound'' \<or> \<not> ci_IsLocal claim \<or> ci_BoundNode claim = [] \<or> ci_LocalPath claim = [] then failP NotLocalVolume
                else bindP (no_task env (en_ID environment) (ci_Name claim)) (\<lambda>_.
                bindP (import_servers env (iq_SourceServerID request) claim sourcePath) (\<lambda>source.
                  create_import env ports (new_import environment claim source sourcePath userID) (iq_ConfirmDataReplace request))))))"

text \<open>The environment is named by the query or, if that is empty, by the body.\<close>

definition request_environment :: "string \<Rightarrow> nat option \<Rightarrow> nat option" where
  "request_environment environment_query body =
     (case OptionalID (TrimSpace environment_query) of
        None \<Rightarrow> None
      | Some i \<Rightarrow> if i \<noteq> 0 then Some i else (case body of None \<Rightarrow> None | Some j \<Rightarrow> if j = 0 then None else Some j))"

definition delete_archives :: "storage_env \<Rightarrow> HostDirectoryPVCImport \<Rightarrow> (storage_refusal, unit) volume_proc" where
  "delete_archives env t =
     bindP (refusing (\<lambda>_. ServerNotFound) (on_db (GetServer (ev_fault env) (vi_SourceServerID t)))) (\<lambda>source.
     bindP (refusing ClaimFailed (serverForK8sNode env (vi_TargetNodeName t))) (\<lambda>target.
     bindP (refusing ClaimFailed (deleteHostDirectoryImportArchive env source (vi_BackupPath t))) (\<lambda>_.
       if vi_TargetBackupChecksum t \<noteq> []
       then refusing ClaimFailed (deleteHostDirectoryImportArchive env (if sv_ID target \<noteq> sv_ID source then target else source) (vi_TargetBackupPath t))
       else returnP ())))"

definition Handler_DeleteHostDirectoryPVCImportBackup ::
  "storage_env \<Rightarrow> storage_ports \<Rightarrow> string \<Rightarrow> nat option \<Rightarrow> string \<Rightarrow> string \<Rightarrow> (storage_refusal, HostDirectoryPVCImport) volume_proc" where
  "Handler_DeleteHostDirectoryPVCImportBackup env ports environment_query body name id_param =
     (if \<not> po_store ports then failP StoreUnavailable
      else case request_environment environment_query body of
        None \<Rightarrow> failP EnvironmentIDInvalid
      | Some environmentID \<Rightarrow>
          bindP (environment_by_id env environmentID) (\<lambda>environment.
            case ParsePositiveID (TrimSpace id_param) of
              None \<Rightarrow> failP TaskIDInvalid
            | Some i \<Rightarrow>
                bindP (refusing (\<lambda>_. TaskNotFound) (on_db (GetHostDirectoryPVCImport (ev_fault env) i))) (\<lambda>t.
                  if vi_EnvironmentID t \<noteq> en_ID environment \<or> vi_PVCName t \<noteq> name then failP TaskNotFound
                  else if vi_Status t \<noteq> ''succeeded'' \<or> vi_VerifiedAt t = None then failP NotVerified
                  else if vi_BackupDeletedAt t \<noteq> None then returnP t
                  else bindP (delete_archives env t) (\<lambda>_ s.
                    bindP (UpdateImport env (t\<lparr>vi_BackupDeletedAt := Some (clock env s)\<rparr>) (vi_Status t) (Note ''backup deleted'')) (\<lambda>(err, t).
                      if err \<noteq> None then failP StoreFailed else returnP t) s))))"

end
