(* ===== verification/Storage_Import_Safety.thy ===== *)
theory Storage_Import_Safety
  imports Storage_Import
begin

text \<open>
  What an import may do to the servers and the cluster: the policy its trace obeys, whatever the database,
  the API server and the servers answer, and the checks behind an import that succeeded.
\<close>

section \<open>Runs that only scale Deployments\<close>

text \<open>Facts about a trace that stay true as it grows.\<close>

definition lasting :: "(volume_event list \<Rightarrow> bool) \<Rightarrow> bool" where
  "lasting F \<longleftrightarrow> (\<forall>t es. F t \<longrightarrow> F (t @ es))"

lemma lastingD: "lasting F \<Longrightarrow> F t \<Longrightarrow> F (t @ es)"
  by (simp add: lasting_def)

lemma lasting_True [simp]: "lasting (\<lambda>_. True)"
  by (simp add: lasting_def)

lemma lasting_conj: "lasting F \<Longrightarrow> lasting G \<Longrightarrow> lasting (\<lambda>t. F t \<and> G t)"
  by (simp add: lasting_def)

lemma lasting_imp: "lasting F \<Longrightarrow> lasting (\<lambda>t. b \<longrightarrow> F t)"
  by (simp add: lasting_def)

text \<open>The state of a run: its policy, lasting facts about the trace, and the environments.\<close>

definition pol_state ::
  "(volume_event list \<Rightarrow> volume_event \<Rightarrow> bool) \<Rightarrow> Environment list \<Rightarrow> (volume_event list \<Rightarrow> bool) \<Rightarrow> storage_state \<Rightarrow> bool" where
  "pol_state allowed es F s \<longleftrightarrow> obeys allowed (st_trace s) \<and> F (st_trace s) \<and> wd_environments (db (st_world s)) = es"

text \<open>A policy under which the replica count of a Deployment that was just read may be changed.\<close>

locale scaling_policy = event_policy +
  assumes scaling_allowed: "tr \<noteq> [] \<Longrightarrow> last tr = VGetDeployment ns name (Inr d) \<Longrightarrow> allowed tr (VUpdateDeployment (d\<lparr>dy_Replicas := Some n\<rparr>) x)"
begin

lemma pol_quiet:
  assumes "adds harmless p" and "lasting F"
  shows "triple (pol_state allowed es F) p (\<lambda>_. pol_state allowed es F)"
proof (rule tripleI)
  fix s r s'
  assume s: "pol_state allowed es F s" and p: "p s = (r, s')"
  obtain tr where "st_trace s' = st_trace s @ tr" "list_all harmless tr" "wd_environments (db (st_world s')) = wd_environments (db (st_world s))"
    using assms(1) p by (rule addsE)
  with s show "pol_state allowed es F s'"
    by (simp add: pol_state_def obeys_harmless lastingD [OF assms(2)])
qed

text \<open>Storing a status leaves the trace as it is, so all facts about it stay.\<close>

lemma pol_silent:
  assumes "\<And>P. adds P p"
  shows "triple (pol_state allowed es F) p (\<lambda>_. pol_state allowed es F)"
  using adds_silent [OF assms] by (auto simp: triple_def pol_state_def)

lemma pol_SSH:
  assumes "\<And>tr r. F tr \<Longrightarrow> allowed tr (VCommand server command r)" and "lasting F"
  shows "triple (pol_state allowed es F) (SSHExec env server command)
    (\<lambda>r. pol_state allowed es (\<lambda>tr. F tr \<and> (\<forall>output. r = Inr output \<longrightarrow> tr \<noteq> [] \<and> last tr = VCommand server command (True, output))))"
  unfolding SSHExec_def
  by (rule triple_call) (use assms in \<open>auto simp: pol_state_def lasting_def split: prod.splits\<close>)

lemma pol_scale:
  assumes "lasting F"
  shows "triple (pol_state allowed es F) (ScaleDeploymentContext env ns name n) (\<lambda>_. pol_state allowed es F)"
proof -
  have up: "allowed (t @ [VGetDeployment ns name (Inr d)]) (VUpdateDeployment (d\<lparr>dy_Replicas := Some n\<rparr>) x)" for t d x
    by (rule scaling_allowed) simp_all
  show ?thesis
    by (rule tripleI) (use assms up in \<open>auto simp: ScaleDeploymentContext_def lift_api_def get_deployment_def update_deployment_def call_def Let_def bindP_def
      pol_state_def obeys_two lasting_def harmless_allowed split: sum.splits prod.splits\<close>)
qed

lemma pol_wait: "lasting F \<Longrightarrow> triple (pol_state allowed es F) (waitForStorageDeploymentPods env ns name ready n) (\<lambda>_. pol_state allowed es F)"
  unfolding waitForStorageDeploymentPods_def by (intro pol_quiet adds_settle_loop)

end

section \<open>The policy\<close>

definition archived :: "string \<Rightarrow> string \<Rightarrow> volume_event list \<Rightarrow> bool" where
  "archived path archive t \<longleftrightarrow>
     (\<exists>server output. VCommand server (archive_command path archive) (True, output) \<in> set t \<and> hostDirectoryImportChecksumFromSSHOutput output \<noteq> [])"

text \<open>The Deployment was scaled to zero and later seen without pods.\<close>

definition stopped_in :: "string \<Rightarrow> string \<Rightarrow> volume_event list \<Rightarrow> bool" where
  "stopped_in ns name t \<longleftrightarrow>
     (\<exists>t0 d t1 d' t2. t = t0 @ [VGetDeployment ns name (Inr d), VUpdateDeployment (d\<lparr>dy_Replicas := Some 0\<rparr>) None] @ t1 @
        [VGetDeployment ns name (Inr d'), VListPods ns (dy_Selector d') (Inr 0)] @ t2)"

definition users_stopped :: "storage_env \<Rightarrow> string \<Rightarrow> string \<Rightarrow> volume_event list \<Rightarrow> bool" where
  "users_stopped env ns claim t \<longleftrightarrow>
     (\<exists>t0 ws t1. t = t0 @ [VListDeployments ns] @ t1 \<and> va_list_deployments (ev_api env) t0 ns = Inr ws \<and>
        list_all (\<lambda>w. DeploymentReferencesPVC w claim \<longrightarrow> managed_workload w \<and> stopped_in ns (dy_Name w) t1) ws)"

definition probed :: "HostDirectoryPVCImport \<Rightarrow> bool \<Rightarrow> volume_event list \<Rightarrow> bool" where
  "probed t hasData tr \<longleftrightarrow>
     (\<exists>server output. VCommand server (target_probe (vi_TargetPath t)) (True, output) \<in> set tr \<and> hasData = (TrimSpace output = ''nonempty''))"

text \<open>
  The volume may be cleared when its users are stopped, the directory is archived, and the volume was found
  empty, or holds data that the request gives up and that are archived.
\<close>

definition may_clear :: "storage_env \<Rightarrow> string \<Rightarrow> HostDirectoryPVCImport \<Rightarrow> bool \<Rightarrow> volume_event list \<Rightarrow> bool" where
  "may_clear env ns t replace tr \<longleftrightarrow>
     users_stopped env ns (vi_PVCName t) tr \<and> archived (vi_SourcePath t) (vi_BackupPath t) tr \<and>
     (\<exists>hasData. probed t hasData tr \<and> (hasData \<longrightarrow> replace \<and> archived (vi_TargetPath t) (vi_TargetBackupPath t) tr))"

definition imp_command :: "storage_env \<Rightarrow> string \<Rightarrow> HostDirectoryPVCImport \<Rightarrow> bool \<Rightarrow> volume_event list \<Rightarrow> Server \<Rightarrow> string \<Rightarrow> bool" where
  "imp_command env ns t replace tr server command \<longleftrightarrow>
     command \<in> {source_probe (vi_SourcePath t), target_probe (vi_TargetPath t), checksum_command (vi_SourcePath t), checksum_command (vi_TargetPath t),
       archive_command (vi_SourcePath t) (vi_BackupPath t)} \<or>
     sv_K8sNodeName server = vi_TargetNodeName t \<and>
       (command = archive_command (vi_TargetPath t) (vi_TargetBackupPath t) \<or>
        command = clear_command (vi_TargetPath t) \<and> may_clear env ns t replace tr \<or>
        command = rollback_command (vi_TargetPath t) (vi_TargetBackupPath t) \<and> archived (vi_TargetPath t) (vi_TargetBackupPath t) tr)"

definition imp_allowed :: "storage_env \<Rightarrow> string \<Rightarrow> HostDirectoryPVCImport \<Rightarrow> bool \<Rightarrow> volume_event list \<Rightarrow> volume_event \<Rightarrow> bool" where
  "imp_allowed env ns t replace tr e =
     (case e of
        VDeleteClaim _ _ \<Rightarrow> False
      | VCreateClaim _ \<Rightarrow> False
      | VUpdateDeployment d _ \<Rightarrow> (\<exists>ns' name d0 n. tr \<noteq> [] \<and> last tr = VGetDeployment ns' name (Inr d0) \<and> d = d0\<lparr>dy_Replicas := Some n\<rparr>)
      | VCommand server command _ \<Rightarrow> imp_command env ns t replace tr server command
      | VStream source target sourcePath targetPath _ \<Rightarrow>
          sv_ID source = vi_SourceServerID t \<and> sourcePath = vi_SourcePath t \<and> targetPath = vi_TargetPath t \<and>
          tr \<noteq> [] \<and> (\<exists>output. last tr = VCommand target (clear_command (vi_TargetPath t)) (True, output))
      | _ \<Rightarrow> True)"

interpretation im: scaling_policy "imp_allowed env ns t replace" for env ns t replace
proof unfold_locales
  fix e tr
  show "harmless e \<Longrightarrow> imp_allowed env ns t replace tr e" by (cases e) (auto simp: imp_allowed_def)
qed (auto simp: imp_allowed_def)

lemma lasting_archived [simp]: "lasting (archived path archive)"
  by (auto simp: lasting_def archived_def)

lemma lasting_probed [simp]: "lasting (probed t b)"
  by (auto simp: lasting_def probed_def)

lemma lasting_stopped_in [simp]: "lasting (stopped_in ns name)"
  unfolding lasting_def stopped_in_def by (metis append.assoc)

lemma lasting_users_stopped [simp]: "lasting (users_stopped env ns claim)"
  unfolding lasting_def
proof (intro allI impI)
  fix t es
  assume "users_stopped env ns claim t"
  then obtain t0 ws t1 where t: "t = t0 @ [VListDeployments ns] @ t1" "va_list_deployments (ev_api env) t0 ns = Inr ws"
      "list_all (\<lambda>w. DeploymentReferencesPVC w claim \<longrightarrow> managed_workload w \<and> stopped_in ns (dy_Name w) t1) ws"
    unfolding users_stopped_def by blast
  then have "list_all (\<lambda>w. DeploymentReferencesPVC w claim \<longrightarrow> managed_workload w \<and> stopped_in ns (dy_Name w) (t1 @ es)) ws"
    using lastingD [OF lasting_stopped_in] by (simp add: list_all_iff)
  moreover have "t @ es = t0 @ [VListDeployments ns] @ (t1 @ es)" using t(1) by simp
  ultimately show "users_stopped env ns claim (t @ es)" using t(2) unfolding users_stopped_def by blast
qed

abbreviation imp_state ::
  "storage_env \<Rightarrow> string \<Rightarrow> HostDirectoryPVCImport \<Rightarrow> bool \<Rightarrow> Environment list \<Rightarrow> (volume_event list \<Rightarrow> bool) \<Rightarrow> storage_state \<Rightarrow> bool" where
  "imp_state env ns t replace \<equiv> pol_state (imp_allowed env ns t replace)"

lemmas imp_state_def = pol_state_def
lemmas imp_quiet = im.pol_quiet
lemmas imp_silent = im.pol_silent
lemmas imp_scale = im.pol_scale
lemmas imp_wait = im.pol_wait

lemma imp_SSH:
  assumes "\<And>tr. F tr \<Longrightarrow> imp_command env ns t replace tr server command" and "lasting F"
  shows "triple (imp_state env ns t replace es F) (SSHExec env server command)
    (\<lambda>r. imp_state env ns t replace es (\<lambda>tr. F tr \<and> (\<forall>output. r = Inr output \<longrightarrow> tr \<noteq> [] \<and> last tr = VCommand server command (True, output))))"
  by (rule im.pol_SSH) (use assms in \<open>simp_all add: imp_allowed_def\<close>)

lemma imp_end: "triple S p (\<lambda>_. imp_state env ns t replace es F) \<Longrightarrow> triple S p (\<lambda>_. imp_state env ns t replace es (\<lambda>_. True))"
  by (erule triple_post) (simp add: imp_state_def)

section \<open>Stopping the users of a claim\<close>

definition extends :: "volume_event list \<Rightarrow> storage_state \<Rightarrow> bool" where
  "extends tr s \<longleftrightarrow> (\<exists>es. st_trace s = tr @ es)"

definition extends_by :: "volume_event list \<Rightarrow> (volume_event list \<Rightarrow> bool) \<Rightarrow> storage_state \<Rightarrow> bool" where
  "extends_by tr G s \<longleftrightarrow> (\<exists>es. st_trace s = tr @ es \<and> G es)"

definition ends_without_pods :: "string \<Rightarrow> string \<Rightarrow> volume_event list \<Rightarrow> bool" where
  "ends_without_pods ns name es \<longleftrightarrow> (\<exists>x d. es = x @ [VGetDeployment ns name (Inr d), VListPods ns (dy_Selector d) (Inr 0)])"

lemma pods_settled_ends:
  "triple (extends tr) (pods_settled env ns name False)
     (\<lambda>r s. extends tr s \<and> (r = Inr True \<longrightarrow> extends_by tr (ends_without_pods ns name) s))"
  by (rule tripleI) (auto simp: pods_settled_def ListDeploymentPodsContext_def lift_api_def get_deployment_def call_def Let_def bindP_def returnP_def
      extends_def extends_by_def ends_without_pods_def split: sum.splits prod.splits)

lemma settle_loop_ends:
  "triple (extends tr) (settle_loop env ns name False n) (\<lambda>r s. r = Inr () \<longrightarrow> extends_by tr (ends_without_pods ns name) s)"
proof (induction n)
  case 0
  show ?case unfolding settle_loop.simps
    by (rule triple_bindP [OF pods_settled_ends]) (auto simp: triple_def returnP_def failP_def split: if_splits)
next
  case (Suc n)
  show ?case unfolding settle_loop.simps
    by (rule triple_bindP [OF pods_settled_ends]) (use Suc in \<open>auto simp: triple_def returnP_def failP_def split: if_splits\<close>)
qed

lemma stop_one:
  "triple (\<lambda>s. st_trace s = tr) (bindP (ScaleDeploymentContext env ns name 0) (\<lambda>_. waitForStorageDeploymentPods env ns name False n))
     (\<lambda>r s. r = Inr () \<longrightarrow> extends_by tr (stopped_in ns name) s)"
proof (rule triple_bindP)
  show "triple (\<lambda>s. st_trace s = tr) (ScaleDeploymentContext env ns name 0)
      (\<lambda>r s. r = Inr () \<longrightarrow> (\<exists>d. st_trace s = tr @ [VGetDeployment ns name (Inr d), VUpdateDeployment (d\<lparr>dy_Replicas := Some 0\<rparr>) None]))"
    by (rule tripleI) (auto simp: ScaleDeploymentContext_def lift_api_def get_deployment_def update_deployment_def call_def Let_def bindP_def
        split: sum.splits prod.splits)
  fix x :: unit
  have "triple (\<lambda>s. st_trace s = tr @ [VGetDeployment ns name (Inr d), VUpdateDeployment (d\<lparr>dy_Replicas := Some 0\<rparr>) None])
      (settle_loop env ns name False n) (\<lambda>r s. r = Inr () \<longrightarrow> extends_by tr (stopped_in ns name) s)" for d
    by (rule triple_conseq [OF settle_loop_ends [of "tr @ [VGetDeployment ns name (Inr d), VUpdateDeployment (d\<lparr>dy_Replicas := Some 0\<rparr>) None]"]])
      (simp add: extends_def, fastforce simp: extends_by_def stopped_in_def ends_without_pods_def)
  then show "triple (\<lambda>s. Inr x = Inr () \<longrightarrow> (\<exists>d. st_trace s = tr @ [VGetDeployment ns name (Inr d), VUpdateDeployment (d\<lparr>dy_Replicas := Some 0\<rparr>) None]))
      (waitForStorageDeploymentPods env ns name False n) (\<lambda>r s. r = Inr () \<longrightarrow> extends_by tr (stopped_in ns name) s)"
    unfolding waitForStorageDeploymentPods_def by (simp add: triple_ex)
qed simp

lemma extends_by_trans:
  assumes "st_trace s = tr @ es" and "extends_by (st_trace s) G s'"
  obtains es' where "st_trace s' = tr @ (es @ es')" and "G es'"
  using assms by (auto simp: extends_by_def)

lemma stop_each_stops:
  assumes "stop_each env ns ds replicas s = (Inr out, s')"
  shows "\<exists>es. st_trace s' = st_trace s @ es \<and> list_all (\<lambda>d. stopped_in ns (dy_Name d) es) ds"
  using assms
proof (induction ds arbitrary: replicas s)
  case Nil
  then show ?case by (simp add: returnP_def)
next
  case (Cons d ds)
  let ?one = "bindP (ScaleDeploymentContext env ns (dy_Name d) 0) (\<lambda>_. waitForStorageDeploymentPods env ns (dy_Name d) False 90)"
  obtain s1 where one: "?one s = (Inr (), s1)" and rest: "stop_each env ns ds (map_put (dy_Name d) (replica_count d) replicas) s1 = (Inr out, s')"
    using Cons.prems by (auto simp: bindP_def split: prod.splits sum.splits)
  from tripleD [OF stop_one refl one] obtain x where x: "st_trace s1 = st_trace s @ x" "stopped_in ns (dy_Name d) x"
    by (auto simp: extends_by_def)
  from Cons.IH [OF rest] obtain y where y: "st_trace s' = st_trace s1 @ y" "list_all (\<lambda>d. stopped_in ns (dy_Name d) y) ds" by blast
  have more: "stopped_in ns name (x @ y)" if "stopped_in ns name y" for name
    using that unfolding stopped_in_def by (metis append.assoc)
  have "list_all (\<lambda>d. stopped_in ns (dy_Name d) (x @ y)) (d # ds)"
    using x(2) y(2) more lastingD [OF lasting_stopped_in] by (auto simp: list_all_iff)
  with x(1) y(1) show ?case by (intro exI [of _ "x @ y"]) simp
qed

lemma stop_stops: "triple S (stopPVCImportWorkloads env ns claim) (\<lambda>r s. \<forall>out. r = Inr out \<longrightarrow> users_stopped env ns claim (st_trace s))"
proof (rule tripleI, intro allI impI)
  fix s r s' out
  assume run: "stopPVCImportWorkloads env ns claim s = (r, s')" "r = Inr out"
  let ?s1 = "s\<lparr>st_trace := st_trace s @ [VListDeployments ns]\<rparr>"
  obtain ws where ws: "va_list_deployments (ev_api env) (st_trace s) ns = Inr ws"
    and m: "list_all managed_workload (filter (\<lambda>d. DeploymentReferencesPVC d claim) ws)"
    and st: "stop_each env ns (filter (\<lambda>d. DeploymentReferencesPVC d claim) ws) [] ?s1 = (Inr out, s')"
    using run
    by (auto simp: stopPVCImportWorkloads_def DeploymentUsingPVCContext_def DeploymentReferencesPVC_def call_def Let_def bindP_def returnP_def failP_def
        find_None_iff list_all_iff split: sum.splits option.splits)
  from stop_each_stops [OF st] obtain es where es: "st_trace s' = st_trace ?s1 @ es"
      "list_all (\<lambda>d. stopped_in ns (dy_Name d) es) (filter (\<lambda>d. DeploymentReferencesPVC d claim) ws)" by blast
  have "list_all (\<lambda>w. DeploymentReferencesPVC w claim \<longrightarrow> managed_workload w \<and> stopped_in ns (dy_Name w) es) ws"
    using es(2) m by (simp add: list_all_iff)
  with ws es(1) show "users_stopped env ns claim (st_trace s')"
    unfolding users_stopped_def by (intro exI [of _ "st_trace s"] exI [of _ ws] exI [of _ es]) simp
qed

section \<open>The stages obey the policy\<close>

text \<open>A step that depends on the state through a value, as the clock.\<close>

lemma triple_reading: "(\<And>x. triple P (m x) Q) \<Longrightarrow> triple P (\<lambda>s. m (g s) s) Q"
  by (simp add: triple_def)

text \<open>What an import is about does not change while it runs.\<close>

definition import_plan :: "HostDirectoryPVCImport \<Rightarrow> nat \<times> string \<times> nat \<times> string \<times> string \<times> string \<times> string \<times> string" where
  "import_plan t = (vi_EnvironmentID t, vi_PVCName t, vi_SourceServerID t, vi_SourcePath t, vi_TargetNodeName t, vi_TargetPath t,
     vi_BackupPath t, vi_TargetBackupPath t)"

lemma import_plan_stamp [simp]:
  "import_plan (stamp_import now t status detail) = import_plan t" "import_plan (t\<lparr>vi_BytesCopied := n\<rparr>) = import_plan t"
  "import_plan (t\<lparr>vi_ID := i, vi_CreatedAt := c\<rparr>) = import_plan t" "import_plan (t\<lparr>vi_BackupChecksum := x\<rparr>) = import_plan t"
  "import_plan (t\<lparr>vi_TargetBackupChecksum := x\<rparr>) = import_plan t" "import_plan (t\<lparr>vi_ApplicationReplicas := rs\<rparr>) = import_plan t"
  "import_plan (t\<lparr>vi_StartedAt := st\<rparr>) = import_plan t"
  "import_plan (t\<lparr>vi_SourceChecksum := x, vi_TargetChecksum := x', vi_VerifiedAt := v\<rparr>) = import_plan t"
  by (simp_all add: import_plan_def stamp_import_def)

lemma stamp_import_checksum [simp]: "vi_TargetBackupChecksum (stamp_import now t status detail) = vi_TargetBackupChecksum t"
  by (simp add: stamp_import_def)

lemma save_import_keeps: "keeps environments_kept (save_import fault now t)"
  unfolding save_import_def CreateHostDirectoryPVCImport_def
  by (intro ek.keeps_intros) (simp_all add: note_storage_id_def Let_def)

lemma save_import_row:
  "save_import fault now t w = (Inr row, w') \<Longrightarrow> import_plan row = import_plan t \<and> vi_TargetBackupChecksum row = vi_TargetBackupChecksum t"
  by (auto simp: save_import_def CreateHostDirectoryPVCImport_def db_call_def Let_def split: if_splits)

lemma UpdateImport_result:
  assumes "UpdateImport env t status detail s = (r, s')"
  shows "st_trace s' = st_trace s \<and> wd_environments (db (st_world s')) = wd_environments (db (st_world s)) \<and>
    (\<exists>err t'. r = Inr (err, t') \<and> import_plan t' = import_plan t \<and> vi_TargetBackupChecksum t' = vi_TargetBackupChecksum t)"
  using assms save_import_row [of "ev_fault env" "clock env s" "stamp_import (clock env s) t status detail" "st_world s"]
    keepsD [OF save_import_keeps, of "ev_fault env" "clock env s" "stamp_import (clock env s) t status detail" "st_world s"]
  by (auto simp: UpdateImport_def on_db_def Let_def split: prod.splits sum.splits)

lemma adds_UpdateImport: "adds P (UpdateImport env t status detail)"
  unfolding adds_def
  using UpdateImport_result [OF prod.collapse [symmetric], of env t status detail] by (auto intro: exI [of _ "[]"])

lemma imp_update:
  "triple (imp_state env ns t0 replace es F) (UpdateImport env t status detail)
     (\<lambda>r s. imp_state env ns t0 replace es F s \<and>
        (\<exists>err t'. r = Inr (err, t') \<and> import_plan t' = import_plan t \<and> vi_TargetBackupChecksum t' = vi_TargetBackupChecksum t))"
  by (rule triple_and [OF imp_silent [OF adds_UpdateImport]], rule tripleI) (use UpdateImport_result in blast)

abbreviation imp_done :: "storage_env \<Rightarrow> string \<Rightarrow> HostDirectoryPVCImport \<Rightarrow> bool \<Rightarrow> Environment list \<Rightarrow> 'r \<Rightarrow> storage_state \<Rightarrow> bool" where
  "imp_done env ns t replace es \<equiv> \<lambda>_. imp_state env ns t replace es (\<lambda>_. True)"

lemma imp_advance:
  assumes "\<And>t'. import_plan t' = import_plan t \<Longrightarrow> vi_TargetBackupChecksum t' = vi_TargetBackupChecksum t \<Longrightarrow>
      triple (imp_state env ns t0 replace es F) (k t') (imp_done env ns t0 replace es)"
  shows "triple (imp_state env ns t0 replace es F) (advance_import env t status k) (imp_done env ns t0 replace es)"
  unfolding advance_import_def
proof (rule triple_bindP [OF imp_update])
  fix x :: "db_error option \<times> HostDirectoryPVCImport"
  obtain err t' where x: "x = (err, t')" by (cases x)
  have "triple (\<lambda>s. imp_state env ns t0 replace es F s \<and> (import_plan t' = import_plan t \<and> vi_TargetBackupChecksum t' = vi_TargetBackupChecksum t))
      (if err \<noteq> None then returnP () else k t') (imp_done env ns t0 replace es)"
    by (rule triple_fact, intro triple_if triple_returnP assms) (auto simp: imp_state_def)
  then show "triple (\<lambda>s. imp_state env ns t0 replace es F s \<and> (\<exists>err t'. (Inr x :: 'a + _) = Inr (err, t') \<and> import_plan t' = import_plan t \<and>
        vi_TargetBackupChecksum t' = vi_TargetBackupChecksum t))
      (case x of (err, t') \<Rightarrow> if err \<noteq> None then returnP () else k t') (imp_done env ns t0 replace es)"
    by (simp add: x)
qed (auto simp: imp_state_def)

lemma imp_restore: "lasting F \<Longrightarrow> triple (imp_state env ns t replace es F) (restorePVCImportWorkloads env ns' rs) (\<lambda>_. imp_state env ns t replace es F)"
  unfolding restorePVCImportWorkloads_def restore_one_def
  by (intro triple_foreach keep_bindP imp_scale imp_wait triple_if triple_returnP)

lemma imp_fail:
  assumes "lasting F"
  shows "triple (imp_state env ns t0 replace es F) (failHostDirectoryPVCImport env t cause rs) (imp_done env ns t0 replace es)"
  unfolding failHostDirectoryPVCImport_def
proof (rule imp_end [OF keep_bindP])
  show "triple (imp_state env ns t0 replace es F) (if rs \<noteq> [] then tryP (on_db (GetEnvironmentByID (ev_fault env) (vi_EnvironmentID t))) (\<lambda>r. case r of
              Inl _ \<Rightarrow> returnP ()
            | Inr environment \<Rightarrow> ignoring (restorePVCImportWorkloads env (en_Namespace environment) rs) (returnP ()))
            else returnP ()) (\<lambda>_. imp_state env ns t0 replace es F)"
    unfolding GetEnvironmentByID_def
    by (intro triple_if keep_tryP imp_quiet [OF adds_read] triple_sum keep_ignoring imp_restore triple_returnP assms)
  show "triple (imp_state env ns t0 replace es F) (bindP (UpdateImport env t ''failed'' (Failure cause)) (\<lambda>_. returnP ())) (\<lambda>_. imp_state env ns t0 replace es F)"
    by (intro imp_quiet adds_bindP adds_UpdateImport adds_returnP assms)
qed

lemma imp_command_run:
  assumes "\<And>tr. F tr \<Longrightarrow> imp_command env ns t replace tr server command" and "lasting F"
  shows "triple (imp_state env ns t replace es F) (SSHExec env server command) (\<lambda>_. imp_state env ns t replace es F)"
  by (rule triple_post [OF imp_SSH [OF assms]]) (simp_all add: imp_state_def)

lemma imp_roll_back:
  assumes F: "lasting F" and p: "import_plan t = import_plan t0" and node: "sv_K8sNodeName target = vi_TargetNodeName t0"
    and saved: "\<And>tr. vi_TargetBackupChecksum t \<noteq> [] \<Longrightarrow> F tr \<Longrightarrow> archived (vi_TargetPath t0) (vi_TargetBackupPath t0) tr"
  shows "triple (imp_state env ns t0 replace es F) (roll_back_import env target rs t e) (imp_done env ns t0 replace es)"
proof -
  have "triple (imp_state env ns t0 replace es F) (SSHExec env target (rollback_command (vi_TargetPath t) (vi_TargetBackupPath t))) (\<lambda>_. imp_state env ns t0 replace es F)"
    if "vi_TargetBackupChecksum t \<noteq> []"
    by (rule imp_command_run [OF _ F]) (use saved [OF that] p node in \<open>auto simp: imp_command_def import_plan_def\<close>)
  then have "triple (imp_state env ns t0 replace es F) (rollbackHostDirectoryImportTarget env t target) (\<lambda>_. imp_state env ns t0 replace es F)"
    unfolding rollbackHostDirectoryImportTarget_def by (auto intro!: keep_ignoring triple_returnP)
  then show ?thesis
    unfolding roll_back_import_def by (rule triple_bindP) (auto intro: imp_fail F simp: imp_state_def)
qed

lemma imp_restart:
  assumes "lasting F"
  shows "triple (imp_state env ns t0 replace es F) (restart_workloads env ns' rs t) (imp_done env ns t0 replace es)"
  unfolding restart_workloads_def
  by (rule triple_tryP [OF imp_restore [OF assms]], rule triple_sum)
    (auto intro!: imp_fail assms imp_end [OF imp_quiet] adds_bindP adds_UpdateImport adds_returnP)

lemma imp_verify:
  assumes F: "lasting F" and p: "import_plan t = import_plan t0" and node: "sv_K8sNodeName target = vi_TargetNodeName t0"
    and saved: "\<And>tr. vi_TargetBackupChecksum t \<noteq> [] \<Longrightarrow> F tr \<Longrightarrow> archived (vi_TargetPath t0) (vi_TargetBackupPath t0) tr"
  shows "triple (imp_state env ns t0 replace es F) (verify_import env ns' source target rs t) (imp_done env ns t0 replace es)"
proof -
  have sum: "triple (imp_state env ns t0 replace es F) (hostDirectoryContentChecksum env server path) (\<lambda>_. imp_state env ns t0 replace es F)"
    if "path = vi_SourcePath t \<or> path = vi_TargetPath t" for server path
    unfolding hostDirectoryContentChecksum_def Let_def
    by (intro keep_tryP imp_command_run F triple_sum triple_failP triple_if triple_returnP)
      (use that p in \<open>auto simp: imp_command_def import_plan_def\<close>)
  have fin: "triple (imp_state env ns t0 replace es F)
      (\<lambda>s. advance_import env (t\<lparr>vi_SourceChecksum := x, vi_TargetChecksum := y, vi_VerifiedAt := Some (clock env s)\<rparr>) ''restoring_workload''
         (restart_workloads env ns' rs) s) (imp_done env ns t0 replace es)" for x y
    by (rule triple_reading [where g = "clock env"]) (intro imp_advance imp_restart F)
  show ?thesis
    unfolding verify_import_def
    by (rule triple_tryP [OF sum], simp, rule triple_sum, rule imp_roll_back [OF F p node saved], assumption+,
        rule triple_tryP [OF sum], simp, rule triple_sum, rule imp_roll_back [OF F p node saved], assumption+, rule triple_if,
        rule imp_roll_back [OF F p node saved], assumption+, rule fin)
qed

lemma imp_copy:
  assumes F: "lasting F" and p: "import_plan t = import_plan t0" and node: "sv_K8sNodeName target = vi_TargetNodeName t0"
    and src: "sv_ID source = vi_SourceServerID t0"
    and saved: "\<And>tr. vi_TargetBackupChecksum t \<noteq> [] \<Longrightarrow> F tr \<Longrightarrow> archived (vi_TargetPath t0) (vi_TargetBackupPath t0) tr"
  shows "triple (imp_state env ns t0 replace es (\<lambda>tr. F tr \<and> tr \<noteq> [] \<and> (\<exists>out. last tr = VCommand target (clear_command (vi_TargetPath t0)) (True, out))))
    (copy_directory env ns' source target rs t :: ('e, unit) volume_proc) (imp_done env ns t0 replace es)"
  unfolding copy_directory_def
proof (rule triple_bindP)
  show "triple (imp_state env ns t0 replace es (\<lambda>tr. F tr \<and> tr \<noteq> [] \<and> (\<exists>out. last tr = VCommand target (clear_command (vi_TargetPath t0)) (True, out))))
      (streamPVCData env source target (vi_SourcePath t) (vi_TargetPath t) :: ('e, _) volume_proc) (\<lambda>r s. imp_state env ns t0 replace es F s \<and> (\<exists>x. r = Inr x))"
    unfolding streamPVCData_def Let_def
    by (rule triple_call) (use p src F in \<open>auto simp: imp_state_def imp_allowed_def import_plan_def lasting_def split: stream_run.splits\<close>)
  fix x :: "nat \<times> volume_error option"
  obtain n err where x: "x = (n, err)" by (cases x)
  let ?t = "t\<lparr>vi_BytesCopied := n\<rparr>"
  have p': "import_plan ?t = import_plan t0" "vi_TargetBackupChecksum ?t = vi_TargetBackupChecksum t" using p by simp_all
  have "triple (imp_state env ns t0 replace es F) (case err of Some e \<Rightarrow> roll_back_import env target rs ?t e
      | None \<Rightarrow> advance_import env ?t ''verifying'' (verify_import env ns' source target rs)) (imp_done env ns t0 replace es)"
    by (intro triple_option imp_roll_back imp_advance imp_verify F node) (use p' saved in auto)
  then show "triple (\<lambda>s. imp_state env ns t0 replace es F s \<and> (\<exists>y. (Inr x :: 'e + _) = Inr y)) (case x of (bytesCopied, err) \<Rightarrow>
       let t = t\<lparr>vi_BytesCopied := bytesCopied\<rparr> in case err of Some e \<Rightarrow> roll_back_import env target rs t e
       | None \<Rightarrow> advance_import env t ''verifying'' (verify_import env ns' source target rs)) (imp_done env ns t0 replace es)"
    by (simp add: x Let_def)
qed auto

lemma imp_clear:
  assumes F: "lasting F" and p: "import_plan t = import_plan t0" and node: "sv_K8sNodeName target = vi_TargetNodeName t0"
    and clear: "\<And>tr. F tr \<Longrightarrow> may_clear env ns t0 replace tr"
  shows "triple (imp_state env ns t0 replace es F) (clearHostDirectoryImportTarget env target (vi_TargetPath t))
    (\<lambda>r. imp_state env ns t0 replace es (\<lambda>tr. F tr \<and> (\<forall>x. r = Inr x \<longrightarrow> tr \<noteq> [] \<and> (\<exists>out. last tr = VCommand target (clear_command (vi_TargetPath t0)) (True, out)))))"
  unfolding clearHostDirectoryImportTarget_def
  by (rule triple_tryP [OF imp_SSH [OF _ F]])
    (use p node clear in \<open>auto simp: imp_command_def import_plan_def imp_state_def triple_def failP_def returnP_def split: sum.splits\<close>)

lemma imp_replace:
  assumes F: "lasting F" and p: "import_plan t = import_plan t0" and node: "sv_K8sNodeName target = vi_TargetNodeName t0"
    and src: "sv_ID source = vi_SourceServerID t0" and clear: "\<And>tr. F tr \<Longrightarrow> may_clear env ns t0 replace tr"
    and saved: "\<And>tr. vi_TargetBackupChecksum t \<noteq> [] \<Longrightarrow> F tr \<Longrightarrow> archived (vi_TargetPath t0) (vi_TargetBackupPath t0) tr"
  shows "triple (imp_state env ns t0 replace es F) (replace_data env ns' source target rs t) (imp_done env ns t0 replace es)"
  unfolding replace_data_def
proof (rule triple_tryP [OF imp_clear [OF F p node clear]], assumption, rule triple_sum)
  fix r :: "volume_error + unit" and e
  assume "r = Inl e"
  show "triple (imp_state env ns t0 replace es (\<lambda>tr. F tr \<and> (\<forall>x. r = Inr x \<longrightarrow> tr \<noteq> [] \<and>
      (\<exists>out. last tr = VCommand target (clear_command (vi_TargetPath t0)) (True, out))))) (failHostDirectoryPVCImport env t e rs) (imp_done env ns t0 replace es)"
    by (rule triple_pre [OF imp_fail [OF F]]) (simp add: imp_state_def)
next
  fix r :: "volume_error + unit" and x
  assume r: "r = Inr x"
  have go: "triple (imp_state env ns t0 replace es (\<lambda>tr. F tr \<and> tr \<noteq> [] \<and> (\<exists>out. last tr = VCommand target (clear_command (vi_TargetPath t0)) (True, out))))
      (advance_import env t ''copying'' (copy_directory env ns' source target rs)) (imp_done env ns t0 replace es)"
    by (intro imp_advance imp_copy F node src) (use p saved in auto)
  show "triple (imp_state env ns t0 replace es (\<lambda>tr. F tr \<and> (\<forall>x. r = Inr x \<longrightarrow> tr \<noteq> [] \<and>
      (\<exists>out. last tr = VCommand target (clear_command (vi_TargetPath t0)) (True, out)))))
      (advance_import env t ''copying'' (copy_directory env ns' source target rs)) (imp_done env ns t0 replace es)"
    by (rule triple_pre [OF go]) (use r in \<open>auto simp: imp_state_def\<close>)
qed

lemma imp_archive:
  assumes F: "lasting F" and "\<And>tr. F tr \<Longrightarrow> imp_command env ns t0 replace tr server (archive_command path archive)"
  shows "triple (imp_state env ns t0 replace es F) (createHostDirectoryImportArchive env server path archive)
    (\<lambda>r. imp_state env ns t0 replace es (\<lambda>tr. F tr \<and> (\<forall>x. r = Inr x \<longrightarrow> archived path archive tr)))"
  unfolding createHostDirectoryImportArchive_def Let_def
proof (rule triple_tryP [OF imp_SSH [OF assms(2) F]])
  fix r :: "string + string"
  have "archived path archive tr" if "tr \<noteq> []" "last tr = VCommand server (archive_command path archive) (True, out)"
    "hostDirectoryImportChecksumFromSSHOutput out \<noteq> []" for tr out
    using that last_in_set [OF that(1)] unfolding archived_def by metis
  then show "triple (imp_state env ns t0 replace es (\<lambda>tr. F tr \<and> (\<forall>out. r = Inr out \<longrightarrow> tr \<noteq> [] \<and> last tr = VCommand server (archive_command path archive) (True, out))))
      (case r of Inl out \<Rightarrow> failP (CommandFailed StepArchive (TrimSpace out))
       | Inr out \<Rightarrow> if hostDirectoryImportChecksumFromSSHOutput out = [] then failP (TaskRefused ArchiveNoChecksum)
           else returnP (hostDirectoryImportChecksumFromSSHOutput out))
      (\<lambda>r. imp_state env ns t0 replace es (\<lambda>tr. F tr \<and> (\<forall>x. r = Inr x \<longrightarrow> archived path archive tr)))"
    by (cases r) (auto simp: imp_state_def triple_def failP_def returnP_def)
qed

lemma imp_back_up:
  assumes p: "import_plan t = import_plan t0" and node: "sv_K8sNodeName target = vi_TargetNodeName t0"
    and src: "sv_ID source = vi_SourceServerID t0" and rep: "hasData \<longrightarrow> replace" and none: "vi_TargetBackupChecksum t = []"
  shows "triple (imp_state env ns t0 replace es (\<lambda>tr. probed t0 hasData tr \<and> users_stopped env ns (vi_PVCName t0) tr))
    (back_up env ns' source target hasData rs t) (imp_done env ns t0 replace es)"
proof -
  let ?F2 = "\<lambda>tr. probed t0 hasData tr \<and> users_stopped env ns (vi_PVCName t0) tr"
  let ?F3 = "\<lambda>tr. ?F2 tr \<and> archived (vi_SourcePath t0) (vi_BackupPath t0) tr"
  let ?F4 = "\<lambda>tr. ?F3 tr \<and> archived (vi_TargetPath t0) (vi_TargetBackupPath t0) tr"
  have l: "lasting ?F2" "lasting ?F3" "lasting ?F4" by (simp_all add: lasting_conj)
  have f: "vi_SourcePath t = vi_SourcePath t0" "vi_BackupPath t = vi_BackupPath t0" "vi_TargetPath t = vi_TargetPath t0" "vi_TargetBackupPath t = vi_TargetBackupPath t0"
    using p by (simp_all add: import_plan_def)
  have fail: "triple (imp_state env ns t0 replace es (\<lambda>tr. F tr \<and> G tr)) (failHostDirectoryPVCImport env t' e rs) (imp_done env ns t0 replace es)"
    if "lasting F" for F G t' e
    by (rule triple_pre [OF imp_fail [OF that]]) (auto simp: imp_state_def)
  have a1: "triple (imp_state env ns t0 replace es ?F2) (createHostDirectoryImportArchive env source (vi_SourcePath t0) (vi_BackupPath t0))
      (\<lambda>r. imp_state env ns t0 replace es (\<lambda>tr. ?F2 tr \<and> (\<forall>x. r = Inr x \<longrightarrow> archived (vi_SourcePath t0) (vi_BackupPath t0) tr)))"
    by (rule imp_archive [OF l(1)]) (simp add: imp_command_def)
  have a2: "triple (imp_state env ns t0 replace es ?F3) (createHostDirectoryImportArchive env target (vi_TargetPath t0) (vi_TargetBackupPath t0))
      (\<lambda>r. imp_state env ns t0 replace es (\<lambda>tr. ?F3 tr \<and> (\<forall>x. r = Inr x \<longrightarrow> archived (vi_TargetPath t0) (vi_TargetBackupPath t0) tr)))"
    by (rule imp_archive [OF l(2)]) (simp add: imp_command_def node)
  have with_data: "triple (imp_state env ns t0 replace es ?F3)
      (tryP (createHostDirectoryImportArchive env target (vi_TargetPath t') (vi_TargetBackupPath t')) (\<lambda>r. case r of
         Inl e \<Rightarrow> failHostDirectoryPVCImport env t' e rs
       | Inr targetChecksum \<Rightarrow> replace_data env ns' source target rs (t'\<lparr>vi_TargetBackupChecksum := targetChecksum\<rparr>)))
      (imp_done env ns t0 replace es)" if p': "import_plan t' = import_plan t0" for t'
  proof -
    have f': "vi_TargetPath t' = vi_TargetPath t0" "vi_TargetBackupPath t' = vi_TargetBackupPath t0" using p' by (simp_all add: import_plan_def)
    show ?thesis
      unfolding f'
      by (rule triple_tryP [OF a2], rule triple_sum, rule fail [OF l(2)], rule triple_pre [OF imp_replace [OF l(3)]])
        (use p' node src rep in \<open>auto simp: imp_state_def may_clear_def\<close>)
  qed
  have without_data: "triple (imp_state env ns t0 replace es ?F3) (replace_data env ns' source target rs (t\<lparr>vi_BackupChecksum := x\<rparr>)) (imp_done env ns t0 replace es)"
    if "\<not> hasData" for x
    by (rule imp_replace [OF l(2)]) (use p node src none that in \<open>auto simp: may_clear_def\<close>)
  show ?thesis
    unfolding back_up_def Let_def
    by (rule triple_tryP [OF a1 [folded f(1,2)]], rule triple_sum, rule fail [OF l(1)],
        rule triple_pre [OF triple_if [OF with_data without_data]])
      (use p in \<open>auto simp: imp_state_def f\<close>)
qed

lemma imp_stop:
  assumes "lasting F"
  shows "triple (imp_state env ns t0 replace es F) (stopPVCImportWorkloads env ns' claim) (\<lambda>_. imp_state env ns t0 replace es F)"
proof -
  have each: "triple (imp_state env ns t0 replace es F) (stop_each env ns' ds rs) (\<lambda>_. imp_state env ns t0 replace es F)" for ds rs
    by (induction ds arbitrary: rs) (auto intro!: triple_returnP keep_bindP imp_scale imp_wait assms)
  show ?thesis
    unfolding stopPVCImportWorkloads_def
    by (intro keep_bindP imp_quiet [OF adds_DeploymentUsingPVC] triple_option triple_failP each assms)
qed

lemma imp_stop_and_import:
  assumes p: "import_plan t = import_plan t0" and node: "sv_K8sNodeName target = vi_TargetNodeName t0"
    and src: "sv_ID source = vi_SourceServerID t0" and rep: "hasData \<longrightarrow> replace" and none: "vi_TargetBackupChecksum t = []"
    and claim: "ci_Name claim = vi_PVCName t0"
  shows "triple (imp_state env ns t0 replace es (probed t0 hasData)) (stop_and_import env t ns source target claim hasData :: ('e, unit) volume_proc) (imp_done env ns t0 replace es)"
  unfolding stop_and_import_def claim
proof (rule triple_tryP [OF triple_and [OF imp_stop [OF lasting_probed] stop_stops]], rule triple_sum)
  fix r :: "volume_error + (string \<times> int) list" and e
  show "triple (\<lambda>s. imp_state env ns t0 replace es (probed t0 hasData) s \<and> (\<forall>out. r = Inr out \<longrightarrow> users_stopped env ns (vi_PVCName t0) (st_trace s)))
      (failHostDirectoryPVCImport env t e []) (imp_done env ns t0 replace es)"
    by (rule triple_pre [OF imp_fail [OF lasting_probed]]) (erule conjunct1)
next
  fix r :: "volume_error + (string \<times> int) list" and rs
  assume r: "r = Inr rs"
  let ?F = "\<lambda>tr. probed t0 hasData tr \<and> users_stopped env ns (vi_PVCName t0) tr"
  have "triple (imp_state env ns t0 replace es ?F)
      (bindP (UpdateImport env (t\<lparr>vi_ApplicationReplicas := rs\<rparr>) ''backing_up'' (Note ''backing_up'')) (\<lambda>(_, t). back_up env ns source target hasData rs t) :: ('e, unit) volume_proc)
      (imp_done env ns t0 replace es)"
  proof (rule triple_bindP [OF imp_update])
    fix x :: "db_error option \<times> HostDirectoryPVCImport"
    obtain err t' where x: "x = (err, t')" by (cases x)
    have "triple (\<lambda>s. imp_state env ns t0 replace es ?F s \<and> (import_plan t' = import_plan t0 \<and> vi_TargetBackupChecksum t' = []))
        (back_up env ns source target hasData rs t') (imp_done env ns t0 replace es)"
      by (rule triple_fact) (auto intro: imp_back_up node src simp: rep)
    then show "triple (\<lambda>s. imp_state env ns t0 replace es ?F s \<and> (\<exists>err t'. (Inr x :: 'e + _) = Inr (err, t') \<and>
          import_plan t' = import_plan (t\<lparr>vi_ApplicationReplicas := rs\<rparr>) \<and> vi_TargetBackupChecksum t' = vi_TargetBackupChecksum (t\<lparr>vi_ApplicationReplicas := rs\<rparr>)))
        (case x of (_, t) \<Rightarrow> back_up env ns source target hasData rs t) (imp_done env ns t0 replace es)"
      by (simp add: x p none)
  qed (auto simp: imp_state_def)
  then show "triple (\<lambda>s. imp_state env ns t0 replace es (probed t0 hasData) s \<and> (\<forall>out. r = Inr out \<longrightarrow> users_stopped env ns (vi_PVCName t0) (st_trace s)))
      (bindP (UpdateImport env (t\<lparr>vi_ApplicationReplicas := rs\<rparr>) ''backing_up'' (Note ''backing_up'')) (\<lambda>(_, t). back_up env ns source target hasData rs t) :: ('e, unit) volume_proc)
      (imp_done env ns t0 replace es)"
    by (rule triple_pre) (auto simp: imp_state_def r)
qed

text \<open>The API server answers a read with an object of the name that was asked for.\<close>

definition names_claims :: "storage_env \<Rightarrow> bool" where
  "names_claims env \<longleftrightarrow> (\<forall>t ns n c. va_get_claim (ev_api env) t ns n = Inr c \<longrightarrow> pv_Name c = n)"

lemma GetManagedPVC_name:
  assumes "names_claims env"
  shows "triple S (GetManagedPVCContext env ns n i) (\<lambda>r s. \<forall>claim. r = Inr claim \<longrightarrow> ci_Name claim = n)"
proof -
  have "ci_Name info = pv_Name c" if "pvcInfo env c s = (Inr info, s')" for info c s s'
    using that by (auto simp: pvcInfo_def bindP_def returnP_def pvcInfoFromResources_def Let_def split: prod.splits sum.splits)
  then show ?thesis
    using assms by (fastforce simp: triple_def GetManagedPVCContext_def get_claim_def call_def Let_def bindP_def failP_def names_claims_def
        split: prod.splits sum.splits if_splits)
qed

definition import_ready ::
  "string \<Rightarrow> HostDirectoryPVCImport \<Rightarrow> bool \<Rightarrow> volume_error + Environment \<times> Server \<times> Server \<times> PersistentVolumeClaimInfo \<times> bool \<Rightarrow> bool" where
  "import_ready ns t replace r \<longleftrightarrow> (case r of Inl _ \<Rightarrow> True
     | Inr (environment, source, target, claim, hasData) \<Rightarrow> en_Namespace environment = ns \<and> sv_ID source = vi_SourceServerID t \<and>
         sv_K8sNodeName target = vi_TargetNodeName t \<and> ci_Name claim = vi_PVCName t \<and> (hasData \<longrightarrow> replace))"

lemma import_ready_Inl [simp]: "import_ready ns t replace (Inl e)"
  by (simp add: import_ready_def)

lemma imp_read:
  assumes "lasting F"
  shows "triple (imp_state env ns t0 replace es F) (refusing f (on_db (db_read fault g)))
    (\<lambda>r s. imp_state env ns t0 replace es F s \<and> (\<forall>x. r = Inr x \<longrightarrow> (\<exists>d. wd_environments d = es \<and> g d = Inr x)))"
  by (rule tripleI) (auto simp: refusing_def on_db_def db_read_def db_call_def imp_state_def split: if_splits)

lemma imp_server:
  assumes "lasting F"
  shows "triple (imp_state env ns t0 replace es F) (serverForK8sNode env node) (\<lambda>r s. imp_state env ns t0 replace es F s \<and> (\<forall>x. r = Inr x \<longrightarrow> sv_K8sNodeName x = node))"
  unfolding serverForK8sNode_def ListServers_def
  by (rule triple_bindP [OF imp_read [OF assms]], rule triple_option)
    (auto simp: triple_def failP_def returnP_def find_Some_iff)

lemma imp_probe:
  assumes F: "lasting F" and c: "\<And>tr. imp_command env ns t0 replace tr server command"
  shows "triple (imp_state env ns t0 replace es F) (probe env step server command)
    (\<lambda>r. imp_state env ns t0 replace es (\<lambda>tr. F tr \<and> (\<forall>out. r = Inr out \<longrightarrow> VCommand server command (True, out) \<in> set tr)))"
  unfolding probe_def
proof (rule triple_tryP [OF imp_SSH [OF c F]])
  fix r :: "string + string"
  show "triple (imp_state env ns t0 replace es (\<lambda>tr. F tr \<and> (\<forall>out. r = Inr out \<longrightarrow> tr \<noteq> [] \<and> last tr = VCommand server command (True, out))))
      (case r of Inl out \<Rightarrow> failP (CommandFailed step (TrimSpace out)) | Inr out \<Rightarrow> returnP out)
      (\<lambda>r. imp_state env ns t0 replace es (\<lambda>tr. F tr \<and> (\<forall>out. r = Inr out \<longrightarrow> VCommand server command (True, out) \<in> set tr)))"
    by (cases r) (auto simp: imp_state_def triple_def failP_def returnP_def, metis last_in_set)
qed

lemma imp_look:
  assumes "import_plan t = import_plan t0" "en_Namespace environment = ns" "sv_ID source = vi_SourceServerID t0"
    "sv_K8sNodeName target = vi_TargetNodeName t0" "ci_Name claim = vi_PVCName t0"
  shows "triple (imp_state env ns t0 replace es (\<lambda>_. True)) (look_at_volumes env t replace environment source target claim)
    (\<lambda>r s. imp_state env ns t0 replace es (\<lambda>tr. \<forall>x. r = Inr x \<longrightarrow> probed t0 (snd (snd (snd (snd x)))) tr) s \<and> import_ready ns t0 replace r)"
proof -
  let ?S = "imp_state env ns t0 replace es (\<lambda>_. True)"
  have keys: "triple ?S (foreach check_key [source, target]) (\<lambda>_. ?S)"
    by (rule triple_foreach) (auto simp: check_key_def intro: triple_failP triple_returnP)
  have f: "vi_SourcePath t = vi_SourcePath t0" "vi_TargetPath t = vi_TargetPath t0" using assms(1) by (simp_all add: import_plan_def)
  have p1: "triple ?S (probe env StepSource source (source_probe (vi_SourcePath t))) (\<lambda>_. ?S)"
    by (rule triple_post [OF imp_probe]) (simp_all add: imp_command_def f imp_state_def)
  have p2: "triple ?S (probe env StepTarget target (target_probe (vi_TargetPath t)))
      (\<lambda>r. imp_state env ns t0 replace es (\<lambda>tr. True \<and> (\<forall>out. r = Inr out \<longrightarrow> VCommand target (target_probe (vi_TargetPath t)) (True, out) \<in> set tr)))"
    by (rule imp_probe) (simp_all add: imp_command_def f)
  show ?thesis
    unfolding look_at_volumes_def Let_def
    by (rule triple_bindP [OF keys], rule triple_bindP [OF p1], rule triple_bindP [OF p2])
      (use assms f in \<open>auto simp: imp_state_def import_ready_def probed_def triple_def failP_def returnP_def split: if_splits\<close>)
qed

lemma imp_preflight:
  assumes p: "import_plan t = import_plan t0" and api: "names_claims env"
    and e: "tbl_find en_ID (vi_EnvironmentID t0) es = Some environment" "en_Namespace environment = ns"
  shows "triple (imp_state env ns t0 replace es (\<lambda>_. True)) (preflightHostDirectoryPVCImport env t replace)
    (\<lambda>r s. imp_state env ns t0 replace es (\<lambda>tr. \<forall>x. r = Inr x \<longrightarrow> probed t0 (snd (snd (snd (snd x)))) tr) s \<and> import_ready ns t0 replace r)"
    (is "triple ?S _ ?Q")
proof -
  have f: "vi_EnvironmentID t = vi_EnvironmentID t0" "vi_PVCName t = vi_PVCName t0" "vi_SourceServerID t = vi_SourceServerID t0"
      "vi_TargetNodeName t = vi_TargetNodeName t0" using p by (simp_all add: import_plan_def)
  have fail: "?S s \<Longrightarrow> ?Q (Inl err) s" for s err by (simp add: imp_state_def import_ready_def)
  have servers: "triple ?S (bindP (refusing StorageDB (on_db (GetServer (ev_fault env) (vi_SourceServerID t0)))) (\<lambda>source.
      bindP (serverForK8sNode env (vi_TargetNodeName t0)) (\<lambda>target. look_at_volumes env t replace environment source target claim))) ?Q"
    if c: "ci_Name claim = vi_PVCName t0" for claim
  proof (unfold GetServer_def, rule triple_bindP [OF imp_read [OF lasting_True]])
    fix source
    have "triple (\<lambda>s. ?S s \<and> sv_ID source = vi_SourceServerID t0) (bindP (serverForK8sNode env (vi_TargetNodeName t0)) (\<lambda>target.
        look_at_volumes env t replace environment source target claim)) ?Q"
      by (rule triple_fact, rule triple_bindP [OF imp_server [OF lasting_True]], rule triple_fact, rule imp_look [OF p e(2) _ _ c])
        (auto intro: fail)
    then show "triple (\<lambda>s. ?S s \<and> (\<forall>x. (Inr source :: volume_error + _) = Inr x \<longrightarrow>
          (\<exists>d. wd_environments d = es \<and> found (tbl_find sv_ID (vi_SourceServerID t0) (live_servers d)) = Inr x)))
        (bindP (serverForK8sNode env (vi_TargetNodeName t0)) (\<lambda>target. look_at_volumes env t replace environment source target claim)) ?Q"
      by (rule triple_pre) (auto simp: found_def dest: tbl_find_key split: option.splits)
  qed (use fail in blast)
  have claims: "triple ?S (bindP (GetManagedPVCContext env ns (vi_PVCName t0) (en_ID environment)) (\<lambda>claim.
      if \<not> import_claim_ok t claim then failP (TaskRefused ClaimChanged)
      else bindP (refusing StorageDB (on_db (GetServer (ev_fault env) (vi_SourceServerID t0)))) (\<lambda>source.
        bindP (serverForK8sNode env (vi_TargetNodeName t0)) (\<lambda>target. look_at_volumes env t replace environment source target claim)))) ?Q"
    by (rule triple_bindP [OF triple_and [OF imp_quiet [OF adds_GetManagedPVC lasting_True] GetManagedPVC_name [OF api]]], rule triple_fact,
        intro triple_if triple_failP servers) (use fail in auto)
  have found: "triple (\<lambda>s. ?S s \<and> e' = environment) (bindP (GetManagedPVCContext env (en_Namespace e') (vi_PVCName t0) (en_ID e')) (\<lambda>claim.
      if \<not> import_claim_ok t claim then failP (TaskRefused ClaimChanged)
      else bindP (refusing StorageDB (on_db (GetServer (ev_fault env) (vi_SourceServerID t0)))) (\<lambda>source.
        bindP (serverForK8sNode env (vi_TargetNodeName t0)) (\<lambda>target. look_at_volumes env t replace e' source target claim)))) ?Q" for e'
    by (rule triple_fact) (simp only: e(2) claims)
  show ?thesis
    unfolding preflightHostDirectoryPVCImport_def f GetEnvironmentByID_def
    by (rule triple_bindP [OF imp_read [OF lasting_True] triple_pre [OF found]]) (use e(1) fail in \<open>auto simp: found_def split: option.splits\<close>)
qed

lemma imp_stages:
  assumes p: "import_plan t = import_plan t0" and api: "names_claims env" and none: "vi_TargetBackupChecksum t = []"
    and e: "tbl_find en_ID (vi_EnvironmentID t0) es = Some environment" "en_Namespace environment = ns"
  shows "triple (imp_state env ns t0 replace es (\<lambda>_. True)) (import_stages env replace t) (imp_done env ns t0 replace es)"
  unfolding import_stages_def
proof (rule triple_tryP [OF imp_preflight [OF p api e]], rule triple_fact)
  fix r :: "volume_error + Environment \<times> Server \<times> Server \<times> PersistentVolumeClaimInfo \<times> bool"
  assume ready: "import_ready ns t0 replace r"
  show "triple (imp_state env ns t0 replace es (\<lambda>tr. \<forall>x. r = Inr x \<longrightarrow> probed t0 (snd (snd (snd (snd x)))) tr))
     (case r of Inl e \<Rightarrow> failHostDirectoryPVCImport env t e []
      | Inr (environment, source, target, claim, targetHasData) \<Rightarrow>
          advance_import env t ''stopping_workload'' (\<lambda>t. stop_and_import env t (en_Namespace environment) source target claim targetHasData))
     (imp_done env ns t0 replace es)"
  proof (cases r)
    case (Inl e)
    then show ?thesis by (simp add: imp_fail)
  next
    case (Inr x)
    obtain e' source target claim hasData where x: "x = (e', source, target, claim, hasData)" by (cases x)
    have "triple (imp_state env ns t0 replace es (probed t0 hasData)) (advance_import env t ''stopping_workload'' (\<lambda>t. stop_and_import env t ns source target claim hasData))
        (imp_done env ns t0 replace es)"
      by (intro imp_advance imp_stop_and_import) (use ready p none in \<open>auto simp: Inr x import_ready_def\<close>)
    moreover have "en_Namespace e' = ns" using ready by (simp add: Inr x import_ready_def)
    ultimately show ?thesis by (simp add: Inr x)
  qed
qed

lemma import_obeys:
  assumes t: "tbl_find vi_ID i (sd_imports (db (st_world s))) = Some t" and none: "vi_TargetBackupChecksum t = []" and api: "names_claims env"
    and e: "tbl_find en_ID (vi_EnvironmentID t) (wd_environments (db (st_world s))) = Some environment"
    and s: "st_trace s = []" and run: "runHostDirectoryPVCImport env i replace s = (r, s')"
  shows "obeys (imp_allowed env (en_Namespace environment) t replace) (st_trace s')"
proof -
  let ?es = "wd_environments (db (st_world s))" and ?ns = "en_Namespace environment"
  have get: "triple (\<lambda>s'. imp_state env ?ns t replace ?es (\<lambda>_. True) s' \<and> db (st_world s') = db (st_world s)) (on_db (GetHostDirectoryPVCImport (ev_fault env) i))
      (\<lambda>r s'. imp_state env ?ns t replace ?es (\<lambda>_. True) s' \<and> (\<forall>t'. r = Inr t' \<longrightarrow> t' = t))"
    by (rule triple_on_db) (use t in \<open>auto simp: GetHostDirectoryPVCImport_def db_read_def db_call_def imp_state_def found_def\<close>)
  have "triple (\<lambda>s'. imp_state env ?ns t replace ?es (\<lambda>_. True) s' \<and> db (st_world s') = db (st_world s)) (runHostDirectoryPVCImport env i replace) (imp_done env ?ns t replace ?es)"
    unfolding runHostDirectoryPVCImport_def
  proof (rule triple_tryP [OF get], rule triple_fact, rule triple_sum)
    show "triple (imp_state env ?ns t replace ?es (\<lambda>_. True))
       (\<lambda>s. advance_import env (t'\<lparr>vi_StartedAt := Some (clock env s)\<rparr>) ''preflight'' (import_stages env replace) s) (imp_done env ?ns t replace ?es)"
      if "\<forall>t'. r = Inr t' \<longrightarrow> t' = t" "r = Inr t'" for r :: "db_error + HostDirectoryPVCImport" and t'
      by (rule triple_reading [where g = "clock env"], intro imp_advance imp_stages [OF _ api _ e refl]) (use that none in auto)
  qed (auto intro: triple_returnP)
  from tripleD [OF this _ run] show ?thesis using s by (simp add: imp_state_def)
qed

section \<open>What a successful import has checked\<close>

text \<open>A verified task: both sides had the same digest when it was checked.\<close>

definition verified :: "HostDirectoryPVCImport \<Rightarrow> bool" where
  "verified t \<longleftrightarrow> vi_VerifiedAt t \<noteq> None \<and> vi_SourceChecksum t = vi_TargetChecksum t \<and> is_checksum (vi_SourceChecksum t)"

definition imports_verified :: "storage_state \<Rightarrow> bool" where
  "imports_verified s \<longleftrightarrow> (\<forall>t \<in> set (sd_imports (db (st_world s))). vi_Status t = ''succeeded'' \<longrightarrow> verified t)"

text \<open>Procedures that leave the table of imports alone.\<close>

definition steady :: "('e, 'a) volume_proc \<Rightarrow> bool" where
  "steady p \<longleftrightarrow> (\<forall>s. sd_imports (db (st_world (snd (p s)))) = sd_imports (db (st_world s)))"

lemma steadyD: "steady p \<Longrightarrow> triple imports_verified p (\<lambda>_. imports_verified)"
  by (auto simp: triple_def imports_verified_def steady_def) (metis snd_conv)+

lemma steady_returnP: "steady (returnP x)"
  by (simp add: steady_def returnP_def)

lemma steady_failP: "steady (failP e)"
  by (simp add: steady_def failP_def)

lemma steady_tryP: "steady m \<Longrightarrow> (\<And>r. steady (f r)) \<Longrightarrow> steady (tryP m f)"
  by (auto simp: steady_def tryP_def split: prod.splits) (metis snd_conv)

lemma steady_bindP: "steady m \<Longrightarrow> (\<And>x. steady (f x)) \<Longrightarrow> steady (bindP m f)"
  unfolding bindP_as_tryP by (rule steady_tryP) (auto split: sum.splits intro: steady_failP)

lemma steady_if: "(b \<Longrightarrow> steady m) \<Longrightarrow> (\<not> b \<Longrightarrow> steady m') \<Longrightarrow> steady (if b then m else m')"
  by simp

lemma steady_choice: "steady m \<Longrightarrow> steady m' \<Longrightarrow> steady (\<lambda>s. if b s then m s else m' s)"
  by (simp add: steady_def)

lemma steady_call: "steady (call ask event result)"
  by (simp add: steady_def call_def Let_def)

lemma steady_read: "steady (on_db (db_read fault f))"
  by (simp add: steady_def on_db_def case_prod_beta db_read_db)

lemma steady_refusing: "steady m \<Longrightarrow> steady (refusing f m)"
  by (simp add: steady_def refusing_def case_prod_beta)

lemma steady_lift_api: "steady m \<Longrightarrow> steady (lift_api f m)"
  by (simp add: steady_def lift_api_def case_prod_beta)

lemma steady_foreach: "(\<And>x. steady (f x)) \<Longrightarrow> steady (foreach f xs)"
  by (induction xs) (auto intro: steady_returnP steady_bindP)

lemmas steady_intros = steady_returnP steady_failP steady_tryP steady_bindP steady_if steady_call steady_read steady_refusing steady_lift_api steady_foreach

lemma steady_GetManagedPVC: "steady (GetManagedPVCContext env namespace name i)"
  by (auto simp: GetManagedPVCContext_def get_claim_def pvcInfo_def optional_get_def intro!: steady_intros)

lemma steady_scale: "steady (ScaleDeploymentContext env namespace name n)"
  by (auto simp: ScaleDeploymentContext_def get_deployment_def update_deployment_def intro!: steady_intros)

lemma steady_wait: "steady (waitForStorageDeploymentPods env namespace name ready n)"
proof -
  have "steady (pods_settled env namespace name ready)"
    by (auto simp: pods_settled_def get_deployment_def ListDeploymentPodsContext_def intro!: steady_intros)
  then have "steady (settle_loop env namespace name ready k)" for k
    by (induction k) (auto intro!: steady_intros steady_choice)
  then show ?thesis by (simp add: waitForStorageDeploymentPods_def)
qed

lemma steady_SSH: "steady (SSHExec env server command)"
  by (simp add: SSHExec_def steady_call)

lemma steady_stop: "steady (stopPVCImportWorkloads env namespace claim)"
proof -
  have "steady (stop_each env namespace ds rs)" for ds rs
    by (induction ds arbitrary: rs) (auto intro!: steady_intros steady_scale steady_wait)
  then show ?thesis
    by (auto simp: stopPVCImportWorkloads_def DeploymentUsingPVCContext_def intro!: steady_intros split: option.splits)
qed

lemma steady_restore: "steady (restorePVCImportWorkloads env namespace rs)"
  by (auto simp: restorePVCImportWorkloads_def restore_one_def intro!: steady_intros steady_scale steady_wait)

lemma steady_server: "steady (serverForK8sNode env node)"
  by (auto simp: serverForK8sNode_def ListServers_def intro!: steady_intros split: option.splits)

lemma steady_preflight: "steady (preflightHostDirectoryPVCImport env t replace)"
  unfolding preflightHostDirectoryPVCImport_def look_at_volumes_def check_key_def probe_def GetEnvironmentByID_def GetServer_def Let_def
  by (intro steady_intros steady_GetManagedPVC steady_server steady_SSH) (auto intro!: steady_intros split: sum.splits)

lemma steady_stream: "steady (streamPVCData env source target a b)"
  by (simp add: streamPVCData_def Let_def steady_call)

lemma steady_archive: "steady (createHostDirectoryImportArchive env server path archive)"
  by (auto simp: createHostDirectoryImportArchive_def Let_def intro!: steady_intros steady_SSH split: sum.splits)

lemma steady_clear: "steady (clearHostDirectoryImportTarget env server path)"
  by (auto simp: clearHostDirectoryImportTarget_def intro!: steady_intros steady_SSH split: sum.splits)

lemma steady_roll_back: "steady (rollbackHostDirectoryImportTarget env t target)"
  by (auto simp: rollbackHostDirectoryImportTarget_def ignoring_def intro!: steady_intros steady_SSH)

abbreviation keeps_verified :: "('e, 'a) volume_proc \<Rightarrow> bool" where
  "keeps_verified p \<equiv> triple imports_verified p (\<lambda>_. imports_verified)"

lemma save_verified:
  assumes "imports_verified s" and "vi_Status t = ''succeeded'' \<longrightarrow> verified t" and "save_import fault now t (st_world s) = (r, w)"
  shows "imports_verified (s\<lparr>st_world := w\<rparr>)"
proof -
  have row: "vi_Status (t\<lparr>vi_ID := i, vi_CreatedAt := c\<rparr>) = ''succeeded'' \<longrightarrow> verified (t\<lparr>vi_ID := i, vi_CreatedAt := c\<rparr>)" for i c
    using assms(2) by (auto simp: verified_def)
  show ?thesis
    using assms row unfolding imports_verified_def save_import_def CreateHostDirectoryPVCImport_def db_call_def note_storage_id_def Let_def
    by (auto simp del: HostDirectoryPVCImport.select_convs split: if_splits dest!: tbl_save_in)
qed

lemma update_verified:
  assumes "status = ''succeeded'' \<longrightarrow> verified t"
  shows "triple imports_verified (UpdateImport env t status detail)
    (\<lambda>r s. imports_verified s \<and> (\<forall>err t'. r = Inr (err, t') \<longrightarrow> (verified t \<longrightarrow> verified t')))"
proof (rule tripleI)
  fix s r s'
  let ?t = "stamp_import (clock env s) t status detail"
  assume s: "imports_verified s" and u: "UpdateImport env t status detail s = (r, s')"
  obtain q w where q: "save_import (ev_fault env) (clock env s) ?t (st_world s) = (q, w)" by fastforce
  have v: "verified ?t = verified t" "vi_Status ?t = status" by (simp_all add: verified_def stamp_import_def)
  have "imports_verified (s\<lparr>st_world := w\<rparr>)" by (rule save_verified [OF s _ q]) (unfold v, rule assms)
  moreover have "s' = s\<lparr>st_world := w\<rparr>" using u q by (auto simp: UpdateImport_def on_db_def Let_def split: sum.splits)
  moreover have "verified row" if "q = Inr row" "verified t" for row
    using q that v(1) by (auto simp: save_import_def CreateHostDirectoryPVCImport_def db_call_def Let_def verified_def split: if_splits)
  ultimately show "imports_verified s' \<and> (\<forall>err t'. r = Inr (err, t') \<longrightarrow> (verified t \<longrightarrow> verified t'))"
    using u q v(1) by (auto simp: UpdateImport_def on_db_def Let_def split: sum.splits)
qed

lemma advance_verified:
  assumes "status \<noteq> ''succeeded''" and "\<And>t'. (verified t \<longrightarrow> verified t') \<Longrightarrow> keeps_verified (k t')"
  shows "keeps_verified (advance_import env t status k)"
  unfolding advance_import_def
proof (rule triple_bindP [OF update_verified])
  fix x :: "db_error option \<times> HostDirectoryPVCImport"
  obtain err t' where x: "x = (err, t')" by (cases x)
  have "triple (\<lambda>s. imports_verified s \<and> (verified t \<longrightarrow> verified t')) (if err \<noteq> None then returnP () else k t') (\<lambda>_. imports_verified)"
    by (rule triple_fact, intro triple_if triple_returnP assms)
  then show "triple (\<lambda>s. imports_verified s \<and> (\<forall>err t'. (Inr x :: 'a + _) = Inr (err, t') \<longrightarrow> (verified t \<longrightarrow> verified t')))
      (case x of (err, t') \<Rightarrow> if err \<noteq> None then returnP () else k t') (\<lambda>_. imports_verified)"
    by (simp add: x)
qed (use assms(1) in auto)

lemma fail_verified: "keeps_verified (failHostDirectoryPVCImport env t cause rs)"
proof -
  have "keeps_verified (bindP (UpdateImport env t ''failed'' (Failure cause)) (\<lambda>_. returnP ()))"
    by (rule triple_bindP [OF update_verified]) (auto intro: triple_returnP)
  moreover have "steady (if rs \<noteq> [] then tryP (on_db (db_read (ev_fault env) (\<lambda>d. found (tbl_find en_ID (vi_EnvironmentID t) (wd_environments d))))) (\<lambda>r. case r of
              Inl _ \<Rightarrow> returnP ()
            | Inr environment \<Rightarrow> tryP (restorePVCImportWorkloads env (en_Namespace environment) rs) (\<lambda>_. returnP ())) else returnP ())"
    by (auto intro!: steady_intros steady_restore split: sum.splits)
  ultimately show ?thesis
    unfolding failHostDirectoryPVCImport_def GetEnvironmentByID_def ignoring_def by (rule keep_bindP [OF steadyD, rotated])
qed

lemma roll_back_verified: "keeps_verified (roll_back_import env target rs t e)"
  unfolding roll_back_import_def by (intro keep_bindP steadyD [OF steady_roll_back] fail_verified)

lemma restart_verified:
  assumes "verified t"
  shows "keeps_verified (restart_workloads env ns rs t)"
proof -
  have "keeps_verified (bindP (UpdateImport env t ''succeeded'' (Note ''succeeded'')) (\<lambda>_. returnP ()))"
    by (rule triple_bindP [OF update_verified]) (use assms in \<open>auto intro: triple_returnP\<close>)
  then show ?thesis
    unfolding restart_workloads_def by (intro keep_tryP steadyD [OF steady_restore] triple_sum fail_verified)
qed

lemma checksum_verified:
  "triple imports_verified (hostDirectoryContentChecksum env server path) (\<lambda>r s. imports_verified s \<and> (\<forall>x. r = Inr x \<longrightarrow> is_checksum x))"
proof (rule triple_and [OF steadyD])
  show "steady (hostDirectoryContentChecksum env server path)"
    by (auto simp: hostDirectoryContentChecksum_def Let_def intro!: steady_intros steady_SSH split: sum.splits)
  show "triple imports_verified (hostDirectoryContentChecksum env server path) (\<lambda>r s. \<forall>x. r = Inr x \<longrightarrow> is_checksum x)"
    by (rule tripleI) (use checksum_read in \<open>fastforce simp: hostDirectoryContentChecksum_def Let_def tryP_def failP_def returnP_def split: sum.splits prod.splits if_splits\<close>)
qed

lemma verify_verified: "keeps_verified (verify_import env ns source target rs t)"
proof -
  have fin: "keeps_verified (\<lambda>s. advance_import env (t\<lparr>vi_SourceChecksum := x, vi_TargetChecksum := x, vi_VerifiedAt := Some (clock env s)\<rparr>)
      ''restoring_workload'' (restart_workloads env ns rs) s)" if "is_checksum x" for x
    by (rule triple_reading [where g = "clock env"], rule advance_verified) (use that in \<open>auto intro!: restart_verified simp: verified_def\<close>)
  have both: "keeps_verified (if x \<noteq> y then roll_back_import env target rs t (TaskRefused ChecksumMismatch)
      else (\<lambda>s. advance_import env (t\<lparr>vi_SourceChecksum := x, vi_TargetChecksum := y, vi_VerifiedAt := Some (clock env s)\<rparr>)
      ''restoring_workload'' (restart_workloads env ns rs) s))" if "is_checksum x" for x y
    using fin [OF that] roll_back_verified by (cases "x = y") simp_all
  show ?thesis
    unfolding verify_import_def
    by (rule triple_tryP [OF checksum_verified], rule triple_fact, rule triple_sum, rule roll_back_verified,
        rule triple_tryP [OF checksum_verified], rule triple_fact, rule triple_sum, rule roll_back_verified, rule both) blast
qed

lemma replace_verified: "keeps_verified (replace_data env ns source target rs t)"
proof -
  have copy: "keeps_verified (copy_directory env ns source target rs t')" for t'
    unfolding copy_directory_def Let_def
    by (intro keep_bindP [OF steadyD [OF steady_stream]] triple_prod triple_option roll_back_verified advance_verified verify_verified) simp
  show ?thesis
    unfolding replace_data_def
    by (intro keep_tryP steadyD [OF steady_clear] triple_sum fail_verified advance_verified copy) simp
qed

lemma back_up_verified: "keeps_verified (back_up env ns source target hasData rs t)"
  unfolding back_up_def Let_def
  by (intro keep_tryP steadyD [OF steady_archive] triple_sum fail_verified triple_if replace_verified)

lemma stages_verified: "keeps_verified (import_stages env replace t)"
proof -
  have stop: "keeps_verified (stop_and_import env t' ns source target claim hasData)" for t' ns source target claim hasData
  proof -
    have "keeps_verified (bindP (UpdateImport env (t'\<lparr>vi_ApplicationReplicas := rs\<rparr>) ''backing_up'' (Note ''backing_up'')) (\<lambda>(_, t). back_up env ns source target hasData rs t))"
      for rs by (rule triple_bindP [OF update_verified]) (auto intro: triple_pre [OF back_up_verified] split: prod.splits)
    then show ?thesis
      unfolding stop_and_import_def by (intro keep_tryP steadyD [OF steady_stop] triple_sum fail_verified)
  qed
  show ?thesis
    unfolding import_stages_def
    by (rule keep_tryP [OF steadyD [OF steady_preflight]], rule triple_sum) (auto intro!: fail_verified advance_verified stop split: prod.splits)
qed

lemma run_verified: "keeps_verified (runHostDirectoryPVCImport env i replace)"
  unfolding runHostDirectoryPVCImport_def GetHostDirectoryPVCImport_def
  by (rule keep_tryP [OF steadyD [OF steady_read]], rule triple_sum, rule triple_returnP, assumption, rule triple_reading [where g = "clock env"],
      rule advance_verified [OF _ stages_verified]) simp

lemma create_verified: "keeps_verified (Handler_CreateHostDirectoryPVCImport env ports body name userID)"
proof -
  have insert: "keeps_verified (\<lambda>s. refusing (\<lambda>_. StoreFailed) (on_db (CreateHostDirectoryPVCImport (ev_fault env) (clock env s) t)) s)"
    if "vi_Status t = ''pending''" for t
    by (rule tripleI) (use that in \<open>auto simp: refusing_def on_db_def CreateHostDirectoryPVCImport_def db_call_def note_storage_id_def imports_verified_def Let_def
        split: if_splits\<close>)
  have create: "keeps_verified (create_import env ports t confirmed)" if "vi_Status t = ''pending''" for t confirmed
    unfolding create_import_def Let_def StartJob_def
    by (rule keep_bindP [OF insert [OF that]], rule triple_bindP [OF update_verified])
      (auto intro!: triple_pre [OF steadyD] steady_intros split: prod.splits)
  have new: "vi_Status (new_import e claim source path u) = ''pending''" for e claim source path u by (simp add: new_import_def)
  have looking: "steady (environment_by_id env i)" "steady (no_task env i n)" "steady (import_servers env i claim path)" for i n claim path
    by (auto simp: environment_by_id_def GetEnvironmentByID_def no_task_def active_import_def active_migration_def FindActiveHostDirectoryPVCImport_def
        FindActivePVCMigration_def import_servers_def GetServer_def intro!: steady_intros steady_server split: option.splits sum.splits)
  show ?thesis
    unfolding Handler_CreateHostDirectoryPVCImport_def
    by (intro triple_if triple_failP triple_option keep_bindP [OF steadyD] looking steady_refusing steady_GetManagedPVC create new)
qed

lemma delete_verified: "keeps_verified (Handler_DeleteHostDirectoryPVCImportBackup env ports query body name id_param)"
proof -
  have archives: "steady (delete_archives env t)" for t
    by (auto simp: delete_archives_def deleteHostDirectoryImportArchive_def GetServer_def Let_def intro!: steady_intros steady_server steady_SSH split: sum.splits)
  have stamp: "keeps_verified (bindP (UpdateImport env t st nt) (\<lambda>(err, t). if err \<noteq> None then failP StoreFailed else returnP t))" if "verified t" for t st nt
    by (rule triple_bindP [OF update_verified]) (use that in \<open>auto intro!: triple_pre [OF steadyD] steady_intros split: prod.splits\<close>)
  have get: "triple imports_verified (refusing (\<lambda>_. TaskNotFound) (on_db (GetHostDirectoryPVCImport (ev_fault env) i)))
      (\<lambda>r s. imports_verified s \<and> (\<forall>t. r = Inr t \<longrightarrow> vi_Status t = ''succeeded'' \<longrightarrow> verified t))" for i
    by (rule tripleI) (auto simp: refusing_def on_db_def GetHostDirectoryPVCImport_def db_read_def db_call_def imports_verified_def found_def
        split: if_splits option.splits dest: tbl_find_key)
  have del: "keeps_verified (bindP (delete_archives env t) (\<lambda>_ s.
      bindP (UpdateImport env (t\<lparr>vi_BackupDeletedAt := Some (clock env s)\<rparr>) (vi_Status t) (Note ''backup deleted'')) (\<lambda>(err, t).
        if err \<noteq> None then failP StoreFailed else returnP t) s))" if "verified t" for t
    by (rule keep_bindP [OF steadyD [OF archives]], rule triple_reading [where g = "clock env"], rule stamp) (use that in \<open>auto simp: verified_def\<close>)
  have looking: "steady (environment_by_id env i)" for i
    by (auto simp: environment_by_id_def GetEnvironmentByID_def intro!: steady_intros)
  show ?thesis
    unfolding Handler_DeleteHostDirectoryPVCImportBackup_def
    by (intro triple_if triple_failP triple_option keep_bindP [OF steadyD [OF looking]] triple_bindP [OF get] triple_fact triple_returnP del)
      (auto intro: del)
qed

section \<open>Properties\<close>


definition sample_import :: HostDirectoryPVCImport where
  "sample_import = (new_import sample_environment (pvcInfoFromResources (sample_claim ''data'') None (Some (sample_volume ''data''))) (sample_server 2 ''b'') ''/home/data'' 1)
     \<lparr>vi_ID := 4, vi_BackupPath := hostDirectoryImportBackupPath ''data'' 4 False, vi_TargetBackupPath := hostDirectoryImportBackupPath ''data'' 4 True\<rparr>"

definition sample_importing :: storage_state where
  "sample_importing = sample_state\<lparr>st_world := (st_world sample_state)\<lparr>db := (db (st_world sample_state))\<lparr>sd_imports := [sample_import]\<rparr>\<rparr>\<rparr>"


text \<open>Runs and requests about imports, in any order, with other changes of the state in between.\<close>

inductive import_history :: "storage_state \<Rightarrow> storage_state \<Rightarrow> bool" for s0 where
  start: "import_history s0 s0"
| run: "import_history s0 s \<Longrightarrow> import_history s0 (snd ((runHostDirectoryPVCImport env i replace :: (volume_error, unit) volume_proc) s))"
| accept: "import_history s0 s \<Longrightarrow> import_history s0 (snd (Handler_CreateHostDirectoryPVCImport env ports body name userID s))"
| forget: "import_history s0 s \<Longrightarrow> import_history s0 (snd (Handler_DeleteHostDirectoryPVCImportBackup env ports query i name id_param s))"
| other: "import_history s0 s \<Longrightarrow> sd_imports (db (st_world s')) = sd_imports (db (st_world s)) \<Longrightarrow> import_history s0 s'"

text \<open>
  C27. A finished import was verified. If every import that is stored as succeeded has the time of its check and
  the same digest of 64 hexadecimal digits for the directory and for the volume, then this still holds after
  any sequence of runs and requests about imports and of other changes.
\<close>

theorem import_success_verified:
  assumes "import_history s0 s" and "imports_verified s0"
  shows "imports_verified s"
  using assms
proof (induction rule: import_history.induct)
  case (run s env i replace)
  then show ?case using tripleD [OF run_verified _ prod.collapse [symmetric]] by blast
next
  case (accept s env ports body name userID)
  then show ?case using tripleD [OF create_verified _ prod.collapse [symmetric]] by blast
next
  case (forget s env ports query i name id_param)
  then show ?case using tripleD [OF delete_verified _ prod.collapse [symmetric]] by blast
next
  case (other s s')
  then show ?case by (simp add: imports_verified_def)
qed

lemma import_success_verified_witness:
  "imports_verified sample_importing \<and>
   imports_verified (snd ((runHostDirectoryPVCImport sample_env 4 True :: (volume_error, unit) volume_proc) sample_importing))"
proof
  show start: "imports_verified sample_importing"
    by (simp add: imports_verified_def sample_importing_def sample_import_def new_import_def sample_state_def)
  show "imports_verified (snd ((runHostDirectoryPVCImport sample_env 4 True :: (volume_error, unit) volume_proc) sample_importing))"
    by (rule import_success_verified [OF import_history.run [OF import_history.start] start])
qed

end
