(* ===== verification/Storage_Backup.thy ===== *)
theory Storage_Backup
  imports Storage_Import_Safety
begin

text \<open>
  Copies of a volume on another server and their restoration:
  \<open>internal/api/infrastructure/storage/pvc_backup_handler.go\<close>.
\<close>

section \<open>Runs\<close>

definition UpdateBackup :: "storage_env \<Rightarrow> PersistentVolumeBackup \<Rightarrow> (db_error, PersistentVolumeBackup) volume_proc" where
  "UpdateBackup env b s = on_db (UpdatePersistentVolumeBackup (ev_fault env) (clock env s) b) s"

text \<open>\<open>_ = h.Service.UpdateBackup(backup)\<close>.\<close>

definition note_backup :: "storage_env \<Rightarrow> PersistentVolumeBackup \<Rightarrow> ('e, unit) volume_proc" where
  "note_backup env b = ignoring (UpdateBackup env b) (returnP ())"

definition failPersistentVolumeBackup :: "storage_env \<Rightarrow> PersistentVolumeBackup \<Rightarrow> volume_error \<Rightarrow> ('e, unit) volume_proc" where
  "failPersistentVolumeBackup env b cause s =
     note_backup env (b\<lparr>vb_Status := ''failed'', vb_Detail := Failure cause, vb_CompletedAt := Some (clock env s)\<rparr>) s"

definition failPersistentVolumeRestore :: "storage_env \<Rightarrow> PersistentVolumeBackup \<Rightarrow> volume_error \<Rightarrow> ('e, unit) volume_proc" where
  "failPersistentVolumeRestore env b cause s =
     note_backup env (b\<lparr>vb_RestoreStatus := ''failed'', vb_RestoreDetail := Failure cause, vb_RestoreCompletedAt := Some (clock env s)\<rparr>) s"

text \<open>An error of \<open>m\<close> is recorded and ends the run.\<close>

definition or_fail :: "(volume_error \<Rightarrow> ('e, unit) volume_proc) \<Rightarrow> (volume_error, 'a) volume_proc \<Rightarrow> ('a \<Rightarrow> ('e, unit) volume_proc) \<Rightarrow> ('e, unit) volume_proc" where
  "or_fail fail m k = tryP m (\<lambda>r. case r of Inl e \<Rightarrow> fail e | Inr x \<Rightarrow> k x)"

text \<open>The claim of a task, as long as it is still the local volume the task was made for.\<close>

definition local_claim ::
  "storage_env \<Rightarrow> Environment \<Rightarrow> string \<Rightarrow> (PersistentVolumeClaimInfo \<Rightarrow> bool) \<Rightarrow> task_refusal \<Rightarrow> (volume_error, PersistentVolumeClaimInfo) volume_proc" where
  "local_claim env environment name ok refusal =
     tryP (GetManagedPVCContext env (en_Namespace environment) name (en_ID environment)) (\<lambda>r. case r of
       Inl _ \<Rightarrow> failP (TaskRefused refusal)
     | Inr claim \<Rightarrow> if \<not> ci_IsLocal claim \<or> ci_LocalPath claim = [] \<or> \<not> ok claim then failP (TaskRefused refusal) else returnP claim)"

definition task_environment :: "storage_env \<Rightarrow> nat \<Rightarrow> (volume_error, Environment) volume_proc" where
  "task_environment env i = refusing StorageDB (on_db (GetEnvironmentByID (ev_fault env) i))"

definition task_server :: "storage_env \<Rightarrow> nat \<Rightarrow> (volume_error, Server) volume_proc" where
  "task_server env i = refusing StorageDB (on_db (GetServer (ev_fault env) i))"

definition copy_backup :: "storage_env \<Rightarrow> PersistentVolumeBackup \<Rightarrow> Server \<Rightarrow> Server \<Rightarrow> string \<Rightarrow> ('e, unit) volume_proc" where
  "copy_backup env b source target sourcePath =
     bindP (streamPVCData env source target sourcePath (vb_BackupPath b)) (\<lambda>(bytesCopied, err).
       case err of
         Some e \<Rightarrow> failPersistentVolumeBackup env b e
       | None \<Rightarrow> (\<lambda>s. note_backup env (b\<lparr>vb_Status := ''succeeded'', vb_Bytes := bytesCopied, vb_Detail := Note ''copied'', vb_CompletedAt := Some (clock env s)\<rparr>) s))"

definition executePersistentVolumeBackup :: "storage_env \<Rightarrow> nat \<Rightarrow> ('e, unit) volume_proc" where
  "executePersistentVolumeBackup env i =
     tryP (on_db (GetPersistentVolumeBackup (ev_fault env) i)) (\<lambda>r. case r of
       Inl _ \<Rightarrow> returnP ()
     | Inr b0 \<Rightarrow> (\<lambda>s.
         let b = b0\<lparr>vb_Status := ''running'', vb_StartedAt := Some (clock env s)\<rparr>; fail = failPersistentVolumeBackup env b in
         bindP (note_backup env b) (\<lambda>_.
         or_fail fail (task_environment env (vb_EnvironmentID b)) (\<lambda>environment.
         or_fail fail (local_claim env environment (vb_PVCName b) (\<lambda>claim. ci_BoundNode claim = vb_SourceNodeName b) ClaimChanged) (\<lambda>claim.
         or_fail fail (serverForK8sNode env (vb_SourceNodeName b)) (\<lambda>source.
         or_fail fail (task_server env (vb_BackupServerID b)) (\<lambda>target.
           copy_backup env b source target (ci_LocalPath claim)))))) s))"

definition restoreBackupReplicas :: "storage_env \<Rightarrow> string \<Rightarrow> (string \<times> int) list \<Rightarrow> ('e, unit) volume_proc" where
  "restoreBackupReplicas env namespace replicas =
     foreach (\<lambda>(name, count). ignoring (ScaleDeploymentContext env namespace name count) (returnP ())) (ev_order env replicas)"

fun stop_users :: "storage_env \<Rightarrow> string \<Rightarrow> VolumeWorkload list \<Rightarrow> (string \<times> int) list \<Rightarrow> (volume_error, (string \<times> int) list) volume_proc" where
  "stop_users env namespace [] replicas = returnP replicas"
| "stop_users env namespace (d # ds) replicas =
     (if \<not> managed_workload d then failP (TaskRefused (UnmanagedUser (dy_Name d)))
      else bindP (bindP (ScaleDeploymentContext env namespace (dy_Name d) 0) (\<lambda>_. waitForStorageDeploymentPods env namespace (dy_Name d) False 90)) (\<lambda>_.
        stop_users env namespace ds (map_put (dy_Name d) (replica_count d) replicas)))"

definition stop_claim_users :: "storage_env \<Rightarrow> string \<Rightarrow> string \<Rightarrow> (volume_error, (string \<times> int) list) volume_proc" where
  "stop_claim_users env namespace name = bindP (DeploymentUsingPVCContext env namespace name) (\<lambda>deployments. stop_users env namespace deployments [])"

definition put_data_back ::
  "storage_env \<Rightarrow> PersistentVolumeBackup \<Rightarrow> string \<Rightarrow> Server \<Rightarrow> Server \<Rightarrow> string \<Rightarrow> (string \<times> int) list \<Rightarrow> ('e, unit) volume_proc" where
  "put_data_back env b namespace source archive path replicas =
     tryP (SSHExec env source (clear_command path)) (\<lambda>r. case r of
       Inl out \<Rightarrow> bindP (restoreBackupReplicas env namespace replicas) (\<lambda>_. failPersistentVolumeRestore env b (CommandFailed StepClear (TrimSpace out)))
     | Inr _ \<Rightarrow>
         bindP (streamPVCData env archive source (vb_BackupPath b) path) (\<lambda>(_, err).
           case err of
             Some e \<Rightarrow> bindP (restoreBackupReplicas env namespace replicas) (\<lambda>_. failPersistentVolumeRestore env b e)
           | None \<Rightarrow> bindP (restoreBackupReplicas env namespace replicas) (\<lambda>_ s.
               note_backup env (b\<lparr>vb_RestoreStatus := ''succeeded'', vb_RestoreDetail := Note ''restored'', vb_RestoreCompletedAt := Some (clock env s)\<rparr>) s)))"

definition restore_stages :: "storage_env \<Rightarrow> PersistentVolumeBackup \<Rightarrow> ('e, unit) volume_proc" where
  "restore_stages env b =
     (let fail = failPersistentVolumeRestore env b in
      or_fail fail (task_environment env (vb_EnvironmentID b)) (\<lambda>environment.
      or_fail fail (local_claim env environment (vb_PVCName b) (\<lambda>_. True) ClaimNotLocal) (\<lambda>claim.
      or_fail fail (serverForK8sNode env (ci_BoundNode claim)) (\<lambda>source.
      or_fail fail (task_server env (vb_BackupServerID b)) (\<lambda>archive.
      or_fail fail (stop_claim_users env (en_Namespace environment) (vb_PVCName b)) (\<lambda>replicas.
        put_data_back env b (en_Namespace environment) source archive (ci_LocalPath claim) replicas))))))"

definition executePersistentVolumeRestore :: "storage_env \<Rightarrow> nat \<Rightarrow> ('e, unit) volume_proc" where
  "executePersistentVolumeRestore env i =
     tryP (on_db (GetPersistentVolumeBackup (ev_fault env) i)) (\<lambda>r. case r of Inl _ \<Rightarrow> returnP () | Inr b \<Rightarrow> restore_stages env b)"

section \<open>Requests\<close>

record persistentVolumeBackupRequest =
  bq_EnvironmentID :: nat
  bq_BackupServerID :: nat
  bq_BackupRoot :: string
  bq_ConfirmDataReplace :: bool

definition Handler_ListPersistentVolumeBackups ::
  "storage_env \<Rightarrow> storage_ports \<Rightarrow> string \<Rightarrow> string \<Rightarrow> (storage_refusal, PersistentVolumeBackup list) volume_proc" where
  "Handler_ListPersistentVolumeBackups env ports environment_query name =
     bindP (pvcEnvironment env ports environment_query) (\<lambda>environment.
       refusing (\<lambda>_. StoreFailed) (on_db (ListPersistentVolumeBackups (ev_fault env) (en_ID environment) name)))"

definition new_backup :: "Environment \<Rightarrow> PersistentVolumeClaimInfo \<Rightarrow> nat \<Rightarrow> string \<Rightarrow> nat \<Rightarrow> PersistentVolumeBackup" where
  "new_backup environment claim serverID path userID =
     \<lparr>vb_ID = 0, vb_EnvironmentID = en_ID environment, vb_PVCName = ci_Name claim, vb_SourceNodeName = ci_BoundNode claim, vb_BackupServerID = serverID,
      vb_BackupPath = path, vb_Bytes = 0, vb_Status = ''accepted'', vb_Detail = NoNote, vb_RestoreStatus = [], vb_RestoreDetail = NoNote, vb_CreatedBy = userID,
      vb_StartedAt = None, vb_CompletedAt = None, vb_RestoreStartedAt = None, vb_RestoreCompletedAt = None, vb_CreatedAt = zero_time\<rparr>"

text \<open>\<open>stamp\<close> writes a time as \<open>20060102T150405Z\<close>.\<close>

definition Handler_CreatePersistentVolumeBackup ::
  "storage_env \<Rightarrow> storage_ports \<Rightarrow> (int \<Rightarrow> string) \<Rightarrow> persistentVolumeBackupRequest option \<Rightarrow> string \<Rightarrow> nat \<Rightarrow>
   (storage_refusal, PersistentVolumeBackup \<times> storage_job) volume_proc" where
  "Handler_CreatePersistentVolumeBackup env ports stamp body name userID =
     (if \<not> po_pvc ports \<or> \<not> po_migration ports \<or> \<not> po_store ports then failP K8sUnavailable
      else case body of
        None \<Rightarrow> failP RequestInvalid
      | Some request \<Rightarrow>
          if bq_EnvironmentID request = 0 \<or> bq_BackupServerID request = 0 then failP RequestInvalid
          else bindP (environment_by_id env (bq_EnvironmentID request)) (\<lambda>environment.
          bindP (refusing ClaimFailed (GetManagedPVCContext env (en_Namespace environment) name (en_ID environment))) (\<lambda>claim.
            if \<not> ci_IsLocal claim \<or> ci_BoundNode claim = [] \<or> ci_LocalPath claim = [] then failP NotLocalVolume
            else case ValidateBackupRoot (bq_BackupRoot request) of
              Inl _ \<Rightarrow> failP PathRefused
            | Inr root \<Rightarrow>
                bindP (refusing (\<lambda>_. ServerNotFound) (on_db (GetServer (ev_fault env) (bq_BackupServerID request)))) (\<lambda>_ s.
                  bindP (refusing (\<lambda>_. StoreFailed) (on_db (CreatePersistentVolumeBackup (ev_fault env) (clock env s)
                      (new_backup environment claim (bq_BackupServerID request) (path_Join [root, en_Namespace environment, ci_Name claim, stamp (clock env s)]) userID)))) (\<lambda>b.
                    bindP (StartJob ports (RunBackup (vb_ID b))) (\<lambda>job. returnP (b, job))) s))))"

definition Handler_RestorePersistentVolumeBackup ::
  "storage_env \<Rightarrow> storage_ports \<Rightarrow> persistentVolumeBackupRequest option \<Rightarrow> string \<Rightarrow> string \<Rightarrow> (storage_refusal, PersistentVolumeBackup \<times> storage_job) volume_proc" where
  "Handler_RestorePersistentVolumeBackup env ports body name id_param =
     (if \<not> po_pvc ports \<or> \<not> po_migration ports \<or> \<not> po_store ports then failP K8sUnavailable
      else case body of
        None \<Rightarrow> failP RequestInvalid
      | Some request \<Rightarrow>
          if bq_EnvironmentID request = 0 \<or> \<not> bq_ConfirmDataReplace request then failP RequestInvalid
          else case ParsePositiveID (TrimSpace id_param) of
            None \<Rightarrow> failP TaskIDInvalid
          | Some i \<Rightarrow>
              bindP (refusing (\<lambda>_. TaskNotFound) (on_db (GetPersistentVolumeBackup (ev_fault env) i))) (\<lambda>b.
                if vb_EnvironmentID b \<noteq> bq_EnvironmentID request \<or> vb_PVCName b \<noteq> name then failP TaskNotFound
                else if vb_Status b \<noteq> ''succeeded'' then failP NotRestorable
                else if vb_RestoreStatus b = ''running'' then failP RestoreRunning
                else (\<lambda>s.
                  bindP (refusing (\<lambda>_. StoreFailed) (UpdateBackup env (b\<lparr>vb_RestoreStatus := ''running'', vb_RestoreDetail := NoNote,
                      vb_RestoreStartedAt := Some (clock env s), vb_RestoreCompletedAt := None\<rparr>))) (\<lambda>b.
                    bindP (StartJob ports (RunRestore (vb_ID b))) (\<lambda>job. returnP (b, job))) s)))"

text \<open>The executor: which run a job stands for (\<open>ConfigureStorageExecutor\<close>).\<close>

fun run_job :: "storage_env \<Rightarrow> storage_job \<Rightarrow> ('e, unit) volume_proc" where
  "run_job env (RunMigration i img) = runPersistentVolumeMigration env i img"
| "run_job env (RunImport i replaceTarget) = runHostDirectoryPVCImport env i replaceTarget"
| "run_job env (RunBackup i) = executePersistentVolumeBackup env i"
| "run_job env (RunRestore i) = executePersistentVolumeRestore env i"

section \<open>What a restoration may do\<close>

text \<open>The managed claim was read in this run, and it is a local volume at this path of this server's node.\<close>

definition volume_read :: "storage_env \<Rightarrow> string \<Rightarrow> string \<Rightarrow> Server \<Rightarrow> string \<Rightarrow> volume_event list \<Rightarrow> bool" where
  "volume_read env ns name server path tr \<longleftrightarrow>
     (\<exists>i s s' claim es. GetManagedPVCContext env ns name i s = (Inr claim, s') \<and> tr = st_trace s' @ es \<and> ci_IsLocal claim \<and>
        path = ci_LocalPath claim \<and> path \<noteq> [] \<and> sv_K8sNodeName server = ci_BoundNode claim)"

definition rst_allowed :: "storage_env \<Rightarrow> string \<Rightarrow> PersistentVolumeBackup \<Rightarrow> volume_event list \<Rightarrow> volume_event \<Rightarrow> bool" where
  "rst_allowed env ns b tr e =
     (case e of
        VDeleteClaim _ _ \<Rightarrow> False
      | VCreateClaim _ \<Rightarrow> False
      | VUpdateDeployment d _ \<Rightarrow> (\<exists>ns' name d0 n. tr \<noteq> [] \<and> last tr = VGetDeployment ns' name (Inr d0) \<and> d = d0\<lparr>dy_Replicas := Some n\<rparr>)
      | VCommand server command _ \<Rightarrow>
          (\<exists>path. command = clear_command path \<and> volume_read env ns (vb_PVCName b) server path tr \<and> users_stopped env ns (vb_PVCName b) tr)
      | VStream archive target archivePath path _ \<Rightarrow>
          sv_ID archive = vb_BackupServerID b \<and> archivePath = vb_BackupPath b \<and>
          tr \<noteq> [] \<and> (\<exists>output. last tr = VCommand target (clear_command path) (True, output))
      | _ \<Rightarrow> True)"

interpretation rs: scaling_policy "rst_allowed env ns b" for env ns b
proof unfold_locales
  fix e tr
  show "harmless e \<Longrightarrow> rst_allowed env ns b tr e" by (cases e) (auto simp: rst_allowed_def)
qed (auto simp: rst_allowed_def)

lemma lasting_volume_read [simp]: "lasting (volume_read env ns name server path)"
  unfolding lasting_def volume_read_def by (metis append.assoc)

abbreviation rst_state ::
  "storage_env \<Rightarrow> string \<Rightarrow> PersistentVolumeBackup \<Rightarrow> Environment list \<Rightarrow> (volume_event list \<Rightarrow> bool) \<Rightarrow> storage_state \<Rightarrow> bool" where
  "rst_state env ns b \<equiv> pol_state (rst_allowed env ns b)"

abbreviation rst_done :: "storage_env \<Rightarrow> string \<Rightarrow> PersistentVolumeBackup \<Rightarrow> Environment list \<Rightarrow> 'r \<Rightarrow> storage_state \<Rightarrow> bool" where
  "rst_done env ns b es \<equiv> \<lambda>_. rst_state env ns b es (\<lambda>_. True)"

lemma rst_end: "triple (rst_state env ns b es F) p (\<lambda>_. rst_state env ns b es G) \<Longrightarrow> triple (rst_state env ns b es F) p (rst_done env ns b es)"
  by (erule triple_post) (simp add: pol_state_def)

text \<open>Storing the row of the backup leaves the cluster and the environments alone.\<close>

lemma adds_note_backup: "adds P (note_backup env b)"
proof -
  have "keeps environments_kept (UpdatePersistentVolumeBackup fault now b)" for fault now
    unfolding UpdatePersistentVolumeBackup_def CreatePersistentVolumeBackup_def by (intro ek.keeps_intros) (simp_all add: note_storage_id_def Let_def)
  then have "adds P (UpdateBackup env b)"
    using adds_on_db [of "UpdatePersistentVolumeBackup (ev_fault env) now b" P for now] unfolding adds_def UpdateBackup_def by blast
  then show ?thesis unfolding note_backup_def ignoring_def by (intro adds_tryP adds_returnP)
qed

lemma adds_failRestore: "adds P (failPersistentVolumeRestore env b cause)"
  unfolding adds_def failPersistentVolumeRestore_def using adds_note_backup [unfolded adds_def] by blast

lemma rst_fail: "triple (rst_state env ns b0 es F) (failPersistentVolumeRestore env b cause) (rst_done env ns b0 es)"
  by (rule rst_end [OF rs.pol_silent [OF adds_failRestore]])

lemma rst_replicas: "lasting F \<Longrightarrow> triple (rst_state env ns b es F) (restoreBackupReplicas env ns' rs) (\<lambda>_. rst_state env ns b es F)"
  unfolding restoreBackupReplicas_def
  by (rule triple_foreach) (auto split: prod.splits intro!: keep_ignoring rs.pol_scale triple_returnP)

lemma rst_or_fail:
  assumes "triple (rst_state env ns b0 es F) m (\<lambda>r s. rst_state env ns b0 es (\<lambda>tr. F tr \<and> (\<forall>x. r = Inr x \<longrightarrow> G x tr)) s \<and> (\<forall>x. r = Inr x \<longrightarrow> H x))"
    and "\<And>x. H x \<Longrightarrow> triple (rst_state env ns b0 es (\<lambda>tr. F tr \<and> G x tr)) (k x) (rst_done env ns b0 es)"
  shows "triple (rst_state env ns b0 es F) (or_fail (failPersistentVolumeRestore env b) m k) (rst_done env ns b0 es)"
  unfolding or_fail_def
proof (rule triple_tryP [OF assms(1)])
  fix r
  show "triple (\<lambda>s. rst_state env ns b0 es (\<lambda>tr. F tr \<and> (\<forall>x. r = Inr x \<longrightarrow> G x tr)) s \<and> (\<forall>x. r = Inr x \<longrightarrow> H x))
      (case r of Inl e \<Rightarrow> failPersistentVolumeRestore env b e | Inr x \<Rightarrow> k x) (rst_done env ns b0 es)"
    by (cases r) (auto intro: rst_fail assms(2) triple_fact)
qed

text \<open>Stopping one after the other, with the check of each in between, is stopping all if it succeeds.\<close>

lemma stop_users_each:
  "stop_users env ns ds rs s = (Inr out, s') \<Longrightarrow> stop_each env ns ds rs s = (Inr out, s') \<and> list_all managed_workload ds"
  by (induction ds arbitrary: rs s) (auto simp: bindP_def failP_def split: if_splits prod.splits sum.splits)

lemma stop_claim_users_stops: "triple S (stop_claim_users env ns claim) (\<lambda>r s. \<forall>out. r = Inr out \<longrightarrow> users_stopped env ns claim (st_trace s))"
proof (rule tripleI, intro allI impI)
  fix s r s' out
  assume s: "S s" and "stop_claim_users env ns claim s = (r, s')" "r = Inr out"
  then have "stopPVCImportWorkloads env ns claim s = (Inr out, s')"
    by (auto simp: stop_claim_users_def stopPVCImportWorkloads_def bindP_def find_None_iff list_all_iff split: prod.splits sum.splits option.splits
        dest!: stop_users_each) (metis find_None_iff option.distinct(1) find_Some_iff nth_mem)
  from tripleD [OF stop_stops [of S], OF s this] show "users_stopped env ns claim (st_trace s')" by simp
qed

lemma rst_stop:
  assumes "lasting F"
  shows "triple (rst_state env ns b es F) (stop_claim_users env ns' claim) (\<lambda>_. rst_state env ns b es F)"
proof -
  have each: "triple (rst_state env ns b es F) (stop_users env ns' ds rs) (\<lambda>_. rst_state env ns b es F)" for ds rs
    by (induction ds arbitrary: rs) (auto intro!: triple_returnP triple_failP keep_bindP rs.pol_scale rs.pol_wait assms)
  show ?thesis
    unfolding stop_claim_users_def by (intro keep_bindP rs.pol_quiet [OF adds_DeploymentUsingPVC] each assms)
qed

lemma rst_put_back:
  assumes arch: "sv_ID archive = vb_BackupServerID b" and F: "lasting F"
    and ok: "\<And>tr. F tr \<Longrightarrow> volume_read env ns (vb_PVCName b) source path tr \<and> users_stopped env ns (vb_PVCName b) tr"
  shows "triple (rst_state env ns b es F) (put_data_back env b ns source archive path replicas :: ('e, unit) volume_proc) (rst_done env ns b es)"
  unfolding put_data_back_def
proof (rule triple_tryP [OF rs.pol_SSH [OF _ F]])
  fix tr r
  assume "F tr"
  with ok show "rst_allowed env ns b tr (VCommand source (clear_command path) r)" by (auto simp: rst_allowed_def)
next
  fix r :: "string + string"
  let ?cleared = "\<lambda>tr. F tr \<and> (\<forall>out. r = Inr out \<longrightarrow> tr \<noteq> [] \<and> last tr = VCommand source (clear_command path) (True, out))"
  have fail: "triple (rst_state env ns b es F) (bindP (restoreBackupReplicas env ns replicas) (\<lambda>_. failPersistentVolumeRestore env b e) :: ('e, unit) volume_proc) (rst_done env ns b es)" for e
    by (rule triple_bindP [OF rst_replicas [OF F]]) (auto intro: rst_fail simp: pol_state_def)
  have note_it: "triple (rst_state env ns b es F) (bindP (restoreBackupReplicas env ns replicas) (\<lambda>_ s.
       note_backup env (b\<lparr>vb_RestoreStatus := ''succeeded'', vb_RestoreDetail := Note ''restored'', vb_RestoreCompletedAt := Some (clock env s)\<rparr>) s) :: ('e, unit) volume_proc) (rst_done env ns b es)"
    by (rule rst_end [OF keep_bindP [OF rst_replicas [OF F] triple_reading [where g = "clock env"]]]) (rule rs.pol_silent [OF adds_note_backup])
  have stream: "triple (rst_state env ns b es ?cleared) (streamPVCData env archive source (vb_BackupPath b) path :: ('e, _) volume_proc)
      (\<lambda>_. rst_state env ns b es F)" if "r = Inr out" for out
    unfolding streamPVCData_def Let_def
    by (rule triple_call) (use that arch F in \<open>auto simp: pol_state_def rst_allowed_def lasting_def split: stream_run.splits\<close>)
  show "triple (rst_state env ns b es ?cleared)
     ((case r of Inl out \<Rightarrow> bindP (restoreBackupReplicas env ns replicas) (\<lambda>_. failPersistentVolumeRestore env b (CommandFailed StepClear (TrimSpace out)))
      | Inr _ \<Rightarrow> bindP (streamPVCData env archive source (vb_BackupPath b) path) (\<lambda>(_, err). case err of
             Some e \<Rightarrow> bindP (restoreBackupReplicas env ns replicas) (\<lambda>_. failPersistentVolumeRestore env b e)
           | None \<Rightarrow> bindP (restoreBackupReplicas env ns replicas) (\<lambda>_ s.
               note_backup env (b\<lparr>vb_RestoreStatus := ''succeeded'', vb_RestoreDetail := Note ''restored'', vb_RestoreCompletedAt := Some (clock env s)\<rparr>) s))) :: ('e, unit) volume_proc)
      (rst_done env ns b es)"
    by (rule triple_sum, rule triple_pre [OF fail], simp add: pol_state_def, rule triple_bindP [OF stream], assumption)
      (auto intro!: fail note_it triple_prod triple_option simp: pol_state_def)
qed

lemma rst_read:
  assumes "lasting F" and "\<And>d x. wd_environments d = es \<Longrightarrow> g d = Inr x \<Longrightarrow> H x"
  shows "triple (rst_state env ns b es F) (refusing f (on_db (db_read fault g)))
    (\<lambda>r s. rst_state env ns b es (\<lambda>tr. F tr \<and> (\<forall>x. r = Inr x \<longrightarrow> True)) s \<and> (\<forall>x. r = Inr x \<longrightarrow> H x))"
  by (rule tripleI) (use assms(2) in \<open>auto simp: refusing_def on_db_def db_read_def db_call_def pol_state_def split: if_splits\<close>)

lemma rst_claim:
  assumes "lasting F"
  shows "triple (rst_state env ns b es F) (local_claim env environment name ok refusal)
    (\<lambda>r s. rst_state env ns b es (\<lambda>tr. F tr \<and> (\<forall>claim. r = Inr claim \<longrightarrow> (\<forall>server. sv_K8sNodeName server = ci_BoundNode claim \<longrightarrow>
        volume_read env (en_Namespace environment) name server (ci_LocalPath claim) tr))) s \<and> (\<forall>claim. r = Inr claim \<longrightarrow> True))"
proof (rule tripleI)
  fix s r s'
  assume s: "rst_state env ns b es F s" and run: "local_claim env environment name ok refusal s = (r, s')"
  obtain q where q: "GetManagedPVCContext env (en_Namespace environment) name (en_ID environment) s = (q, s')"
    using run by (auto simp: local_claim_def tryP_def failP_def returnP_def split: prod.splits sum.splits if_splits)
  have "rst_state env ns b es F s'"
    using tripleD [OF rs.pol_quiet [OF adds_GetManagedPVC assms] s q] .
  moreover have "volume_read env (en_Namespace environment) name server (ci_LocalPath claim) (st_trace s')"
    if "r = Inr claim" "sv_K8sNodeName server = ci_BoundNode claim" for claim server
  proof -
    have "q = Inr claim" "ci_IsLocal claim" "ci_LocalPath claim \<noteq> []"
      using run that(1) q by (auto simp: local_claim_def tryP_def failP_def returnP_def split: prod.splits sum.splits if_splits)
    with q that(2) show ?thesis unfolding volume_read_def
      by (intro exI [of _ "en_ID environment"] exI [of _ s] exI [of _ s'] exI [of _ claim] exI [of _ "[]"]) simp
  qed
  ultimately show "rst_state env ns b es (\<lambda>tr. F tr \<and> (\<forall>claim. r = Inr claim \<longrightarrow> (\<forall>server. sv_K8sNodeName server = ci_BoundNode claim \<longrightarrow>
        volume_read env (en_Namespace environment) name server (ci_LocalPath claim) tr))) s' \<and> (\<forall>claim. r = Inr claim \<longrightarrow> True)"
    by (auto simp: pol_state_def)
qed

lemma rst_server:
  assumes "lasting F"
  shows "triple (rst_state env ns b es F) (serverForK8sNode env node)
    (\<lambda>r s. rst_state env ns b es (\<lambda>tr. F tr \<and> (\<forall>x. r = Inr x \<longrightarrow> True)) s \<and> (\<forall>x. r = Inr x \<longrightarrow> sv_K8sNodeName x = node))"
  unfolding serverForK8sNode_def ListServers_def
  by (rule triple_bindP [OF rst_read [OF assms, where H = "\<lambda>_. True"]], simp, rule triple_option)
    (auto simp: triple_def failP_def returnP_def find_Some_iff pol_state_def)

lemma restore_obeys:
  assumes "tbl_find en_ID (vb_EnvironmentID b) es = Some environment"
  shows "triple (rst_state env (en_Namespace environment) b es (\<lambda>_. True)) (restore_stages env b) (rst_done env (en_Namespace environment) b es)"
proof -
  let ?ns = "en_Namespace environment"
  let ?V = "\<lambda>claim tr. \<forall>server. sv_K8sNodeName server = ci_BoundNode claim \<longrightarrow> volume_read env ?ns (vb_PVCName b) server (ci_LocalPath claim) tr"
  have lV: "lasting (?V claim)" for claim using lasting_volume_read by (simp add: lasting_def)
  have stopped: "triple (rst_state env ?ns b es F) (stop_claim_users env ?ns (vb_PVCName b))
      (\<lambda>r s. rst_state env ?ns b es (\<lambda>tr. F tr \<and> (\<forall>x. r = Inr x \<longrightarrow> users_stopped env ?ns (vb_PVCName b) tr)) s \<and> (\<forall>x. r = Inr x \<longrightarrow> True))"
    if "lasting F" for F
    by (rule triple_post [OF triple_and [OF rst_stop [OF that] stop_claim_users_stops]]) (auto simp: pol_state_def)
  show ?thesis
    unfolding restore_stages_def Let_def task_environment_def task_server_def GetEnvironmentByID_def GetServer_def
  proof (rule rst_or_fail [where H = "\<lambda>e. e = environment"], rule rst_read)
    fix d x
    assume "wd_environments d = es" "found (tbl_find en_ID (vb_EnvironmentID b) (wd_environments d)) = Inr x"
    then show "x = environment" using assms by (simp add: found_def)
  next
    fix e
    assume e: "e = environment"
    show "triple (rst_state env ?ns b es (\<lambda>tr. True \<and> True))
       (or_fail (failPersistentVolumeRestore env b) (local_claim env e (vb_PVCName b) (\<lambda>_. True) ClaimNotLocal) (\<lambda>claim.
        or_fail (failPersistentVolumeRestore env b) (serverForK8sNode env (ci_BoundNode claim)) (\<lambda>source.
        or_fail (failPersistentVolumeRestore env b) (refusing StorageDB (on_db (db_read (ev_fault env) (\<lambda>d. found (tbl_find sv_ID (vb_BackupServerID b) (live_servers d)))))) (\<lambda>archive.
        or_fail (failPersistentVolumeRestore env b) (stop_claim_users env (en_Namespace e) (vb_PVCName b))
          (put_data_back env b (en_Namespace e) source archive (ci_LocalPath claim))))))
       (rst_done env ?ns b es)"
      unfolding e
      by (rule rst_or_fail [OF rst_claim], simp, rule rst_or_fail [OF rst_server], simp add: lV,
          rule rst_or_fail [OF rst_read [where H = "\<lambda>x. sv_ID x = vb_BackupServerID b"]], simp add: lV, auto dest: tbl_find_key simp: found_def split: option.splits,
          rule rst_or_fail [OF stopped], simp add: lV, rule rst_put_back, simp, simp add: lV lasting_conj, simp)
  qed simp
qed

section \<open>Properties\<close>


definition sample_backup :: PersistentVolumeBackup where
  "sample_backup = (new_backup sample_environment (pvcInfoFromResources (sample_claim ''data'') None (Some (sample_volume ''data''))) 2 ''/backup/shop/data/x'' 1)
     \<lparr>vb_ID := 6, vb_Status := ''succeeded'', vb_RestoreStatus := ''running''\<rparr>"

definition sample_restoring :: storage_state where
  "sample_restoring = sample_state\<lparr>st_world := (st_world sample_state)\<lparr>db := (db (st_world sample_state))\<lparr>sd_backups := [sample_backup]\<rparr>\<rparr>\<rparr>"


end
