(* ===== verification/Go_Calls.thy ===== *)
theory Go_Calls
  imports Go_Triples
begin

text \<open>
  Components that use the database and call other systems. The state of a session is the database and the
  trace of the calls so far; a called system is a parameter that answers from the trace. What a session
  may do is a policy: a predicate on the calls so far and the next call.
\<close>

record ('d, 'v) session =
  sn_world :: "'d world"
  sn_trace :: "'v list"

type_synonym ('d, 'v, 'e, 'a) session_proc = "(('d, 'v) session, 'e, 'a) proc"

definition on_store :: "('d world, 'e, 'a) proc \<Rightarrow> ('d, 'v, 'e, 'a) session_proc" where
  "on_store m s = (case m (sn_world s) of (r, w) \<Rightarrow> (r, s\<lparr>sn_world := w\<rparr>))"

definition ask :: "('v list \<Rightarrow> 'r) \<Rightarrow> ('r \<Rightarrow> 'v) \<Rightarrow> ('r \<Rightarrow> 'e + 'a) \<Rightarrow> ('d, 'v, 'e, 'a) session_proc" where
  "ask answer event result s = (let r = answer (sn_trace s) in (result r, s\<lparr>sn_trace := sn_trace s @ [event r]\<rparr>))"

text \<open>An error in the terms of the caller.\<close>

definition failing_as :: "('x \<Rightarrow> 'e) \<Rightarrow> ('s, 'x, 'a) proc \<Rightarrow> ('s, 'e, 'a) proc" where
  "failing_as f m = tryP m (\<lambda>r. case r of Inl e \<Rightarrow> failP (f e) | Inr x \<Rightarrow> returnP x)"

text \<open>A call whose error is ignored.\<close>

definition optional :: "('s, 'x, 'a) proc \<Rightarrow> ('s, 'e, 'a option) proc" where
  "optional m = tryP m (\<lambda>r. case r of Inl _ \<Rightarrow> returnP None | Inr x \<Rightarrow> returnP (Some x))"

definition checked :: "bool \<Rightarrow> 'e \<Rightarrow> ('s, 'e, unit) proc" where
  "checked ok e = (if ok then returnP () else failP e)"

lemma triple_on_store:
  assumes "\<And>s r w. P s \<Longrightarrow> m (sn_world s) = (r, w) \<Longrightarrow> Q r (s\<lparr>sn_world := w\<rparr>)"
  shows "triple P (on_store m) Q"
  using assms by (auto simp: triple_def on_store_def split: prod.splits)

lemma triple_ask:
  assumes "\<And>s. P s \<Longrightarrow> Q (result (answer (sn_trace s))) (s\<lparr>sn_trace := sn_trace s @ [event (answer (sn_trace s))]\<rparr>)"
  shows "triple P (ask answer event result) Q"
  using assms by (auto simp: triple_def ask_def Let_def)

lemma triple_failing_as:
  assumes "triple P m R" and "\<And>e s. R (Inl e) s \<Longrightarrow> Q (Inl (f e)) s" and "\<And>x s. R (Inr x) s \<Longrightarrow> Q (Inr x) s"
  shows "triple P (failing_as f m) Q"
  unfolding failing_as_def
  by (rule triple_tryP [OF assms(1)]) (auto simp: triple_def failP_def returnP_def assms(2,3) split: sum.splits)

lemma triple_optional:
  assumes "triple P m R" and "\<And>e s. R (Inl e) s \<Longrightarrow> Q (Inr None) s" and "\<And>x s. R (Inr x) s \<Longrightarrow> Q (Inr (Some x)) s"
  shows "triple P (optional m) Q"
  unfolding optional_def
  by (rule triple_tryP [OF assms(1)]) (auto simp: triple_def returnP_def assms(2,3) split: sum.splits)

lemma triple_checked: "(\<And>s. P s \<Longrightarrow> ok \<Longrightarrow> Q (Inr ()) s) \<Longrightarrow> (\<And>s. P s \<Longrightarrow> \<not> ok \<Longrightarrow> Q (Inl e) s) \<Longrightarrow> triple P (checked ok e) Q"
  by (auto simp: checked_def triple_def returnP_def failP_def)

section \<open>Steps that only add calls of a kind\<close>

text \<open>
  \<open>only A D m\<close>: \<open>m\<close> adds calls that satisfy \<open>A\<close> to the trace and changes the stored data by \<open>D\<close>, whatever
  it returns.
\<close>

definition only :: "('v \<Rightarrow> bool) \<Rightarrow> ('d \<Rightarrow> 'd \<Rightarrow> bool) \<Rightarrow> ('d, 'v, 'e, 'a) session_proc \<Rightarrow> bool" where
  "only A D m \<longleftrightarrow> (\<forall>s. \<exists>es. sn_trace (snd (m s)) = sn_trace s @ es \<and> list_all A es \<and> D (db (sn_world s)) (db (sn_world (snd (m s)))))"

lemma onlyE:
  assumes "only A D m" and "m s = (r, s')"
  obtains es where "sn_trace s' = sn_trace s @ es" and "list_all A es" and "D (db (sn_world s)) (db (sn_world s'))"
  using assms unfolding only_def by (metis snd_conv)

lemma only_mono:
  assumes "only A D m" and "\<And>e. A e \<Longrightarrow> B e" and "\<And>d d'. D d d' \<Longrightarrow> D' d d'"
  shows "only B D' m"
  using assms unfolding only_def by (metis list.pred_mono_strong)

context data_evolution begin

lemma only_returnP: "only A R (returnP x)"
  by (simp add: only_def returnP_def refl)

lemma only_failP: "only A R (failP e)"
  by (simp add: only_def failP_def refl)

lemma only_on_store: "keeps R m \<Longrightarrow> only A R (on_store m)"
  by (simp add: only_def on_store_def keeps_def case_prod_beta)

lemma only_ask: "(\<And>r. A (event r)) \<Longrightarrow> only A R (ask answer event result)"
  by (simp add: only_def ask_def Let_def refl)

lemma only_tryP:
  assumes "only A R m" and "\<And>r. only A R (f r)"
  shows "only A R (tryP m f)"
  unfolding only_def
proof
  fix s
  obtain q s1 where m: "m s = (q, s1)" by (cases "m s")
  obtain r s2 where f: "f q s1 = (r, s2)" by (cases "f q s1")
  from assms(1) m obtain es where es: "sn_trace s1 = sn_trace s @ es" "list_all A es" "R (db (sn_world s)) (db (sn_world s1))" by (rule onlyE)
  from assms(2) f obtain es' where es': "sn_trace s2 = sn_trace s1 @ es'" "list_all A es'" "R (db (sn_world s1)) (db (sn_world s2))" by (rule onlyE)
  have "tryP m f s = (r, s2)" using m f by (simp add: tryP_def)
  with es es' show "\<exists>es. sn_trace (snd (tryP m f s)) = sn_trace s @ es \<and> list_all A es \<and> R (db (sn_world s)) (db (sn_world (snd (tryP m f s))))"
    by (intro exI [of _ "es @ es'"]) (auto intro: trans)
qed

lemma only_bindP:
  assumes "only A R m" and "\<And>x. only A R (f x)"
  shows "only A R (bindP m f)"
proof -
  have "bindP m f = tryP m (\<lambda>r. case r of Inl e \<Rightarrow> failP e | Inr x \<Rightarrow> f x)"
    by (auto simp: bindP_def tryP_def failP_def fun_eq_iff split: prod.splits sum.splits)
  then show ?thesis using assms by (auto intro!: only_tryP only_failP split: sum.splits)
qed

lemma only_failing_as: "only A R m \<Longrightarrow> only A R (failing_as f m)"
  unfolding failing_as_def by (intro only_tryP) (auto intro: only_failP only_returnP split: sum.splits)

lemma only_optional: "only A R m \<Longrightarrow> only A R (optional m)"
  unfolding optional_def by (intro only_tryP) (auto intro: only_returnP split: sum.splits)

lemma only_checked: "only A R (checked ok e)"
  by (simp add: checked_def only_failP only_returnP)

lemma only_if: "(b \<Longrightarrow> only A R m) \<Longrightarrow> (\<not> b \<Longrightarrow> only A R m') \<Longrightarrow> only A R (if b then m else m')"
  by simp

lemma only_option: "(x = None \<Longrightarrow> only A R m) \<Longrightarrow> (\<And>y. x = Some y \<Longrightarrow> only A R (g y)) \<Longrightarrow> only A R (case x of None \<Rightarrow> m | Some y \<Rightarrow> g y)"
  by (cases x) auto

lemma only_sum: "(\<And>e. x = Inl e \<Longrightarrow> only A R (f e)) \<Longrightarrow> (\<And>y. x = Inr y \<Longrightarrow> only A R (g y)) \<Longrightarrow> only A R (case x of Inl e \<Rightarrow> f e | Inr y \<Rightarrow> g y)"
  by (cases x) auto

lemma only_reading: "(\<And>x. only A R (m x)) \<Longrightarrow> only A R (\<lambda>s. m (g s) s)"
  by (simp add: only_def)

lemma only_if_state: "only A R m \<Longrightarrow> only A R m' \<Longrightarrow> only A R (\<lambda>s. if b s then m s else m' s)"
  by (simp add: only_def)

lemmas only_intros =
  only_returnP only_failP only_failing_as only_optional only_checked only_tryP only_bindP only_if only_option only_sum

end

end
