(* ===== verification/Network_Model.thy ===== *)
theory Network_Model
  imports Storage_Model Go_Calls
begin

text \<open>
  The tables of the network component: managed domains, DNS credentials, resolver policies, sites and their
  certificates (\<open>internal/model/network.go\<close>), with their operations in
  \<open>internal/store/infrastructure_repository.go\<close>.
\<close>

section \<open>Records\<close>

record ManagedDomain =
  md_ID :: nat
  md_Hostname :: string
  md_EnvironmentID :: nat
  md_Namespace :: string
  md_CertificateName :: string
  md_TLSSecretName :: string
  md_IssuerRef :: string
  md_IssuerKind :: string
  md_CertificateOwnership :: string
  md_Description :: string
  md_Enabled :: bool
  md_CreatedAt :: int
  md_UpdatedAt :: int

record DNSCredential =
  dc_ID :: nat
  dc_Name :: string
  dc_Provider :: string
  dc_Namespace :: string
  dc_EncryptedValues :: string
  dc_SecretName :: string
  dc_Enabled :: bool
  dc_CreatedBy :: nat
  dc_CreatedAt :: int
  dc_UpdatedAt :: int
  dc_SecretConfigured :: bool
  dc_ConfiguredFields :: "string list"

record ClusterDNSPolicy =
  cp_ID :: nat
  cp_Resolvers :: "string list json"
  cp_Revision :: nat
  cp_Active :: bool
  cp_CreatedBy :: nat
  cp_CreatedAt :: int

record Cert =
  ct_ID :: nat
  ct_SiteID :: nat
  ct_Domains :: string
  ct_Provider :: string
  ct_Account :: string
  ct_CertPath :: string
  ct_KeyPath :: string
  ct_FullchainPath :: string
  ct_ValidFrom :: int
  ct_ValidTo :: int
  ct_Status :: string
  ct_Challenge :: string
  ct_LastRenew :: "int option"
  ct_CreatedAt :: int

text \<open>\<open>st_Cert\<close> is filled when a site is read.\<close>

record Site =
  si_ID :: nat
  si_ServerID :: nat
  si_Domain :: string
  si_Port :: int
  si_SSLEnabled :: bool
  si_RootPath :: string
  si_Managed :: bool
  si_NginxConfPath :: string
  si_Upstream :: string
  si_Locations :: string
  si_CertID :: "nat option"
  si_CreatedAt :: int
  si_DeletedAt :: "int option"
  si_Cert :: "Cert option"

datatype network_table = Domains | Credentials | Policies | Sites | Certs

record network_db = storage_db +
  nd_domains :: "ManagedDomain list"
  nd_credentials :: "DNSCredential list"
  nd_policies :: "ClusterDNSPolicy list"
  nd_sites :: "Site list"
  nd_certs :: "Cert list"
  nd_seq :: "network_table \<Rightarrow> nat"

type_synonym ('e, 'a) network_store_proc = "(network_db world, 'e, 'a) proc"

text \<open>An operation on the tables of the storage component, run on all tables.\<close>

definition on_storage :: "('e, 'a) storage_proc \<Rightarrow> ('e, 'a) network_store_proc" where
  "on_storage m w =
     (case m \<lparr>db = storage_db.truncate (db w), calls = calls w\<rparr> of
        (r, w') \<Rightarrow> (r, \<lparr>db = storage_db.extend (db w') (storage_db.more (db w)), calls = calls w'\<rparr>))"

definition network_id :: "network_db \<Rightarrow> network_table \<Rightarrow> nat \<Rightarrow> nat" where
  "network_id d tab i = (if i = 0 then Suc (nd_seq d tab) else i)"

definition note_network_id :: "network_table \<Rightarrow> nat \<Rightarrow> network_db \<Rightarrow> network_db" where
  "note_network_id tab i d = d\<lparr>nd_seq := (nd_seq d)(tab := max (nd_seq d tab) i)\<rparr>"

section \<open>Managed domains\<close>

text \<open>
  The columns \<open>issuer_kind\<close>, \<open>certificate_ownership\<close> and \<open>enabled\<close> have defaults, which GORM uses instead of
  the zero value when it creates a row. Host names are unique.
\<close>

definition stored_domain :: "int \<Rightarrow> network_db \<Rightarrow> ManagedDomain \<Rightarrow> ManagedDomain" where
  "stored_domain now d domain =
     domain\<lparr>md_ID := network_id d Domains (md_ID domain),
       md_IssuerKind := (if md_IssuerKind domain = [] then ''ClusterIssuer'' else md_IssuerKind domain),
       md_CertificateOwnership := (if md_CertificateOwnership domain = [] then ''managed'' else md_CertificateOwnership domain),
       md_Enabled := True, md_CreatedAt := created_at now (md_CreatedAt domain), md_UpdatedAt := created_at now (md_UpdatedAt domain)\<rparr>"

definition CreateManagedDomain :: "(nat \<Rightarrow> bool) \<Rightarrow> int \<Rightarrow> ManagedDomain \<Rightarrow> (db_error, ManagedDomain) network_store_proc" where
  "CreateManagedDomain fault now domain = db_call fault (\<lambda>d.
     let row = stored_domain now d domain in
     if list_ex (\<lambda>x. md_ID x = md_ID row \<or> md_Hostname x = md_Hostname row) (nd_domains d) then (Inl ErrConstraint, d)
     else (Inr row, note_network_id Domains (md_ID row) (d\<lparr>nd_domains := nd_domains d @ [row]\<rparr>)))"

definition ListManagedDomains :: "(nat \<Rightarrow> bool) \<Rightarrow> nat list \<Rightarrow> (db_error, ManagedDomain list) network_store_proc" where
  "ListManagedDomains fault environmentID = db_read fault (\<lambda>d.
     Inr (sort_key md_Hostname (filter (\<lambda>x. environmentID \<noteq> [] \<and> hd environmentID \<noteq> 0 \<longrightarrow> md_EnvironmentID x = hd environmentID) (nd_domains d))))"

definition ListUnassignedManagedDomains :: "(nat \<Rightarrow> bool) \<Rightarrow> (db_error, ManagedDomain list) network_store_proc" where
  "ListUnassignedManagedDomains fault = db_read fault (\<lambda>d. Inr (sort_key md_Hostname (filter (\<lambda>x. md_EnvironmentID x = 0) (nd_domains d))))"

definition ListClaimableManagedDomains :: "(nat \<Rightarrow> bool) \<Rightarrow> string \<Rightarrow> (db_error, ManagedDomain list) network_store_proc" where
  "ListClaimableManagedDomains fault namespace = db_read fault (\<lambda>d.
     Inr (sort_key md_Hostname (filter (\<lambda>x. md_EnvironmentID x = 0 \<and> md_Namespace x = namespace) (nd_domains d))))"

definition GetManagedDomain :: "(nat \<Rightarrow> bool) \<Rightarrow> nat \<Rightarrow> (db_error, ManagedDomain) network_store_proc" where
  "GetManagedDomain fault i = db_read fault (\<lambda>d. found (tbl_find md_ID i (nd_domains d)))"

definition GetManagedDomainByHostname :: "(nat \<Rightarrow> bool) \<Rightarrow> string \<Rightarrow> (db_error, ManagedDomain) network_store_proc" where
  "GetManagedDomainByHostname fault hostname = db_read fault (\<lambda>d. found (find (\<lambda>x. md_Hostname x = hostname) (sort_key md_ID (nd_domains d))))"

definition UpdateManagedDomain :: "(nat \<Rightarrow> bool) \<Rightarrow> int \<Rightarrow> ManagedDomain \<Rightarrow> (db_error, ManagedDomain) network_store_proc" where
  "UpdateManagedDomain fault now domain =
     (if md_ID domain = 0 then CreateManagedDomain fault now domain
      else db_call fault (\<lambda>d.
        let row = domain\<lparr>md_UpdatedAt := now\<rparr> in
        if list_ex (\<lambda>x. md_ID x \<noteq> md_ID row \<and> md_Hostname x = md_Hostname row) (nd_domains d) then (Inl ErrConstraint, d)
        else (Inr row, note_network_id Domains (md_ID row) (d\<lparr>nd_domains := tbl_save md_ID row (nd_domains d)\<rparr>))))"

definition DeleteManagedDomain :: "(nat \<Rightarrow> bool) \<Rightarrow> nat \<Rightarrow> (db_error, unit) network_store_proc" where
  "DeleteManagedDomain fault i = db_write fault (\<lambda>d. d\<lparr>nd_domains := filter (\<lambda>x. md_ID x \<noteq> i) (nd_domains d)\<rparr>)"

section \<open>DNS credentials\<close>

text \<open>Names and names of Secrets are unique; \<open>dc_SecretConfigured\<close> is no column and is computed on reading.\<close>

definition seen_credential :: "DNSCredential \<Rightarrow> DNSCredential" where
  "seen_credential c = c\<lparr>dc_SecretConfigured := dc_EncryptedValues c \<noteq> [], dc_ConfiguredFields := []\<rparr>"

definition credential_clash :: "network_db \<Rightarrow> DNSCredential \<Rightarrow> bool" where
  "credential_clash d c \<longleftrightarrow> list_ex (\<lambda>x. dc_ID x \<noteq> dc_ID c \<and> (dc_Name x = dc_Name c \<or> dc_SecretName x = dc_SecretName c)) (nd_credentials d)"

definition CreateDNSCredential :: "(nat \<Rightarrow> bool) \<Rightarrow> int \<Rightarrow> DNSCredential \<Rightarrow> (db_error, DNSCredential) network_store_proc" where
  "CreateDNSCredential fault now credential = db_call fault (\<lambda>d.
     let row = credential\<lparr>dc_ID := network_id d Credentials (dc_ID credential), dc_Enabled := True,
       dc_CreatedAt := created_at now (dc_CreatedAt credential), dc_UpdatedAt := created_at now (dc_UpdatedAt credential)\<rparr> in
     if list_ex (\<lambda>x. dc_ID x = dc_ID row) (nd_credentials d) \<or> credential_clash d row then (Inl ErrConstraint, d)
     else (Inr row, note_network_id Credentials (dc_ID row) (d\<lparr>nd_credentials := nd_credentials d @ [row]\<rparr>)))"

definition ListDNSCredentials :: "(nat \<Rightarrow> bool) \<Rightarrow> (db_error, DNSCredential list) network_store_proc" where
  "ListDNSCredentials fault = db_read fault (\<lambda>d. Inr (map seen_credential (rev (sort_key dc_CreatedAt (nd_credentials d)))))"

definition GetDNSCredential :: "(nat \<Rightarrow> bool) \<Rightarrow> nat \<Rightarrow> (db_error, DNSCredential) network_store_proc" where
  "GetDNSCredential fault i = db_read fault (\<lambda>d. found (map_option seen_credential (tbl_find dc_ID i (nd_credentials d))))"

definition UpdateDNSCredential :: "(nat \<Rightarrow> bool) \<Rightarrow> int \<Rightarrow> DNSCredential \<Rightarrow> (db_error, DNSCredential) network_store_proc" where
  "UpdateDNSCredential fault now credential =
     (if dc_ID credential = 0 then CreateDNSCredential fault now credential
      else db_call fault (\<lambda>d.
        let row = credential\<lparr>dc_UpdatedAt := now\<rparr> in
        if credential_clash d row then (Inl ErrConstraint, d)
        else (Inr row, note_network_id Credentials (dc_ID row) (d\<lparr>nd_credentials := tbl_save dc_ID row (nd_credentials d)\<rparr>))))"

definition DeleteDNSCredential :: "(nat \<Rightarrow> bool) \<Rightarrow> nat \<Rightarrow> (db_error, unit) network_store_proc" where
  "DeleteDNSCredential fault i = db_write fault (\<lambda>d. d\<lparr>nd_credentials := filter (\<lambda>x. dc_ID x \<noteq> i) (nd_credentials d)\<rparr>)"

section \<open>Resolver policies\<close>

definition by_revision :: "ClusterDNSPolicy list \<Rightarrow> ClusterDNSPolicy list" where
  "by_revision ps = rev (sort_key cp_Revision ps)"

definition GetActiveClusterDNSPolicy :: "(nat \<Rightarrow> bool) \<Rightarrow> (db_error, ClusterDNSPolicy) network_store_proc" where
  "GetActiveClusterDNSPolicy fault = db_read fault (\<lambda>d. found (find cp_Active (by_revision (nd_policies d))))"

definition ListClusterDNSPolicies :: "(nat \<Rightarrow> bool) \<Rightarrow> int \<Rightarrow> (db_error, ClusterDNSPolicy list) network_store_proc" where
  "ListClusterDNSPolicies fault limit = db_read fault (\<lambda>d.
     Inr (take (nat (if limit < 1 \<or> limit > 50 then 20 else limit)) (by_revision (nd_policies d))))"

text \<open>Revisions are unique.\<close>

definition insert_policy :: "int \<Rightarrow> ClusterDNSPolicy \<Rightarrow> network_db \<Rightarrow> (db_error + ClusterDNSPolicy) \<times> network_db" where
  "insert_policy now policy d =
     (let row = policy\<lparr>cp_ID := network_id d Policies (cp_ID policy), cp_CreatedAt := created_at now (cp_CreatedAt policy)\<rparr> in
      if list_ex (\<lambda>x. cp_ID x = cp_ID row \<or> cp_Revision x = cp_Revision row) (nd_policies d) then (Inl ErrConstraint, d)
      else (Inr row, note_network_id Policies (cp_ID row) (d\<lparr>nd_policies := nd_policies d @ [row]\<rparr>)))"

definition CreateClusterDNSPolicy :: "(nat \<Rightarrow> bool) \<Rightarrow> int \<Rightarrow> ClusterDNSPolicy \<Rightarrow> (db_error, ClusterDNSPolicy) network_store_proc" where
  "CreateClusterDNSPolicy fault now policy =
     transaction fault id
       (bindP (db_read fault (\<lambda>d. Inr (fold max (map cp_Revision (nd_policies d)) 0))) (\<lambda>maxRevision.
        bindP (db_write fault (\<lambda>d. d\<lparr>nd_policies := map (\<lambda>p. if cp_Active p then p\<lparr>cp_Active := False\<rparr> else p) (nd_policies d)\<rparr>)) (\<lambda>_.
          db_call fault (insert_policy now (policy\<lparr>cp_Revision := (maxRevision + 1) mod 2 ^ 64, cp_Active := True\<rparr>)))))"

section \<open>Sites and certificates\<close>

datatype site_error = SiteDB db_error | SiteExists

definition live_sites :: "network_db \<Rightarrow> Site list" where
  "live_sites d = filter (\<lambda>s. si_DeletedAt s = None) (nd_sites d)"

definition with_cert :: "network_db \<Rightarrow> Site \<Rightarrow> Site" where
  "with_cert d s = s\<lparr>si_Cert := (case si_CertID s of None \<Rightarrow> None | Some i \<Rightarrow> tbl_find ct_ID i (nd_certs d))\<rparr>"

text \<open>The error of the count is dropped: then the count is 0.\<close>

definition CreateSite :: "(nat \<Rightarrow> bool) \<Rightarrow> int \<Rightarrow> Site \<Rightarrow> (site_error, Site) network_store_proc" where
  "CreateSite fault now site =
     tryP (db_read fault (\<lambda>d. Inr (length (filter (\<lambda>s. si_ServerID s = si_ServerID site \<and> si_Domain s = si_Domain site) (live_sites d))))) (\<lambda>r.
       if (case r of Inl _ \<Rightarrow> 0 | Inr n \<Rightarrow> n) > (0 :: nat) then failP SiteExists
       else failing_as SiteDB (db_call fault (\<lambda>d.
         let row = site\<lparr>si_ID := network_id d Sites (si_ID site), si_Port := (if si_Port site = 0 then 80 else si_Port site),
               si_Managed := True, si_CreatedAt := created_at now (si_CreatedAt site)\<rparr> in
         if list_ex (\<lambda>x. si_ID x = si_ID row) (nd_sites d) then (Inl ErrConstraint, d)
         else (Inr row, note_network_id Sites (si_ID row) (d\<lparr>nd_sites := nd_sites d @ [row]\<rparr>)))))"

definition GetSite :: "(nat \<Rightarrow> bool) \<Rightarrow> nat \<Rightarrow> (db_error, Site) network_store_proc" where
  "GetSite fault i = db_read fault (\<lambda>d. found (map_option (with_cert d) (tbl_find si_ID i (live_sites d))))"

definition ListSites :: "(nat \<Rightarrow> bool) \<Rightarrow> (db_error, Site list) network_store_proc" where
  "ListSites fault = db_read fault (\<lambda>d. Inr (map (with_cert d) (rev (sort_key si_CreatedAt (live_sites d)))))"

definition ListSitesByServer :: "(nat \<Rightarrow> bool) \<Rightarrow> nat \<Rightarrow> (db_error, Site list) network_store_proc" where
  "ListSitesByServer fault serverID = db_read fault (\<lambda>d.
     Inr (map (with_cert d) (rev (sort_key si_CreatedAt (filter (\<lambda>s. si_ServerID s = serverID) (live_sites d))))))"

definition DeleteSite :: "(nat \<Rightarrow> bool) \<Rightarrow> int \<Rightarrow> nat \<Rightarrow> (db_error, unit) network_store_proc" where
  "DeleteSite fault now i =
     transaction fault id
       (bindP (db_write fault (\<lambda>d. d\<lparr>nd_certs := filter (\<lambda>c. ct_SiteID c \<noteq> i) (nd_certs d)\<rparr>)) (\<lambda>_.
          db_write fault (\<lambda>d. d\<lparr>nd_sites := map (\<lambda>s. if si_DeletedAt s = None \<and> si_ID s = i then s\<lparr>si_DeletedAt := Some now\<rparr> else s) (nd_sites d)\<rparr>)))"

definition GetCert :: "(nat \<Rightarrow> bool) \<Rightarrow> nat \<Rightarrow> (db_error, Cert) network_store_proc" where
  "GetCert fault i = db_read fault (\<lambda>d. found (tbl_find ct_ID i (nd_certs d)))"

definition GetCertBySite :: "(nat \<Rightarrow> bool) \<Rightarrow> nat \<Rightarrow> (db_error, Cert) network_store_proc" where
  "GetCertBySite fault siteID = db_read fault (\<lambda>d. found (find (\<lambda>c. ct_SiteID c = siteID) (sort_key ct_ID (nd_certs d))))"

text \<open>Certificates that are issued and expire within the given number of days.\<close>

definition ListExpiringCerts :: "(nat \<Rightarrow> bool) \<Rightarrow> int \<Rightarrow> int \<Rightarrow> (db_error, Cert list) network_store_proc" where
  "ListExpiringCerts fault now daysBefore = db_read fault (\<lambda>d.
     Inr (filter (\<lambda>c. ct_Status c = ''issued'' \<and> ct_ValidTo c > now \<and> ct_ValidTo c \<le> now + daysBefore * 24 * 3600 * 10 ^ 9) (nd_certs d)))"

definition DeleteCert :: "(nat \<Rightarrow> bool) \<Rightarrow> nat \<Rightarrow> (db_error, unit) network_store_proc" where
  "DeleteCert fault i = db_write fault (\<lambda>d. d\<lparr>nd_certs := filter (\<lambda>c. ct_ID c \<noteq> i) (nd_certs d)\<rparr>)"

end
