(* ===== verification/Network_Objects.thy ===== *)
theory Network_Objects
  imports Network_Model
begin

text \<open>
  The objects of cert-manager as the code builds and reads them (\<open>internal/k8s/certificate_resources.go\<close>) and
  the DNS providers (\<open>internal/k8s/dns.go\<close>). An object is a tree of fields, as
  \<open>unstructured.Unstructured\<close> holds it.
\<close>

section \<open>Trees of fields\<close>

datatype tree = Null | Flag bool | Number int | Str string | Items "tree list" | Obj "(string \<times> tree) list"

text \<open>\<open>value[key]\<close> of a map, and the nested lookups; a path that leaves the maps finds nothing.\<close>

fun field :: "string \<Rightarrow> tree \<Rightarrow> tree option" where
  "field key (Obj m) = map_of m key"
| "field key _ = None"

fun nested :: "string list \<Rightarrow> tree \<Rightarrow> tree option" where
  "nested [] t = Some t"
| "nested (key # path) t = (case field key t of None \<Rightarrow> None | Some u \<Rightarrow> nested path u)"

definition NestedString :: "string list \<Rightarrow> tree \<Rightarrow> string option" where
  "NestedString path t = (case nested path t of Some (Str s) \<Rightarrow> Some s | _ \<Rightarrow> None)"

definition NestedSlice :: "string list \<Rightarrow> tree \<Rightarrow> tree list option" where
  "NestedSlice path t = (case nested path t of Some (Items xs) \<Rightarrow> Some xs | _ \<Rightarrow> None)"

definition NestedMap :: "string list \<Rightarrow> tree \<Rightarrow> (string \<times> tree) list option" where
  "NestedMap path t = (case nested path t of Some (Obj m) \<Rightarrow> Some m | _ \<Rightarrow> None)"

definition or_empty :: "string option \<Rightarrow> string" where
  "or_empty x = (case x of None \<Rightarrow> [] | Some s \<Rightarrow> s)"

definition is_obj :: "tree \<Rightarrow> bool" where
  "is_obj t = (case t of Obj _ \<Rightarrow> True | _ \<Rightarrow> False)"

text \<open>\<open>condition["type"] == text\<close>.\<close>

definition field_is :: "string \<Rightarrow> string \<Rightarrow> tree \<Rightarrow> bool" where
  "field_is key s t \<longleftrightarrow> field key t = Some (Str s)"

definition object_name :: "tree \<Rightarrow> string" where
  "object_name t = or_empty (NestedString [''metadata'', ''name''] t)"

definition object_namespace :: "tree \<Rightarrow> string" where
  "object_namespace t = or_empty (NestedString [''metadata'', ''namespace''] t)"

definition resource_version :: "tree \<Rightarrow> string" where
  "resource_version t = or_empty (NestedString [''metadata'', ''resourceVersion''] t)"

text \<open>\<open>SetResourceVersion\<close>: an empty version removes the field.\<close>

fun set_field :: "string \<Rightarrow> tree \<Rightarrow> tree \<Rightarrow> tree" where
  "set_field key x (Obj m) = Obj (map_put key x m)"
| "set_field key x t = t"

definition with_version :: "string \<Rightarrow> tree \<Rightarrow> tree" where
  "with_version version t =
     (if version = [] then t
      else case field ''metadata'' t of
        Some meta \<Rightarrow> set_field ''metadata'' (set_field ''resourceVersion'' (Str version) meta) t
      | None \<Rightarrow> set_field ''metadata'' (Obj [(''resourceVersion'', Str version)]) t)"

text \<open>The kind and name of each owner.\<close>

definition owner_references :: "tree \<Rightarrow> (string \<times> string) list" where
  "owner_references t = (case NestedSlice [''metadata'', ''ownerReferences''] t of
     None \<Rightarrow> []
   | Some refs \<Rightarrow> map (\<lambda>r. (or_empty (NestedString [''kind''] r), or_empty (NestedString [''name''] r))) (filter is_obj refs))"

section \<open>DNS providers\<close>

record DNSProviderField =
  pf_Key :: string
  pf_Secret :: bool
  pf_Required :: bool

record DNSProviderInfo =
  pi_ID :: string
  pi_Name :: string
  pi_Fields :: "DNSProviderField list"
  pi_Webhook :: bool

record dnsWebhookChart =
  wc_ReleaseName :: string
  wc_Repository :: string
  wc_Chart :: string
  wc_Version :: string
  wc_Values :: string

datatype dns_error = ProviderUnsupported string | AliDNSRequired string

definition aliDNS_Info :: DNSProviderInfo where
  "aliDNS_Info = \<lparr>pi_ID = ''alidns'', pi_Name = utf8 ''e998bfe9878ce4ba9120444e53'',
     pi_Fields = [\<lparr>pf_Key = ''access_key_id'', pf_Secret = False, pf_Required = True\<rparr>,
       \<lparr>pf_Key = ''access_key_secret'', pf_Secret = True, pf_Required = True\<rparr>], pi_Webhook = True\<rparr>"

definition value_of :: "string gomap \<Rightarrow> string \<Rightarrow> string" where
  "value_of m key = or_empty (map_of m key)"

definition aliDNS_ValidateValues :: "string gomap \<Rightarrow> dns_error option" where
  "aliDNS_ValidateValues vs = map_option AliDNSRequired (find (\<lambda>key. TrimSpace (value_of vs key) = []) [''access_key_id'', ''access_key_secret''])"

definition aliDNS_SecretData :: "string gomap \<Rightarrow> string gomap" where
  "aliDNS_SecretData vs = [(''access-key-id'', value_of vs ''access_key_id''), (''access-key-secret'', value_of vs ''access_key_secret'')]"

definition aliDNS_Solver :: "string \<Rightarrow> tree" where
  "aliDNS_Solver secretName =
     Obj [(''dns01'', Obj [(''webhook'', Obj [(''groupName'', Str ''acme.cylism.io''), (''solverName'', Str ''alidns''),
       (''config'', Obj [(''region'', Str ''cn-hangzhou''),
         (''accessKeyIdRef'', Obj [(''name'', Str secretName), (''key'', Str ''access-key-id'')]),
         (''accessKeySecretRef'', Obj [(''name'', Str secretName), (''key'', Str ''access-key-secret'')])])])])]"

definition aliDNS_CredentialSecretName :: "tree \<Rightarrow> string" where
  "aliDNS_CredentialSecretName solver = or_empty (NestedString [''dns01'', ''webhook'', ''config'', ''accessKeyIdRef'', ''name''] solver)"

definition aliDNS_WebhookChart :: dnsWebhookChart where
  "aliDNS_WebhookChart = \<lparr>wc_ReleaseName = ''cylism-alidns-webhook'', wc_Repository = ''https://wjiec.github.io/alidns-webhook'',
     wc_Chart = ''alidns-webhook'', wc_Version = ''1.0.3'', wc_Values = ''groupName: acme.cylism.io'' @ [CHR 0x0A]\<rparr>"

text \<open>The only registered provider is \<open>alidns\<close>.\<close>

definition GetDNSProvider :: "string \<Rightarrow> bool" where
  "GetDNSProvider i \<longleftrightarrow> ToLower (TrimSpace i) = ''alidns''"

definition ListDNSProviders :: "DNSProviderInfo list" where
  "ListDNSProviders = [aliDNS_Info]"

section \<open>Issuers\<close>

record IssuerInfo =
  ii_Name :: string
  ii_Namespace :: string
  ii_Kind :: string
  ii_Ready :: bool
  ii_Reason :: string
  ii_Mode :: string
  ii_Email :: string
  ii_DNSProvider :: string
  ii_CredentialSecretName :: string

record IssuerRequest =
  ir_Name :: string
  ir_Namespace :: string
  ir_Kind :: string
  ir_Mode :: string
  ir_Email :: string
  ir_Server :: string
  ir_IngressClass :: string
  ir_DNSProvider :: string
  ir_CredentialSecretName :: string

datatype issuer_error = IssuerKindInvalid | IssuerNameMissing | IssuerEmailMissing | IssuerProviderUnsupported string | IssuerCredentialMissing | IssuerModeInvalid

text \<open>The first solver with a \<open>dns01\<close> object decides; a solver of another provider leaves provider and Secret empty.\<close>

definition solver_info :: "tree list \<Rightarrow> string \<times> string \<times> string" where
  "solver_info solvers =
     (case find (\<lambda>s. case field ''dns01'' s of Some (Obj _) \<Rightarrow> True | _ \<Rightarrow> False) solvers of
        None \<Rightarrow> (''acme_http01'', [], [])
      | Some s \<Rightarrow>
          if or_empty (NestedString [''dns01'', ''webhook'', ''solverName''] s) = ''alidns''
          then (''acme_dns01'', ''alidns'', aliDNS_CredentialSecretName s) else (''acme_dns01'', [], []))"

text \<open>Every condition of the type is visited, so the last one counts.\<close>

definition last_condition :: "string \<Rightarrow> tree \<Rightarrow> tree option" where
  "last_condition kind t = (case NestedSlice [''status'', ''conditions''] t of
     None \<Rightarrow> None | Some conditions \<Rightarrow> find (field_is ''type'' kind) (rev conditions))"

definition issuerToInfo :: "tree \<Rightarrow> string \<Rightarrow> IssuerInfo" where
  "issuerToInfo item kind =
     (let (mode, provider, secret) =
        (if NestedMap [''spec'', ''selfSigned''] item \<noteq> None then (''self_signed'', [], [])
         else case NestedSlice [''spec'', ''acme'', ''solvers''] item of None \<Rightarrow> ([], [], []) | Some solvers \<Rightarrow> solver_info solvers);
      ready = last_condition ''Ready'' item in
      \<lparr>ii_Name = object_name item, ii_Namespace = object_namespace item, ii_Kind = kind,
       ii_Ready = (case ready of None \<Rightarrow> False | Some c \<Rightarrow> field_is ''status'' ''True'' c),
       ii_Reason = (case ready of None \<Rightarrow> [] | Some c \<Rightarrow> or_empty (NestedString [''reason''] c)),
       ii_Mode = mode, ii_Email = or_empty (NestedString [''spec'', ''acme'', ''email''] item),
       ii_DNSProvider = provider, ii_CredentialSecretName = secret\<rparr>)"

definition issuer_metadata :: "IssuerRequest \<Rightarrow> tree" where
  "issuer_metadata r = Obj ((''name'', Str (ir_Name r)) # (if ir_Kind r = ''Issuer'' then [(''namespace'', Str (ir_Namespace r))] else []))"

definition default_text :: "string \<Rightarrow> string \<Rightarrow> string" where
  "default_text fallback s = (if TrimSpace s = [] then fallback else TrimSpace s)"

definition acme_spec :: "IssuerRequest \<Rightarrow> tree \<Rightarrow> tree" where
  "acme_spec r solver =
     Obj [(''acme'', Obj [(''email'', Str (TrimSpace (ir_Email r))),
       (''server'', Str (default_text ''https://acme-v02.api.letsencrypt.org/directory'' (ir_Server r))),
       (''privateKeySecretRef'', Obj [(''name'', Str (ir_Name r @ ''-acme-account''))]), (''solvers'', Items [solver])])]"

definition issuer_spec :: "IssuerRequest \<Rightarrow> issuer_error + tree" where
  "issuer_spec r =
     (if ir_Mode r = ''self_signed'' then Inr (Obj [(''selfSigned'', Obj [])])
      else if ir_Mode r = ''acme_http01'' \<or> ir_Mode r = ''acme_dns01'' then
        if TrimSpace (ir_Email r) = [] then Inl IssuerEmailMissing
        else if ir_Mode r = ''acme_http01'' then
          Inr (acme_spec r (Obj [(''http01'', Obj [(''ingress'', Obj [(''ingressClassName'', Str (default_text ''traefik'' (ir_IngressClass r)))])])]))
        else if \<not> GetDNSProvider (ir_DNSProvider r) then Inl (IssuerProviderUnsupported (ir_DNSProvider r))
        else if TrimSpace (ir_CredentialSecretName r) = [] then Inl IssuerCredentialMissing
        else Inr (acme_spec r (aliDNS_Solver (ir_CredentialSecretName r)))
      else Inl IssuerModeInvalid)"

definition issuerObject :: "IssuerRequest \<Rightarrow> issuer_error + tree" where
  "issuerObject r = map_sum id (\<lambda>spec. Obj [(''apiVersion'', Str ''cert-manager.io/v1''), (''kind'', Str (ir_Kind r)), (''metadata'', issuer_metadata r), (''spec'', spec)]) (issuer_spec r)"

section \<open>Certificates\<close>

record CertInfo =
  cf_Name :: string
  cf_Namespace :: string
  cf_Domains :: "string list"
  cf_Status :: string
  cf_ExpiryDate :: string
  cf_CreatedAt :: string
  cf_Issuer :: string
  cf_IssuerKind :: string
  cf_SecretName :: string
  cf_RenewalTime :: string
  cf_Reason :: string

record CreateCertificateRequest =
  cr_Name :: string
  cr_Namespace :: string
  cr_Domains :: "string list"
  cr_IssuerRef :: string
  cr_IssuerKind :: string
  cr_SecretName :: string

definition certificateObject :: "CreateCertificateRequest \<Rightarrow> tree" where
  "certificateObject r =
     Obj [(''apiVersion'', Str ''cert-manager.io/v1''), (''kind'', Str ''Certificate''),
       (''metadata'', Obj [(''name'', Str (cr_Name r)), (''namespace'', Str (cr_Namespace r))]),
       (''spec'', Obj [(''secretName'', Str (if cr_SecretName r = [] then cr_Name r @ ''-tls'' else cr_SecretName r)),
         (''dnsNames'', Items (map Str (cr_Domains r))),
         (''issuerRef'', Obj [(''name'', Str (cr_IssuerRef r)), (''kind'', Str (if cr_IssuerKind r = [] then ''ClusterIssuer'' else cr_IssuerKind r))])])]"

definition certificateFailureReason :: "string \<Rightarrow> bool" where
  "certificateFailureReason reason \<longleftrightarrow> ToLower (TrimSpace reason) \<in> set [''failed'', ''denied'', ''invalidrequest'', ''requestfailed'']"

text \<open>
  One pass over the conditions: status and reason after a \<open>Ready\<close> condition. A condition that is neither
  true nor a final failure keeps the status.
\<close>

definition ready_step :: "tree \<Rightarrow> string \<times> string \<Rightarrow> string \<times> string" where
  "ready_step c sr =
     (if \<not> field_is ''type'' ''Ready'' c then sr
      else let reason = (case field ''reason'' c of Some (Str x) \<Rightarrow> x | _ \<Rightarrow> snd sr) in
        (if field_is ''status'' ''True'' c then ''Ready''
         else if field_is ''status'' ''False'' c \<and> certificateFailureReason reason then ''Failed'' else fst sr, reason))"

text \<open>\<open>sprint\<close> is \<open>fmt.Sprintf("%v")\<close> of a value that is no text, \<open>created\<close> writes the time of creation.\<close>

definition show_item :: "(tree \<Rightarrow> string) \<Rightarrow> tree \<Rightarrow> string" where
  "show_item sprint t = (case t of Str s \<Rightarrow> s | _ \<Rightarrow> sprint t)"

definition certToInfo :: "(tree \<Rightarrow> string) \<Rightarrow> (tree \<Rightarrow> string) \<Rightarrow> tree \<Rightarrow> CertInfo" where
  "certToInfo sprint created item =
     (let spec = (case field ''spec'' item of Some (Obj m) \<Rightarrow> Some (Obj m) | _ \<Rightarrow> None);
          status = (case field ''status'' item of Some (Obj m) \<Rightarrow> Some (Obj m) | _ \<Rightarrow> None);
          nested_text = (\<lambda>path t. case t of None \<Rightarrow> [] | Some u \<Rightarrow> or_empty (NestedString path u));
          (st, reason) = (case status of None \<Rightarrow> ([], [])
             | Some u \<Rightarrow> fold ready_step (case field ''conditions'' u of Some (Items cs) \<Rightarrow> cs | _ \<Rightarrow> []) (''Issuing'', []))
      in \<lparr>cf_Name = object_name item, cf_Namespace = object_namespace item,
          cf_Domains = (case spec of None \<Rightarrow> [] | Some u \<Rightarrow> (case field ''dnsNames'' u of Some (Items ds) \<Rightarrow> map (show_item sprint) ds | _ \<Rightarrow> [])),
          cf_Status = st, cf_ExpiryDate = nested_text [''notAfter''] status, cf_CreatedAt = created item,
          cf_Issuer = nested_text [''issuerRef'', ''name''] spec, cf_IssuerKind = nested_text [''issuerRef'', ''kind''] spec,
          cf_SecretName = nested_text [''secretName''] spec, cf_RenewalTime = nested_text [''renewalTime''] status, cf_Reason = reason\<rparr>)"

section \<open>Operations of a certificate\<close>

record CertificateOperation =
  op_Kind :: string
  op_Name :: string
  op_Namespace :: string
  op_Status :: string
  op_Reason :: string
  op_Domain :: string
  op_Type :: string
  op_CreatedAt :: string

definition ownedByAny :: "tree \<Rightarrow> string \<Rightarrow> string list \<Rightarrow> bool" where
  "ownedByAny item kind names = list_ex (\<lambda>(k, n). k = kind \<and> n \<in> set names) (owner_references item)"

definition ownedBy :: "tree \<Rightarrow> string \<Rightarrow> string \<Rightarrow> bool" where
  "ownedBy item kind name = ownedByAny item kind [name]"

definition operation_step :: "tree \<Rightarrow> string \<times> string \<Rightarrow> string \<times> string" where
  "operation_step c sr =
     (if \<not> field_is ''type'' ''Ready'' c then sr
      else (if field_is ''status'' ''True'' c then ''Ready'' else if field_is ''status'' ''False'' c then ''Failed'' else fst sr,
            case field ''reason'' c of Some (Str x) \<Rightarrow> x | _ \<Rightarrow> snd sr))"

definition operationToInfo :: "(tree \<Rightarrow> string) \<Rightarrow> tree \<Rightarrow> string \<Rightarrow> CertificateOperation" where
  "operationToInfo created item kind =
     (let state = or_empty (NestedString [''status'', ''state''] item);
          (st, reason) = fold operation_step (case NestedSlice [''status'', ''conditions''] item of None \<Rightarrow> [] | Some cs \<Rightarrow> cs)
            (if state \<noteq> [] then state else ''Pending'', or_empty (NestedString [''status'', ''reason''] item))
      in \<lparr>op_Kind = kind, op_Name = object_name item, op_Namespace = object_namespace item, op_Status = st, op_Reason = reason,
          op_Domain = (if kind = ''Challenge'' then or_empty (NestedString [''spec'', ''dnsName''] item) else []),
          op_Type = (if kind = ''Challenge'' then or_empty (NestedString [''spec'', ''type''] item) else []), op_CreatedAt = created item\<rparr>)"

text \<open>The requests of a certificate, the orders of those requests and the challenges of those orders.\<close>

definition operations_of :: "(tree \<Rightarrow> string) \<Rightarrow> string \<Rightarrow> tree list \<Rightarrow> tree list \<Rightarrow> tree list \<Rightarrow> CertificateOperation list" where
  "operations_of created certificateName requests orders challenges =
     (let rs = filter (\<lambda>i. ownedBy i ''Certificate'' certificateName) requests;
          os = filter (\<lambda>i. ownedByAny i ''CertificateRequest'' (map object_name rs)) orders;
          cs = filter (\<lambda>i. ownedByAny i ''Order'' (map object_name os)) challenges
      in map (\<lambda>i. operationToInfo created i ''CertificateRequest'') rs @ map (\<lambda>i. operationToInfo created i ''Order'') os @
         map (\<lambda>i. operationToInfo created i ''Challenge'') cs)"

end
