(* ===== verification/Network_Cluster.thy ===== *)
theory Network_Cluster
  imports Network_Objects
begin

text \<open>
  The Kubernetes calls of the network component: \<open>internal/k8s/certificate_resources.go\<close>,
  \<open>cert_manager_component.go\<close> and the Secrets of \<open>dns.go\<close>. The API server answers each call from the calls before it.
\<close>

section \<open>The API server\<close>

datatype kube_error = KNotFound | KExists | KForbidden | KFailed string

datatype gvr = Certificates | Issuers | ClusterIssuers | CertificateRequests | Orders | Challenges | HelmCharts

record Secret =
  se_Name :: string
  se_Namespace :: string
  se_Labels :: "string gomap"
  se_StringData :: "string gomap"

datatype network_event =
    NGet gvr string string
  | NList gvr string
  | NCreate gvr string tree
  | NUpdate gvr string tree
  | NDelete gvr string string
  | NGetSecret string string | NCreateSecret Secret | NUpdateSecret Secret | NDeleteSecret string string
  | NGetNamespace string | NGetCRD string | NGetDeployment string string

record network_api =
  na_get :: "network_event list \<Rightarrow> gvr \<Rightarrow> string \<Rightarrow> string \<Rightarrow> kube_error + tree"
  na_list :: "network_event list \<Rightarrow> gvr \<Rightarrow> string \<Rightarrow> kube_error + tree list"
  na_create :: "network_event list \<Rightarrow> gvr \<Rightarrow> string \<Rightarrow> tree \<Rightarrow> kube_error + tree"
  na_update :: "network_event list \<Rightarrow> gvr \<Rightarrow> string \<Rightarrow> tree \<Rightarrow> kube_error + tree"
  na_delete :: "network_event list \<Rightarrow> gvr \<Rightarrow> string \<Rightarrow> string \<Rightarrow> kube_error option"
  na_get_secret :: "network_event list \<Rightarrow> string \<Rightarrow> string \<Rightarrow> kube_error + Secret"
  na_create_secret :: "network_event list \<Rightarrow> Secret \<Rightarrow> kube_error option"
  na_update_secret :: "network_event list \<Rightarrow> Secret \<Rightarrow> kube_error option"
  na_delete_secret :: "network_event list \<Rightarrow> string \<Rightarrow> string \<Rightarrow> kube_error option"
  na_get_namespace :: "network_event list \<Rightarrow> string \<Rightarrow> kube_error option"
  na_get_crd :: "network_event list \<Rightarrow> string \<Rightarrow> kube_error option"
  na_available_replicas :: "network_event list \<Rightarrow> string \<Rightarrow> string \<Rightarrow> kube_error + int"

text \<open>
  The surroundings: database failures, the clock at each database call, the API server, whether the context of
  the request is done, whether the client sets are there, and the texts of values, times and errors.
\<close>

datatype network_error =
    Kube kube_error | KubeCall string kube_error | ContextDone | DynamicClientMissing | ClientMissing
  | DNSRefused dns_error | IssuerRefused issuer_error
  | StoreMissing | CertAdapterMissing | DNSAdapterMissing | CredentialStoreMissing | IngressAdapterMissing | StandardIngressMissing | ServiceMissing
  | EnvironmentIDRequired | EnvironmentUnknown | NamespaceConflicted | NamespaceUnchecked
  | HostnameInvalid | EnvironmentNotChosen | IssuerNotChosen | DomainBound
  | NamespaceEmpty | CheckerMissing | NamespaceCheckFailed network_error | NamespaceMissing string | IssuersUnreadable network_error | IssuerNotReady string
  | DomainReferenced | CredentialIncomplete | SecretNameMissing | NetDB db_error
  | ProviderState string | ChartFailed string kube_error | InstallIncomplete | InstallerMissing
  | IngressFieldsMissing | IngressNameMissing | RouteNameMissing

record network_env =
  ne_fault :: "nat \<Rightarrow> bool"
  ne_now :: "nat \<Rightarrow> int"
  ne_api :: network_api
  ne_ctx_done :: "network_event list \<Rightarrow> bool"
  ne_clientset :: bool
  ne_dynamic :: bool
  ne_sprint :: "tree \<Rightarrow> string"
  ne_created :: "tree \<Rightarrow> string"
  ne_text :: "network_error \<Rightarrow> string"

type_synonym network_state = "(network_db, network_event) session"
type_synonym ('e, 'a) network_proc = "(network_db, network_event, 'e, 'a) session_proc"

definition network_clock :: "network_env \<Rightarrow> network_state \<Rightarrow> int" where
  "network_clock env s = ne_now env (calls (sn_world s))"

definition of_error :: "('x \<Rightarrow> 'e) \<Rightarrow> 'x option \<Rightarrow> 'e + unit" where
  "of_error f x = (case x of None \<Rightarrow> Inr () | Some e \<Rightarrow> Inl (f e))"

text \<open>\<open>ctx.Err()\<close> and \<open>c.dynamicClient()\<close>, which precede most calls.\<close>

definition live_client :: "network_env \<Rightarrow> (network_error, unit) network_proc" where
  "live_client env s = bindP (checked (\<not> ne_ctx_done env (sn_trace s)) ContextDone) (\<lambda>_. checked (ne_dynamic env) DynamicClientMissing) s"

definition kube_get :: "network_env \<Rightarrow> gvr \<Rightarrow> string \<Rightarrow> string \<Rightarrow> (kube_error, tree) network_proc" where
  "kube_get env r ns name = ask (\<lambda>t. na_get (ne_api env) t r ns name) (\<lambda>_. NGet r ns name) id"

definition kube_list :: "network_env \<Rightarrow> gvr \<Rightarrow> string \<Rightarrow> (kube_error, tree list) network_proc" where
  "kube_list env r ns = ask (\<lambda>t. na_list (ne_api env) t r ns) (\<lambda>_. NList r ns) id"

definition kube_create :: "network_env \<Rightarrow> gvr \<Rightarrow> string \<Rightarrow> tree \<Rightarrow> (kube_error, tree) network_proc" where
  "kube_create env r ns x = ask (\<lambda>t. na_create (ne_api env) t r ns x) (\<lambda>_. NCreate r ns x) id"

definition kube_update :: "network_env \<Rightarrow> gvr \<Rightarrow> string \<Rightarrow> tree \<Rightarrow> (kube_error, tree) network_proc" where
  "kube_update env r ns x = ask (\<lambda>t. na_update (ne_api env) t r ns x) (\<lambda>_. NUpdate r ns x) id"

definition kube_delete :: "network_env \<Rightarrow> gvr \<Rightarrow> string \<Rightarrow> string \<Rightarrow> (kube_error, unit) network_proc" where
  "kube_delete env r ns name = ask (\<lambda>t. na_delete (ne_api env) t r ns name) (\<lambda>_. NDelete r ns name) (of_error id)"

section \<open>Certificates and issuers\<close>

definition ListCertificatesContext :: "network_env \<Rightarrow> (network_error, CertInfo list) network_proc" where
  "ListCertificatesContext env =
     bindP (live_client env) (\<lambda>_.
     bindP (failing_as (KubeCall ''list certificates'') (kube_list env Certificates [])) (\<lambda>items.
       returnP (map (certToInfo (ne_sprint env) (ne_created env)) items)))"

definition ListIssuersContext :: "network_env \<Rightarrow> (network_error, IssuerInfo list) network_proc" where
  "ListIssuersContext env =
     bindP (live_client env) (\<lambda>_.
     bindP (failing_as (KubeCall ''list Issuer'') (kube_list env Issuers [])) (\<lambda>issuers.
     bindP (failing_as (KubeCall ''list ClusterIssuer'') (kube_list env ClusterIssuers [])) (\<lambda>clusterIssuers.
       returnP (map (\<lambda>i. issuerToInfo i ''Issuer'') issuers @ map (\<lambda>i. issuerToInfo i ''ClusterIssuer'') clusterIssuers))))"

definition trimmed_issuer :: "IssuerRequest \<Rightarrow> IssuerRequest" where
  "trimmed_issuer r = r\<lparr>ir_Name := TrimSpace (ir_Name r), ir_Namespace := TrimSpace (ir_Namespace r), ir_Kind := TrimSpace (ir_Kind r), ir_Mode := TrimSpace (ir_Mode r)\<rparr>"

definition applyIssuer :: "network_env \<Rightarrow> IssuerRequest \<Rightarrow> bool \<Rightarrow> (network_error, IssuerInfo) network_proc" where
  "applyIssuer env request update =
     bindP (checked (ne_dynamic env) DynamicClientMissing) (\<lambda>_.
       let r = trimmed_issuer request in
       if ir_Kind r \<noteq> ''Issuer'' \<and> ir_Kind r \<noteq> ''ClusterIssuer'' then failP (IssuerRefused IssuerKindInvalid)
       else if ir_Name r = [] \<or> (ir_Kind r = ''Issuer'' \<and> ir_Namespace r = []) then failP (IssuerRefused IssuerNameMissing)
       else case issuerObject r of
         Inl e \<Rightarrow> failP (IssuerRefused e)
       | Inr x \<Rightarrow>
           let (g, ns) = (if ir_Kind r = ''Issuer'' then (Issuers, ir_Namespace r) else (ClusterIssuers, [])) in
           bindP (failing_as Kube (if update then kube_update env g ns x else kube_create env g ns x)) (\<lambda>applied.
             returnP (issuerToInfo applied (ir_Kind r))))"

definition live_context :: "network_env \<Rightarrow> (network_error, unit) network_proc" where
  "live_context env s = checked (\<not> ne_ctx_done env (sn_trace s)) ContextDone s"

definition CreateIssuerContext :: "network_env \<Rightarrow> IssuerRequest \<Rightarrow> (network_error, IssuerInfo) network_proc" where
  "CreateIssuerContext env request = bindP (live_context env) (\<lambda>_. applyIssuer env request False)"

definition UpdateIssuerContext :: "network_env \<Rightarrow> IssuerRequest \<Rightarrow> (network_error, IssuerInfo) network_proc" where
  "UpdateIssuerContext env request = bindP (live_context env) (\<lambda>_. applyIssuer env request True)"

definition DeleteIssuerContext :: "network_env \<Rightarrow> string \<Rightarrow> string \<Rightarrow> string \<Rightarrow> (network_error, unit) network_proc" where
  "DeleteIssuerContext env kind namespace name =
     bindP (live_client env) (\<lambda>_.
       if kind = ''ClusterIssuer'' then failing_as Kube (kube_delete env ClusterIssuers [] name)
       else if kind \<noteq> ''Issuer'' \<or> namespace = [] then failP (IssuerRefused IssuerKindInvalid)
       else failing_as Kube (kube_delete env Issuers namespace name))"

definition ListCertificateOperationsContext :: "network_env \<Rightarrow> string \<Rightarrow> string \<Rightarrow> (network_error, CertificateOperation list) network_proc" where
  "ListCertificateOperationsContext env namespace certificateName =
     bindP (live_client env) (\<lambda>_.
     bindP (failing_as (KubeCall ''list certificaterequests'') (kube_list env CertificateRequests namespace)) (\<lambda>requests.
     bindP (failing_as (KubeCall ''list orders'') (kube_list env Orders namespace)) (\<lambda>orders.
     bindP (failing_as (KubeCall ''list challenges'') (kube_list env Challenges namespace)) (\<lambda>challenges.
       returnP (operations_of (ne_created env) certificateName requests orders challenges)))))"

definition CreateCertificateContext :: "network_env \<Rightarrow> CreateCertificateRequest \<Rightarrow> (network_error, CertInfo) network_proc" where
  "CreateCertificateContext env request =
     bindP (live_client env) (\<lambda>_.
     bindP (failing_as Kube (kube_create env Certificates (cr_Namespace request) (certificateObject request))) (\<lambda>created.
       returnP (certToInfo (ne_sprint env) (ne_created env) created)))"

definition EnsureCertificateContext :: "network_env \<Rightarrow> CreateCertificateRequest \<Rightarrow> (network_error, CertInfo) network_proc" where
  "EnsureCertificateContext env request =
     bindP (live_client env) (\<lambda>_.
     tryP (kube_get env Certificates (cr_Namespace request) (cr_Name request)) (\<lambda>r.
       bindP (failing_as Kube (case r of
           Inl KNotFound \<Rightarrow> kube_create env Certificates (cr_Namespace request) (certificateObject request)
         | Inl e \<Rightarrow> failP e
         | Inr existing \<Rightarrow> kube_update env Certificates (cr_Namespace request) (with_version (resource_version existing) (certificateObject request)))) (\<lambda>x.
         returnP (certToInfo (ne_sprint env) (ne_created env) x))))"

definition GetCertificateContext :: "network_env \<Rightarrow> string \<Rightarrow> string \<Rightarrow> (network_error, CertInfo) network_proc" where
  "GetCertificateContext env namespace name =
     bindP (live_client env) (\<lambda>_.
     bindP (failing_as Kube (kube_get env Certificates namespace name)) (\<lambda>x. returnP (certToInfo (ne_sprint env) (ne_created env) x)))"

definition DeleteCertificateContext :: "network_env \<Rightarrow> string \<Rightarrow> string \<Rightarrow> (network_error, unit) network_proc" where
  "DeleteCertificateContext env namespace name =
     bindP (live_client env) (\<lambda>_. failing_as Kube (kube_delete env Certificates namespace name))"

section \<open>The state of cert-manager\<close>

record CertManagerStatus =
  cs_State :: string
  cs_Message :: string
  cs_CertificateCRD :: bool
  cs_IssuerCRD :: bool
  cs_ClusterIssuerCRD :: bool
  cs_ControllerReady :: bool
  cs_WebhookReady :: bool
  cs_CAInjectorReady :: bool
  cs_InstallerAvailable :: bool
  cs_InstallationName :: string

record DNSProviderStatus =
  ps_Provider :: string
  ps_State :: string
  ps_Message :: string
  ps_Ready :: bool
  ps_InstallationName :: string

definition certManagerNamespace :: string where "certManagerNamespace = ''cert-manager''"
definition certManagerHelmName :: string where "certManagerHelmName = ''cylism-cert-manager''"

text \<open>A definition that is not found is absent, another error is reported.\<close>

definition CheckCRDContext :: "network_env \<Rightarrow> string \<Rightarrow> (kube_error, bool) network_proc" where
  "CheckCRDContext env name = ask (\<lambda>t. na_get_crd (ne_api env) t name) (\<lambda>_. NGetCRD name)
     (\<lambda>r. case r of None \<Rightarrow> Inr True | Some KNotFound \<Rightarrow> Inr False | Some e \<Rightarrow> Inl e)"

definition helmChartInstallerAvailableContext :: "network_env \<Rightarrow> ('e, bool) network_proc" where
  "helmChartInstallerAvailableContext env =
     tryP (CheckCRDContext env ''helmcharts.helm.cattle.io'') (\<lambda>r. returnP (r = Inr True))"

text \<open>Whether the chart exists, and the reason if its installation failed.\<close>

definition chart_failure :: "tree \<Rightarrow> string option" where
  "chart_failure chart =
     map_option (\<lambda>c. let message = or_empty (NestedString [''message''] c); reason = or_empty (NestedString [''reason''] c) in
         if message \<noteq> [] then message else if reason \<noteq> [] then reason else utf8 ''48656c6d436861727420e68ea7e588b6e599a8e68aa5e5918ae5ae89e8a385e5a4b1e8b4a5'')
       (find (\<lambda>c. field_is ''type'' ''Failed'' c \<and> field_is ''status'' ''True'' c)
         (case NestedSlice [''status'', ''conditions''] chart of None \<Rightarrow> [] | Some cs \<Rightarrow> cs))"

definition helmChartStateContext :: "network_env \<Rightarrow> string \<Rightarrow> ('e, bool \<times> string option) network_proc" where
  "helmChartStateContext env name =
     (if \<not> ne_dynamic env then returnP (False, None)
      else tryP (kube_get env HelmCharts ''kube-system'' name) (\<lambda>r. case r of
        Inl _ \<Rightarrow> returnP (False, None) | Inr chart \<Rightarrow> returnP (True, chart_failure chart)))"

definition deploymentReady :: "network_env \<Rightarrow> string \<Rightarrow> ('e, bool) network_proc" where
  "deploymentReady env name =
     tryP (ask (\<lambda>t. na_available_replicas (ne_api env) t certManagerNamespace name) (\<lambda>_. NGetDeployment certManagerNamespace name) id) (\<lambda>r.
       returnP (case r of Inl _ \<Rightarrow> False | Inr n \<Rightarrow> n > 0))"

fun list_all_kinds :: "network_env \<Rightarrow> gvr list \<Rightarrow> (kube_error, unit) network_proc" where
  "list_all_kinds env [] = returnP ()"
| "list_all_kinds env (g # gs) = bindP (kube_list env g []) (\<lambda>_. list_all_kinds env gs)"

definition checkCertManagerAccessContext :: "network_env \<Rightarrow> (network_error, unit) network_proc" where
  "checkCertManagerAccessContext env =
     bindP (checked (ne_dynamic env) DynamicClientMissing) (\<lambda>_.
       failing_as Kube (list_all_kinds env [Certificates, Issuers, ClusterIssuers, CertificateRequests, Orders, Challenges]))"

definition certManagerStatusForError :: "network_env \<Rightarrow> CertManagerStatus \<Rightarrow> string \<Rightarrow> network_error \<Rightarrow> CertManagerStatus" where
  "certManagerStatusForError env status action e =
     status\<lparr>cs_Message := action @ '': '' @ ne_text env e, cs_State := (if e = Kube KForbidden then ''unauthorized'' else ''degraded'')\<rparr>"

definition no_status :: CertManagerStatus where
  "no_status = \<lparr>cs_State = ''unavailable'', cs_Message = utf8 ''4b756265726e6574657320e5aea2e688b7e7abafe69caae5889de5a78be58c96'', cs_CertificateCRD = False, cs_IssuerCRD = False,
     cs_ClusterIssuerCRD = False, cs_ControllerReady = False, cs_WebhookReady = False, cs_CAInjectorReady = False, cs_InstallerAvailable = False,
     cs_InstallationName = []\<rparr>"

definition installed_status :: "network_env \<Rightarrow> CertManagerStatus \<Rightarrow> ('e, CertManagerStatus) network_proc" where
  "installed_status env status =
     tryP (checkCertManagerAccessContext env) (\<lambda>r. case r of
       Inl e \<Rightarrow> returnP (certManagerStatusForError env status (utf8 ''e9aa8ce8af8120636572742d6d616e6167657220e8aebfe997aee69d83e99990'') e)
     | Inr _ \<Rightarrow>
         bindP (deploymentReady env certManagerHelmName) (\<lambda>controller.
         bindP (deploymentReady env (certManagerHelmName @ ''-webhook'')) (\<lambda>webhook.
         bindP (deploymentReady env (certManagerHelmName @ ''-cainjector'')) (\<lambda>injector.
           let status = status\<lparr>cs_ControllerReady := controller, cs_WebhookReady := webhook, cs_CAInjectorReady := injector\<rparr> in
           if controller \<and> webhook \<and> injector
           then returnP (status\<lparr>cs_State := ''ready'', cs_Message := utf8 ''636572742d6d616e6167657220e5b7b2e5b0b1e7bbaa''\<rparr>)
           else bindP (helmChartStateContext env certManagerHelmName) (\<lambda>(exists, failed).
             returnP (if exists \<and> failed = None
               then status\<lparr>cs_State := ''installing'', cs_InstallationName := certManagerHelmName,
                 cs_Message := utf8 ''636572742d6d616e6167657220e6ada3e59ca8e5ae89e8a385efbc8ce7ad89e5be85e68ea7e588b6e7bb84e4bbb6e5b0b1e7bbaa''\<rparr>
               else if exists then status\<lparr>cs_State := ''degraded'', cs_Message := utf8 ''636572742d6d616e6167657220e5ae89e8a385e5a4b1e8b4a53a20'' @ the failed\<rparr>
               else status\<lparr>cs_State := ''degraded'', cs_Message := utf8 ''636572742d6d616e616765722043524420e5b7b2e5ae89e8a385efbc8ce4bd86e68ea7e588b6e7bb84e4bbb6e5b09ae69caae585a8e983a8e5b0b1e7bbaa''\<rparr>))))))"

definition missing_status :: "network_env \<Rightarrow> CertManagerStatus \<Rightarrow> ('e, CertManagerStatus) network_proc" where
  "missing_status env status =
     bindP (helmChartInstallerAvailableContext env) (\<lambda>available.
     bindP (helmChartStateContext env certManagerHelmName) (\<lambda>(exists, failed).
       let status = status\<lparr>cs_InstallerAvailable := available\<rparr> in
       returnP (if exists then
         (case failed of
            Some detail \<Rightarrow> status\<lparr>cs_InstallationName := certManagerHelmName, cs_State := ''degraded'', cs_Message := utf8 ''636572742d6d616e6167657220e5ae89e8a385e5a4b1e8b4a53a20'' @ detail\<rparr>
          | None \<Rightarrow> status\<lparr>cs_InstallationName := certManagerHelmName, cs_State := ''installing'',
              cs_Message := utf8 ''636572742d6d616e6167657220e6ada3e59ca8e5ae89e8a385efbc8ce7ad89e5be852043524420e5928ce68ea7e588b6e7bb84e4bbb6e5b0b1e7bbaa''\<rparr>)
        else status\<lparr>cs_State := ''not_installed'', cs_Message := utf8 ''e69caae6a380e6b58be588b0e5ae8ce695b4e79a8420636572742d6d616e6167657220435244''\<rparr>)))"

text \<open>A check of one definition; its error ends the inspection with a status.\<close>

definition check_crd :: "network_env \<Rightarrow> string \<Rightarrow> string \<Rightarrow> CertManagerStatus \<Rightarrow> (bool \<Rightarrow> ('e, CertManagerStatus) network_proc) \<Rightarrow> ('e, CertManagerStatus) network_proc" where
  "check_crd env name action status k =
     tryP (CheckCRDContext env name) (\<lambda>r. case r of
       Inl e \<Rightarrow> returnP (certManagerStatusForError env status action (Kube e)) | Inr ok \<Rightarrow> k ok)"

definition CertManagerStatusContext :: "network_env \<Rightarrow> ('e, CertManagerStatus) network_proc" where
  "CertManagerStatusContext env s =
     (if ne_ctx_done env (sn_trace s) then returnP (no_status\<lparr>cs_Message := ne_text env ContextDone\<rparr>) s
      else if \<not> ne_clientset env then returnP no_status s
      else check_crd env ''certificates.cert-manager.io'' (utf8 ''e6a380e69fa520436572746966696361746520435244'') no_status (\<lambda>c1.
        let st1 = no_status\<lparr>cs_CertificateCRD := c1\<rparr> in
        check_crd env ''issuers.cert-manager.io'' (utf8 ''e6a380e69fa52049737375657220435244'') st1 (\<lambda>c2.
        let st2 = st1\<lparr>cs_IssuerCRD := c2\<rparr> in
        check_crd env ''clusterissuers.cert-manager.io'' (utf8 ''e6a380e69fa520436c757374657249737375657220435244'') st2 (\<lambda>c3.
        let st3 = st2\<lparr>cs_ClusterIssuerCRD := c3\<rparr> in
        if c1 \<and> c2 \<and> c3 then installed_status env st3 else missing_status env st3))) s)"

definition helm_chart :: "string \<Rightarrow> (string \<times> tree) list \<Rightarrow> string \<Rightarrow> string \<Rightarrow> string \<Rightarrow> string \<Rightarrow> tree" where
  "helm_chart name labels chart repo version valuesContent =
     Obj [(''apiVersion'', Str ''helm.cattle.io/v1''), (''kind'', Str ''HelmChart''),
       (''metadata'', Obj [(''name'', Str name), (''namespace'', Str ''kube-system''), (''labels'', Obj ((''app.kubernetes.io/managed-by'', Str ''cylism-manager'') # labels))]),
       (''spec'', Obj [(''chart'', Str chart), (''repo'', Str repo), (''version'', Str version), (''targetNamespace'', Str certManagerNamespace),
         (''createNamespace'', Flag True), (''valuesContent'', Str valuesContent)])]"

text \<open>An error comes with the status that was found, if there is one.\<close>

definition InstallCertManagerContext ::
  "network_env \<Rightarrow> string \<Rightarrow> string \<Rightarrow> string \<Rightarrow> (network_error \<times> CertManagerStatus option, CertManagerStatus) network_proc" where
  "InstallCertManagerContext env repository chartName chartVersion =
     bindP (failing_as (\<lambda>e. (e, None)) (live_context env)) (\<lambda>_.
     bindP (CertManagerStatusContext env) (\<lambda>status.
       if cs_State status = ''ready'' \<or> cs_State status = ''installing'' then returnP status
       else if cs_State status = ''unauthorized'' \<or> cs_State status = ''unavailable'' then failP (ProviderState (cs_Message status), Some status)
       else if cs_CertificateCRD status \<or> cs_IssuerCRD status \<or> cs_ClusterIssuerCRD status then failP (InstallIncomplete, Some status)
       else if \<not> cs_InstallerAvailable status then failP (InstallerMissing, Some status)
       else if \<not> ne_dynamic env then failP (DynamicClientMissing, Some status)
       else tryP (kube_create env HelmCharts ''kube-system''
           (helm_chart certManagerHelmName [] chartName repository chartVersion
             (''crds:'' @ [CHR 0x0A] @ ''  enabled: true'' @ [CHR 0x0A] @ ''prometheus:'' @ [CHR 0x0A] @ ''  enabled: false'' @ [CHR 0x0A]))) (\<lambda>r. case r of
         Inl e \<Rightarrow> if e \<noteq> KExists then failP (ChartFailed ''cert-manager'' e, Some status)
            else returnP (status\<lparr>cs_State := ''installing'', cs_InstallationName := certManagerHelmName,
              cs_Message := utf8 ''636572742d6d616e6167657220e5ae89e8a385e4bbbbe58aa1e5b7b2e5889be5bbbaefbc8ce7ad89e5be852048656c6d20e68ea7e588b6e599a8e5ae8ce68890e5ae89e8a385''\<rparr>)
       | Inr _ \<Rightarrow> returnP (status\<lparr>cs_State := ''installing'', cs_InstallationName := certManagerHelmName,
              cs_Message := utf8 ''636572742d6d616e6167657220e5ae89e8a385e4bbbbe58aa1e5b7b2e5889be5bbbaefbc8ce7ad89e5be852048656c6d20e68ea7e588b6e599a8e5ae8ce68890e5ae89e8a385''\<rparr>))))"

section \<open>DNS providers\<close>

definition no_provider_status :: "string \<Rightarrow> DNSProviderStatus" where
  "no_provider_status providerID = \<lparr>ps_Provider = providerID, ps_State = ''unavailable'', ps_Message = utf8 ''4b756265726e6574657320e5aea2e688b7e7abafe69caae5889de5a78be58c96'',
     ps_Ready = False, ps_InstallationName = []\<rparr>"

definition DNSProviderStatusContext :: "network_env \<Rightarrow> string \<Rightarrow> ('e, DNSProviderStatus) network_proc" where
  "DNSProviderStatusContext env providerID s =
     (let status = no_provider_status providerID; chart = aliDNS_WebhookChart; title = pi_Name aliDNS_Info in
      if ne_ctx_done env (sn_trace s) then returnP (status\<lparr>ps_Message := ne_text env ContextDone\<rparr>) s
      else if \<not> GetDNSProvider providerID then returnP (status\<lparr>ps_Message := utf8 ''e4b88de694afe68c81e79a8420444e532050726f76696465723a20'' @ providerID\<rparr>) s
      else let status = status\<lparr>ps_InstallationName := wc_ReleaseName chart\<rparr> in
        if \<not> ne_clientset env then returnP status s
        else bindP (CertManagerStatusContext env) (\<lambda>base.
          if cs_State base \<noteq> ''ready'' then returnP (status\<lparr>ps_State := cs_State base, ps_Message := utf8 ''636572742d6d616e6167657220e69caae5b0b1e7bbaa3a20'' @ cs_Message base\<rparr>)
          else bindP (helmChartInstallerAvailableContext env) (\<lambda>available.
            if \<not> available then returnP (status\<lparr>ps_Message := utf8 ''e5bd93e5898de99b86e7bea4e69caae68f90e4be9b204b33732048656c6d436861727420e5ae89e8a385e599a8''\<rparr>)
            else bindP (helmChartStateContext env (wc_ReleaseName chart)) (\<lambda>(exists, failed).
              if \<not> exists then returnP (status\<lparr>ps_State := ''not_installed'', ps_Message := title @ utf8 ''20576562686f6f6b20e5b09ae69caae5ae89e8a385''\<rparr>)
              else case failed of
                Some detail \<Rightarrow> returnP (status\<lparr>ps_State := ''degraded'', ps_Message := title @ utf8 ''20576562686f6f6b20e5ae89e8a385e5a4b1e8b4a53a20'' @ detail\<rparr>)
              | None \<Rightarrow> bindP (deploymentReady env (wc_ReleaseName chart)) (\<lambda>ready.
                  returnP (if ready then status\<lparr>ps_State := ''ready'', ps_Message := title @ utf8 ''20576562686f6f6b20e5b7b2e5b0b1e7bbaa'', ps_Ready := True\<rparr>
                    else status\<lparr>ps_State := ''installing'', ps_Message := title @ utf8 ''20576562686f6f6b20e6ada3e59ca8e5ae89e8a385efbc8ce7ad89e5be85e68ea7e588b6e7bb84e4bbb6e5b0b1e7bbaa''\<rparr>))))) s)"

definition InstallDNSProviderContext ::
  "network_env \<Rightarrow> string \<Rightarrow> (network_error \<times> DNSProviderStatus option, DNSProviderStatus) network_proc" where
  "InstallDNSProviderContext env providerID =
     bindP (failing_as (\<lambda>e. (e, None)) (live_context env)) (\<lambda>_.
     bindP (DNSProviderStatusContext env providerID) (\<lambda>status.
       let chart = aliDNS_WebhookChart;
           started = status\<lparr>ps_State := ''installing'', ps_Message := pi_Name aliDNS_Info @ utf8 ''20576562686f6f6b20e5ae89e8a385e4bbbbe58aa1e5b7b2e5889be5bbbaefbc8ce7ad89e5be852048656c6d20e68ea7e588b6e599a8e5ae8ce68890e5ae89e8a385''\<rparr> in
       if \<not> GetDNSProvider providerID then failP (ProviderState (ps_Message status), Some status)
       else if ps_Ready status \<or> ps_State status = ''installing'' then returnP status
       else if ps_State status \<noteq> ''not_installed'' then failP (ProviderState (ps_Message status), Some status)
       else if \<not> ne_dynamic env then failP (DynamicClientMissing, Some status)
       else tryP (kube_create env HelmCharts ''kube-system''
           (helm_chart (wc_ReleaseName chart) [(''cylism.io/dns-provider'', Str providerID)] (wc_Chart chart) (wc_Repository chart) (wc_Version chart) (wc_Values chart))) (\<lambda>r.
         case r of
           Inl e \<Rightarrow> if e \<noteq> KExists then failP (ChartFailed (pi_Name aliDNS_Info) e, Some status) else returnP started
         | Inr _ \<Rightarrow> returnP started)))"

section \<open>Secrets and namespaces\<close>

definition credential_secret :: "string \<Rightarrow> string \<Rightarrow> string \<Rightarrow> string gomap \<Rightarrow> Secret" where
  "credential_secret providerID namespace name data =
     \<lparr>se_Name = name, se_Namespace = namespace,
      se_Labels = [(''app.kubernetes.io/managed-by'', ''cylism-manager''), (''cylism.io/dns-provider'', providerID)], se_StringData = data\<rparr>"

definition UpsertDNSCredentialSecretContext ::
  "network_env \<Rightarrow> string \<Rightarrow> string \<Rightarrow> string \<Rightarrow> string gomap \<Rightarrow> (network_error, unit) network_proc" where
  "UpsertDNSCredentialSecretContext env providerID namespace name vs =
     (if \<not> ne_clientset env then failP ClientMissing
      else if \<not> GetDNSProvider providerID then failP (DNSRefused (ProviderUnsupported providerID))
      else case aliDNS_ValidateValues vs of
        Some e \<Rightarrow> failP (DNSRefused e)
      | None \<Rightarrow>
          let data = aliDNS_SecretData vs in
          tryP (ask (\<lambda>t. na_get_secret (ne_api env) t namespace name) (\<lambda>_. NGetSecret namespace name) id) (\<lambda>r.
            failing_as Kube (case r of
                Inl KNotFound \<Rightarrow>
                  (let x = credential_secret providerID namespace name data in
                   ask (\<lambda>t. na_create_secret (ne_api env) t x) (\<lambda>_. NCreateSecret x) (of_error id))
              | Inl e \<Rightarrow> failP e
              | Inr current \<Rightarrow>
                  (let x = current\<lparr>se_StringData := data,
                     se_Labels := map_put ''cylism.io/dns-provider'' providerID (map_put ''app.kubernetes.io/managed-by'' ''cylism-manager'' (se_Labels current))\<rparr> in
                   ask (\<lambda>t. na_update_secret (ne_api env) t x) (\<lambda>_. NUpdateSecret x) (of_error id)))))"

definition delete_secret :: "network_env \<Rightarrow> string \<Rightarrow> string \<Rightarrow> (kube_error, unit) network_proc" where
  "delete_secret env namespace name = ask (\<lambda>t. na_delete_secret (ne_api env) t namespace name) (\<lambda>_. NDeleteSecret namespace name) (of_error id)"

definition DeleteDNSCredentialSecretContext :: "network_env \<Rightarrow> string \<Rightarrow> string \<Rightarrow> (network_error, unit) network_proc" where
  "DeleteDNSCredentialSecretContext env namespace name =
     (if \<not> ne_clientset env then failP ClientMissing
      else tryP (delete_secret env namespace name) (\<lambda>r. case r of
        Inl KNotFound \<Rightarrow> returnP () | Inl e \<Rightarrow> failP (Kube e) | Inr _ \<Rightarrow> returnP ()))"

text \<open>\<open>clientDomainAdapter.NamespaceExists\<close>\<close>

definition NamespaceExists :: "network_env \<Rightarrow> string \<Rightarrow> (network_error, bool) network_proc" where
  "NamespaceExists env name = ask (\<lambda>t. na_get_namespace (ne_api env) t name) (\<lambda>_. NGetNamespace name)
     (\<lambda>r. case r of None \<Rightarrow> Inr True | Some KNotFound \<Rightarrow> Inr False | Some e \<Rightarrow> Inl (Kube e))"

section \<open>Calls that only look\<close>

text \<open>Everything but creating, updating and deleting objects.\<close>

fun looking :: "network_event \<Rightarrow> bool" where
  "looking (NCreate _ _ _) = False"
| "looking (NUpdate _ _ _) = False"
| "looking (NDelete _ _ _) = False"
| "looking (NCreateSecret _) = False"
| "looking (NUpdateSecret _) = False"
| "looking (NDeleteSecret _ _) = False"
| "looking _ = True"

interpretation same: data_evolution "(=)"
  by unfold_locales simp_all

named_theorems looks "steps that only look at the cluster and keep the data"

lemma looks_client [looks]: "only A (=) (live_client env)" "only A (=) (live_context env)"
  unfolding live_client_def live_context_def
  by (rule same.only_reading [where g = sn_trace], intro same.only_intros)+

lemma looks_get [looks]: "only looking (=) (kube_get env r ns name)"
  unfolding kube_get_def by (rule same.only_ask) simp

lemma looks_list [looks]: "only looking (=) (kube_list env r ns)"
  unfolding kube_list_def by (rule same.only_ask) simp

lemma looks_certificates [looks]: "only looking (=) (ListCertificatesContext env)" "only looking (=) (GetCertificateContext env ns name)"
  "only looking (=) (ListIssuersContext env)" "only looking (=) (ListCertificateOperationsContext env ns name)"
  unfolding ListCertificatesContext_def GetCertificateContext_def ListIssuersContext_def ListCertificateOperationsContext_def
  by (intro same.only_intros looks)+

lemma looks_namespace [looks]: "only looking (=) (NamespaceExists env name)"
  unfolding NamespaceExists_def by (rule same.only_ask) simp

lemma looks_crd [looks]: "only looking (=) (CheckCRDContext env name)"
  unfolding CheckCRDContext_def by (rule same.only_ask) simp

lemma looks_charts [looks]: "only looking (=) (helmChartInstallerAvailableContext env)" "only looking (=) (helmChartStateContext env name)"
  unfolding helmChartInstallerAvailableContext_def helmChartStateContext_def by (intro same.only_intros looks)+

lemma looks_deployment [looks]: "only looking (=) (deploymentReady env name)"
  unfolding deploymentReady_def by (intro same.only_intros same.only_ask) simp

lemma looks_kinds: "only looking (=) (list_all_kinds env gs)"
  by (induction gs) (auto intro!: same.only_intros looks)

lemma looks_status [looks]: "only looking (=) (CertManagerStatusContext env :: ('e, CertManagerStatus) network_proc)"
proof -
  have crd: "only looking (=) (check_crd env name action status k)" if "\<And>ok. only looking (=) (k ok)" for name action status k
    unfolding check_crd_def by (intro same.only_intros looks that)
  have installed: "only looking (=) (installed_status env status)" for status
    unfolding installed_status_def checkCertManagerAccessContext_def Let_def
    by (auto intro!: same.only_intros looks looks_kinds split: prod.splits)
  have missing: "only looking (=) (missing_status env status)" for status
    unfolding missing_status_def Let_def by (auto intro!: same.only_intros looks split: prod.splits)
  show ?thesis
    unfolding CertManagerStatusContext_def Let_def
    by (rule same.only_if_state, rule same.only_returnP, rule same.only_if_state, rule same.only_returnP) (intro same.only_if crd installed missing)
qed

end
