(* ===== verification/Network_Domains.thy ===== *)
theory Network_Domains
  imports Network_Cluster Storage_Claims
begin

text \<open>
  Managed domains: the rules and ports of \<open>internal/service/network/service.go\<close> and the requests of
  \<open>internal/api/infrastructure/network/domain_handler.go\<close>, which keep a row per host name and its certificate in
  the cluster.
\<close>

section \<open>Host names\<close>

definition hostname_char :: "char \<Rightarrow> bool" where
  "hostname_char c \<longleftrightarrow> is_lower c \<or> is_digit c \<or> c = CHR ''-''"

definition ValidateHostname :: "string \<Rightarrow> bool" where
  "ValidateHostname value =
     (let hostname = TrimSpace (ToLower value) in
      \<not> (length hostname < 3 \<or> length hostname > 253 \<or> \<not> Contains hostname ''.'') \<and>
      list_all (\<lambda>part. \<not> (part = [] \<or> length part > 63 \<or> HasPrefix part ''-'' \<or> HasSuffix part ''-'') \<and> list_all hostname_char part)
        (split_on CHR ''.'' hostname))"

definition validManagedHostname :: "string \<Rightarrow> bool" where
  "validManagedHostname hostname \<longleftrightarrow>
     \<not> (length hostname < 3 \<or> length hostname > 253 \<or> \<not> Contains hostname ''.'' \<or> HasPrefix hostname ''*.'') \<and>
     list_all (\<lambda>label. \<not> (label = [] \<or> length label > 63 \<or> hd label = CHR ''-'' \<or> last label = CHR ''-'') \<and> list_all hostname_char label)
       (split_on CHR ''.'' hostname)"

section \<open>The service\<close>

record network_ports =
  np_service :: bool
  np_domains :: bool
  np_credentials :: bool
  np_cert :: bool
  np_dns :: bool
  np_k8s :: bool
  np_available :: bool

record DomainInput =
  di_Hostname :: string
  di_EnvironmentID :: nat
  di_IssuerRef :: string
  di_Description :: string
  di_Enabled :: bool

definition currentCertificateName :: "ManagedDomain option \<Rightarrow> string" where
  "currentCertificateName current = (case current of None \<Rightarrow> [] | Some x \<Rightarrow> md_CertificateName x)"

definition currentTLSSecretName :: "ManagedDomain option \<Rightarrow> string" where
  "currentTLSSecretName current = (case current of None \<Rightarrow> [] | Some x \<Rightarrow> md_TLSSecretName x)"

definition new_domain :: "DomainInput \<Rightarrow> ManagedDomain option \<Rightarrow> Environment \<Rightarrow> ManagedDomain" where
  "new_domain inp current environment =
     \<lparr>md_ID = 0, md_Hostname = ToLower (TrimSpace (di_Hostname inp)), md_EnvironmentID = en_ID environment, md_Namespace = en_Namespace environment,
      md_CertificateName = currentCertificateName current, md_TLSSecretName = currentTLSSecretName current,
      md_IssuerRef = TrimSpace (di_IssuerRef inp), md_IssuerKind = ''ClusterIssuer'', md_CertificateOwnership = ''managed'',
      md_Description = TrimSpace (di_Description inp), md_Enabled = di_Enabled inp, md_CreatedAt = zero_time, md_UpdatedAt = zero_time\<rparr>"

definition BuildManagedDomain :: "DomainInput \<Rightarrow> ManagedDomain option \<Rightarrow> Environment option \<Rightarrow> network_error + ManagedDomain" where
  "BuildManagedDomain inp current environment =
     (let hostname = ToLower (TrimSpace (di_Hostname inp)) in
      if \<not> ValidateHostname hostname \<or> HasPrefix hostname ''*.'' then Inl HostnameInvalid
      else case environment of
        None \<Rightarrow> Inl EnvironmentNotChosen
      | Some e \<Rightarrow>
          if en_ID e = 0 \<or> TrimSpace (en_Namespace e) = [] then Inl EnvironmentNotChosen
          else if TrimSpace (di_IssuerRef inp) = [] then Inl IssuerNotChosen
          else case current of
            None \<Rightarrow> Inr (new_domain inp None e)
          | Some x \<Rightarrow>
              if md_EnvironmentID x \<noteq> 0 \<and> md_EnvironmentID x \<noteq> en_ID e then Inl DomainBound
              else let domain = (new_domain inp current e)\<lparr>md_ID := md_ID x, md_CreatedAt := md_CreatedAt x, md_CertificateOwnership := md_CertificateOwnership x\<rparr> in
                Inr (if md_CertificateOwnership x = ''imported'' then domain\<lparr>md_IssuerRef := md_IssuerRef x, md_IssuerKind := md_IssuerKind x\<rparr> else domain))"

definition ValidateDomainDeletion :: "nat \<Rightarrow> network_error option" where
  "ValidateDomainDeletion applicationCount = (if applicationCount > 0 then Some DomainReferenced else None)"

definition store_env :: "(db_error, 'a) storage_proc \<Rightarrow> (db_error, 'a) network_proc" where
  "store_env m = on_store (on_storage m)"

text \<open>The conflict marker of an environment is no column, so a stored environment never carries it.\<close>

definition Service_ResolveEnvironment :: "network_env \<Rightarrow> network_ports \<Rightarrow> nat \<Rightarrow> (network_error, Environment) network_proc" where
  "Service_ResolveEnvironment env ports environmentID =
     (if environmentID = 0 then failP EnvironmentIDRequired
      else if \<not> np_domains ports then failP StoreMissing
      else bindP (failing_as (\<lambda>_. EnvironmentUnknown) (store_env (GetEnvironmentByID (ne_fault env) environmentID))) (\<lambda>e.
        bindP (failing_as (\<lambda>_. NamespaceUnchecked) (store_env (on_workspace (IsEnvironmentNamespaceConflicted (ne_fault env) (en_Namespace e))))) (\<lambda>conflicted.
          if conflicted then failP NamespaceConflicted else returnP e)))"

definition stored :: "network_ports \<Rightarrow> (db_error, 'a) network_store_proc \<Rightarrow> (network_error, 'a) network_proc" where
  "stored ports m = (if \<not> np_domains ports then failP StoreMissing else failing_as NetDB (on_store m))"

definition Service_GetManagedDomain :: "network_env \<Rightarrow> network_ports \<Rightarrow> nat \<Rightarrow> (network_error, ManagedDomain) network_proc" where
  "Service_GetManagedDomain env ports i = stored ports (GetManagedDomain (ne_fault env) i)"

definition Service_GetManagedDomainByHostname :: "network_env \<Rightarrow> network_ports \<Rightarrow> string \<Rightarrow> (network_error, ManagedDomain) network_proc" where
  "Service_GetManagedDomainByHostname env ports hostname = stored ports (GetManagedDomainByHostname (ne_fault env) (TrimSpace hostname))"

definition Service_ListManagedDomains :: "network_env \<Rightarrow> network_ports \<Rightarrow> nat list \<Rightarrow> (network_error, ManagedDomain list) network_proc" where
  "Service_ListManagedDomains env ports environmentID = stored ports (ListManagedDomains (ne_fault env) environmentID)"

definition Service_ListUnassignedManagedDomains :: "network_env \<Rightarrow> network_ports \<Rightarrow> (network_error, ManagedDomain list) network_proc" where
  "Service_ListUnassignedManagedDomains env ports = stored ports (ListUnassignedManagedDomains (ne_fault env))"

definition Service_ListClaimableManagedDomains :: "network_env \<Rightarrow> network_ports \<Rightarrow> string \<Rightarrow> (network_error, ManagedDomain list) network_proc" where
  "Service_ListClaimableManagedDomains env ports namespace = stored ports (ListClaimableManagedDomains (ne_fault env) (TrimSpace namespace))"

definition Service_CreateManagedDomain :: "network_env \<Rightarrow> network_ports \<Rightarrow> ManagedDomain \<Rightarrow> (network_error, ManagedDomain) network_proc" where
  "Service_CreateManagedDomain env ports domain s = stored ports (CreateManagedDomain (ne_fault env) (network_clock env s) domain) s"

definition Service_UpdateManagedDomain :: "network_env \<Rightarrow> network_ports \<Rightarrow> ManagedDomain \<Rightarrow> (network_error, ManagedDomain) network_proc" where
  "Service_UpdateManagedDomain env ports domain s = stored ports (UpdateManagedDomain (ne_fault env) (network_clock env s) domain) s"

definition Service_DeleteManagedDomain :: "network_env \<Rightarrow> network_ports \<Rightarrow> nat \<Rightarrow> (network_error, unit) network_proc" where
  "Service_DeleteManagedDomain env ports i = stored ports (DeleteManagedDomain (ne_fault env) i)"

definition Service_CountApplicationEndpointsByDomain :: "network_env \<Rightarrow> network_ports \<Rightarrow> nat \<Rightarrow> (network_error, nat) network_proc" where
  "Service_CountApplicationEndpointsByDomain env ports i = stored ports (on_storage (on_workspace (CountApplicationEndpointsByDomain (ne_fault env) i)))"

text \<open>The certificate adapter of the service may be missing.\<close>

definition certified :: "network_ports \<Rightarrow> (network_error, 'a) network_proc \<Rightarrow> (network_error, 'a) network_proc" where
  "certified ports m = (if \<not> np_cert ports then failP CertAdapterMissing else m)"

definition Service_ListCertificatesContext :: "network_env \<Rightarrow> network_ports \<Rightarrow> (network_error, CertInfo list) network_proc" where
  "Service_ListCertificatesContext env ports = certified ports (ListCertificatesContext env)"

definition Service_GetCertificateContext :: "network_env \<Rightarrow> network_ports \<Rightarrow> string \<Rightarrow> string \<Rightarrow> (network_error, CertInfo) network_proc" where
  "Service_GetCertificateContext env ports namespace name = certified ports (GetCertificateContext env namespace name)"

definition Service_EnsureCertificateContext :: "network_env \<Rightarrow> network_ports \<Rightarrow> CreateCertificateRequest \<Rightarrow> (network_error, CertInfo) network_proc" where
  "Service_EnsureCertificateContext env ports request = certified ports (EnsureCertificateContext env request)"

definition Service_DeleteCertificateContext :: "network_env \<Rightarrow> network_ports \<Rightarrow> string \<Rightarrow> string \<Rightarrow> (network_error, unit) network_proc" where
  "Service_DeleteCertificateContext env ports namespace name = certified ports (DeleteCertificateContext env namespace name)"

definition Service_ListCertificateOperationsContext :: "network_env \<Rightarrow> network_ports \<Rightarrow> string \<Rightarrow> string \<Rightarrow> (network_error, CertificateOperation list) network_proc" where
  "Service_ListCertificateOperationsContext env ports namespace name = certified ports (ListCertificateOperationsContext env namespace name)"

text \<open>The two checks it is given are those of the handler.\<close>

definition ValidateManagedDomainPrerequisites :: "network_env \<Rightarrow> ManagedDomain \<Rightarrow> (network_error, unit) network_proc" where
  "ValidateManagedDomainPrerequisites env domain =
     (if TrimSpace (md_Namespace domain) = [] then failP NamespaceEmpty
      else bindP (failing_as NamespaceCheckFailed (NamespaceExists env (md_Namespace domain))) (\<lambda>exists.
        if \<not> exists then failP (NamespaceMissing (md_Namespace domain))
        else bindP (failing_as IssuersUnreadable (ListIssuersContext env)) (\<lambda>issuers.
          if list_ex (\<lambda>i. ii_Kind i = ''ClusterIssuer'' \<and> ii_Name i = md_IssuerRef domain \<and> ii_Ready i) issuers then returnP ()
          else failP (IssuerNotReady (md_IssuerRef domain)))))"

section \<open>The handler\<close>

datatype domain_refusal =
    DomainIDInvalid | DomainRequestInvalid | DomainMissing | DomainInvalid network_error | DomainConflict | DomainStore network_error
  | DomainEnvironmentIDInvalid | DomainClusterMissing | DomainCluster network_error | CertificateMissing | CertificateNotImportable
  | HistoricDomain | DomainClaimed | ClaimNamespaceDiffers | CertificateReadOnly | DomainWithoutCertificate | DomainInUse network_error

record domainRequest =
  dq_Hostname :: string
  dq_EnvironmentID :: nat
  dq_IssuerRef :: string
  dq_Description :: string
  dq_Enabled :: bool

record importCertificateRequest =
  ic_EnvironmentID :: nat
  ic_CertificateName :: string
  ic_Description :: string
  ic_Enabled :: bool

text \<open>The fields of the row, the certificate or why it is not shown, and the number of endpoints.\<close>

record ManagedDomainInfo =
  mi_Domain :: ManagedDomain
  mi_Certificate :: "CertInfo option"
  mi_CertificateError :: string
  mi_ApplicationCount :: nat

definition normalizeCertificateViewError :: "string \<Rightarrow> string" where
  "normalizeCertificateViewError message =
     (if Contains (ToLower message) ''not found'' \<or> Contains message (utf8 ''e4b88de5ad98e59ca8'') then utf8 ''e8af81e4b9a6e5b09ae69caae5889be5bbba'' else message)"

definition ManagedDomainInfoFor :: "network_env \<Rightarrow> network_ports \<Rightarrow> ManagedDomain \<Rightarrow> ('e, ManagedDomainInfo) network_proc" where
  "ManagedDomainInfoFor env ports domain =
     bindP (optional (Service_CountApplicationEndpointsByDomain env ports (md_ID domain))) (\<lambda>count.
       let view = \<lparr>mi_Domain = domain, mi_Certificate = None, mi_CertificateError = [], mi_ApplicationCount = (case count of None \<Rightarrow> 0 | Some n \<Rightarrow> n)\<rparr> in
       if \<not> np_k8s ports \<or> TrimSpace (md_Namespace domain) = [] \<or> TrimSpace (md_CertificateName domain) = []
       then returnP (if TrimSpace (md_Namespace domain) = []
         then view\<lparr>mi_CertificateError := utf8 ''e59f9fe5908de5b09ae69caae7bb91e5ae9ae591bde5908de7a9bae997b4efbc8ce8afb7e7bc96e8be91e5908ee794b3e8afb7e8af81e4b9a6''\<rparr> else view)
       else tryP (GetCertificateContext env (md_Namespace domain) (md_CertificateName domain)) (\<lambda>r. case r of
         Inl e \<Rightarrow> returnP (view\<lparr>mi_CertificateError := normalizeCertificateViewError (ne_text env e)\<rparr>)
       | Inr certificate \<Rightarrow> returnP (view\<lparr>mi_Certificate := Some certificate\<rparr>)))"

fun domain_infos :: "network_env \<Rightarrow> network_ports \<Rightarrow> ManagedDomain list \<Rightarrow> ('e, ManagedDomainInfo list) network_proc" where
  "domain_infos env ports [] = returnP []"
| "domain_infos env ports (x # xs) = bindP (ManagedDomainInfoFor env ports x) (\<lambda>i. bindP (domain_infos env ports xs) (\<lambda>is. returnP (i # is)))"

definition domainEnvironment :: "network_env \<Rightarrow> network_ports \<Rightarrow> nat \<Rightarrow> (network_error, Environment) network_proc" where
  "domainEnvironment env ports i = (if \<not> np_service ports then failP ServiceMissing else Service_ResolveEnvironment env ports i)"

definition managedDomain :: "network_env \<Rightarrow> network_ports \<Rightarrow> string \<Rightarrow> (domain_refusal, ManagedDomain) network_proc" where
  "managedDomain env ports id_param =
     (case ParsePositiveID (TrimSpace id_param) of
        None \<Rightarrow> failP DomainIDInvalid
      | Some i \<Rightarrow> failing_as (\<lambda>_. DomainMissing) (Service_GetManagedDomain env ports i))"

definition domainFromRequest :: "domainRequest \<Rightarrow> ManagedDomain option \<Rightarrow> Environment \<Rightarrow> network_error + ManagedDomain" where
  "domainFromRequest req current environment =
     BuildManagedDomain \<lparr>di_Hostname = dq_Hostname req, di_EnvironmentID = dq_EnvironmentID req, di_IssuerRef = dq_IssuerRef req,
       di_Description = dq_Description req, di_Enabled = dq_Enabled req\<rparr> current (Some environment)"

definition importableCertificate :: "CertInfo \<Rightarrow> bool" where
  "importableCertificate c \<longleftrightarrow> length (cf_Domains c) = 1 \<and> validManagedHostname (ToLower (hd (cf_Domains c))) \<and> cf_Issuer c \<noteq> [] \<and> cf_SecretName c \<noteq> []"

definition isImportedDomain :: "ManagedDomain \<Rightarrow> bool" where
  "isImportedDomain domain \<longleftrightarrow> md_CertificateOwnership domain = ''imported''"

definition assignManagedCertificateNames :: "ManagedDomain \<Rightarrow> ManagedDomain" where
  "assignManagedCertificateNames domain =
     (let name = (if md_CertificateName domain = [] then ''cylism-domain-'' @ show_nat (md_ID domain) else md_CertificateName domain) in
      domain\<lparr>md_CertificateName := name, md_TLSSecretName := (if md_TLSSecretName domain = [] then name @ ''-tls'' else md_TLSSecretName domain)\<rparr>)"

definition validateManagedDomainPrerequisites :: "network_env \<Rightarrow> network_ports \<Rightarrow> ManagedDomain \<Rightarrow> (network_error, unit) network_proc" where
  "validateManagedDomainPrerequisites env ports domain =
     (if \<not> np_k8s ports \<or> \<not> np_available ports then failP ClientMissing else ValidateManagedDomainPrerequisites env domain)"

definition domain_certificate :: "ManagedDomain \<Rightarrow> CreateCertificateRequest" where
  "domain_certificate domain =
     \<lparr>cr_Name = md_CertificateName domain, cr_Namespace = md_Namespace domain, cr_Domains = [md_Hostname domain], cr_IssuerRef = md_IssuerRef domain,
      cr_IssuerKind = ''ClusterIssuer'', cr_SecretName = md_TLSSecretName domain\<rparr>"

definition ensureManagedDomainCertificate :: "network_env \<Rightarrow> network_ports \<Rightarrow> ManagedDomain \<Rightarrow> (network_error, unit) network_proc" where
  "ensureManagedDomainCertificate env ports domain =
     (if \<not> np_k8s ports \<or> \<not> np_available ports then failP ClientMissing
      else bindP (Service_EnsureCertificateContext env ports (domain_certificate domain)) (\<lambda>_. returnP ()))"

text \<open>The answer after a certificate was asked for: the view before, with the error, or the view after.\<close>

definition ensure_and_show :: "network_env \<Rightarrow> network_ports \<Rightarrow> ManagedDomain \<Rightarrow> ManagedDomainInfo \<Rightarrow> ('e, ManagedDomainInfo) network_proc" where
  "ensure_and_show env ports domain info =
     tryP (ensureManagedDomainCertificate env ports domain) (\<lambda>r. case r of
       Inl e \<Rightarrow> returnP (info\<lparr>mi_CertificateError := ne_text env e\<rparr>) | Inr _ \<Rightarrow> ManagedDomainInfoFor env ports domain)"

definition Domain_List :: "network_env \<Rightarrow> network_ports \<Rightarrow> string \<Rightarrow> string \<Rightarrow> (domain_refusal, ManagedDomainInfo list) network_proc" where
  "Domain_List env ports unassigned environment_query =
     (if unassigned = ''true'' then bindP (failing_as DomainStore (Service_ListUnassignedManagedDomains env ports)) (domain_infos env ports)
      else case OptionalID (TrimSpace environment_query) of
        None \<Rightarrow> failP DomainEnvironmentIDInvalid
      | Some i \<Rightarrow> bindP (failing_as DomainStore (Service_ListManagedDomains env ports [i])) (domain_infos env ports))"

definition Domain_Create :: "network_env \<Rightarrow> network_ports \<Rightarrow> domainRequest option \<Rightarrow> (domain_refusal, ManagedDomainInfo) network_proc" where
  "Domain_Create env ports body =
     (case body of
        None \<Rightarrow> failP DomainRequestInvalid
      | Some req \<Rightarrow>
          bindP (failing_as DomainInvalid (domainEnvironment env ports (dq_EnvironmentID req))) (\<lambda>environment.
          case domainFromRequest req None environment of
            Inl e \<Rightarrow> failP (DomainInvalid e)
          | Inr domain \<Rightarrow>
              bindP (failing_as DomainInvalid (validateManagedDomainPrerequisites env ports domain)) (\<lambda>_.
              bindP (failing_as (\<lambda>_. DomainConflict) (Service_CreateManagedDomain env ports domain)) (\<lambda>row.
              bindP (failing_as DomainStore (Service_UpdateManagedDomain env ports (assignManagedCertificateNames row))) (\<lambda>domain.
              bindP (ManagedDomainInfoFor env ports domain) (\<lambda>info. ensure_and_show env ports domain info))))))"

definition Domain_ListImportableCertificates :: "network_env \<Rightarrow> network_ports \<Rightarrow> string \<Rightarrow> (domain_refusal, CertInfo list) network_proc" where
  "Domain_ListImportableCertificates env ports environment_query =
     (case OptionalID (TrimSpace environment_query) of
        None \<Rightarrow> failP DomainEnvironmentIDInvalid
      | Some i \<Rightarrow>
          if i = 0 then failP DomainEnvironmentIDInvalid
          else bindP (failing_as DomainInvalid (domainEnvironment env ports i)) (\<lambda>environment.
            if \<not> np_k8s ports \<or> \<not> np_available ports then failP DomainClusterMissing
            else bindP (failing_as DomainCluster (Service_ListCertificatesContext env ports)) (\<lambda>certificates.
              returnP (filter (\<lambda>c. cf_Namespace c = en_Namespace environment \<and> importableCertificate c) certificates))))"

definition Domain_ListClaimable :: "network_env \<Rightarrow> network_ports \<Rightarrow> string \<Rightarrow> (domain_refusal, ManagedDomainInfo list) network_proc" where
  "Domain_ListClaimable env ports environment_query =
     (case OptionalID (TrimSpace environment_query) of
        None \<Rightarrow> failP DomainEnvironmentIDInvalid
      | Some i \<Rightarrow>
          if i = 0 then failP DomainEnvironmentIDInvalid
          else bindP (failing_as DomainInvalid (domainEnvironment env ports i)) (\<lambda>environment.
            bindP (failing_as DomainStore (Service_ListClaimableManagedDomains env ports (en_Namespace environment))) (domain_infos env ports)))"

definition imported_domain :: "Environment \<Rightarrow> CertInfo \<Rightarrow> importCertificateRequest \<Rightarrow> ManagedDomain" where
  "imported_domain environment c req =
     \<lparr>md_ID = 0, md_Hostname = ToLower (hd (cf_Domains c)), md_EnvironmentID = en_ID environment, md_Namespace = en_Namespace environment,
      md_CertificateName = cf_Name c, md_TLSSecretName = cf_SecretName c, md_IssuerRef = cf_Issuer c,
      md_IssuerKind = (if cf_IssuerKind c = [] then ''ClusterIssuer'' else cf_IssuerKind c), md_CertificateOwnership = ''imported'',
      md_Description = TrimSpace (ic_Description req), md_Enabled = ic_Enabled req, md_CreatedAt = zero_time, md_UpdatedAt = zero_time\<rparr>"

definition Domain_ImportCertificate :: "network_env \<Rightarrow> network_ports \<Rightarrow> importCertificateRequest option \<Rightarrow> (domain_refusal, ManagedDomainInfo) network_proc" where
  "Domain_ImportCertificate env ports body =
     (case body of
        None \<Rightarrow> failP DomainRequestInvalid
      | Some req \<Rightarrow>
          if TrimSpace (ic_CertificateName req) = [] then failP DomainRequestInvalid
          else bindP (failing_as DomainInvalid (domainEnvironment env ports (ic_EnvironmentID req))) (\<lambda>environment.
            if \<not> np_k8s ports \<or> \<not> np_available ports then failP DomainClusterMissing
            else bindP (failing_as (\<lambda>e. if e = Kube KNotFound then CertificateMissing else DomainCluster e)
                (Service_GetCertificateContext env ports (en_Namespace environment) (TrimSpace (ic_CertificateName req)))) (\<lambda>certificate.
              if \<not> importableCertificate certificate then failP CertificateNotImportable
              else tryP (Service_GetManagedDomainByHostname env ports (ToLower (hd (cf_Domains certificate)))) (\<lambda>r. case r of
                Inr existing \<Rightarrow> failP (if md_EnvironmentID existing = 0 \<and> md_Namespace existing = en_Namespace environment then HistoricDomain else DomainConflict)
              | Inl e \<Rightarrow>
                  if e \<noteq> NetDB ErrRecordNotFound then failP (DomainStore e)
                  else bindP (failing_as (\<lambda>_. DomainConflict) (Service_CreateManagedDomain env ports (imported_domain environment certificate req))) (\<lambda>row.
                    ManagedDomainInfoFor env ports row)))))"

definition Domain_Claim :: "network_env \<Rightarrow> network_ports \<Rightarrow> string \<Rightarrow> nat option \<Rightarrow> (domain_refusal, ManagedDomainInfo) network_proc" where
  "Domain_Claim env ports id_param body =
     bindP (managedDomain env ports id_param) (\<lambda>domain.
       case body of
         None \<Rightarrow> failP DomainRequestInvalid
       | Some environmentID \<Rightarrow>
           bindP (failing_as DomainInvalid (domainEnvironment env ports environmentID)) (\<lambda>environment.
             if md_EnvironmentID domain \<noteq> 0 then failP DomainClaimed
             else if md_Namespace domain = [] \<or> md_Namespace domain \<noteq> en_Namespace environment then failP ClaimNamespaceDiffers
             else bindP (failing_as DomainStore (Service_UpdateManagedDomain env ports (domain\<lparr>md_EnvironmentID := en_ID environment\<rparr>))) (\<lambda>row.
               ManagedDomainInfoFor env ports row)))"

definition update_domain :: "network_env \<Rightarrow> network_ports \<Rightarrow> ManagedDomain \<Rightarrow> (domain_refusal, ManagedDomainInfo) network_proc" where
  "update_domain env ports domain =
     bindP (if isImportedDomain domain then returnP () else failing_as DomainInvalid (validateManagedDomainPrerequisites env ports domain)) (\<lambda>_.
     bindP (failing_as (\<lambda>_. DomainConflict) (Service_UpdateManagedDomain env ports (assignManagedCertificateNames domain))) (\<lambda>domain.
     bindP (ManagedDomainInfoFor env ports domain) (\<lambda>info.
       if isImportedDomain domain then returnP info else ensure_and_show env ports domain info)))"

definition Domain_Update :: "network_env \<Rightarrow> network_ports \<Rightarrow> string \<Rightarrow> domainRequest option \<Rightarrow> (domain_refusal, ManagedDomainInfo) network_proc" where
  "Domain_Update env ports id_param body =
     bindP (managedDomain env ports id_param) (\<lambda>current.
       case body of
         None \<Rightarrow> failP DomainRequestInvalid
       | Some req \<Rightarrow>
           bindP (failing_as DomainInvalid (domainEnvironment env ports (dq_EnvironmentID req))) (\<lambda>environment.
             case domainFromRequest req (Some current) environment of
               Inl e \<Rightarrow> failP (DomainInvalid e) | Inr domain \<Rightarrow> update_domain env ports domain))"

definition Domain_RetryCertificate :: "network_env \<Rightarrow> network_ports \<Rightarrow> string \<Rightarrow> (domain_refusal, ManagedDomainInfo) network_proc" where
  "Domain_RetryCertificate env ports id_param =
     bindP (managedDomain env ports id_param) (\<lambda>domain.
       if isImportedDomain domain then failP CertificateReadOnly
       else bindP (failing_as DomainInvalid (validateManagedDomainPrerequisites env ports domain)) (\<lambda>_.
         bindP (failing_as DomainInvalid (ensureManagedDomainCertificate env ports domain)) (\<lambda>_. ManagedDomainInfoFor env ports domain)))"

definition Domain_ListOperations :: "network_env \<Rightarrow> network_ports \<Rightarrow> string \<Rightarrow> (domain_refusal, CertificateOperation list) network_proc" where
  "Domain_ListOperations env ports id_param =
     bindP (managedDomain env ports id_param) (\<lambda>domain.
       if \<not> np_k8s ports \<or> md_Namespace domain = [] \<or> md_CertificateName domain = [] then failP DomainWithoutCertificate
       else failing_as DomainCluster (Service_ListCertificateOperationsContext env ports (md_Namespace domain) (md_CertificateName domain)))"

text \<open>What is gone already counts as deleted.\<close>

definition delete_domain_certificate :: "network_env \<Rightarrow> network_ports \<Rightarrow> ManagedDomain \<Rightarrow> (domain_refusal, unit) network_proc" where
  "delete_domain_certificate env ports domain =
     (if isImportedDomain domain \<or> \<not> np_k8s ports \<or> md_Namespace domain = [] \<or> md_CertificateName domain = [] then returnP ()
      else tryP (Service_DeleteCertificateContext env ports (md_Namespace domain) (md_CertificateName domain)) (\<lambda>r.
        if r \<noteq> Inr () \<and> r \<noteq> Inl (Kube KNotFound) then failP (DomainCluster (projl r))
        else if md_TLSSecretName domain = [] then returnP ()
        else tryP (delete_secret env (md_Namespace domain) (md_TLSSecretName domain)) (\<lambda>r. case r of
          Inl KNotFound \<Rightarrow> returnP () | Inl e \<Rightarrow> failP (DomainCluster (Kube e)) | Inr _ \<Rightarrow> returnP ())))"

definition Domain_Delete :: "network_env \<Rightarrow> network_ports \<Rightarrow> string \<Rightarrow> (domain_refusal, nat) network_proc" where
  "Domain_Delete env ports id_param =
     bindP (managedDomain env ports id_param) (\<lambda>domain.
     bindP (failing_as DomainStore (Service_CountApplicationEndpointsByDomain env ports (md_ID domain))) (\<lambda>count.
       case ValidateDomainDeletion count of
         Some e \<Rightarrow> failP (DomainInUse e)
       | None \<Rightarrow>
           bindP (delete_domain_certificate env ports domain) (\<lambda>_.
           bindP (failing_as DomainStore (Service_DeleteManagedDomain env ports (md_ID domain))) (\<lambda>_. returnP (md_ID domain)))))"

section \<open>Steps that only look\<close>

lemma workspace_extend_truncate: "workspace_db.extend (workspace_db.truncate r) (workspace_db.more r) = r"
  by (cases r) (simp add: workspace_db.defs)

lemma storage_extend_truncate: "storage_db.extend (storage_db.truncate r) (storage_db.more r) = r"
  by (cases r) (simp add: storage_db.defs)

lemma keeps_same: "keeps (=) m \<Longrightarrow> m w = (r, w') \<Longrightarrow> db w' = db w"
  by (metis keepsD snd_conv)

lemma keeps_on_workspace_same: "keeps (=) m \<Longrightarrow> keeps (=) (on_workspace m)"
  by (auto simp: keeps_def [of _ "on_workspace m"] on_workspace_def workspace_extend_truncate dest: keeps_same split: prod.splits)

lemma keeps_on_storage_same: "keeps (=) m \<Longrightarrow> keeps (=) (on_storage m)"
  by (auto simp: keeps_def [of _ "on_storage m"] on_storage_def storage_extend_truncate dest: keeps_same split: prod.splits)

lemma looks_store [looks]: "only A (=) (store_env (db_read fault f))" "only A (=) (store_env (on_workspace (db_read fault f')))"
  unfolding store_env_def
  by (intro same.only_on_store keeps_on_storage_same keeps_on_workspace_same same.keeps_read)+

lemma looks_stored: "keeps (=) m \<Longrightarrow> only A (=) (stored ports m)"
  unfolding stored_def by (intro same.only_intros same.only_on_store)

lemma looks_environment [looks]: "only A (=) (domainEnvironment env ports i)"
  unfolding domainEnvironment_def Service_ResolveEnvironment_def GetEnvironmentByID_def IsEnvironmentNamespaceConflicted_def
  by (intro same.only_intros looks)

lemma looks_count [looks]: "only A (=) (Service_CountApplicationEndpointsByDomain env ports i)"
  unfolding Service_CountApplicationEndpointsByDomain_def CountApplicationEndpointsByDomain_def
  by (intro looks_stored keeps_on_storage_same keeps_on_workspace_same same.keeps_read)

lemma looks_info [looks]: "only looking (=) (ManagedDomainInfoFor env ports x)"
  unfolding ManagedDomainInfoFor_def Let_def by (intro same.only_intros looks)

lemma looks_prerequisites [looks]: "only looking (=) (validateManagedDomainPrerequisites env ports x)"
  unfolding validateManagedDomainPrerequisites_def ValidateManagedDomainPrerequisites_def by (intro same.only_intros looks)

lemma looks_domain_reads [looks]: "only A (=) (Service_GetManagedDomain env ports i)" "only A (=) (Service_GetManagedDomainByHostname env ports h)"
  unfolding Service_GetManagedDomain_def Service_GetManagedDomainByHostname_def GetManagedDomain_def GetManagedDomainByHostname_def
  by (intro looks_stored same.keeps_read)+

lemma looks_service_certificate [looks]: "only looking (=) (Service_GetCertificateContext env ports ns name)"
  unfolding Service_GetCertificateContext_def certified_def by (intro same.only_intros looks)

text \<open>The events that concern the certificate of a domain.\<close>

definition cert_event :: "ManagedDomain \<Rightarrow> network_event \<Rightarrow> bool" where
  "cert_event x e =
     (case e of
        NCreate g ns obj \<Rightarrow> g = Certificates \<and> ns = md_Namespace x \<and> obj = certificateObject (domain_certificate x)
      | NUpdate g ns obj \<Rightarrow> g = Certificates \<and> ns = md_Namespace x \<and> (\<exists>v. obj = with_version v (certificateObject (domain_certificate x)))
      | NDelete g ns n \<Rightarrow> g = Certificates \<and> ns = md_Namespace x \<and> n = md_CertificateName x
      | NDeleteSecret ns n \<Rightarrow> ns = md_Namespace x \<and> n = md_TLSSecretName x
      | _ \<Rightarrow> False)"

definition domain_event :: "ManagedDomain \<Rightarrow> network_event \<Rightarrow> bool" where
  "domain_event x e \<longleftrightarrow> looking e \<or> cert_event x e"

lemma only_domain_event: "only looking (=) m \<Longrightarrow> only (domain_event x) (=) m"
  by (erule only_mono) (simp_all add: domain_event_def)

lemma ensure_events: "only (domain_event x) (=) (ensureManagedDomainCertificate env ports x)"
proof -
  have fix_it: "only (domain_event x) (=) (failing_as Kube (case r of
           Inl KNotFound \<Rightarrow> kube_create env Certificates (cr_Namespace (domain_certificate x)) (certificateObject (domain_certificate x))
         | Inl e \<Rightarrow> failP e
         | Inr existing \<Rightarrow> kube_update env Certificates (cr_Namespace (domain_certificate x)) (with_version (resource_version existing) (certificateObject (domain_certificate x)))))" for r
    unfolding kube_create_def kube_update_def
    by (rule same.only_failing_as)
      (auto intro!: same.only_ask same.only_failP simp: domain_event_def cert_event_def domain_certificate_def split: sum.splits kube_error.splits)
  show ?thesis
    unfolding ensureManagedDomainCertificate_def Service_EnsureCertificateContext_def certified_def EnsureCertificateContext_def
    by (intro same.only_intros looks only_domain_event [OF looks_get] fix_it)
qed

lemma show_events: "only (domain_event x) (=) (ensure_and_show env ports x info)"
  unfolding ensure_and_show_def by (intro same.only_intros ensure_events only_domain_event looks)

lemma delete_events: "only (domain_event x) (=) (delete_domain_certificate env ports x)"
proof -
  have gone: "only (domain_event x) (=) (delete_secret env (md_Namespace x) (md_TLSSecretName x))"
    unfolding delete_secret_def by (rule same.only_ask) (simp add: domain_event_def cert_event_def)
  have cert: "only (domain_event x) (=) (Service_DeleteCertificateContext env ports (md_Namespace x) (md_CertificateName x))"
    unfolding Service_DeleteCertificateContext_def certified_def DeleteCertificateContext_def kube_delete_def
    by (intro same.only_intros looks same.only_ask) (simp add: domain_event_def cert_event_def)
  show ?thesis
    unfolding delete_domain_certificate_def
    by (auto intro!: same.only_intros gone cert split: sum.splits kube_error.splits)
qed

end
