(* ===== verification/Network_Domain_Safety.thy ===== *)
theory Network_Domain_Safety
  imports Network_Domains Storage_Tasks
begin

text \<open>
  What the requests about domains do to the stored rows and to the cluster, whatever the database and the API
  server answer.
\<close>

section \<open>Host names that are stored\<close>

definition stored_host :: "string \<Rightarrow> bool" where
  "stored_host h \<longleftrightarrow> ValidateHostname h \<and> \<not> HasPrefix h ''*.''"

lemma split_on_covers: "c \<in> set s \<Longrightarrow> c = x \<or> (\<exists>p \<in> set (split_on x s). c \<in> set p)"
  by (induction s) (auto split: list.splits)

lemma hostname_plain:
  assumes "hostname_char c \<or> c = CHR ''.''"
  shows "c \<notin> space_bytes" and "lower_char c = c" and "c \<le> CHR 0x7F"
  using assms by (auto simp: hostname_char_def is_lower_def is_digit_def lower_char_def less_eq_char_def space_bytes_def space_runes_def)

lemma one_char_edges: "l \<noteq> [] \<Longrightarrow> prefix [c] l \<longleftrightarrow> hd l = c" "l \<noteq> [] \<Longrightarrow> suffix [c] l \<longleftrightarrow> last l = c"
  by (cases l; simp; blast) (cases l rule: rev_cases; simp add: suffix_to_prefix; blast)

lemma imported_host:
  assumes "validManagedHostname h"
  shows "stored_host h"
proof -
  have "hostname_char c \<or> c = CHR ''.''" if "c \<in> set h" for c
    using assms split_on_covers [OF that, of "CHR ''.''"] by (auto simp: validManagedHostname_def list_all_iff)
  note plain = hostname_plain [OF this]
  have "ToLower h = h" using plain by (simp add: ToLower_ascii ascii_def list_all_iff map_idI)
  moreover have "TrimSpace h = h" using plain by (intro TrimSpace_plain) auto
  ultimately show ?thesis
    using assms by (auto simp: validManagedHostname_def stored_host_def ValidateHostname_def Let_def list_all_iff one_char_edges)
qed

section \<open>Evolution of the rows\<close>

definition domains_wf :: "network_db \<Rightarrow> bool" where
  "domains_wf d \<longleftrightarrow> distinct (map md_ID (nd_domains d)) \<and> distinct (map md_Hostname (nd_domains d)) \<and>
     list_all (\<lambda>x. md_ID x \<le> nd_seq d Domains \<and> stored_host (md_Hostname x)) (nd_domains d)"

text \<open>
  Once set, the environment, the certificate and its Secret of a row stay; its ownership never changes. The tables of
  the other components stay as they are.
\<close>

definition bound_like :: "ManagedDomain \<Rightarrow> ManagedDomain \<Rightarrow> bool" where
  "bound_like x y \<longleftrightarrow> md_ID y = md_ID x \<and> md_CertificateOwnership y = md_CertificateOwnership x \<and>
     (md_EnvironmentID x \<noteq> 0 \<longrightarrow> md_EnvironmentID y = md_EnvironmentID x) \<and>
     (md_CertificateName x \<noteq> [] \<longrightarrow> md_CertificateName y = md_CertificateName x) \<and>
     (md_TLSSecretName x \<noteq> [] \<longrightarrow> md_TLSSecretName y = md_TLSSecretName x)"

definition domain_evolution :: "network_db \<Rightarrow> network_db \<Rightarrow> bool" where
  "domain_evolution d d' \<longleftrightarrow> storage_db.truncate d' = storage_db.truncate d \<and> (domains_wf d \<longrightarrow> domains_wf d' \<and> nd_seq d Domains \<le> nd_seq d' Domains \<and>
     list_all (\<lambda>y. md_ID y > nd_seq d Domains \<or> list_ex (\<lambda>x. bound_like x y) (nd_domains d)) (nd_domains d'))"

lemma bound_like_refl [simp]: "bound_like x x"
  by (simp add: bound_like_def)

lemma bound_like_trans: "bound_like x y \<Longrightarrow> bound_like y z \<Longrightarrow> bound_like x z"
  by (auto simp: bound_like_def)

interpretation de: data_evolution domain_evolution
proof
  fix d d' d'' :: network_db
  have "\<exists>x\<in>set (nd_domains d). bound_like x y" if "y \<in> set (nd_domains d)" for y
    using that bound_like_refl by blast
  then show "domain_evolution d d" by (auto simp: domain_evolution_def list_all_iff list_ex_iff)
  assume 1: "domain_evolution d d'" and 2: "domain_evolution d' d''"
  show "domain_evolution d d''"
    unfolding domain_evolution_def
  proof (intro impI conjI)
    show "storage_db.truncate d'' = storage_db.truncate d" using 1 2 by (simp add: domain_evolution_def)
    assume wf: "domains_wf d"
    with 1 have wf': "domains_wf d'" and le: "nd_seq d Domains \<le> nd_seq d' Domains"
      and from1: "\<And>y. y \<in> set (nd_domains d') \<Longrightarrow> md_ID y > nd_seq d Domains \<or> (\<exists>x\<in>set (nd_domains d). bound_like x y)"
      by (auto simp: domain_evolution_def list_all_iff list_ex_iff)
    with 2 have le': "nd_seq d' Domains \<le> nd_seq d'' Domains"
      and from2: "\<And>y. y \<in> set (nd_domains d'') \<Longrightarrow> md_ID y > nd_seq d' Domains \<or> (\<exists>x\<in>set (nd_domains d'). bound_like x y)"
      by (auto simp: domain_evolution_def list_all_iff list_ex_iff)
    show "domains_wf d''" using 2 wf' by (simp add: domain_evolution_def)
    show "nd_seq d Domains \<le> nd_seq d'' Domains" using le le' by simp
    have "md_ID z > nd_seq d Domains \<or> (\<exists>x\<in>set (nd_domains d). bound_like x z)" if "z \<in> set (nd_domains d'')" for z
    proof (cases "md_ID z > nd_seq d' Domains")
      case False
      with from2 [OF that] obtain y where y: "y \<in> set (nd_domains d')" "bound_like y z" by blast
      have "md_ID z = md_ID y" using y(2) by (simp add: bound_like_def)
      with from1 [OF y(1)] show ?thesis using bound_like_trans [OF _ y(2)] by auto
    qed (use le in simp)
    then show "list_all (\<lambda>y. md_ID y > nd_seq d Domains \<or> list_ex (\<lambda>x. bound_like x y) (nd_domains d)) (nd_domains d'')"
      by (simp add: list_all_iff list_ex_iff)
  qed
qed

text \<open>The data after a row was saved.\<close>

definition saved_domain :: "ManagedDomain \<Rightarrow> network_db \<Rightarrow> network_db" where
  "saved_domain row d = note_network_id Domains (md_ID row) (d\<lparr>nd_domains := tbl_save md_ID row (nd_domains d)\<rparr>)"

definition host_free :: "ManagedDomain \<Rightarrow> network_db \<Rightarrow> bool" where
  "host_free row d \<longleftrightarrow> list_all (\<lambda>x. md_ID x \<noteq> md_ID row \<longrightarrow> md_Hostname x \<noteq> md_Hostname row) (nd_domains d)"

lemma tbl_save_member: "r \<in> set (tbl_save key r rows)"
  by (induction rows) auto

lemma tbl_save_append: "(\<forall>x\<in>set rows. key x \<noteq> key r) \<Longrightarrow> tbl_save key r rows = rows @ [r]"
  by (induction rows) auto

lemma tbl_save_distinct_field:
  assumes "distinct (map f rows)" and "distinct (map key rows)" and "\<And>x. x \<in> set rows \<Longrightarrow> key x \<noteq> key r \<Longrightarrow> f x \<noteq> f r"
  shows "distinct (map f (tbl_save key r rows))"
  using assms
proof (induction rows)
  case (Cons x rows)
  then show ?case
  proof (cases "key x = key r")
    case True
    then have "\<And>y. y \<in> set rows \<Longrightarrow> key y \<noteq> key r" using Cons.prems(2) by (auto simp: image_iff)
    with Cons.prems True show ?thesis by (auto simp: image_iff) metis
  next
    case False
    with Cons show ?thesis by (auto simp: image_iff dest!: tbl_save_in)
  qed
qed simp

lemma saved_wf:
  assumes "domains_wf d" and "host_free row d" and "stored_host (md_Hostname row)"
  shows "domains_wf (saved_domain row d)"
proof -
  let ?d = "saved_domain row d"
  have rows: "nd_domains ?d = tbl_save md_ID row (nd_domains d)" and seq: "nd_seq ?d Domains = max (nd_seq d Domains) (md_ID row)"
    by (simp_all add: saved_domain_def note_network_id_def)
  have "distinct (map md_ID (nd_domains ?d))" using assms(1) by (simp add: rows tbl_save_distinct domains_wf_def)
  moreover have "distinct (map md_Hostname (nd_domains ?d))"
    unfolding rows by (rule tbl_save_distinct_field) (use assms(1,2) in \<open>auto simp: domains_wf_def host_free_def list_all_iff\<close>)
  moreover have "md_ID x \<le> nd_seq ?d Domains \<and> stored_host (md_Hostname x)" if "x \<in> set (nd_domains ?d)" for x
    using tbl_save_in [of x md_ID row "nd_domains d"] that assms(1,3) by (auto simp: rows seq domains_wf_def list_all_iff)
  ultimately show ?thesis by (simp add: domains_wf_def list_all_iff)
qed

lemma saved_evolution:
  assumes "host_free row d" and "domains_wf d \<Longrightarrow> stored_host (md_Hostname row)"
    and "md_ID row > nd_seq d Domains \<or> (\<exists>x \<in> set (nd_domains d). bound_like x row)"
  shows "domain_evolution d (saved_domain row d)"
proof -
  have "md_ID y > nd_seq d Domains \<or> (\<exists>x \<in> set (nd_domains d). bound_like x y)" if "y \<in> set (tbl_save md_ID row (nd_domains d))" for y
    using tbl_save_in [OF that] assms(3) by (auto intro: bound_like_refl)
  then show ?thesis
    using saved_wf [OF _ assms(1)] assms(2)
    by (auto simp: domain_evolution_def saved_domain_def note_network_id_def storage_db.defs list_all_iff list_ex_iff)
qed

section \<open>States of a request\<close>

definition ended :: "(network_event \<Rightarrow> bool) \<Rightarrow> network_db \<Rightarrow> network_event list \<Rightarrow> network_state \<Rightarrow> bool" where
  "ended A d t s \<longleftrightarrow> db (sn_world s) = d \<and> (\<exists>es. sn_trace s = t @ es \<and> list_all A es)"

lemma ended_only:
  assumes "only A (=) m" and "\<And>e. B e \<Longrightarrow> A e"
  shows "triple (ended B d t) m (\<lambda>_. ended A d t)"
proof (rule tripleI)
  fix s r s'
  assume s: "ended B d t s" and m: "m s = (r, s')"
  obtain es where "sn_trace s = t @ es" "list_all B es" "db (sn_world s) = d" using s by (auto simp: ended_def)
  moreover obtain es' where "sn_trace s' = sn_trace s @ es'" "list_all A es'" "db (sn_world s) = db (sn_world s')" using assms(1) m by (rule onlyE)
  ultimately show "ended A d t s'" using assms(2) by (auto simp: ended_def list_all_iff)
qed

lemma ended_keep: "only looking (=) m \<Longrightarrow> triple (ended looking d t) m (\<lambda>_. ended looking d t)"
  by (rule ended_only) simp_all

lemma ended_mono: "ended A d t s \<Longrightarrow> (\<And>e. A e \<Longrightarrow> B e) \<Longrightarrow> ended B d t s"
  unfolding ended_def by (metis list.pred_mono_strong)

lemma update_saves:
  assumes "md_ID x \<noteq> 0"
  shows "triple (ended A d t) (Service_UpdateManagedDomain env ports x)
    (\<lambda>r s. case r of Inl _ \<Rightarrow> ended A d t s
      | Inr row \<Rightarrow> (\<exists>now. row = x\<lparr>md_UpdatedAt := now\<rparr>) \<and> host_free row d \<and> ended A (saved_domain row d) t s)"
  by (rule tripleI)
    (use assms in \<open>auto simp: Service_UpdateManagedDomain_def stored_def failing_as_def tryP_def failP_def returnP_def on_store_def UpdateManagedDomain_def db_call_def Let_def
      ended_def saved_domain_def host_free_def list_ex_iff list_all_iff split: if_splits sum.splits prod.splits\<close>)

lemma create_saves:
  assumes "md_ID x = 0"
  shows "triple (ended A d t) (Service_CreateManagedDomain env ports x)
    (\<lambda>r s. case r of Inl _ \<Rightarrow> ended A d t s
      | Inr row \<Rightarrow> (\<exists>now. row = stored_domain now d x) \<and> md_ID row \<notin> md_ID ` set (nd_domains d) \<and> host_free row d \<and> ended A (saved_domain row d) t s)"
  by (rule tripleI)
    (use assms in \<open>auto simp: Service_CreateManagedDomain_def stored_def failing_as_def tryP_def failP_def returnP_def on_store_def CreateManagedDomain_def db_call_def Let_def
      ended_def saved_domain_def host_free_def list_ex_iff list_all_iff tbl_save_append image_iff split: if_splits sum.splits prod.splits\<close>)

lemma delete_removes:
  "triple (ended A d t) (Service_DeleteManagedDomain env ports i)
    (\<lambda>r s. case r of Inl _ \<Rightarrow> ended A d t s | Inr _ \<Rightarrow> ended A (d\<lparr>nd_domains := filter (\<lambda>x. md_ID x \<noteq> i) (nd_domains d)\<rparr>) t s)"
  by (rule tripleI)
    (auto simp: Service_DeleteManagedDomain_def stored_def failing_as_def tryP_def failP_def returnP_def on_store_def DeleteManagedDomain_def db_write_def db_call_def
      ended_def split: if_splits sum.splits prod.splits)

lemma ended_bind:
  assumes "only looking (=) m" and "\<And>x. triple (ended looking d t) (f x) Q" and "\<And>e s. ended looking d t s \<Longrightarrow> Q (Inl e) s"
  shows "triple (ended looking d t) (bindP m f) Q"
  by (rule triple_bindP [OF ended_keep [OF assms(1)] assms(2)]) (use assms(3) in auto)

lemma ParsePositiveID_pos: "ParsePositiveID v = Some i \<Longrightarrow> i \<noteq> 0"
  by (auto simp: ParsePositiveID_def split: option.splits if_splits)

lemma named_domain:
  "triple (ended looking d t) (managedDomain env ports p)
    (\<lambda>r s. case r of Inl _ \<Rightarrow> ended looking d t s
      | Inr x \<Rightarrow> ended looking d t s \<and> x \<in> set (nd_domains d) \<and> ParsePositiveID (TrimSpace p) = Some (md_ID x) \<and> md_ID x \<noteq> 0)"
  by (rule tripleI)
    (auto simp: managedDomain_def Service_GetManagedDomain_def stored_def failing_as_def tryP_def failP_def returnP_def on_store_def GetManagedDomain_def db_read_def
      db_call_def ended_def dest: tbl_find_key ParsePositiveID_pos split: option.splits if_splits sum.splits prod.splits)

section \<open>Requests\<close>

datatype domain_call =
    CreateDomain "domainRequest option" | ImportCertificate "importCertificateRequest option" | ClaimDomain string "nat option"
  | UpdateDomain string "domainRequest option" | RetryCertificate string | DeleteDomain string

definition serve_domain :: "network_env \<Rightarrow> network_ports \<Rightarrow> domain_call \<Rightarrow> network_state \<Rightarrow> network_state" where
  "serve_domain env ports act s =
     (case act of
        CreateDomain body \<Rightarrow> snd (Domain_Create env ports body s)
      | ImportCertificate body \<Rightarrow> snd (Domain_ImportCertificate env ports body s)
      | ClaimDomain p body \<Rightarrow> snd (Domain_Claim env ports p body s)
      | UpdateDomain p body \<Rightarrow> snd (Domain_Update env ports p body s)
      | RetryCertificate p \<Rightarrow> snd (Domain_RetryCertificate env ports p s)
      | DeleteDomain p \<Rightarrow> snd (Domain_Delete env ports p s))"

text \<open>The row whose certificate a request may change: the new one, or the one named by the path.\<close>

definition concerns :: "domain_call \<Rightarrow> network_db \<Rightarrow> ManagedDomain \<Rightarrow> bool" where
  "concerns act d x =
     (case act of
        CreateDomain _ \<Rightarrow> md_ID x = Suc (nd_seq d Domains)
      | ImportCertificate _ \<Rightarrow> False
      | ClaimDomain _ _ \<Rightarrow> False
      | UpdateDomain p _ \<Rightarrow> ParsePositiveID (TrimSpace p) = Some (md_ID x)
      | RetryCertificate p \<Rightarrow> ParsePositiveID (TrimSpace p) = Some (md_ID x)
      | DeleteDomain p \<Rightarrow> ParsePositiveID (TrimSpace p) = Some (md_ID x))"

definition own_event :: "domain_call \<Rightarrow> network_db \<Rightarrow> network_db \<Rightarrow> network_event \<Rightarrow> bool" where
  "own_event act d d' e \<longleftrightarrow> looking e \<or>
     list_ex (\<lambda>x. \<not> isImportedDomain x \<and> concerns act d x \<and> cert_event x e) (nd_domains d @ nd_domains d')"

definition unreferenced :: "network_db \<Rightarrow> nat \<Rightarrow> bool" where
  "unreferenced d i \<longleftrightarrow> \<not> list_ex (\<lambda>e. ae_DomainID e = i) (rd_endpoints d)"

text \<open>A row goes only when it is deleted by its number, and no endpoint uses it.\<close>

definition rows_kept :: "domain_call \<Rightarrow> network_db \<Rightarrow> network_db \<Rightarrow> bool" where
  "rows_kept act d d' \<longleftrightarrow> list_all (\<lambda>x. md_ID x \<in> md_ID ` set (nd_domains d') \<or>
     (\<exists>p. act = DeleteDomain p \<and> ParsePositiveID (TrimSpace p) = Some (md_ID x) \<and> unreferenced d (md_ID x))) (nd_domains d)"

definition settled :: "domain_call \<Rightarrow> network_db \<Rightarrow> network_event list \<Rightarrow> network_state \<Rightarrow> bool" where
  "settled act d t s \<longleftrightarrow> domain_evolution d (db (sn_world s)) \<and> rows_kept act d (db (sn_world s)) \<and>
     (\<exists>es. sn_trace s = t @ es \<and> list_all (own_event act d (db (sn_world s))) es)"

lemma rows_kept_refl: "rows_kept act d d"
  by (simp add: rows_kept_def list_all_iff)

lemma rows_kept_save: "rows_kept act d d' \<Longrightarrow> rows_kept act d (saved_domain row d')"
  by (auto simp: rows_kept_def list_all_iff saved_domain_def note_network_id_def tbl_save_keys)

lemma finished_looking: "ended looking d' t s \<Longrightarrow> domain_evolution d d' \<Longrightarrow> rows_kept act d d' \<Longrightarrow> settled act d t s"
  unfolding ended_def settled_def own_event_def by (metis (mono_tags, lifting) list.pred_mono_strong)

lemma finished_unchanged [intro]: "ended looking d t s \<Longrightarrow> settled act d t s"
  by (erule finished_looking) (rule de.refl, rule rows_kept_refl)

lemma finished_events:
  assumes "ended (domain_event x) d' t s" and "domain_evolution d d'" and "rows_kept act d d'"
    and "x \<in> set (nd_domains d) \<union> set (nd_domains d')" and "\<not> isImportedDomain x" and "concerns act d x"
  shows "settled act d t s"
proof -
  have "own_event act d d' e" if "domain_event x e" for e
    using that assms(4-6) by (auto simp: domain_event_def own_event_def list_ex_iff)
  with assms(1-3) show ?thesis unfolding ended_def settled_def by (metis list.pred_mono_strong)
qed

lemma domain_only:
  assumes "only (domain_event x) (=) m"
  shows "triple (ended looking d t) m (\<lambda>_. ended (domain_event x) d t)"
  by (rule ended_only [OF assms]) (simp add: domain_event_def)

lemma saved_member: "row \<in> set (nd_domains (saved_domain row d))"
  by (simp add: saved_domain_def note_network_id_def tbl_save_member)

lemma update_then:
  assumes "md_ID x \<noteq> 0" and "\<And>e s. ended looking d t s \<Longrightarrow> Q (Inl (g e)) s"
    and "\<And>row now. row = x\<lparr>md_UpdatedAt := now\<rparr> \<Longrightarrow> host_free row d \<Longrightarrow> triple (ended looking (saved_domain row d) t) (f row) Q"
  shows "triple (ended looking d t) (bindP (failing_as g (Service_UpdateManagedDomain env ports x)) f) Q"
proof (rule triple_bindP)
  show "triple (ended looking d t) (failing_as g (Service_UpdateManagedDomain env ports x)) (\<lambda>r s. case r of Inl e \<Rightarrow> ended looking d t s \<and> (\<exists>e'. e = g e')
      | Inr row \<Rightarrow> (\<exists>now. row = x\<lparr>md_UpdatedAt := now\<rparr>) \<and> host_free row d \<and> ended looking (saved_domain row d) t s)"
    by (rule triple_failing_as [OF update_saves [OF assms(1)]]) auto
qed (use assms(2,3) in \<open>auto simp: triple_def\<close>)

lemma create_then:
  assumes "md_ID x = 0" and "\<And>e s. ended looking d t s \<Longrightarrow> Q (Inl (g e)) s"
    and "\<And>row now. row = stored_domain now d x \<Longrightarrow> host_free row d \<Longrightarrow> triple (ended looking (saved_domain row d) t) (f row) Q"
  shows "triple (ended looking d t) (bindP (failing_as g (Service_CreateManagedDomain env ports x)) f) Q"
proof (rule triple_bindP)
  show "triple (ended looking d t) (failing_as g (Service_CreateManagedDomain env ports x)) (\<lambda>r s. case r of Inl e \<Rightarrow> ended looking d t s \<and> (\<exists>e'. e = g e')
      | Inr row \<Rightarrow> (\<exists>now. row = stored_domain now d x) \<and> host_free row d \<and> ended looking (saved_domain row d) t s)"
    by (rule triple_failing_as [OF create_saves [OF assms(1)]]) auto
qed (use assms(2,3) in \<open>auto simp: triple_def\<close>)

lemma named_then:
  assumes "\<And>e s. ended looking d t s \<Longrightarrow> Q (Inl e) s"
    and "\<And>x. x \<in> set (nd_domains d) \<Longrightarrow> ParsePositiveID (TrimSpace p) = Some (md_ID x) \<Longrightarrow> md_ID x \<noteq> 0 \<Longrightarrow> triple (ended looking d t) (f x) Q"
  shows "triple (ended looking d t) (bindP (managedDomain env ports p) f) Q"
  by (rule triple_bindP [OF named_domain]) (use assms in \<open>auto simp: triple_def\<close>)

lemma show_finished:
  "domain_evolution d d' \<Longrightarrow> rows_kept act d d' \<Longrightarrow> triple (ended looking d' t) (ManagedDomainInfoFor env ports row) (\<lambda>_. settled act d t)"
  by (rule triple_post [OF ended_keep [OF looks_info]]) (rule finished_looking)

lemmas step_intros =
  triple_option triple_failP triple_if
  ended_bind [OF same.only_failing_as [OF looks_environment]] ended_bind [OF same.only_failing_as [OF looks_prerequisites]] ended_bind [OF looks_info]

lemmas request_intros = step_intros finished_unchanged

lemma claim_evolution:
  assumes "x \<in> set (nd_domains d)" and "md_EnvironmentID x = 0" and "row = x\<lparr>md_EnvironmentID := i, md_UpdatedAt := now\<rparr>" and "host_free row d"
  shows "domain_evolution d (saved_domain row d)"
proof (rule saved_evolution [OF assms(4)])
  show "stored_host (md_Hostname row)" if "domains_wf d"
    using that assms(1,3) by (auto simp: domains_wf_def list_all_iff)
  show "md_ID row > nd_seq d Domains \<or> (\<exists>x \<in> set (nd_domains d). bound_like x row)"
    using assms(1-3) by (intro disjI2 bexI [of _ x]) (auto simp: bound_like_def)
qed

lemma claim_finished:
  "triple (ended looking d t) (Domain_Claim env ports p body) (\<lambda>_. settled (ClaimDomain p body) d t)"
  unfolding Domain_Claim_def
  by (auto intro!: named_then update_then show_finished request_intros rows_kept_save rows_kept_refl intro: claim_evolution)

lemma retry_finished:
  "triple (ended looking d t) (Domain_RetryCertificate env ports p) (\<lambda>_. settled (RetryCertificate p) d t)"
  unfolding Domain_RetryCertificate_def
proof (intro named_then request_intros)
  fix x
  assume x: "x \<in> set (nd_domains d)" "ParsePositiveID (TrimSpace p) = Some (md_ID x)" "\<not> isImportedDomain x"
  have "only (domain_event x) (=) (bindP (failing_as DomainInvalid (ensureManagedDomainCertificate env ports x)) (\<lambda>_. ManagedDomainInfoFor env ports x))"
    by (intro same.only_intros ensure_events only_domain_event looks)
  from domain_only [OF this]
  show "triple (ended looking d t) (bindP (failing_as DomainInvalid (ensureManagedDomainCertificate env ports x)) (\<lambda>_. ManagedDomainInfoFor env ports x))
      (\<lambda>_. settled (RetryCertificate p) d t)"
    by (rule triple_post) (use x in \<open>auto intro: finished_events simp: de.refl rows_kept_refl concerns_def\<close>)
qed

lemma counted:
  "triple (ended A d t) (Service_CountApplicationEndpointsByDomain env ports i)
    (\<lambda>r s. ended A d t s \<and> (\<forall>n. r = Inr n \<longrightarrow> n = length (filter (\<lambda>e. ae_DomainID e = i) (rd_endpoints d))))"
proof (rule triple_and)
  show "triple (ended A d t) (Service_CountApplicationEndpointsByDomain env ports i) (\<lambda>r s. ended A d t s)"
    by (rule ended_only [OF looks_count])
  show "triple (ended A d t) (Service_CountApplicationEndpointsByDomain env ports i)
      (\<lambda>r s. \<forall>n. r = Inr n \<longrightarrow> n = length (filter (\<lambda>e. ae_DomainID e = i) (rd_endpoints d)))"
    by (rule tripleI)
      (auto simp: Service_CountApplicationEndpointsByDomain_def stored_def failing_as_def tryP_def failP_def returnP_def on_store_def on_storage_def on_workspace_def
        CountApplicationEndpointsByDomain_def db_read_def db_call_def ended_def storage_db.defs workspace_db.defs split: if_splits sum.splits prod.splits)
qed

lemma count_then:
  assumes "\<And>e s. ended looking d t s \<Longrightarrow> Q (Inl (g e)) s"
    and "\<And>n. n = length (filter (\<lambda>e. ae_DomainID e = i) (rd_endpoints d)) \<Longrightarrow> triple (ended looking d t) (f n) Q"
  shows "triple (ended looking d t) (bindP (failing_as g (Service_CountApplicationEndpointsByDomain env ports i)) f) Q"
proof (rule triple_bindP)
  show "triple (ended looking d t) (failing_as g (Service_CountApplicationEndpointsByDomain env ports i)) (\<lambda>r s. ended looking d t s \<and>
      (case r of Inl e \<Rightarrow> \<exists>e'. e = g e' | Inr n \<Rightarrow> n = length (filter (\<lambda>e. ae_DomainID e = i) (rd_endpoints d))))"
    by (rule triple_failing_as [OF counted]) auto
qed (use assms in \<open>auto simp: triple_def\<close>)

definition without_domain :: "nat \<Rightarrow> network_db \<Rightarrow> network_db" where
  "without_domain i d = d\<lparr>nd_domains := filter (\<lambda>x. md_ID x \<noteq> i) (nd_domains d)\<rparr>"

lemma without_evolution: "domain_evolution d (without_domain i d)"
proof -
  have "\<exists>x\<in>set (nd_domains d). bound_like x y" if "y \<in> set (nd_domains d)" for y using that bound_like_refl by blast
  then show ?thesis
    by (auto simp: domain_evolution_def without_domain_def domains_wf_def storage_db.defs list_all_iff list_ex_iff distinct_map_filter)
qed

lemma delete_finished:
  "triple (ended looking d t) (Domain_Delete env ports p) (\<lambda>_. settled (DeleteDomain p) d t)"
  unfolding Domain_Delete_def
proof (intro named_then count_then request_intros)
  fix x n
  assume x: "x \<in> set (nd_domains d)" "ParsePositiveID (TrimSpace p) = Some (md_ID x)" "md_ID x \<noteq> 0"
    and n: "n = length (filter (\<lambda>e. ae_DomainID e = md_ID x) (rd_endpoints d))" "ValidateDomainDeletion n = None"
  have free: "unreferenced d (md_ID x)"
    using n by (auto simp: unreferenced_def ValidateDomainDeletion_def list_ex_iff filter_empty_conv split: if_splits)
  define A where "A = (if isImportedDomain x then looking else domain_event x)"
  have "only A (=) (delete_domain_certificate env ports x)"
  proof (cases "isImportedDomain x")
    case False
    with delete_events show ?thesis by (simp add: A_def)
  qed (simp add: A_def delete_domain_certificate_def same.only_returnP)
  then have cert: "triple (ended looking d t) (delete_domain_certificate env ports x) (\<lambda>_. ended A d t)"
    by (rule ended_only) (simp add: A_def domain_event_def)
  have kept: "rows_kept (DeleteDomain p) d d'" if "d' = d \<or> d' = without_domain (md_ID x) d" for d'
    using that x free by (auto simp: rows_kept_def without_domain_def list_all_iff image_iff) metis
  have fin: "settled (DeleteDomain p) d t s" if "ended A d' t s" and d': "d' = d \<or> d' = without_domain (md_ID x) d" for d' s
  proof (cases "isImportedDomain x")
    case True
    with that show ?thesis by (intro finished_looking [OF _ _ kept [OF d']]) (auto simp: A_def de.refl without_evolution)
  next
    case False
    with that x show ?thesis
      by (intro finished_events [of x d' t s, OF _ _ kept [OF d']]) (auto simp: A_def de.refl without_evolution concerns_def)
  qed
  have removed: "triple (ended A d t) (failing_as DomainStore (Service_DeleteManagedDomain env ports (md_ID x))) (\<lambda>_. settled (DeleteDomain p) d t)"
    by (rule triple_failing_as [OF delete_removes]) (auto intro: fin simp: without_domain_def [symmetric])
  show "triple (ended looking d t) (bindP (delete_domain_certificate env ports x) (\<lambda>_.
      bindP (failing_as DomainStore (Service_DeleteManagedDomain env ports (md_ID x))) (\<lambda>_. returnP (md_ID x)))) (\<lambda>_. settled (DeleteDomain p) d t)"
    by (rule triple_bindP [OF cert triple_bindP [OF removed triple_returnP]]) (auto intro: fin)
qed

lemma built_domain:
  assumes "domainFromRequest req current e = Inr x"
  shows "stored_host (md_Hostname x)" and "current = None \<Longrightarrow> md_ID x = 0 \<and> \<not> isImportedDomain x"
    and "current = Some y \<Longrightarrow> bound_like y x"
  using assms
  by (auto simp: domainFromRequest_def BuildManagedDomain_def Let_def new_domain_def stored_host_def bound_like_def isImportedDomain_def
      currentCertificateName_def currentTLSSecretName_def split: if_splits option.splits)

lemma assigned_like: "bound_like y x \<Longrightarrow> bound_like y (assignManagedCertificateNames x)"
  by (auto simp: bound_like_def assignManagedCertificateNames_def Let_def)

lemma assigned_same [simp]: "md_ID (assignManagedCertificateNames x) = md_ID x" "md_Hostname (assignManagedCertificateNames x) = md_Hostname x"
  "isImportedDomain (assignManagedCertificateNames x) = isImportedDomain x"
  by (simp_all add: assignManagedCertificateNames_def Let_def isImportedDomain_def)

lemma touched_like: "bound_like y x \<Longrightarrow> bound_like y (x\<lparr>md_UpdatedAt := now\<rparr>)"
  by (auto simp: bound_like_def)

lemma touched_same [simp]: "isImportedDomain (x\<lparr>md_UpdatedAt := now\<rparr>) = isImportedDomain x"
  by (simp add: isImportedDomain_def)

lemma ensure_finished:
  assumes "domain_evolution d d'" and "rows_kept act d d'" and "x \<in> set (nd_domains d')" and "\<not> isImportedDomain x" and "concerns act d x"
  shows "triple (ended looking d' t) (ensure_and_show env ports x info) (\<lambda>_. settled act d t)"
  by (rule triple_post [OF domain_only [OF show_events]]) (use assms in \<open>auto intro: finished_events\<close>)

lemma update_finished:
  "triple (ended looking d t) (Domain_Update env ports p body) (\<lambda>_. settled (UpdateDomain p body) d t)"
  unfolding Domain_Update_def
proof (intro named_then request_intros triple_sum)
  fix y req e x
  assume y: "y \<in> set (nd_domains d)" "ParsePositiveID (TrimSpace p) = Some (md_ID y)" "md_ID y \<noteq> 0"
    and x: "domainFromRequest req (Some y) e = Inr x"
  note like = built_domain(3) [OF x refl] and host = built_domain(1) [OF x]
  then have id: "md_ID x = md_ID y" by (simp add: bound_like_def)
  have saved: "domain_evolution d (saved_domain row d)" if "row = (assignManagedCertificateNames x)\<lparr>md_UpdatedAt := now\<rparr>" "host_free row d" for row now
    using that host y(1) touched_like [OF assigned_like [OF like]] by (intro saved_evolution) auto
  have "triple (ended looking d t) (bindP (failing_as (\<lambda>_. DomainConflict) (Service_UpdateManagedDomain env ports (assignManagedCertificateNames x))) (\<lambda>x.
      bindP (ManagedDomainInfoFor env ports x) (\<lambda>info. if isImportedDomain x then returnP info else ensure_and_show env ports x info)))
      (\<lambda>_. settled (UpdateDomain p body) d t)"
    using y(2,3) id
    by (intro update_then step_intros triple_returnP ensure_finished)
      (auto intro: finished_looking saved rows_kept_save rows_kept_refl saved_member simp: concerns_def)
  then show "triple (ended looking d t) (update_domain env ports x) (\<lambda>_. settled (UpdateDomain p body) d t)"
    unfolding update_domain_def by (rule ended_bind [rotated]) (auto intro!: same.only_intros looks)
qed

text \<open>A created row has the next number.\<close>

lemma created_fields:
  assumes "md_ID x = 0" and "row = stored_domain now d x" and "md_CertificateOwnership x \<noteq> []"
  shows "md_ID row = Suc (nd_seq d Domains)" and "md_Hostname row = md_Hostname x" and "isImportedDomain row = isImportedDomain x"
  using assms by (auto simp: stored_domain_def network_id_def isImportedDomain_def)

lemma created_evolution:
  assumes "md_ID x = 0" and "row = stored_domain now d x" and "stored_host (md_Hostname x)" and "host_free row d" and "md_CertificateOwnership x \<noteq> []"
  shows "domain_evolution d (saved_domain row d)"
  using assms(3,4) created_fields [OF assms(1,2,5)] by (intro saved_evolution) auto

lemma import_finished:
  "triple (ended looking d t) (Domain_ImportCertificate env ports body) (\<lambda>_. settled (ImportCertificate body) d t)"
proof -
  have save: "triple (ended looking d t) (bindP (failing_as (\<lambda>_. DomainConflict) (Service_CreateManagedDomain env ports (imported_domain e c req))) (ManagedDomainInfoFor env ports))
      (\<lambda>_. settled (ImportCertificate body) d t)" if "importableCertificate c" for e c req
  proof (rule create_then)
    fix row now
    assume row: "row = stored_domain now d (imported_domain e c req)" "host_free row d"
    have "domain_evolution d (saved_domain row d)"
      by (rule created_evolution [OF _ row(1) _ row(2)]) (use that in \<open>simp_all add: imported_domain_def importableCertificate_def imported_host\<close>)
    then show "triple (ended looking (saved_domain row d) t) (ManagedDomainInfoFor env ports row) (\<lambda>_. settled (ImportCertificate body) d t)"
      by (rule show_finished) (intro rows_kept_save rows_kept_refl)
  qed (simp_all add: imported_domain_def finished_unchanged)
  show ?thesis
    unfolding Domain_ImportCertificate_def
    by (intro request_intros ended_bind [OF same.only_failing_as [OF looks_service_certificate]]
        triple_tryP [OF ended_keep [OF looks_domain_reads(2)]] triple_sum save) simp_all
qed

lemma create_finished:
  "triple (ended looking d t) (Domain_Create env ports body) (\<lambda>_. settled (CreateDomain body) d t)"
  unfolding Domain_Create_def
proof (intro request_intros triple_sum create_then)
  fix req e x row now
  assume x: "domainFromRequest req None e = Inr x" and row: "row = stored_domain now d x" "host_free row d"
  note built = built_domain(1) [OF x] built_domain(2) [OF x refl]
  have named: "md_CertificateOwnership x \<noteq> []"
    using x by (auto simp: domainFromRequest_def BuildManagedDomain_def Let_def new_domain_def split: if_splits)
  note created = created_fields [OF _ row(1) named]
  have first: "domain_evolution d (saved_domain row d)"
    using built row named by (intro created_evolution) auto
  have second: "domain_evolution d (saved_domain row' (saved_domain row d))"
    if "row' = (assignManagedCertificateNames row)\<lparr>md_UpdatedAt := now'\<rparr>" "host_free row' (saved_domain row d)" for row' now'
  proof (rule de.trans [OF first saved_evolution])
    show "host_free row' (saved_domain row d)" by (rule that)
    show "stored_host (md_Hostname row')" using built created that by simp
    have "bound_like row row'" unfolding that(1) by (intro touched_like assigned_like bound_like_refl)
    then show "md_ID row' > nd_seq (saved_domain row d) Domains \<or> (\<exists>x \<in> set (nd_domains (saved_domain row d)). bound_like x row')"
      using saved_member by blast
  qed
  show "triple (ended looking (saved_domain row d) t)
      (bindP (failing_as DomainStore (Service_UpdateManagedDomain env ports (assignManagedCertificateNames row))) (\<lambda>domain.
       bindP (ManagedDomainInfoFor env ports domain) (\<lambda>info. ensure_and_show env ports domain info)))
      (\<lambda>_. settled (CreateDomain body) d t)"
    using built created
    by (intro update_then step_intros ensure_finished)
      (auto intro: finished_looking first second rows_kept_save rows_kept_refl saved_member simp: concerns_def)
qed (use built_domain in auto)

lemma settled_run:
  assumes "\<And>d t. triple (ended looking d t) m (\<lambda>_. settled act d t)"
  shows "settled act (db (sn_world s)) (sn_trace s) (snd (m s))"
proof (rule tripleD [OF assms])
  show "ended looking (db (sn_world s)) (sn_trace s) s" by (simp add: ended_def)
qed (rule prod.collapse [symmetric])

lemma serve_settled: "settled act (db (sn_world s)) (sn_trace s) (serve_domain env ports act s)"
  unfolding serve_domain_def
  by (cases act) (simp_all add: settled_run create_finished import_finished claim_finished update_finished retry_finished delete_finished)

section \<open>Properties\<close>

text \<open>
  C31. Whatever the database and the API server answer, a request about domains changes in the cluster only the
  certificate and the certificate Secret of a row that is not imported and that the request creates or names, and
  no row vanishes unless it is deleted by its number while no endpoint refers to it.
\<close>

theorem domain_requests_confined:
  "\<exists>es. sn_trace (serve_domain env ports act s) = sn_trace s @ es \<and>
     list_all (own_event act (db (sn_world s)) (db (sn_world (serve_domain env ports act s)))) es \<and>
     rows_kept act (db (sn_world s)) (db (sn_world (serve_domain env ports act s)))"
  using serve_settled [of act s env ports] by (auto simp: settled_def)

text \<open>States that requests lead to; each request may meet another surrounding.\<close>

inductive domain_reach :: "network_state \<Rightarrow> network_state \<Rightarrow> bool" where
  reach_start: "domain_reach s s"
| reach_serve: "domain_reach s s' \<Longrightarrow> domain_reach s (serve_domain env ports act s')"

inductive_cases domain_reachE: "domain_reach s s'"

text \<open>
  C32. Whatever requests about domains follow one another, ids and host names stay unique and every stored host
  name valid; a row that is still there keeps its environment, certificate, Secret and ownership once they are set,
  and the number of a row that is gone is not used again.
\<close>

theorem domain_bindings:
  assumes "domain_reach s s'" and "domains_wf (db (sn_world s))"
  shows "domains_wf (db (sn_world s')) \<and>
    list_all (\<lambda>y. md_ID y > nd_seq (db (sn_world s)) Domains \<or> list_ex (\<lambda>x. bound_like x y) (nd_domains (db (sn_world s)))) (nd_domains (db (sn_world s')))"
proof -
  have "domain_evolution (db (sn_world s)) (db (sn_world s'))"
    using assms(1)
  proof induction
    case (reach_serve s s' env ports act)
    then show ?case using serve_settled [of act s' env ports] by (auto simp: settled_def intro: de.trans)
  qed (rule de.refl)
  then show ?thesis using assms(2) by (simp add: domain_evolution_def)
qed

section \<open>Deletion\<close>

text \<open>The event \<open>e\<close> is in the trace, and \<open>P\<close> holds of the calls before it.\<close>

definition event_at :: "'v \<Rightarrow> ('v list \<Rightarrow> bool) \<Rightarrow> 'v list \<Rightarrow> bool" where
  "event_at e P t \<longleftrightarrow> (\<exists>earlier rest. t = earlier @ e # rest \<and> P earlier)"

lemma event_at_now: "P t \<Longrightarrow> event_at e P (t @ [e])"
  unfolding event_at_def by blast

lemma event_at_later: "event_at e P t \<Longrightarrow> event_at e P (t @ u)"
  unfolding event_at_def by (metis append.assoc append_Cons)

definition certificate_gone :: "network_env \<Rightarrow> network_event list \<Rightarrow> ManagedDomain \<Rightarrow> bool" where
  "certificate_gone env t x \<longleftrightarrow> event_at (NDelete Certificates (md_Namespace x) (md_CertificateName x))
     (\<lambda>before. na_delete (ne_api env) before Certificates (md_Namespace x) (md_CertificateName x) \<in> {None, Some KNotFound}) t"

definition secret_gone :: "network_env \<Rightarrow> network_event list \<Rightarrow> ManagedDomain \<Rightarrow> bool" where
  "secret_gone env t x \<longleftrightarrow> event_at (NDeleteSecret (md_Namespace x) (md_TLSSecretName x))
     (\<lambda>before. na_delete_secret (ne_api env) before (md_Namespace x) (md_TLSSecretName x) \<in> {None, Some KNotFound}) t"

definition certificate_released :: "network_env \<Rightarrow> network_ports \<Rightarrow> network_event list \<Rightarrow> ManagedDomain \<Rightarrow> bool" where
  "certificate_released env ports t x \<longleftrightarrow> isImportedDomain x \<or> \<not> np_k8s ports \<or> md_Namespace x = [] \<or> md_CertificateName x = [] \<or>
     certificate_gone env t x \<and> (md_TLSSecretName x = [] \<or> secret_gone env t x)"

lemma certificate_deleted:
  "triple (\<lambda>_. True) (Service_DeleteCertificateContext env ports (md_Namespace x) (md_CertificateName x))
     (\<lambda>r s. (r = Inr () \<or> r = Inl (Kube KNotFound)) \<longrightarrow> certificate_gone env (sn_trace s) x)"
proof -
  have "triple (\<lambda>_. True) (failing_as Kube (kube_delete env Certificates (md_Namespace x) (md_CertificateName x)))
      (\<lambda>r s. (r = Inr () \<or> r = Inl (Kube KNotFound)) \<longrightarrow> certificate_gone env (sn_trace s) x)"
    unfolding kube_delete_def certificate_gone_def
    by (rule triple_failing_as [OF triple_ask [where Q = "\<lambda>r s. (r = Inr () \<or> r = Inl KNotFound) \<longrightarrow> certificate_gone env (sn_trace s) x"]])
      (auto intro: event_at_now simp: certificate_gone_def of_error_def split: option.splits)
  then show ?thesis
    unfolding Service_DeleteCertificateContext_def certified_def DeleteCertificateContext_def
    by (intro triple_if triple_failP triple_bindP [where R = "\<lambda>r _. r \<noteq> Inl (Kube KNotFound)"])
      (auto simp: triple_def live_client_def bindP_def checked_def returnP_def failP_def split: if_splits)
qed

lemma secret_deleted:
  "triple (\<lambda>s. certificate_gone env (sn_trace s) x) (delete_secret env (md_Namespace x) (md_TLSSecretName x))
     (\<lambda>r s. certificate_gone env (sn_trace s) x \<and> ((r = Inr () \<or> r = Inl KNotFound) \<longrightarrow> secret_gone env (sn_trace s) x))"
  unfolding delete_secret_def
  by (rule triple_ask) (auto intro: event_at_now event_at_later simp: certificate_gone_def secret_gone_def of_error_def split: option.splits)

lemma certificate_release:
  "triple (\<lambda>_. True) (delete_domain_certificate env ports x) (\<lambda>r s. r = Inr () \<longrightarrow> certificate_released env ports (sn_trace s) x)"
  unfolding delete_domain_certificate_def
proof (intro triple_if triple_returnP triple_tryP [OF certificate_deleted])
  let ?secret = "tryP (delete_secret env (md_Namespace x) (md_TLSSecretName x)) (\<lambda>r. case r of
      Inl KNotFound \<Rightarrow> returnP () | Inl e \<Rightarrow> failP (DomainCluster (Kube e)) | Inr _ \<Rightarrow> returnP ())"
  have "triple (\<lambda>s. certificate_gone env (sn_trace s) x) ?secret (\<lambda>r s. r = Inr () \<longrightarrow> certificate_released env ports (sn_trace s) x)"
    by (rule triple_tryP [OF secret_deleted])
      (auto simp: triple_def returnP_def failP_def certificate_released_def split: sum.splits kube_error.splits)
  then show "triple (\<lambda>s. (r = Inr () \<or> r = Inl (Kube KNotFound)) \<longrightarrow> certificate_gone env (sn_trace s) x) ?secret
      (\<lambda>r s. r = Inr () \<longrightarrow> certificate_released env ports (sn_trace s) x)" if "\<not> (r \<noteq> Inr () \<and> r \<noteq> Inl (Kube KNotFound))" for r
    using that by (auto elim: triple_pre)
qed (auto simp: certificate_released_def triple_def returnP_def failP_def)


section \<open>A concrete cluster\<close>

definition sample_kube :: network_api where
  "sample_kube = \<lparr>na_get = \<lambda>_ _ _ _. Inl KNotFound, na_list = \<lambda>_ _ _. Inr [], na_create = \<lambda>_ _ _ x. Inr x, na_update = \<lambda>_ _ _ x. Inr x,
     na_delete = \<lambda>_ _ _ _. None, na_get_secret = \<lambda>_ _ _. Inl KNotFound, na_create_secret = \<lambda>_ _. None, na_update_secret = \<lambda>_ _. None,
     na_delete_secret = \<lambda>_ _ _. Some KNotFound, na_get_namespace = \<lambda>_ _. None, na_get_crd = \<lambda>_ _. None, na_available_replicas = \<lambda>_ _ _. Inr 1\<rparr>"

definition sample_net :: network_env where
  "sample_net = \<lparr>ne_fault = \<lambda>_. False, ne_now = int, ne_api = sample_kube, ne_ctx_done = \<lambda>_. False, ne_clientset = True, ne_dynamic = True,
     ne_sprint = \<lambda>_. [], ne_created = \<lambda>_. [], ne_text = \<lambda>_. []\<rparr>"

definition all_ports :: network_ports where
  "all_ports = \<lparr>np_service = True, np_domains = True, np_credentials = True, np_cert = True, np_dns = True, np_k8s = True, np_available = True\<rparr>"

definition sample_domain :: ManagedDomain where
  "sample_domain = \<lparr>md_ID = 7, md_Hostname = ''a.example'', md_EnvironmentID = 1, md_Namespace = ''shop'', md_CertificateName = ''cylism-domain-7'',
     md_TLSSecretName = ''cylism-domain-7-tls'', md_IssuerRef = ''ca'', md_IssuerKind = ''ClusterIssuer'', md_CertificateOwnership = ''managed'',
     md_Description = [], md_Enabled = True, md_CreatedAt = 1, md_UpdatedAt = 1\<rparr>"

definition sample_network :: network_db where
  "sample_network = storage_db.extend (db (st_world sample_state))
     (network_db.fields [sample_domain] [] [] [] [] (\<lambda>_. 7))"

definition sample_session :: network_state where
  "sample_session = \<lparr>sn_world = \<lparr>db = sample_network, calls = 0\<rparr>, sn_trace = []\<rparr>"

lemma sample_network_fields: "nd_domains sample_network = [sample_domain]" "rd_endpoints sample_network = []" "nd_seq sample_network = (\<lambda>_. 7)"
  by (simp_all add: sample_network_def storage_db.defs network_db.defs sample_state_def)

lemma sample_domains_wf: "domains_wf sample_network"
  unfolding domains_wf_def sample_network_fields by code_simp

lemma domain_bindings_witness:
  "domains_wf sample_network \<and> domain_reach sample_session (serve_domain sample_net all_ports (DeleteDomain ''7'') sample_session) \<and>
   domains_wf (db (sn_world (serve_domain sample_net all_ports (DeleteDomain ''7'') sample_session)))"
proof -
  have reach: "domain_reach sample_session (serve_domain sample_net all_ports (DeleteDomain ''7'') sample_session)"
    by (intro domain_reach.intros)
  have "domains_wf (db (sn_world sample_session))" by (simp add: sample_session_def sample_domains_wf)
  from domain_bindings [OF reach this] reach sample_domains_wf show ?thesis by blast
qed


end
