(* ===== verification/Network_Credentials.thy ===== *)
theory Network_Credentials
  imports Network_Domain_Safety Security_Crypto
begin

text \<open>
  Issuers, certificates and DNS credentials: the requests of
  \<open>internal/api/infrastructure/network/cert_handler.go\<close>. A credential is a row with encrypted values and a Secret in
  the cluster with the values in the clear, which an issuer refers to by name.
\<close>

section \<open>The service\<close>

definition credentialed :: "network_ports \<Rightarrow> (db_error, 'a) network_store_proc \<Rightarrow> (network_error, 'a) network_proc" where
  "credentialed ports m = (if \<not> np_credentials ports then failP CredentialStoreMissing else failing_as NetDB (on_store m))"

definition Service_ListDNSCredentials :: "network_env \<Rightarrow> network_ports \<Rightarrow> (network_error, DNSCredential list) network_proc" where
  "Service_ListDNSCredentials env ports = credentialed ports (ListDNSCredentials (ne_fault env))"

definition Service_GetDNSCredential :: "network_env \<Rightarrow> network_ports \<Rightarrow> nat \<Rightarrow> (network_error, DNSCredential) network_proc" where
  "Service_GetDNSCredential env ports i = credentialed ports (GetDNSCredential (ne_fault env) i)"

definition Service_CreateDNSCredential :: "network_env \<Rightarrow> network_ports \<Rightarrow> DNSCredential \<Rightarrow> (network_error, DNSCredential) network_proc" where
  "Service_CreateDNSCredential env ports c s = credentialed ports (CreateDNSCredential (ne_fault env) (network_clock env s) c) s"

definition Service_UpdateDNSCredential :: "network_env \<Rightarrow> network_ports \<Rightarrow> DNSCredential \<Rightarrow> (network_error, DNSCredential) network_proc" where
  "Service_UpdateDNSCredential env ports c s = credentialed ports (UpdateDNSCredential (ne_fault env) (network_clock env s) c) s"

definition Service_DeleteDNSCredential :: "network_env \<Rightarrow> network_ports \<Rightarrow> nat \<Rightarrow> (network_error, unit) network_proc" where
  "Service_DeleteDNSCredential env ports i = credentialed ports (DeleteDNSCredential (ne_fault env) i)"

definition CertificateManagerStatusContext :: "network_env \<Rightarrow> network_ports \<Rightarrow> (network_error, CertManagerStatus) network_proc" where
  "CertificateManagerStatusContext env ports = certified ports (CertManagerStatusContext env)"

definition Service_ListIssuersContext :: "network_env \<Rightarrow> network_ports \<Rightarrow> (network_error, IssuerInfo list) network_proc" where
  "Service_ListIssuersContext env ports = certified ports (ListIssuersContext env)"

definition Service_CreateIssuerContext :: "network_env \<Rightarrow> network_ports \<Rightarrow> IssuerRequest \<Rightarrow> (network_error, IssuerInfo) network_proc" where
  "Service_CreateIssuerContext env ports request = certified ports (CreateIssuerContext env request)"

definition Service_UpdateIssuerContext :: "network_env \<Rightarrow> network_ports \<Rightarrow> IssuerRequest \<Rightarrow> (network_error, IssuerInfo) network_proc" where
  "Service_UpdateIssuerContext env ports request = certified ports (UpdateIssuerContext env request)"

definition Service_DeleteIssuerContext :: "network_env \<Rightarrow> network_ports \<Rightarrow> string \<Rightarrow> string \<Rightarrow> string \<Rightarrow> (network_error, unit) network_proc" where
  "Service_DeleteIssuerContext env ports kind namespace name = certified ports (DeleteIssuerContext env kind namespace name)"

definition Service_CreateCertificateContext :: "network_env \<Rightarrow> network_ports \<Rightarrow> CreateCertificateRequest \<Rightarrow> (network_error, CertInfo) network_proc" where
  "Service_CreateCertificateContext env ports request = certified ports (CreateCertificateContext env request)"

definition Service_DNSProviderStatusContext :: "network_env \<Rightarrow> network_ports \<Rightarrow> string \<Rightarrow> (network_error, DNSProviderStatus) network_proc" where
  "Service_DNSProviderStatusContext env ports provider =
     (if \<not> np_dns ports then failP DNSAdapterMissing else DNSProviderStatusContext env (TrimSpace provider))"

definition Service_InstallDNSProviderContext ::
  "network_env \<Rightarrow> network_ports \<Rightarrow> string \<Rightarrow> (network_error \<times> DNSProviderStatus option, DNSProviderStatus) network_proc" where
  "Service_InstallDNSProviderContext env ports provider =
     (if \<not> np_dns ports then failP (DNSAdapterMissing, None) else InstallDNSProviderContext env (TrimSpace provider))"

definition SyncDNSCredentialSecretContext :: "network_env \<Rightarrow> network_ports \<Rightarrow> DNSCredential \<Rightarrow> string gomap \<Rightarrow> (network_error, unit) network_proc" where
  "SyncDNSCredentialSecretContext env ports c vs =
     (if \<not> np_dns ports then failP DNSAdapterMissing
      else if TrimSpace (dc_Provider c) = [] \<or> TrimSpace (dc_Namespace c) = [] \<or> TrimSpace (dc_SecretName c) = [] then failP CredentialIncomplete
      else UpsertDNSCredentialSecretContext env (dc_Provider c) (dc_Namespace c) (dc_SecretName c) vs)"

definition RemoveDNSCredentialSecretContext :: "network_env \<Rightarrow> network_ports \<Rightarrow> string \<Rightarrow> string \<Rightarrow> (network_error, unit) network_proc" where
  "RemoveDNSCredentialSecretContext env ports namespace secretName =
     (if \<not> np_dns ports then failP DNSAdapterMissing
      else if TrimSpace namespace = [] \<or> TrimSpace secretName = [] then failP SecretNameMissing
      else DeleteDNSCredentialSecretContext env (TrimSpace namespace) (TrimSpace secretName))"

section \<open>The handler\<close>

text \<open>
  Besides the surroundings of the service: whether the handler has its store, the cipher, the random bytes, the key
  and the JSON coding of the values.
\<close>

record CertHandler =
  ch_env :: network_env
  ch_ports :: network_ports
  ch_store :: bool
  ch_aead :: aead
  ch_random :: "network_event list \<Rightarrow> string option"
  ch_encKey :: string
  ch_marshal :: "string gomap \<Rightarrow> string"
  ch_unmarshal :: "string \<Rightarrow> string gomap option"

datatype credential_error =
    EncryptionMissing | ProviderRequired | CredentialProviderUnsupported string | CredentialNameRequired | FieldUnsupported string
  | ValuesRefused dns_error | EncryptFailed | CredentialUnreadable | CredentialEmpty

datatype cert_refusal =
    CertClusterMissing | CertServiceError network_error | CertManagerNotReady CertManagerStatus
  | CertRequestInvalid | IssuerKindWrong | CertDomainEmpty | CertK8s network_error
  | CredentialStoreUnset | CredentialNotEnabled | ProviderMismatch | ProviderNotReady DNSProviderStatus | CredentialNamespaceDiffers
  | ProviderInstall network_error "DNSProviderStatus option"
  | CredentialInvalid credential_error | CredentialConflict | CredentialStore network_error
  | CredentialIDInvalid | CredentialMissing | CredentialReferenced string

text \<open>\<open>map[string]*string\<close>: the entries in the order in which they are visited.\<close>

record DNSCredentialRequest =
  cq_Name :: string
  cq_Namespace :: string
  cq_Provider :: string
  cq_Values :: "(string \<times> string option) list"
  cq_Enabled :: "bool option"

record issuerRequest =
  iq_Name :: string
  iq_Namespace :: string
  iq_Kind :: string
  iq_Mode :: string
  iq_Email :: string
  iq_Server :: string
  iq_IngressClass :: string
  iq_CredentialID :: nat
  iq_DNSProvider :: string

record DNSCredentialView =
  cv_ID :: nat
  cv_Name :: string
  cv_Provider :: string
  cv_Namespace :: string
  cv_SecretName :: string
  cv_Enabled :: bool
  cv_CreatedBy :: nat
  cv_CreatedAt :: int
  cv_UpdatedAt :: int
  cv_SecretConfigured :: bool
  cv_ConfiguredFields :: "string list"

definition DNSCredentialDTO :: "DNSCredential \<Rightarrow> DNSCredentialView" where
  "DNSCredentialDTO c = \<lparr>cv_ID = dc_ID c, cv_Name = dc_Name c, cv_Provider = dc_Provider c, cv_Namespace = dc_Namespace c, cv_SecretName = dc_SecretName c,
     cv_Enabled = dc_Enabled c, cv_CreatedBy = dc_CreatedBy c, cv_CreatedAt = dc_CreatedAt c, cv_UpdatedAt = dc_UpdatedAt c,
     cv_SecretConfigured = dc_SecretConfigured c, cv_ConfiguredFields = dc_ConfiguredFields c\<rparr>"

definition decryptedCredentialValues :: "CertHandler \<Rightarrow> DNSCredential \<Rightarrow> credential_error + string gomap" where
  "decryptedCredentialValues h c =
     (if dc_EncryptedValues c = [] then Inl CredentialEmpty
      else case Decrypt (ch_aead h) (ch_encKey h) (dc_EncryptedValues c) of
        Inl _ \<Rightarrow> Inl CredentialUnreadable
      | Inr plain \<Rightarrow> (case ch_unmarshal h plain of None \<Rightarrow> Inl CredentialUnreadable | Some vs \<Rightarrow> Inr vs))"

definition populateCredentialView :: "CertHandler \<Rightarrow> DNSCredential \<Rightarrow> DNSCredential" where
  "populateCredentialView h credential =
     (let c = credential\<lparr>dc_SecretConfigured := dc_EncryptedValues credential \<noteq> []\<rparr> in
      if \<not> GetDNSProvider (dc_Provider c) then c
      else case decryptedCredentialValues h c of
        Inl _ \<Rightarrow> c
      | Inr vs \<Rightarrow> c\<lparr>dc_ConfiguredFields := filter (\<lambda>key. value_of vs key \<noteq> []) (map pf_Key (pi_Fields aliDNS_Info))\<rparr>)"

fun merge_values :: "string list \<Rightarrow> (string \<times> string option) list \<Rightarrow> string gomap \<Rightarrow> credential_error + string gomap" where
  "merge_values allowed [] vs = Inr vs"
| "merge_values allowed ((key, v) # rest) vs =
     (if key \<notin> set allowed then Inl (FieldUnsupported key)
      else merge_values allowed rest (case v of Some x \<Rightarrow> if TrimSpace x \<noteq> [] then map_put key (TrimSpace x) vs else vs | None \<Rightarrow> vs))"

definition new_credential :: "string \<Rightarrow> string \<Rightarrow> string \<Rightarrow> string \<Rightarrow> bool option \<Rightarrow> DNSCredential option \<Rightarrow> DNSCredential" where
  "new_credential name providerID namespace encrypted enabled current =
     (let c = \<lparr>dc_ID = 0, dc_Name = name, dc_Provider = providerID, dc_Namespace = namespace, dc_EncryptedValues = encrypted, dc_SecretName = [], dc_Enabled = True,
        dc_CreatedBy = 0, dc_CreatedAt = zero_time, dc_UpdatedAt = zero_time, dc_SecretConfigured = False, dc_ConfiguredFields = []\<rparr> in
      case current of
        None \<Rightarrow> c
      | Some x \<Rightarrow> c\<lparr>dc_ID := dc_ID x, dc_CreatedBy := dc_CreatedBy x, dc_CreatedAt := dc_CreatedAt x, dc_SecretName := dc_SecretName x,
          dc_Enabled := (case enabled of None \<Rightarrow> dc_Enabled x | Some b \<Rightarrow> b)\<rparr>)"

definition dnsCredentialFromRequest ::
  "CertHandler \<Rightarrow> string option \<Rightarrow> DNSCredentialRequest \<Rightarrow> DNSCredential option \<Rightarrow> credential_error + DNSCredential \<times> string gomap" where
  "dnsCredentialFromRequest h random req current =
     (let name = TrimSpace (cq_Name req); namespace = TrimSpace (cq_Namespace req);
          asked = TrimSpace (cq_Provider req); providerID = (if asked = [] then (case current of None \<Rightarrow> [] | Some c \<Rightarrow> dc_Provider c) else asked) in
      if \<not> ch_store h \<or> ch_encKey h = [] then Inl EncryptionMissing
      else if providerID = [] then Inl ProviderRequired
      else if \<not> GetDNSProvider providerID then Inl (CredentialProviderUnsupported providerID)
      else if name = [] \<or> namespace = [] then Inl CredentialNameRequired
      else case (case current of None \<Rightarrow> Inr [] | Some c \<Rightarrow> decryptedCredentialValues h c) of
        Inl e \<Rightarrow> Inl e
      | Inr old \<Rightarrow>
          (case merge_values (map pf_Key (pi_Fields aliDNS_Info)) (cq_Values req) old of
             Inl e \<Rightarrow> Inl e
           | Inr vs \<Rightarrow>
               (case aliDNS_ValidateValues vs of
                  Some e \<Rightarrow> Inl (ValuesRefused e)
                | None \<Rightarrow>
                    (case Encrypt (ch_aead h) random (ch_encKey h) (ch_marshal h vs) of
                       Inl _ \<Rightarrow> Inl EncryptFailed
                     | Inr encrypted \<Rightarrow> Inr (new_credential name providerID namespace encrypted (cq_Enabled req) current, vs)))))"

definition requireReady :: "CertHandler \<Rightarrow> (cert_refusal, unit) network_proc" where
  "requireReady h =
     (if \<not> np_k8s (ch_ports h) \<or> \<not> np_available (ch_ports h) then failP CertClusterMissing
      else bindP (failing_as CertServiceError (CertificateManagerStatusContext (ch_env h) (ch_ports h))) (\<lambda>status.
        if cs_State status = ''ready'' then returnP () else failP (CertManagerNotReady status)))"

definition Cert_Status :: "CertHandler \<Rightarrow> (cert_refusal, CertManagerStatus) network_proc" where
  "Cert_Status h =
     (if \<not> np_k8s (ch_ports h) \<or> \<not> np_available (ch_ports h) then returnP no_status
      else failing_as CertServiceError (CertificateManagerStatusContext (ch_env h) (ch_ports h)))"

definition ListCerts :: "CertHandler \<Rightarrow> (cert_refusal, CertInfo list) network_proc" where
  "ListCerts h = bindP (requireReady h) (\<lambda>_. failing_as CertK8s (Service_ListCertificatesContext (ch_env h) (ch_ports h)))"

definition Handler_CreateCert :: "CertHandler \<Rightarrow> CreateCertificateRequest option \<Rightarrow> (cert_refusal, CertInfo) network_proc" where
  "Handler_CreateCert h body =
     bindP (requireReady h) (\<lambda>_.
       case body of
         None \<Rightarrow> failP CertRequestInvalid
       | Some r \<Rightarrow>
           if cr_Name r = [] \<or> cr_Namespace r = [] \<or> cr_IssuerRef r = [] \<or> cr_Domains r = [] then failP CertRequestInvalid
           else if cr_IssuerKind r \<noteq> [] \<and> cr_IssuerKind r \<noteq> ''Issuer'' \<and> cr_IssuerKind r \<noteq> ''ClusterIssuer'' then failP IssuerKindWrong
           else if list_ex (\<lambda>x. TrimSpace x = []) (cr_Domains r) then failP CertDomainEmpty
           else failing_as CertK8s (Service_CreateCertificateContext (ch_env h) (ch_ports h) r))"

definition Handler_ListIssuers :: "CertHandler \<Rightarrow> (cert_refusal, IssuerInfo list) network_proc" where
  "Handler_ListIssuers h = bindP (requireReady h) (\<lambda>_. failing_as CertK8s (Service_ListIssuersContext (ch_env h) (ch_ports h)))"

definition issuer_request :: "issuerRequest \<Rightarrow> IssuerRequest" where
  "issuer_request req = \<lparr>ir_Name = iq_Name req, ir_Namespace = iq_Namespace req, ir_Kind = iq_Kind req, ir_Mode = iq_Mode req, ir_Email = iq_Email req,
     ir_Server = iq_Server req, ir_IngressClass = iq_IngressClass req, ir_DNSProvider = iq_DNSProvider req, ir_CredentialSecretName = []\<rparr>"

text \<open>What an issuer with a DNS challenge takes from its credential.\<close>

definition issuer_credential :: "CertHandler \<Rightarrow> issuerRequest \<Rightarrow> (cert_refusal, IssuerRequest) network_proc" where
  "issuer_credential h req =
     (if \<not> ch_store h then failP CredentialStoreUnset
      else bindP (failing_as (\<lambda>_. CredentialNotEnabled) (Service_GetDNSCredential (ch_env h) (ch_ports h) (iq_CredentialID req))) (\<lambda>c.
        if \<not> dc_Enabled c then failP CredentialNotEnabled
        else if iq_DNSProvider req \<noteq> [] \<and> dc_Provider c \<noteq> iq_DNSProvider req then failP ProviderMismatch
        else bindP (failing_as CertK8s (Service_DNSProviderStatusContext (ch_env h) (ch_ports h) (dc_Provider c))) (\<lambda>webhook.
          if \<not> ps_Ready webhook then failP (ProviderNotReady webhook)
          else if iq_Kind req = ''Issuer'' \<and> dc_Namespace c \<noteq> iq_Namespace req then failP CredentialNamespaceDiffers
          else returnP ((issuer_request req)\<lparr>ir_DNSProvider := dc_Provider c, ir_CredentialSecretName := dc_SecretName c\<rparr>))))"

definition saveIssuer :: "CertHandler \<Rightarrow> (string \<times> string \<times> string) option \<Rightarrow> issuerRequest option \<Rightarrow> (cert_refusal, IssuerInfo) network_proc" where
  "saveIssuer h update body =
     bindP (requireReady h) (\<lambda>_.
       case body of
         None \<Rightarrow> failP CertRequestInvalid
       | Some given \<Rightarrow>
           let req = (case update of None \<Rightarrow> given | Some (name, namespace, kind) \<Rightarrow> given\<lparr>iq_Name := name, iq_Namespace := namespace, iq_Kind := kind\<rparr>) in
           bindP (if iq_Mode req = ''acme_dns01'' then issuer_credential h req else returnP (issuer_request req)) (\<lambda>request.
             failing_as CertK8s (if update \<noteq> None then Service_UpdateIssuerContext (ch_env h) (ch_ports h) request
               else Service_CreateIssuerContext (ch_env h) (ch_ports h) request)))"

definition Handler_CreateIssuer :: "CertHandler \<Rightarrow> issuerRequest option \<Rightarrow> (cert_refusal, IssuerInfo) network_proc" where
  "Handler_CreateIssuer h body = saveIssuer h None body"

definition Handler_UpdateIssuer :: "CertHandler \<Rightarrow> string \<Rightarrow> string \<Rightarrow> string \<Rightarrow> issuerRequest option \<Rightarrow> (cert_refusal, IssuerInfo) network_proc" where
  "Handler_UpdateIssuer h name namespace kind body = saveIssuer h (Some (name, namespace, kind)) body"

definition Handler_DeleteIssuer :: "CertHandler \<Rightarrow> string \<Rightarrow> string \<Rightarrow> string \<Rightarrow> (cert_refusal, unit) network_proc" where
  "Handler_DeleteIssuer h kind namespace name =
     bindP (requireReady h) (\<lambda>_. failing_as CertK8s (Service_DeleteIssuerContext (ch_env h) (ch_ports h) kind namespace name))"

definition Cert_ListOperations :: "CertHandler \<Rightarrow> string \<Rightarrow> string \<Rightarrow> (cert_refusal, CertificateOperation list) network_proc" where
  "Cert_ListOperations h namespace name =
     bindP (requireReady h) (\<lambda>_. failing_as CertK8s (Service_ListCertificateOperationsContext (ch_env h) (ch_ports h) namespace name))"

fun provider_views :: "CertHandler \<Rightarrow> DNSProviderInfo list \<Rightarrow> ('e, (DNSProviderInfo \<times> DNSProviderStatus option) list) network_proc" where
  "provider_views h [] = returnP []"
| "provider_views h (p # ps) =
     bindP (if np_k8s (ch_ports h) \<and> np_available (ch_ports h) then optional (Service_DNSProviderStatusContext (ch_env h) (ch_ports h) (pi_ID p)) else returnP None) (\<lambda>status.
     bindP (provider_views h ps) (\<lambda>views. returnP ((p, status) # views)))"

definition Handler_ListDNSProviders :: "CertHandler \<Rightarrow> ('e, (DNSProviderInfo \<times> DNSProviderStatus option) list) network_proc" where
  "Handler_ListDNSProviders h = provider_views h ListDNSProviders"

definition Handler_DNSProviderStatus :: "CertHandler \<Rightarrow> string \<Rightarrow> (cert_refusal, DNSProviderStatus) network_proc" where
  "Handler_DNSProviderStatus h provider =
     (if \<not> np_k8s (ch_ports h) \<or> \<not> np_available (ch_ports h) then failP CertClusterMissing
      else failing_as CertK8s (Service_DNSProviderStatusContext (ch_env h) (ch_ports h) provider))"

definition Handler_InstallDNSProvider :: "CertHandler \<Rightarrow> string \<Rightarrow> (cert_refusal, DNSProviderStatus) network_proc" where
  "Handler_InstallDNSProvider h provider =
     (if \<not> np_k8s (ch_ports h) \<or> \<not> np_available (ch_ports h) then failP CertClusterMissing
      else failing_as (\<lambda>(e, status). ProviderInstall e status) (Service_InstallDNSProviderContext (ch_env h) (ch_ports h) provider))"

definition Handler_ListDNSCredentials :: "CertHandler \<Rightarrow> (cert_refusal, DNSCredentialView list) network_proc" where
  "Handler_ListDNSCredentials h =
     (if \<not> ch_store h then returnP []
      else bindP (failing_as CredentialStore (Service_ListDNSCredentials (ch_env h) (ch_ports h))) (\<lambda>cs.
        returnP (map (\<lambda>c. DNSCredentialDTO (populateCredentialView h c)) cs)))"

text \<open>The row gets a provisional name first, because the name of the Secret holds its number.\<close>

definition credential_secret_name :: "DNSCredential \<Rightarrow> string" where
  "credential_secret_name c = ''cylism-dns-'' @ dc_Provider c @ ''-'' @ show_nat (dc_ID c)"

definition pending_credential :: "nat \<Rightarrow> int \<Rightarrow> DNSCredential \<Rightarrow> DNSCredential" where
  "pending_credential user now c = c\<lparr>dc_CreatedBy := user, dc_SecretName := ''cylism-dns-pending-'' @ show_int now\<rparr>"

text \<open>When the Secret cannot be written, the new row is deleted again.\<close>

definition publish_credential :: "CertHandler \<Rightarrow> DNSCredential \<Rightarrow> string gomap \<Rightarrow> (cert_refusal, unit) network_proc" where
  "publish_credential h c vs =
     tryP (SyncDNSCredentialSecretContext (ch_env h) (ch_ports h) c vs) (\<lambda>r. case r of
       Inl e \<Rightarrow> bindP (optional (Service_DeleteDNSCredential (ch_env h) (ch_ports h) (dc_ID c))) (\<lambda>_. failP (CertK8s e))
     | Inr _ \<Rightarrow> returnP ())"

definition Handler_CreateDNSCredential :: "CertHandler \<Rightarrow> nat \<Rightarrow> DNSCredentialRequest option \<Rightarrow> (cert_refusal, DNSCredentialView) network_proc" where
  "Handler_CreateDNSCredential h user body =
     bindP (requireReady h) (\<lambda>_ s.
       (case body of
          None \<Rightarrow> failP CertRequestInvalid
        | Some req \<Rightarrow>
            (case dnsCredentialFromRequest h (ch_random h (sn_trace s)) req None of
               Inl e \<Rightarrow> failP (CredentialInvalid e)
             | Inr (c, vs) \<Rightarrow>
                 bindP (failing_as (\<lambda>_. CredentialConflict)
                     (Service_CreateDNSCredential (ch_env h) (ch_ports h) (pending_credential user (network_clock (ch_env h) s) c))) (\<lambda>row.
                 bindP (failing_as CredentialStore (Service_UpdateDNSCredential (ch_env h) (ch_ports h) (row\<lparr>dc_SecretName := credential_secret_name row\<rparr>))) (\<lambda>row.
                 bindP (publish_credential h row vs) (\<lambda>_.
                   returnP (DNSCredentialDTO (populateCredentialView h row))))))) s)"

definition named_credential :: "CertHandler \<Rightarrow> string \<Rightarrow> (cert_refusal, DNSCredential) network_proc" where
  "named_credential h id_param =
     (case ParsePositiveID (TrimSpace id_param) of
        None \<Rightarrow> failP CredentialIDInvalid
      | Some i \<Rightarrow> failing_as (\<lambda>_. CredentialMissing) (Service_GetDNSCredential (ch_env h) (ch_ports h) i))"

definition Handler_UpdateDNSCredential :: "CertHandler \<Rightarrow> string \<Rightarrow> DNSCredentialRequest option \<Rightarrow> (cert_refusal, DNSCredentialView) network_proc" where
  "Handler_UpdateDNSCredential h id_param body =
     bindP (requireReady h) (\<lambda>_.
     bindP (named_credential h id_param) (\<lambda>current s.
       (case body of
          None \<Rightarrow> failP CertRequestInvalid
        | Some req \<Rightarrow>
            (case dnsCredentialFromRequest h (ch_random h (sn_trace s)) req (Some current) of
               Inl e \<Rightarrow> failP (CredentialInvalid e)
             | Inr (c, vs) \<Rightarrow>
                 bindP (failing_as (\<lambda>_. CredentialConflict) (Service_UpdateDNSCredential (ch_env h) (ch_ports h) c)) (\<lambda>row.
                 bindP (failing_as CertK8s (SyncDNSCredentialSecretContext (ch_env h) (ch_ports h) row vs)) (\<lambda>_.
                 bindP (if dc_Namespace current \<noteq> dc_Namespace row
                     then failing_as CertK8s (RemoveDNSCredentialSecretContext (ch_env h) (ch_ports h) (dc_Namespace current) (dc_SecretName current)) else returnP ()) (\<lambda>_.
                   returnP (DNSCredentialDTO (populateCredentialView h row))))))) s))"

definition Handler_DeleteDNSCredential :: "CertHandler \<Rightarrow> string \<Rightarrow> (cert_refusal, nat) network_proc" where
  "Handler_DeleteDNSCredential h id_param =
     bindP (requireReady h) (\<lambda>_.
     bindP (named_credential h id_param) (\<lambda>c.
     bindP (failing_as CertK8s (Service_ListIssuersContext (ch_env h) (ch_ports h))) (\<lambda>issuers.
       case find (\<lambda>i. ii_CredentialSecretName i = dc_SecretName c) issuers of
         Some i \<Rightarrow> failP (CredentialReferenced (ii_Name i))
       | None \<Rightarrow>
           bindP (failing_as CertK8s (RemoveDNSCredentialSecretContext (ch_env h) (ch_ports h) (dc_Namespace c) (dc_SecretName c))) (\<lambda>_.
           bindP (failing_as CredentialStore (Service_DeleteDNSCredential (ch_env h) (ch_ports h) (dc_ID c))) (\<lambda>_. returnP (dc_ID c))))))"

definition Handler_DeleteCert :: "CertHandler \<Rightarrow> string \<Rightarrow> string \<Rightarrow> (cert_refusal, unit) network_proc" where
  "Handler_DeleteCert h namespace name =
     bindP (requireReady h) (\<lambda>_. failing_as CertServiceError (Service_DeleteCertificateContext (ch_env h) (ch_ports h) namespace name))"

section \<open>Values of a credential\<close>

lemma decrypt_encrypted:
  assumes "Encrypt a (Some nonce) key text = Inr sealed" and "gcm_correct a" and "length nonce = gcm_NonceSize"
  shows "Decrypt a key sealed = Inr text" and "sealed \<noteq> []"
proof -
  have def: "sealed = std_encode (nonce @ gcm_Seal a key nonce text)" and "aes_key_ok key"
    using assms(1) by (auto simp: Encrypt_def split: if_splits)
  with assms(2,3) show "Decrypt a key sealed = Inr text" by (simp add: Decrypt_def gcm_correct_def std_decode_encode)
  show "sealed \<noteq> []"
  proof
    assume "sealed = []"
    with def have "std_decode [] = Some (nonce @ gcm_Seal a key nonce text)" by (metis std_decode_encode)
    moreover have "std_decode [] = Some []" by code_simp
    ultimately show False using assms(3) by (simp add: gcm_NonceSize_def)
  qed
qed

text \<open>The value of a field: the trimmed new one unless it is missing or blank, else the old one.\<close>

definition chosen :: "(string \<times> string option) list \<Rightarrow> string \<Rightarrow> string \<Rightarrow> string" where
  "chosen given key old = (case map_of given key of Some (Some x) \<Rightarrow> if TrimSpace x = [] then old else TrimSpace x | _ \<Rightarrow> old)"

lemma value_of_put: "value_of (map_put key x vs) k = (if k = key then x else value_of vs k)"
  by (simp add: value_of_def map_of_map_put or_empty_def)

lemma merge_values_chosen:
  assumes "merge_values allowed given old = Inr vs" and "distinct (map fst given)"
  shows "value_of vs key = chosen given key (value_of old key)"
  using assms
proof (induction given arbitrary: old)
  case (Cons g given)
  obtain k v where g: "g = (k, v)" by (cases g)
  from Cons.prems(1) g have merged: "merge_values allowed given (case v of Some x \<Rightarrow> if TrimSpace x \<noteq> [] then map_put k (TrimSpace x) old else old | None \<Rightarrow> old) = Inr vs"
    by (simp split: if_splits)
  have "map_of given k = None" using Cons.prems(2) g by (simp add: map_of_eq_None_iff)
  then show ?case
    using Cons.IH [OF merged] Cons.prems(2) by (auto simp: g chosen_def value_of_put split: option.splits)
qed (simp add: chosen_def)

lemma merge_values_allowed: "merge_values allowed given old = Inr vs \<Longrightarrow> fst ` set given \<subseteq> set allowed"
  by (induction given arbitrary: old) (fastforce split: if_splits)+


section \<open>Deletion of a credential\<close>

lemma looks_ready [looks]: "only looking (=) (requireReady h)"
  unfolding requireReady_def CertificateManagerStatusContext_def certified_def by (intro same.only_intros looks)

lemma looks_issuers [looks]: "only looking (=) (Service_ListIssuersContext env ports)"
  unfolding Service_ListIssuersContext_def certified_def by (intro same.only_intros looks)

lemma named_credential_found:
  "triple (ended looking d t) (named_credential h p)
    (\<lambda>r s. case r of Inl _ \<Rightarrow> ended looking d t s
      | Inr c \<Rightarrow> ended looking d t s \<and> (\<exists>x \<in> set (nd_credentials d). c = seen_credential x) \<and> ParsePositiveID (TrimSpace p) = Some (dc_ID c))"
  by (rule tripleI)
    (auto simp: named_credential_def Service_GetDNSCredential_def credentialed_def failing_as_def tryP_def failP_def returnP_def on_store_def GetDNSCredential_def
      db_read_def db_call_def ended_def seen_credential_def dest: tbl_find_key split: option.splits if_splits sum.splits prod.splits)

definition credential_secret_gone :: "CertHandler \<Rightarrow> network_event list \<Rightarrow> DNSCredential \<Rightarrow> bool" where
  "credential_secret_gone h t c \<longleftrightarrow> event_at (NDeleteSecret (TrimSpace (dc_Namespace c)) (TrimSpace (dc_SecretName c)))
     (\<lambda>before. na_delete_secret (ne_api (ch_env h)) before (TrimSpace (dc_Namespace c)) (TrimSpace (dc_SecretName c)) \<in> {None, Some KNotFound}) t"

lemma failing_as_ok: "triple P m (\<lambda>r s. r = Inr u \<longrightarrow> B s) \<Longrightarrow> triple P (failing_as f m) (\<lambda>r s. r = Inr u \<longrightarrow> B s)"
  by (erule triple_failing_as) auto

lemma bind_ok:
  "triple P m (\<lambda>r s. r = Inr () \<longrightarrow> B s) \<Longrightarrow> triple B k Q \<Longrightarrow> (\<And>e s. Q (Inl e) s) \<Longrightarrow> triple P (bindP m (\<lambda>_. k)) Q"
  by (erule triple_bindP) auto

lemma seen_names: "dc_SecretName (seen_credential x) = dc_SecretName x" "dc_Namespace (seen_credential x) = dc_Namespace x" "dc_ID (seen_credential x) = dc_ID x"
  by (simp_all add: seen_credential_def)

text \<open>The issuers that the service lists in state \<open>s\<close> do not refer to the Secret of the credential.\<close>

definition no_issuer_refers :: "CertHandler \<Rightarrow> DNSCredential \<Rightarrow> network_state \<Rightarrow> bool" where
  "no_issuer_refers h c s \<longleftrightarrow> (case fst (Service_ListIssuersContext (ch_env h) (ch_ports h) s) of
     Inl _ \<Rightarrow> False | Inr issuers \<Rightarrow> list_all (\<lambda>i. ii_CredentialSecretName i \<noteq> dc_SecretName c) issuers)"

text \<open>The rows are \<open>d\<close>, and earlier in the session no issuer referred to the credential.\<close>

definition unused_since :: "CertHandler \<Rightarrow> DNSCredential \<Rightarrow> network_db \<Rightarrow> network_event list \<Rightarrow> network_state \<Rightarrow> bool" where
  "unused_since h c d t s \<longleftrightarrow> db (sn_world s) = d \<and> (\<exists>s1. no_issuer_refers h c s1 \<and> prefix t (sn_trace s1) \<and> prefix (sn_trace s1) (sn_trace s))"

lemma issuers_checked:
  "triple (ended looking d t) (Service_ListIssuersContext (ch_env h) (ch_ports h))
    (\<lambda>r s. case r of Inl _ \<Rightarrow> True
      | Inr issuers \<Rightarrow> find (\<lambda>i. ii_CredentialSecretName i = dc_SecretName c) issuers = None \<longrightarrow> unused_since h c d t s)"
proof (rule tripleI)
  fix s r s'
  assume s: "ended looking d t s" and run: "Service_ListIssuersContext (ch_env h) (ch_ports h) s = (r, s')"
  obtain es where "sn_trace s' = sn_trace s @ es" and "db (sn_world s) = db (sn_world s')" using looks_issuers run by (rule onlyE)
  moreover have "no_issuer_refers h c s" if "r = Inr issuers" "find (\<lambda>i. ii_CredentialSecretName i = dc_SecretName c) issuers = None" for issuers
    using that run by (auto simp: no_issuer_refers_def find_None_iff list_all_iff)
  ultimately show "case r of Inl _ \<Rightarrow> True
      | Inr issuers \<Rightarrow> find (\<lambda>i. ii_CredentialSecretName i = dc_SecretName c) issuers = None \<longrightarrow> unused_since h c d t s'"
    using s by (auto simp: unused_since_def ended_def split: sum.splits)
qed

lemma credential_secret_removed:
  "triple (unused_since h c d t) (RemoveDNSCredentialSecretContext (ch_env h) (ch_ports h) (dc_Namespace c) (dc_SecretName c))
    (\<lambda>r s. r = Inr () \<longrightarrow> unused_since h c d t s \<and> credential_secret_gone h (sn_trace s) c)"
proof -
  have "triple (unused_since h c d t) (delete_secret (ch_env h) (TrimSpace (dc_Namespace c)) (TrimSpace (dc_SecretName c)))
      (\<lambda>r s. unused_since h c d t s \<and> ((r = Inr () \<or> r = Inl KNotFound) \<longrightarrow> credential_secret_gone h (sn_trace s) c))"
    unfolding delete_secret_def
    by (rule triple_ask) (auto intro: event_at_now simp: unused_since_def credential_secret_gone_def of_error_def split: option.splits)
  then show ?thesis
    unfolding RemoveDNSCredentialSecretContext_def DeleteDNSCredentialSecretContext_def
    by (intro triple_if triple_failP triple_tryP) (auto simp: triple_def returnP_def failP_def split: sum.splits kube_error.splits)
qed

lemma credential_removed:
  "triple (\<lambda>s. unused_since h c d t s \<and> credential_secret_gone h (sn_trace s) c) (Service_DeleteDNSCredential env ports i)
    (\<lambda>r s. r = Inr () \<longrightarrow> unused_since h c (d\<lparr>nd_credentials := filter (\<lambda>x. dc_ID x \<noteq> i) (nd_credentials d)\<rparr>) t s \<and> credential_secret_gone h (sn_trace s) c)"
  by (rule tripleI)
    (auto simp: Service_DeleteDNSCredential_def credentialed_def failing_as_def tryP_def failP_def returnP_def on_store_def DeleteDNSCredential_def db_write_def db_call_def
      unused_since_def split: if_splits sum.splits prod.splits)


section \<open>A concrete credential\<close>

text \<open>A coding of maps for the example: keys and values are closed by a byte 0.\<close>

fun words_of :: "string \<Rightarrow> string \<Rightarrow> string list" where
  "words_of acc [] = []"
| "words_of acc (c # cs) = (if c = CHR 0x00 then rev acc # words_of [] cs else words_of (c # acc) cs)"

definition sample_credential :: DNSCredential where
  "sample_credential = \<lparr>dc_ID = 3, dc_Name = ''dns'', dc_Provider = ''alidns'', dc_Namespace = ''shop'', dc_EncryptedValues = [], dc_SecretName = ''cylism-dns-alidns-3'',
     dc_Enabled = True, dc_CreatedBy = 1, dc_CreatedAt = 1, dc_UpdatedAt = 1, dc_SecretConfigured = False, dc_ConfiguredFields = []\<rparr>"

definition sample_credentials :: network_state where
  "sample_credentials = \<lparr>sn_world = \<lparr>db = sample_network\<lparr>nd_credentials := [sample_credential]\<rparr>, calls = 0\<rparr>, sn_trace = []\<rparr>"

fun pairs_of :: "string list \<Rightarrow> string gomap" where
  "pairs_of (k # v # ws) = (k, v) # pairs_of ws"
| "pairs_of _ = []"

definition sample_handler :: CertHandler where
  "sample_handler = \<lparr>ch_env = sample_net, ch_ports = all_ports, ch_store = True, ch_aead = demo_aead, ch_random = \<lambda>_. Some ''abcdefghijkl'',
     ch_encKey = ''0123456789abcdef'', ch_marshal = \<lambda>m. concat (map (\<lambda>(k, v). k @ [CHR 0x00] @ v @ [CHR 0x00]) m), ch_unmarshal = \<lambda>t. Some (pairs_of (words_of [] t))\<rparr>"

definition sample_credential_request :: DNSCredentialRequest where
  "sample_credential_request = \<lparr>cq_Name = ''dns'', cq_Namespace = ''shop'', cq_Provider = ''alidns'',
     cq_Values = [(''access_key_id'', Some '' id''), (''access_key_secret'', Some ''key'')], cq_Enabled = None\<rparr>"


lemmas sample_runs =
  sample_handler_def sample_net_def sample_kube_def all_ports_def bindP_def tryP_def returnP_def failP_def failing_as_def ask_def Let_def
  checked_def kube_list_def live_client_def live_context_def of_error_def on_store_def credentialed_def certified_def db_read_def db_write_def db_call_def

lemma bind_step: "m s = (Inr x, s') \<Longrightarrow> bindP m f s = f x s'"
  by (simp add: bindP_def)

lemma sample_ready: "\<exists>t. requireReady sample_handler s = (Inr (), s\<lparr>sn_trace := t\<rparr>)"
  by (simp add: requireReady_def CertificateManagerStatusContext_def certified_def CertManagerStatusContext_def check_crd_def CheckCRDContext_def installed_status_def
      checkCertManagerAccessContext_def deploymentReady_def sample_runs) blast


end
