(* ===== verification/Workspace_Requests.thy ===== *)
theory Workspace_Requests
  imports Network_Domain_Safety Application_Store
begin

text \<open>
  The requests about projects, environments, applications and their endpoints: \<open>project_handler.go\<close>,
  \<open>environment_handler.go\<close>, \<open>application_handler.go\<close> and \<open>endpoint_handler.go\<close> of
  \<open>internal/api/application\<close>. They use the tables of the workspace and of the managed domains, and the cluster
  through the interface \<open>KubernetesAdapter\<close>.
\<close>

section \<open>The surroundings\<close>

record Namespace =
  ns_Name :: string
  ns_Phase :: string
  ns_Labels :: "string gomap"

datatype workspace_event =
    WGetNamespace string | WUpdateNamespace Namespace | WCreateNamespace Namespace
  | WGetCertificate string string
  | WSyncEndpoints ApplicationContext "ApplicationEndpoint list" int
  | WMigrator migrator_event

text \<open>Each call is answered from the calls before it; an error of a synchronisation is its text.\<close>

record KubernetesAdapter =
  ka_GetNamespace :: "workspace_event list \<Rightarrow> string \<Rightarrow> kube_error + Namespace"
  ka_UpdateNamespace :: "workspace_event list \<Rightarrow> Namespace \<Rightarrow> kube_error option"
  ka_CreateNamespace :: "workspace_event list \<Rightarrow> Namespace \<Rightarrow> kube_error option"
  ka_GetCertificate :: "workspace_event list \<Rightarrow> string \<Rightarrow> string \<Rightarrow> network_error + CertInfo"
  ka_SyncApplicationEndpoints :: "workspace_event list \<Rightarrow> ApplicationContext \<Rightarrow> ApplicationEndpoint list \<Rightarrow> int \<Rightarrow> string option"
  ka_migrator :: "workspace_event list \<Rightarrow> WorkloadMigrator"
  ka_available :: bool

record ApplicationHandler =
  ah_fault :: "nat \<Rightarrow> bool"
  ah_now :: "nat \<Rightarrow> int"
  ah_kubernetes :: "KubernetesAdapter option"
  ah_checks :: k8s_checks

type_synonym workspace_state = "(network_db, workspace_event) session"
type_synonym ('e, 'a) request_proc = "(network_db, workspace_event, 'e, 'a) session_proc"

datatype namespace_error =
    SystemNamespace string | NamespaceClientMissing | NamespaceNotReady string | NamespaceExistsAlready string | NamespaceOfProject string string
  | NamespaceClaim kube_error | NamespaceCheck kube_error | NamespaceNotThere string | NamespaceCreate kube_error

datatype entry_error =
    DomainUnusable | DomainOfOtherEnvironment | RouteCheck db_error | RouteTaken string string | AccessModeInvalid
  | DomainWithoutCert | DomainCertificate network_error | CertificateNotReady string

datatype workspace_refusal =
    PathIDInvalid | BodyInvalid | ProjectMissing | EnvironmentMissing | ApplicationMissing | EndpointMissing
  | RegistryBeforeProject | ProjectExists | ProjectHasApplications | RegistryRefused | ProjectInUse
  | NamespaceModeInvalid | ClusterUnavailable | NamespaceTaken store_error | NothingWritten | NamespaceRefused namespace_error
  | EnvironmentExists | EnvironmentHasApplications
  | CapabilitiesRefused store_error | WorkloadKindInvalid | WorkloadRefused workload_error
  | ApplicationNameRefused | EnvironmentOfOtherProject | NamespaceUnsettled | ApplicationExists
  | EndpointRefused entry_error | EndpointPort port_error | EndpointSync string | NoPortToBind | SnapshotUnreadable | WorkspaceDB db_error

text \<open>An operation on the tables of the workspace, run on all tables.\<close>

definition ws_part :: "network_db \<Rightarrow> workspace_db" where
  "ws_part d = workspace_db.truncate (storage_db.truncate d)"

definition put_ws :: "workspace_db \<Rightarrow> network_db \<Rightarrow> network_db" where
  "put_ws w d = storage_db.extend (workspace_db.extend w (workspace_db.more (storage_db.truncate d))) (storage_db.more d)"

definition on_ws :: "('e, 'a) workspace_proc \<Rightarrow> ('e, 'a) request_proc" where
  "on_ws m = on_store (on_storage (on_workspace m))"

definition on_rel :: "('e, 'a) release_proc \<Rightarrow> ('e, 'a) request_proc" where
  "on_rel m = on_ws (on_releases m)"

definition ws_clock :: "ApplicationHandler \<Rightarrow> workspace_state \<Rightarrow> int" where
  "ws_clock h s = ah_now h (calls (sn_world s))"

definition available :: "ApplicationHandler \<Rightarrow> bool" where
  "available h \<longleftrightarrow> (case ah_kubernetes h of None \<Rightarrow> False | Some k \<Rightarrow> ka_available k)"

text \<open>\<open>apiShared.ParseID\<close>: zero is accepted.\<close>

definition path_id :: "string \<Rightarrow> (workspace_refusal, nat) request_proc" where
  "path_id p = (case ParseUint64 p of None \<Rightarrow> failP PathIDInvalid | Some i \<Rightarrow> returnP i)"

definition query_application :: "ApplicationHandler \<Rightarrow> nat \<Rightarrow> (workspace_refusal, Application) request_proc" where
  "query_application h i = failing_as (\<lambda>_. ApplicationMissing) (on_ws (read_application (ah_fault h) i))"

section \<open>Projects\<close>

record projectRequest =
  pq_Name :: string
  pq_DefaultImageRegistryID :: "nat option"

definition Handler_ListProjects ::
  "ApplicationHandler \<Rightarrow> (workspace_refusal, (Project \<times> Environment list \<times> ImageRegistry option) list) request_proc" where
  "Handler_ListProjects h = failing_as WorkspaceDB (on_ws (ListProjects (ah_fault h)))"

definition Handler_CreateProject :: "ApplicationHandler \<Rightarrow> nat \<Rightarrow> projectRequest option \<Rightarrow> (workspace_refusal, Project) request_proc" where
  "Handler_CreateProject h user body s =
     (case body of
        None \<Rightarrow> failP BodyInvalid
      | Some req \<Rightarrow>
          if pq_Name req = [] then failP BodyInvalid
          else if pq_DefaultImageRegistryID req \<notin> {None, Some 0} then failP RegistryBeforeProject
          else failing_as (\<lambda>_. ProjectExists) (on_ws (CreateProject (ah_fault h) (ws_clock h s)
            \<lparr>pj_ID = 0, pj_Name = pq_Name req, pj_DefaultImageRegistryID = None, pj_OwnerID = user, pj_CreatedAt = zero_time\<rparr>))) s"

text \<open>The default registry of an update: kept, removed, or one that the project may use.\<close>

definition chosen_registry :: "ApplicationHandler \<Rightarrow> nat \<Rightarrow> projectRequest \<Rightarrow> Project \<Rightarrow> (workspace_refusal, nat option) request_proc" where
  "chosen_registry h projectID req project =
     (case pq_DefaultImageRegistryID req of
        None \<Rightarrow> returnP (pj_DefaultImageRegistryID project)
      | Some i \<Rightarrow>
          if i = 0 then returnP None
          else bindP (failing_as (\<lambda>_. RegistryRefused) (on_rel (GetImageRegistryForProject (ah_fault h) i projectID))) (\<lambda>registry.
            if \<not> ir_Enabled registry then failP RegistryRefused else returnP (Some (ir_ID registry))))"

definition save_project :: "ApplicationHandler \<Rightarrow> Project \<Rightarrow> (workspace_refusal, Project) request_proc" where
  "save_project h project s = failing_as (\<lambda>_. ProjectExists) (on_ws (UpdateProject (ah_fault h) (ws_clock h s) project)) s"

definition Handler_UpdateProject :: "ApplicationHandler \<Rightarrow> string \<Rightarrow> projectRequest option \<Rightarrow> (workspace_refusal, Project) request_proc" where
  "Handler_UpdateProject h p body =
     bindP (path_id p) (\<lambda>projectID.
       case body of
         None \<Rightarrow> failP BodyInvalid
       | Some req \<Rightarrow>
           if pq_Name req = [] then failP BodyInvalid
           else bindP (failing_as (\<lambda>_. ProjectMissing) (on_ws (GetProject (ah_fault h) projectID))) (\<lambda>(project, _).
             bindP (if pj_Name project \<noteq> pq_Name req
                then bindP (failing_as WorkspaceDB (on_ws (CountProjectApplications (ah_fault h) projectID))) (\<lambda>n. checked (n = 0) ProjectHasApplications)
                else returnP ()) (\<lambda>_.
             bindP (chosen_registry h projectID req project) (\<lambda>registry.
               save_project h (project\<lparr>pj_Name := pq_Name req, pj_DefaultImageRegistryID := registry\<rparr>)))))"

definition Handler_DeleteProject :: "ApplicationHandler \<Rightarrow> string \<Rightarrow> (workspace_refusal, nat) request_proc" where
  "Handler_DeleteProject h p =
     bindP (path_id p) (\<lambda>projectID.
     bindP (failing_as (\<lambda>_. ProjectMissing) (on_ws (GetProject (ah_fault h) projectID))) (\<lambda>_.
     bindP (failing_as WorkspaceDB (on_ws (CountProjectEnvironments (ah_fault h) projectID))) (\<lambda>environmentCount.
     bindP (failing_as WorkspaceDB (on_ws (CountProjectApplications (ah_fault h) projectID))) (\<lambda>applicationCount.
       if environmentCount > 0 \<or> applicationCount > 0 then failP ProjectInUse
       else bindP (failing_as WorkspaceDB (on_ws (DeleteProject (ah_fault h) projectID))) (\<lambda>_. returnP projectID)))))"

section \<open>Environments\<close>

record environmentRequest =
  eq_Name :: string
  eq_Namespace :: string
  eq_NamespaceMode :: string

definition normalizeEnvironmentNamespaceMode :: "string \<Rightarrow> string option" where
  "normalizeEnvironmentNamespaceMode v =
     (let m = TrimSpace v in if m = [] \<or> m = ''create'' then Some ''create'' else if m = ''bind'' then Some ''bind'' else None)"

definition isSystemNamespace :: "string \<Rightarrow> bool" where
  "isSystemNamespace namespace \<longleftrightarrow> namespace \<in> {''default'', ''kube-system'', ''kube-public'', ''kube-node-lease''}"

definition get_namespace :: "KubernetesAdapter \<Rightarrow> string \<Rightarrow> (kube_error, Namespace) request_proc" where
  "get_namespace k name = ask (\<lambda>t. ka_GetNamespace k t name) (\<lambda>_. WGetNamespace name) id"

definition claimed_namespace :: "nat \<Rightarrow> Namespace \<Rightarrow> Namespace" where
  "claimed_namespace projectID existing =
     existing\<lparr>ns_Labels := map_put ''app.kubernetes.io/managed-by'' ''cylism-manager'' (map_put ''cylism.io/project-id'' (show_nat projectID) (ns_Labels existing))\<rparr>"

definition new_namespace :: "nat \<Rightarrow> string \<Rightarrow> Namespace" where
  "new_namespace projectID namespace =
     \<lparr>ns_Name = namespace, ns_Phase = [], ns_Labels = [(''app.kubernetes.io/managed-by'', ''cylism-manager''), (''cylism.io/project-id'', show_nat projectID)]\<rparr>"

definition use_namespace :: "KubernetesAdapter \<Rightarrow> nat \<Rightarrow> string \<Rightarrow> string \<Rightarrow> bool \<Rightarrow> Namespace \<Rightarrow> (namespace_error, unit) request_proc" where
  "use_namespace k projectID namespace mode allowExisting existing =
     (let owner = TrimSpace (value_of (ns_Labels existing) ''cylism.io/project-id'') in
      if ns_Phase existing \<noteq> [] \<and> ns_Phase existing \<noteq> ''Active'' then failP (NamespaceNotReady namespace)
      else if mode = ''create'' \<and> \<not> allowExisting then failP (NamespaceExistsAlready namespace)
      else if owner \<noteq> [] \<and> owner \<noteq> show_nat projectID then failP (NamespaceOfProject namespace owner)
      else if owner = [] then
        (let x = claimed_namespace projectID existing in
         failing_as NamespaceClaim (ask (\<lambda>t. ka_UpdateNamespace k t x) (\<lambda>_. WUpdateNamespace x) (of_error id)))
      else returnP ())"

definition ensureEnvironmentNamespace ::
  "KubernetesAdapter option \<Rightarrow> nat \<Rightarrow> string \<Rightarrow> string \<Rightarrow> bool \<Rightarrow> (namespace_error, unit) request_proc" where
  "ensureEnvironmentNamespace client projectID namespace mode allowExisting =
     (if isSystemNamespace namespace then failP (SystemNamespace namespace)
      else case client of
        None \<Rightarrow> failP NamespaceClientMissing
      | Some k \<Rightarrow>
          tryP (get_namespace k namespace) (\<lambda>r. case r of
            Inr existing \<Rightarrow> use_namespace k projectID namespace mode allowExisting existing
          | Inl e \<Rightarrow>
              if e \<noteq> KNotFound then failP (NamespaceCheck e)
              else if mode = ''bind'' then failP (NamespaceNotThere namespace)
              else let x = new_namespace projectID namespace in
                failing_as NamespaceCreate (ask (\<lambda>t. ka_CreateNamespace k t x) (\<lambda>_. WCreateNamespace x) (of_error id))))"

definition environmentNamespaceStatus :: "KubernetesAdapter option \<Rightarrow> string \<Rightarrow> ('e, string) request_proc" where
  "environmentNamespaceStatus client namespace =
     (case client of
        None \<Rightarrow> returnP ''unknown''
      | Some k \<Rightarrow>
          tryP (get_namespace k namespace) (\<lambda>r. case r of
            Inl e \<Rightarrow> returnP (if e = KNotFound then ''missing'' else ''unknown'')
          | Inr resource \<Rightarrow> returnP (if ns_Phase resource = ''Active'' then ''active'' else if ns_Phase resource = ''Terminating'' then ''terminating'' else ''pending'')))"

text \<open>A conflict is answered; after another failure of the check the handler returns without an answer.\<close>

definition handleEnvironmentNamespaceError :: "store_error \<Rightarrow> workspace_refusal" where
  "handleEnvironmentNamespaceError e = (case e of NamespaceConflictError _ _ _ \<Rightarrow> NamespaceTaken e | _ \<Rightarrow> NothingWritten)"

definition after_save :: "store_error \<Rightarrow> workspace_refusal" where
  "after_save e = (case e of NamespaceConflictError _ _ _ \<Rightarrow> NamespaceTaken e | _ \<Rightarrow> EnvironmentExists)"

fun environment_views :: "ApplicationHandler \<Rightarrow> string list \<Rightarrow> Environment list \<Rightarrow> ('e, (Environment \<times> string \<times> bool) list) request_proc" where
  "environment_views h conflicts [] = returnP []"
| "environment_views h conflicts (e # es) =
     bindP (environmentNamespaceStatus (ah_kubernetes h) (en_Namespace e)) (\<lambda>status.
     bindP (environment_views h conflicts es) (\<lambda>views. returnP ((e, status, en_Namespace e \<in> set conflicts) # views)))"

definition Handler_ListEnvironments :: "ApplicationHandler \<Rightarrow> string \<Rightarrow> (workspace_refusal, (Environment \<times> string \<times> bool) list) request_proc" where
  "Handler_ListEnvironments h p =
     bindP (path_id p) (\<lambda>projectID.
     bindP (failing_as WorkspaceDB (on_ws (ListEnvironments (ah_fault h) projectID))) (\<lambda>environments.
     bindP (failing_as WorkspaceDB (on_ws (ListEnvironmentNamespaceConflicts (ah_fault h)))) (\<lambda>conflicts.
       environment_views h (map fst conflicts) environments)))"

definition Handler_ListEnvironmentNamespaceConflicts :: "ApplicationHandler \<Rightarrow> (workspace_refusal, (string \<times> Environment list) list) request_proc" where
  "Handler_ListEnvironmentNamespaceConflicts h = failing_as WorkspaceDB (on_ws (ListEnvironmentNamespaceConflicts (ah_fault h)))"

definition insert_environment_row :: "ApplicationHandler \<Rightarrow> nat \<Rightarrow> string \<Rightarrow> string \<Rightarrow> (workspace_refusal, Environment) request_proc" where
  "insert_environment_row h projectID name namespace s =
     failing_as after_save (on_ws (CreateEnvironment (ah_fault h) (ws_clock h s)
       (Some \<lparr>en_ID = 0, en_ProjectID = projectID, en_Name = name, en_Namespace = namespace, en_CreatedAt = zero_time\<rparr>))) s"

definition Handler_CreateEnvironment :: "ApplicationHandler \<Rightarrow> string \<Rightarrow> environmentRequest option \<Rightarrow> (workspace_refusal, Environment) request_proc" where
  "Handler_CreateEnvironment h p body =
     bindP (path_id p) (\<lambda>projectID.
     bindP (failing_as (\<lambda>_. ProjectMissing) (on_ws (GetProject (ah_fault h) projectID))) (\<lambda>_.
       case body of
         None \<Rightarrow> failP BodyInvalid
       | Some req \<Rightarrow>
           let name = TrimSpace (eq_Name req); namespace = TrimSpace (eq_Namespace req) in
           if name = [] \<or> namespace = [] then failP BodyInvalid
           else case normalizeEnvironmentNamespaceMode (eq_NamespaceMode req) of
             None \<Rightarrow> failP NamespaceModeInvalid
           | Some mode \<Rightarrow>
               if \<not> available h then failP ClusterUnavailable
               else bindP (failing_as handleEnvironmentNamespaceError (on_ws (EnsureNamespaceAvailable (ah_fault h) namespace 0))) (\<lambda>_.
                 bindP (failing_as NamespaceRefused (ensureEnvironmentNamespace (ah_kubernetes h) projectID namespace mode False)) (\<lambda>_.
                   insert_environment_row h projectID name namespace))))"

definition route_environment :: "ApplicationHandler \<Rightarrow> nat \<Rightarrow> nat \<Rightarrow> (workspace_refusal, Environment) request_proc" where
  "route_environment h projectID environmentID =
     failing_as (\<lambda>_. EnvironmentMissing) (on_ws (ResolveEnvironment (ah_fault h) projectID environmentID))"

text \<open>What a change of the name or the namespace asks first.\<close>

definition may_rename :: "ApplicationHandler \<Rightarrow> Environment \<Rightarrow> nat \<Rightarrow> (workspace_refusal, unit) request_proc" where
  "may_rename h environment environmentID =
     bindP (failing_as WorkspaceDB (on_ws (CountEnvironmentApplications (ah_fault h) environmentID))) (\<lambda>applicationCount.
     bindP (failing_as WorkspaceDB (on_ws (IsEnvironmentNamespaceConflicted (ah_fault h) (en_Namespace environment)))) (\<lambda>namespaceConflict.
       checked (applicationCount = 0 \<or> namespaceConflict) EnvironmentHasApplications))"

definition change_namespace :: "ApplicationHandler \<Rightarrow> nat \<Rightarrow> Environment \<Rightarrow> string \<Rightarrow> string \<Rightarrow> (workspace_refusal, unit) request_proc" where
  "change_namespace h projectID environment namespace mode_text =
     (case normalizeEnvironmentNamespaceMode mode_text of
        None \<Rightarrow> failP NamespaceModeInvalid
      | Some mode \<Rightarrow>
          if \<not> available h then failP ClusterUnavailable
          else bindP (failing_as handleEnvironmentNamespaceError (on_ws (EnsureNamespaceAvailable (ah_fault h) namespace (en_ID environment)))) (\<lambda>_.
            failing_as NamespaceRefused (ensureEnvironmentNamespace (ah_kubernetes h) projectID namespace mode False)))"

definition save_environment_row :: "ApplicationHandler \<Rightarrow> Environment \<Rightarrow> (workspace_refusal, unit) request_proc" where
  "save_environment_row h environment s = failing_as after_save (on_ws (UpdateEnvironment (ah_fault h) (ws_clock h s) (Some environment))) s"

definition Handler_UpdateEnvironment ::
  "ApplicationHandler \<Rightarrow> string \<Rightarrow> string \<Rightarrow> environmentRequest option \<Rightarrow> (workspace_refusal, Environment \<times> string) request_proc" where
  "Handler_UpdateEnvironment h p q body =
     bindP (path_id p) (\<lambda>projectID. bindP (path_id q) (\<lambda>environmentID.
       case body of
         None \<Rightarrow> failP BodyInvalid
       | Some req \<Rightarrow>
           let name = TrimSpace (eq_Name req); namespace = TrimSpace (eq_Namespace req) in
           if name = [] \<or> namespace = [] then failP BodyInvalid
           else bindP (route_environment h projectID environmentID) (\<lambda>environment.
             bindP (if en_Name environment \<noteq> name \<or> en_Namespace environment \<noteq> namespace then may_rename h environment environmentID else returnP ()) (\<lambda>_.
             bindP (if en_Namespace environment \<noteq> namespace then change_namespace h projectID environment namespace (eq_NamespaceMode req) else returnP ()) (\<lambda>_.
             bindP (environmentNamespaceStatus (ah_kubernetes h) namespace) (\<lambda>status.
             bindP (save_environment_row h (environment\<lparr>en_Name := name, en_Namespace := namespace\<rparr>)) (\<lambda>_.
               returnP (environment\<lparr>en_Name := name, en_Namespace := namespace\<rparr>, status))))))))"

definition Handler_SyncEnvironmentNamespace :: "ApplicationHandler \<Rightarrow> string \<Rightarrow> string \<Rightarrow> (workspace_refusal, Environment \<times> string) request_proc" where
  "Handler_SyncEnvironmentNamespace h p q =
     bindP (path_id p) (\<lambda>projectID. bindP (path_id q) (\<lambda>environmentID.
     bindP (route_environment h projectID environmentID) (\<lambda>environment.
       if \<not> available h then failP ClusterUnavailable
       else bindP (failing_as handleEnvironmentNamespaceError (on_ws (EnsureNamespaceAvailable (ah_fault h) (en_Namespace environment) (en_ID environment)))) (\<lambda>_.
         bindP (failing_as NamespaceRefused (ensureEnvironmentNamespace (ah_kubernetes h) projectID (en_Namespace environment) ''create'' True)) (\<lambda>_.
         bindP (environmentNamespaceStatus (ah_kubernetes h) (en_Namespace environment)) (\<lambda>status. returnP (environment, status)))))))"

definition Handler_DeleteEnvironment :: "ApplicationHandler \<Rightarrow> string \<Rightarrow> string \<Rightarrow> (workspace_refusal, nat) request_proc" where
  "Handler_DeleteEnvironment h p q =
     bindP (path_id p) (\<lambda>projectID. bindP (path_id q) (\<lambda>environmentID.
     bindP (route_environment h projectID environmentID) (\<lambda>_.
     bindP (failing_as WorkspaceDB (on_ws (CountEnvironmentApplications (ah_fault h) environmentID))) (\<lambda>applicationCount.
       if applicationCount > 0 then failP EnvironmentHasApplications
       else bindP (failing_as WorkspaceDB (on_ws (DeleteEnvironment (ah_fault h) environmentID))) (\<lambda>_. returnP environmentID)))))"

section \<open>Applications\<close>

record createApplicationRequest =
  ca_ProjectID :: nat
  ca_EnvironmentID :: nat
  ca_Name :: string

definition Handler_ListApplications :: "ApplicationHandler \<Rightarrow> string \<Rightarrow> string \<Rightarrow> (workspace_refusal, Application list) request_proc" where
  "Handler_ListApplications h project_query environment_query =
     (case OptionalID (TrimSpace project_query) of
        None \<Rightarrow> failP PathIDInvalid
      | Some projectID \<Rightarrow>
          (case OptionalID (TrimSpace environment_query) of
             None \<Rightarrow> failP PathIDInvalid
           | Some environmentID \<Rightarrow> failing_as WorkspaceDB (on_ws (ListApplications (ah_fault h) [projectID, environmentID]))))"

definition UpdateCapabilities :: "ApplicationHandler \<Rightarrow> string \<Rightarrow> string list option \<Rightarrow> (workspace_refusal, Application) request_proc" where
  "UpdateCapabilities h p body =
     bindP (path_id p) (\<lambda>applicationID.
       case body of
         None \<Rightarrow> failP BodyInvalid
       | Some capabilities \<Rightarrow>
           failing_as (\<lambda>e. if e = StoreDB ErrRecordNotFound then ApplicationMissing else CapabilitiesRefused e)
             (on_ws (ReplaceApplicationCapabilities (ah_fault h) applicationID capabilities)))"

text \<open>An error of the list of releases is dropped.\<close>

definition Handler_GetApplication :: "ApplicationHandler \<Rightarrow> string \<Rightarrow> (workspace_refusal, Application \<times> Release list) request_proc" where
  "Handler_GetApplication h p =
     bindP (path_id p) (\<lambda>i.
     bindP (query_application h i) (\<lambda>app.
     bindP (optional (on_rel (ListReleases (ah_fault h) i))) (\<lambda>releases. returnP (app, case releases of None \<Rightarrow> [] | Some rs \<Rightarrow> rs))))"

text \<open>\<open>h.workloads.UpdateKind\<close> with the adapter as its migrator.\<close>

definition run_update_kind :: "ApplicationHandler \<Rightarrow> Application \<Rightarrow> string \<Rightarrow> (workload_error, unit) request_proc" where
  "run_update_kind h app target s =
     (let migrator = map_option (\<lambda>k. ka_migrator k (sn_trace s)) (ah_kubernetes h) in
      case UpdateKind (ah_fault h) (ws_clock h s) migrator (Some app) target \<lparr>db = ws_part (db (sn_world s)), calls = calls (sn_world s)\<rparr> of
        (r, evs, w) \<Rightarrow> (r, s\<lparr>sn_world := \<lparr>db = put_ws (db w) (db (sn_world s)), calls = calls w\<rparr>, sn_trace := sn_trace s @ map WMigrator evs\<rparr>))"

definition UpdateWorkloadKind :: "ApplicationHandler \<Rightarrow> string \<Rightarrow> string option \<Rightarrow> (workspace_refusal, Application) request_proc" where
  "UpdateWorkloadKind h p body =
     (if \<not> available h then failP ClusterUnavailable
      else bindP (path_id p) (\<lambda>applicationID.
        case body of
          None \<Rightarrow> failP BodyInvalid
        | Some given \<Rightarrow>
            let kind = ToLower (TrimSpace given) in
            if kind \<noteq> ''deployment'' \<and> kind \<noteq> ''statefulset'' then failP WorkloadKindInvalid
            else bindP (query_application h applicationID) (\<lambda>app.
              if ap_WorkloadKind app = kind then returnP app
              else bindP (failing_as WorkloadRefused (run_update_kind h app kind)) (\<lambda>_. returnP (app\<lparr>ap_WorkloadKind := kind\<rparr>)))))"

definition insert_application_row :: "ApplicationHandler \<Rightarrow> createApplicationRequest \<Rightarrow> (workspace_refusal, Application) request_proc" where
  "insert_application_row h req s =
     failing_as (\<lambda>_. ApplicationExists) (on_ws (CreateApplication (ah_fault h) (ws_clock h s)
       \<lparr>ap_ID = 0, ap_ProjectID = ca_ProjectID req, ap_EnvironmentID = ca_EnvironmentID req, ap_Name = TrimSpace (ca_Name req), ap_WorkloadKind = ''deployment'',
        ap_CapabilitiesData = BadJSON, ap_Capabilities = [], ap_DefaultDeploymentTemplateID = None, ap_CreatedAt = zero_time,
        ap_Project = zero_project, ap_Environment = zero_environment\<rparr>)) s"

definition Handler_CreateApplication :: "ApplicationHandler \<Rightarrow> createApplicationRequest option \<Rightarrow> (workspace_refusal, Application) request_proc" where
  "Handler_CreateApplication h body =
     (case body of
        None \<Rightarrow> failP BodyInvalid
      | Some req \<Rightarrow>
          if ca_ProjectID req = 0 \<or> ca_EnvironmentID req = 0 \<or> TrimSpace (ca_Name req) = [] then failP BodyInvalid
          else if \<not> ValidateApplicationName (ah_checks h) (TrimSpace (ca_Name req)) then failP ApplicationNameRefused
          else bindP (failing_as (\<lambda>_. EnvironmentOfOtherProject) (on_ws (ResolveEnvironment (ah_fault h) (ca_ProjectID req) (ca_EnvironmentID req)))) (\<lambda>environment.
            bindP (failing_as (\<lambda>_. NamespaceUnsettled) (on_ws (EnsureNamespaceAvailable (ah_fault h) (en_Namespace environment) (en_ID environment)))) (\<lambda>_.
              insert_application_row h req)))"

section \<open>Endpoints\<close>

record applicationEndpointRequest =
  er_DomainID :: nat
  er_Path :: string
  er_ServicePort :: int
  er_Protocol :: string
  er_TLSEnabled :: bool
  er_IngressEnabled :: "bool option"
  er_AccessMode :: string

definition Handler_ListApplicationEndpoints :: "ApplicationHandler \<Rightarrow> string \<Rightarrow> (workspace_refusal, ApplicationEndpoint list) request_proc" where
  "Handler_ListApplicationEndpoints h p =
     bindP (path_id p) (\<lambda>applicationID.
     bindP (query_application h applicationID) (\<lambda>_.
     bindP (failing_as WorkspaceDB (on_rel (ListApplicationEndpoints (ah_fault h) applicationID))) (\<lambda>endpoints.
       returnP (map (\<lambda>e. e\<lparr>ae_IngressEnabled := endpointUsesIngress e, ae_Protocol := (if ae_Protocol e = [] then ''TCP'' else ae_Protocol e)\<rparr>) endpoints))))"

text \<open>The Service of the last successful release, else of the default template, else the port of an endpoint, else 80.\<close>

definition port_service :: "int \<Rightarrow> ServiceSpec" where
  "port_service port = \<lparr>sv_Port = port, sv_TargetPort = 0, sv_Protocol = [], sv_Type = [], sv_NodePort = 0, sv_ExternalTrafficPolicy = [], sv_Ports = []\<rparr>"

definition service_of :: "ReleaseSpec json \<Rightarrow> (workspace_refusal, ServiceSpec) request_proc" where
  "service_of snapshot = (case unmarshal snapshot of None \<Rightarrow> failP SnapshotUnreadable | Some spec \<Rightarrow> returnP (sp_Service spec))"

definition applicationServiceSpec :: "ApplicationHandler \<Rightarrow> Application \<Rightarrow> (workspace_refusal, ServiceSpec) request_proc" where
  "applicationServiceSpec h app =
     tryP (on_rel (GetLatestSuccessfulRelease (ah_fault h) (ap_ID app))) (\<lambda>r. case r of
       Inr release \<Rightarrow> service_of (rl_DesiredSpec release)
     | Inl e \<Rightarrow>
         if e \<noteq> ErrRecordNotFound then failP (WorkspaceDB e)
         else tryP (on_rel (GetDefaultApplicationDeploymentTemplate (ah_fault h) (ap_ID app))) (\<lambda>r. case r of
           Inr template \<Rightarrow> service_of (dt_Spec template)
         | Inl e \<Rightarrow>
             if e \<noteq> ErrRecordNotFound then failP (WorkspaceDB e)
             else bindP (failing_as WorkspaceDB (on_rel (ListApplicationEndpoints (ah_fault h) (ap_ID app)))) (\<lambda>endpoints.
               returnP (port_service (if endpoints \<noteq> [] \<and> ae_ServicePort (hd endpoints) > 0 then ae_ServicePort (hd endpoints) else 80)))))"

definition domain_row :: "ApplicationHandler \<Rightarrow> nat \<Rightarrow> (entry_error, ManagedDomain) request_proc" where
  "domain_row h i = bindP (failing_as (\<lambda>_. DomainUnusable) (on_store (GetManagedDomain (ah_fault h) i))) (\<lambda>domain.
     if \<not> md_Enabled domain then failP DomainUnusable else returnP domain)"

definition route_free :: "ApplicationHandler \<Rightarrow> ManagedDomain \<Rightarrow> string \<Rightarrow> nat \<Rightarrow> (entry_error, unit) request_proc" where
  "route_free h domain path endpointID =
     bindP (failing_as RouteCheck (on_ws (CountApplicationEndpointRoute (ah_fault h) (md_ID domain) path endpointID))) (\<lambda>conflicts.
       checked (conflicts = 0) (RouteTaken (md_Hostname domain) path))"

definition certificate_ready :: "ApplicationHandler \<Rightarrow> ManagedDomain \<Rightarrow> (entry_error, unit) request_proc" where
  "certificate_ready h domain =
     (if md_CertificateName domain = [] \<or> md_TLSSecretName domain = [] then failP DomainWithoutCert
      else case ah_kubernetes h of
        None \<Rightarrow> failP DomainWithoutCert
      | Some k \<Rightarrow>
          bindP (failing_as DomainCertificate (ask (\<lambda>t. ka_GetCertificate k t (md_Namespace domain) (md_CertificateName domain))
              (\<lambda>_. WGetCertificate (md_Namespace domain) (md_CertificateName domain)) id)) (\<lambda>certificate.
            checked (cf_Status certificate = ''Ready'') (CertificateNotReady (cf_Reason certificate))))"

definition new_endpoint :: "Application \<Rightarrow> ManagedDomain \<Rightarrow> string \<Rightarrow> string \<Rightarrow> applicationEndpointRequest \<Rightarrow> ApplicationEndpoint" where
  "new_endpoint app domain path accessMode req =
     (let ingressEnabled = (case er_IngressEnabled req of None \<Rightarrow> True | Some b \<Rightarrow> b) in
      \<lparr>ae_ID = 0, ae_ApplicationID = ap_ID app, ae_DomainID = md_ID domain, ae_Exposure = ''public'', ae_Domain = md_Hostname domain, ae_Path = path,
       ae_ServicePort = 0, ae_Protocol = [], ae_TLSEnabled = er_TLSEnabled req, ae_IngressEnabled = ingressEnabled,
       ae_IngressMode = (if ingressEnabled then ''ingress'' else ''metadata''), ae_TLSSecretName = [], ae_IssuerRef = md_IssuerRef domain, ae_AccessMode = accessMode\<rparr>)"

text \<open>Every caller has checked that there is an adapter.\<close>

definition prepareApplicationEndpoint ::
  "ApplicationHandler \<Rightarrow> Application \<Rightarrow> nat \<Rightarrow> applicationEndpointRequest \<Rightarrow> (entry_error, ApplicationEndpoint) request_proc" where
  "prepareApplicationEndpoint h app endpointID req =
     bindP (domain_row h (er_DomainID req)) (\<lambda>domain.
       if md_EnvironmentID domain = 0 \<or> md_EnvironmentID domain \<noteq> ap_EnvironmentID app then failP DomainOfOtherEnvironment
       else
         let path = (if TrimSpace (er_Path req) = [] then ''/'' else TrimSpace (er_Path req));
             mode = (if TrimSpace (er_AccessMode req) = [] then ''public'' else TrimSpace (er_AccessMode req));
             endpoint = new_endpoint app domain path mode req in
         bindP (if er_IngressEnabled req \<noteq> Some False then route_free h domain path endpointID else returnP ()) (\<lambda>_.
           if mode \<noteq> ''public'' \<and> mode \<noteq> ''protected_console'' then failP AccessModeInvalid
           else if \<not> er_TLSEnabled req then returnP endpoint
           else bindP (certificate_ready h domain) (\<lambda>_. returnP (endpoint\<lparr>ae_TLSSecretName := md_TLSSecretName domain\<rparr>))))"

definition sync_endpoints :: "ApplicationHandler \<Rightarrow> Application \<Rightarrow> ApplicationEndpoint list \<Rightarrow> int \<Rightarrow> (workspace_refusal, unit) request_proc" where
  "sync_endpoints h app endpoints port =
     (case ah_kubernetes h of
        None \<Rightarrow> failP ClusterUnavailable
      | Some k \<Rightarrow>
          ask (\<lambda>t. ka_SyncApplicationEndpoints k t (releaseApplicationContextFor app) endpoints port)
            (\<lambda>_. WSyncEndpoints (releaseApplicationContextFor app) endpoints port) (of_error EndpointSync))"

text \<open>The endpoint of a request with the port it is bound to.\<close>

definition bound_endpoint ::
  "ApplicationHandler \<Rightarrow> Application \<Rightarrow> nat \<Rightarrow> applicationEndpointRequest \<Rightarrow> (workspace_refusal, ApplicationEndpoint) request_proc" where
  "bound_endpoint h app endpointID req =
     bindP (failing_as EndpointRefused (prepareApplicationEndpoint h app endpointID req)) (\<lambda>endpoint.
     bindP (applicationServiceSpec h app) (\<lambda>serviceSpec.
       case ResolveEndpointServicePort serviceSpec (er_ServicePort req) (er_Protocol req) (endpointUsesIngress endpoint) of
         Inl e \<Rightarrow> failP (EndpointPort e)
       | Inr port \<Rightarrow> returnP (endpoint\<lparr>ae_ServicePort := po_Port port, ae_Protocol := po_Protocol port\<rparr>)))"

definition Handler_CreateApplicationEndpoint ::
  "ApplicationHandler \<Rightarrow> string \<Rightarrow> applicationEndpointRequest option \<Rightarrow> (workspace_refusal, ApplicationEndpoint) request_proc" where
  "Handler_CreateApplicationEndpoint h p body =
     (if \<not> available h then failP ClusterUnavailable
      else bindP (path_id p) (\<lambda>applicationID.
        bindP (query_application h applicationID) (\<lambda>app.
          case body of
            None \<Rightarrow> failP BodyInvalid
          | Some req \<Rightarrow>
              if er_DomainID req = 0 then failP BodyInvalid
              else bindP (bound_endpoint h app 0 req) (\<lambda>endpoint.
                bindP (failing_as WorkspaceDB (on_rel (ListApplicationEndpoints (ah_fault h) (ap_ID app)))) (\<lambda>endpoints.
                bindP (sync_endpoints h app (endpoints @ [endpoint]) (ae_ServicePort endpoint)) (\<lambda>_.
                bindP (failing_as WorkspaceDB (on_ws (CreateApplicationEndpoint (ah_fault h) endpoint))) (\<lambda>row.
                  returnP (row\<lparr>ae_IngressEnabled := endpointUsesIngress row\<rparr>))))))))"

definition stored_endpoint :: "ApplicationHandler \<Rightarrow> nat \<Rightarrow> nat \<Rightarrow> (workspace_refusal, ApplicationEndpoint) request_proc" where
  "stored_endpoint h applicationID endpointID =
     failing_as (\<lambda>e. if e = ErrRecordNotFound then EndpointMissing else WorkspaceDB e)
       (on_ws (GetApplicationEndpoint (ah_fault h) applicationID endpointID))"

definition Handler_UpdateApplicationEndpoint ::
  "ApplicationHandler \<Rightarrow> string \<Rightarrow> string \<Rightarrow> applicationEndpointRequest option \<Rightarrow> (workspace_refusal, ApplicationEndpoint) request_proc" where
  "Handler_UpdateApplicationEndpoint h p q body =
     (if \<not> available h then failP ClusterUnavailable
      else bindP (path_id p) (\<lambda>applicationID. bindP (path_id q) (\<lambda>endpointID.
        bindP (query_application h applicationID) (\<lambda>app.
          case body of
            None \<Rightarrow> failP BodyInvalid
          | Some req \<Rightarrow>
              if er_DomainID req = 0 then failP BodyInvalid
              else bindP (stored_endpoint h applicationID endpointID) (\<lambda>endpoint.
                bindP (bound_endpoint h app (ae_ID endpoint) req) (\<lambda>bound.
                bindP (failing_as WorkspaceDB (on_rel (ListApplicationEndpoints (ah_fault h) (ap_ID app)))) (\<lambda>endpoints.
                  let updated = bound\<lparr>ae_ID := ae_ID endpoint\<rparr> in
                  bindP (sync_endpoints h app (map (\<lambda>e. if ae_ID e = ae_ID endpoint then updated else e) endpoints) (ae_ServicePort updated)) (\<lambda>_.
                  bindP (failing_as WorkspaceDB (on_rel (UpdateApplicationEndpoint (ah_fault h) updated))) (\<lambda>_.
                    returnP (updated\<lparr>ae_IngressEnabled := endpointUsesIngress updated\<rparr>))))))))))"

definition removal_port :: "ServiceSpec \<Rightarrow> ServicePortSpec option" where
  "removal_port spec = (case PrimaryTCPPort spec of Some port \<Rightarrow> Some port | None \<Rightarrow> (case PortSpecs spec of [] \<Rightarrow> None | port # _ \<Rightarrow> Some port))"

definition Handler_DeleteApplicationEndpoint :: "ApplicationHandler \<Rightarrow> string \<Rightarrow> string \<Rightarrow> (workspace_refusal, nat) request_proc" where
  "Handler_DeleteApplicationEndpoint h p q =
     (if \<not> available h then failP ClusterUnavailable
      else bindP (path_id p) (\<lambda>applicationID. bindP (path_id q) (\<lambda>endpointID.
        bindP (query_application h applicationID) (\<lambda>app.
        bindP (stored_endpoint h applicationID endpointID) (\<lambda>_.
        bindP (applicationServiceSpec h app) (\<lambda>serviceSpec.
          case removal_port serviceSpec of
            None \<Rightarrow> failP NoPortToBind
          | Some port \<Rightarrow>
              bindP (failing_as WorkspaceDB (on_rel (ListApplicationEndpoints (ah_fault h) (ap_ID app)))) (\<lambda>endpoints.
              bindP (sync_endpoints h app (filter (\<lambda>e. ae_ID e \<noteq> endpointID) endpoints) (po_Port port)) (\<lambda>_.
              bindP (failing_as WorkspaceDB (on_ws (DeleteApplicationEndpoint (ah_fault h) applicationID endpointID))) (\<lambda>_. returnP endpointID)))))))))"

end
