(* ===== verification/Workspace_Integrity.thy ===== *)
theory Workspace_Integrity
  imports Workspace_Requests
begin

text \<open>
  The references between the tables: environments to projects, applications to environments, endpoints to
  applications and to managed domains. The requests about the workspace and about domains keep them, in any order
  and whatever fails.
\<close>

section \<open>The invariant\<close>

text \<open>An endpoint names a domain that is bound to the environment of its application.\<close>

definition endpoint_refers :: "Application list \<Rightarrow> ManagedDomain list \<Rightarrow> ApplicationEndpoint \<Rightarrow> bool" where
  "endpoint_refers apps domains e \<longleftrightarrow> ae_DomainID e = 0 \<or>
     list_ex (\<lambda>a. ap_ID a = ae_ApplicationID e \<and>
       list_ex (\<lambda>x. md_ID x = ae_DomainID e \<and> md_EnvironmentID x = ap_EnvironmentID a \<and> md_EnvironmentID x \<noteq> 0) domains) apps"

definition application_refers :: "Environment list \<Rightarrow> Application \<Rightarrow> bool" where
  "application_refers environments a \<longleftrightarrow> list_ex (\<lambda>e. en_ID e = ap_EnvironmentID a \<and> en_ProjectID e = ap_ProjectID a) environments"

text \<open>Two endpoints that are routed do not share a domain and a path.\<close>

definition same_route :: "ApplicationEndpoint \<Rightarrow> ApplicationEndpoint \<Rightarrow> bool" where
  "same_route e f \<longleftrightarrow> ae_DomainID e \<noteq> 0 \<and> ae_DomainID f = ae_DomainID e \<and> ae_Path f = ae_Path e \<and> ae_IngressMode e \<noteq> ''metadata'' \<and> ae_IngressMode f \<noteq> ''metadata''"

definition routes_ok :: "ApplicationEndpoint list \<Rightarrow> bool" where
  "routes_ok es \<longleftrightarrow> list_all (\<lambda>e. list_all (\<lambda>f. same_route e f \<longrightarrow> ae_ID f = ae_ID e) es) es"

definition tables_ok :: "ManagedDomain list \<Rightarrow> workspace_db \<Rightarrow> bool" where
  "tables_ok domains w \<longleftrightarrow>
     distinct (map en_ID (wd_environments w)) \<and> distinct (map ap_ID (rd_apps w)) \<and> 0 \<notin> en_ID ` set (wd_environments w) \<and> 0 \<notin> ap_ID ` set (rd_apps w) \<and>
     list_all (\<lambda>e. en_ProjectID e \<in> pj_ID ` set (wd_projects w)) (wd_environments w) \<and>
     list_all (application_refers (wd_environments w)) (rd_apps w) \<and>
     list_all (endpoint_refers (rd_apps w) domains) (rd_endpoints w) \<and> routes_ok (rd_endpoints w)"

definition references_ok :: "network_db \<Rightarrow> bool" where
  "references_ok d \<longleftrightarrow> domains_wf d \<and> tables_ok (nd_domains d) (ws_part d)"

section \<open>The tables of the workspace\<close>

lemma ws_part_put [simp]: "ws_part (put_ws w d) = w"
  by (cases d; cases w; simp add: ws_part_def put_ws_def storage_db.defs workspace_db.defs)

lemma put_ws_domains [simp]: "nd_domains (put_ws w d) = nd_domains d" "nd_seq (put_ws w d) = nd_seq d"
  by (cases d; cases w; simp add: put_ws_def storage_db.defs workspace_db.defs)+

lemma put_ws_part [simp]: "put_ws (ws_part d) d = d"
  by (cases d; simp add: ws_part_def put_ws_def storage_db.defs workspace_db.defs)

lemma references_put: "references_ok d \<Longrightarrow> tables_ok (nd_domains d) w \<Longrightarrow> references_ok (put_ws w d)"
  by (simp add: references_ok_def domains_wf_def)

definition sees :: "network_db \<Rightarrow> workspace_state \<Rightarrow> bool" where
  "sees d s \<longleftrightarrow> db (sn_world s) = d"

lemma on_ws_run: "on_ws m s = (case m \<lparr>db = ws_part (db (sn_world s)), calls = calls (sn_world s)\<rparr> of
    (r, w) \<Rightarrow> (r, s\<lparr>sn_world := \<lparr>db = put_ws (db w) (db (sn_world s)), calls = calls w\<rparr>\<rparr>))"
  by (simp add: on_ws_def on_store_def on_storage_def on_workspace_def ws_part_def put_ws_def split: prod.splits)

lemma sees_only: "only A (=) m \<Longrightarrow> triple (sees d) m (\<lambda>_. sees d)"
  by (rule tripleI) (auto simp: sees_def elim: onlyE)

lemma sees_bind:
  assumes "only A (=) m" and "\<And>x. triple (sees d) (f x) Q" and "\<And>e s. sees d s \<Longrightarrow> Q (Inl e) s"
  shows "triple (sees d) (bindP m f) Q"
  by (rule triple_bindP [OF sees_only [OF assms(1)] assms(2)]) (use assms(3) in auto)

text \<open>The value that is read satisfies what the query says of the tables.\<close>

lemma sees_read:
  assumes "\<And>x. f (ws_part d) = Inr x \<Longrightarrow> triple (sees d) (k x) Q" and "\<And>e s. sees d s \<Longrightarrow> Q (Inl (g e)) s"
  shows "triple (sees d) (bindP (failing_as g (on_ws (db_read fault f))) k) Q"
proof (rule triple_bindP)
  show "triple (sees d) (failing_as g (on_ws (db_read fault f)))
      (\<lambda>r s. sees d s \<and> (case r of Inl e \<Rightarrow> \<exists>e'. e = g e' | Inr x \<Rightarrow> f (ws_part d) = Inr x))"
    by (rule tripleI)
      (auto simp: failing_as_def tryP_def failP_def returnP_def on_ws_run db_read_def db_call_def sees_def split: if_splits sum.splits prod.splits)
qed (use assms in \<open>auto simp: triple_def\<close>)

text \<open>What a write does to the tables of the workspace.\<close>

lemma sees_write:
  assumes "keeps R m"
  shows "triple (sees d) (on_ws m) (\<lambda>_ s. \<exists>w. R (ws_part d) w \<and> db (sn_world s) = put_ws w d)"
  by (rule tripleI) (use assms in \<open>auto simp: sees_def on_ws_run keeps_def split: prod.splits\<close>, metis snd_conv world.select_convs(1))

definition preserves :: "(workspace_db \<Rightarrow> bool) \<Rightarrow> workspace_db \<Rightarrow> workspace_db \<Rightarrow> bool" where
  "preserves P w w' \<longleftrightarrow> (P w \<longrightarrow> P w')"

interpretation pr: data_evolution "preserves P" for P
  by unfold_locales (auto simp: preserves_def)

lemma references_write:
  assumes "keeps (preserves P) m" and "P (ws_part d)" and "\<And>w. P w \<Longrightarrow> tables_ok (nd_domains d) w" and "references_ok d"
  shows "triple (sees d) (on_ws m) (\<lambda>_ s. references_ok (db (sn_world s)))"
  by (rule triple_post [OF sees_write [OF assms(1)]]) (use assms(2-4) in \<open>auto simp: preserves_def references_put\<close>)

text \<open>A single statement may use its condition up.\<close>

lemma references_call:
  assumes "\<And>w. w = ws_part d \<Longrightarrow> tables_ok (nd_domains d) w \<Longrightarrow> tables_ok (nd_domains d) (snd (f w))" and "references_ok d"
  shows "triple (sees d) (on_ws (db_call fault f)) (\<lambda>_ s. references_ok (db (sn_world s)))"
proof -
  have "keeps (\<lambda>w w'. w = ws_part d \<longrightarrow> tables_ok (nd_domains d) w') (db_call fault f)"
    using assms by (auto simp: keeps_def db_call_def references_ok_def split: prod.splits)
  from sees_write [OF this] show ?thesis by (rule triple_post) (use assms(2) in \<open>auto simp: references_put\<close>)
qed

section \<open>Single writes\<close>

lemma note_id_fields [simp]: "wd_projects (note_id t i w) = wd_projects w" "wd_environments (note_id t i w) = wd_environments w"
  "rd_apps (note_id t i w) = rd_apps w" "rd_endpoints (note_id t i w) = rd_endpoints w"
  by (simp_all add: note_id_def)

lemma projects_grow:
  assumes "tables_ok D w" and "pj_ID ` set (wd_projects w) \<subseteq> pj_ID ` set ps"
  shows "tables_ok D (note_id t i (w\<lparr>wd_projects := ps\<rparr>))"
  using assms by (auto simp: tables_ok_def list_all_iff)

lemma create_project_ok: "tables_ok D w \<Longrightarrow> tables_ok D (w\<lparr>wd_projects := wd_projects w @ [row]\<rparr>)"
  by (auto simp: tables_ok_def list_all_iff)

lemma delete_project_ok:
  assumes "tables_ok D w" and "filter (\<lambda>e. en_ProjectID e = i) (wd_environments w) = []"
  shows "tables_ok D (w\<lparr>wd_projects := filter (\<lambda>p. pj_ID p \<noteq> i) (wd_projects w)\<rparr>)"
  using assms by (auto simp: tables_ok_def list_all_iff filter_empty_conv image_iff) metis

lemma application_refers_mono: "application_refers es a \<Longrightarrow> set es \<subseteq> set es' \<Longrightarrow> application_refers es' a"
  by (auto simp: application_refers_def list_ex_iff)

lemma environment_inserted_ok:
  assumes "tables_ok D w" and "en_ProjectID e \<in> pj_ID ` set (wd_projects w)" and "en_ID e = 0"
  shows "tables_ok D (snd (insert_environment now e w))"
  using assms
  by (auto simp: insert_environment_def Let_def assign_id_def tables_ok_def list_all_iff list_ex_iff image_iff elim!: application_refers_mono)

lemma tbl_save_keeps: "x \<in> set rows \<Longrightarrow> key x \<noteq> key r \<Longrightarrow> x \<in> set (tbl_save key r rows)"
  by (induction rows) auto

lemma environment_saved_ok:
  assumes "tables_ok D w" and "en_ID e \<noteq> 0" and "en_ProjectID e \<in> pj_ID ` set (wd_projects w)"
    and "list_all (\<lambda>x. en_ID x = en_ID e \<longrightarrow> en_ProjectID x = en_ProjectID e) (wd_environments w)"
  shows "tables_ok D (snd (save_environment now e w))"
proof -
  let ?es = "tbl_save en_ID e (wd_environments w)"
  have refers: "application_refers ?es a" if "application_refers (wd_environments w) a" for a
  proof -
    from that obtain x where x: "x \<in> set (wd_environments w)" "en_ID x = ap_EnvironmentID a" "en_ProjectID x = ap_ProjectID a"
      by (auto simp: application_refers_def list_ex_iff)
    show ?thesis
    proof (cases "en_ID x = en_ID e")
      case True
      with x assms(4) show ?thesis
        by (auto simp: application_refers_def list_ex_iff list_all_iff intro!: bexI [of _ e] tbl_save_member)
    next
      case False
      then have "x \<in> set ?es" using x(1) by (simp add: tbl_save_keeps)
      with x show ?thesis by (auto simp: application_refers_def list_ex_iff)
    qed
  qed
  show ?thesis
    using assms(1-3) refers
    by (auto simp: save_environment_def tables_ok_def list_all_iff tbl_save_keys tbl_save_distinct dest!: tbl_save_in)
qed

lemma delete_environment_ok:
  assumes "tables_ok D w" and "filter (\<lambda>a. ap_EnvironmentID a = i) (rd_apps w) = []"
  shows "tables_ok D (w\<lparr>wd_environments := filter (\<lambda>e. en_ID e \<noteq> i) (wd_environments w)\<rparr>)"
  using assms
  by (auto simp: tables_ok_def list_all_iff list_ex_iff application_refers_def filter_empty_conv distinct_map_filter) (metis)

lemma index_ok: "tables_ok D (snd (create_namespace_index w)) = tables_ok D w"
  by (simp add: create_namespace_index_def tables_ok_def)

lemma endpoint_refers_mono:
  "endpoint_refers apps D e \<Longrightarrow> (\<And>a. a \<in> set apps \<Longrightarrow> \<exists>b \<in> set apps'. ap_ID b = ap_ID a \<and> ap_EnvironmentID b = ap_EnvironmentID a) \<Longrightarrow> endpoint_refers apps' D e"
  by (fastforce simp: endpoint_refers_def list_ex_iff)

lemma endpoint_refers_append: "endpoint_refers apps D e \<Longrightarrow> endpoint_refers (apps @ [a]) D e"
  by (auto simp: endpoint_refers_def)

lemma application_inserted_ok:
  assumes "tables_ok D w" and "application_refers (wd_environments w) a" and "ap_ID a = 0"
  shows "tables_ok D (snd (insert_application now a w))"
proof -
  have "application_refers es (a\<lparr>ap_ID := i, ap_CreatedAt := t, ap_WorkloadKind := k\<rparr>) = application_refers es a" for es i t k
    by (simp add: application_refers_def)
  with assms show ?thesis
    by (auto simp: insert_application_def Let_def assign_id_def tables_ok_def list_all_iff list_ex_iff image_iff endpoint_refers_append)
qed

lemma apps_like_ok:
  assumes "tables_ok D w" and "map ap_ID apps = map ap_ID (rd_apps w)"
    and "map ap_EnvironmentID apps = map ap_EnvironmentID (rd_apps w)" and "map ap_ProjectID apps = map ap_ProjectID (rd_apps w)"
  shows "tables_ok D (w\<lparr>rd_apps := apps\<rparr>)"
proof -
  have len: "length apps = length (rd_apps w)" using assms(2) by (metis length_map)
  have at: "ap_ID (apps ! j) = ap_ID (rd_apps w ! j)" "ap_EnvironmentID (apps ! j) = ap_EnvironmentID (rd_apps w ! j)"
    "ap_ProjectID (apps ! j) = ap_ProjectID (rd_apps w ! j)" if "j < length apps" for j
    using assms(2-4) that len by (metis nth_map)+
  have old: "\<exists>b \<in> set apps. ap_ID b = ap_ID a \<and> ap_EnvironmentID b = ap_EnvironmentID a" if "a \<in> set (rd_apps w)" for a
    using that at len by (metis in_set_conv_nth)
  have "application_refers (wd_environments w) a" if "a \<in> set apps" for a
  proof -
    from that obtain j where "j < length apps" "a = apps ! j" by (metis in_set_conv_nth)
    moreover have "application_refers (wd_environments w) (rd_apps w ! j)" if "j < length (rd_apps w)" for j
      using assms(1) that by (simp add: tables_ok_def list_all_iff)
    ultimately show ?thesis using at len by (simp add: application_refers_def)
  qed
  moreover have "0 \<notin> ap_ID ` set apps" using assms(1,2) by (metis list.set_map tables_ok_def)
  ultimately show ?thesis
    using assms(1,2) old by (auto simp: tables_ok_def list_all_iff elim!: endpoint_refers_mono)
qed

lemma tbl_save_maps:
  assumes "distinct (map key rows)" and "x \<in> set rows" and "key x = key r" and "f x = f r"
  shows "map f (tbl_save key r rows) = map f rows"
  using assms by (induction rows) (auto simp: image_iff)

lemma application_saved_ok:
  assumes "tables_ok D w" and "x \<in> set (rd_apps w)" and "ap_ID a = ap_ID x" and "ap_EnvironmentID a = ap_EnvironmentID x" and "ap_ProjectID a = ap_ProjectID x"
  shows "tables_ok D (snd (save_application now a w))"
proof -
  have "ap_ID a \<noteq> 0" using assms(1-3) by (force simp: tables_ok_def)
  moreover have "distinct (map ap_ID (rd_apps w))" using assms(1) by (simp add: tables_ok_def)
  then have "tables_ok D (w\<lparr>rd_apps := tbl_save ap_ID a (rd_apps w)\<rparr>)"
    by (intro apps_like_ok assms(1) tbl_save_maps [where x = x and key = ap_ID]) (simp_all add: assms)
  ultimately show ?thesis using assms(1) by (simp add: save_application_def tables_ok_def)
qed

lemma endpoints_less_ok:
  assumes "tables_ok D w" and "set es \<subseteq> set (rd_endpoints w)"
  shows "tables_ok D (w\<lparr>rd_endpoints := es\<rparr>)"
  using assms by (auto simp: tables_ok_def list_all_iff routes_ok_def) (meson subsetD)

text \<open>A new or changed endpoint whose route no other endpoint has.\<close>

lemma endpoint_saved_ok:
  assumes "tables_ok D w" and "endpoint_refers (rd_apps w) D e" and "list_all (\<lambda>f. same_route e f \<longrightarrow> ae_ID f = ae_ID e) (rd_endpoints w)"
    and "set es \<subseteq> insert e (set (rd_endpoints w))"
  shows "tables_ok D (w\<lparr>rd_endpoints := es\<rparr>)"
proof -
  have sym: "same_route f e = same_route e f" for f by (auto simp: same_route_def)
  have old: "ae_ID g = ae_ID f" if "f \<in> set (rd_endpoints w)" "g \<in> set (rd_endpoints w)" "same_route f g" for f g
    using assms(1) that by (auto simp: tables_ok_def routes_ok_def list_all_iff)
  have new: "ae_ID f = ae_ID e" if "f \<in> set (rd_endpoints w)" "same_route e f" for f
    using assms(3) that by (auto simp: list_all_iff)
  have cover: "f = e \<or> f \<in> set (rd_endpoints w)" if "f \<in> set es" for f using assms(4) that by auto
  have "ae_ID g = ae_ID f" if "f \<in> set es" "g \<in> set es" "same_route f g" for f g
    using cover [OF that(1)] cover [OF that(2)] that(3) old new sym by metis
  then have "routes_ok es" by (simp add: routes_ok_def list_all_iff)
  moreover have "endpoint_refers (rd_apps w) D f" if "f \<in> set es" for f
    using cover [OF that] assms(1,2) by (auto simp: tables_ok_def list_all_iff)
  ultimately show ?thesis using assms(1) by (simp add: tables_ok_def list_all_iff)
qed

section \<open>Requests about the workspace\<close>

datatype workspace_call =
    WCreateProject nat "projectRequest option" | WUpdateProject string "projectRequest option" | WDeleteProject string
  | WCreateEnvironment string "environmentRequest option" | WUpdateEnvironment string string "environmentRequest option"
  | WSyncEnvironment string string | WDeleteEnvironment string string
  | WCreateApplication "createApplicationRequest option" | WUpdateCapabilities string "string list option" | WUpdateWorkloadKind string "string option"
  | WCreateEndpoint string "applicationEndpointRequest option" | WUpdateEndpoint string string "applicationEndpointRequest option" | WDeleteEndpoint string string

definition serve_workspace :: "ApplicationHandler \<Rightarrow> workspace_call \<Rightarrow> workspace_state \<Rightarrow> workspace_state" where
  "serve_workspace h act s =
     (case act of
        WCreateProject user body \<Rightarrow> snd (Handler_CreateProject h user body s)
      | WUpdateProject p body \<Rightarrow> snd (Handler_UpdateProject h p body s)
      | WDeleteProject p \<Rightarrow> snd (Handler_DeleteProject h p s)
      | WCreateEnvironment p body \<Rightarrow> snd (Handler_CreateEnvironment h p body s)
      | WUpdateEnvironment p q body \<Rightarrow> snd (Handler_UpdateEnvironment h p q body s)
      | WSyncEnvironment p q \<Rightarrow> snd (Handler_SyncEnvironmentNamespace h p q s)
      | WDeleteEnvironment p q \<Rightarrow> snd (Handler_DeleteEnvironment h p q s)
      | WCreateApplication body \<Rightarrow> snd (Handler_CreateApplication h body s)
      | WUpdateCapabilities p body \<Rightarrow> snd (UpdateCapabilities h p body s)
      | WUpdateWorkloadKind p body \<Rightarrow> snd (UpdateWorkloadKind h p body s)
      | WCreateEndpoint p body \<Rightarrow> snd (Handler_CreateApplicationEndpoint h p body s)
      | WUpdateEndpoint p q body \<Rightarrow> snd (Handler_UpdateApplicationEndpoint h p q body s)
      | WDeleteEndpoint p q \<Rightarrow> snd (Handler_DeleteApplicationEndpoint h p q s))"

abbreviation intact :: "workspace_state \<Rightarrow> bool" where
  "intact s \<equiv> references_ok (db (sn_world s))"

lemma sees_intact: "references_ok d \<Longrightarrow> sees d s \<Longrightarrow> intact s"
  by (simp add: sees_def)

lemma intact_failing: "triple P m (\<lambda>_. intact) \<Longrightarrow> triple P (failing_as f m) (\<lambda>_. intact)"
  by (erule triple_failing_as)

lemma intact_last: "triple P m (\<lambda>_. intact) \<Longrightarrow> triple P (bindP m (\<lambda>x. returnP (f x))) (\<lambda>_. intact)"
  by (erule triple_bindP) (auto intro: triple_returnP)

lemma intact_state: "(\<And>x. triple P (m x) Q) \<Longrightarrow> triple P (\<lambda>s. m (g s) s) Q"
  by (auto simp: triple_def)

text \<open>Steps that only read.\<close>

lemma reads_ws: "keeps (=) m \<Longrightarrow> only A (=) (on_ws m)"
  unfolding on_ws_def by (intro same.only_on_store keeps_on_storage_same keeps_on_workspace_same)

lemma release_extend_truncate: "release_db.extend (release_db.truncate r) (release_db.more r) = r"
  by (cases r) (simp add: release_db.defs)

lemma keeps_releases_same: "keeps (=) m \<Longrightarrow> keeps (=) (on_releases m)"
  by (auto simp: keeps_def [of _ "on_releases m"] on_releases_def release_extend_truncate dest: keeps_same split: prod.splits)

lemma reads_rel: "keeps (=) m \<Longrightarrow> only A (=) (on_rel m)"
  unfolding on_rel_def by (intro reads_ws keeps_releases_same)

lemma reads_path [looks]: "only A (=) (path_id p)"
  unfolding path_id_def by (intro same.only_intros)

lemma reads_namespace: "only (\<lambda>_. True) (=) (get_namespace k name)"
  unfolding get_namespace_def by (rule same.only_ask) simp

lemma reads_status: "only (\<lambda>_. True) (=) (environmentNamespaceStatus client name)"
  unfolding environmentNamespaceStatus_def by (intro same.only_intros reads_namespace)

lemma reads_ensure: "only (\<lambda>_. True) (=) (ensureEnvironmentNamespace client projectID name mode allow)"
  unfolding ensureEnvironmentNamespace_def use_namespace_def Let_def
  by (intro same.only_intros reads_namespace same.only_ask) simp_all

lemma reads_available: "keeps (=) (EnsureNamespaceAvailable fault name i)"
  unfolding EnsureNamespaceAvailable_def ensureNamespaceAvailable_def
  by (intro same.keeps_tryP same.keeps_read) (auto intro: same.keeps_returnP same.keeps_failP split: sum.splits db_error.splits)

lemma reads_environment: "keeps (=) (ResolveEnvironment fault p e)"
  unfolding ResolveEnvironment_def GetEnvironment_def
  by (intro same.keeps_tryP same.keeps_read) (auto intro: same.keeps_returnP same.keeps_failP split: sum.splits)

lemma reads_sync: "only (\<lambda>_. True) (=) (sync_endpoints h app es port)"
  unfolding sync_endpoints_def by (intro same.only_intros same.only_ask) simp

lemma reads_template: "keeps (=) (GetDefaultApplicationDeploymentTemplate fault i)"
  unfolding GetDefaultApplicationDeploymentTemplate_def GetApplicationDeploymentTemplate_def
  by (intro same.keeps_bindP same.keeps_read) (auto intro: same.keeps_failP same.keeps_read split: option.splits)

lemma reads_service: "only A (=) (applicationServiceSpec h app)"
proof -
  have "only A (=) (service_of x)" for x unfolding service_of_def by (intro same.only_intros)
  then show ?thesis
    unfolding applicationServiceSpec_def GetLatestSuccessfulRelease_def ListApplicationEndpoints_def
    by (intro same.only_intros reads_rel reads_template same.keeps_read)
qed

lemma reads_certificate: "only (\<lambda>_. True) (=) (certificate_ready h x)"
  unfolding certificate_ready_def by (intro same.only_intros same.only_ask) simp

lemma project_rows_ok: "references_ok d \<Longrightarrow> triple (sees d) (on_ws (CreateProject fault now p)) (\<lambda>_. intact)"
  unfolding CreateProject_def by (rule references_call) (auto simp: Let_def intro!: projects_grow)

lemma project_save_ok: "references_ok d \<Longrightarrow> triple (sees d) (on_ws (UpdateProject fault now p)) (\<lambda>_. intact)"
  unfolding UpdateProject_def by (auto intro!: project_rows_ok references_call projects_grow simp: tbl_save_keys)

lemma create_project_intact:
  assumes "references_ok d"
  shows "triple (sees d) (Handler_CreateProject h user body) (\<lambda>_. intact)"
proof -
  note answers = triple_failP [of "sees d" "\<lambda>_. intact", OF sees_intact [OF assms]]
  have "triple (sees d) (case body of None \<Rightarrow> failP BodyInvalid | Some req \<Rightarrow>
          if pq_Name req = [] then failP BodyInvalid
          else if pq_DefaultImageRegistryID req \<notin> {None, Some 0} then failP RegistryBeforeProject
          else failing_as (\<lambda>_. ProjectExists) (on_ws (CreateProject (ah_fault h) now
            \<lparr>pj_ID = 0, pj_Name = pq_Name req, pj_DefaultImageRegistryID = None, pj_OwnerID = user, pj_CreatedAt = zero_time\<rparr>))) (\<lambda>_. intact)" for now
    by (intro triple_option triple_if answers intact_failing project_rows_ok assms)
  then show ?thesis unfolding triple_def Handler_CreateProject_def by blast
qed

lemma save_project_intact:
  assumes "references_ok d"
  shows "triple (sees d) (save_project h p) (\<lambda>_. intact)"
proof -
  have "triple (sees d) (failing_as (\<lambda>_. ProjectExists) (on_ws (UpdateProject (ah_fault h) now p))) (\<lambda>_. intact)" for now
    by (intro intact_failing project_save_ok assms)
  then show ?thesis unfolding triple_def save_project_def by blast
qed

lemma reads_registry: "only A (=) (chosen_registry h i req p)"
  unfolding chosen_registry_def GetImageRegistryForProject_def by (intro same.only_intros reads_rel same.keeps_read)

text \<open>What a step that only reads says of the value it returns.\<close>

definition learns :: "network_db \<Rightarrow> ('e, 'a) request_proc \<Rightarrow> ('a \<Rightarrow> bool) \<Rightarrow> bool" where
  "learns d m K \<longleftrightarrow> triple (sees d) m (\<lambda>r s. sees d s \<and> (\<forall>x. r = Inr x \<longrightarrow> K x))"

lemma learns_only: "only A (=) m \<Longrightarrow> learns d m (\<lambda>_. True)"
  unfolding learns_def by (rule triple_post [OF sees_only]) simp_all

lemma learns_post: "learns d m K \<Longrightarrow> (\<And>x. K x \<Longrightarrow> L x) \<Longrightarrow> learns d m L"
  unfolding learns_def by (erule triple_post) auto

lemma learns_failing: "learns d m K \<Longrightarrow> learns d (failing_as g m) K"
  unfolding learns_def by (erule triple_failing_as) auto

lemma learns_bind: "learns d m K \<Longrightarrow> (\<And>x. K x \<Longrightarrow> learns d (k x) L) \<Longrightarrow> learns d (bindP m k) L"
  unfolding learns_def by (erule triple_bindP) (auto simp: triple_def)

lemma learns_read: "learns d (on_ws (db_read fault f)) (\<lambda>x. f (ws_part d) = Inr x)"
  unfolding learns_def by (rule tripleI) (auto simp: on_ws_run db_read_def db_call_def sees_def split: if_splits sum.splits prod.splits)

lemma learns_domain: "learns d (on_store (GetManagedDomain fault i)) (\<lambda>x. x \<in> set (nd_domains d) \<and> md_ID x = i)"
  unfolding learns_def GetManagedDomain_def
  by (rule tripleI) (auto simp: on_store_def db_read_def db_call_def sees_def dest!: tbl_find_key split: if_splits sum.splits prod.splits)

lemma learns_return: "K x \<Longrightarrow> learns d (returnP x) K"
  unfolding learns_def by (rule triple_returnP) simp

lemma learns_fail: "learns d (failP e) K"
  unfolding learns_def by (rule triple_failP) simp

lemma learns_if: "(b \<Longrightarrow> learns d m K) \<Longrightarrow> (\<not> b \<Longrightarrow> learns d m' K) \<Longrightarrow> learns d (if b then m else m') K"
  by simp

lemma learns_checked: "learns d (checked b e) (\<lambda>_. b)"
  by (simp add: checked_def learns_fail learns_return)

lemma intact_bind:
  assumes "references_ok d" and "learns d m K" and "\<And>x. K x \<Longrightarrow> triple (sees d) (k x) (\<lambda>_. intact)"
  shows "triple (sees d) (bindP m k) (\<lambda>_. intact)"
  by (rule triple_bindP [OF assms(2) [unfolded learns_def]]) (use assms(3) in \<open>auto simp: triple_def intro: sees_intact [OF assms(1)]\<close>)

lemma intact_fail: "references_ok d \<Longrightarrow> triple (sees d) (failP e) (\<lambda>_. intact)"
  by (rule triple_failP) (rule sees_intact)

lemma intact_return: "references_ok d \<Longrightarrow> triple (sees d) (returnP x) (\<lambda>_. intact)"
  by (rule triple_returnP) (rule sees_intact)

lemma intact_only: "references_ok d \<Longrightarrow> only A (=) m \<Longrightarrow> triple (sees d) m (\<lambda>_. intact)"
  by (rule triple_post [OF sees_only]) (auto intro: sees_intact)

lemmas learns_path = learns_only [OF reads_path [where A = "\<lambda>_. True"]]

lemma learns_project:
  "learns d (failing_as g (on_ws (GetProject fault i))) (\<lambda>_. i \<in> pj_ID ` set (wd_projects (ws_part d)))"
  unfolding GetProject_def
  by (rule learns_post [OF learns_failing [OF learns_read]]) (auto dest!: tbl_find_key)

lemma learns_environment:
  "learns d (failing_as g (on_ws (ResolveEnvironment fault p e))) (\<lambda>x. x \<in> set (wd_environments (ws_part d)) \<and> en_ProjectID x = p \<and> en_ID x = e)"
proof -
  have "ResolveEnvironment fault p e = (\<lambda>w. case GetEnvironment fault p e w of (Inl _, w') \<Rightarrow> (Inl ErrEnvironmentNotInProject, w') | (Inr x, w') \<Rightarrow> (Inr x, w'))"
    by (auto simp: fun_eq_iff ResolveEnvironment_def tryP_def failP_def returnP_def split: prod.splits sum.splits)
  then have "learns d (on_ws (ResolveEnvironment fault p e)) (\<lambda>x. x \<in> set (wd_environments (ws_part d)) \<and> en_ProjectID x = p \<and> en_ID x = e)"
    unfolding learns_def GetEnvironment_def
    by (intro tripleI)
      (auto simp: on_ws_run db_read_def db_call_def sees_def found_simps(3) find_Some_iff in_set_conv_nth split: if_splits sum.splits prod.splits)
  then show ?thesis by (rule learns_failing)
qed

lemma update_project_intact:
  assumes "references_ok d"
  shows "triple (sees d) (Handler_UpdateProject h p body) (\<lambda>_. intact)"
proof -
  have rename: "only A (=) (if b then bindP (failing_as WorkspaceDB (on_ws (CountProjectApplications (ah_fault h) i))) (\<lambda>n. checked (n = 0) e) else returnP ())" for A b i e
    unfolding CountProjectApplications_def by (intro same.only_intros reads_ws same.keeps_read)
  show ?thesis
    unfolding Handler_UpdateProject_def
    by (intro intact_bind [OF assms learns_path] triple_option triple_if triple_prod intact_fail [OF assms] intact_bind [OF assms learns_project]
        intact_bind [OF assms learns_only [OF rename]] intact_bind [OF assms learns_only [OF reads_registry]] save_project_intact assms)
qed

lemma delete_project_intact:
  assumes "references_ok d"
  shows "triple (sees d) (Handler_DeleteProject h p) (\<lambda>_. intact)"
  unfolding Handler_DeleteProject_def CountProjectApplications_def CountProjectEnvironments_def DeleteProject_def db_write_def
  by (intro intact_bind [OF assms learns_path] intact_bind [OF assms learns_project] intact_bind [OF assms learns_failing [OF learns_read]]
      triple_if intact_fail [OF assms] intact_last intact_failing references_call assms)
    (auto intro!: delete_project_ok)

section \<open>Environments\<close>

lemma keeps_lifted: "keeps R m \<Longrightarrow> keeps R (lift_store m)"
  by (auto simp: keeps_def lift_store_def split: prod.splits sum.splits) (metis snd_conv)+

lemma keeps_ensure: "keeps (preserves P) (ensureNamespaceAvailable fault name i)"
  unfolding ensureNamespaceAvailable_def
  by (intro pr.keeps_tryP pr.keeps_read) (auto intro: pr.keeps_returnP pr.keeps_failP split: sum.splits db_error.splits)

lemma keeps_conflicts: "keeps (preserves P) (conflict_loop fault names)"
  by (induction names) (auto intro!: pr.keeps_returnP pr.keeps_bindP pr.keeps_read)

lemma keeps_reconcile:
  assumes "\<And>w. P w \<Longrightarrow> P (snd (create_namespace_index w))"
  shows "keeps (preserves P) (ReconcileEnvironmentNamespaceUniqueness fault)"
  unfolding ReconcileEnvironmentNamespaceUniqueness_def ListEnvironmentNamespaceConflicts_def
  by (intro pr.keeps_bindP pr.keeps_read pr.keeps_if pr.keeps_returnP pr.keeps_call keeps_conflicts) (use assms in \<open>auto simp: preserves_def\<close>)

lemma insert_environment_fields [simp]:
  "wd_projects (snd (insert_environment now e w)) = wd_projects w" "rd_apps (snd (insert_environment now e w)) = rd_apps w"
  by (simp_all add: insert_environment_def Let_def)

lemma save_environment_fields [simp]:
  "wd_projects (snd (save_environment now e w)) = wd_projects w" "rd_apps (snd (save_environment now e w)) = rd_apps w"
  by (simp_all add: save_environment_def)

lemma index_fields [simp]:
  "wd_projects (snd (create_namespace_index w)) = wd_projects w" "rd_apps (snd (create_namespace_index w)) = rd_apps w"
  "wd_environments (snd (create_namespace_index w)) = wd_environments w"
  by (simp_all add: create_namespace_index_def)

lemma create_environment_row_ok:
  assumes "references_ok d" and "en_ProjectID e \<in> pj_ID ` set (wd_projects (ws_part d))" and "en_ID e = 0"
  shows "triple (sees d) (on_ws (CreateEnvironment fault now (Some e))) (\<lambda>_. intact)"
proof (rule references_write [where P = "\<lambda>w. tables_ok (nd_domains d) w \<and> en_ProjectID e \<in> pj_ID ` set (wd_projects w)"])
  show "keeps (preserves (\<lambda>w. tables_ok (nd_domains d) w \<and> en_ProjectID e \<in> pj_ID ` set (wd_projects w))) (CreateEnvironment fault now (Some e))"
    unfolding CreateEnvironment_def option.case
    by (intro pr.keeps_transaction pr.keeps_bindP keeps_ensure keeps_lifted pr.keeps_call) (simp add: preserves_def environment_inserted_ok assms(3))
qed (use assms in \<open>auto simp: references_ok_def\<close>)

lemma update_environment_row_ok:
  assumes "references_ok d" and "x \<in> set (wd_environments (ws_part d))" and "en_ID e = en_ID x" and "en_ProjectID e = en_ProjectID x"
  shows "triple (sees d) (on_ws (UpdateEnvironment fault now (Some e))) (\<lambda>_. intact)"
proof -
  let ?P = "\<lambda>w. tables_ok (nd_domains d) w \<and> en_ID e \<noteq> 0 \<and> en_ProjectID e \<in> pj_ID ` set (wd_projects w) \<and>
    list_all (\<lambda>x. en_ID x = en_ID e \<longrightarrow> en_ProjectID x = en_ProjectID e) (wd_environments w)"
  have saved: "?P (snd (save_environment now e w))" if "?P w" for w
    using that by (auto simp: environment_saved_ok) (auto simp: save_environment_def list_all_iff dest!: tbl_save_in)
  have "?P (ws_part d)"
    using assms by (auto simp: references_ok_def tables_ok_def list_all_iff image_iff) (metis distinct_map inj_onD)
  moreover have "keeps (preserves ?P) (UpdateEnvironment fault now (Some e))"
    unfolding UpdateEnvironment_def option.case
    by (intro pr.keeps_transaction pr.keeps_bindP keeps_ensure keeps_lifted pr.keeps_call keeps_reconcile)
      (use saved in \<open>auto simp: preserves_def index_ok\<close>)
  ultimately show ?thesis by (intro references_write [where P = ?P]) (use assms(1) in auto)
qed

lemma delete_environment_row_ok:
  assumes "references_ok d" and "filter (\<lambda>a. ap_EnvironmentID a = i) (rd_apps (ws_part d)) = []"
  shows "triple (sees d) (on_ws (DeleteEnvironment fault i)) (\<lambda>_. intact)"
proof (rule references_write [where P = "\<lambda>w. tables_ok (nd_domains d) w \<and> filter (\<lambda>a. ap_EnvironmentID a = i) (rd_apps w) = []"])
  show "keeps (preserves (\<lambda>w. tables_ok (nd_domains d) w \<and> filter (\<lambda>a. ap_EnvironmentID a = i) (rd_apps w) = [])) (DeleteEnvironment fault i)"
    unfolding DeleteEnvironment_def
    by (intro pr.keeps_bindP pr.keeps_write keeps_reconcile) (auto simp: preserves_def index_ok delete_environment_ok)
qed (use assms in \<open>auto simp: references_ok_def\<close>)

lemma insert_environment_intact:
  assumes "references_ok d" and "i \<in> pj_ID ` set (wd_projects (ws_part d))"
  shows "triple (sees d) (insert_environment_row h i name ns) (\<lambda>_. intact)"
proof -
  have "triple (sees d) (failing_as after_save (on_ws (CreateEnvironment (ah_fault h) now
       (Some \<lparr>en_ID = 0, en_ProjectID = i, en_Name = name, en_Namespace = ns, en_CreatedAt = zero_time\<rparr>)))) (\<lambda>_. intact)" for now
    by (intro intact_failing create_environment_row_ok assms) (use assms in simp_all)
  then show ?thesis unfolding triple_def insert_environment_row_def by blast
qed

lemma save_environment_intact:
  assumes "references_ok d" and "x \<in> set (wd_environments (ws_part d))" and "en_ID e = en_ID x" and "en_ProjectID e = en_ProjectID x"
  shows "triple (sees d) (save_environment_row h e) (\<lambda>_. intact)"
proof -
  have "triple (sees d) (failing_as after_save (on_ws (UpdateEnvironment (ah_fault h) now (Some e)))) (\<lambda>_. intact)" for now
    by (intro intact_failing update_environment_row_ok [OF assms])
  then show ?thesis unfolding triple_def save_environment_row_def by blast
qed

lemmas learns_available = learns_only [OF same.only_failing_as [OF reads_ws [OF reads_available]]]
lemmas learns_ensure = learns_only [OF same.only_failing_as [OF reads_ensure]]

lemma create_environment_intact:
  assumes "references_ok d"
  shows "triple (sees d) (Handler_CreateEnvironment h p body) (\<lambda>_. intact)"
  unfolding Handler_CreateEnvironment_def Let_def
  by (intro intact_bind [OF assms learns_path] intact_bind [OF assms learns_project] triple_option triple_if intact_fail [OF assms]
      intact_bind [OF assms learns_available] intact_bind [OF assms learns_ensure] insert_environment_intact assms)

lemma update_environment_intact:
  assumes "references_ok d"
  shows "triple (sees d) (Handler_UpdateEnvironment h p q body) (\<lambda>_. intact)"
proof -
  have rename: "only A (=) (if b then may_rename h e i else returnP ())" for A b e i
    unfolding may_rename_def CountEnvironmentApplications_def IsEnvironmentNamespaceConflicted_def
    by (intro same.only_intros reads_ws same.keeps_read)
  have move: "only (\<lambda>_. True) (=) (if b then change_namespace h i e ns mode else returnP ())" for b i e ns mode
    unfolding change_namespace_def by (intro same.only_intros reads_ws reads_available reads_ensure)
  show ?thesis
    unfolding Handler_UpdateEnvironment_def Let_def route_environment_def
    by (intro intact_bind [OF assms learns_path] triple_option triple_if intact_fail [OF assms] intact_bind [OF assms learns_environment]
        intact_bind [OF assms learns_only [OF rename]] intact_bind [OF assms learns_only [OF move]] intact_bind [OF assms learns_only [OF reads_status]]
        intact_last save_environment_intact [OF assms]) auto
qed

lemma sync_environment_intact:
  assumes "references_ok d"
  shows "triple (sees d) (Handler_SyncEnvironmentNamespace h p q) (\<lambda>_. intact)"
  unfolding Handler_SyncEnvironmentNamespace_def route_environment_def
  by (intro intact_bind [OF assms learns_path] triple_if intact_fail [OF assms] intact_return [OF assms] intact_bind [OF assms learns_environment]
      intact_bind [OF assms learns_available] intact_bind [OF assms learns_ensure] intact_bind [OF assms learns_only [OF reads_status]])

lemma delete_environment_intact:
  assumes "references_ok d"
  shows "triple (sees d) (Handler_DeleteEnvironment h p q) (\<lambda>_. intact)"
  unfolding Handler_DeleteEnvironment_def route_environment_def CountEnvironmentApplications_def
  by (intro intact_bind [OF assms learns_path] triple_if intact_fail [OF assms] intact_bind [OF assms learns_environment]
      intact_bind [OF assms learns_failing [OF learns_read]] intact_last intact_failing delete_environment_row_ok [OF assms]) auto

section \<open>Applications\<close>

lemma preload_like [simp]:
  "ap_ID (LoadCapabilities (preload_application w a)) = ap_ID a" "ap_EnvironmentID (LoadCapabilities (preload_application w a)) = ap_EnvironmentID a"
  "ap_ProjectID (LoadCapabilities (preload_application w a)) = ap_ProjectID a"
  by (simp_all add: LoadCapabilities_def preload_application_def Let_def split: option.splits)

lemma learns_application:
  "learns d (query_application h i) (\<lambda>x. \<exists>a \<in> set (rd_apps (ws_part d)). ap_ID a = ap_ID x \<and> ap_EnvironmentID a = ap_EnvironmentID x \<and> ap_ProjectID a = ap_ProjectID x)"
  unfolding query_application_def read_application_def
  by (rule learns_post [OF learns_failing [OF learns_read]]) (auto dest!: tbl_find_key)

lemma references_lifted:
  assumes "triple (sees d) (on_ws m) (\<lambda>_. intact)"
  shows "triple (sees d) (on_ws (lift_store m)) (\<lambda>_. intact)"
  using assms by (fastforce simp: triple_def on_ws_run lift_store_def split: prod.splits sum.splits)

lemma insert_application_intact:
  assumes "references_ok d" and "x \<in> set (wd_environments (ws_part d))" and "en_ProjectID x = ca_ProjectID req" and "en_ID x = ca_EnvironmentID req"
  shows "triple (sees d) (insert_application_row h req) (\<lambda>_. intact)"
proof -
  have "triple (sees d) (failing_as (\<lambda>_. ApplicationExists) (on_ws (CreateApplication (ah_fault h) now a))) (\<lambda>_. intact)"
    if "ap_ID a = 0" "ap_ProjectID a = ca_ProjectID req" "ap_EnvironmentID a = ca_EnvironmentID req" for now a
  proof (cases "SetCapabilities (ap_Capabilities a) a")
    case (Inl e)
    have "only A (=) (on_ws (failP e'))" for A e' by (rule reads_ws) (rule same.keeps_failP)
    then show ?thesis unfolding CreateApplication_def Inl by (auto intro!: intact_failing intact_only assms)
  next
    case (Inr b)
    then have "ap_ID b = 0" "ap_ProjectID b = ap_ProjectID a" "ap_EnvironmentID b = ap_EnvironmentID a"
      using that by (cases "NormalizeApplicationCapabilities (ap_Capabilities a)"; auto simp: SetCapabilities_def)+
    then have "application_refers (wd_environments (ws_part d)) b"
      using assms that by (auto simp: application_refers_def list_ex_iff)
    with Inr \<open>ap_ID b = 0\<close> show ?thesis
      unfolding CreateApplication_def by (auto intro!: intact_failing references_lifted references_call application_inserted_ok assms(1))
  qed
  then show ?thesis unfolding triple_def insert_application_row_def by (metis (no_types, lifting) Application.select_convs(1-3))
qed

lemma create_application_intact:
  assumes "references_ok d"
  shows "triple (sees d) (Handler_CreateApplication h body) (\<lambda>_. intact)"
  unfolding Handler_CreateApplication_def
  by (intro triple_option triple_if intact_fail [OF assms] intact_bind [OF assms learns_environment] intact_bind [OF assms learns_available]
      insert_application_intact [OF assms]) auto

lemma capabilities_ok:
  assumes "tables_ok D w"
  shows "tables_ok D (w\<lparr>rd_apps := map (\<lambda>a. if ap_ID a = i then a\<lparr>ap_CapabilitiesData := c\<rparr> else a) (rd_apps w)\<rparr>)"
  by (rule apps_like_ok [OF assms]) (auto simp: comp_def)

lemma update_capabilities_intact:
  assumes "references_ok d"
  shows "triple (sees d) (UpdateCapabilities h p body) (\<lambda>_. intact)"
proof -
  have "keeps (preserves (tables_ok (nd_domains d))) (ReplaceApplicationCapabilities fault i cs)" for fault i cs
    unfolding ReplaceApplicationCapabilities_def read_application_def
    by (auto intro!: pr.keeps_failP pr.keeps_bindP keeps_lifted pr.keeps_write pr.keeps_read simp: preserves_def capabilities_ok split: sum.splits)
  from references_write [OF this, of d] have "triple (sees d) (on_ws (ReplaceApplicationCapabilities fault i cs)) (\<lambda>_. intact)" for fault i cs
    using assms by (auto simp: references_ok_def)
  then show ?thesis
    unfolding UpdateCapabilities_def
    by (intro intact_bind [OF assms learns_path] triple_option intact_fail [OF assms] intact_failing)
qed

lemma persist_kind_ok:
  assumes "tables_ok D (db w)" and "x \<in> set (rd_apps (db w))" and "ap_ID a = ap_ID x" and "ap_EnvironmentID a = ap_EnvironmentID x" and "ap_ProjectID a = ap_ProjectID x"
  shows "tables_ok D (db (snd (persist_kind fault now a target w)))"
proof -
  have "tables_ok D (snd (save_application now b (db w)))" if "SetCapabilities vals (a\<lparr>ap_WorkloadKind := target\<rparr>) = Inr b" for vals b
    by (rule application_saved_ok [OF assms(1,2)])
      (use that assms(3-5) in \<open>cases "NormalizeApplicationCapabilities vals"; auto simp: SetCapabilities_def\<close>)+
  with assms(1) show ?thesis
    by (auto simp: persist_kind_def UpdateApplication_def lift_store_def tryP_def failP_def returnP_def db_call_def split: sum.splits prod.splits) (metis snd_conv)+
qed

lemma update_kind_ok:
  assumes "tables_ok D (db w)" and "x \<in> set (rd_apps (db w))" and "ap_ID a = ap_ID x" and "ap_EnvironmentID a = ap_EnvironmentID x" and "ap_ProjectID a = ap_ProjectID x"
  shows "tables_ok D (db (snd (snd (UpdateKind fault now m (Some a) target w))))"
proof -
  have "keeps (=) (on_releases (GetLatestSuccessfulRelease fault (ap_ID a)))"
    unfolding GetLatestSuccessfulRelease_def by (intro keeps_releases_same same.keeps_read)
  then have same: "db w1 = db w" if "on_releases (GetLatestSuccessfulRelease fault (ap_ID a)) w = (r, w1)" for r w1
    using that by (auto simp: keeps_def dest: spec [of _ w])
  obtain r w1 where r: "on_releases (GetLatestSuccessfulRelease fault (ap_ID a)) w = (r, w1)"
    by (cases "on_releases (GetLatestSuccessfulRelease fault (ap_ID a)) w")
  have saved: "tables_ok D (db (snd (persist_kind fault now a target w1)))"
    by (rule persist_kind_ok) (use assms same [OF r] in auto)
  have still: "tables_ok D (db w1)" using assms(1) same [OF r] by simp
  have pair: "snd (snd (case p of (r, w') \<Rightarrow> (r, evs, w'))) = snd p" for p :: "'b \<times> 'c" and evs :: 'd
    by (simp add: case_prod_beta)
  show ?thesis
  proof (cases r)
    case (Inl e)
    with r saved still assms(1) show ?thesis by (cases e) (simp_all add: UpdateKind_def Let_def pair)
  next
    case (Inr release)
    with r saved still assms(1) show ?thesis by (simp add: UpdateKind_def Let_def pair split: option.split)
  qed
qed

lemma run_kind_intact:
  assumes "references_ok d" and "x \<in> set (rd_apps (ws_part d))" and "ap_ID x = ap_ID a" and "ap_EnvironmentID x = ap_EnvironmentID a" and "ap_ProjectID x = ap_ProjectID a"
  shows "triple (sees d) (run_update_kind h a target) (\<lambda>_. intact)"
proof (rule tripleI)
  fix s r s'
  assume "sees d s" and run: "run_update_kind h a target s = (r, s')"
  let ?w = "\<lparr>db = ws_part (db (sn_world s)), calls = calls (sn_world s)\<rparr>"
  from \<open>sees d s\<close> have d: "db (sn_world s) = d" by (simp add: sees_def)
  have "tables_ok (nd_domains d) (db (snd (snd (UpdateKind (ah_fault h) now m (Some a) target ?w))))" for now m
    by (rule update_kind_ok [where x = x]) (use assms d in \<open>auto simp: references_ok_def\<close>)
  with run show "intact s'"
    by (auto simp: run_update_kind_def Let_def d intro!: references_put [OF assms(1)] split: prod.splits) (metis snd_conv)+
qed

lemma update_workload_intact:
  assumes "references_ok d"
  shows "triple (sees d) (UpdateWorkloadKind h p body) (\<lambda>_. intact)"
proof -
  have "triple (sees d) (failing_as WorkloadRefused (run_update_kind h a kind)) (\<lambda>_. intact)"
    if "\<exists>x \<in> set (rd_apps (ws_part d)). ap_ID x = ap_ID a \<and> ap_EnvironmentID x = ap_EnvironmentID a \<and> ap_ProjectID x = ap_ProjectID a" for a kind
    using that by (auto intro: intact_failing run_kind_intact [OF assms])
  then show ?thesis
    unfolding UpdateWorkloadKind_def Let_def
    by (intro triple_if intact_fail [OF assms] intact_return [OF assms] intact_bind [OF assms learns_path] triple_option intact_bind [OF assms learns_application] intact_last)
qed

section \<open>Endpoints\<close>

text \<open>What is known of the endpoint of a request: its domain belongs to the environment and its route is free.\<close>

definition endpoint_ready :: "network_db \<Rightarrow> nat \<Rightarrow> ApplicationEndpoint \<Rightarrow> bool" where
  "endpoint_ready d i e \<longleftrightarrow> endpoint_refers (rd_apps (ws_part d)) (nd_domains d) e \<and> ae_Path e \<noteq> [] \<and> ae_IngressMode e \<noteq> [] \<and>
     (ae_IngressMode e \<noteq> ''metadata'' \<longrightarrow> list_all (\<lambda>f. ae_DomainID f = ae_DomainID e \<and> ae_Path f = ae_Path e \<and> ae_IngressMode f \<noteq> ''metadata'' \<longrightarrow>
        i \<noteq> 0 \<and> ae_ID f = i) (rd_endpoints (ws_part d)))"

lemma endpoint_refers_same:
  "ae_DomainID e = ae_DomainID f \<Longrightarrow> ae_ApplicationID e = ae_ApplicationID f \<Longrightarrow> endpoint_refers apps D e = endpoint_refers apps D f"
  by (simp add: endpoint_refers_def)

lemma endpoint_ready_same:
  assumes "endpoint_ready d i e" and "ae_DomainID f = ae_DomainID e" and "ae_ApplicationID f = ae_ApplicationID e" and "ae_Path f = ae_Path e" and "ae_IngressMode f = ae_IngressMode e"
  shows "endpoint_ready d i f"
  using assms endpoint_refers_same [of f e "rd_apps (ws_part d)" "nd_domains d"] by (simp add: endpoint_ready_def)

lemma learns_route:
  "learns d (route_free h x path i) (\<lambda>_. list_all (\<lambda>f. ae_DomainID f = md_ID x \<and> ae_Path f = path \<and> ae_IngressMode f \<noteq> ''metadata'' \<longrightarrow> i \<noteq> 0 \<and> ae_ID f = i) (rd_endpoints (ws_part d)))"
  unfolding route_free_def CountApplicationEndpointRoute_def
  by (intro learns_bind [OF learns_failing [OF learns_read]] learns_post [OF learns_checked]) (auto simp: filter_empty_conv list_all_iff)

lemma learns_row: "learns d (domain_row h i) (\<lambda>x. x \<in> set (nd_domains d) \<and> md_ID x = i)"
  unfolding domain_row_def by (intro learns_bind [OF learns_failing [OF learns_domain]] learns_if learns_fail learns_return)

definition of_application :: "network_db \<Rightarrow> Application \<Rightarrow> bool" where
  "of_application d app \<longleftrightarrow> (\<exists>a \<in> set (rd_apps (ws_part d)). ap_ID a = ap_ID app \<and> ap_EnvironmentID a = ap_EnvironmentID app \<and> ap_ProjectID a = ap_ProjectID app)"

lemma new_endpoint_ready:
  assumes "of_application d app" and "x \<in> set (nd_domains d)" and "\<not> (md_EnvironmentID x = 0 \<or> md_EnvironmentID x \<noteq> ap_EnvironmentID app)" and "path \<noteq> []"
    and "er_IngressEnabled req \<noteq> Some False \<Longrightarrow>
      list_all (\<lambda>f. ae_DomainID f = md_ID x \<and> ae_Path f = path \<and> ae_IngressMode f \<noteq> ''metadata'' \<longrightarrow> i \<noteq> 0 \<and> ae_ID f = i) (rd_endpoints (ws_part d))"
  shows "endpoint_ready d i (new_endpoint app x path mode req)"
proof -
  obtain a where "a \<in> set (rd_apps (ws_part d))" "ap_ID a = ap_ID app" "ap_EnvironmentID a = ap_EnvironmentID app"
    using assms(1) by (auto simp: of_application_def)
  with assms(2,3) have "endpoint_refers (rd_apps (ws_part d)) (nd_domains d) (new_endpoint app x path mode req)"
    unfolding endpoint_refers_def list_ex_iff new_endpoint_def Let_def by (intro disjI2 bexI [of _ a] conjI bexI [of _ x]) simp_all
  with assms(4,5) show ?thesis by (auto simp: endpoint_ready_def new_endpoint_def Let_def split: option.splits)
qed

lemma learns_prepared:
  assumes "of_application d app"
  shows "learns d (prepareApplicationEndpoint h app i req) (endpoint_ready d i)"
proof -
  let ?path = "if TrimSpace (er_Path req) = [] then ''/'' else TrimSpace (er_Path req)"
  let ?mode = "if TrimSpace (er_AccessMode req) = [] then ''public'' else TrimSpace (er_AccessMode req)"
  have path: "?path \<noteq> []" by simp
  have route: "learns d (if er_IngressEnabled req \<noteq> Some False then route_free h x ?path i else returnP ()) (\<lambda>_. er_IngressEnabled req \<noteq> Some False \<longrightarrow>
      list_all (\<lambda>f. ae_DomainID f = md_ID x \<and> ae_Path f = ?path \<and> ae_IngressMode f \<noteq> ''metadata'' \<longrightarrow> i \<noteq> 0 \<and> ae_ID f = i) (rd_endpoints (ws_part d)))" for x
    by (intro learns_if learns_return learns_post [OF learns_route]) auto
  show ?thesis
    unfolding prepareApplicationEndpoint_def Let_def
  proof (rule learns_bind [OF learns_row], rule learns_if [OF learns_fail], rule learns_bind [OF route], goal_cases)
    case (1 x u)
    then have ready: "endpoint_ready d i (new_endpoint app x ?path ?mode req)"
      using assms path by (intro new_endpoint_ready) simp_all
    show ?case
      by (intro learns_if learns_fail learns_return learns_bind [OF learns_only [OF reads_certificate]] ready endpoint_ready_same [OF ready]) simp_all
  qed
qed

lemma learns_bound:
  assumes "of_application d app"
  shows "learns d (bound_endpoint h app i req) (endpoint_ready d i)"
  unfolding bound_endpoint_def
  apply (rule learns_bind [OF learns_failing [OF learns_prepared [OF assms]]])
  apply (rule learns_bind [OF learns_only [OF reads_service]])
  apply (auto split: sum.split intro!: learns_fail learns_return elim!: endpoint_ready_same)
  done

lemma tables_note [simp]: "tables_ok D (note_id t i w) = tables_ok D w"
  by (simp add: tables_ok_def)

lemma endpoint_saved_ready:
  assumes "references_ok d" and "endpoint_ready d i e" and "i = 0 \<or> ae_ID e = i" and "set es \<subseteq> insert e (set (rd_endpoints (ws_part d)))"
  shows "tables_ok (nd_domains d) ((ws_part d)\<lparr>rd_endpoints := es\<rparr>)"
  by (rule endpoint_saved_ok [of _ _ e]) (use assms in \<open>auto simp: references_ok_def endpoint_ready_def same_route_def list_all_iff\<close>)

lemma create_endpoint_row_ok:
  assumes "references_ok d" and "endpoint_ready d 0 e"
  shows "triple (sees d) (on_ws (CreateApplicationEndpoint fault e)) (\<lambda>_. intact)"
proof -
  have "endpoint_ready d 0 (endpoint_defaults (e\<lparr>ae_ID := n\<rparr>))" for n
    by (rule endpoint_ready_same [OF assms(2)]) (use assms(2) in \<open>simp_all add: endpoint_defaults_def endpoint_ready_def\<close>)
  then show ?thesis
    unfolding CreateApplicationEndpoint_def
    by (intro references_call assms(1)) (auto simp: Let_def intro!: endpoint_saved_ready [OF assms(1)])
qed

lemma releases_write:
  "on_releases (db_write fault (\<lambda>d. d\<lparr>rd_endpoints := f (rd_endpoints d)\<rparr>)) = db_write fault (\<lambda>d. d\<lparr>rd_endpoints := f (rd_endpoints d)\<rparr>)"
proof
  fix w :: "workspace_db world"
  show "on_releases (db_write fault (\<lambda>d. d\<lparr>rd_endpoints := f (rd_endpoints d)\<rparr>)) w = db_write fault (\<lambda>d. d\<lparr>rd_endpoints := f (rd_endpoints d)\<rparr>) w"
    by (cases w; cases "db w") (auto simp: on_releases_def db_write_def db_call_def release_db.defs)
qed

lemma update_endpoint_row_ok:
  assumes "references_ok d" and "endpoint_ready d (ae_ID e) e"
  shows "triple (sees d) (on_rel (UpdateApplicationEndpoint fault e)) (\<lambda>_. intact)"
  unfolding on_rel_def UpdateApplicationEndpoint_def releases_write [of _ "tbl_save ae_ID e"] unfolding db_write_def
  by (intro references_call assms(1)) (auto intro!: endpoint_saved_ready [OF assms] dest: tbl_save_in)

lemma delete_endpoint_row_ok:
  assumes "references_ok d"
  shows "triple (sees d) (on_ws (DeleteApplicationEndpoint fault i j)) (\<lambda>_. intact)"
  unfolding DeleteApplicationEndpoint_def db_write_def by (intro references_call assms) (auto intro!: endpoints_less_ok)

lemma learns_rows: "learns d (failing_as g (on_rel (ListApplicationEndpoints fault i))) (\<lambda>_. True)"
  unfolding ListApplicationEndpoints_def by (intro learns_only same.only_failing_as reads_rel same.keeps_read)

lemma learns_stored: "learns d (stored_endpoint h i j) (\<lambda>_. True)"
  unfolding stored_endpoint_def GetApplicationEndpoint_def by (intro learns_only same.only_failing_as reads_ws same.keeps_read)

lemma create_endpoint_intact:
  assumes "references_ok d"
  shows "triple (sees d) (Handler_CreateApplicationEndpoint h p body) (\<lambda>_. intact)"
  unfolding Handler_CreateApplicationEndpoint_def
  by (intro triple_if intact_fail [OF assms] triple_option intact_bind [OF assms learns_path]
      intact_bind [OF assms learns_application [folded of_application_def]]
      intact_bind [OF assms learns_bound] intact_bind [OF assms learns_rows] intact_bind [OF assms learns_only [OF reads_sync]]
      intact_last intact_failing create_endpoint_row_ok [OF assms])

lemma update_endpoint_intact:
  assumes "references_ok d"
  shows "triple (sees d) (Handler_UpdateApplicationEndpoint h p q body) (\<lambda>_. intact)"
  unfolding Handler_UpdateApplicationEndpoint_def Let_def
  by (intro triple_if intact_fail [OF assms] triple_option intact_bind [OF assms learns_path]
      intact_bind [OF assms learns_application [folded of_application_def]] intact_bind [OF assms learns_stored]
      intact_bind [OF assms learns_bound] intact_bind [OF assms learns_rows] intact_bind [OF assms learns_only [OF reads_sync]]
      intact_last intact_failing update_endpoint_row_ok [OF assms]) (auto elim: endpoint_ready_same)

lemma delete_endpoint_intact:
  assumes "references_ok d"
  shows "triple (sees d) (Handler_DeleteApplicationEndpoint h p q) (\<lambda>_. intact)"
  unfolding Handler_DeleteApplicationEndpoint_def
  by (intro triple_if intact_fail [OF assms] triple_option intact_bind [OF assms learns_path]
      intact_bind [OF assms learns_application] intact_bind [OF assms learns_stored] intact_bind [OF assms learns_only [OF reads_service]]
      intact_bind [OF assms learns_rows] intact_bind [OF assms learns_only [OF reads_sync]]
      intact_last intact_failing delete_endpoint_row_ok [OF assms])

section \<open>Any sequence of requests\<close>

lemmas requests_intact = create_project_intact update_project_intact delete_project_intact create_environment_intact update_environment_intact
  sync_environment_intact delete_environment_intact create_application_intact update_capabilities_intact update_workload_intact
  create_endpoint_intact update_endpoint_intact delete_endpoint_intact

lemma intact_run: "triple (sees (db (sn_world s))) m (\<lambda>_. intact) \<Longrightarrow> intact (snd (m s))"
  by (cases "m s") (auto simp: triple_def sees_def)

lemma serve_workspace_intact: "intact s \<Longrightarrow> intact (serve_workspace h act s)"
  by (cases act) (simp_all add: serve_workspace_def intact_run requests_intact)

text \<open>A request about domains keeps the rows that endpoints refer to, and their environments.\<close>

lemma ws_part_endpoints: "rd_endpoints (ws_part d) = rd_endpoints d"
  by (cases d) (simp add: ws_part_def storage_db.defs workspace_db.defs)

lemma endpoint_refers_domains:
  assumes "domains_wf d" and "domain_evolution d d'" and "rows_kept act d d'" and "e \<in> set (rd_endpoints d)" and "endpoint_refers apps (nd_domains d) e"
  shows "endpoint_refers apps (nd_domains d') e"
proof (cases "ae_DomainID e = 0")
  case False
  with assms(5) obtain a x where a: "a \<in> set apps" "ap_ID a = ae_ApplicationID e" and x: "x \<in> set (nd_domains d)" "md_ID x = ae_DomainID e"
    and env: "md_EnvironmentID x = ap_EnvironmentID a" "md_EnvironmentID x \<noteq> 0"
    by (auto simp: endpoint_refers_def list_ex_iff)
  have "\<not> unreferenced d (md_ID x)" using assms(4) x(2) by (auto simp: unreferenced_def list_ex_iff)
  with assms(3) x(1) obtain y where y: "y \<in> set (nd_domains d')" "md_ID y = md_ID x" by (auto simp: rows_kept_def list_all_iff)
  have "md_ID x \<le> nd_seq d Domains" using assms(1) x(1) by (simp add: domains_wf_def list_all_iff)
  with assms(1,2) y obtain x' where x': "x' \<in> set (nd_domains d)" "bound_like x' y"
    by (fastforce simp: domain_evolution_def list_all_iff list_ex_iff)
  then have "x' = x" using assms(1) x(1) y(2) by (auto simp: bound_like_def domains_wf_def distinct_map inj_on_def)
  with x' have "md_EnvironmentID y = md_EnvironmentID x" using env(2) by (simp add: bound_like_def)
  with a x(2) y env show ?thesis
    unfolding endpoint_refers_def list_ex_iff by (intro disjI2 bexI [of _ a] conjI bexI [of _ y]) simp_all
qed (simp add: endpoint_refers_def)

lemma serve_domain_intact:
  assumes "references_ok (db (sn_world s))"
  shows "references_ok (db (sn_world (serve_domain env ports act s)))"
proof -
  let ?d = "db (sn_world s)" and ?d' = "db (sn_world (serve_domain env ports act s))"
  have step: "domain_evolution ?d ?d'" "rows_kept act ?d ?d'" using serve_settled [of act s env ports] by (simp_all add: settled_def)
  then have "ws_part ?d' = ws_part ?d" by (simp add: ws_part_def domain_evolution_def)
  moreover have "domains_wf ?d'" using assms step(1) by (simp add: references_ok_def domain_evolution_def)
  moreover have "endpoint_refers (rd_apps (ws_part ?d)) (nd_domains ?d') e" if "e \<in> set (rd_endpoints (ws_part ?d))" for e
    by (rule endpoint_refers_domains [OF _ step]) (use assms that in \<open>auto simp: references_ok_def tables_ok_def list_all_iff ws_part_endpoints\<close>)
  ultimately show ?thesis using assms by (simp add: references_ok_def tables_ok_def list_all_iff)
qed

text \<open>Requests about the workspace and about domains in any order, each with its own answers of cluster and database.\<close>

inductive workspace_reach :: "network_db \<Rightarrow> network_db \<Rightarrow> bool" where
  workspace_start: "workspace_reach d d"
| workspace_request: "workspace_reach d (db (sn_world s)) \<Longrightarrow> workspace_reach d (db (sn_world (serve_workspace h act s)))"
| domain_request: "workspace_reach d (db (sn_world s)) \<Longrightarrow> workspace_reach d (db (sn_world (serve_domain env ports act s)))"

inductive_cases workspace_reachE: "workspace_reach d d'"

text \<open>
  C36. Whatever requests about projects, environments, applications, endpoints and domains follow one another, and
  whatever fails in between, every environment belongs to a project, every application to an environment of its
  project, every endpoint that names a domain names one bound to the environment of its application, and no two
  routed endpoints share a domain and a path.
\<close>

theorem references_kept:
  assumes "workspace_reach d d'" and "references_ok d"
  shows "references_ok d'"
  using assms by induction (simp_all add: serve_workspace_intact serve_domain_intact)

definition sample_adapter :: KubernetesAdapter where
  "sample_adapter = \<lparr>ka_GetNamespace = \<lambda>_ _. Inl KNotFound, ka_UpdateNamespace = \<lambda>_ _. None, ka_CreateNamespace = \<lambda>_ _. None,
     ka_GetCertificate = \<lambda>_ _ _. Inl DynamicClientMissing, ka_SyncApplicationEndpoints = \<lambda>_ _ _ _. None,
     ka_migrator = \<lambda>_. \<lparr>wm_Preflight = \<lambda>_ _ _. None, wm_MigrateWorkloadKind = \<lambda>_ _ _ _. None\<rparr>, ka_available = True\<rparr>"

definition sample_ws_handler :: ApplicationHandler where
  "sample_ws_handler = \<lparr>ah_fault = \<lambda>_. False, ah_now = int, ah_kubernetes = Some sample_adapter,
     ah_checks = \<lparr>IsDNS1123Subdomain = \<lambda>_. True, IsDNS1123Label = \<lambda>_. True, IsConfigMapKey = \<lambda>_. True, IsValidPortName = \<lambda>_. True, ParseQuantity = \<lambda>_. None\<rparr>\<rparr>"

definition sample_tables :: network_db where
  "sample_tables = sample_network\<lparr>wd_projects := [\<lparr>pj_ID = 1, pj_Name = ''shop'', pj_DefaultImageRegistryID = None, pj_OwnerID = 1, pj_CreatedAt = 1\<rparr>]\<rparr>"

definition sample_requested :: workspace_state where
  "sample_requested = \<lparr>sn_world = \<lparr>db = sample_tables, calls = 0\<rparr>, sn_trace = []\<rparr>"

definition sample_call :: workspace_call where
  "sample_call = WCreateProject 1 (Some \<lparr>pq_Name = ''store'', pq_DefaultImageRegistryID = None\<rparr>)"

lemma sample_references: "references_ok sample_tables"
  by code_simp

lemma sample_tables_fields:
  "wd_projects (ws_part sample_tables) = [\<lparr>pj_ID = 1, pj_Name = ''shop'', pj_DefaultImageRegistryID = None, pj_OwnerID = 1, pj_CreatedAt = 1\<rparr>]"
  "wd_seq (ws_part sample_tables) = (\<lambda>_. 1)"
  by (simp_all add: sample_tables_def ws_part_def sample_network_def sample_state_def storage_db.defs network_db.defs workspace_db.defs)

lemma put_ws_projects: "wd_projects (put_ws w d) = wd_projects w"
  by (cases d; cases w) (simp add: put_ws_def storage_db.defs workspace_db.defs)

lemma sample_project_added: "length (wd_projects (db (sn_world (serve_workspace sample_ws_handler sample_call sample_requested)))) = 2"
  by (simp add: serve_workspace_def sample_call_def Handler_CreateProject_def failing_as_def tryP_def returnP_def failP_def on_ws_run CreateProject_def
      db_call_def sample_ws_handler_def sample_requested_def Let_def sample_tables_fields put_ws_projects assign_id_def)

lemma references_kept_witness:
  "references_ok sample_tables \<and> references_ok (db (sn_world (serve_workspace sample_ws_handler sample_call sample_requested))) \<and>
   length (wd_projects (db (sn_world (serve_workspace sample_ws_handler sample_call sample_requested)))) = 2"
proof -
  have "workspace_reach sample_tables (db (sn_world sample_requested))"
    by (simp add: sample_requested_def workspace_start)
  from references_kept [OF workspace_request [OF this] sample_references] sample_references sample_project_added
  show ?thesis by blast
qed

end
