(* ===== verification/Auth_Requests.thy ===== *)
theory Auth_Requests
  imports Auth_Temporary Storage_Claims Go_Calls
begin

text \<open>
  The requests about signing in and the guards of the routes: \<open>auth_middleware.go\<close>, \<open>auth_handler.go\<close> and
  \<open>temporary_token_handler.go\<close> of \<open>internal/api/auth\<close>. The check of a password is bcrypt, a parameter; the audit log
  is the trace of the session, since the handlers ignore its errors.
\<close>

section \<open>Guards\<close>

datatype auth_refusal =
    TokenMissing | TokenRefused | LoginBodyInvalid | CredentialsWrong | TokenNotIssued token_error | NotAuthenticated
  | TemporaryUnavailable | TemporaryRefused | TemporaryBodyInvalid | TemporaryFailed temp_error | TemporaryIDInvalid

text \<open>\<open>strings.SplitN(header, " ", 2)\<close> of a Bearer header: what follows the first blank.\<close>

definition bearer :: "string \<Rightarrow> string option" where
  "bearer header =
     (if takeWhile (\<lambda>c. c \<noteq> CHR '' '') header = ''Bearer'' \<and> CHR '' '' \<in> set header
      then Some (tl (dropWhile (\<lambda>c. c \<noteq> CHR '' '') header)) else None)"

text \<open>The claims of the token in the header, else of the one in the query string.\<close>

definition JWTAuthMiddleware ::
  "mac_fun \<Rightarrow> Claims claims_codec \<Rightarrow> int \<Rightarrow> string \<Rightarrow> string \<Rightarrow> string \<Rightarrow> auth_refusal + Claims" where
  "JWTAuthMiddleware mac codec now secret header query =
     (let given = (case bearer header of None \<Rightarrow> [] | Some t \<Rightarrow> t); tokenStr = (if given = [] then query else given) in
      if tokenStr = [] then Inl TokenMissing
      else case ParseToken mac codec now secret tokenStr of Inl _ \<Rightarrow> Inl TokenRefused | Inr claims \<Rightarrow> Inr claims)"

text \<open>An entry of the audit log, without its summary; the reason stands for the metadata.\<close>

record audit_event =
  aud_Action :: string
  aud_ResourceType :: string
  aud_ResourceID :: nat
  aud_TargetName :: string
  aud_ActorType :: string
  aud_ActorID :: nat
  aud_ActorName :: string
  aud_Source :: string
  aud_Outcome :: string
  aud_Reason :: string

definition audited :: "bool \<Rightarrow> audit_event \<Rightarrow> ('d, audit_event, 'e, unit) session_proc" where
  "audited logs e = (if \<not> logs then returnP () else ask (\<lambda>_. ()) (\<lambda>_. e) Inr)"

definition recordDelegationAuthentication :: "bool \<Rightarrow> string \<Rightarrow> ('d, audit_event, 'e, unit) session_proc" where
  "recordDelegationAuthentication logs reason = audited logs
     \<lparr>aud_Action = ''application.delegation.authenticate'', aud_ResourceType = ''delegation'', aud_ResourceID = 0, aud_TargetName = ''integration delegation'',
      aud_ActorType = ''system'', aud_ActorID = 0, aud_ActorName = [], aud_Source = ''delegation'', aud_Outcome = ''denied'', aud_Reason = reason\<rparr>"

definition DelegationAuthMiddlewareWithAudit ::
  "mac_fun \<Rightarrow> DelegationClaims claims_codec \<Rightarrow> int \<Rightarrow> int \<Rightarrow> bool \<Rightarrow> string \<Rightarrow> string \<Rightarrow> ('d, audit_event, auth_refusal, DelegationClaims) session_proc" where
  "DelegationAuthMiddlewareWithAudit mac codec now1 now2 logs secret header =
     (case bearer header of
        None \<Rightarrow> bindP (recordDelegationAuthentication logs ''missing_token'') (\<lambda>_. failP TokenMissing)
      | Some token \<Rightarrow>
          if TrimSpace token = [] then bindP (recordDelegationAuthentication logs ''missing_token'') (\<lambda>_. failP TokenMissing)
          else case ParseDelegationToken mac codec now1 now2 secret token of
            Inl _ \<Rightarrow> bindP (recordDelegationAuthentication logs ''invalid_token'') (\<lambda>_. failP TokenRefused)
          | Inr claims \<Rightarrow> returnP claims)"

section \<open>Signing in\<close>

text \<open>
  The time and the random bytes are given for the database calls so far and the position of the call of the clock
  in the handler.
\<close>

record AuthHandler =
  au_fault :: "nat \<Rightarrow> bool"
  au_now :: "nat \<Rightarrow> nat \<Rightarrow> int"
  au_random :: "nat \<Rightarrow> string option"
  au_mac :: mac_fun
  au_codec :: "Claims claims_codec"
  au_sha :: "string \<Rightarrow> string"
  au_CheckPassword :: "string \<Rightarrow> string \<Rightarrow> bool"
  au_jwtSecret :: string
  au_accessTokenTTL :: int
  au_refreshTokenTTL :: int
  au_temporaryTokens :: bool
  au_audit :: bool

type_synonym auth_state = "(auth_db, audit_event) session"
type_synonym 'a auth_request = "(auth_db, audit_event, auth_refusal, 'a) session_proc"

definition auth_clock :: "AuthHandler \<Rightarrow> nat \<Rightarrow> auth_state \<Rightarrow> int" where
  "auth_clock h k s = au_now h (calls (sn_world s)) k"

definition identity_record :: "AuthHandler \<Rightarrow> string \<Rightarrow> nat \<Rightarrow> string \<Rightarrow> string \<Rightarrow> unit auth_request" where
  "identity_record h action userID username outcome = audited (au_audit h)
     \<lparr>aud_Action = action, aud_ResourceType = ''identity'', aud_ResourceID = userID, aud_TargetName = username,
      aud_ActorType = ''user'', aud_ActorID = userID, aud_ActorName = username, aud_Source = ''api'', aud_Outcome = outcome, aud_Reason = []\<rparr>"

text \<open>An access and a refresh token; each failure is recorded.\<close>

definition issue_tokens :: "AuthHandler \<Rightarrow> string \<Rightarrow> nat \<Rightarrow> string \<Rightarrow> (string \<times> string) auth_request" where
  "issue_tokens h action userID username s =
     (case GenerateAccessToken (au_mac h) (au_codec h) (auth_clock h 1 s) (au_jwtSecret h) userID username (au_accessTokenTTL h) of
        Inl e \<Rightarrow> bindP (identity_record h action userID username ''failed'') (\<lambda>_. failP (TokenNotIssued e))
      | Inr access \<Rightarrow>
          (case GenerateRefreshToken (au_mac h) (au_codec h) (auth_clock h 2 s) (au_jwtSecret h) userID (au_refreshTokenTTL h) of
             Inl e \<Rightarrow> bindP (identity_record h action userID username ''failed'') (\<lambda>_. failP (TokenNotIssued e))
           | Inr refresh \<Rightarrow> bindP (identity_record h action userID username ''succeeded'') (\<lambda>_. returnP (access, refresh)))) s"

text \<open>Both fields of the body are required, so an empty one does not bind.\<close>

definition Login :: "AuthHandler \<Rightarrow> (string \<times> string) option \<Rightarrow> ((string \<times> string) \<times> nat \<times> string) auth_request" where
  "Login h body =
     (case body of
        None \<Rightarrow> failP LoginBodyInvalid
      | Some (username, password) \<Rightarrow>
          if username = [] \<or> password = [] then failP LoginBodyInvalid
          else tryP (on_store (GetUserByUsername (au_fault h) username)) (\<lambda>r. case r of
            Inl _ \<Rightarrow> bindP (identity_record h ''auth.login'' 0 username ''denied'') (\<lambda>_. failP CredentialsWrong)
          | Inr user \<Rightarrow>
              if \<not> au_CheckPassword h password (us_PasswordHash user)
              then bindP (identity_record h ''auth.login'' 0 username ''denied'') (\<lambda>_. failP CredentialsWrong)
              else bindP (issue_tokens h ''auth.login'' (us_ID user) (us_Username user)) (\<lambda>pair. returnP (pair, us_ID user, us_Username user))))"

definition Refresh :: "AuthHandler \<Rightarrow> string option \<Rightarrow> (string \<times> string) auth_request" where
  "Refresh h body s =
     (case body of
        None \<Rightarrow> failP LoginBodyInvalid
      | Some token \<Rightarrow>
          if token = [] then failP LoginBodyInvalid
          else case ParseToken (au_mac h) (au_codec h) (auth_clock h 0 s) (au_jwtSecret h) token of
            Inl _ \<Rightarrow> bindP (identity_record h ''auth.token.refresh'' 0 [] ''denied'') (\<lambda>_. failP TokenRefused)
          | Inr claims \<Rightarrow> issue_tokens h ''auth.token.refresh'' (cl_UserID claims) (cl_Username claims)) s"

definition Me :: "nat \<Rightarrow> string \<Rightarrow> auth_refusal + nat \<times> string" where
  "Me userID username = (if userID = 0 then Inl NotAuthenticated else Inr (userID, username))"

section \<open>Temporary tokens\<close>

definition recordTemporaryLogin :: "AuthHandler \<Rightarrow> nat \<Rightarrow> string \<Rightarrow> string \<Rightarrow> unit auth_request" where
  "recordTemporaryLogin h userID username outcome = identity_record h ''auth.temporary_login'' userID username outcome"

definition issue_session :: "AuthHandler \<Rightarrow> User \<Rightarrow> (string \<times> string) auth_request" where
  "issue_session h user s =
     (case GenerateSessionTokens (au_mac h) (au_codec h) (auth_clock h 1 s) (auth_clock h 2 s) (au_jwtSecret h) user (au_accessTokenTTL h) (au_refreshTokenTTL h) of
        Inl e \<Rightarrow> bindP (recordTemporaryLogin h (us_ID user) (us_Username user) ''failed'') (\<lambda>_. failP (TokenNotIssued e))
      | Inr pair \<Rightarrow> bindP (recordTemporaryLogin h (us_ID user) (us_Username user) ''succeeded'') (\<lambda>_. returnP pair)) s"

definition TemporaryLogin :: "AuthHandler \<Rightarrow> string option \<Rightarrow> ((string \<times> string) \<times> nat \<times> string) auth_request" where
  "TemporaryLogin h body s =
     (if \<not> au_temporaryTokens h then bindP (recordTemporaryLogin h 0 [] ''failed'') (\<lambda>_. failP TemporaryUnavailable)
      else case body of
        None \<Rightarrow> bindP (recordTemporaryLogin h 0 [] ''denied'') (\<lambda>_. failP TemporaryBodyInvalid)
      | Some token \<Rightarrow>
          if token = [] then bindP (recordTemporaryLogin h 0 [] ''denied'') (\<lambda>_. failP TemporaryBodyInvalid)
          else tryP (on_store (Redeem (au_fault h) (au_sha h) (auth_clock h 0 s) token)) (\<lambda>r. case r of
            Inl _ \<Rightarrow> bindP (recordTemporaryLogin h 0 [] ''denied'') (\<lambda>_. failP TemporaryRefused)
          | Inr user \<Rightarrow> bindP (issue_session h user) (\<lambda>pair. returnP (pair, us_ID user, us_Username user)))) s"

definition ListTemporaryTokens :: "AuthHandler \<Rightarrow> nat \<Rightarrow> TemporaryTokenView list auth_request" where
  "ListTemporaryTokens h user s =
     (if \<not> au_temporaryTokens h then failP TemporaryUnavailable
      else failing_as TemporaryFailed (on_store (List_tokens (au_fault h) (auth_clock h 0 s) user))) s"

definition recordTemporaryToken :: "AuthHandler \<Rightarrow> nat \<Rightarrow> string \<Rightarrow> string \<Rightarrow> nat \<Rightarrow> string \<Rightarrow> unit auth_request" where
  "recordTemporaryToken h user username action tokenID target = audited (au_audit h)
     \<lparr>aud_Action = action, aud_ResourceType = ''temporary_token'', aud_ResourceID = tokenID, aud_TargetName = target,
      aud_ActorType = ''user'', aud_ActorID = user, aud_ActorName = username, aud_Source = ''api'', aud_Outcome = ''succeeded'', aud_Reason = []\<rparr>"

text \<open>\<open>time.Duration(seconds) * time.Second\<close>, a product of 64-bit integers that wraps.\<close>

definition seconds64 :: "int \<Rightarrow> int" where
  "seconds64 n = (n * 1000000000 + 2 ^ 63) mod 2 ^ 64 - 2 ^ 63"

definition CreateTemporaryToken :: "AuthHandler \<Rightarrow> nat \<Rightarrow> string \<Rightarrow> (string \<times> int) option \<Rightarrow> CreatedTemporaryToken auth_request" where
  "CreateTemporaryToken h user username body s =
     (if \<not> au_temporaryTokens h then failP TemporaryUnavailable
      else case body of
        None \<Rightarrow> failP TemporaryBodyInvalid
      | Some (name, ttl) \<Rightarrow>
          bindP (failing_as TemporaryFailed (on_store (Create (au_fault h) (au_sha h) (au_random h (calls (sn_world s))) (auth_clock h 0 s) user name (seconds64 ttl)))) (\<lambda>item.
          bindP (recordTemporaryToken h user username ''auth.temporary_token.create'' (tv_ID (ct_View item)) (tv_Label (ct_View item))) (\<lambda>_. returnP item))) s"

definition RevokeTemporaryToken :: "AuthHandler \<Rightarrow> nat \<Rightarrow> string \<Rightarrow> string \<Rightarrow> nat auth_request" where
  "RevokeTemporaryToken h user username p s =
     (if \<not> au_temporaryTokens h then failP TemporaryUnavailable
      else case ParsePositiveID p of
        None \<Rightarrow> failP TemporaryIDInvalid
      | Some i \<Rightarrow>
          bindP (failing_as TemporaryFailed (on_store (Revoke (au_fault h) (auth_clock h 0 s) user i))) (\<lambda>_.
          bindP (recordTemporaryToken h user username ''auth.temporary_token.revoke'' i (utf8 ''e4b8b4e697b6e799bbe5bd95e587ade68dae'')) (\<lambda>_. returnP i))) s"

section \<open>Lemmas\<close>

lemma parse_signed:
  assumes "signPayload mac codec secret c = Inr token" and "enc_claims codec c = Some payload" and "dec_claims codec' payload = Some claims" and "unix now \<le> cl_Exp claims"
  shows "ParseToken mac codec' now secret token = Inr claims"
proof -
  obtain p m where p: "enc_claims codec c = Some p" and parts: "split_on CHR ''.'' token = [jwt_header, b64_encode p, b64_encode m]"
    and sig: "validSignature mac secret (split_on CHR ''.'' token)"
    by (rule signPayload_parts [OF assms(1)])
  then show ?thesis using assms(2-4) by (simp add: ParseToken_def Let_def b64.dec_enc)
qed

lemma token_not_empty: "signPayload mac codec secret c = Inr token \<Longrightarrow> token \<noteq> []"
  by (auto simp: signPayload_def Let_def split: option.splits)

lemma bearer_token [simp]: "bearer (''Bearer '' @ token) = Some token"
  by (simp add: bearer_def)

lemma guard_accepts:
  assumes "signPayload mac codec secret c = Inr token" and "enc_claims codec c = Some payload" and "dec_claims codec' payload = Some claims" and "unix now \<le> cl_Exp claims"
  shows "JWTAuthMiddleware mac codec' now secret (''Bearer '' @ token) query = Inr claims"
  using parse_signed [OF assms] token_not_empty [OF assms(1)] by (simp only: JWTAuthMiddleware_def bearer_token Let_def option.case sum.case if_False)

lemma audited_run: "audited logs e s = (Inr (), if logs then s\<lparr>sn_trace := sn_trace s @ [e]\<rparr> else s)"
  by (simp add: audited_def returnP_def ask_def Let_def)

lemma issue_tokens_Inr:
  assumes "issue_tokens h action i name s = (Inr (access, refresh), s')"
  shows "GenerateAccessToken (au_mac h) (au_codec h) (auth_clock h 1 s) (au_jwtSecret h) i name (au_accessTokenTTL h) = Inr access \<and>
     GenerateRefreshToken (au_mac h) (au_codec h) (auth_clock h 2 s) (au_jwtSecret h) i (au_refreshTokenTTL h) = Inr refresh \<and> sn_world s' = sn_world s"
  using assms by (auto simp: issue_tokens_def bindP_def failP_def returnP_def identity_record_def audited_run split: sum.splits if_splits)

section \<open>Properties\<close>

text \<open>
  C37. Tokens are handed out at login only for a stored user whose password hash matches the password of the
  request. The access token then passes the guard of the browser routes as that user until it expires, and the
  tables are unchanged.
\<close>

theorem login_grants:
  assumes "Login h body s = (Inr ((access, refresh), i, name), s')"
    and codec: "\<And>c payload. enc_claims (au_codec h) c = Some payload \<Longrightarrow> dec_claims (au_codec h) payload = Some c"
    and now: "now = au_now h (Suc (calls (sn_world s))) 1"
  shows "\<exists>password user. body = Some (name, password) \<and> user \<in> set (users (db (sn_world s))) \<and> us_ID user = i \<and> us_Username user = name \<and>
     au_CheckPassword h password (us_PasswordHash user) \<and> db (sn_world s') = db (sn_world s) \<and>
     (\<forall>t query. unix t \<le> unix (now + au_accessTokenTTL h) \<longrightarrow>
        JWTAuthMiddleware (au_mac h) (au_codec h) t (au_jwtSecret h) (''Bearer '' @ access) query =
          Inr \<lparr>cl_UserID = i, cl_Username = name, cl_Exp = unix (now + au_accessTokenTTL h), cl_Iat = unix now\<rparr>)"
proof -
  obtain username password where body: "body = Some (username, password)"
    using assms(1) by (cases body) (auto simp: Login_def failP_def)
  let ?read = "GetUserByUsername (au_fault h) username (sn_world s)"
  obtain user w where user: "?read = (Inr user, w)" and ok: "au_CheckPassword h password (us_PasswordHash user)"
    and issued: "issue_tokens h ''auth.login'' (us_ID user) (us_Username user) (s\<lparr>sn_world := w\<rparr>) = (Inr (access, refresh), s')"
    and ids: "i = us_ID user" "name = us_Username user"
    using assms(1) unfolding body
    by (cases ?read)
      (auto simp: Login_def tryP_def on_store_def bindP_def failP_def returnP_def identity_record_def audited_run split: if_splits sum.splits prod.splits)
  have row: "user \<in> set (users (db (sn_world s)))" "us_Username user = username" and same: "db w = db (sn_world s)" "calls w = Suc (calls (sn_world s))"
    using user by (auto simp: GetUserByUsername_def db_read_def db_call_def find_Some_iff in_set_conv_nth split: if_splits sum.splits)
  have "auth_clock h 1 (s\<lparr>sn_world := w\<rparr>) = now" by (simp add: auth_clock_def same now)
  with issue_tokens_Inr [OF issued] have access: "GenerateAccessToken (au_mac h) (au_codec h) now (au_jwtSecret h) i name (au_accessTokenTTL h) = Inr access"
    and world: "db (sn_world s') = db (sn_world s)" using ids same by auto
  let ?claims = "\<lparr>cl_UserID = i, cl_Username = name, cl_Exp = unix (now + au_accessTokenTTL h), cl_Iat = unix now\<rparr>"
  from access have signed: "signPayload (au_mac h) (au_codec h) (au_jwtSecret h) ?claims = Inr access"
    by (simp add: GenerateAccessToken_def signToken_def)
  then obtain payload where payload: "enc_claims (au_codec h) ?claims = Some payload" by (auto simp: signPayload_def split: option.splits)
  have "JWTAuthMiddleware (au_mac h) (au_codec h) t (au_jwtSecret h) (''Bearer '' @ access) query = Inr ?claims"
    if "unix t \<le> unix (now + au_accessTokenTTL h)" for t query
    by (rule guard_accepts [OF signed payload codec [OF payload]]) (use that in simp)
  with body row ids ok world show ?thesis by blast
qed


section \<open>A concrete handler\<close>

definition access_claims :: Claims where
  "access_claims = \<lparr>cl_UserID = 7, cl_Username = ''ops'', cl_Exp = 65, cl_Iat = 5\<rparr>"

definition refresh_claims :: Claims where
  "refresh_claims = \<lparr>cl_UserID = 7, cl_Username = [], cl_Exp = 105, cl_Iat = 5\<rparr>"

definition pair_codec :: "Claims claims_codec" where
  "pair_codec = \<lparr>enc_claims = (\<lambda>c. if c = access_claims then Some ''p'' else if c = refresh_claims then Some ''q'' else None),
     dec_claims = (\<lambda>p. if p = ''p'' then Some access_claims else if p = ''q'' then Some refresh_claims else None)\<rparr>"

definition auth_sample :: "Claims claims_codec \<Rightarrow> AuthHandler" where
  "auth_sample codec = \<lparr>au_fault = \<lambda>_. False, au_now = \<lambda>_ _. 5000000000, au_random = \<lambda>_. None, au_mac = demo_mac, au_codec = codec, au_sha = id,
     au_CheckPassword = (=), au_jwtSecret = ''key'', au_accessTokenTTL = 60000000000, au_refreshTokenTTL = 100000000000, au_temporaryTokens = True, au_audit = True\<rparr>"

definition auth_start :: auth_state where
  "auth_start = \<lparr>sn_world = \<lparr>db = \<lparr>users = [\<lparr>us_ID = 7, us_Username = ''ops'', us_PasswordHash = ''pw'', us_CreatedAt = 1, us_UpdatedAt = 1\<rparr>], tokens = []\<rparr>, calls = 0\<rparr>, sn_trace = []\<rparr>"

lemma pair_codec_inverse: "enc_claims pair_codec c = Some payload \<Longrightarrow> dec_claims pair_codec payload = Some c"
  by (auto simp: pair_codec_def split: if_splits)

lemma sample_login: "\<exists>access refresh s'. Login (auth_sample pair_codec) (Some (''ops'', ''pw'')) auth_start = (Inr ((access, refresh), 7, ''ops''), s')"
  by (simp add: Login_def tryP_def on_store_def GetUserByUsername_def db_read_def db_call_def auth_start_def auth_sample_def issue_tokens_def GenerateAccessToken_def
      GenerateRefreshToken_def signToken_def signPayload_def Let_def pair_codec_def access_claims_def refresh_claims_def unix_def auth_clock_def bindP_def returnP_def
      identity_record_def audited_run)

lemma login_grants_witness:
  "\<exists>access. JWTAuthMiddleware demo_mac pair_codec 5000000000 ''key'' (''Bearer '' @ access) [] = Inr access_claims"
proof -
  let ?h = "auth_sample pair_codec"
  obtain access refresh s' where run: "Login ?h (Some (''ops'', ''pw'')) auth_start = (Inr ((access, refresh), 7, ''ops''), s')"
    using sample_login by blast
  have inverse: "dec_claims (au_codec ?h) payload = Some c" if "enc_claims (au_codec ?h) c = Some payload" for c payload
    using pair_codec_inverse that by (simp add: auth_sample_def)
  have now: "5000000000 = au_now ?h (Suc (calls (sn_world auth_start))) 1" by (simp add: auth_sample_def)
  have "\<forall>t query. unix t \<le> unix (5000000000 + au_accessTokenTTL ?h) \<longrightarrow>
        JWTAuthMiddleware (au_mac ?h) (au_codec ?h) t (au_jwtSecret ?h) (''Bearer '' @ access) query =
          Inr \<lparr>cl_UserID = 7, cl_Username = ''ops'', cl_Exp = unix (5000000000 + au_accessTokenTTL ?h), cl_Iat = unix 5000000000\<rparr>"
    using login_grants [OF run inverse now] by blast
  from this [rule_format, of 5000000000 "[]"] show ?thesis
    by (auto simp: auth_sample_def unix_def access_claims_def)
qed

definition loose_codec :: "Claims claims_codec" where
  "loose_codec = \<lparr>enc_claims = (\<lambda>_. Some ''x''), dec_claims = (\<lambda>_. Some \<lparr>cl_UserID = 7, cl_Username = ''ops'', cl_Exp = 65, cl_Iat = 5\<rparr>)\<rparr>"


end
