(* ===== verification/Integration_Sessions.thy ===== *)
theory Integration_Sessions
  imports Auth_Requests Application_Store
begin

text \<open>
  Management sessions of external consoles and the delegations they obtain: \<open>store/integration_repository.go\<close>,
  \<open>integration_session_handler.go\<close>, and \<open>CreateDelegation\<close> of \<open>integration_application_handler.go\<close>. A signed-in user
  gets a handoff code for a protected console; the console exchanges it once for a session token, and the session
  token for short-lived delegation tokens.
\<close>

section \<open>Sessions\<close>

text \<open>A row without the column \<open>capability\<close>, which no code sets or reads, and without the times of creation and update.\<close>

record IntegrationSession =
  is_ID :: nat
  is_HandoffCodeHash :: string
  is_SessionTokenHash :: "string option"
  is_UserID :: nat
  is_ProjectID :: nat
  is_ApplicationID :: nat
  is_EnvironmentID :: nat
  is_ActionsData :: string
  is_HandoffExpiresAt :: int
  is_HandoffUsedAt :: "int option"
  is_ExpiresAt :: int
  is_RevokedAt :: "int option"

record integration_db =
  ig_workspace :: workspace_db
  ig_sessions :: "IntegrationSession list"
  ig_seq :: nat

type_synonym ('e, 'a) integration_proc = "(integration_db world, 'e, 'a) proc"

text \<open>The unique indices on the two hashes.\<close>

definition session_clash :: "IntegrationSession \<Rightarrow> IntegrationSession \<Rightarrow> bool" where
  "session_clash row x \<longleftrightarrow> is_HandoffCodeHash x = is_HandoffCodeHash row \<or> (is_SessionTokenHash row \<noteq> None \<and> is_SessionTokenHash x = is_SessionTokenHash row)"

definition CreateIntegrationSession :: "(nat \<Rightarrow> bool) \<Rightarrow> IntegrationSession \<Rightarrow> (db_error, IntegrationSession) integration_proc" where
  "CreateIntegrationSession fault session = db_call fault (\<lambda>d.
     let row = session\<lparr>is_ID := Suc (ig_seq d)\<rparr> in
     if list_ex (session_clash row) (ig_sessions d) then (Inl ErrConstraint, d)
     else (Inr row, d\<lparr>ig_sessions := ig_sessions d @ [row], ig_seq := is_ID row\<rparr>))"

definition exchangeable :: "string \<Rightarrow> int \<Rightarrow> IntegrationSession \<Rightarrow> bool" where
  "exchangeable handoffHash now x \<longleftrightarrow>
     is_HandoffCodeHash x = handoffHash \<and> is_HandoffUsedAt x = None \<and> is_RevokedAt x = None \<and> is_HandoffExpiresAt x > now"

definition exchanged :: "string \<Rightarrow> string \<Rightarrow> int \<Rightarrow> int \<Rightarrow> IntegrationSession \<Rightarrow> IntegrationSession" where
  "exchanged handoffHash sessionHash sessionExpiresAt now x =
     (if exchangeable handoffHash now x then x\<lparr>is_HandoffUsedAt := Some now, is_SessionTokenHash := Some sessionHash, is_ExpiresAt := sessionExpiresAt\<rparr> else x)"

text \<open>The number of rows the update changed; it fails when the token hash would not be unique.\<close>

definition exchange_rows :: "string \<Rightarrow> string \<Rightarrow> int \<Rightarrow> int \<Rightarrow> integration_db \<Rightarrow> (db_error + nat) \<times> integration_db" where
  "exchange_rows handoffHash sessionHash sessionExpiresAt now d =
     (let n = length (filter (exchangeable handoffHash now) (ig_sessions d)) in
      if n > 1 \<or> (n = 1 \<and> list_ex (\<lambda>x. is_SessionTokenHash x = Some sessionHash \<and> \<not> exchangeable handoffHash now x) (ig_sessions d)) then (Inl ErrConstraint, d)
      else (Inr n, d\<lparr>ig_sessions := map (exchanged handoffHash sessionHash sessionExpiresAt now) (ig_sessions d)\<rparr>))"

definition ExchangeIntegrationSession :: "(nat \<Rightarrow> bool) \<Rightarrow> string \<Rightarrow> string \<Rightarrow> int \<Rightarrow> int \<Rightarrow> (db_error, IntegrationSession) integration_proc" where
  "ExchangeIntegrationSession fault handoffHash sessionHash sessionExpiresAt now =
     transaction fault id (
       bindP (db_call fault (exchange_rows handoffHash sessionHash sessionExpiresAt now)) (\<lambda>n.
         if n \<noteq> 1 then failP ErrRecordNotFound
         else db_read fault (\<lambda>d. found (find (\<lambda>x. is_HandoffCodeHash x = handoffHash) (ig_sessions d)))))"

definition GetActiveIntegrationSession :: "(nat \<Rightarrow> bool) \<Rightarrow> string \<Rightarrow> int \<Rightarrow> (db_error, IntegrationSession) integration_proc" where
  "GetActiveIntegrationSession fault tokenHash now = db_read fault (\<lambda>d.
     found (find (\<lambda>x. is_SessionTokenHash x = Some tokenHash \<and> is_RevokedAt x = None \<and> is_ExpiresAt x > now) (ig_sessions d)))"

section \<open>The handler\<close>

text \<open>What the code reads of a parsed URL; the parser, the test for a loopback address and the printing are parameters.\<close>

record url_parts =
  ur_Scheme :: string
  ur_Host :: string
  ur_Hostname :: string
  ur_User :: bool

record IntegrationHandler =
  ih_fault :: "nat \<Rightarrow> bool"
  ih_now :: "nat \<Rightarrow> nat \<Rightarrow> int"
  ih_random :: "nat \<Rightarrow> nat \<Rightarrow> string option"
  ih_mac :: mac_fun
  ih_codec :: "DelegationClaims claims_codec"
  ih_sha :: "string \<Rightarrow> string"
  ih_delegationSecret :: string
  ih_audit :: bool
  ih_url_parse :: "string \<Rightarrow> url_parts option"
  ih_is_loopback :: "string \<Rightarrow> bool"
  ih_url_string :: "string \<Rightarrow> string"
  ih_with_code :: "string \<Rightarrow> string \<Rightarrow> string"

type_synonym integration_state = "(integration_db, audit_event) session"
type_synonym ('e, 'a) integration_request = "(integration_db, audit_event, 'e, 'a) session_proc"

datatype integration_refusal =
    IntegrationIDInvalid | IntegrationAppMissing | IntegrationBodyInvalid | IntegrationEndpointMissing | NotProtectedConsole | EndpointWithoutDomain | RedirectRefused
  | IntegrationRandom | IntegrationStore db_error | HandoffURLInvalid | CodeMissing | CodeRefused | SessionMissing | SessionRefused
  | CapabilityRequired | CapabilityInvalid | EnvironmentNotInAppProject | DelegationUnconfigured | DelegationNotIssued token_error

definition on_tables :: "('e, 'a) workspace_proc \<Rightarrow> ('e, 'a) integration_request" where
  "on_tables m = on_store (\<lambda>w. case m \<lparr>db = ig_workspace (db w), calls = calls w\<rparr> of (r, w') \<Rightarrow> (r, \<lparr>db = (db w)\<lparr>ig_workspace := db w'\<rparr>, calls = calls w'\<rparr>))"

definition integration_clock :: "IntegrationHandler \<Rightarrow> nat \<Rightarrow> integration_state \<Rightarrow> int" where
  "integration_clock h k s = ih_now h (calls (sn_world s)) k"

definition integrationHandoffTTL :: int where
  "integrationHandoffTTL = 60 * 1000000000"

definition integrationSessionTTL :: int where
  "integrationSessionTTL = 8 * 3600 * 1000000000"

definition randomOpaqueValue :: "IntegrationHandler \<Rightarrow> nat \<Rightarrow> integration_state \<Rightarrow> string option" where
  "randomOpaqueValue h n s = map_option b64_encode (ih_random h (calls (sn_world s)) n)"

definition opaqueHash :: "IntegrationHandler \<Rightarrow> string \<Rightarrow> string" where
  "opaqueHash h v = hex_encode (ih_sha h v)"

definition parseExternalLink :: "IntegrationHandler \<Rightarrow> string \<Rightarrow> url_parts option" where
  "parseExternalLink h raw =
     (case ih_url_parse h (TrimSpace raw) of
        None \<Rightarrow> None
      | Some u \<Rightarrow> if (ur_Scheme u \<noteq> ''http'' \<and> ur_Scheme u \<noteq> ''https'') \<or> ur_Host u = [] then None else Some u)"

definition parseLoopbackRedirectURL :: "IntegrationHandler \<Rightarrow> string \<Rightarrow> string option" where
  "parseLoopbackRedirectURL h raw =
     (case parseExternalLink h raw of
        None \<Rightarrow> None
      | Some u \<Rightarrow>
          if ur_User u then None
          else let host = TrimSuffix (ToLower (ur_Hostname u)) ''.'' in
            if host = ''localhost'' \<or> ih_is_loopback h host then Some (ih_url_string h (TrimSpace raw)) else None)"

definition appendHandoffCode :: "IntegrationHandler \<Rightarrow> string \<Rightarrow> string \<Rightarrow> string option" where
  "appendHandoffCode h raw code = map_option (\<lambda>_. ih_with_code h (TrimSpace raw) code) (parseExternalLink h raw)"

definition default_actions :: "string list" where
  "default_actions = [''application:read'', ''configmap:read'', ''configmap:write'', ''application:restart'']"

definition new_session :: "IntegrationHandler \<Rightarrow> nat \<Rightarrow> Application \<Rightarrow> string \<Rightarrow> int \<Rightarrow> IntegrationSession" where
  "new_session h user app code now =
     \<lparr>is_ID = 0, is_HandoffCodeHash = opaqueHash h code, is_SessionTokenHash = None, is_UserID = user, is_ProjectID = ap_ProjectID app,
      is_ApplicationID = ap_ID app, is_EnvironmentID = ap_EnvironmentID app, is_ActionsData = join_with '','' default_actions,
      is_HandoffExpiresAt = now + integrationHandoffTTL, is_HandoffUsedAt = None, is_ExpiresAt = now + integrationSessionTTL, is_RevokedAt = None\<rparr>"

definition integration_app :: "IntegrationHandler \<Rightarrow> string \<Rightarrow> (integration_refusal, Application) integration_request" where
  "integration_app h p =
     (case ParseUint64 p of
        None \<Rightarrow> failP IntegrationIDInvalid
      | Some i \<Rightarrow> failing_as (\<lambda>_. IntegrationAppMissing) (on_tables (read_application (ih_fault h) i)))"

text \<open>The address of a protected console, or the local one that was asked for.\<close>

definition console_url :: "IntegrationHandler \<Rightarrow> ApplicationEndpoint \<Rightarrow> string \<Rightarrow> integration_refusal + string" where
  "console_url h endpoint redirect =
     (if ae_AccessMode endpoint \<noteq> ''protected_console'' then Inl NotProtectedConsole
      else if ae_Domain endpoint = [] then Inl EndpointWithoutDomain
      else if TrimSpace redirect = [] then Inr ((if ae_TLSEnabled endpoint then ''https'' else ''http'') @ ''://'' @ ae_Domain endpoint @ ae_Path endpoint)
      else case parseLoopbackRedirectURL h redirect of None \<Rightarrow> Inl RedirectRefused | Some u \<Rightarrow> Inr u)"

definition open_session :: "IntegrationHandler \<Rightarrow> nat \<Rightarrow> Application \<Rightarrow> string \<Rightarrow> (integration_refusal, string \<times> string) integration_request" where
  "open_session h user app endpointURL s =
     (case randomOpaqueValue h 32 s of
        None \<Rightarrow> failP IntegrationRandom
      | Some code \<Rightarrow>
          bindP (failing_as IntegrationStore (on_store (CreateIntegrationSession (ih_fault h) (new_session h user app code (integration_clock h 0 s))))) (\<lambda>_.
            case appendHandoffCode h endpointURL code of None \<Rightarrow> failP HandoffURLInvalid | Some u \<Rightarrow> returnP (code, u))) s"

definition createIntegrationHandoff :: "IntegrationHandler \<Rightarrow> nat \<Rightarrow> string \<Rightarrow> (nat \<times> string) option \<Rightarrow> (integration_refusal, string \<times> string) integration_request" where
  "createIntegrationHandoff h user p body =
     bindP (integration_app h p) (\<lambda>app.
       case body of
         None \<Rightarrow> failP IntegrationBodyInvalid
       | Some (endpointID, redirect) \<Rightarrow>
           if endpointID = 0 then failP IntegrationBodyInvalid
           else bindP (failing_as (\<lambda>_. IntegrationEndpointMissing) (on_tables (GetApplicationEndpoint (ih_fault h) (ap_ID app) endpointID))) (\<lambda>endpoint.
             case console_url h endpoint redirect of Inl e \<Rightarrow> failP e | Inr u \<Rightarrow> open_session h user app u))"

definition bearerValue :: "string \<Rightarrow> string" where
  "bearerValue header = (case bearer header of None \<Rightarrow> [] | Some v \<Rightarrow> TrimSpace v)"

definition Handler_ExchangeIntegrationSession :: "IntegrationHandler \<Rightarrow> string \<Rightarrow> (integration_refusal, string \<times> int) integration_request" where
  "Handler_ExchangeIntegrationSession h header s =
     (let code = bearerValue header; now = integration_clock h 0 s in
      if code = [] then failP CodeMissing
      else case randomOpaqueValue h 48 s of
        None \<Rightarrow> failP IntegrationRandom
      | Some token \<Rightarrow>
          bindP (failing_as (\<lambda>_. CodeRefused) (on_store (ExchangeIntegrationSession (ih_fault h) (opaqueHash h code) (opaqueHash h token) (now + integrationSessionTTL) now))) (\<lambda>session.
            returnP (token, is_ExpiresAt session))) s"

definition session_claims :: "IntegrationSession \<Rightarrow> string \<Rightarrow> DelegationClaims" where
  "session_claims session capability =
     \<lparr>dc_Type = [], dc_Audience = [], dc_UserID = is_UserID session, dc_Username = [], dc_ProjectID = is_ProjectID session,
      dc_EnvironmentIDs = [is_EnvironmentID session], dc_ApplicationIDs = [], dc_Capability = capability,
      dc_Actions = split_on CHR '','' (is_ActionsData session), dc_JTI = [], dc_Exp = 0, dc_Iat = 0\<rparr>"

definition recordIntegrationDelegation :: "IntegrationHandler \<Rightarrow> IntegrationSession \<Rightarrow> string \<Rightarrow> ('e, unit) integration_request" where
  "recordIntegrationDelegation h session capability = audited (ih_audit h)
     \<lparr>aud_Action = ''application.delegation.create'', aud_ResourceType = ''application'', aud_ResourceID = is_ApplicationID session, aud_TargetName = [],
      aud_ActorType = ''user'', aud_ActorID = is_UserID session, aud_ActorName = [], aud_Source = ''delegation'', aud_Outcome = ''succeeded'', aud_Reason = capability\<rparr>"

definition issue_delegation :: "IntegrationHandler \<Rightarrow> DelegationClaims \<Rightarrow> (integration_refusal, string) integration_request" where
  "issue_delegation h claims s =
     (case GenerateDelegationToken (ih_mac h) (ih_codec h) (ih_random h (calls (sn_world s)) 16) (integration_clock h 1 s) (ih_delegationSecret h) claims MaxDelegationTTL of
        Inl e \<Rightarrow> failP (DelegationNotIssued e)
      | Inr token \<Rightarrow> returnP token) s"

definition active_session :: "IntegrationHandler \<Rightarrow> string \<Rightarrow> (integration_refusal, IntegrationSession) integration_request" where
  "active_session h token s = failing_as (\<lambda>_. SessionRefused) (on_store (GetActiveIntegrationSession (ih_fault h) (opaqueHash h token) (integration_clock h 0 s))) s"

definition createIntegrationDelegation :: "IntegrationHandler \<Rightarrow> string \<Rightarrow> string option \<Rightarrow> (integration_refusal, string) integration_request" where
  "createIntegrationDelegation h header body =
     (let token = bearerValue header in
      if token = [] then failP SessionMissing
      else bindP (active_session h token) (\<lambda>session.
        case body of
          None \<Rightarrow> failP CapabilityRequired
        | Some given \<Rightarrow>
            if TrimSpace given = [] then failP CapabilityRequired
            else case NormalizeApplicationCapabilities [given] of
              Inl _ \<Rightarrow> failP CapabilityInvalid
            | Inr capability \<Rightarrow>
                bindP (issue_delegation h (session_claims session (hd capability))) (\<lambda>delegation.
                bindP (recordIntegrationDelegation h session (hd capability)) (\<lambda>_. returnP delegation))))"

section \<open>Delegations of a signed-in user\<close>

record delegationRequest =
  dq_EnvironmentIDs :: "nat list"
  dq_Capability :: string
  dq_Actions :: "string list"

definition applicationHasCapability :: "Application \<Rightarrow> string \<Rightarrow> bool" where
  "applicationHasCapability app capability = list_ex (\<lambda>item. item = capability) (ap_Capabilities app)"

fun environments_of_project :: "IntegrationHandler \<Rightarrow> nat \<Rightarrow> nat list \<Rightarrow> (integration_refusal, unit) integration_request" where
  "environments_of_project h project [] = returnP ()"
| "environments_of_project h project (i # ids) =
     bindP (failing_as (\<lambda>_. EnvironmentNotInAppProject) (on_tables (GetEnvironment (ih_fault h) project i))) (\<lambda>environment.
       if en_ProjectID environment \<noteq> project then failP EnvironmentNotInAppProject else environments_of_project h project ids)"

definition user_claims :: "nat \<Rightarrow> string \<Rightarrow> Application \<Rightarrow> nat list \<Rightarrow> string \<Rightarrow> string list \<Rightarrow> DelegationClaims" where
  "user_claims user username app environments capability actions =
     \<lparr>dc_Type = [], dc_Audience = [], dc_UserID = user, dc_Username = username, dc_ProjectID = ap_ProjectID app, dc_EnvironmentIDs = environments,
      dc_ApplicationIDs = [ap_ID app], dc_Capability = capability, dc_Actions = actions, dc_JTI = [], dc_Exp = 0, dc_Iat = 0\<rparr>"

definition CreateDelegation :: "IntegrationHandler \<Rightarrow> nat \<Rightarrow> string \<Rightarrow> string \<Rightarrow> delegationRequest option \<Rightarrow> (integration_refusal, string) integration_request" where
  "CreateDelegation h user username p body =
     bindP (integration_app h p) (\<lambda>app.
       case body of
         None \<Rightarrow> failP IntegrationBodyInvalid
       | Some req \<Rightarrow>
           if TrimSpace (dq_Capability req) = [] then failP CapabilityRequired
           else case NormalizeApplicationCapabilities [dq_Capability req] of
             Inl _ \<Rightarrow> failP CapabilityInvalid
           | Inr normalized \<Rightarrow>
               if \<not> applicationHasCapability app (hd normalized) then failP CapabilityInvalid
               else
                 let environments = (if dq_EnvironmentIDs req = [] then [ap_EnvironmentID app] else dq_EnvironmentIDs req);
                     actions = (if dq_Actions req = [] then default_actions else dq_Actions req) in
                 bindP (environments_of_project h (ap_ProjectID app) environments) (\<lambda>_.
                   if ih_delegationSecret h = [] then failP DelegationUnconfigured
                   else issue_delegation h (user_claims user username app environments (hd normalized) actions)))"

section \<open>Handoff codes are used once\<close>

definition sessions_wf :: "integration_db \<Rightarrow> bool" where
  "sessions_wf d \<longleftrightarrow> distinct (map is_HandoffCodeHash (ig_sessions d))"

definition used_hash :: "string \<Rightarrow> integration_db \<Rightarrow> bool" where
  "used_hash hash d = list_ex (\<lambda>x. is_HandoffCodeHash x = hash \<and> is_HandoffUsedAt x \<noteq> None) (ig_sessions d)"

definition sessions_evolve :: "integration_db \<Rightarrow> integration_db \<Rightarrow> bool" where
  "sessions_evolve d d' \<longleftrightarrow> (sessions_wf d \<longrightarrow> sessions_wf d' \<and> (\<forall>hash. used_hash hash d \<longrightarrow> used_hash hash d'))"

interpretation ss: data_evolution sessions_evolve
  by unfold_locales (auto simp: sessions_evolve_def)

lemma exchanged_fields [simp]:
  "is_HandoffCodeHash (exchanged hh sh e now x) = is_HandoffCodeHash x"
  "is_HandoffUsedAt (exchanged hh sh e now x) = (if exchangeable hh now x then Some now else is_HandoffUsedAt x)"
  by (simp_all add: exchanged_def)

lemma create_session_keeps: "keeps sessions_evolve (CreateIntegrationSession fault row)"
  unfolding CreateIntegrationSession_def
  by (rule ss.keeps_call) (auto simp: Let_def sessions_evolve_def sessions_wf_def used_hash_def list_ex_iff session_clash_def image_iff)

lemma exchange_rows_keeps: "sessions_evolve d (snd (exchange_rows hh sh e now d))"
proof -
  let ?rows = "map (exchanged hh sh e now) (ig_sessions d)"
  have "map is_HandoffCodeHash ?rows = map is_HandoffCodeHash (ig_sessions d)" by simp
  moreover have "used_hash hash (d\<lparr>ig_sessions := ?rows\<rparr>)" if "used_hash hash d" for hash
    using that by (auto simp: used_hash_def list_ex_iff)
  ultimately have "sessions_evolve d (d\<lparr>ig_sessions := ?rows\<rparr>)"
    unfolding sessions_evolve_def sessions_wf_def by (metis integration_db.select_convs(2) integration_db.surjective integration_db.update_convs(2))
  then show ?thesis by (simp add: exchange_rows_def Let_def ss.refl)
qed

lemma exchange_keeps: "keeps sessions_evolve (ExchangeIntegrationSession fault hh sh e now)"
  unfolding ExchangeIntegrationSession_def
  by (intro ss.keeps_transaction ss.keeps_bindP ss.keeps_call ss.keeps_if ss.keeps_failP ss.keeps_read exchange_rows_keeps)

lemma tables_only: "only A sessions_evolve (on_tables m)"
  unfolding on_tables_def
  by (rule ss.only_on_store) (auto simp: keeps_def sessions_evolve_def sessions_wf_def used_hash_def split: prod.splits)

lemma audited_only: "only (\<lambda>_. True) sessions_evolve (audited logs e)"
  unfolding audited_def by (intro ss.only_if ss.only_returnP ss.only_ask) simp

lemma integration_app_only: "only (\<lambda>_. True) sessions_evolve (integration_app h p)"
  unfolding integration_app_def by (intro ss.only_intros tables_only)

lemma open_session_only: "only (\<lambda>_. True) sessions_evolve (open_session h user app u)"
proof -
  have "only (\<lambda>_. True) sessions_evolve (case code of None \<Rightarrow> failP IntegrationRandom | Some code \<Rightarrow>
          bindP (failing_as IntegrationStore (on_store (CreateIntegrationSession (ih_fault h) (new_session h user app code now)))) (\<lambda>_.
            case appendHandoffCode h u code of None \<Rightarrow> failP HandoffURLInvalid | Some u \<Rightarrow> returnP (code, u)))" for code now
    by (intro ss.only_intros ss.only_on_store create_session_keeps)
  then show ?thesis unfolding only_def open_session_def by blast
qed

lemma handoff_only: "only (\<lambda>_. True) sessions_evolve (createIntegrationHandoff h user p body)"
  unfolding createIntegrationHandoff_def
  by (intro ss.only_bindP ss.only_option ss.only_failP integration_app_only)
    (auto intro!: ss.only_failP ss.only_bindP ss.only_failing_as tables_only ss.only_sum open_session_only)

lemma exchange_only: "only (\<lambda>_. True) sessions_evolve (Handler_ExchangeIntegrationSession h header)"
proof -
  have "only (\<lambda>_. True) sessions_evolve (if code = [] then failP CodeMissing else case token of None \<Rightarrow> failP IntegrationRandom | Some token \<Rightarrow>
          bindP (failing_as (\<lambda>_. CodeRefused) (on_store (ExchangeIntegrationSession (ih_fault h) (opaqueHash h code) (opaqueHash h token) (now + integrationSessionTTL) now))) (\<lambda>session.
            returnP (token, is_ExpiresAt session)))" for code token now
    by (intro ss.only_intros ss.only_on_store exchange_keeps)
  then show ?thesis unfolding only_def Handler_ExchangeIntegrationSession_def Let_def by blast
qed

lemma issue_only: "only (\<lambda>_. True) sessions_evolve (issue_delegation h claims)"
proof -
  have "only (\<lambda>_. True) sessions_evolve (case r of Inl e \<Rightarrow> failP (DelegationNotIssued e) | Inr token \<Rightarrow> returnP token)" for r :: "token_error + string"
    by (intro ss.only_intros)
  then show ?thesis unfolding only_def issue_delegation_def by blast
qed

lemma active_only: "only (\<lambda>_. True) sessions_evolve (active_session h token)"
proof -
  have "only (\<lambda>_. True) sessions_evolve (failing_as (\<lambda>_. SessionRefused) (on_store (GetActiveIntegrationSession (ih_fault h) (opaqueHash h token) now)))" for now
    unfolding GetActiveIntegrationSession_def by (intro ss.only_intros ss.only_on_store ss.keeps_read)
  then show ?thesis unfolding only_def active_session_def by blast
qed

lemma session_delegation_only: "only (\<lambda>_. True) sessions_evolve (createIntegrationDelegation h header body)"
  unfolding createIntegrationDelegation_def Let_def recordIntegrationDelegation_def
  by (intro ss.only_intros active_only issue_only audited_only)

lemma environments_only: "only (\<lambda>_. True) sessions_evolve (environments_of_project h project ids)"
proof (induction ids)
  case (Cons i ids)
  then show ?case unfolding environments_of_project.simps by (intro ss.only_bindP ss.only_failing_as tables_only ss.only_if ss.only_failP)
qed (simp add: ss.only_returnP)

lemma user_delegation_only: "only (\<lambda>_. True) sessions_evolve (CreateDelegation h user username p body)"
  unfolding CreateDelegation_def Let_def
  by (intro ss.only_intros integration_app_only environments_only issue_only)

text \<open>Requests about sessions and delegations in any order.\<close>

inductive session_reach :: "integration_db \<Rightarrow> integration_db \<Rightarrow> bool" where
  session_start: "session_reach d d"
| session_handoff: "session_reach d (db (sn_world s)) \<Longrightarrow> session_reach d (db (sn_world (snd (createIntegrationHandoff h user p body s))))"
| session_exchange: "session_reach d (db (sn_world s)) \<Longrightarrow> session_reach d (db (sn_world (snd (Handler_ExchangeIntegrationSession h header s))))"
| session_delegate: "session_reach d (db (sn_world s)) \<Longrightarrow> session_reach d (db (sn_world (snd (createIntegrationDelegation h header body s))))"
| user_delegate: "session_reach d (db (sn_world s)) \<Longrightarrow> session_reach d (db (sn_world (snd (CreateDelegation h user username p req s))))"

lemma only_step: "only A R m \<Longrightarrow> R (db (sn_world s)) (db (sn_world (snd (m s))))"
  unfolding only_def by blast

lemma session_reach_evolves: "session_reach d d' \<Longrightarrow> sessions_evolve d d'"
proof (induction rule: session_reach.induct)
  case (session_start d)
  show ?case by (rule ss.refl)
next
  case (session_handoff d s h user p body)
  then show ?case using only_step [OF handoff_only] ss.trans by blast
next
  case (session_exchange d s h header)
  then show ?case using only_step [OF exchange_only] ss.trans by blast
next
  case (session_delegate d s h header body)
  then show ?case using only_step [OF session_delegation_only] ss.trans by blast
next
  case (user_delegate d s h user username p req)
  then show ?case using only_step [OF user_delegation_only] ss.trans by blast
qed

lemma exchange_succeeds:
  assumes "ExchangeIntegrationSession fault hh sh e now w = (Inr x, w')"
  shows "used_hash hh (db w')" and "\<exists>row \<in> set (ig_sessions (db w)). exchangeable hh now row"
proof -
  obtain w1 w2 where w1: "db w1 = db w" and body: "bindP (db_call fault (exchange_rows hh sh e now)) (\<lambda>n.
         if n \<noteq> 1 then failP ErrRecordNotFound
         else db_read fault (\<lambda>d. found (find (\<lambda>x. is_HandoffCodeHash x = hh) (ig_sessions d)))) w1 = (Inr x, w2)" and w2: "db w' = db w2"
    using assms unfolding ExchangeIntegrationSession_def by (rule transaction_Inr)
  from body w1 have one: "length (filter (exchangeable hh now) (ig_sessions (db w))) = 1"
    and rows: "ig_sessions (db w2) = map (exchanged hh sh e now) (ig_sessions (db w))"
    by (auto simp: bindP_def db_call_def db_read_def failP_def exchange_rows_def Let_def split: if_splits sum.splits prod.splits)
  from one obtain row where "filter (exchangeable hh now) (ig_sessions (db w)) = [row]" by (metis One_nat_def length_0_conv length_Suc_conv)
  then have "set (filter (exchangeable hh now) (ig_sessions (db w))) = {row}" by simp
  then have row: "row \<in> set (ig_sessions (db w))" "exchangeable hh now row" by auto
  then show "\<exists>row \<in> set (ig_sessions (db w)). exchangeable hh now row" by blast
  show "used_hash hh (db w')"
    using row by (auto simp: used_hash_def w2 rows list_ex_iff exchangeable_def intro!: bexI [of _ row])
qed

lemma exchange_refused:
  assumes "used_hash hh (db w)" and "sessions_wf (db w)"
  shows "\<exists>err. fst (ExchangeIntegrationSession fault hh sh e now w) = Inl err"
proof (rule ccontr)
  assume "\<nexists>err. fst (ExchangeIntegrationSession fault hh sh e now w) = Inl err"
  then obtain x w' where "ExchangeIntegrationSession fault hh sh e now w = (Inr x, w')"
    by (metis prod.collapse sum.exhaust)
  from exchange_succeeds(2) [OF this] obtain row where row: "row \<in> set (ig_sessions (db w))" "exchangeable hh now row" by blast
  from assms(1) obtain x where "x \<in> set (ig_sessions (db w))" "is_HandoffCodeHash x = hh" "is_HandoffUsedAt x \<noteq> None"
    by (auto simp: used_hash_def list_ex_iff)
  moreover have "x = row" using calculation row assms(2) by (auto simp: sessions_wf_def exchangeable_def distinct_map inj_on_def)
  ultimately show False using row(2) by (simp add: exchangeable_def)
qed

text \<open>
  C39. A handoff code is good for one exchange: it succeeds only while the code is unused and not older than its
  lifetime, and whatever requests about sessions and delegations follow, by whomever, the same code is refused.
\<close>

theorem handoff_used_once:
  assumes first: "Handler_ExchangeIntegrationSession h header s = (Inr (token, expires), s1)" and wf: "sessions_wf (db (sn_world s))"
    and later: "session_reach (db (sn_world s1)) (db (sn_world s2))"
    and same: "ih_sha h2 = ih_sha h" "bearerValue header2 = bearerValue header"
  shows "(\<exists>row \<in> set (ig_sessions (db (sn_world s))). is_HandoffCodeHash row = opaqueHash h (bearerValue header) \<and> is_HandoffUsedAt row = None \<and>
       integration_clock h 0 s < is_HandoffExpiresAt row) \<and>
     (\<exists>e. fst (Handler_ExchangeIntegrationSession h2 header2 s2) = Inl e)"
proof -
  let ?hash = "opaqueHash h (bearerValue header)" and ?now = "integration_clock h 0 s"
  obtain t x w where run: "ExchangeIntegrationSession (ih_fault h) ?hash (opaqueHash h t) (?now + integrationSessionTTL) ?now (sn_world s) = (Inr x, w)"
    and world: "sn_world s1 = w"
    using first by (auto simp: Handler_ExchangeIntegrationSession_def Let_def bindP_def failing_as_def tryP_def on_store_def failP_def returnP_def
        split: if_splits option.splits sum.splits prod.splits)
  have "sessions_evolve (db (sn_world s)) (db (sn_world s1))" using only_step [OF exchange_only, of s h header] first by simp
  with wf have wf1: "sessions_wf (db (sn_world s1))" by (simp add: sessions_evolve_def)
  with exchange_succeeds(1) [OF run] session_reach_evolves [OF later] have used: "used_hash ?hash (db (sn_world s2))" "sessions_wf (db (sn_world s2))"
    by (simp_all add: world sessions_evolve_def)
  have "opaqueHash h2 (bearerValue header2) = ?hash" by (simp add: opaqueHash_def same)
  with exchange_refused [OF used] have "\<exists>e. fst (Handler_ExchangeIntegrationSession h2 header2 s2) = Inl e"
    by (auto simp: Handler_ExchangeIntegrationSession_def Let_def bindP_def failing_as_def tryP_def on_store_def failP_def returnP_def
        split: option.splits sum.splits prod.splits) (metis fst_conv sum.distinct(1))+
  moreover from exchange_succeeds(2) [OF run] have "\<exists>row \<in> set (ig_sessions (db (sn_world s))). is_HandoffCodeHash row = ?hash \<and> is_HandoffUsedAt row = None \<and> ?now < is_HandoffExpiresAt row"
    by (auto simp: exchangeable_def)
  ultimately show ?thesis by blast
qed

section \<open>What a session may delegate\<close>

lemma parse_issued:
  assumes "GenerateDelegationToken mac codec random now secret claims ttl = Inr token"
    and codec: "\<And>c payload. enc_claims codec c = Some payload \<Longrightarrow> dec_claims codec payload = Some c"
    and "now \<le> t" and "unix t < unix (now + effective_ttl ttl)"
  shows "\<exists>jti. ParseDelegationToken mac codec t t secret token = Inr (issued_claims claims jti now ttl)"
proof -
  obtain jti where signed: "signPayload mac codec secret (issued_claims claims jti now ttl) = Inr token"
    and valid: "claims_valid (issued_claims claims jti now ttl) now"
    using assms(1) by (rule GenerateDelegationToken_cases)
  have exp: "dc_Exp (issued_claims claims jti now ttl) = unix (now + effective_ttl ttl)" by (simp add: issued_claims_def)
  have "claims_valid (issued_claims claims jti now ttl) t" by (rule claims_valid_later [OF valid assms(3)]) (simp add: exp assms(4))
  moreover obtain p m where "enc_claims codec (issued_claims claims jti now ttl) = Some p" "split_on CHR ''.'' token = [jwt_header, b64_encode p, b64_encode m]"
    "validSignature mac secret (split_on CHR ''.'' token)"
    using signed by (rule signPayload_parts)
  ultimately show ?thesis using assms(4) exp by (auto simp: ParseDelegationToken_def Let_def codec b64.dec_enc intro!: exI [of _ jti])
qed

lemma session_scope:
  "AllowsEnvironment (issued_claims (session_claims row capability) jti now ttl) i \<longleftrightarrow> is_EnvironmentID row = 0 \<or> i = is_EnvironmentID row"
  "AllowsApplication (issued_claims (session_claims row capability) jti now ttl) i"
  "Allows (issued_claims (session_claims row capability) jti now ttl) a \<longleftrightarrow> a \<noteq> [] \<and> a \<in> TrimSpace ` set (split_on CHR '','' (is_ActionsData row))"
proof -
  show "AllowsEnvironment (issued_claims (session_claims row capability) jti now ttl) i \<longleftrightarrow> is_EnvironmentID row = 0 \<or> i = is_EnvironmentID row"
    unfolding AllowsEnvironment_def issued_ids scope_member by (auto simp: session_claims_def)
  show "AllowsApplication (issued_claims (session_claims row capability) jti now ttl) i"
    unfolding AllowsApplication_def issued_ids scope_member by (auto simp: session_claims_def)
  show "Allows (issued_claims (session_claims row capability) jti now ttl) a \<longleftrightarrow> a \<noteq> [] \<and> a \<in> TrimSpace ` set (split_on CHR '','' (is_ActionsData row))"
    unfolding Allows_def issued_ids list_ex_iff normalizedDelegationActions_set by (auto simp: session_claims_def)
qed


section \<open>A concrete console\<close>

definition sample_workspace_tables :: workspace_db where
  "sample_workspace_tables = \<lparr>rd_apps = [], rd_releases = [], rd_operations = [], rd_logs = [], rd_endpoints = [], rd_templates = [],
     rd_files = [], rd_registries = [], rd_mirrors = [], rd_trace = [], wd_projects = [], wd_environments = [], wd_namespace_index = True, wd_seq = \<lambda>_. 0\<rparr>"

definition sample_console_session :: IntegrationSession where
  "sample_console_session = \<lparr>is_ID = 1, is_HandoffCodeHash = hex_encode ''code'', is_SessionTokenHash = Some (hex_encode ''open''), is_UserID = 7, is_ProjectID = 3, is_ApplicationID = 11,
     is_EnvironmentID = 5, is_ActionsData = ''application:read'', is_HandoffExpiresAt = 9000000000, is_HandoffUsedAt = None, is_ExpiresAt = 9000000000, is_RevokedAt = None\<rparr>"

definition sample_console_claims :: DelegationClaims where
  "sample_console_claims = issued_claims (session_claims sample_console_session ''web'') (hex_encode ''r'') 5000000000 MaxDelegationTTL"

definition sample_console :: IntegrationHandler where
  "sample_console = \<lparr>ih_fault = \<lambda>_. False, ih_now = \<lambda>_ _. 5000000000, ih_random = \<lambda>_ _. Some ''r'', ih_mac = demo_mac,
     ih_codec = \<lparr>enc_claims = (\<lambda>c. if c = sample_console_claims then Some ''p'' else None), dec_claims = (\<lambda>_. Some sample_console_claims)\<rparr>,
     ih_sha = id, ih_delegationSecret = ''key'', ih_audit = True, ih_url_parse = \<lambda>_. None, ih_is_loopback = \<lambda>_. False, ih_url_string = id, ih_with_code = \<lambda>u _. u\<rparr>"

definition sample_console_state :: integration_state where
  "sample_console_state = \<lparr>sn_world = \<lparr>db = \<lparr>ig_workspace = sample_workspace_tables, ig_sessions = [sample_console_session], ig_seq = 1\<rparr>, calls = 0\<rparr>, sn_trace = []\<rparr>"

lemma sample_exchange: "fst (Handler_ExchangeIntegrationSession sample_console ''Bearer code'' sample_console_state) = Inr (''cg'', 28805000000000)"
  by code_simp

lemma handoff_used_once_witness:
  "\<exists>s1 e. Handler_ExchangeIntegrationSession sample_console ''Bearer code'' sample_console_state = (Inr (''cg'', 28805000000000), s1) \<and>
     fst (Handler_ExchangeIntegrationSession sample_console ''Bearer code'' s1) = Inl e"
proof -
  obtain s1 where run: "Handler_ExchangeIntegrationSession sample_console ''Bearer code'' sample_console_state = (Inr (''cg'', 28805000000000), s1)"
    using sample_exchange by (metis prod.collapse)
  have "sessions_wf (db (sn_world sample_console_state))" by (simp add: sessions_wf_def sample_console_state_def)
  from handoff_used_once [OF run this session_start refl refl] run show ?thesis by blast
qed

lemma sample_delegated: "\<exists>token s'. createIntegrationDelegation sample_console ''Bearer open'' (Some ''web'') sample_console_state = (Inr token, s')"
proof -
  have "bearerValue ''Bearer open'' = ''open''" "TrimSpace ''web'' = ''web''" "NormalizeApplicationCapabilities [''web''] = Inr [''web'']" by code_simp+
  moreover have "claims_valid sample_console_claims 5000000000" by code_simp
  ultimately show ?thesis
    by (simp add: createIntegrationDelegation_def active_session_def GetActiveIntegrationSession_def db_read_def db_call_def bindP_def failing_as_def tryP_def on_store_def returnP_def
        recordIntegrationDelegation_def audited_run issue_delegation_def integration_clock_def GenerateDelegationToken_def newDelegationID_def Let_def signPayload_def
        sample_console_claims_def sample_console_def sample_console_state_def opaqueHash_def)
      (simp add: sample_console_session_def session_claims_def)
qed


end
