(* ===== verification/Spec2Isabelle.thy ===== *)
theory Spec2Isabelle
  imports Auth_Temporary Platform_Release Application_Store Kubernetes_Applier Storage_Backup Network_Credentials Workspace_Integrity Integration_Sessions
begin

text \<open>
  Verification of cylism-manager, a manager for applications on a K3s cluster: it authenticates users
  and agents, keeps projects, environments, applications and deployment templates in a database, turns
  templates into releases, renders these into Kubernetes objects, applies them and watches them, and
  updates itself.

  \<^bold>\<open>Parts and theories\<close> (paths under \<open>src/internal\<close>).

  \<^item> \<open>Go_Prelude\<close>, \<open>Go_Path\<close>, \<open>Go_Base64\<close>, \<open>Go_Store\<close>, \<open>Go_Triples\<close>: what the code uses of Go's standard
    library, of GORM and of SQLite. Strings are byte lists, times are integers of nanoseconds, \<open>uint\<close> keys
    are natural numbers, a procedure maps a state to an error or a value and the next state. A table is a
    list of rows. Which database calls fail is a parameter \<open>fault\<close> over the number of the call, so that a
    theorem about all \<open>fault\<close> covers every pattern of failures.
  \<^item> \<open>Auth_Tokens\<close> (\<open>service/auth/jwt.go\<close>, \<open>delegation.go\<close>), \<open>Auth_Temporary\<close> (\<open>service/auth/service.go\<close>,
    \<open>store/auth_repository.go\<close>), \<open>Security_Crypto\<close> (\<open>security\<close>): tokens, temporary logins, encryption.
  \<^item> \<open>Platform_Release\<close> (\<open>service/platform\<close>, \<open>store/platform_repository.go\<close>, \<open>k8s/platform.go\<close>, the update
    handlers): the self-update with its webhook, releases and reconciliation.
  \<^item> \<open>Application_Model\<close>, \<open>Application_Store\<close> (\<open>model/application.go\<close>, \<open>store/application_repository.go\<close>,
    \<open>application_release_repository.go\<close>, \<open>schema_backfill.go\<close>, \<open>service/application/workload.go\<close>): the workspace.
  \<^item> \<open>Release_Spec\<close>, \<open>Release_Validation\<close>, \<open>Release_Rendering\<close>, \<open>Release_Execution\<close>, \<open>Release_Workflow\<close>
    (\<open>service/application/release_*.go\<close>), \<open>Registry_Rules\<close> (\<open>service/registry\<close>): the release pipeline.
  \<^item> \<open>Kubernetes_Adapter\<close> (\<open>k8s/application.go\<close>), \<open>Kubernetes_Diagnostics\<close>, \<open>Kubernetes_Applier\<close>
    (\<open>service/application/kubernetes_applier.go\<close>): what a release does to the cluster. The API server is a
    parameter that answers each call from the calls before it; theorems about every such server cover
    every behaviour of the cluster and of its other clients.
  \<^item> \<open>Storage_Paths\<close>, \<open>Storage_Model\<close>, \<open>Storage_Cluster\<close>, \<open>Storage_Claims\<close> (\<open>service/storage\<close>, \<open>k8s/pvc.go\<close>,
    \<open>transport/ssh.go\<close>, \<open>store/infrastructure_repository.go\<close>, \<open>api/infrastructure/storage\<close>): paths, tables, the
    cluster and the remote shell, and the requests about claims. The state is the database and the trace of
    calls; API server, ssh and the piped copy answer from the trace.
  \<^item> \<open>Storage_Migration\<close>, \<open>Storage_Tasks\<close> (\<open>pvc_migration_handler.go\<close>), \<open>Storage_Import\<close>, \<open>Storage_Import_Safety\<close>
    (\<open>pvc_import_handler.go\<close>), \<open>Storage_Backup\<close> (\<open>pvc_backup_handler.go\<close>): the tasks that move the data of a
    volume. Each run is a chain of stages; what it may do is a policy, a predicate on the calls so far and
    the next call, and the theorems say that no pattern of failures makes a run break its policy.
  \<^item> \<open>Go_Calls\<close>: sessions that use the database and call another system, with rules for steps that only add
    calls of one kind. \<open>Network_Model\<close> (\<open>model/network.go\<close>, \<open>store/infrastructure_repository.go\<close>),
    \<open>Network_Objects\<close>, \<open>Network_Cluster\<close> (\<open>k8s/certificate_resources.go\<close>, \<open>cert_manager_component.go\<close>, \<open>dns.go\<close>),
    \<open>Network_Domains\<close>, \<open>Network_Domain_Safety\<close> (\<open>service/network/service.go\<close>,
    \<open>api/infrastructure/network/domain_handler.go\<close>): the tables, the objects of cert-manager as trees of fields, the
    calls about them, and managed domains. The theorems follow a request from the rows before it to the rows and
    calls after it. \<open>Network_Credentials\<close> (\<open>cert_handler.go\<close>): the requests about certificates, issuers and DNS
    credentials, whose values are kept encrypted in the row and in the clear in a Secret.
  \<^item> \<open>Workspace_Requests\<close> (\<open>api/application/project_handler.go\<close>, \<open>environment_handler.go\<close>,
    \<open>application_handler.go\<close>, \<open>endpoint_handler.go\<close>): the requests about projects, environments, applications and
    endpoints, over the tables of the workspace and of the domains together. \<open>Workspace_Integrity\<close> composes them
    with the requests about domains: the references between the tables hold after any sequence of requests,
    whatever the cluster answers and whichever database calls fail.
  \<^item> \<open>Auth_Requests\<close> (\<open>api/auth\<close>): the guards of the routes and the requests about signing in, refreshing and
    temporary tokens; the audit log is the trace. \<open>Integration_Sessions\<close> (\<open>store/integration_repository.go\<close>,
    \<open>integration_session_handler.go\<close>, \<open>CreateDelegation\<close>): a user gets a handoff code for a console, which exchanges
    it once for a session, and the session for short-lived delegations.

  \<^bold>\<open>Interfaces.\<close> \<open>row_table\<close> (tables), \<open>text_codec\<close> (encodings), \<open>data_evolution\<close> (frame conditions of
  procedures), \<open>endpoint_hook\<close> (what the release runner asks of the endpoint synchronisation),
  \<open>trace_property\<close> (properties of call traces), \<open>event_policy\<close> and its extension \<open>scaling_policy\<close> (what a
  storage task may do), each interpreted on the definitions of the model.

  \<^bold>\<open>Lemma groups.\<close> Each component theory has its invariants and their preservation by every operation,
  then its properties, named \<open>C1\<close>, \<open>C2\<close> and so on, with witnesses on concrete data.

  \<^bold>\<open>Bounds.\<close> Waiting loops run for the number of ticks of their timeout (readiness timeout in seconds, 120
  for the stop of old pods, 180 for the binding of a claim, 90 for the stop and 120 for the readiness of a
  volume's workload), because each pass waits for one tick of a one-second ticker; revisions and
  keys are below \<open>2 ^ 64\<close> and increments wrap there.

  \<^bold>\<open>Parameters.\<close> HMAC, SHA-256, AES-GCM, random bytes, JSON coding of claims, the validation functions and
  quantities of the Kubernetes library, the API server, the image reference parser.

  \<^bold>\<open>Not modelled.\<close> Password hashing (a call of bcrypt, a parameter of the login), the regular expressions of \<open>Redact\<close>, image
  verification against a registry, the conversion of rows to views and of refusals to HTTP status codes, the
  handlers of templates, releases, registries, servers and agents, which hand their requests to other systems
  or to the modelled services, the installation of cert-manager from a chart repository, the remaining
  Kubernetes adapters, the agent runtimes, alerting, logging and monitoring, bootstrap and command line.
\<close>

section \<open>Changing the workload kind of a released application\<close>

text \<open>
  The applier as the migrator of \<^const>\<open>UpdateKind\<close>: a call runs on a cluster as it answers from then
  on, and an error is its text.
\<close>

definition kubernetes_migrator :: "KubernetesApplier \<Rightarrow> (applier_error \<Rightarrow> string) \<Rightarrow> WorkloadMigrator" where
  "kubernetes_migrator a describe =
     \<lparr>wm_Preflight = (\<lambda>_ cx spec. case fst (Applier_Preflight a cx spec []) of Inl e \<Rightarrow> Some (describe e) | Inr _ \<Rightarrow> None),
      wm_MigrateWorkloadKind = (\<lambda>_ cx spec target. case fst (MigrateWorkloadKind a cx spec target []) of Inl e \<Rightarrow> Some (describe e) | Inr _ \<Rightarrow> None)\<rparr>"

text \<open>
  The context that \<open>UpdateKind\<close> builds has no names of the project and the environment, so with the
  applier of the platform the change never succeeds once there is a successful release.
\<close>

lemma released_kind_change_fails:
  assumes "newest_success (db w) (ap_ID app) = Some release"
    and "effective_kind (applicationContextFor app) \<noteq> target" and "ap_WorkloadKind app \<noteq> target"
  shows "fst (UpdateKind fault now (Some (kubernetes_migrator a describe)) (Some app) target w) \<noteq> Inr ()"
proof -
  let ?cx = "(applicationContextFor app)\<lparr>cx_ReleaseSequence := rl_Sequence release\<rparr>"
  have nameless: "cx_ProjectName ?cx = []" by (simp add: applicationContextFor_def)
  have kind: "effective_kind ?cx \<noteq> target" using assms(2) by (simp add: effective_kind_def split: if_splits)
  have fails: "wm_MigrateWorkloadKind (kubernetes_migrator a describe) evs ?cx spec target \<noteq> None" for evs spec
    using nameless_migration_fails [OF nameless kind, of a spec "[]"]
    by (cases "fst (MigrateWorkloadKind a ?cx spec target [])") (simp_all add: kubernetes_migrator_def)
  obtain q w1 where l: "on_releases (GetLatestSuccessfulRelease fault (ap_ID app)) w = (q, w1)"
    by (cases "on_releases (GetLatestSuccessfulRelease fault (ap_ID app)) w")
  then have q: "q = Inl ErrDatabase \<or> q = Inr release" using on_releases_latest [OF l] assms(1) by auto
  show ?thesis using l q assms(3) by (auto simp: UpdateKind_def Let_def fails split: option.splits)
qed

end
